(* ===== verification/Prelude.thy ===== *)
theory Prelude
  imports Main "HOL-Library.Word"
begin

unbundle bit_operations_syntax

section \<open>Prelude: errors, machine integers and the generic lemmas\<close>

text \<open>
  What every component of the kernel shares.

  \<^item> Results. A kernel routine returns \<open>AxResult<T>\<close>, and some routines can also panic
    (\<open>assert!\<close>, \<open>unwrap\<close>, slice indexing). Both are values of \<open>'a outcome\<close>: \<open>Ok x\<close>,
    \<open>Fail e\<close> for \<open>Err(e)\<close>, and \<open>Panicked\<close>. Routines that change state return the state
    beside the outcome, so that what an error path has already changed stays visible.
  \<^item> Integers. Flag sets are words. Byte counts and addresses (\<open>usize\<close>) are naturals;
    where the source's operation can leave the 64-bit range the wrap-around of a release
    build is written out (\<open>uadd\<close>, \<open>usub\<close>). Signed values (\<open>i32\<close>, \<open>i64\<close>) are integers,
    with \<open>wrap_i32\<close> and \<open>wrap_i64\<close> for the two's complement wrap.
  \<^item> The lemma collections \<open>ax_defs\<close> and \<open>ax_splits\<close>-style bundles used by the components.
\<close>

named_theorems ax_defs \<open>unfolding of the small model definitions\<close>

subsection \<open>Errors and outcomes\<close>

datatype linux_error =
    ENOSPC | ENOENT | EACCES | EIDRM | EEXIST | EINVAL | EAGAIN | ENOMSG | E2BIG | EPERM
  | EOWNERDEAD | ECHILD | EINTR | ESRCH | ETIMEDOUT | EFAULT | ENXIO | ENOSYS
  | EAFNOSUPPORT | EPROTONOSUPPORT | ESOCKTNOSUPPORT | ENOPROTOOPT

datatype ax_error =
    InvalidInput | BadFileDescriptor | WouldBlock | AlreadyExists | NotFound | NoMemory
  | BadAddress | TooManyOpenFiles | OperationNotPermitted | OperationNotSupported
  | NoSuchProcess | NoSuchDevice | NotATty | BrokenPipe | ResourceBusy | Unsupported
  | IsADirectory | NotADirectory | DirectoryNotEmpty | Interrupted | TimedOut | NoSuchFile
  | FilesystemLoop | IllegalBytes | InProgress | InvalidData | InvalidExecutable | NotASocket | OutOfRange
  | PermissionDenied | ReadOnlyFilesystem | StorageFull
  | LinuxErr linux_error

datatype stop = Err ax_error | Panic

type_synonym 'a outcome = "stop + 'a"

abbreviation Ok :: "'a \<Rightarrow> 'a outcome" where
  "Ok x \<equiv> Inr x"

abbreviation Fail :: "ax_error \<Rightarrow> 'a outcome" where
  "Fail e \<equiv> Inl (Err e)"

abbreviation Panicked :: "'a outcome" where
  "Panicked \<equiv> Inl Panic"

text \<open>The source's \<open>.ok_or(e)?\<close>.\<close>

definition ok_or :: "'a option \<Rightarrow> ax_error \<Rightarrow> 'a outcome" where
  "ok_or x e = (case x of None \<Rightarrow> Fail e | Some v \<Rightarrow> Ok v)"

lemma ok_or_simps [simp]:
  "ok_or None e = Fail e"
  "ok_or (Some v) e = Ok v"
  by (simp_all add: ok_or_def)

text \<open>The source's \<open>?\<close>: go on with the value, or return the error in the state reached.\<close>

definition try_do :: "'s \<times> 'a outcome \<Rightarrow> ('a \<Rightarrow> 's \<Rightarrow> 's \<times> 'b outcome) \<Rightarrow> 's \<times> 'b outcome" where
  "try_do p k = (case p of (s, Inl e) \<Rightarrow> (s, Inl e) | (s, Inr v) \<Rightarrow> k v s)"

definition try_get :: "'a outcome \<Rightarrow> 's \<Rightarrow> ('a \<Rightarrow> 's \<times> 'b outcome) \<Rightarrow> 's \<times> 'b outcome" where
  "try_get r s k = (case r of Inl e \<Rightarrow> (s, Inl e) | Inr v \<Rightarrow> k v)"

lemma try_do_simps [simp]:
  "try_do (s, Inl e) k = (s, Inl e)"
  "try_do (s, Inr v) k = k v s"
  by (simp_all add: try_do_def)

lemma try_get_simps [simp]:
  "try_get (Inl e) s k = (s, Inl e)"
  "try_get (Inr v) s k = k v"
  by (simp_all add: try_get_def)

subsection \<open>Machine integers\<close>

type_synonym u8 = "8 word"
type_synonym u16 = "16 word"
type_synonym u32 = "32 word"
type_synonym u64 = "64 word"
type_synonym usize = nat
type_synonym i32 = int
type_synonym i64 = int
type_synonym addr = nat
type_synonym pid = nat

definition wrap_i32 :: "int \<Rightarrow> int" where
  "wrap_i32 x = (x + 2 ^ 31) mod 2 ^ 32 - 2 ^ 31"

definition wrap_i64 :: "int \<Rightarrow> int" where
  "wrap_i64 x = (x + 2 ^ 63) mod 2 ^ 64 - 2 ^ 63"

definition uadd :: "nat \<Rightarrow> nat \<Rightarrow> nat" where
  "uadd a b = (a + b) mod 2 ^ 64"

definition usub :: "nat \<Rightarrow> nat \<Rightarrow> nat" where
  "usub a b = (if b \<le> a then a - b else a + 2 ^ 64 - b)"

definition umul :: "nat \<Rightarrow> nat \<Rightarrow> nat" where
  "umul a b = (a * b) mod 2 ^ 64"

definition is_i32 :: "int \<Rightarrow> bool" where
  "is_i32 x \<longleftrightarrow> - (2 ^ 31) \<le> x \<and> x < 2 ^ 31"

definition is_i64 :: "int \<Rightarrow> bool" where
  "is_i64 x \<longleftrightarrow> - (2 ^ 63) \<le> x \<and> x < 2 ^ 63"

definition is_usize :: "nat \<Rightarrow> bool" where
  "is_usize n \<longleftrightarrow> n < 2 ^ 64"

lemma wrap_i32_range: "is_i32 (wrap_i32 x)"
  by (auto simp: is_i32_def wrap_i32_def)

lemma wrap_i32_id: "is_i32 x \<Longrightarrow> wrap_i32 x = x"
  by (simp add: is_i32_def wrap_i32_def)

lemma wrap_i64_range: "is_i64 (wrap_i64 x)"
  by (auto simp: is_i64_def wrap_i64_def)

lemma wrap_i64_id: "is_i64 x \<Longrightarrow> wrap_i64 x = x"
  by (simp add: is_i64_def wrap_i64_def)

lemma uadd_exact: "a + b < 2 ^ 64 \<Longrightarrow> uadd a b = a + b"
  by (simp add: uadd_def)

lemma umul_exact: "a * b < 2 ^ 64 \<Longrightarrow> umul a b = a * b"
  by (simp add: umul_def)

lemma usub_exact [simp]: "b \<le> a \<Longrightarrow> usub a b = a - b"
  by (simp add: usub_def)

text \<open>The \<open>contains\<close> of a flag set: every bit of \<open>m\<close> is set in \<open>f\<close>.\<close>

definition has_flags :: "'a::len word \<Rightarrow> 'a word \<Rightarrow> bool" where
  "has_flags f m \<longleftrightarrow> f AND m = m"

text \<open>The \<open>flags & m != 0\<close> test.\<close>

definition any_flag :: "'a::len word \<Rightarrow> 'a word \<Rightarrow> bool" where
  "any_flag f m \<longleftrightarrow> f AND m \<noteq> 0"

subsection \<open>Pages\<close>

text \<open>
  The page size, and the access rights of a mapping (\<open>MappingFlags\<close> of the crate \<open>axhal\<close>).
  The page rounding of the crate \<open>memory_addr\<close> is a parameter of the definitions that use it;
  \<open>rounds_up\<close> and \<open>rounds_down\<close> are its documented behaviour.
\<close>

abbreviation PAGE_SIZE_4K :: nat where
  "PAGE_SIZE_4K \<equiv> 4096"

record mapping_flags =
  mf_read :: bool
  mf_write :: bool
  mf_execute :: bool
  mf_user :: bool

definition rounds_up :: "nat \<Rightarrow> (nat \<Rightarrow> nat) \<Rightarrow> bool" where
  "rounds_up sz f \<longleftrightarrow> (\<forall>a. a + sz \<le> 2 ^ 64 \<longrightarrow> a \<le> f a \<and> f a < a + sz \<and> sz dvd f a)"

definition rounds_down :: "nat \<Rightarrow> (nat \<Rightarrow> nat) \<Rightarrow> bool" where
  "rounds_down sz f \<longleftrightarrow> (\<forall>a. f a \<le> a \<and> a < f a + sz \<and> sz dvd f a)"

subsection \<open>Options, lists\<close>

lemma sum_list_map_remove_nth:
  fixes f :: "'a \<Rightarrow> nat"
  assumes "i < length xs"
  shows "sum_list (map f (take i xs @ drop (Suc i) xs)) + f (xs ! i) = sum_list (map f xs)"
proof -
  from assms have "xs = take i xs @ xs ! i # drop (Suc i) xs"
    by (rule id_take_nth_drop)
  then have "sum_list (map f xs) = sum_list (map f (take i xs @ xs ! i # drop (Suc i) xs))"
    by simp
  then show ?thesis by simp
qed

lemma length_remove_nth:
  "i < length xs \<Longrightarrow> length (take i xs @ drop (Suc i) xs) = length xs - 1"
  by simp

lemma filter_fst_neq_map_of:
  "map_of (filter (\<lambda>p. fst p \<noteq> k) m) = (map_of m)(k := None)"
proof
  fix x
  show "map_of (filter (\<lambda>p. fst p \<noteq> k) m) x = ((map_of m)(k := None)) x"
    by (induction m) auto
qed

end
