(* ===== verification/BTree.thy ===== *)
theory BTree
  imports Prelude
begin

section \<open>Ordered maps (\<open>BTreeMap\<close>) and the key-value contract\<close>

text \<open>
  The System V IPC managers keep their tables in \<open>BTreeMap\<close>s and iterate over them in key
  order. A map is an association list with strictly increasing keys (\<open>bt_ok\<close>); the
  operations below are the ones the kernel calls: \<open>get\<close>, \<open>insert\<close>, \<open>remove\<close>, \<open>retain\<close>,
  \<open>keys\<close>, \<open>values\<close>, \<open>len\<close>, \<open>contains_key\<close>.

  The contract is the locale \<open>kv_map\<close>; its laws are discharged for this representation
  by the interpretation \<open>bt\<close>, and the components use the facts \<open>bt.\<dots>\<close>.
\<close>

type_synonym ('k, 'v) btree = "('k \<times> 'v) list"

definition bt_get :: "('k, 'v) btree \<Rightarrow> 'k \<Rightarrow> 'v option" where
  "bt_get m k = map_of m k"

fun bt_insert :: "'k::linorder \<Rightarrow> 'v \<Rightarrow> ('k, 'v) btree \<Rightarrow> ('k, 'v) btree" where
  "bt_insert k v [] = [(k, v)]"
| "bt_insert k v (p # m) =
     (if fst p = k then (k, v) # m
      else if fst p < k then p # bt_insert k v m
      else (k, v) # p # m)"

definition bt_remove :: "'k \<Rightarrow> ('k, 'v) btree \<Rightarrow> ('k, 'v) btree" where
  "bt_remove k m = filter (\<lambda>p. fst p \<noteq> k) m"

definition bt_retain :: "('k \<Rightarrow> 'v \<Rightarrow> bool) \<Rightarrow> ('k, 'v) btree \<Rightarrow> ('k, 'v) btree" where
  "bt_retain P m = filter (\<lambda>p. P (fst p) (snd p)) m"

definition bt_keys :: "('k, 'v) btree \<Rightarrow> 'k list" where
  "bt_keys m = map fst m"

definition bt_values :: "('k, 'v) btree \<Rightarrow> 'v list" where
  "bt_values m = map snd m"

definition bt_ok :: "('k::linorder, 'v) btree \<Rightarrow> bool" where
  "bt_ok m \<longleftrightarrow> sorted_wrt (<) (map fst m)"

subsection \<open>The contract\<close>

locale kv_map =
  fixes emp :: 'm
    and look :: "'m \<Rightarrow> 'k \<Rightarrow> 'v option"
    and ins :: "'k \<Rightarrow> 'v \<Rightarrow> 'm \<Rightarrow> 'm"
    and del :: "'k \<Rightarrow> 'm \<Rightarrow> 'm"
    and inv :: "'m \<Rightarrow> bool"
  assumes look_emp: "look emp k = None"
    and look_ins: "inv m \<Longrightarrow> look (ins k v m) k' = (if k' = k then Some v else look m k')"
    and look_del: "inv m \<Longrightarrow> look (del k m) k' = (if k' = k then None else look m k')"
    and inv_emp: "inv emp"
    and inv_ins: "inv m \<Longrightarrow> inv (ins k v m)"
    and inv_del: "inv m \<Longrightarrow> inv (del k m)"
begin

lemma look_del_ins:
  "inv m \<Longrightarrow> look m k = None \<Longrightarrow> look (del k (ins k v m)) k' = look m k'"
  by (simp add: look_del look_ins inv_ins)

lemma look_ins_ins:
  "inv m \<Longrightarrow> look (ins k w (ins k v m)) k' = look (ins k w m) k'"
  by (simp add: look_ins inv_ins)

lemma dom_ins: "inv m \<Longrightarrow> dom (look (ins k v m)) = insert k (dom (look m))"
  by (auto simp: look_ins dom_def)

lemma dom_del: "inv m \<Longrightarrow> dom (look (del k m)) = dom (look m) - {k}"
  by (auto simp: look_del dom_def)

end

subsection \<open>The ordered association list meets the contract\<close>

lemma bt_insert_keys: "set (map fst (bt_insert k v m)) = insert k (set (map fst m))"
  by (induction m) auto

lemma bt_insert_ok: "bt_ok m \<Longrightarrow> bt_ok (bt_insert k v m)"
proof (induction m)
  case Nil
  then show ?case by (simp add: bt_ok_def)
next
  case (Cons p m)
  have keys: "fst ` set (bt_insert k v m) = insert k (fst ` set m)"
    using bt_insert_keys [of k v m] by simp
  from Cons.prems have "bt_ok m" by (simp add: bt_ok_def)
  with Cons.IH have IH: "bt_ok (bt_insert k v m)" .
  show ?case
  proof (cases "fst p" k rule: linorder_cases)
    case less
    with Cons.prems IH keys show ?thesis
      by (auto simp: bt_ok_def)
  next
    case equal
    with Cons.prems show ?thesis by (auto simp: bt_ok_def)
  next
    case greater
    with Cons.prems show ?thesis by (fastforce simp: bt_ok_def)
  qed
qed

lemma bt_ok_filter: "bt_ok m \<Longrightarrow> bt_ok (filter P m)"
  by (induction m) (auto simp: bt_ok_def)

lemma bt_get_insert_any:
  "bt_ok m \<Longrightarrow> bt_get (bt_insert k v m) k' = (if k' = k then Some v else bt_get m k')"
proof (induction m)
  case Nil
  then show ?case by (simp add: bt_get_def)
next
  case (Cons p m)
  then have "bt_ok m" by (simp add: bt_ok_def)
  then have IH: "bt_get (bt_insert k v m) k' = (if k' = k then Some v else bt_get m k')"
    by (rule Cons.IH)
  from Cons.prems show ?case
    using IH by (cases p) (auto simp: bt_get_def)
qed

interpretation bt: kv_map "[]" bt_get bt_insert bt_remove bt_ok
proof
  fix m :: "('a, 'b) btree" and k k' :: 'a and v :: 'b
  show "bt_get [] k = None" by (simp add: bt_get_def)
  show "bt_ok ([] :: ('a, 'b) btree)" by (simp add: bt_ok_def)
  assume ok: "bt_ok m"
  then show "bt_get (bt_insert k v m) k' = (if k' = k then Some v else bt_get m k')"
    by (rule bt_get_insert_any)
  show "bt_get (bt_remove k m) k' = (if k' = k then None else bt_get m k')"
    by (simp add: bt_get_def bt_remove_def filter_fst_neq_map_of)
  from ok show "bt_ok (bt_insert k v m)" by (rule bt_insert_ok)
  from ok show "bt_ok (bt_remove k m)"
    unfolding bt_remove_def by (rule bt_ok_filter)
qed

lemmas bt_simps [simp] = bt.look_emp bt.look_ins bt.look_del bt.inv_emp bt.inv_ins bt.inv_del

lemma bt_retain_ok [simp]: "bt_ok m \<Longrightarrow> bt_ok (bt_retain P m)"
  unfolding bt_retain_def by (rule bt_ok_filter)

lemma bt_get_in_set: "bt_get m k = Some v \<Longrightarrow> (k, v) \<in> set m"
  by (simp add: bt_get_def map_of_SomeD)

lemma bt_ok_distinct: "bt_ok m \<Longrightarrow> distinct (map fst m)"
  unfolding bt_ok_def by (simp add: strict_sorted_iff)

lemma bt_set_get: "bt_ok m \<Longrightarrow> (k, v) \<in> set m \<longleftrightarrow> bt_get m k = Some v"
  by (simp add: bt_get_def bt_ok_distinct)

lemma bt_get_retain:
  assumes "bt_ok m"
  shows "bt_get (bt_retain P m) k =
    (case bt_get m k of None \<Rightarrow> None | Some v \<Rightarrow> if P k v then Some v else None)"
proof -
  have ok: "bt_ok (bt_retain P m)" using assms by simp
  have mem: "(k, v) \<in> set (bt_retain P m) \<longleftrightarrow> bt_get m k = Some v \<and> P k v" for v
    using assms by (auto simp: bt_retain_def bt_set_get)
  show ?thesis
  proof (cases "bt_get (bt_retain P m) k")
    case None
    then have "(k, v) \<notin> set (bt_retain P m)" for v
      using ok by (simp add: bt_set_get)
    with mem None show ?thesis by (auto split: option.split)
  next
    case (Some v)
    then have "bt_get m k = Some v \<and> P k v"
      using ok mem [of v] by (simp add: bt_set_get)
    with Some show ?thesis by simp
  qed
qed

lemma bt_keys_iff: "k \<in> set (bt_keys m) \<longleftrightarrow> bt_get m k \<noteq> None"
  by (auto simp: bt_keys_def bt_get_def map_of_eq_None_iff)

lemma bt_insert_fresh_length:
  "bt_get m k = None \<Longrightarrow> length (bt_insert k v m) = Suc (length m)"
  by (induction m) (auto simp: bt_get_def split: if_splits)

lemma bt_insert_old_length:
  "bt_ok m \<Longrightarrow> bt_get m k = Some w \<Longrightarrow> length (bt_insert k v m) = length m"
proof (induction m)
  case Nil
  then show ?case by (simp add: bt_get_def)
next
  case (Cons p m)
  then have ok: "bt_ok m" by (simp add: bt_ok_def)
  have "\<not> k < fst p" if "fst p \<noteq> k"
  proof
    assume "k < fst p"
    from Cons.prems(2) that have "(k, w) \<in> set m"
      by (cases p) (auto simp: bt_get_def dest: map_of_SomeD)
    then have "k \<in> fst ` set m" by force
    with Cons.prems(1) have "fst p < k" by (auto simp: bt_ok_def)
    with \<open>k < fst p\<close> show False by simp
  qed
  with Cons ok show ?case
    by (cases p) (auto simp: bt_get_def not_less_iff_gr_or_eq)
qed

lemma bt_remove_length:
  "bt_ok m \<Longrightarrow> bt_get m k = Some v \<Longrightarrow> Suc (length (bt_remove k m)) = length m"
proof (induction m)
  case Nil
  then show ?case by (simp add: bt_get_def)
next
  case (Cons p m)
  then have ok: "bt_ok m" by (simp add: bt_ok_def)
  show ?case
  proof (cases "fst p = k")
    case True
    with Cons.prems(1) have "k \<notin> fst ` set m" by (auto simp: bt_ok_def)
    then have "filter (\<lambda>p. fst p \<noteq> k) m = m" by (force simp: filter_id_conv)
    with True show ?thesis by (simp add: bt_remove_def)
  next
    case False
    with Cons ok show ?thesis
      by (cases p) (auto simp: bt_get_def bt_remove_def)
  qed
qed

lemma bt_remove_absent: "bt_get m k = None \<Longrightarrow> bt_remove k m = m"
  by (force simp: bt_get_def bt_remove_def map_of_eq_None_iff filter_id_conv)

lemma bt_empty_iff: "m = [] \<longleftrightarrow> (\<forall>k. bt_get m k = None)"
  by (cases m) (auto simp: bt_get_def)

subsection \<open>Sums over the values\<close>

text \<open>
  Statistics of a table (bytes queued, messages queued) are sums over its values; an
  update of one entry changes the sum by that entry only.
\<close>

definition bt_sum :: "('v \<Rightarrow> nat) \<Rightarrow> ('k, 'v) btree \<Rightarrow> nat" where
  "bt_sum f m = sum_list (map (\<lambda>p. f (snd p)) m)"

lemma bt_sum_Nil [simp]: "bt_sum f [] = 0"
  by (simp add: bt_sum_def)

lemma bt_sum_insert:
  "bt_ok m \<Longrightarrow> bt_sum f (bt_insert k v m) + (case bt_get m k of None \<Rightarrow> 0 | Some w \<Rightarrow> f w)
     = bt_sum f m + f v"
proof (induction m)
  case Nil
  then show ?case by (simp add: bt_sum_def bt_get_def)
next
  case (Cons p m)
  then have ok: "bt_ok m" by (simp add: bt_ok_def)
  show ?case
  proof (cases "k < fst p")
    case True
    with Cons.prems have "k \<notin> fst ` set m" by (auto simp: bt_ok_def)
    then have "map_of m k = None" by (simp add: map_of_eq_None_iff)
    with True show ?thesis
      by (cases p) (auto simp: bt_sum_def bt_get_def)
  next
    case False
    with Cons.IH [OF ok] show ?thesis
      by (cases p) (auto simp: bt_sum_def bt_get_def)
  qed
qed

lemma bt_sum_remove:
  "bt_ok m \<Longrightarrow> bt_sum f (bt_remove k m) + (case bt_get m k of None \<Rightarrow> 0 | Some w \<Rightarrow> f w)
     = bt_sum f m"
proof (induction m)
  case Nil
  then show ?case by (simp add: bt_sum_def bt_get_def bt_remove_def)
next
  case (Cons p m)
  then have ok: "bt_ok m" by (simp add: bt_ok_def)
  show ?case
  proof (cases "fst p = k")
    case True
    with Cons.prems have "k \<notin> fst ` set m" by (auto simp: bt_ok_def)
    then have "filter (\<lambda>p. fst p \<noteq> k) m = m" by (force simp: filter_id_conv)
    with True show ?thesis
      by (cases p) (auto simp: bt_sum_def bt_get_def bt_remove_def)
  next
    case False
    with Cons.IH [OF ok] show ?thesis
      by (cases p) (auto simp: bt_sum_def bt_get_def bt_remove_def)
  qed
qed

text \<open>
  The "remove the entry when its list became empty" update: the sum drops by what the
  list lost.
\<close>

lemma bt_sum_shrink:
  assumes ok: "bt_ok m" and old: "bt_get m k = Some w"
    and f: "f ns + c = f w" and nil: "f [] = 0"
  shows "bt_sum f (if ns = [] then bt_remove k m else bt_insert k ns m) + c = bt_sum f m"
proof (cases "ns = []")
  case True
  with bt_sum_remove [OF ok, of f k] old f nil show ?thesis by simp
next
  case False
  with bt_sum_insert [OF ok, of f k ns] old f show ?thesis by simp
qed

subsection \<open>Properties of all entries\<close>

lemma bt_all:
  assumes "bt_ok m"
  shows "list_all (\<lambda>(k, v). P k v) m \<longleftrightarrow> (\<forall>k v. bt_get m k = Some v \<longrightarrow> P k v)"
  using assms bt_set_get [OF assms] by (fastforce simp: list_all_iff)

lemma bt_insert_same: "bt_ok m \<Longrightarrow> bt_get m k = Some v \<Longrightarrow> bt_insert k v m = m"
proof (induction m)
  case Nil
  then show ?case by (simp add: bt_get_def)
next
  case (Cons p m)
  then have ok: "bt_ok m" by (simp add: bt_ok_def)
  obtain a b where p: "p = (a, b)" by (cases p)
  show ?case
  proof (cases "a = k")
    case True
    with Cons.prems(2) p show ?thesis by (simp add: bt_get_def)
  next
    case False
    with Cons.prems(2) p have get: "bt_get m k = Some v" by (simp add: bt_get_def)
    then have "k \<in> fst ` set m" using bt_get_in_set by force
    with Cons.prems(1) p have "a < k" by (auto simp: bt_ok_def)
    with p Cons.IH [OF ok get] show ?thesis by auto
  qed
qed

lemma bt_remove_insert_fresh:
  "bt_get m k = None \<Longrightarrow> bt_remove k (bt_insert k v m) = m"
proof (induction m)
  case Nil
  then show ?case by (simp add: bt_remove_def)
next
  case (Cons p m)
  from Cons.prems have "fst p \<noteq> k" and tail: "bt_get m k = None"
    by (cases p; simp add: bt_get_def split: if_splits)+
  moreover have "bt_remove k m = m" using tail by (rule bt_remove_absent)
  ultimately show ?case
    using Cons.IH [OF tail] by (auto simp: bt_remove_def)
qed

end
