(* ===== verification/Ipc.thy ===== *)
theory Ipc
  imports BTree
begin

section \<open>System V IPC: identifiers and permissions\<close>

text \<open>
  \<open>api/src/syscall/ipc/mod.rs\<close> and \<open>IpcPerm\<close> of \<open>core/src/shm.rs\<close>: the identifier
  counter shared by message queues and shared memory, the command constants and the
  permission check. User and group ids come from \<open>sys_getuid\<close>/\<open>sys_getgid\<close>, which
  return the constant 0 at this commit (\<open>api/src/syscall/sys.rs\<close>); the system calls of
  the IPC components take the two ids as arguments, so that their permission branches
  are covered too.
\<close>

definition sys_getuid :: "int outcome" where
  "sys_getuid = Ok 0"

definition sys_getgid :: "int outcome" where
  "sys_getgid = Ok 0"

record ipc_perm =
  perm_key :: i32
  perm_uid :: u32
  perm_gid :: u32
  perm_cuid :: u32
  perm_cgid :: u32
  perm_mode :: u32
  perm_seq :: u16
  perm_pad :: u16
  perm_unused0 :: i64
  perm_unused1 :: i64

subsection \<open>Identifiers\<close>

text \<open>\<open>IPC_ID.fetch_add(1)\<close> returns the old value; the atomic wraps at the \<open>i32\<close> range.\<close>

definition next_ipc_id :: "i32 \<Rightarrow> i32 \<times> i32" where
  "next_ipc_id ipc_id = (ipc_id, wrap_i32 (ipc_id + 1))"

lemma next_ipc_id_fresh:
  assumes "is_i32 n" and "n < 2 ^ 31 - 1"
  shows "next_ipc_id n = (n, n + 1)"
  using assms by (simp add: next_ipc_id_def wrap_i32_def is_i32_def)

subsection \<open>Constants\<close>

definition IPC_PRIVATE :: i32 where "IPC_PRIVATE = 0"
definition IPC_CREAT :: u32 where "IPC_CREAT = 0x200"
definition IPC_EXCL :: u32 where "IPC_EXCL = 0x400"
definition IPC_RMID :: i32 where "IPC_RMID = 0"
definition IPC_SET :: i32 where "IPC_SET = 1"
definition IPC_STAT :: i32 where "IPC_STAT = 2"
definition IPC_INFO :: i32 where "IPC_INFO = 3"
definition MSG_STAT :: i32 where "MSG_STAT = 11"
definition MSG_INFO :: i32 where "MSG_INFO = 12"

definition USER_READ :: u32 where "USER_READ = 0x100"
definition USER_WRITE :: u32 where "USER_WRITE = 0x80"
definition GROUP_READ :: u32 where "GROUP_READ = 0x20"
definition GROUP_WRITE :: u32 where "GROUP_WRITE = 0x10"
definition OTHER_READ :: u32 where "OTHER_READ = 0x4"
definition OTHER_WRITE :: u32 where "OTHER_WRITE = 0x2"

lemmas ipc_cmds = IPC_RMID_def IPC_SET_def IPC_STAT_def IPC_INFO_def MSG_STAT_def MSG_INFO_def

subsection \<open>The permission check\<close>

definition has_ipc_permission :: "ipc_perm \<Rightarrow> u32 \<Rightarrow> u32 \<Rightarrow> bool \<Rightarrow> bool" where
  "has_ipc_permission perm current_uid current_gid is_write =
     (if current_uid = 0 then True
      else if perm_uid perm = current_uid then
        any_flag (perm_mode perm) (if is_write then USER_WRITE else USER_READ)
      else if perm_gid perm = current_gid then
        any_flag (perm_mode perm) (if is_write then GROUP_WRITE else GROUP_READ)
      else any_flag (perm_mode perm) (if is_write then OTHER_WRITE else OTHER_READ))"

text \<open>
  The nine permission bits as classes: who the caller is decides one class, and only that
  class's bit is consulted.
\<close>

datatype ipc_class = Root | Owner | Group | Other

definition ipc_class_of :: "ipc_perm \<Rightarrow> u32 \<Rightarrow> u32 \<Rightarrow> ipc_class" where
  "ipc_class_of perm uid gid =
     (if uid = 0 then Root else if perm_uid perm = uid then Owner
      else if perm_gid perm = gid then Group else Other)"

fun class_bit :: "ipc_class \<Rightarrow> bool \<Rightarrow> nat" where
  "class_bit Root w = 0"
| "class_bit Owner w = (if w then 7 else 8)"
| "class_bit Group w = (if w then 4 else 5)"
| "class_bit Other w = (if w then 1 else 2)"

lemma any_flag_exp: "any_flag m (2 ^ n) \<longleftrightarrow> bit m n"
  by (simp add: any_flag_def and_exp_eq_0_iff_not_bit)

lemma perm_bits:
  "any_flag m USER_READ \<longleftrightarrow> bit m 8" "any_flag m USER_WRITE \<longleftrightarrow> bit m 7"
  "any_flag m GROUP_READ \<longleftrightarrow> bit m 5" "any_flag m GROUP_WRITE \<longleftrightarrow> bit m 4"
  "any_flag m OTHER_READ \<longleftrightarrow> bit m 2" "any_flag m OTHER_WRITE \<longleftrightarrow> bit m 1"
  using any_flag_exp [of m 8] any_flag_exp [of m 7] any_flag_exp [of m 5]
    any_flag_exp [of m 4] any_flag_exp [of m 2] any_flag_exp [of m 1]
  by (simp_all add: USER_READ_def USER_WRITE_def GROUP_READ_def GROUP_WRITE_def
      OTHER_READ_def OTHER_WRITE_def)

lemma has_ipc_permission_class:
  "has_ipc_permission perm uid gid w \<longleftrightarrow>
     (case ipc_class_of perm uid gid of Root \<Rightarrow> True
      | c \<Rightarrow> bit (perm_mode perm) (class_bit c w))"
  by (simp add: has_ipc_permission_def ipc_class_of_def perm_bits)

end
