(* ===== verification/Msg_Queue.thy ===== *)
theory Msg_Queue
  imports Ipc
begin

section \<open>System V message queues: data and operations\<close>

text \<open>
  \<open>api/src/syscall/ipc/msg.rs\<close>. \<open>message_queue\<close> is \<open>MessageQueue\<close> (the messages are
  a \<open>BTreeMap\<close> from type to the messages of that type, oldest first), \<open>msg_manager\<close> is
  \<open>MsgManager\<close>. A queue lives behind \<open>Arc<Mutex<_>>\<close> in the manager's table; each system
  call locks it for its whole body, so a call is one atomic update of the table entry.

  User memory belongs to the crate \<open>starry_vm\<close>; its reads and writes are the fields of the
  record \<open>msg_vm\<close>, an argument of the system calls. \<open>now\<close> is the value of
  \<open>monotonic_time_nanos()\<close>.
\<close>

subsection \<open>Data\<close>

definition MSGMNI :: nat where "MSGMNI = 32000"
definition MSGMNB :: nat where "MSGMNB = 16384"
definition MSGMAX :: nat where "MSGMAX = 8192"

record msqid_ds =
  msg_perm :: ipc_perm
  msg_stime :: i64
  msg_rtime :: i64
  msg_ctime :: i64
  msg_cbytes :: nat
  msg_qnum :: nat
  msg_qbytes :: nat
  msg_lspid :: i32
  msg_lrpid :: i32

definition msqid_ds_new :: "i32 \<Rightarrow> u32 \<Rightarrow> i32 \<Rightarrow> u32 \<Rightarrow> u32 \<Rightarrow> i64 \<Rightarrow> msqid_ds" where
  "msqid_ds_new key mode p uid gid now =
     \<lparr>msg_perm = \<lparr>perm_key = key, perm_uid = uid, perm_gid = gid, perm_cuid = uid,
        perm_cgid = gid, perm_mode = mode, perm_seq = 0, perm_pad = 0,
        perm_unused0 = 0, perm_unused1 = 0\<rparr>,
      msg_stime = 0, msg_rtime = 0, msg_ctime = now, msg_cbytes = 0, msg_qnum = 0,
      msg_qbytes = MSGMNB, msg_lspid = p, msg_lrpid = p\<rparr>"

record message =
  m_mtype :: i64
  m_data :: "u8 list"

record message_queue =
  mq_ds :: msqid_ds
  mq_messages :: "(i64, message list) btree"
  mq_total_bytes :: nat
  mq_mark_removed :: bool

definition message_queue_new :: "i32 \<Rightarrow> u32 \<Rightarrow> pid \<Rightarrow> u32 \<Rightarrow> u32 \<Rightarrow> i64 \<Rightarrow> message_queue" where
  "message_queue_new key mode p uid gid now =
     \<lparr>mq_ds = msqid_ds_new key mode (wrap_i32 (int p)) uid gid now,
      mq_messages = [], mq_total_bytes = 0, mq_mark_removed = False\<rparr>"

subsection \<open>Operations of one queue\<close>

definition enqueue_message ::
    "i64 \<Rightarrow> u8 list \<Rightarrow> message_queue \<Rightarrow> message_queue \<times> unit outcome" where
  "enqueue_message mtype data q =
     (let data_len = length data in
      if uadd (mq_total_bytes q) data_len > msg_qbytes (mq_ds q)
      then (q, Fail (LinuxErr ENOSPC))
      else
        let message = \<lparr>m_mtype = mtype, m_data = data\<rparr>;
            old = (case bt_get (mq_messages q) mtype of None \<Rightarrow> [] | Some ms \<Rightarrow> ms);
            ds = mq_ds q
        in (q\<lparr>mq_messages := bt_insert mtype (old @ [message]) (mq_messages q),
              mq_total_bytes := uadd (mq_total_bytes q) data_len,
              mq_ds := ds\<lparr>msg_cbytes := uadd (msg_cbytes ds) data_len,
                          msg_qnum := uadd (msg_qnum ds) 1\<rparr>\<rparr>,
            Ok ()))"

text \<open>The three searches iterate over the map in key order, as the \<open>for\<close> loops do.\<close>

fun first_message_in :: "(i64, message list) btree \<Rightarrow> (i64 \<times> u8 list) option" where
  "first_message_in [] = None"
| "first_message_in ((mtype, messages) # rest) =
     (case messages of
        message # _ \<Rightarrow> Some (mtype, m_data message)
      | [] \<Rightarrow> first_message_in rest)"

definition find_first_message :: "message_queue \<Rightarrow> (i64 \<times> u8 list) option" where
  "find_first_message q = first_message_in (mq_messages q)"

definition find_message_by_type :: "i64 \<Rightarrow> message_queue \<Rightarrow> (i64 \<times> u8 list) option" where
  "find_message_by_type msgtyp q =
     (case bt_get (mq_messages q) msgtyp of
        Some (m # _) \<Rightarrow> Some (msgtyp, m_data m)
      | _ \<Rightarrow> None)"

fun not_equal_in :: "i64 \<Rightarrow> (i64, message list) btree \<Rightarrow> (i64 \<times> u8 list) option" where
  "not_equal_in msgtyp [] = None"
| "not_equal_in msgtyp ((mtype, messages) # rest) =
     (if mtype \<noteq> msgtyp
      then (case messages of
              message # _ \<Rightarrow> Some (mtype, m_data message)
            | [] \<Rightarrow> not_equal_in msgtyp rest)
      else not_equal_in msgtyp rest)"

definition find_message_not_equal :: "i64 \<Rightarrow> message_queue \<Rightarrow> (i64 \<times> u8 list) option" where
  "find_message_not_equal msgtyp q = not_equal_in msgtyp (mq_messages q)"

fun less_equal_candidate ::
    "i64 \<Rightarrow> i64 option \<Rightarrow> (i64, message list) btree \<Rightarrow> i64 option" where
  "less_equal_candidate abs_typ candidate [] = candidate"
| "less_equal_candidate abs_typ candidate ((mtype, messages) # rest) =
     (if mtype \<le> abs_typ \<and> messages \<noteq> []
         \<and> (case candidate of None \<Rightarrow> True | Some c \<Rightarrow> mtype < c)
      then less_equal_candidate abs_typ (Some mtype) rest
      else less_equal_candidate abs_typ candidate rest)"

definition find_message_less_equal :: "i64 \<Rightarrow> message_queue \<Rightarrow> (i64 \<times> u8 list) option" where
  "find_message_less_equal abs_typ q =
     (case less_equal_candidate abs_typ None (mq_messages q) of
        Some mtype \<Rightarrow>
          (case bt_get (mq_messages q) mtype of
             Some (m # _) \<Rightarrow> Some (mtype, m_data m)
           | _ \<Rightarrow> None)
      | None \<Rightarrow> None)"

definition get_total_message_count :: "message_queue \<Rightarrow> nat" where
  "get_total_message_count q = sum_list (map length (bt_values (mq_messages q)))"

fun message_by_index_from :: "nat \<Rightarrow> nat \<Rightarrow> message list list \<Rightarrow> message option" where
  "message_by_index_from index current_index [] = None"
| "message_by_index_from index current_index (messages # rest) =
     (if index < current_index + length messages
      then (if index - current_index < length messages
            then Some (messages ! (index - current_index)) else None)
      else message_by_index_from index (current_index + length messages) rest)"

definition get_message_by_index :: "nat \<Rightarrow> message_queue \<Rightarrow> message option" where
  "get_message_by_index index q = message_by_index_from index 0 (bt_values (mq_messages q))"

definition remove_message_by_type_and_index ::
    "i64 \<Rightarrow> nat \<Rightarrow> message_queue \<Rightarrow> message_queue \<times> message outcome" where
  "remove_message_by_type_and_index mtype index q =
     (case bt_get (mq_messages q) mtype of
        Some messages \<Rightarrow>
          if index < length messages then
            let removed_msg = messages ! index;
                messages' = take index messages @ drop (Suc index) messages;
                ds = mq_ds q;
                n = length (m_data removed_msg)
            in (q\<lparr>mq_total_bytes := usub (mq_total_bytes q) n,
                  mq_ds := ds\<lparr>msg_cbytes := usub (msg_cbytes ds) n,
                              msg_qnum := usub (msg_qnum ds) 1\<rparr>,
                  mq_messages :=
                    (if messages' = [] then bt_remove mtype (mq_messages q)
                     else bt_insert mtype messages' (mq_messages q))\<rparr>,
                Ok removed_msg)
          else (q, Fail (LinuxErr ENOMSG))
      | None \<Rightarrow> (q, Fail (LinuxErr ENOMSG)))"

subsection \<open>The manager\<close>

record msg_manager =
  key_msqid :: "(i32, i32) btree"
  msqid_queues :: "(i32, message_queue) btree"

definition msg_manager_new :: msg_manager where
  "msg_manager_new = \<lparr>key_msqid = [], msqid_queues = []\<rparr>"

definition iter_active_queues :: "msg_manager \<Rightarrow> (i32 \<times> message_queue) list" where
  "iter_active_queues mgr = filter (\<lambda>(_, q). \<not> mq_mark_removed q) (msqid_queues mgr)"

definition get_msqid_by_key :: "i32 \<Rightarrow> msg_manager \<Rightarrow> i32 option" where
  "get_msqid_by_key key mgr = bt_get (key_msqid mgr) key"

definition get_queue_by_msqid :: "i32 \<Rightarrow> msg_manager \<Rightarrow> message_queue option" where
  "get_queue_by_msqid msqid mgr = bt_get (msqid_queues mgr) msqid"

definition insert_key_msqid :: "i32 \<Rightarrow> i32 \<Rightarrow> msg_manager \<Rightarrow> msg_manager" where
  "insert_key_msqid key msqid mgr = mgr\<lparr>key_msqid := bt_insert key msqid (key_msqid mgr)\<rparr>"

definition insert_msqid_queues :: "i32 \<Rightarrow> message_queue \<Rightarrow> msg_manager \<Rightarrow> msg_manager" where
  "insert_msqid_queues msqid q mgr = mgr\<lparr>msqid_queues := bt_insert msqid q (msqid_queues mgr)\<rparr>"

definition queue_count :: "msg_manager \<Rightarrow> nat" where
  "queue_count mgr = length (msqid_queues mgr)"

definition remove_msqid :: "i32 \<Rightarrow> msg_manager \<Rightarrow> msg_manager" where
  "remove_msqid msqid mgr =
     mgr\<lparr>key_msqid := bt_retain (\<lambda>_ v. v \<noteq> msqid) (key_msqid mgr),
         msqid_queues := bt_remove msqid (msqid_queues mgr)\<rparr>"

definition manager_total_bytes :: "msg_manager \<Rightarrow> nat" where
  "manager_total_bytes mgr = foldl (\<lambda>total (_, q). uadd total (mq_total_bytes q)) 0 (iter_active_queues mgr)"

subsection \<open>User memory and flags\<close>

record msginfo =
  mi_msgpool :: i32
  mi_msgmap :: i32
  mi_msgmax :: i32
  mi_msgmnb :: i32
  mi_msgmni :: i32
  mi_msgssz :: i32
  mi_msgtql :: i32
  mi_msgseg :: u16

record 'u msg_vm =
  vm_read_mtype :: "addr \<Rightarrow> 'u \<Rightarrow> i64 outcome"
  vm_load_text :: "addr \<Rightarrow> nat \<Rightarrow> 'u \<Rightarrow> u8 list outcome"
  vm_write_mtype :: "addr \<Rightarrow> i64 \<Rightarrow> 'u \<Rightarrow> 'u \<times> unit outcome"
  vm_write_text :: "addr \<Rightarrow> u8 list \<Rightarrow> 'u \<Rightarrow> 'u \<times> unit outcome"
  vm_write_info :: "addr \<Rightarrow> msginfo \<Rightarrow> 'u \<Rightarrow> 'u \<times> unit outcome"
  vm_write_ds :: "addr \<Rightarrow> msqid_ds \<Rightarrow> 'u \<Rightarrow> 'u \<times> unit outcome"
  vm_read_ds :: "addr \<Rightarrow> 'u \<Rightarrow> msqid_ds outcome"

definition IPC_NOWAIT :: u32 where "IPC_NOWAIT = 0x800"
definition MSG_NOERROR :: u32 where "MSG_NOERROR = 0x1000"
definition MSG_COPY :: u32 where "MSG_COPY = 0x2000"
definition MSG_EXCEPT :: u32 where "MSG_EXCEPT = 0x400"

text \<open>\<open>UserMsgbuf\<close>: the type at offset 0, the text at offset 8.\<close>

definition mtext_ptr :: "addr \<Rightarrow> addr" where
  "mtext_ptr msgp = uadd msgp 8"

end
