(* ===== verification/Msg_Syscalls.thy ===== *)
theory Msg_Syscalls
  imports Msg_Queue
begin

section \<open>System V message queues: the system calls\<close>

text \<open>
  \<open>sys_msgget\<close>, \<open>sys_msgsnd\<close>, \<open>sys_msgrcv\<close> and \<open>sys_msgctl\<close> of
  \<open>api/src/syscall/ipc/msg.rs\<close>, every branch in source order. Each returns the manager
  (and user memory, where the call touches it) beside the outcome, so that the effects of
  a failed call are visible. \<open>uid\<close>, \<open>gid\<close> and \<open>cur_pid\<close> are the caller's ids.
\<close>

definition sys_msgget ::
    "u32 \<Rightarrow> u32 \<Rightarrow> pid \<Rightarrow> i64 \<Rightarrow> i32 \<Rightarrow> u32 \<Rightarrow> i32 \<times> msg_manager
     \<Rightarrow> (i32 \<times> msg_manager) \<times> int outcome" where
  "sys_msgget uid gid cur_pid now key msgflg st =
     (let (ipc_id, mgr) = st in
      if queue_count mgr \<ge> MSGMNI then (st, Fail (LinuxErr ENOSPC))
      else if key = IPC_PRIVATE then
        (let (msqid, ipc_id') = next_ipc_id ipc_id;
             q = message_queue_new key (msgflg AND 0x1FF) cur_pid uid gid now
         in ((ipc_id', insert_msqid_queues msqid q mgr), Ok msqid))
      else
        case get_msqid_by_key key mgr of
          Some msqid \<Rightarrow>
            (case get_queue_by_msqid msqid mgr of
               None \<Rightarrow> (st, Fail (LinuxErr ENOENT))
             | Some q \<Rightarrow>
                 if \<not> has_ipc_permission (msg_perm (mq_ds q)) uid gid False
                 then (st, Fail (LinuxErr EACCES))
                 else if mq_mark_removed q then (st, Fail (LinuxErr EIDRM))
                 else if any_flag msgflg IPC_EXCL \<and> any_flag msgflg IPC_CREAT
                 then (st, Fail (LinuxErr EEXIST))
                 else (st, Ok msqid))
        | None \<Rightarrow>
            if \<not> any_flag msgflg IPC_CREAT then (st, Fail (LinuxErr ENOENT))
            else
              (let (msqid, ipc_id') = next_ipc_id ipc_id;
                   q = message_queue_new key (msgflg AND 0x1FF) cur_pid uid gid now
               in ((ipc_id', insert_msqid_queues msqid q (insert_key_msqid key msqid mgr)),
                   Ok msqid)))"

definition sys_msgsnd ::
    "'u msg_vm \<Rightarrow> u32 \<Rightarrow> u32 \<Rightarrow> pid \<Rightarrow> i64 \<Rightarrow> i32 \<Rightarrow> addr \<Rightarrow> nat \<Rightarrow> u32 \<Rightarrow> 'u
     \<Rightarrow> msg_manager \<Rightarrow> msg_manager \<times> int outcome" where
  "sys_msgsnd vm uid gid cur_pid now msqid msgp msgsz msgflg u mgr =
     (if msgsz > MSGMAX then (mgr, Fail (LinuxErr EINVAL))
      else
        case get_queue_by_msqid msqid mgr of
          None \<Rightarrow> (mgr, Fail (LinuxErr EINVAL))
        | Some q \<Rightarrow>
            if \<not> has_ipc_permission (msg_perm (mq_ds q)) uid gid True
            then (mgr, Fail (LinuxErr EACCES))
            else
              (case vm_read_mtype vm msgp u of
                 Inl e \<Rightarrow> (mgr, Inl e)
               | Inr mtype \<Rightarrow>
                   if mtype \<le> 0 then (mgr, Fail (LinuxErr EINVAL))
                   else
                     (case vm_load_text vm (mtext_ptr msgp) msgsz u of
                        Inl e \<Rightarrow> (mgr, Inl e)
                      | Inr data_vec \<Rightarrow>
                          (let would_exceed_bytes =
                                 uadd (mq_total_bytes q) (length data_vec) > msg_qbytes (mq_ds q);
                               would_exceed_messages =
                                 uadd (msg_qnum (mq_ds q)) 1 > msg_qbytes (mq_ds q)
                           in
                           if would_exceed_bytes \<or> would_exceed_messages
                           then (if has_flags msgflg IPC_NOWAIT
                                 then (mgr, Fail (LinuxErr EAGAIN))
                                 else (mgr, Fail (LinuxErr EAGAIN)))
                           else
                             (case enqueue_message mtype data_vec q of
                                (q', Inl e) \<Rightarrow> (insert_msqid_queues msqid q' mgr, Inl e)
                              | (q', Inr _) \<Rightarrow>
                                  (insert_msqid_queues msqid
                                     (q'\<lparr>mq_ds := (mq_ds q')\<lparr>msg_lspid := wrap_i32 (int cur_pid),
                                                              msg_stime := now\<rparr>\<rparr>) mgr,
                                   Ok 0))))))"

text \<open>
  The matching step of \<open>sys_msgrcv\<close>: the message's type and data, its index, and whether
  it is removed. \<open>msgtyp as usize\<close> is the value modulo \<open>2 ^ 64\<close>, and \<open>abs\<close> of the
  smallest \<open>i64\<close> wraps to itself.
\<close>

definition msgrcv_match ::
    "i64 \<Rightarrow> u32 \<Rightarrow> message_queue \<Rightarrow> (i64 \<times> u8 list \<times> nat \<times> bool) outcome" where
  "msgrcv_match msgtyp msgflg q =
     (if has_flags msgflg MSG_COPY then
        (let index = nat (msgtyp mod 2 ^ 64) in
         if index \<ge> get_total_message_count q then Fail (LinuxErr ENOMSG)
         else case get_message_by_index index q of
                None \<Rightarrow> Fail (LinuxErr ENOMSG)
              | Some message \<Rightarrow> Ok (m_mtype message, m_data message, index, False))
      else
        (let matched_message =
               (if msgtyp = 0 then find_first_message q
                else if msgtyp > 0 then
                  (if has_flags msgflg MSG_EXCEPT then find_message_not_equal msgtyp q
                   else find_message_by_type msgtyp q)
                else find_message_less_equal (wrap_i64 \<bar>msgtyp\<bar>) q)
         in case matched_message of
              Some (mtype, data_slice) \<Rightarrow> Ok (mtype, data_slice, 0, True)
            | None \<Rightarrow>
                if has_flags msgflg IPC_NOWAIT then Fail (LinuxErr ENOMSG)
                else Fail (LinuxErr ENOMSG)))"

definition sys_msgrcv ::
    "'u msg_vm \<Rightarrow> u32 \<Rightarrow> u32 \<Rightarrow> pid \<Rightarrow> i64 \<Rightarrow> i32 \<Rightarrow> addr \<Rightarrow> nat \<Rightarrow> i64 \<Rightarrow> u32 \<Rightarrow> 'u
     \<Rightarrow> msg_manager \<Rightarrow> msg_manager \<times> 'u \<times> int outcome" where
  "sys_msgrcv vm uid gid cur_pid now msqid msgp msgsz msgtyp msgflg u mgr =
     (if has_flags msgflg MSG_COPY \<and> \<not> has_flags msgflg IPC_NOWAIT
      then (mgr, u, Fail (LinuxErr EINVAL))
      else if has_flags msgflg MSG_COPY \<and> has_flags msgflg MSG_EXCEPT
      then (mgr, u, Fail (LinuxErr EINVAL))
      else
        case get_queue_by_msqid msqid mgr of
          None \<Rightarrow> (mgr, u, Fail (LinuxErr EINVAL))
        | Some q \<Rightarrow>
            if \<not> has_ipc_permission (msg_perm (mq_ds q)) uid gid False
            then (mgr, u, Fail (LinuxErr EACCES))
            else if mq_mark_removed q then (mgr, u, Fail (LinuxErr EIDRM))
            else
              (case msgrcv_match msgtyp msgflg q of
                 Inl e \<Rightarrow> (mgr, u, Inl e)
               | Inr (mtype, data_slice, index, should_remove) \<Rightarrow>
                   if length data_slice > msgsz \<and> \<not> has_flags msgflg MSG_NOERROR
                   then (mgr, u, Fail (LinuxErr E2BIG))
                   else
                     (case vm_write_mtype vm msgp mtype u of
                        (u1, Inl e) \<Rightarrow> (mgr, u1, Inl e)
                      | (u1, Inr _) \<Rightarrow>
                          (let copy_len = min (length data_slice) msgsz in
                           case vm_write_text vm (mtext_ptr msgp) (take copy_len data_slice) u1 of
                             (u2, Inl e) \<Rightarrow> (mgr, u2, Inl e)
                           | (u2, Inr _) \<Rightarrow>
                               if should_remove then
                                 (case remove_message_by_type_and_index mtype index q of
                                    (q', Inl e) \<Rightarrow> (insert_msqid_queues msqid q' mgr, u2, Inl e)
                                  | (q', Inr _) \<Rightarrow>
                                      (insert_msqid_queues msqid
                                         (q'\<lparr>mq_ds := (mq_ds q')\<lparr>msg_lrpid := wrap_i32 (int cur_pid),
                                                                  msg_rtime := now\<rparr>\<rparr>) mgr,
                                       u2, Ok (int copy_len)))
                               else
                                 (insert_msqid_queues msqid
                                    (q\<lparr>mq_ds := (mq_ds q)\<lparr>msg_lrpid := wrap_i32 (int cur_pid),
                                                            msg_rtime := now\<rparr>\<rparr>) mgr,
                                  u2, Ok (int copy_len))))))"

subsection \<open>\<open>sys_msgctl\<close>\<close>

definition ipc_info :: msginfo where
  "ipc_info = \<lparr>mi_msgpool = 0, mi_msgmap = 0, mi_msgmax = int MSGMAX, mi_msgmnb = int MSGMNB,
     mi_msgmni = int MSGMNI, mi_msgssz = 0, mi_msgtql = 0, mi_msgseg = 0\<rparr>"

definition msg_info_ds :: "u32 \<Rightarrow> u32 \<Rightarrow> msg_manager \<Rightarrow> msqid_ds" where
  "msg_info_ds uid gid mgr =
     \<lparr>msg_perm = \<lparr>perm_key = 0, perm_uid = uid, perm_gid = gid, perm_cuid = uid,
        perm_cgid = gid, perm_mode = 0x180, perm_seq = 0, perm_pad = 0,
        perm_unused0 = 0, perm_unused1 = 0\<rparr>,
      msg_stime = 0, msg_rtime = 0, msg_ctime = 0,
      msg_cbytes = manager_total_bytes mgr, msg_qnum = queue_count mgr,
      msg_qbytes = MSGMNB, msg_lspid = 0, msg_lrpid = 0\<rparr>"

text \<open>
  \<open>IPC_SET\<close>: owner, group and mode are stored before the size limit is checked, so the
  updated queue is returned on the error path too.
\<close>

definition msgctl_set :: "bool \<Rightarrow> i64 \<Rightarrow> msqid_ds \<Rightarrow> message_queue \<Rightarrow> message_queue \<times> int outcome" where
  "msgctl_set is_privileged now user_buf q =
     (let ds = mq_ds q;
          p = (msg_perm ds)\<lparr>perm_uid := perm_uid (msg_perm user_buf),
                            perm_gid := perm_gid (msg_perm user_buf),
                            perm_mode := perm_mode (msg_perm user_buf) AND 0x1FF\<rparr>;
          ds1 = ds\<lparr>msg_perm := p\<rparr>
      in if msg_qbytes user_buf \<noteq> msg_qbytes ds1
         then (if msg_qbytes user_buf > MSGMNB \<and> \<not> is_privileged
               then (q\<lparr>mq_ds := ds1\<rparr>, Fail (LinuxErr EPERM))
               else (q\<lparr>mq_ds := ds1\<lparr>msg_qbytes := msg_qbytes user_buf, msg_ctime := now\<rparr>\<rparr>, Ok 0))
         else (q\<lparr>mq_ds := ds1\<lparr>msg_ctime := now\<rparr>\<rparr>, Ok 0))"

definition msgctl_rmid :: "i32 \<Rightarrow> i64 \<Rightarrow> message_queue \<Rightarrow> msg_manager \<Rightarrow> msg_manager" where
  "msgctl_rmid msqid now q mgr =
     (let q1 = q\<lparr>mq_mark_removed := True\<rparr> in
      if msg_qnum (mq_ds q1) = 0
      then remove_msqid msqid (insert_msqid_queues msqid q1 mgr)
      else insert_msqid_queues msqid (q1\<lparr>mq_ds := (mq_ds q1)\<lparr>msg_ctime := now\<rparr>\<rparr>) mgr)"

definition msgctl_stat ::
    "'u msg_vm \<Rightarrow> u32 \<Rightarrow> u32 \<Rightarrow> i32 \<Rightarrow> addr \<Rightarrow> 'u \<Rightarrow> msg_manager \<Rightarrow> 'u \<times> int outcome" where
  "msgctl_stat vm uid gid msqid buf u mgr =
     (let idx = nat (msqid mod 2 ^ 64); active = iter_active_queues mgr in
      if idx < length active then
        (let (actual_msqid, q) = active ! idx in
         if \<not> has_ipc_permission (msg_perm (mq_ds q)) uid gid False
         then (u, Fail (LinuxErr EACCES))
         else case vm_write_ds vm buf (mq_ds q) u of
                (u1, Inl e) \<Rightarrow> (u1, Inl e)
              | (u1, Inr _) \<Rightarrow> (u1, Ok actual_msqid))
      else (u, Fail (LinuxErr EINVAL)))"

definition sys_msgctl ::
    "'u msg_vm \<Rightarrow> u32 \<Rightarrow> u32 \<Rightarrow> i64 \<Rightarrow> i32 \<Rightarrow> i32 \<Rightarrow> addr \<Rightarrow> 'u \<Rightarrow> msg_manager
     \<Rightarrow> msg_manager \<times> 'u \<times> int outcome" where
  "sys_msgctl vm uid gid now msqid cmd buf u mgr =
     (let is_privileged = (uid = 0) in
      if cmd \<noteq> IPC_STAT \<and> cmd \<noteq> IPC_SET \<and> cmd \<noteq> IPC_RMID \<and> cmd \<noteq> IPC_INFO
         \<and> cmd \<noteq> MSG_INFO \<and> cmd \<noteq> MSG_STAT
      then (mgr, u, Fail (LinuxErr EINVAL))
      else if cmd = IPC_INFO then
        (case vm_write_info vm buf ipc_info u of
           (u1, Inl e) \<Rightarrow> (mgr, u1, Inl e)
         | (u1, Inr _) \<Rightarrow> (mgr, u1, Ok 0))
      else if cmd = MSG_INFO then
        (case vm_write_ds vm buf (msg_info_ds uid gid mgr) u of
           (u1, Inl e) \<Rightarrow> (mgr, u1, Inl e)
         | (u1, Inr _) \<Rightarrow> (mgr, u1, Ok (int (queue_count mgr))))
      else if cmd = MSG_STAT then
        (let (u1, r) = msgctl_stat vm uid gid msqid buf u mgr in (mgr, u1, r))
      else
        case get_queue_by_msqid msqid mgr of
          None \<Rightarrow> (mgr, u, Fail (LinuxErr EINVAL))
        | Some q \<Rightarrow>
            if mq_mark_removed q then (mgr, u, Fail (LinuxErr EIDRM))
            else if cmd = IPC_STAT then
              (if \<not> has_ipc_permission (msg_perm (mq_ds q)) uid gid False
               then (mgr, u, Fail (LinuxErr EACCES))
               else case vm_write_ds vm buf (mq_ds q) u of
                      (u1, Inl e) \<Rightarrow> (mgr, u1, Inl e)
                    | (u1, Inr _) \<Rightarrow> (mgr, u1, Ok 0))
            else if \<not> is_privileged \<and> uid \<noteq> perm_uid (msg_perm (mq_ds q))
                    \<and> uid \<noteq> perm_cuid (msg_perm (mq_ds q))
            then (mgr, u, Fail (LinuxErr EPERM))
            else if cmd = IPC_SET then
              (case vm_read_ds vm buf u of
                 Inl e \<Rightarrow> (mgr, u, Inl e)
               | Inr user_buf \<Rightarrow>
                   (let (q', r) = msgctl_set is_privileged now user_buf q
                    in (insert_msqid_queues msqid q' mgr, u, r)))
            else if cmd = IPC_RMID then (msgctl_rmid msqid now q mgr, u, Ok 0)
            else (mgr, u, Fail (LinuxErr EINVAL)))"

end
