(* ===== verification/Msg_Props.thy ===== *)
theory Msg_Props
  imports Msg_Syscalls
begin

section \<open>Message queues: bookkeeping, matching and FIFO order\<close>

text \<open>
  The well-formedness invariant \<open>mq_ok\<close> of one queue (the byte and message counters are
  exactly what the queue holds, no type has an empty list, every message is filed under
  its own type), its preservation by \<open>enqueue_message\<close> and
  \<open>remove_message_by_type_and_index\<close>, what the four searches return, and the FIFO
  contract \<open>typed_fifo\<close>, interpreted on the two queue operations.
\<close>

definition msgs_bytes :: "message list \<Rightarrow> nat" where
  "msgs_bytes ms = sum_list (map (\<lambda>m. length (m_data m)) ms)"

definition typed_list :: "i64 \<Rightarrow> message list \<Rightarrow> bool" where
  "typed_list t ms \<longleftrightarrow> ms \<noteq> [] \<and> list_all (\<lambda>m. m_mtype m = t) ms"

definition mq_ok :: "message_queue \<Rightarrow> bool" where
  "mq_ok q \<longleftrightarrow>
     bt_ok (mq_messages q)
     \<and> list_all (\<lambda>(t, ms). typed_list t ms) (mq_messages q)
     \<and> mq_total_bytes q = bt_sum msgs_bytes (mq_messages q)
     \<and> msg_cbytes (mq_ds q) = mq_total_bytes q
     \<and> msg_qnum (mq_ds q) = bt_sum length (mq_messages q)
     \<and> mq_total_bytes q \<le> 2 ^ 63
     \<and> msg_qnum (mq_ds q) \<le> 2 ^ 63
     \<and> msg_qbytes (mq_ds q) \<le> 2 ^ 63"

lemma msgs_bytes_simps [simp]:
  "msgs_bytes [] = 0"
  "msgs_bytes (m # ms) = length (m_data m) + msgs_bytes ms"
  "msgs_bytes (ms @ ns) = msgs_bytes ms + msgs_bytes ns"
  by (simp_all add: msgs_bytes_def)

lemma typed_list_get:
  assumes "mq_ok q" and "bt_get (mq_messages q) t = Some ms"
  shows "typed_list t ms"
  using assms bt_get_in_set [of "mq_messages q" t ms]
  by (auto simp: mq_ok_def list_all_iff)

lemma typed_list_insert:
  assumes "bt_ok m" and "list_all (\<lambda>(t, ms). typed_list t ms) m" and "typed_list t ns"
  shows "list_all (\<lambda>(t, ms). typed_list t ms) (bt_insert t ns m)"
  unfolding list_all_iff
proof (rule ballI)
  fix p assume p: "p \<in> set (bt_insert t ns m)"
  obtain a b where ab: "p = (a, b)" by (cases p)
  with p assms(1) have "bt_get (bt_insert t ns m) a = Some b"
    using bt_set_get [of "bt_insert t ns m" a b] by simp
  then have "(a = t \<and> b = ns) \<or> bt_get m a = Some b"
    using assms(1) by (simp split: if_splits)
  with assms ab show "case p of (t, ms) \<Rightarrow> typed_list t ms"
    using bt_get_in_set [of m a b] by (auto simp: list_all_iff)
qed

lemma typed_list_shrink:
  assumes "bt_ok m" and "list_all (\<lambda>(t, ms). typed_list t ms) m"
    and "list_all (\<lambda>x. m_mtype x = t) ns"
  shows "list_all (\<lambda>(t, ms). typed_list t ms)
           (if ns = [] then bt_remove t m else bt_insert t ns m)"
proof (cases "ns = []")
  case True
  with assms show ?thesis by (auto simp: bt_remove_def list_all_iff)
next
  case False
  with assms have "typed_list t ns" by (simp add: typed_list_def)
  with assms(1,2) False show ?thesis by (simp add: typed_list_insert)
qed

lemma message_queue_new_ok: "mq_ok (message_queue_new key mode p uid gid now)"
  by (simp add: mq_ok_def message_queue_new_def msqid_ds_new_def MSGMNB_def)

subsection \<open>Enqueue\<close>

lemma enqueue_message_ok:
  assumes ok: "mq_ok q" and len: "length data \<le> 2 ^ 62" and num: "msg_qnum (mq_ds q) < 2 ^ 63"
    and run: "enqueue_message mtype data q = (q', r)"
  shows "mq_ok q'"
proof (cases "uadd (mq_total_bytes q) (length data) > msg_qbytes (mq_ds q)")
  case True
  with run ok show ?thesis by (simp add: enqueue_message_def Let_def)
next
  case False
  let ?m = "mq_messages q"
  let ?old = "case bt_get ?m mtype of None \<Rightarrow> [] | Some ms \<Rightarrow> ms"
  let ?new = "?old @ [\<lparr>m_mtype = mtype, m_data = data\<rparr>]"
  from ok have okm: "bt_ok ?m" by (simp add: mq_ok_def)
  from ok len have sum: "uadd (mq_total_bytes q) (length data) = mq_total_bytes q + length data"
    by (intro uadd_exact) (simp add: mq_ok_def)
  have cnt: "uadd (msg_qnum (mq_ds q)) 1 = msg_qnum (mq_ds q) + 1"
    using num by (intro uadd_exact) simp
  have "typed_list mtype ?new"
  proof (cases "bt_get ?m mtype")
    case (Some ms)
    then have "typed_list mtype ms" using ok by (simp add: typed_list_get)
    with Some show ?thesis by (simp add: typed_list_def)
  qed (simp add: typed_list_def)
  with ok okm have tl: "list_all (\<lambda>(t, ms). typed_list t ms) (bt_insert mtype ?new ?m)"
    by (intro typed_list_insert) (simp_all add: mq_ok_def)
  have bytes: "bt_sum msgs_bytes (bt_insert mtype ?new ?m) = bt_sum msgs_bytes ?m + length data"
    using bt_sum_insert [OF okm, of msgs_bytes mtype ?new] by (simp split: option.splits)
  have num': "bt_sum length (bt_insert mtype ?new ?m) = bt_sum length ?m + 1"
    using bt_sum_insert [OF okm, of length mtype ?new] by (simp split: option.splits)
  from run False have "q' = q\<lparr>mq_messages := bt_insert mtype ?new ?m,
      mq_total_bytes := uadd (mq_total_bytes q) (length data),
      mq_ds := (mq_ds q)\<lparr>msg_cbytes := uadd (msg_cbytes (mq_ds q)) (length data),
                          msg_qnum := uadd (msg_qnum (mq_ds q)) 1\<rparr>\<rparr>"
    by (simp add: enqueue_message_def Let_def)
  with ok okm sum cnt tl bytes num' False num show ?thesis
    by (simp add: mq_ok_def)
qed

lemma enqueue_message_accepts:
  assumes "mq_ok q" and "length data \<le> 2 ^ 62"
    and "mq_total_bytes q + length data \<le> msg_qbytes (mq_ds q)"
  shows "snd (enqueue_message mtype data q) = Ok ()"
  using assms by (simp add: enqueue_message_def Let_def uadd_exact mq_ok_def)

subsection \<open>Remove\<close>

lemma remove_message_ok:
  assumes ok: "mq_ok q" and run: "remove_message_by_type_and_index mtype index q = (q', r)"
  shows "mq_ok q'"
proof (cases "bt_get (mq_messages q) mtype")
  case None
  with run ok show ?thesis by (simp add: remove_message_by_type_and_index_def)
next
  case (Some ms)
  show ?thesis
  proof (cases "index < length ms")
    case False
    with Some run ok show ?thesis by (simp add: remove_message_by_type_and_index_def)
  next
    case True
    let ?m = "mq_messages q" and ?ms = "take index ms @ drop (Suc index) ms"
    let ?n = "length (m_data (ms ! index))"
    define m' where "m' = (if ?ms = [] then bt_remove mtype ?m else bt_insert mtype ?ms ?m)"
    from ok have okm: "bt_ok ?m" by (simp add: mq_ok_def)
    have tms: "typed_list mtype ms" using ok Some by (rule typed_list_get)
    have bms: "msgs_bytes ?ms + ?n = msgs_bytes ms"
      using sum_list_map_remove_nth [OF True, of "\<lambda>m. length (m_data m)"]
      by (simp add: msgs_bytes_def)
    have lms: "length ?ms + 1 = length ms" using True by simp
    have okm': "bt_ok m'" using okm by (simp add: m'_def)
    have bytes: "bt_sum msgs_bytes m' + ?n = bt_sum msgs_bytes ?m"
      unfolding m'_def using okm Some bms by (rule bt_sum_shrink) simp
    have num: "bt_sum length m' + 1 = bt_sum length ?m"
      unfolding m'_def using okm Some lms by (rule bt_sum_shrink) simp
    have "list_all (\<lambda>m. m_mtype m = mtype) ?ms"
      using tms by (auto simp: typed_list_def list_all_iff dest: in_set_takeD in_set_dropD)
    then have tl: "list_all (\<lambda>(t, ms). typed_list t ms) m'"
      unfolding m'_def using ok by (intro typed_list_shrink) (simp_all add: mq_ok_def)
    from run Some True have "q' = q\<lparr>mq_total_bytes := usub (mq_total_bytes q) ?n,
        mq_ds := (mq_ds q)\<lparr>msg_cbytes := usub (msg_cbytes (mq_ds q)) ?n,
                            msg_qnum := usub (msg_qnum (mq_ds q)) 1\<rparr>,
        mq_messages := m'\<rparr>"
      unfolding m'_def by (simp add: remove_message_by_type_and_index_def Let_def)
    with ok okm' bytes num tl show ?thesis
      by (auto simp: mq_ok_def)
  qed
qed

subsection \<open>What the searches return\<close>

text \<open>Under the invariant every type of the map has a first message.\<close>

lemma mq_ok_head:
  assumes "mq_ok q" and "bt_get (mq_messages q) t = Some ms"
  obtains m rest where "ms = m # rest" and "m_mtype m = t"
  using typed_list_get [OF assms] by (cases ms) (auto simp: typed_list_def)

lemma first_message_in_spec:
  assumes "list_all (\<lambda>(t, ms). typed_list t ms) m"
  shows "first_message_in m =
    (case m of [] \<Rightarrow> None | (t, ms) # _ \<Rightarrow> Some (t, m_data (hd ms)))"
proof (cases m)
  case (Cons p rest)
  obtain t ms where p: "p = (t, ms)" by (cases p)
  with assms Cons obtain x xs where "ms = x # xs"
    by (cases ms) (auto simp: typed_list_def)
  with Cons p show ?thesis by simp
qed simp

lemma not_equal_in_spec:
  assumes "list_all (\<lambda>(t, ms). typed_list t ms) m"
  shows "not_equal_in typ m = first_message_in (filter (\<lambda>p. fst p \<noteq> typ) m)"
  using assms by (induction m) (auto simp: typed_list_def split: list.split)

lemma less_equal_candidate_seen:
  assumes "sorted_wrt (<) (map fst m)" and "\<forall>p \<in> set m. c < fst p"
  shows "less_equal_candidate a (Some c) m = Some c"
  using assms by (induction m) auto

lemma less_equal_candidate_spec:
  assumes "bt_ok m" and "list_all (\<lambda>(t, ms). typed_list t ms) m"
  shows "less_equal_candidate a None m =
    (case m of [] \<Rightarrow> None | (t, _) # _ \<Rightarrow> if t \<le> a then Some t else None)"
proof (cases m)
  case (Cons p rest)
  obtain t ms where p: "p = (t, ms)" by (cases p)
  from assms Cons p have ms: "ms \<noteq> []" by (simp add: typed_list_def)
  from assms(1) Cons p have srt: "sorted_wrt (<) (map fst rest)" and above: "\<forall>p \<in> set rest. t < fst p"
    by (auto simp: bt_ok_def)
  show ?thesis
  proof (cases "t \<le> a")
    case True
    with Cons p ms show ?thesis
      using less_equal_candidate_seen [OF srt above] by simp
  next
    case False
    with above have "\<forall>p \<in> set rest. \<not> fst p \<le> a" by fastforce
    then have "less_equal_candidate a None rest = None" by (induction rest) auto
    with Cons p False show ?thesis by simp
  qed
qed simp

lemma find_sound:
  assumes ok: "mq_ok q"
    and find: "find_first_message q = Some (t, d) \<or> find_message_by_type typ q = Some (t, d)
      \<or> find_message_not_equal typ q = Some (t, d) \<or> find_message_less_equal typ q = Some (t, d)"
  obtains m rest where "bt_get (mq_messages q) t = Some (m # rest)" and "d = m_data m"
proof -
  let ?m = "mq_messages q"
  have okm: "bt_ok ?m" and tl: "list_all (\<lambda>(t, ms). typed_list t ms) ?m"
    using ok by (simp_all add: mq_ok_def)
  have first: "\<exists>m rest. bt_get ?m t = Some (m # rest) \<and> d = m_data m"
    if "first_message_in l = Some (t, d)" and "set l \<subseteq> set ?m" for l
    using that
  proof (induction l)
    case (Cons p l)
    obtain a ms where p: "p = (a, ms)" by (cases p)
    with Cons.prems(2) okm have get: "bt_get ?m a = Some ms" by (simp add: bt_set_get)
    from ok get obtain x xs where "ms = x # xs" by (rule mq_ok_head)
    with get show ?case using Cons.prems(1) p by auto
  qed simp
  from find have "\<exists>m rest. bt_get ?m t = Some (m # rest) \<and> d = m_data m"
  proof (elim disjE)
    assume "find_first_message q = Some (t, d)"
    then show ?thesis using first [of ?m] by (simp add: find_first_message_def)
  next
    assume "find_message_not_equal typ q = Some (t, d)"
    then show ?thesis
      using first [of "filter (\<lambda>p. fst p \<noteq> typ) ?m"] tl
      by (simp add: find_message_not_equal_def not_equal_in_spec)
  qed (auto simp: find_message_by_type_def find_message_less_equal_def
         split: option.splits list.splits)
  then show ?thesis using that by blast
qed

lemma find_message_less_equal_min:
  assumes ok: "mq_ok q"
  shows "find_message_less_equal a q =
    (case find_first_message q of
       Some (t, d) \<Rightarrow> if t \<le> a then Some (t, d) else None | None \<Rightarrow> None)"
proof (cases "mq_messages q")
  case Nil
  then show ?thesis by (simp add: find_message_less_equal_def find_first_message_def)
next
  case (Cons p rest)
  obtain t ms where p: "p = (t, ms)" by (cases p)
  from ok have okm: "bt_ok (mq_messages q)"
    and tl: "list_all (\<lambda>(t, ms). typed_list t ms) (mq_messages q)"
    by (simp_all add: mq_ok_def)
  from Cons p have get: "bt_get (mq_messages q) t = Some ms" by (simp add: bt_get_def)
  with ok obtain x xs where "ms = x # xs" by (rule mq_ok_head)
  with Cons p get show ?thesis
    using less_equal_candidate_spec [OF okm tl, of a]
    by (simp add: find_message_less_equal_def find_first_message_def)
qed

lemma first_message_smallest:
  assumes ok: "mq_ok q" and find: "find_first_message q = Some (t, d)"
    and present: "bt_get (mq_messages q) t' = Some ms"
  shows "t \<le> t'"
proof (cases "mq_messages q")
  case Nil
  with present show ?thesis by (simp add: bt_get_def)
next
  case (Cons p rest)
  have "(t', ms) \<in> set (mq_messages q)" using present by (rule bt_get_in_set)
  moreover have "fst p = t"
    using ok find Cons first_message_in_spec [of "mq_messages q"]
    by (cases p) (simp add: mq_ok_def find_first_message_def)
  ultimately show ?thesis
    using ok Cons by (fastforce simp: mq_ok_def bt_ok_def)
qed

subsection \<open>\<open>MSG_COPY\<close>: messages by index\<close>

lemma message_by_index_from_spec:
  "k \<le> index \<Longrightarrow> message_by_index_from index k mss =
     (if index - k < length (concat mss) then Some (concat mss ! (index - k)) else None)"
proof (induction mss arbitrary: k)
  case (Cons ms mss)
  show ?case
  proof (cases "index < k + length ms")
    case True
    with Cons.prems have "index - k < length ms" by arith
    with True show ?thesis by (auto simp: nth_append)
  next
    case False
    then have "message_by_index_from index (k + length ms) mss =
      (if index - (k + length ms) < length (concat mss)
       then Some (concat mss ! (index - (k + length ms))) else None)"
      by (intro Cons.IH) simp
    with False show ?thesis by (auto simp: nth_append diff_diff_left)
  qed
qed simp

lemma get_message_by_index_spec:
  "get_message_by_index index q =
     (if index < get_total_message_count q
      then Some (concat (bt_values (mq_messages q)) ! index) else None)"
  by (simp add: get_message_by_index_def message_by_index_from_spec
      get_total_message_count_def length_concat)

end
