(* ===== verification/Msg_System.thy ===== *)
theory Msg_System
  imports Msg_Props
begin

section \<open>Message queues: the manager, the system calls and their properties\<close>

text \<open>
  The invariant \<open>msg_sys_ok\<close> of the identifier counter and the manager's two tables, its
  preservation by every system call, and the properties of the message-queue component.
\<close>

subsection \<open>FIFO per message type\<close>

locale typed_fifo =
  fixes view :: "'q \<Rightarrow> 't \<Rightarrow> 'd list"
    and room :: "'q \<Rightarrow> 'd \<Rightarrow> bool"
    and enq :: "'t \<Rightarrow> 'd \<Rightarrow> 'q \<Rightarrow> 'q"
    and deq :: "'t \<Rightarrow> 'q \<Rightarrow> 'q"
    and inv :: "'q \<Rightarrow> bool"
  assumes view_enq: "inv q \<Longrightarrow> room q d \<Longrightarrow>
      view (enq t d q) t' = (if t' = t then view q t @ [d] else view q t')"
    and view_deq: "inv q \<Longrightarrow> view q t \<noteq> [] \<Longrightarrow>
      view (deq t q) t' = (if t' = t then tl (view q t) else view q t')"
    and inv_enq: "inv q \<Longrightarrow> room q d \<Longrightarrow> inv (enq t d q)"
    and inv_deq: "inv q \<Longrightarrow> inv (deq t q)"
begin

lemma drain:
  "inv q \<Longrightarrow> n \<le> length (view q t) \<Longrightarrow>
     inv ((deq t ^^ n) q) \<and> view ((deq t ^^ n) q) t = drop n (view q t)"
proof (induction n)
  case 0
  then show ?case by simp
next
  case (Suc n)
  then have IH: "inv ((deq t ^^ n) q)" "view ((deq t ^^ n) q) t = drop n (view q t)"
    by simp_all
  from Suc.prems IH(2) have "view ((deq t ^^ n) q) t \<noteq> []" by simp
  with IH show ?case by (simp add: view_deq inv_deq drop_Suc tl_drop)
qed

lemma nth_out:
  assumes "inv q" and "n < length (view q t)"
  shows "view ((deq t ^^ n) q) t = view q t ! n # drop (Suc n) (view q t)"
  using drain [OF assms(1), of n t] assms(2) by (simp add: Cons_nth_drop_Suc)

lemma enq_deq_commute:
  assumes "inv q" and "room q d" and "view q t \<noteq> []" and "room (deq t q) d"
  shows "view (deq t (enq s d q)) t' = view (enq s d (deq t q)) t'"
  using assms by (auto simp: view_enq view_deq inv_enq inv_deq)

end

definition mq_view :: "message_queue \<Rightarrow> i64 \<Rightarrow> u8 list list" where
  "mq_view q t = (case bt_get (mq_messages q) t of None \<Rightarrow> [] | Some ms \<Rightarrow> map m_data ms)"

definition mq_room :: "message_queue \<Rightarrow> u8 list \<Rightarrow> bool" where
  "mq_room q d \<longleftrightarrow> mq_total_bytes q + length d \<le> msg_qbytes (mq_ds q)
     \<and> msg_qnum (mq_ds q) < 2 ^ 63 \<and> length d \<le> 2 ^ 62"

definition mq_send :: "i64 \<Rightarrow> u8 list \<Rightarrow> message_queue \<Rightarrow> message_queue" where
  "mq_send t d q = fst (enqueue_message t d q)"

definition mq_take :: "i64 \<Rightarrow> message_queue \<Rightarrow> message_queue" where
  "mq_take t q = fst (remove_message_by_type_and_index t 0 q)"

lemma mq_send_messages:
  assumes "mq_ok q" and "mq_room q d"
  shows "mq_messages (mq_send t d q) =
    bt_insert t ((case bt_get (mq_messages q) t of None \<Rightarrow> [] | Some ms \<Rightarrow> ms)
                 @ [\<lparr>m_mtype = t, m_data = d\<rparr>]) (mq_messages q)"
  using assms
  by (simp add: mq_send_def enqueue_message_def Let_def mq_room_def mq_ok_def uadd_exact)

lemma mq_take_messages:
  assumes "bt_get (mq_messages q) t = Some (m # ms)"
  shows "mq_messages (mq_take t q) =
    (if ms = [] then bt_remove t (mq_messages q) else bt_insert t ms (mq_messages q))"
  using assms by (simp add: mq_take_def remove_message_by_type_and_index_def Let_def)

interpretation mq: typed_fifo mq_view mq_room mq_send mq_take mq_ok
proof
  fix q :: message_queue and t t' :: i64 and d :: "u8 list"
  assume ok: "mq_ok q"
  then have okm: "bt_ok (mq_messages q)" by (simp add: mq_ok_def)
  show "mq_ok (mq_take t q)"
    unfolding mq_take_def using ok by (rule remove_message_ok) (rule prod.collapse [symmetric])
  show "mq_view (mq_take t q) t' = (if t' = t then tl (mq_view q t) else mq_view q t')"
    if "mq_view q t \<noteq> []"
  proof -
    from that obtain m ms where "bt_get (mq_messages q) t = Some (m # ms)"
      by (cases "bt_get (mq_messages q) t") (auto simp: mq_view_def neq_Nil_conv)
    with okm show ?thesis by (simp add: mq_view_def mq_take_messages)
  qed
  assume room: "mq_room q d"
  show "mq_ok (mq_send t d q)"
    unfolding mq_send_def
    by (rule enqueue_message_ok [OF ok _ _ prod.collapse [symmetric]])
      (use room in \<open>simp_all add: mq_room_def\<close>)
  show "mq_view (mq_send t d q) t' = (if t' = t then mq_view q t @ [d] else mq_view q t')"
    using ok room okm by (simp add: mq_view_def mq_send_messages split: option.split)
qed

lemma find_message_by_type_view:
  "find_message_by_type t q = (case mq_view q t of [] \<Rightarrow> None | d # _ \<Rightarrow> Some (t, d))"
  by (simp add: find_message_by_type_def mq_view_def split: option.split list.split)

subsection \<open>The manager's invariant\<close>

definition queue_key :: "message_queue \<Rightarrow> i32" where
  "queue_key q = perm_key (msg_perm (mq_ds q))"

definition msg_sys_ok :: "i32 \<times> msg_manager \<Rightarrow> bool" where
  "msg_sys_ok st \<longleftrightarrow> (let (n, mgr) = st in
     is_i32 n \<and> 0 \<le> n \<and> bt_ok (key_msqid mgr) \<and> bt_ok (msqid_queues mgr)
     \<and> list_all (\<lambda>(i, q). 0 \<le> i \<and> i < n \<and> mq_ok q
         \<and> (queue_key q \<noteq> IPC_PRIVATE \<longrightarrow> bt_get (key_msqid mgr) (queue_key q) = Some i))
         (msqid_queues mgr)
     \<and> list_all (\<lambda>(k, i). k \<noteq> IPC_PRIVATE
         \<and> (case bt_get (msqid_queues mgr) i of None \<Rightarrow> False | Some q \<Rightarrow> queue_key q = k))
         (key_msqid mgr)
     \<and> queue_count mgr \<le> MSGMNI)"

text \<open>The same with lookups instead of list traversals, the form the proofs use.\<close>

lemma msg_sys_ok_iff:
  "msg_sys_ok (n, mgr) \<longleftrightarrow>
     is_i32 n \<and> 0 \<le> n \<and> bt_ok (key_msqid mgr) \<and> bt_ok (msqid_queues mgr)
     \<and> (\<forall>i q. bt_get (msqid_queues mgr) i = Some q \<longrightarrow> 0 \<le> i \<and> i < n \<and> mq_ok q
          \<and> (queue_key q \<noteq> IPC_PRIVATE \<longrightarrow> bt_get (key_msqid mgr) (queue_key q) = Some i))
     \<and> (\<forall>k i. bt_get (key_msqid mgr) k = Some i \<longrightarrow> k \<noteq> IPC_PRIVATE
          \<and> (\<exists>q. bt_get (msqid_queues mgr) i = Some q \<and> queue_key q = k))
     \<and> queue_count mgr \<le> MSGMNI"
proof -
  have ex: "(case x of None \<Rightarrow> False | Some q \<Rightarrow> queue_key q = k)
      \<longleftrightarrow> (\<exists>q. x = Some q \<and> queue_key q = k)" for x k
    by (cases x) auto
  show ?thesis
    unfolding msg_sys_ok_def Let_def prod.case ex
    by (intro conj_cong refl) (simp_all add: bt_all)
qed

lemma msg_sys_okI:
  assumes "is_i32 n" and "0 \<le> n" and "bt_ok (key_msqid mgr)" and "bt_ok (msqid_queues mgr)"
    and "\<And>i q. bt_get (msqid_queues mgr) i = Some q \<Longrightarrow> 0 \<le> i \<and> i < n \<and> mq_ok q"
    and "\<And>i q. bt_get (msqid_queues mgr) i = Some q \<Longrightarrow> queue_key q \<noteq> IPC_PRIVATE
      \<Longrightarrow> bt_get (key_msqid mgr) (queue_key q) = Some i"
    and "\<And>k i. bt_get (key_msqid mgr) k = Some i \<Longrightarrow> k \<noteq> IPC_PRIVATE"
    and "\<And>k i. bt_get (key_msqid mgr) k = Some i
      \<Longrightarrow> \<exists>q. bt_get (msqid_queues mgr) i = Some q \<and> queue_key q = k"
    and "queue_count mgr \<le> MSGMNI"
  shows "msg_sys_ok (n, mgr)"
  unfolding msg_sys_ok_iff using assms by blast

lemma msg_sys_okD:
  assumes "msg_sys_ok (n, mgr)"
  shows "is_i32 n" and "0 \<le> n" and "bt_ok (key_msqid mgr)" and "bt_ok (msqid_queues mgr)"
    and "bt_get (msqid_queues mgr) i = Some q \<Longrightarrow> 0 \<le> i \<and> i < n \<and> mq_ok q"
    and "bt_get (msqid_queues mgr) i = Some q \<Longrightarrow> queue_key q \<noteq> IPC_PRIVATE
      \<Longrightarrow> bt_get (key_msqid mgr) (queue_key q) = Some i"
    and "bt_get (key_msqid mgr) k = Some i \<Longrightarrow> k \<noteq> IPC_PRIVATE"
    and "bt_get (key_msqid mgr) k = Some i
      \<Longrightarrow> \<exists>q. bt_get (msqid_queues mgr) i = Some q \<and> queue_key q = k"
    and "queue_count mgr \<le> MSGMNI"
  using assms unfolding msg_sys_ok_iff by blast+

lemma msg_sys_ok_init: "msg_sys_ok (0, msg_manager_new)"
  by (simp add: msg_sys_ok_def msg_manager_new_def is_i32_def queue_count_def)

lemma msg_sys_ok_queue:
  "msg_sys_ok (n, mgr) \<Longrightarrow> get_queue_by_msqid i mgr = Some q \<Longrightarrow> mq_ok q"
  using msg_sys_okD(5) by (simp add: get_queue_by_msqid_def)

text \<open>Storing a changed queue under its own id keeps the invariant.\<close>

lemma msg_sys_ok_update:
  assumes ok: "msg_sys_ok (n, mgr)" and old: "get_queue_by_msqid i mgr = Some q"
    and new: "mq_ok q'" "queue_key q' = queue_key q"
  shows "msg_sys_ok (n, insert_msqid_queues i q' mgr)"
proof -
  note D = msg_sys_okD [OF ok]
  from old have get: "bt_get (msqid_queues mgr) i = Some q" by (simp add: get_queue_by_msqid_def)
  have look: "bt_get (msqid_queues (insert_msqid_queues i q' mgr)) j =
      (if j = i then Some q' else bt_get (msqid_queues mgr) j)" for j
    using D(4) by (simp add: insert_msqid_queues_def)
  have keys: "key_msqid (insert_msqid_queues i q' mgr) = key_msqid mgr"
    by (simp add: insert_msqid_queues_def)
  show ?thesis
  proof (rule msg_sys_okI, unfold look keys)
    fix k j
    assume "bt_get (key_msqid mgr) k = Some j"
    then obtain p where "bt_get (msqid_queues mgr) j = Some p" and "queue_key p = k"
      using D(8) by blast
    with get new(2)
    show "\<exists>r. (if j = i then Some q' else bt_get (msqid_queues mgr) j) = Some r \<and> queue_key r = k"
      by (cases "j = i") simp_all
  next
    fix j r
    assume "(if j = i then Some q' else bt_get (msqid_queues mgr) j) = Some r"
      and "queue_key r \<noteq> IPC_PRIVATE"
    then show "bt_get (key_msqid mgr) (queue_key r) = Some j"
      using D(6) [OF get] D(6) [of j r] new(2) by (cases "j = i") auto
  next
    fix j r
    assume "(if j = i then Some q' else bt_get (msqid_queues mgr) j) = Some r"
    then show "0 \<le> j \<and> j < n \<and> mq_ok r"
      using D(5) [OF get] D(5) [of j r] new(1) by (cases "j = i") auto
  next
    show "queue_count (insert_msqid_queues i q' mgr) \<le> MSGMNI"
      using D(4,9) get bt_insert_old_length [of "msqid_queues mgr" i q q']
      by (simp add: queue_count_def insert_msqid_queues_def)
  qed (use D in \<open>simp_all add: insert_msqid_queues_def\<close>)
qed

lemma msg_sys_ok_remove:
  assumes ok: "msg_sys_ok (n, mgr)"
  shows "msg_sys_ok (n, remove_msqid i mgr)"
proof -
  note D = msg_sys_okD [OF ok]
  let ?mgr = "remove_msqid i mgr"
  have key: "bt_get (key_msqid ?mgr) k = Some j \<longleftrightarrow> bt_get (key_msqid mgr) k = Some j \<and> j \<noteq> i"
    for k j
    using D(3) by (auto simp: remove_msqid_def bt_get_retain split: option.splits)
  have queue: "bt_get (msqid_queues ?mgr) j = Some q
      \<longleftrightarrow> bt_get (msqid_queues mgr) j = Some q \<and> j \<noteq> i" for j q
    using D(4) by (auto simp: remove_msqid_def)
  show ?thesis
  proof (rule msg_sys_okI, unfold key queue)
    show "queue_count ?mgr \<le> MSGMNI"
      using D(9) le_trans [OF length_filter_le]
      by (simp add: queue_count_def remove_msqid_def bt_remove_def)
  qed (use D in \<open>auto simp: remove_msqid_def\<close>)
qed

text \<open>A new queue under the next id, without a key or with a key not yet in the table.\<close>

lemma msg_sys_ok_new:
  assumes ok: "msg_sys_ok (n, mgr)" and n: "n < 2 ^ 31 - 1"
    and cnt: "queue_count mgr < MSGMNI" and q: "mq_ok q" "queue_key q = key"
    and fresh: "key \<noteq> IPC_PRIVATE \<longrightarrow> bt_get (key_msqid mgr) key = None"
  shows "msg_sys_ok (n + 1, insert_msqid_queues n q
           (if key = IPC_PRIVATE then mgr else insert_key_msqid key n mgr))"
    (is "msg_sys_ok (_, ?mgr)")
proof -
  note D = msg_sys_okD [OF ok]
  from D(5) [of n] have none: "bt_get (msqid_queues mgr) n = None"
    by (cases "bt_get (msqid_queues mgr) n") auto
  have queues: "bt_get (msqid_queues ?mgr) j =
      (if j = n then Some q else bt_get (msqid_queues mgr) j)" for j
    using D(4) by (simp add: insert_msqid_queues_def insert_key_msqid_def)
  have keys: "bt_get (key_msqid ?mgr) k =
      (if k = key \<and> key \<noteq> IPC_PRIVATE then Some n else bt_get (key_msqid mgr) k)" for k
    using D(3) by (simp add: insert_msqid_queues_def insert_key_msqid_def)
  show ?thesis
  proof (rule msg_sys_okI, unfold queues keys)
    fix j r
    assume r: "(if j = n then Some q else bt_get (msqid_queues mgr) j) = Some r"
    then show "0 \<le> j \<and> j < n + 1 \<and> mq_ok r"
      using D(2) q(1) D(5) [of j r] by (simp split: if_splits)
    assume "queue_key r \<noteq> IPC_PRIVATE"
    with r q(2) fresh D(6) [of j r]
    show "(if queue_key r = key \<and> key \<noteq> IPC_PRIVATE then Some n
           else bt_get (key_msqid mgr) (queue_key r)) = Some j"
      by (auto split: if_splits)
  next
    fix k j
    assume kj: "(if k = key \<and> key \<noteq> IPC_PRIVATE then Some n else bt_get (key_msqid mgr) k) = Some j"
    then show "k \<noteq> IPC_PRIVATE" using D(7) [of k j] by (auto split: if_splits)
    from kj q(2) none D(8) [of k j]
    show "\<exists>r. (if j = n then Some q else bt_get (msqid_queues mgr) j) = Some r \<and> queue_key r = k"
      by (auto split: if_splits)
  next
    show "queue_count ?mgr \<le> MSGMNI"
      using cnt bt_insert_fresh_length [OF none, of q]
      by (simp add: queue_count_def insert_msqid_queues_def insert_key_msqid_def)
  qed (use D n in \<open>simp_all add: is_i32_def insert_msqid_queues_def insert_key_msqid_def\<close>)
qed

subsection \<open>Every system call keeps the invariant\<close>

lemma sys_msgget_ok:
  assumes ok: "msg_sys_ok (n, mgr)" and n: "n < 2 ^ 31 - 1"
    and run: "sys_msgget uid gid p now key flg (n, mgr) = (st', r)"
  shows "msg_sys_ok st'"
proof -
  let ?q = "message_queue_new key (flg AND 0x1FF) p uid gid now"
  have q: "mq_ok ?q" "queue_key ?q = key"
    by (rule message_queue_new_ok)
      (simp add: queue_key_def message_queue_new_def msqid_ds_new_def)
  have id: "next_ipc_id n = (n, n + 1)"
    using msg_sys_okD(1) [OF ok] n by (rule next_ipc_id_fresh)
  consider "st' = (n, mgr)"
    | "queue_count mgr < MSGMNI" "key = IPC_PRIVATE" "st' = (n + 1, insert_msqid_queues n ?q mgr)"
    | "queue_count mgr < MSGMNI" "key \<noteq> IPC_PRIVATE" "bt_get (key_msqid mgr) key = None"
      "st' = (n + 1, insert_msqid_queues n ?q (insert_key_msqid key n mgr))"
    using run id
    by (auto simp: sys_msgget_def Let_def get_msqid_by_key_def split: if_splits option.splits)
  then show ?thesis
  proof cases
    case 1
    with ok show ?thesis by simp
  next
    case 2
    with msg_sys_ok_new [OF ok n _ q] show ?thesis by simp
  next
    case 3
    with msg_sys_ok_new [OF ok n _ q] show ?thesis by simp
  qed
qed

text \<open>The crate \<open>starry_vm\<close> loads exactly the number of bytes it is asked for.\<close>

definition vm_loads_exactly :: "'u msg_vm \<Rightarrow> bool" where
  "vm_loads_exactly vm \<longleftrightarrow> (\<forall>a n u d. vm_load_text vm a n u = Ok d \<longrightarrow> length d = n)"

text \<open>
  What an accepted \<open>sys_msgsnd\<close> has checked and done: the message fits both limits of the
  queue, and the new queue is the old one with the message appended.
\<close>

lemma sys_msgsnd_accepted:
  assumes run: "sys_msgsnd vm uid gid p now i msgp sz flg u mgr = (mgr', Ok v)"
    and vm: "vm_loads_exactly vm"
  obtains q mtype d where "get_queue_by_msqid i mgr = Some q" and "sz \<le> MSGMAX" and "length d = sz"
    and "has_ipc_permission (msg_perm (mq_ds q)) uid gid True" and "v = 0"
    and "vm_read_mtype vm msgp u = Ok mtype" and "0 < mtype"
    and "vm_load_text vm (mtext_ptr msgp) sz u = Ok d"
    and "uadd (mq_total_bytes q) sz \<le> msg_qbytes (mq_ds q)"
    and "uadd (msg_qnum (mq_ds q)) 1 \<le> msg_qbytes (mq_ds q)"
    and "mgr' = insert_msqid_queues i
           ((mq_send mtype d q)\<lparr>mq_ds := (mq_ds (mq_send mtype d q))
              \<lparr>msg_lspid := wrap_i32 (int p), msg_stime := now\<rparr>\<rparr>) mgr"
proof -
  obtain q mtype d q' w where facts: "get_queue_by_msqid i mgr = Some q" "sz \<le> MSGMAX"
    "has_ipc_permission (msg_perm (mq_ds q)) uid gid True" "v = 0"
    "vm_read_mtype vm msgp u = Ok mtype" "0 < mtype"
    "vm_load_text vm (mtext_ptr msgp) sz u = Ok d"
    "uadd (mq_total_bytes q) (length d) \<le> msg_qbytes (mq_ds q)"
    "uadd (msg_qnum (mq_ds q)) 1 \<le> msg_qbytes (mq_ds q)"
    "enqueue_message mtype d q = (q', Inr w)"
    "mgr' = insert_msqid_queues i
       (q'\<lparr>mq_ds := (mq_ds q')\<lparr>msg_lspid := wrap_i32 (int p), msg_stime := now\<rparr>\<rparr>) mgr"
    using run
    by (auto simp: sys_msgsnd_def Let_def not_less not_le
        split: if_splits option.splits sum.splits prod.splits)
  moreover from facts(7) vm have "length d = sz" by (simp add: vm_loads_exactly_def)
  moreover from facts(10) have "q' = mq_send mtype d q" by (simp add: mq_send_def)
  ultimately show ?thesis using that by simp
qed

lemma sys_msgsnd_rejected:
  assumes ok: "msg_sys_ok (n, mgr)"
    and run: "sys_msgsnd vm uid gid p now i msgp sz flg u mgr = (mgr', Inl e)"
  shows "mgr' = mgr"
proof -
  have same: "insert_msqid_queues i q mgr = mgr" if "get_queue_by_msqid i mgr = Some q" for q
    using that msg_sys_okD(4) [OF ok]
    by (simp add: insert_msqid_queues_def get_queue_by_msqid_def bt_insert_same)
  show ?thesis
    using run same
    by (auto simp: sys_msgsnd_def enqueue_message_def Let_def
        split: if_splits option.splits sum.splits prod.splits)
qed

lemma mq_send_frame:
  "msg_perm (mq_ds (mq_send t d q)) = msg_perm (mq_ds q)"
  "mq_mark_removed (mq_send t d q) = mq_mark_removed q"
  "msg_qbytes (mq_ds (mq_send t d q)) = msg_qbytes (mq_ds q)"
  by (simp_all add: mq_send_def enqueue_message_def Let_def)

lemma mq_take_frame:
  "msg_perm (mq_ds (mq_take t q)) = msg_perm (mq_ds q)"
  "mq_mark_removed (mq_take t q) = mq_mark_removed q"
  "msg_qbytes (mq_ds (mq_take t q)) = msg_qbytes (mq_ds q)"
  by (simp_all add: mq_take_def remove_message_by_type_and_index_def Let_def split: option.split)

text \<open>Pids and time stamps are not part of the invariant.\<close>

lemma mq_ok_stamp [simp]:
  "mq_ok (q\<lparr>mq_ds := (mq_ds q)\<lparr>msg_lspid := a, msg_stime := b\<rparr>\<rparr>) = mq_ok q"
  "mq_ok (q\<lparr>mq_ds := (mq_ds q)\<lparr>msg_lrpid := a, msg_rtime := b\<rparr>\<rparr>) = mq_ok q"
  "mq_ok (q\<lparr>mq_ds := (mq_ds q)\<lparr>msg_ctime := b\<rparr>\<rparr>) = mq_ok q"
  "mq_ok (q\<lparr>mq_mark_removed := c\<rparr>) = mq_ok q"
  by (simp_all add: mq_ok_def)

lemma sys_msgsnd_ok:
  assumes ok: "msg_sys_ok (n, mgr)" and vm: "vm_loads_exactly vm"
    and run: "sys_msgsnd vm uid gid p now i msgp sz flg u mgr = (mgr', r)"
  shows "msg_sys_ok (n, mgr')"
proof (cases r)
  case (Inl e)
  with run have "mgr' = mgr" by (auto intro: sys_msgsnd_rejected [OF ok])
  with ok show ?thesis by simp
next
  case (Inr v)
  with run obtain q mtype d where q: "get_queue_by_msqid i mgr = Some q"
    and sz: "sz \<le> MSGMAX" "length d = sz"
    and lim: "uadd (mq_total_bytes q) sz \<le> msg_qbytes (mq_ds q)"
      "uadd (msg_qnum (mq_ds q)) 1 \<le> msg_qbytes (mq_ds q)"
    and mgr': "mgr' = insert_msqid_queues i
           ((mq_send mtype d q)\<lparr>mq_ds := (mq_ds (mq_send mtype d q))
              \<lparr>msg_lspid := wrap_i32 (int p), msg_stime := now\<rparr>\<rparr>) mgr"
    by (auto elim: sys_msgsnd_accepted [OF _ vm])
  have okq: "mq_ok q" using ok q by (rule msg_sys_ok_queue)
  have "mq_room q d"
    using okq sz lim by (simp add: mq_room_def mq_ok_def MSGMAX_def uadd_exact)
  with okq have "mq_ok (mq_send mtype d q)" by (rule mq.inv_enq)
  then show ?thesis
    unfolding mgr' using ok q
    by (intro msg_sys_ok_update) (simp_all add: queue_key_def mq_send_frame)
qed

text \<open>A message chosen for removal is the oldest one of its type, so the removal succeeds.\<close>

lemma msgrcv_match_removed:
  assumes ok: "mq_ok q" and run: "msgrcv_match mtyp flg q = Ok (t, d, idx, True)"
  shows "idx = 0" and "\<exists>rest. mq_view q t = d # rest"
proof -
  let ?found = "find_first_message q = Some (t, d) \<or> find_message_by_type mtyp q = Some (t, d)
    \<or> find_message_not_equal mtyp q = Some (t, d)
    \<or> find_message_less_equal (wrap_i64 \<bar>mtyp\<bar>) q = Some (t, d)"
  from run have idx: "idx = 0" and found: ?found
    by (auto simp: msgrcv_match_def Let_def split: if_splits option.splits)
  show "idx = 0" by (rule idx)
  have "\<exists>m rest. bt_get (mq_messages q) t = Some (m # rest) \<and> d = m_data m"
    using found find_sound [OF ok, of t d mtyp] find_sound [OF ok, of t d "wrap_i64 \<bar>mtyp\<bar>"]
    by metis
  then show "\<exists>rest. mq_view q t = d # rest" by (auto simp: mq_view_def)
qed

lemma remove_message_oldest:
  assumes "mq_view q t = d # rest"
  shows "\<exists>m. remove_message_by_type_and_index t 0 q = (mq_take t q, Ok m)"
  using assms
  by (auto simp: mq_take_def remove_message_by_type_and_index_def mq_view_def Let_def
      split: option.splits)

text \<open>What a successful \<open>sys_msgrcv\<close> has done.\<close>

lemma sys_msgrcv_accepted:
  assumes ok: "msg_sys_ok (n, mgr)"
    and run: "sys_msgrcv vm uid gid p now i msgp sz mtyp flg u mgr = (mgr', u', Ok v)"
  obtains q t d idx rm where "get_queue_by_msqid i mgr = Some q" and "\<not> mq_mark_removed q"
    and "has_ipc_permission (msg_perm (mq_ds q)) uid gid False"
    and "msgrcv_match mtyp flg q = Ok (t, d, idx, rm)"
    and "length d \<le> sz \<or> has_flags flg MSG_NOERROR" and "v = int (min (length d) sz)"
    and "mgr' = insert_msqid_queues i
           (let q' = (if rm then mq_take t q else q)
            in q'\<lparr>mq_ds := (mq_ds q')\<lparr>msg_lrpid := wrap_i32 (int p), msg_rtime := now\<rparr>\<rparr>) mgr"
proof -
  from run obtain q t d idx rm where q: "get_queue_by_msqid i mgr = Some q" "\<not> mq_mark_removed q"
      "has_ipc_permission (msg_perm (mq_ds q)) uid gid False"
      "msgrcv_match mtyp flg q = Ok (t, d, idx, rm)"
      "length d \<le> sz \<or> has_flags flg MSG_NOERROR" "v = int (min (length d) sz)"
    by (auto simp: sys_msgrcv_def Let_def not_less split: if_splits option.splits sum.splits prod.splits)
  have okq: "mq_ok q" using ok q(1) by (rule msg_sys_ok_queue)
  have rem: "\<exists>m. remove_message_by_type_and_index t idx q = (mq_take t q, Ok m)" if rm
    using msgrcv_match_removed [OF okq, of mtyp flg t d idx] q(4) that
    by (auto dest: remove_message_oldest)
  have "mgr' = insert_msqid_queues i
           (let q' = (if rm then mq_take t q else q)
            in q'\<lparr>mq_ds := (mq_ds q')\<lparr>msg_lrpid := wrap_i32 (int p), msg_rtime := now\<rparr>\<rparr>) mgr"
    using run q rem
    by (cases rm) (auto simp: sys_msgrcv_def Let_def split: if_splits option.splits sum.splits prod.splits)
  with q that show ?thesis by blast
qed

lemma sys_msgrcv_rejected:
  assumes ok: "msg_sys_ok (n, mgr)"
    and run: "sys_msgrcv vm uid gid p now i msgp sz mtyp flg u mgr = (mgr', u', Inl e)"
  shows "mgr' = mgr"
proof -
  have rem: "\<exists>m. remove_message_by_type_and_index t idx q = (mq_take t q, Ok m)"
    if "get_queue_by_msqid i mgr = Some q" and "msgrcv_match mtyp flg q = Ok (t, d, idx, True)"
    for q t d idx
    using msgrcv_match_removed [OF msg_sys_ok_queue [OF ok that(1)] that(2)]
    by (auto dest: remove_message_oldest)
  show ?thesis
    using run
    by (auto simp: sys_msgrcv_def Let_def split: if_splits option.splits sum.splits prod.splits
        dest!: rem)
qed

lemma sys_msgrcv_ok:
  assumes ok: "msg_sys_ok (n, mgr)"
    and run: "sys_msgrcv vm uid gid p now i msgp sz mtyp flg u mgr = (mgr', u', r)"
  shows "msg_sys_ok (n, mgr')"
proof (cases r)
  case (Inl e)
  with run have "mgr' = mgr" by (auto intro: sys_msgrcv_rejected [OF ok])
  with ok show ?thesis by simp
next
  case (Inr v)
  with run obtain q t rm where q: "get_queue_by_msqid i mgr = Some q"
    and mgr': "mgr' = insert_msqid_queues i
           (let q' = (if rm then mq_take t q else q)
            in q'\<lparr>mq_ds := (mq_ds q')\<lparr>msg_lrpid := wrap_i32 (int p), msg_rtime := now\<rparr>\<rparr>) mgr"
    by (auto elim: sys_msgrcv_accepted [OF ok])
  have "mq_ok q" using ok q by (rule msg_sys_ok_queue)
  then have "mq_ok (if rm then mq_take t q else q)" by (simp add: mq.inv_deq)
  then show ?thesis
    unfolding mgr' Let_def
    by (intro msg_sys_ok_update [OF ok q]) (simp_all add: queue_key_def mq_take_frame)
qed

text \<open>\<open>IPC_SET\<close> keeps the invariant as long as the requested size stays below \<open>2 ^ 63\<close>.\<close>

lemma msgctl_set_ok:
  assumes "mq_ok q" and "msg_qbytes ub \<le> 2 ^ 63"
  shows "mq_ok (fst (msgctl_set priv now ub q))"
    and "queue_key (fst (msgctl_set priv now ub q)) = queue_key q"
  using assms by (simp_all add: msgctl_set_def mq_ok_def queue_key_def Let_def)

text \<open>The effect of \<open>sys_msgctl\<close> on the manager: only two commands have one.\<close>

lemma sys_msgctl_mgr:
  "fst (sys_msgctl vm uid gid now i cmd buf u mgr) =
     (case get_queue_by_msqid i mgr of
        None \<Rightarrow> mgr
      | Some q \<Rightarrow>
          if mq_mark_removed q \<or> uid \<noteq> 0 \<and> uid \<noteq> perm_uid (msg_perm (mq_ds q))
             \<and> uid \<noteq> perm_cuid (msg_perm (mq_ds q)) then mgr
          else if cmd = IPC_SET then
            (case vm_read_ds vm buf u of Inl e \<Rightarrow> mgr
             | Inr ub \<Rightarrow> insert_msqid_queues i (fst (msgctl_set (uid = 0) now ub q)) mgr)
          else if cmd = IPC_RMID then msgctl_rmid i now q mgr
          else mgr)"
proof -
  consider "cmd = IPC_RMID" | "cmd = IPC_SET" | "cmd = IPC_STAT" | "cmd \<notin> {IPC_RMID, IPC_SET, IPC_STAT}"
    by blast
  then show ?thesis
    by cases (auto simp: sys_msgctl_def Let_def ipc_cmds split: option.split sum.split prod.split)
qed

lemma sys_msgctl_ok:
  assumes ok: "msg_sys_ok (n, mgr)"
    and lim: "\<And>ub. vm_read_ds vm buf u = Ok ub \<Longrightarrow> msg_qbytes ub \<le> 2 ^ 63"
    and run: "sys_msgctl vm uid gid now i cmd buf u mgr = (mgr', u', r)"
  shows "msg_sys_ok (n, mgr')"
proof -
  consider "mgr' = mgr"
    | q ub where "get_queue_by_msqid i mgr = Some q" "vm_read_ds vm buf u = Ok ub"
      "mgr' = insert_msqid_queues i (fst (msgctl_set (uid = 0) now ub q)) mgr"
    | q where "get_queue_by_msqid i mgr = Some q" "mgr' = msgctl_rmid i now q mgr"
    using sys_msgctl_mgr [of vm uid gid now i cmd buf u mgr] run
    by (auto split: if_splits option.splits sum.splits)
  then show ?thesis
  proof cases
    case 1
    with ok show ?thesis by simp
  next
    case 2
    then show ?thesis
      using msg_sys_ok_update [OF ok 2(1)] msgctl_set_ok [OF msg_sys_ok_queue [OF ok 2(1)]] lim
      by simp
  next
    case 3
    note okq = msg_sys_ok_queue [OF ok 3(1)] and upd = msg_sys_ok_update [OF ok 3(1)]
    have "msg_sys_ok (n, insert_msqid_queues i (q\<lparr>mq_mark_removed := True\<rparr>) mgr)"
      by (rule upd) (use okq in \<open>simp_all add: queue_key_def\<close>)
    moreover have "msg_sys_ok (n, insert_msqid_queues i
        (q\<lparr>mq_mark_removed := True, mq_ds := (mq_ds q)\<lparr>msg_ctime := now\<rparr>\<rparr>) mgr)"
      by (rule upd) (use okq in \<open>simp_all add: queue_key_def mq_ok_def\<close>)
    ultimately show ?thesis
      using 3(2) by (simp add: msgctl_rmid_def Let_def msg_sys_ok_remove)
  qed
qed

subsection \<open>The system as a transition relation\<close>

text \<open>
  One step is one system call of any caller, or another IPC call taking the next identifier
  (the counter is shared with shared memory). The two side conditions are the bounds of the
  model: fewer than \<open>2 ^ 31 - 1\<close> identifiers have been handed out, and \<open>IPC_SET\<close> asks
  for at most \<open>2 ^ 63\<close> bytes.
\<close>

inductive msg_step :: "'u msg_vm \<Rightarrow> i32 \<times> msg_manager \<Rightarrow> i32 \<times> msg_manager \<Rightarrow> bool" for vm where
  get: "n < 2 ^ 31 - 1 \<Longrightarrow> sys_msgget uid gid p now key flg (n, mgr) = (st', r)
    \<Longrightarrow> msg_step vm (n, mgr) st'"
| snd: "sys_msgsnd vm uid gid p now i msgp sz flg u mgr = (mgr', r)
    \<Longrightarrow> msg_step vm (n, mgr) (n, mgr')"
| rcv: "sys_msgrcv vm uid gid p now i msgp sz mtyp flg u mgr = (mgr', u', r)
    \<Longrightarrow> msg_step vm (n, mgr) (n, mgr')"
| ctl: "(\<And>ub. vm_read_ds vm buf u = Ok ub \<Longrightarrow> msg_qbytes ub \<le> 2 ^ 63)
    \<Longrightarrow> sys_msgctl vm uid gid now i cmd buf u mgr = (mgr', u', r)
    \<Longrightarrow> msg_step vm (n, mgr) (n, mgr')"
| other_id: "n < 2 ^ 31 - 1 \<Longrightarrow> msg_step vm (n, mgr) (n + 1, mgr)"

inductive_cases msg_stepE: "msg_step vm st st'"

lemma msg_sys_ok_bump:
  assumes "msg_sys_ok (n, mgr)" and "n < 2 ^ 31 - 1"
  shows "msg_sys_ok (n + 1, mgr)"
proof -
  note D = msg_sys_okD [OF assms(1)]
  have range: "0 \<le> i \<and> i < n + 1 \<and> mq_ok q" if "bt_get (msqid_queues mgr) i = Some q" for i q
    using D(5) [OF that] by simp
  show ?thesis
    by (rule msg_sys_okI [OF _ _ D(3,4) range D(6,7,8,9)])
      (use D(1,2) assms(2) in \<open>simp_all add: is_i32_def\<close>)
qed

lemma msg_step_ok:
  assumes "msg_step vm st st'" and "vm_loads_exactly vm" and "msg_sys_ok st"
  shows "msg_sys_ok st'"
  using assms
  by (induction rule: msg_step.induct)
    (blast intro: sys_msgget_ok sys_msgsnd_ok sys_msgrcv_ok sys_msgctl_ok msg_sys_ok_bump)+

lemma msg_steps_ok:
  assumes "(msg_step vm)\<^sup>*\<^sup>* st st'" and "vm_loads_exactly vm" and "msg_sys_ok st"
  shows "msg_sys_ok st'"
  using assms by (induction rule: rtranclp_induct) (blast intro: msg_step_ok)+

text \<open>A queue that \<open>IPC_RMID\<close> has marked stays in the table, marked, whatever is called.\<close>

definition queue_removed :: "i32 \<Rightarrow> i32 \<times> msg_manager \<Rightarrow> bool" where
  "queue_removed i st = (case get_queue_by_msqid i (snd st) of
     None \<Rightarrow> False | Some q \<Rightarrow> mq_mark_removed q)"

lemma queue_removed_insert:
  assumes "msg_sys_ok (n, mgr)"
  shows "queue_removed i (m, insert_msqid_queues j q mgr) =
    (if i = j then mq_mark_removed q else queue_removed i (n, mgr))"
  using msg_sys_okD(4) [OF assms]
  by (simp add: queue_removed_def get_queue_by_msqid_def insert_msqid_queues_def)

lemma queue_removed_key [simp]:
  "queue_removed i (m, insert_msqid_queues j q (insert_key_msqid k v mgr)) =
   queue_removed i (m, insert_msqid_queues j q mgr)"
  by (simp add: queue_removed_def get_queue_by_msqid_def insert_msqid_queues_def insert_key_msqid_def)

lemma msgget_keeps_removed:
  assumes ok: "msg_sys_ok (n, mgr)" and n: "n < 2 ^ 31 - 1" and rm: "queue_removed i (n, mgr)"
    and run: "sys_msgget uid gid p now key flg (n, mgr) = (st', r)"
  shows "queue_removed i st'"
proof -
  have "i < n"
    using rm msg_sys_okD(5) [OF ok, of i]
    by (auto simp: queue_removed_def get_queue_by_msqid_def split: option.splits)
  moreover have "next_ipc_id n = (n, n + 1)"
    using msg_sys_okD(1) [OF ok] n by (rule next_ipc_id_fresh)
  ultimately show ?thesis
    using run rm
    by (auto simp: sys_msgget_def Let_def queue_removed_insert [OF ok]
        split: if_splits option.splits)
qed

lemma msgsnd_keeps_removed:
  assumes ok: "msg_sys_ok (n, mgr)" and vm: "vm_loads_exactly vm" and rm: "queue_removed i (n, mgr)"
    and run: "sys_msgsnd vm uid gid p now j msgp sz flg u mgr = (mgr', r)"
  shows "queue_removed i (n, mgr')"
proof (cases r)
  case (Inl e)
  with run have "mgr' = mgr" by (auto intro: sys_msgsnd_rejected [OF ok])
  with rm show ?thesis by simp
next
  case (Inr v)
  with run rm show ?thesis
    by (auto elim!: sys_msgsnd_accepted [OF _ vm] simp: queue_removed_insert [OF ok] mq_send_frame)
      (simp add: queue_removed_def)
qed

lemma msgrcv_keeps_removed:
  assumes ok: "msg_sys_ok (n, mgr)" and rm: "queue_removed i (n, mgr)"
    and run: "sys_msgrcv vm uid gid p now j msgp sz mtyp flg u mgr = (mgr', u', r)"
  shows "queue_removed i (n, mgr')"
proof (cases r)
  case (Inl e)
  with run have "mgr' = mgr" by (auto intro: sys_msgrcv_rejected [OF ok])
  with rm show ?thesis by simp
next
  case (Inr v)
  with run rm show ?thesis
    by (auto elim!: sys_msgrcv_accepted [OF ok] simp: queue_removed_insert [OF ok])
      (simp_all add: queue_removed_def)
qed

lemma msgctl_keeps_removed:
  assumes ok: "msg_sys_ok (n, mgr)" and rm: "queue_removed i (n, mgr)"
    and run: "sys_msgctl vm uid gid now j cmd buf u mgr = (mgr', u', r)"
  shows "queue_removed i (n, mgr')"
proof -
  have "i \<noteq> j" if "get_queue_by_msqid j mgr = Some q" and "\<not> mq_mark_removed q" for q
    using rm that by (auto simp: queue_removed_def)
  then show ?thesis
    using sys_msgctl_mgr [of vm uid gid now j cmd buf u mgr] run rm msg_sys_okD(4) [OF ok]
    by (auto simp: queue_removed_insert [OF ok] msgctl_rmid_def Let_def
        queue_removed_def get_queue_by_msqid_def remove_msqid_def insert_msqid_queues_def
        split: if_splits option.splits sum.splits)
qed

lemma msg_step_keeps_removed:
  assumes "msg_step vm st st'" and "vm_loads_exactly vm" and "msg_sys_ok st"
    and "queue_removed i st"
  shows "queue_removed i st'"
  using assms
proof (induction rule: msg_step.induct)
  case (other_id n mgr)
  then show ?case by (simp add: queue_removed_def)
qed (blast intro: msgget_keeps_removed msgsnd_keeps_removed msgrcv_keeps_removed
      msgctl_keeps_removed)+

lemma msg_steps_keep_removed:
  assumes "(msg_step vm)\<^sup>*\<^sup>* st st'" and "vm_loads_exactly vm" and "msg_sys_ok st"
    and "queue_removed i st"
  shows "queue_removed i st'"
  using assms
  by (induction rule: rtranclp_induct) (blast intro: msg_step_keeps_removed msg_steps_ok)+

subsection \<open>Send followed by receive\<close>

lemma mq_room_accepted:
  assumes "mq_ok q" and "length d \<le> MSGMAX"
    and "uadd (mq_total_bytes q) (length d) \<le> msg_qbytes (mq_ds q)"
    and "uadd (msg_qnum (mq_ds q)) 1 \<le> msg_qbytes (mq_ds q)"
  shows "mq_room q d"
  using assms by (simp add: mq_room_def mq_ok_def MSGMAX_def uadd_exact)

lemma mq_view_none:
  assumes "mq_ok q" and "mq_view q t = []"
  shows "bt_get (mq_messages q) t = None"
proof (cases "bt_get (mq_messages q) t")
  case (Some ms)
  with typed_list_get [OF assms(1)] assms(2) show ?thesis by (simp add: mq_view_def typed_list_def)
qed

lemma mq_send_total:
  assumes "mq_ok q" and "mq_room q d"
  shows "mq_total_bytes (mq_send t d q) = mq_total_bytes q + length d"
  using assms
  by (simp add: mq_send_def enqueue_message_def Let_def mq_room_def mq_ok_def uadd_exact)

lemma mq_take_total:
  assumes "mq_ok q" and "mq_view q t = d # rest"
  shows "mq_total_bytes (mq_take t q) + length d = mq_total_bytes q"
proof -
  from assms(2) obtain m ms where get: "bt_get (mq_messages q) t = Some (m # ms)" and d: "d = m_data m"
    by (auto simp: mq_view_def split: option.splits)
  from assms(1) have "length d \<le> mq_total_bytes q"
    using bt_sum_remove [of "mq_messages q" msgs_bytes t] get d by (simp add: mq_ok_def)
  with get d show ?thesis
    by (simp add: mq_take_def remove_message_by_type_and_index_def Let_def)
qed

lemma mq_take_send:
  assumes ok: "mq_ok q" and room: "mq_room q d" and none: "mq_view q t = []"
  shows "mq_view (mq_send t d q) t = [d]"
    and "mq_messages (mq_take t (mq_send t d q)) = mq_messages q"
    and "mq_total_bytes (mq_take t (mq_send t d q)) = mq_total_bytes q"
proof -
  show one: "mq_view (mq_send t d q) t = [d]"
    using mq.view_enq [OF ok room, of t t] none by simp
  note absent = mq_view_none [OF ok none]
  have okm: "bt_ok (mq_messages q)" using ok by (simp add: mq_ok_def)
  have "mq_messages (mq_send t d q) = bt_insert t [\<lparr>m_mtype = t, m_data = d\<rparr>] (mq_messages q)"
    using mq_send_messages [OF ok room] absent by simp
  with mq_take_messages [of "mq_send t d q" t] okm absent
  show "mq_messages (mq_take t (mq_send t d q)) = mq_messages q"
    by (simp add: bt_remove_insert_fresh)
  show "mq_total_bytes (mq_take t (mq_send t d q)) = mq_total_bytes q"
    using mq_take_total [OF mq.inv_enq [OF ok room] one] mq_send_total [OF ok room, of t] by simp
qed

text \<open>A receive by type, forwards: the oldest message of the type is delivered.\<close>

lemma sys_msgrcv_by_type:
  assumes "get_queue_by_msqid i mgr = Some q" and "\<not> mq_mark_removed q"
    and "has_ipc_permission (msg_perm (mq_ds q)) uid gid False"
    and "0 < t" and "mq_view q t = d # rest" and "length d \<le> sz"
    and "vm_write_mtype vm rp t u1 = (u2, Ok ())"
    and "vm_write_text vm (mtext_ptr rp) d u2 = (u3, Ok ())"
  shows "sys_msgrcv vm uid gid p now i rp sz t 0 u1 mgr =
    (insert_msqid_queues i
       ((mq_take t q)\<lparr>mq_ds := (mq_ds (mq_take t q))
          \<lparr>msg_lrpid := wrap_i32 (int p), msg_rtime := now\<rparr>\<rparr>) mgr, u3, Ok (int (length d)))"
  using assms remove_message_oldest [OF assms(5)]
  by (auto simp: sys_msgrcv_def msgrcv_match_def find_message_by_type_view has_flags_def
      MSG_COPY_def MSG_EXCEPT_def Let_def)

lemma mq_stamp [simp]:
  "mq_view (q\<lparr>mq_ds := ds\<rparr>) = mq_view q"
  "mq_messages (mq_take t (q\<lparr>mq_ds := ds\<rparr>)) = mq_messages (mq_take t q)"
  "mq_total_bytes (mq_take t (q\<lparr>mq_ds := ds\<rparr>)) = mq_total_bytes (mq_take t q)"
  by (auto simp: fun_eq_iff mq_view_def mq_take_def remove_message_by_type_and_index_def Let_def
      split: option.split)

end
