(* ===== verification/Msg_Theorems.thy ===== *)
theory Msg_Theorems
  imports Msg_System
begin

section \<open>Message queues: the properties\<close>

text \<open>
  What \<open>api/src/syscall/ipc/msg.rs\<close> guarantees to its callers, over the definitions of
  \<open>Msg_Queue\<close> and \<open>Msg_Syscalls\<close>. The witnesses run the system calls on a small concrete
  user memory: one \<open>msgbuf\<close> (type and text) and one \<open>msqid_ds\<close>, at any address.
\<close>

subsection \<open>A concrete user memory\<close>

definition buf_vm :: "(i64 \<times> u8 list \<times> msqid_ds) msg_vm" where
  "buf_vm = \<lparr>vm_read_mtype = (\<lambda>_ (t, d, ds). Ok t),
     vm_load_text = (\<lambda>_ n (t, d, ds). if n \<le> length d then Ok (take n d) else Fail BadAddress),
     vm_write_mtype = (\<lambda>_ t' (t, d, ds). ((t', d, ds), Ok ())),
     vm_write_text = (\<lambda>_ d' (t, d, ds). ((t, d', ds), Ok ())),
     vm_write_info = (\<lambda>_ _ u. (u, Ok ())),
     vm_write_ds = (\<lambda>_ ds' (t, d, ds). ((t, d, ds'), Ok ())),
     vm_read_ds = (\<lambda>_ (t, d, ds). Ok ds)\<rparr>"

lemma buf_vm_loads: "vm_loads_exactly buf_vm"
  by (auto simp: vm_loads_exactly_def buf_vm_def split: if_splits)

definition demo_ds :: msqid_ds where
  "demo_ds = msqid_ds_new 0 0x1B6 1 0 0 0"

definition demo_queue :: message_queue where
  "demo_queue = (message_queue_new 7 0x1B6 1 0 0 0)"

definition demo_mgr :: msg_manager where
  "demo_mgr = \<lparr>key_msqid = [(7, 0)], msqid_queues = [(0, demo_queue)]\<rparr>"

lemma demo_queue_ok: "mq_ok demo_queue"
  unfolding demo_queue_def by (rule message_queue_new_ok)

lemma demo_mgr_ok: "msg_sys_ok (1, demo_mgr)"
  using demo_queue_ok
  by (simp add: msg_sys_ok_def demo_mgr_def is_i32_def queue_count_def MSGMNI_def bt_ok_def
      bt_get_def queue_key_def demo_queue_def message_queue_new_def msqid_ds_new_def IPC_PRIVATE_def)

subsection \<open>The invariant\<close>

text \<open>
  C1: Every state the message-queue system calls can reach from boot is well formed. The key
  table and the queue table agree, every queue's byte and message counters equal what its
  lists hold, no list of a type is empty or holds a message of another type, identifiers
  are below the counter, and there are at most \<open>MSGMNI\<close> queues. This holds for any
  interleaving of the calls of any processes, failed calls included.
\<close>

theorem msg_reachable_ok:
  assumes "(msg_step vm)\<^sup>*\<^sup>* (0, msg_manager_new) st" and "vm_loads_exactly vm"
  shows "msg_sys_ok st"
  using msg_steps_ok [OF assms] msg_sys_ok_init by blast

lemma demo_created:
  "sys_msgget 0 0 1 0 7 0x3B6 (0, msg_manager_new) = ((1, demo_mgr), Ok 0)"
  by (simp add: sys_msgget_def msg_manager_new_def queue_count_def MSGMNI_def IPC_PRIVATE_def
      get_msqid_by_key_def bt_get_def any_flag_def IPC_CREAT_def next_ipc_id_def wrap_i32_def
      insert_msqid_queues_def insert_key_msqid_def demo_mgr_def demo_queue_def)

theorem msg_reachable_ok_witness: "msg_sys_ok (1, demo_mgr)"
proof (rule msg_reachable_ok [where vm = buf_vm])
  have "msg_step buf_vm (0, msg_manager_new) (1, demo_mgr)"
    by (rule msg_step.get [OF _ demo_created]) simp
  then show "(msg_step buf_vm)\<^sup>*\<^sup>* (0, msg_manager_new) (1, demo_mgr)" by (rule r_into_rtranclp)
qed (rule buf_vm_loads)

subsection \<open>Sending and receiving\<close>

text \<open>
  C23: Round trip. A message that \<open>sys_msgsnd\<close> accepted is what the next \<open>sys_msgrcv\<close> of
  its type returns, when no older message of that type is queued: the type and exactly the
  text that was sent are written to the receiver's buffer, the result is the text's
  length, and the queue's messages and byte count are again those before the send.
\<close>

theorem msgsnd_msgrcv_roundtrip:
  assumes ok: "msg_sys_ok (n, mgr)" and vm: "vm_loads_exactly vm"
    and q: "get_queue_by_msqid i mgr = Some q" "mq_view q mtype = []" "\<not> mq_mark_removed q"
    and src: "vm_read_mtype vm sp u = Ok mtype" "vm_load_text vm (mtext_ptr sp) sz u = Ok d"
    and snd: "sys_msgsnd vm uid gid p now i sp sz flg u mgr = (mgr1, Ok 0)"
    and wr: "vm_write_mtype vm rp mtype u1 = (u2, Ok ())"
      "vm_write_text vm (mtext_ptr rp) d u2 = (u3, Ok ())"
    and rd: "has_ipc_permission (msg_perm (mq_ds q)) ruid rgid False" "sz \<le> rsz"
  shows "\<exists>mgr2 q2. sys_msgrcv vm ruid rgid rpid rnow i rp rsz mtype 0 u1 mgr1
             = (mgr2, u3, Ok (int sz))
           \<and> get_queue_by_msqid i mgr2 = Some q2
           \<and> mq_messages q2 = mq_messages q \<and> mq_total_bytes q2 = mq_total_bytes q"
proof -
  from snd q src have
    sz: "sz \<le> MSGMAX" "length d = sz" and pos: "0 < mtype"
    and lim: "uadd (mq_total_bytes q) sz \<le> msg_qbytes (mq_ds q)"
      "uadd (msg_qnum (mq_ds q)) 1 \<le> msg_qbytes (mq_ds q)"
    and mgr1: "mgr1 = insert_msqid_queues i
           ((mq_send mtype d q)\<lparr>mq_ds := (mq_ds (mq_send mtype d q))
              \<lparr>msg_lspid := wrap_i32 (int p), msg_stime := now\<rparr>\<rparr>) mgr"
    by (auto elim!: sys_msgsnd_accepted [OF _ vm])
  define q1 where "q1 = (mq_send mtype d q)\<lparr>mq_ds := (mq_ds (mq_send mtype d q))
              \<lparr>msg_lspid := wrap_i32 (int p), msg_stime := now\<rparr>\<rparr>"
  have okq: "mq_ok q" using ok q(1) by (rule msg_sys_ok_queue)
  have room: "mq_room q d" using okq sz lim by (intro mq_room_accepted) simp_all
  note undo = mq_take_send [OF okq room q(2)]
  have queues: "bt_ok (msqid_queues mgr)" by (rule msg_sys_okD(4) [OF ok])
  then have get: "get_queue_by_msqid i mgr1 = Some q1"
    by (simp add: mgr1 q1_def get_queue_by_msqid_def insert_msqid_queues_def)
  show ?thesis
    using sys_msgrcv_by_type [OF get _ _ pos _ _ wr, of ruid rgid "[]" rsz rpid rnow] queues q rd sz undo
    by (simp add: q1_def mgr1 mq_send_frame get_queue_by_msqid_def insert_msqid_queues_def)
qed

theorem msgsnd_msgrcv_roundtrip_witness:
  "\<exists>mgr2 q2. sys_msgrcv buf_vm 0 0 2 9 0 0x2000 16 5 0 (0, [], demo_ds)
       (fst (sys_msgsnd buf_vm 0 0 1 8 0 0x1000 2 0 (5, [104, 105], demo_ds) demo_mgr))
     = (mgr2, (5, [104, 105], demo_ds), Ok 2)
     \<and> get_queue_by_msqid 0 mgr2 = Some q2
     \<and> mq_messages q2 = mq_messages demo_queue \<and> mq_total_bytes q2 = mq_total_bytes demo_queue"
proof -
  have get: "get_queue_by_msqid 0 demo_mgr = Some demo_queue"
    by (simp add: get_queue_by_msqid_def demo_mgr_def bt_get_def)
  have snd: "sys_msgsnd buf_vm 0 0 1 8 0 0x1000 2 0 (5, [104, 105], demo_ds) demo_mgr =
    (fst (sys_msgsnd buf_vm 0 0 1 8 0 0x1000 2 0 (5, [104, 105], demo_ds) demo_mgr), Ok 0)"
    by (simp add: sys_msgsnd_def get has_ipc_permission_def buf_vm_def MSGMAX_def demo_queue_def
        message_queue_new_def msqid_ds_new_def enqueue_message_def MSGMNB_def uadd_def Let_def)
  show ?thesis
    using msgsnd_msgrcv_roundtrip [OF demo_mgr_ok buf_vm_loads get _ _ _ _ snd,
        where mtype = 5 and d = "[104, 105]" and rp = "0x2000" and ?u1.0 = "(0, [], demo_ds)"
          and ?u2.0 = "(5, [], demo_ds)" and ?u3.0 = "(5, [104, 105], demo_ds)"
          and ruid = 0 and rgid = 0 and rsz = 16 and rpid = 2 and rnow = 9]
    by (simp add: demo_queue_def message_queue_new_def mq_view_def bt_get_def buf_vm_def
        has_ipc_permission_def)
qed

definition send_all :: "(i64 \<times> u8 list) list \<Rightarrow> message_queue \<Rightarrow> message_queue" where
  "send_all msgs q = foldl (\<lambda>q (t, d). mq_send t d q) q msgs"

lemma send_all_view:
  assumes "mq_ok q" and "list_all (\<lambda>(t, d). length d \<le> MSGMAX) msgs"
    and "mq_total_bytes q + sum_list (map (\<lambda>(t, d). length d) msgs) \<le> msg_qbytes (mq_ds q)"
    and "msg_qnum (mq_ds q) + length msgs \<le> 2 ^ 63"
  shows "mq_ok (send_all msgs q)
    \<and> mq_view (send_all msgs q) t = mq_view q t @ map snd (filter (\<lambda>m. fst m = t) msgs)"
  using assms
proof (induction msgs arbitrary: q)
  case Nil
  then show ?case by (simp add: send_all_def)
next
  case (Cons m msgs)
  obtain s d where m: "m = (s, d)" by (cases m)
  have room: "mq_room q d"
    using Cons.prems m by (simp add: mq_room_def MSGMAX_def)
  have num: "msg_qnum (mq_ds (mq_send s d q)) = msg_qnum (mq_ds q) + 1"
    using Cons.prems room
    by (simp add: mq_send_def enqueue_message_def Let_def mq_room_def mq_ok_def uadd_exact)
  have "mq_ok (send_all msgs (mq_send s d q)) \<and> mq_view (send_all msgs (mq_send s d q)) t =
      mq_view (mq_send s d q) t @ map snd (filter (\<lambda>m. fst m = t) msgs)"
    using Cons.prems m num mq_send_total [OF Cons.prems(1) room, of s] mq.inv_enq [OF Cons.prems(1) room]
    by (intro Cons.IH) (simp_all add: mq_send_frame)
  then show ?case
    using mq.view_enq [OF Cons.prems(1) room, of s t] m by (simp add: send_all_def)
qed

text \<open>
  First in, first out per type. After any sequence of messages of any types has been
  enqueued (each within \<open>MSGMAX\<close>, together within the queue's limit), the \<open>k\<close>-th receive
  of type \<open>t\<close> finds the \<open>k\<close>-th message of that type in sending order, behind the ones that
  were queued before; messages of other types do not disturb the order.
\<close>

lemma msg_fifo_per_type:
  assumes "mq_ok q" and "list_all (\<lambda>(t, d). length d \<le> MSGMAX) msgs"
    and "mq_total_bytes q + sum_list (map (\<lambda>(t, d). length d) msgs) \<le> msg_qbytes (mq_ds q)"
    and "msg_qnum (mq_ds q) + length msgs \<le> 2 ^ 63"
    and "k < length (mq_view q t @ map snd (filter (\<lambda>m. fst m = t) msgs))"
  shows "find_message_by_type t ((mq_take t ^^ k) (send_all msgs q)) =
    Some (t, (mq_view q t @ map snd (filter (\<lambda>m. fst m = t) msgs)) ! k)"
proof -
  note sent = send_all_view [OF assms(1-4), of t]
  have "mq_view ((mq_take t ^^ k) (send_all msgs q)) t =
      mq_view (send_all msgs q) t ! k # drop (Suc k) (mq_view (send_all msgs q) t)"
    using sent assms(5) by (intro mq.nth_out) simp_all
  with sent show ?thesis by (simp add: find_message_by_type_view)
qed

lemma msg_fifo_per_type_witness:
  "find_message_by_type 3 ((mq_take 3 ^^ 1) (send_all [(3, [1]), (4, [2]), (3, [5, 6])] demo_queue))
     = Some (3, [5, 6])"
  using msg_fifo_per_type [OF demo_queue_ok, of "[(3, [1]), (4, [2]), (3, [5, 6])]" 1 3]
  by (simp add: demo_queue_def message_queue_new_def msqid_ds_new_def MSGMAX_def MSGMNB_def
      mq_view_def bt_get_def)

definition eligible_type :: "i64 \<Rightarrow> u32 \<Rightarrow> i64 \<Rightarrow> bool" where
  "eligible_type mtyp flg t \<longleftrightarrow>
     (if mtyp = 0 then True
      else if mtyp > 0 then (if has_flags flg MSG_EXCEPT then t \<noteq> mtyp else t = mtyp)
      else t \<le> wrap_i64 \<bar>mtyp\<bar>)"

lemma map_fst_filter: "map fst (filter (\<lambda>p. P (fst p)) m) = filter P (bt_keys m)"
  by (induction m) (auto simp: bt_keys_def)

text \<open>The first message among the eligible lists: the head of the smallest eligible type.\<close>

lemma first_message_filter:
  assumes ok: "mq_ok q"
  shows "first_message_in (filter (\<lambda>p. P (fst p)) (mq_messages q)) =
    (case filter P (bt_keys (mq_messages q)) of
       [] \<Rightarrow> None | t # _ \<Rightarrow> Some (t, hd (mq_view q t)))"
proof (cases "filter (\<lambda>p. P (fst p)) (mq_messages q)")
  case Nil
  then show ?thesis using map_fst_filter [of P "mq_messages q"] by simp
next
  case (Cons p rest)
  obtain t ms where p: "p = (t, ms)" by (cases p)
  have "(t, ms) \<in> set (filter (\<lambda>p. P (fst p)) (mq_messages q))" using Cons p by simp
  then have "bt_get (mq_messages q) t = Some ms" and "typed_list t ms"
    using ok bt_set_get [of "mq_messages q" t ms] by (auto simp: mq_ok_def list_all_iff)
  moreover have "filter P (bt_keys (mq_messages q)) = t # map fst rest"
    using map_fst_filter [of P "mq_messages q"] Cons p by simp
  ultimately show ?thesis
    using Cons p by (cases ms) (simp_all add: mq_view_def typed_list_def)
qed

lemma mq_types: "mq_ok q \<Longrightarrow> set (bt_keys (mq_messages q)) = {t. mq_view q t \<noteq> []}"
proof (intro equalityI subsetI CollectI)
  fix t
  assume "mq_ok q"
  show "mq_view q t \<noteq> []" if "t \<in> set (bt_keys (mq_messages q))"
    using that mq_view_none [OF \<open>mq_ok q\<close>, of t] by (auto simp: bt_keys_iff)
  show "t \<in> set (bt_keys (mq_messages q))" if "t \<in> {t. mq_view q t \<noteq> []}"
    using that by (auto simp: bt_keys_iff mq_view_def split: option.splits)
qed

lemma find_by_type_filter:
  assumes ok: "mq_ok q"
  shows "find_message_by_type t q =
    first_message_in (filter (\<lambda>p. fst p = t) (mq_messages q))"
proof -
  have srt: "sorted_wrt (<) (bt_keys (mq_messages q))"
    using ok by (simp add: mq_ok_def bt_ok_def bt_keys_def)
  have "filter (\<lambda>k. k = t) ks = (if t \<in> set ks then [t] else [])"
    if "sorted_wrt (<) ks" for ks :: "i64 list"
    using that by (induction ks) (auto simp: filter_empty_conv)
  with srt mq_types [OF ok] show ?thesis
    unfolding first_message_filter [OF ok, where P = "\<lambda>k. k = t"]
    by (simp add: find_message_by_type_view split: list.split)
qed

lemma find_less_equal_filter:
  assumes ok: "mq_ok q"
  shows "find_message_less_equal a q =
    first_message_in (filter (\<lambda>p. fst p \<le> a) (mq_messages q))"
proof -
  have srt: "sorted_wrt (<) (bt_keys (mq_messages q))"
    using ok by (simp add: mq_ok_def bt_ok_def bt_keys_def)
  have "(case filter (\<lambda>k. k \<le> a) ks of [] \<Rightarrow> None | t # _ \<Rightarrow> Some (t, hd (mq_view q t))) =
    (case ks of [] \<Rightarrow> None | t # _ \<Rightarrow> if t \<le> a then Some (t, hd (mq_view q t)) else None)"
    if "sorted_wrt (<) ks" for ks :: "i64 list"
    using that by (cases ks) (force simp: filter_empty_conv filter_eq_Cons_iff split: list.split)+
  with srt show ?thesis
    unfolding first_message_filter [OF ok, where P = "\<lambda>k. k \<le> a"]
      find_message_less_equal_min [OF ok] find_first_message_def
    using first_message_filter [OF ok, where P = "\<lambda>k. True"]
    by (simp split: list.split)
qed

lemma msgrcv_match_filter:
  assumes ok: "mq_ok q" and normal: "\<not> has_flags flg MSG_COPY"
  shows "msgrcv_match mtyp flg q =
    (case filter (eligible_type mtyp flg) (bt_keys (mq_messages q)) of
       [] \<Rightarrow> Fail (LinuxErr ENOMSG)
     | t # _ \<Rightarrow> Ok (t, hd (mq_view q t), 0, True))"
proof -
  let ?first = "first_message_in (filter (\<lambda>p. eligible_type mtyp flg (fst p)) (mq_messages q))"
  have tl: "list_all (\<lambda>(t, ms). typed_list t ms) (mq_messages q)" using ok by (simp add: mq_ok_def)
  have "(if mtyp = 0 then find_first_message q
         else if mtyp > 0 then
           (if has_flags flg MSG_EXCEPT then find_message_not_equal mtyp q
            else find_message_by_type mtyp q)
         else find_message_less_equal (wrap_i64 \<bar>mtyp\<bar>) q) = ?first"
    by (simp add: eligible_type_def find_first_message_def find_message_not_equal_def
        not_equal_in_spec [OF tl] find_by_type_filter [OF ok] find_less_equal_filter [OF ok])
  then show ?thesis
    using normal unfolding msgrcv_match_def first_message_filter [OF ok]
    by (simp split: list.split)
qed

lemma Min_sorted: "sorted_wrt (<) (x # xs) \<Longrightarrow> Min (set (x # xs)) = (x :: 'a::linorder)"
  by (intro Min_eqI) auto

text \<open>
  Which message \<open>sys_msgrcv\<close> picks (without \<open>MSG_COPY\<close>): the oldest message of the
  smallest eligible type. All types are eligible for \<open>msgtyp = 0\<close>, only \<open>msgtyp\<close> itself for
  a positive one, all others with \<open>MSG_EXCEPT\<close>, and the types up to \<open>|msgtyp|\<close> for a
  negative one. With no eligible message the result is \<open>ENOMSG\<close>. In particular
  \<open>msgtyp = 0\<close> delivers the message of the lowest type, whatever was sent first.
\<close>

lemma msgrcv_selects_smallest:
  assumes ok: "mq_ok q" and normal: "\<not> has_flags flg MSG_COPY"
  shows "msgrcv_match mtyp flg q =
    (let types = {t. mq_view q t \<noteq> [] \<and> eligible_type mtyp flg t}
     in if types = {} then Fail (LinuxErr ENOMSG)
        else Ok (Min types, hd (mq_view q (Min types)), 0, True))"
proof -
  let ?ts = "filter (eligible_type mtyp flg) (bt_keys (mq_messages q))"
  have types: "{t. mq_view q t \<noteq> [] \<and> eligible_type mtyp flg t} = set ?ts"
    using mq_types [OF ok] by auto
  have "sorted_wrt (<) ?ts"
    using ok by (simp add: mq_ok_def bt_ok_def bt_keys_def sorted_wrt_filter)
  then show ?thesis
    unfolding msgrcv_match_filter [OF assms] types Let_def
    by (cases ?ts) (simp_all add: Min_sorted del: set_simps)
qed

definition mixed_queue :: message_queue where
  "mixed_queue = send_all [(9, [1]), (2, [7])] demo_queue"

lemma mixed_queue_ok: "mq_ok mixed_queue"
  unfolding mixed_queue_def
  using send_all_view [OF demo_queue_ok, of "[(9, [1]), (2, [7])]"]
  by (simp add: demo_queue_def message_queue_new_def msqid_ds_new_def MSGMAX_def MSGMNB_def)

lemma msgrcv_selects_smallest_witness:
  "msgrcv_match 0 0 mixed_queue = Ok (2, [7], 0, True)"
proof -
  have view: "mq_view mixed_queue t = (if t = 9 then [[1]] else if t = 2 then [[7]] else [])" for t
    using send_all_view [OF demo_queue_ok, of "[(9, [1]), (2, [7])]" t]
    by (simp add: mixed_queue_def demo_queue_def message_queue_new_def msqid_ds_new_def MSGMAX_def
        MSGMNB_def mq_view_def bt_get_def)
  have types: "{t. mq_view mixed_queue t \<noteq> [] \<and> eligible_type 0 0 t} = {2, 9}"
    by (auto simp: view eligible_type_def)
  have "\<not> has_flags 0 MSG_COPY" by (simp add: has_flags_def MSG_COPY_def)
  from msgrcv_selects_smallest [OF mixed_queue_ok this, of 0, unfolded types] show ?thesis
    by (simp add: view)
qed

subsection \<open>Errors, limits and removal\<close>

text \<open>
  A failed \<open>sys_msgsnd\<close> or \<open>sys_msgrcv\<close> has no effect on the queues: whatever error
  is returned, a fault while copying to or from user memory included, the manager is
  the one before the call, so no message is lost or duplicated by an error.
\<close>

lemma msg_failed_call_no_effect:
  assumes "msg_sys_ok (n, mgr)"
  shows "(sys_msgsnd vm uid gid p now i sp sz flg u mgr = (mgr1, Inl e) \<longrightarrow> mgr1 = mgr)
    \<and> (sys_msgrcv vm uid gid p now i rp rsz mtyp rflg u mgr = (mgr2, u', Inl e) \<longrightarrow> mgr2 = mgr)"
  by (auto intro: sys_msgsnd_rejected [OF assms] sys_msgrcv_rejected [OF assms])

lemma msg_failed_call_no_effect_witness:
  "fst (sys_msgsnd buf_vm 0 0 1 8 0 0x1000 2 0 (-5, [104, 105], demo_ds) demo_mgr) = demo_mgr
   \<and> fst (sys_msgrcv buf_vm 0 0 1 8 0 0x1000 2 5 0 (0, [], demo_ds) demo_mgr) = demo_mgr"
proof -
  have get: "get_queue_by_msqid 0 demo_mgr = Some demo_queue"
    by (simp add: get_queue_by_msqid_def demo_mgr_def bt_get_def)
  have "snd (sys_msgsnd buf_vm 0 0 1 8 0 0x1000 2 0 (-5, [104, 105], demo_ds) demo_mgr)
      = Fail (LinuxErr EINVAL)"
    by (simp add: sys_msgsnd_def get has_ipc_permission_def buf_vm_def MSGMAX_def)
  moreover have "snd (snd (sys_msgrcv buf_vm 0 0 1 8 0 0x1000 2 5 0 (0, [], demo_ds) demo_mgr))
      = Fail (LinuxErr ENOMSG)"
    by (simp add: sys_msgrcv_def get has_flags_def MSG_COPY_def MSG_EXCEPT_def
        has_ipc_permission_def msgrcv_match_def find_message_by_type_def demo_queue_def
        message_queue_new_def bt_get_def)
  ultimately show ?thesis
    using msg_failed_call_no_effect [OF demo_mgr_ok] by (metis prod.collapse)
qed

text \<open>
  The limits are enforced. After every accepted \<open>sys_msgsnd\<close> the message is at most
  \<open>MSGMAX\<close> bytes long, has a positive type, the caller had write permission, and the
  queue's bytes, counted exactly over its lists, are at most \<open>msg_qbytes\<close>, as is its
  number of messages.
\<close>

lemma msgsnd_within_limits:
  assumes ok: "msg_sys_ok (n, mgr)" and vm: "vm_loads_exactly vm"
    and run: "sys_msgsnd vm uid gid p now i sp sz flg u mgr = (mgr', Ok v)"
  shows "\<exists>q q'. get_queue_by_msqid i mgr = Some q \<and> get_queue_by_msqid i mgr' = Some q'
    \<and> has_ipc_permission (msg_perm (mq_ds q)) uid gid True \<and> sz \<le> MSGMAX
    \<and> bt_sum msgs_bytes (mq_messages q') = bt_sum msgs_bytes (mq_messages q) + sz
    \<and> bt_sum msgs_bytes (mq_messages q') \<le> msg_qbytes (mq_ds q')
    \<and> bt_sum length (mq_messages q') \<le> msg_qbytes (mq_ds q')"
proof -
  from run obtain q mtype d where q: "get_queue_by_msqid i mgr = Some q"
    and perm: "has_ipc_permission (msg_perm (mq_ds q)) uid gid True"
    and sz: "sz \<le> MSGMAX" "length d = sz"
    and lim: "uadd (mq_total_bytes q) sz \<le> msg_qbytes (mq_ds q)"
      "uadd (msg_qnum (mq_ds q)) 1 \<le> msg_qbytes (mq_ds q)"
    and mgr': "mgr' = insert_msqid_queues i
           ((mq_send mtype d q)\<lparr>mq_ds := (mq_ds (mq_send mtype d q))
              \<lparr>msg_lspid := wrap_i32 (int p), msg_stime := now\<rparr>\<rparr>) mgr"
    by (auto elim: sys_msgsnd_accepted [OF _ vm])
  have okq: "mq_ok q" using ok q by (rule msg_sys_ok_queue)
  have room: "mq_room q d" using okq sz lim by (intro mq_room_accepted) simp_all
  note oks = mq.inv_enq [OF okq room, of mtype]
  have num: "msg_qnum (mq_ds (mq_send mtype d q)) = msg_qnum (mq_ds q) + 1"
    using okq room
    by (simp add: mq_send_def enqueue_message_def Let_def mq_room_def mq_ok_def uadd_exact)
  have "get_queue_by_msqid i mgr' = Some ((mq_send mtype d q)\<lparr>mq_ds := (mq_ds (mq_send mtype d q))
              \<lparr>msg_lspid := wrap_i32 (int p), msg_stime := now\<rparr>\<rparr>)"
    using msg_sys_okD(4) [OF ok] by (simp add: mgr' get_queue_by_msqid_def insert_msqid_queues_def)
  then show ?thesis
    using q perm sz lim okq oks num mq_send_total [OF okq room, of mtype]
    by (auto simp: mq_ok_def mq_send_frame uadd_exact MSGMAX_def)
qed

lemma msgsnd_within_limits_witness:
  "\<exists>q'. get_queue_by_msqid 0
       (fst (sys_msgsnd buf_vm 0 0 1 8 0 0x1000 2 0 (5, [104, 105], demo_ds) demo_mgr)) = Some q'
     \<and> bt_sum msgs_bytes (mq_messages q') = 2"
proof -
  have get: "get_queue_by_msqid 0 demo_mgr = Some demo_queue"
    by (simp add: get_queue_by_msqid_def demo_mgr_def bt_get_def)
  have "sys_msgsnd buf_vm 0 0 1 8 0 0x1000 2 0 (5, [104, 105], demo_ds) demo_mgr =
    (fst (sys_msgsnd buf_vm 0 0 1 8 0 0x1000 2 0 (5, [104, 105], demo_ds) demo_mgr), Ok 0)"
    by (simp add: sys_msgsnd_def get has_ipc_permission_def buf_vm_def MSGMAX_def demo_queue_def
        message_queue_new_def msqid_ds_new_def enqueue_message_def MSGMNB_def uadd_def Let_def)
  from msgsnd_within_limits [OF demo_mgr_ok buf_vm_loads this] get show ?thesis
    by (auto simp: demo_queue_def message_queue_new_def bt_sum_def)
qed

text \<open>
  A queue removed while it holds messages is never freed. Once \<open>IPC_RMID\<close> has marked
  it, it stays in the table through every sequence of message-queue calls, no receive
  takes a message from it (so it can never drain), and it counts against \<open>MSGMNI\<close>
  for good; the source's comment says it is deleted once its messages are received.
\<close>

lemma removed_queue_never_freed:
  assumes vm: "vm_loads_exactly vm" and ok: "msg_sys_ok (n, mgr)"
    and rm: "queue_removed i (n, mgr)" and run: "(msg_step vm)\<^sup>*\<^sup>* (n, mgr) (n', mgr')"
  shows "queue_removed i (n', mgr')
    \<and> fst (sys_msgrcv vm uid gid p now i rp sz mtyp flg u mgr') = mgr'
    \<and> (\<exists>e. snd (snd (sys_msgrcv vm uid gid p now i rp sz mtyp flg u mgr')) = Inl e)"
proof -
  have "queue_removed i (n', mgr')" by (rule msg_steps_keep_removed [OF run vm ok rm])
  then show ?thesis
    by (auto simp: sys_msgrcv_def queue_removed_def split: option.splits)
qed

definition marked_mgr :: msg_manager where
  "marked_mgr = \<lparr>key_msqid = [(7, 0)], msqid_queues = [(0, mixed_queue\<lparr>mq_mark_removed := True\<rparr>)]\<rparr>"

lemma mixed_queue_key: "queue_key mixed_queue = 7"
  by (simp add: mixed_queue_def send_all_def queue_key_def mq_send_frame demo_queue_def
      message_queue_new_def msqid_ds_new_def)

lemma marked_mgr_ok: "msg_sys_ok (1, marked_mgr)"
  using mixed_queue_ok mixed_queue_key
  by (simp add: msg_sys_ok_def marked_mgr_def is_i32_def queue_count_def MSGMNI_def bt_ok_def
      bt_get_def queue_key_def IPC_PRIVATE_def)

lemma removed_queue_never_freed_witness:
  "queue_removed 0 (2, marked_mgr)
   \<and> fst (sys_msgrcv buf_vm 0 0 1 9 0 0x1000 16 0 0 (0, [], demo_ds) marked_mgr) = marked_mgr
   \<and> (\<exists>e. snd (snd (sys_msgrcv buf_vm 0 0 1 9 0 0x1000 16 0 0 (0, [], demo_ds) marked_mgr)) = Inl e)"
proof (rule removed_queue_never_freed [OF buf_vm_loads marked_mgr_ok])
  show "queue_removed 0 (1, marked_mgr)"
    by (simp add: queue_removed_def marked_mgr_def get_queue_by_msqid_def bt_get_def)
  have "msg_step buf_vm (1, marked_mgr) (1 + 1, marked_mgr)" by (rule msg_step.other_id) simp
  then show "(msg_step buf_vm)\<^sup>*\<^sup>* (1, marked_mgr) (2, marked_mgr)" by simp
qed

text \<open>
  \<open>IPC_SET\<close> is not atomic. When an unprivileged owner asks for more than \<open>MSGMNB\<close>
  bytes, the call fails with \<open>EPERM\<close>, but the new owner, group and mode have already been
  stored; the limit itself and everything else keep their old values.
\<close>

lemma msgctl_set_eperm_partial:
  assumes "msg_qbytes ub > MSGMNB" and "msg_qbytes ub \<noteq> msg_qbytes (mq_ds q)"
  shows "msgctl_set False now ub q =
    (q\<lparr>mq_ds := (mq_ds q)\<lparr>msg_perm := (msg_perm (mq_ds q))
         \<lparr>perm_uid := perm_uid (msg_perm ub), perm_gid := perm_gid (msg_perm ub),
          perm_mode := perm_mode (msg_perm ub) AND 0x1FF\<rparr>\<rparr>\<rparr>, Fail (LinuxErr EPERM))"
  using assms by (simp add: msgctl_set_def Let_def)

lemma msgctl_set_eperm_partial_witness:
  "perm_uid (msg_perm (mq_ds (fst (msgctl_set False 3 (demo_ds\<lparr>msg_perm := (msg_perm demo_ds)
      \<lparr>perm_uid := 42\<rparr>, msg_qbytes := 20000\<rparr>) demo_queue)))) = 42"
  using msgctl_set_eperm_partial [of "demo_ds\<lparr>msg_perm := (msg_perm demo_ds)\<lparr>perm_uid := 42\<rparr>,
      msg_qbytes := 20000\<rparr>" demo_queue 3]
  by (simp add: demo_queue_def message_queue_new_def msqid_ds_new_def MSGMNB_def)

text \<open>
  Keys name queues. A \<open>sys_msgget\<close> that created a queue for a key returns a fresh
  identifier, and until something else is called, a second \<open>sys_msgget\<close> with the same key
  by a caller with read permission returns the same identifier and changes nothing, while
  one with \<open>IPC_CREAT | IPC_EXCL\<close> fails with \<open>EEXIST\<close>.
\<close>

lemma msgget_same_key:
  assumes ok: "msg_sys_ok (n, mgr)" and n: "n < 2 ^ 31 - 1" and key: "key \<noteq> IPC_PRIVATE"
    and absent: "get_msqid_by_key key mgr = None"
    and run: "sys_msgget uid gid p now key flg (n, mgr) = ((n', mgr'), Ok i)"
    and room: "queue_count mgr' < MSGMNI"
    and perm: "ruid = 0 \<or> has_ipc_permission \<lparr>perm_key = key, perm_uid = uid, perm_gid = gid,
        perm_cuid = uid, perm_cgid = gid, perm_mode = flg AND 0x1FF, perm_seq = 0, perm_pad = 0,
        perm_unused0 = 0, perm_unused1 = 0\<rparr> ruid rgid False"
  shows "get_queue_by_msqid i mgr = None
    \<and> sys_msgget ruid rgid rpid rnow key rflg (n', mgr') =
        ((n', mgr'), if any_flag rflg IPC_EXCL \<and> any_flag rflg IPC_CREAT
                     then Fail (LinuxErr EEXIST) else Ok i)"
proof -
  have id: "next_ipc_id n = (n, n + 1)"
    using msg_sys_okD(1) [OF ok] n by (rule next_ipc_id_fresh)
  have i: "i = n" and mgr': "mgr' = insert_msqid_queues n
      (message_queue_new key (flg AND 0x1FF) p uid gid now) (insert_key_msqid key n mgr)"
    using run key absent id
    by (auto simp: sys_msgget_def Let_def split: if_splits)
  have "get_queue_by_msqid n mgr = None"
    using msg_sys_okD(5) [OF ok, of n] by (cases "get_queue_by_msqid n mgr")
      (auto simp: get_queue_by_msqid_def)
  moreover have "get_msqid_by_key key mgr' = Some n"
    "get_queue_by_msqid n mgr' = Some (message_queue_new key (flg AND 0x1FF) p uid gid now)"
    using msg_sys_okD(3,4) [OF ok]
    by (simp_all add: mgr' get_msqid_by_key_def get_queue_by_msqid_def insert_msqid_queues_def
        insert_key_msqid_def)
  ultimately show ?thesis
    using room perm key i
    by (auto simp: sys_msgget_def message_queue_new_def msqid_ds_new_def has_ipc_permission_def)
qed

lemma msgget_same_key_witness:
  "sys_msgget 0 0 2 5 7 0 (1, demo_mgr) = ((1, demo_mgr), Ok 0)"
  using msgget_same_key [OF msg_sys_ok_init _ _ _ demo_created, of 0 0 2 5 0]
  by (simp add: IPC_PRIVATE_def get_msqid_by_key_def msg_manager_new_def bt_get_def queue_count_def
      demo_mgr_def MSGMNI_def any_flag_def)

end
