(* ===== verification/BiMap.thy ===== *)
theory BiMap
  imports BTree
begin

section \<open>The bidirectional map \<open>BiBTreeMap\<close>\<close>

text \<open>
  \<open>BiBTreeMap\<close> of \<open>core/src/shm.rs\<close>: two ordered maps kept inverse to each other. The
  contract is the locale \<open>bi_map\<close>: lookups by key and by value are inverse partial
  functions, an insertion replaces both the old value of the key and the old key of the
  value, and a removal takes out exactly one pair. \<open>shm.rs\<close> uses it for \<open>key <-> shmid\<close> and,
  per process, for \<open>shmid <-> vaddr\<close>.
\<close>

record ('k, 'v) bimap =
  bi_forward :: "('k, 'v) btree"
  bi_reverse :: "('v, 'k) btree"

definition bi_new :: "('k, 'v) bimap" where
  "bi_new = \<lparr>bi_forward = [], bi_reverse = []\<rparr>"

definition bi_insert :: "'k::linorder \<Rightarrow> 'v::linorder \<Rightarrow> ('k, 'v) bimap \<Rightarrow> ('k, 'v) bimap" where
  "bi_insert key value m =
     (let old_key = bt_get (bi_reverse m) value;
          rev1 = bt_insert value key (bi_reverse m);
          fwd1 = (case old_key of None \<Rightarrow> bi_forward m | Some k \<Rightarrow> bt_remove k (bi_forward m));
          old_value = bt_get fwd1 key;
          fwd2 = bt_insert key value fwd1;
          rev2 = (case old_value of None \<Rightarrow> rev1 | Some v \<Rightarrow> bt_remove v rev1)
      in \<lparr>bi_forward = fwd2, bi_reverse = rev2\<rparr>)"

definition bi_get_by_key :: "('k, 'v) bimap \<Rightarrow> 'k \<Rightarrow> 'v option" where
  "bi_get_by_key m key = bt_get (bi_forward m) key"

definition bi_get_by_value :: "('k, 'v) bimap \<Rightarrow> 'v \<Rightarrow> 'k option" where
  "bi_get_by_value m value = bt_get (bi_reverse m) value"

definition bi_remove_by_key :: "'k \<Rightarrow> ('k, 'v) bimap \<Rightarrow> ('k, 'v) bimap \<times> 'v option" where
  "bi_remove_by_key key m =
     (case bt_get (bi_forward m) key of
        Some value \<Rightarrow>
          (\<lparr>bi_forward = bt_remove key (bi_forward m), bi_reverse = bt_remove value (bi_reverse m)\<rparr>,
           Some value)
      | None \<Rightarrow> (m, None))"

definition bi_remove_by_value :: "'v \<Rightarrow> ('k, 'v) bimap \<Rightarrow> ('k, 'v) bimap \<times> 'k option" where
  "bi_remove_by_value value m =
     (case bt_get (bi_reverse m) value of
        Some key \<Rightarrow>
          (\<lparr>bi_forward = bt_remove key (bi_forward m), bi_reverse = bt_remove value (bi_reverse m)\<rparr>,
           Some key)
      | None \<Rightarrow> (m, None))"

definition bi_ok :: "('k::linorder, 'v::linorder) bimap \<Rightarrow> bool" where
  "bi_ok m \<longleftrightarrow> bt_ok (bi_forward m) \<and> bt_ok (bi_reverse m)
     \<and> list_all (\<lambda>(k, v). bt_get (bi_reverse m) v = Some k) (bi_forward m)
     \<and> list_all (\<lambda>(v, k). bt_get (bi_forward m) k = Some v) (bi_reverse m)"

subsection \<open>The contract\<close>

locale bi_map =
  fixes emp :: 'm
    and fwd :: "'m \<Rightarrow> 'k \<Rightarrow> 'v option"
    and rev :: "'m \<Rightarrow> 'v \<Rightarrow> 'k option"
    and ins :: "'k \<Rightarrow> 'v \<Rightarrow> 'm \<Rightarrow> 'm"
    and delk :: "'k \<Rightarrow> 'm \<Rightarrow> 'm"
    and delv :: "'v \<Rightarrow> 'm \<Rightarrow> 'm"
    and inv :: "'m \<Rightarrow> bool"
  assumes inv_emp: "inv emp" and fwd_emp: "fwd emp k = None"
    and inverse: "inv m \<Longrightarrow> fwd m k = Some v \<longleftrightarrow> rev m v = Some k"
    and inv_ins: "inv m \<Longrightarrow> inv (ins k v m)"
    and fwd_ins: "inv m \<Longrightarrow> fwd (ins k v m) k' =
        (if k' = k then Some v else if fwd m k' = Some v then None else fwd m k')"
    and inv_delk: "inv m \<Longrightarrow> inv (delk k m)"
    and fwd_delk: "inv m \<Longrightarrow> fwd (delk k m) k' = (if k' = k then None else fwd m k')"
    and inv_delv: "inv m \<Longrightarrow> inv (delv v m)"
    and fwd_delv: "inv m \<Longrightarrow> fwd (delv v m) k' = (if fwd m k' = Some v then None else fwd m k')"
begin

lemma fwd_inj: "inv m \<Longrightarrow> fwd m k = Some v \<Longrightarrow> fwd m k' = Some v \<Longrightarrow> k' = k"
  using inverse by (metis option.inject)

lemma rev_inj: "inv m \<Longrightarrow> rev m v = Some k \<Longrightarrow> rev m v' = Some k \<Longrightarrow> v' = v"
  using inverse by (metis option.inject)

lemma rev_ins:
  assumes "inv m"
  shows "rev (ins k v m) v' =
    (if v' = v then Some k else if rev m v' = Some k then None else rev m v')"
proof -
  have "rev (ins k v m) v' = Some k' \<longleftrightarrow>
      (if v' = v then Some k else if rev m v' = Some k then None else rev m v') = Some k'" for k'
    unfolding inverse [OF inv_ins [OF assms], symmetric] fwd_ins [OF assms]
    by (auto simp: inverse [OF assms] dest: rev_inj [OF assms])
  then show ?thesis by (metis option.exhaust)
qed

lemma ins_lookup: "inv m \<Longrightarrow> fwd (ins k v m) k = Some v \<and> rev (ins k v m) v = Some k"
  by (simp add: fwd_ins rev_ins)

lemma ins_fresh:
  assumes "inv m" and "fwd m k = None" and "rev m v = None"
  shows "fwd (ins k v m) k' = (if k' = k then Some v else fwd m k')"
    and "rev (ins k v m) v' = (if v' = v then Some k else rev m v')"
  using assms inverse [OF assms(1), of _ v] inverse [OF assms(1), of k]
  by (auto simp: fwd_ins rev_ins)

lemma delv_ins_fresh:
  assumes "inv m" and "fwd m k = None" and "rev m v = None"
  shows "fwd (delv v (ins k v m)) k' = fwd m k'"
  using assms inverse [OF assms(1), of _ v] by (auto simp: fwd_delv inv_ins ins_fresh)

end

lemma bi_okI:
  assumes "bt_ok (bi_forward m)" and "bt_ok (bi_reverse m)"
    and "\<And>k v. bt_get (bi_forward m) k = Some v \<longleftrightarrow> bt_get (bi_reverse m) v = Some k"
  shows "bi_ok m"
  using assms by (simp add: bi_ok_def bt_all)

lemma bi_okD:
  assumes "bi_ok m"
  shows "bt_ok (bi_forward m)" and "bt_ok (bi_reverse m)"
    and "bt_get (bi_forward m) k = Some v \<longleftrightarrow> bt_get (bi_reverse m) v = Some k"
proof -
  show ok: "bt_ok (bi_forward m)" "bt_ok (bi_reverse m)" using assms by (simp_all add: bi_ok_def)
  have "\<forall>k v. bt_get (bi_forward m) k = Some v \<longrightarrow> bt_get (bi_reverse m) v = Some k"
    and "\<forall>v k. bt_get (bi_reverse m) v = Some k \<longrightarrow> bt_get (bi_forward m) k = Some v"
    using assms unfolding bi_ok_def bt_all [OF ok(1)] bt_all [OF ok(2)] by blast+
  then show "bt_get (bi_forward m) k = Some v \<longleftrightarrow> bt_get (bi_reverse m) v = Some k" by blast
qed

lemma bi_insert_forward:
  assumes "bi_ok m"
  shows "bt_get (bi_forward (bi_insert k v m)) k' =
    (if k' = k then Some v else if bt_get (bi_forward m) k' = Some v then None
     else bt_get (bi_forward m) k')"
proof -
  note D = bi_okD(1,2) [OF assms] and inverse = bi_okD(3) [OF assms, of _ v]
  show ?thesis
    unfolding inverse using D
    by (cases "bt_get (bi_reverse m) v") (auto simp: bi_insert_def Let_def)
qed

lemma bi_insert_reverse:
  assumes "bi_ok m"
  shows "bt_get (bi_reverse (bi_insert k v m)) v' =
    (if v' = v then Some k else if bt_get (bi_reverse m) v' = Some k then None
     else bt_get (bi_reverse m) v')"
proof -
  note D = bi_okD [OF assms]
  show ?thesis
  proof (cases "bt_get (bi_reverse m) v = Some k")
    case True
    then have "bt_get (bi_forward m) k = Some v" using D(3) by blast
    with D(3) [of k v'] have "bt_get (bi_reverse m) v' = Some k \<longleftrightarrow> v' = v" by auto
    with True D(1,2) show ?thesis by (auto simp: bi_insert_def Let_def)
  next
    case False
    then have "bt_get (case bt_get (bi_reverse m) v of None \<Rightarrow> bi_forward m
        | Some a \<Rightarrow> bt_remove a (bi_forward m)) k = bt_get (bi_forward m) k"
      using D(1) by (auto split: option.split)
    then show ?thesis
      using D(2) False D(3) [of k v'] D(3) [of k v]
      by (cases "bt_get (bi_forward m) k") (auto simp: bi_insert_def Let_def)
  qed
qed

lemma bi_insert_ok:
  assumes "bi_ok m"
  shows "bi_ok (bi_insert k v m)"
proof (rule bi_okI)
  note D = bi_okD [OF assms]
  show "bt_ok (bi_forward (bi_insert k v m))" "bt_ok (bi_reverse (bi_insert k v m))"
    using D(1,2) by (auto simp: bi_insert_def Let_def split: option.split)
  show "bt_get (bi_forward (bi_insert k v m)) a = Some b \<longleftrightarrow>
      bt_get (bi_reverse (bi_insert k v m)) b = Some a" for a b
    unfolding bi_insert_forward [OF assms] bi_insert_reverse [OF assms]
    using D(3) [of a b] D(3) [of a v] D(3) [of k b] by auto
qed

interpretation bi: bi_map bi_new bi_get_by_key bi_get_by_value bi_insert
  "\<lambda>k m. fst (bi_remove_by_key k m)" "\<lambda>v m. fst (bi_remove_by_value v m)" bi_ok
proof
  fix m :: "('a, 'b) bimap" and k k' :: 'a and v :: 'b
  show "bi_ok (bi_new :: ('a, 'b) bimap)" by (simp add: bi_ok_def bi_new_def)
  show "bi_get_by_key (bi_new :: ('a, 'b) bimap) k = None" by (simp add: bi_get_by_key_def bi_new_def)
  assume ok: "bi_ok m"
  note D = bi_okD [OF ok]
  show "bi_get_by_key m k = Some v \<longleftrightarrow> bi_get_by_value m v = Some k"
    using D(3) by (simp add: bi_get_by_key_def bi_get_by_value_def)
  show "bi_ok (bi_insert k v m)" using ok by (rule bi_insert_ok)
  show "bi_get_by_key (bi_insert k v m) k' =
      (if k' = k then Some v else if bi_get_by_key m k' = Some v then None else bi_get_by_key m k')"
    using bi_insert_forward [OF ok] by (simp add: bi_get_by_key_def)
  have del: "bi_ok \<lparr>bi_forward = bt_remove a (bi_forward m), bi_reverse = bt_remove b (bi_reverse m)\<rparr>"
    if "bt_get (bi_forward m) a = Some b" for a b
  proof (rule bi_okI)
    fix x y
    have "x = a \<longleftrightarrow> y = b" if "bt_get (bi_forward m) x = Some y"
      using that \<open>bt_get (bi_forward m) a = Some b\<close> D(3) [of x y] D(3) [of a b] by auto
    then show "bt_get (bi_forward \<lparr>bi_forward = bt_remove a (bi_forward m),
          bi_reverse = bt_remove b (bi_reverse m)\<rparr>) x = Some y \<longleftrightarrow>
        bt_get (bi_reverse \<lparr>bi_forward = bt_remove a (bi_forward m),
          bi_reverse = bt_remove b (bi_reverse m)\<rparr>) y = Some x"
      using D(1,2) D(3) [of x y] by auto
  qed (use D(1,2) in simp_all)
  show "bi_ok (fst (bi_remove_by_key k m))"
    using ok del [of k] by (cases "bt_get (bi_forward m) k") (simp_all add: bi_remove_by_key_def)
  show "bi_ok (fst (bi_remove_by_value v m))"
    using ok del D(3) [of _ v]
    by (cases "bt_get (bi_reverse m) v") (simp_all add: bi_remove_by_value_def)
  show "bi_get_by_key (fst (bi_remove_by_key k m)) k' = (if k' = k then None else bi_get_by_key m k')"
    using D(1) by (cases "bt_get (bi_forward m) k") (auto simp: bi_remove_by_key_def bi_get_by_key_def)
  show "bi_get_by_key (fst (bi_remove_by_value v m)) k' =
      (if bi_get_by_key m k' = Some v then None else bi_get_by_key m k')"
    unfolding bi_get_by_key_def D(3) [of k' v] using D(1)
    by (cases "bt_get (bi_reverse m) v") (auto simp: bi_remove_by_value_def)
qed

subsection \<open>Property\<close>

text \<open>
  \<open>BiBTreeMap::insert\<close> keeps the two maps inverse. After inserting \<open>(k, v)\<close>, \<open>k\<close> is
  found by \<open>v\<close> and \<open>v\<close> by \<open>k\<close>, the pairs that had \<open>k\<close> or \<open>v\<close> before are gone from both
  maps, and every other pair is still found in both directions.
\<close>

lemma bi_insert_keeps_inverse:
  assumes "bi_ok m"
  shows "bi_ok (bi_insert k v m)
    \<and> bi_get_by_key (bi_insert k v m) k' = (if k' = k then Some v
         else if bi_get_by_key m k' = Some v then None else bi_get_by_key m k')
    \<and> bi_get_by_value (bi_insert k v m) v' = (if v' = v then Some k
         else if bi_get_by_value m v' = Some k then None else bi_get_by_value m v')
    \<and> (bi_get_by_key (bi_insert k v m) k' = Some v' \<longleftrightarrow> bi_get_by_value (bi_insert k v m) v' = Some k')"
  by (rule conjI [OF bi.inv_ins [OF assms] conjI [OF bi.fwd_ins [OF assms]
        conjI [OF bi.rev_ins [OF assms] bi.inverse [OF bi.inv_ins [OF assms]]]]])

lemma bi_insert_keeps_inverse_witness:
  "bi_get_by_value (bi_insert (1::int) (20::nat) (bi_insert 2 20 (bi_insert 1 10 bi_new))) 10 = None"
proof -
  have "bi_ok (bi_insert (2::int) (20::nat) (bi_insert 1 10 bi_new))"
    by (intro bi.inv_ins bi.inv_emp)
  from bi_insert_keeps_inverse [OF this, of 1 20 1 10, THEN conjunct2, THEN conjunct2, THEN conjunct1]
  show ?thesis by (simp add: bi_insert_def bi_new_def bt_get_def bi_get_by_value_def)
qed

end
