(* ===== verification/Shm.thy ===== *)
theory Shm
  imports BiMap Ipc
begin

section \<open>System V shared memory\<close>

text \<open>
  \<open>core/src/shm.rs\<close> (\<open>ShmidDs\<close>, \<open>ShmInner\<close>, \<open>ShmManager\<close>) and the system calls of
  \<open>api/src/syscall/ipc/shm.rs\<close>. The address space of the caller and the physical pages belong
  to the crates \<open>axmm\<close> and \<open>memory_addr\<close>; their operations are the fields of \<open>shm_mm\<close>, an
  argument of the calls. A segment lives behind \<open>Arc<Mutex<_>>\<close> in the manager's table
  and each call holds its lock for its whole body, so a call is one update of the entry.
\<close>

subsection \<open>Segments\<close>

record shmid_ds =
  shm_perm :: ipc_perm
  shm_segsz :: nat
  shm_atime :: i64
  shm_dtime :: i64
  shm_ctime :: i64
  shm_cpid :: i32
  shm_lpid :: i32
  shm_nattch :: u16

definition shmid_ds_new :: "i32 \<Rightarrow> nat \<Rightarrow> u32 \<Rightarrow> i32 \<Rightarrow> shmid_ds" where
  "shmid_ds_new key sz mode p =
     \<lparr>shm_perm = \<lparr>perm_key = key, perm_uid = 0, perm_gid = 0, perm_cuid = 0, perm_cgid = 0,
        perm_mode = mode, perm_seq = 0, perm_pad = 0, perm_unused0 = 0, perm_unused1 = 0\<rparr>,
      shm_segsz = sz, shm_atime = 0, shm_dtime = 0, shm_ctime = 0, shm_cpid = p,
      shm_lpid = p, shm_nattch = 0\<rparr>"

record 'p shm_inner =
  si_shmid :: i32
  si_page_num :: nat
  si_va_range :: "(pid, addr \<times> addr) btree"
  si_phys_pages :: "'p option"
  si_rmid :: bool
  si_mapping_flags :: mapping_flags
  si_ds :: shmid_ds

text \<open>The services of \<open>axmm\<close>, \<open>axhal\<close> and \<open>memory_addr\<close> the segments use.\<close>

record ('a, 'p) shm_mm =
  mm_align_up_4k :: "nat \<Rightarrow> nat"
  mm_align_down_4k :: "nat \<Rightarrow> nat"
  mm_flag_bits :: "mapping_flags \<Rightarrow> u32"
  mm_base :: "'a \<Rightarrow> addr"
  mm_end :: "'a \<Rightarrow> addr"
  mm_find_free :: "'a \<Rightarrow> addr \<Rightarrow> nat \<Rightarrow> addr \<times> addr \<Rightarrow> nat \<Rightarrow> addr option"
  mm_shared_pages :: "nat \<Rightarrow> 'a \<Rightarrow> 'a \<times> 'p outcome"
  mm_map_shared :: "addr \<Rightarrow> nat \<Rightarrow> mapping_flags \<Rightarrow> 'p \<Rightarrow> 'a \<Rightarrow> 'a \<times> unit outcome"
  mm_unmap :: "addr \<Rightarrow> nat \<Rightarrow> 'a \<Rightarrow> 'a \<times> unit outcome"

definition shm_inner_new ::
    "('a, 'p) shm_mm \<Rightarrow> i32 \<Rightarrow> i32 \<Rightarrow> nat \<Rightarrow> mapping_flags \<Rightarrow> pid \<Rightarrow> 'p shm_inner" where
  "shm_inner_new mm key shmid sz mapping_flags p =
     \<lparr>si_shmid = shmid, si_page_num = mm_align_up_4k mm sz div PAGE_SIZE_4K, si_va_range = [],
      si_phys_pages = None, si_rmid = False, si_mapping_flags = mapping_flags,
      si_ds = shmid_ds_new key sz (mm_flag_bits mm mapping_flags) (wrap_i32 (int p))\<rparr>"

definition try_update ::
    "('a, 'p) shm_mm \<Rightarrow> nat \<Rightarrow> mapping_flags \<Rightarrow> pid \<Rightarrow> 'p shm_inner \<Rightarrow> 'p shm_inner \<times> int outcome" where
  "try_update mm sz mapping_flags p s =
     (if sz \<noteq> shm_segsz (si_ds s)
         \<or> mm_flag_bits mm mapping_flags \<noteq> perm_mode (shm_perm (si_ds s))
      then (s, Fail InvalidInput)
      else (s\<lparr>si_ds := (si_ds s)\<lparr>shm_lpid := wrap_i32 (int p)\<rparr>\<rparr>, Ok (si_shmid s)))"

definition map_to_phys :: "'p \<Rightarrow> 'p shm_inner \<Rightarrow> 'p shm_inner" where
  "map_to_phys phys_pages s = s\<lparr>si_phys_pages := Some phys_pages\<rparr>"

definition attach_count :: "'p shm_inner \<Rightarrow> nat" where
  "attach_count s = length (si_va_range s)"

definition get_addr_range :: "pid \<Rightarrow> 'p shm_inner \<Rightarrow> (addr \<times> addr) option" where
  "get_addr_range p s = bt_get (si_va_range s) p"

definition attach_process ::
    "i64 \<Rightarrow> pid \<Rightarrow> addr \<times> addr \<Rightarrow> 'p shm_inner \<Rightarrow> 'p shm_inner outcome" where
  "attach_process now p va_range s =
     (if get_addr_range p s \<noteq> None then Panicked
      else Ok (s\<lparr>si_va_range := bt_insert p va_range (si_va_range s),
                 si_ds := (si_ds s)\<lparr>shm_nattch := shm_nattch (si_ds s) + 1,
                                    shm_lpid := wrap_i32 (int p), shm_atime := now\<rparr>\<rparr>))"

definition detach_process :: "i64 \<Rightarrow> pid \<Rightarrow> 'p shm_inner \<Rightarrow> 'p shm_inner outcome" where
  "detach_process now p s =
     (if get_addr_range p s = None then Panicked
      else Ok (s\<lparr>si_va_range := bt_remove p (si_va_range s),
                 si_ds := (si_ds s)\<lparr>shm_nattch := shm_nattch (si_ds s) - 1,
                                    shm_lpid := wrap_i32 (int p), shm_dtime := now\<rparr>\<rparr>))"

subsection \<open>The manager\<close>

record 'p shm_manager =
  key_shmid :: "(i32, i32) bimap"
  shmid_inner :: "(i32, 'p shm_inner) btree"
  pid_shmid_vaddr :: "(pid, (i32, addr) bimap) btree"

definition shm_manager_new :: "'p shm_manager" where
  "shm_manager_new = \<lparr>key_shmid = bi_new, shmid_inner = [], pid_shmid_vaddr = []\<rparr>"

definition get_shmid_by_key :: "i32 \<Rightarrow> 'p shm_manager \<Rightarrow> i32 option" where
  "get_shmid_by_key key sm = bi_get_by_key (key_shmid sm) key"

definition get_inner_by_shmid :: "i32 \<Rightarrow> 'p shm_manager \<Rightarrow> 'p shm_inner option" where
  "get_inner_by_shmid shmid sm = bt_get (shmid_inner sm) shmid"

definition get_shmid_by_vaddr :: "pid \<Rightarrow> addr \<Rightarrow> 'p shm_manager \<Rightarrow> i32 option" where
  "get_shmid_by_vaddr p vaddr sm =
     (case bt_get (pid_shmid_vaddr sm) p of
        None \<Rightarrow> None | Some m \<Rightarrow> bi_get_by_value m vaddr)"

definition get_shmids_by_pid :: "pid \<Rightarrow> 'p shm_manager \<Rightarrow> i32 list option" where
  "get_shmids_by_pid p sm =
     (case bt_get (pid_shmid_vaddr sm) p of
        None \<Rightarrow> None | Some m \<Rightarrow> Some (bt_keys (bi_forward m)))"

definition find_vaddr_by_shmid :: "pid \<Rightarrow> i32 \<Rightarrow> 'p shm_manager \<Rightarrow> addr option" where
  "find_vaddr_by_shmid p shmid sm =
     (case bt_get (pid_shmid_vaddr sm) p of
        None \<Rightarrow> None | Some m \<Rightarrow> bi_get_by_key m shmid)"

definition insert_key_shmid :: "i32 \<Rightarrow> i32 \<Rightarrow> 'p shm_manager \<Rightarrow> 'p shm_manager" where
  "insert_key_shmid key shmid sm = sm\<lparr>key_shmid := bi_insert key shmid (key_shmid sm)\<rparr>"

definition insert_shmid_inner :: "i32 \<Rightarrow> 'p shm_inner \<Rightarrow> 'p shm_manager \<Rightarrow> 'p shm_manager" where
  "insert_shmid_inner shmid s sm = sm\<lparr>shmid_inner := bt_insert shmid s (shmid_inner sm)\<rparr>"

definition insert_shmid_vaddr :: "pid \<Rightarrow> i32 \<Rightarrow> addr \<Rightarrow> 'p shm_manager \<Rightarrow> 'p shm_manager" where
  "insert_shmid_vaddr p shmid vaddr sm =
     (let m = (case bt_get (pid_shmid_vaddr sm) p of None \<Rightarrow> bi_new | Some m \<Rightarrow> m)
      in sm\<lparr>pid_shmid_vaddr := bt_insert p (bi_insert shmid vaddr m) (pid_shmid_vaddr sm)\<rparr>)"

definition remove_shmaddr :: "pid \<Rightarrow> addr \<Rightarrow> 'p shm_manager \<Rightarrow> 'p shm_manager" where
  "remove_shmaddr p shmaddr sm =
     (case bt_get (pid_shmid_vaddr sm) p of
        None \<Rightarrow> sm
      | Some m \<Rightarrow>
          (let m' = fst (bi_remove_by_value shmaddr m);
               sm' = sm\<lparr>pid_shmid_vaddr := bt_insert p m' (pid_shmid_vaddr sm)\<rparr>
           in if bi_forward m' = []
              then sm'\<lparr>pid_shmid_vaddr := bt_remove p (pid_shmid_vaddr sm')\<rparr>
              else sm'))"

definition remove_pid :: "pid \<Rightarrow> 'p shm_manager \<Rightarrow> 'p shm_manager" where
  "remove_pid p sm = sm\<lparr>pid_shmid_vaddr := bt_remove p (pid_shmid_vaddr sm)\<rparr>"

definition remove_shmid :: "i32 \<Rightarrow> 'p shm_manager \<Rightarrow> 'p shm_manager" where
  "remove_shmid shmid sm =
     sm\<lparr>key_shmid := fst (bi_remove_by_value shmid (key_shmid sm)),
        shmid_inner := bt_remove shmid (shmid_inner sm)\<rparr>"

text \<open>Process exit: detach from every segment the process is recorded with.\<close>

fun clear_shmids :: "i64 \<Rightarrow> pid \<Rightarrow> i32 list \<Rightarrow> 'p shm_manager \<Rightarrow> 'p shm_manager outcome" where
  "clear_shmids now p [] sm = Ok sm"
| "clear_shmids now p (shmid # rest) sm =
     (case get_inner_by_shmid shmid sm of
        None \<Rightarrow> clear_shmids now p rest sm
      | Some s \<Rightarrow>
          (case detach_process now p s of
             Inl e \<Rightarrow> Inl e
           | Inr s' \<Rightarrow>
               (let sm' = insert_shmid_inner shmid s' sm
                in clear_shmids now p rest
                     (if si_rmid s' \<and> attach_count s' = 0 then remove_shmid shmid sm' else sm'))))"

definition clear_proc_shm :: "i64 \<Rightarrow> pid \<Rightarrow> 'p shm_manager \<Rightarrow> 'p shm_manager outcome" where
  "clear_proc_shm now p sm =
     (case (case get_shmids_by_pid p sm of
              None \<Rightarrow> Ok sm | Some shmids \<Rightarrow> clear_shmids now p shmids sm) of
        Inl e \<Rightarrow> Inl e
      | Inr sm' \<Rightarrow> Ok (remove_pid p sm'))"

subsection \<open>The system calls\<close>

definition SHM_RDONLY :: u32 where "SHM_RDONLY = 0x1000"

definition shm_mapping_flags :: "u64 \<Rightarrow> mapping_flags" where
  "shm_mapping_flags shmflg =
     \<lparr>mf_read = any_flag shmflg 0x100, mf_write = any_flag shmflg 0x80,
      mf_execute = any_flag shmflg 0x40, mf_user = True\<rparr>"

definition sys_shmget ::
    "('a, 'p) shm_mm \<Rightarrow> pid \<Rightarrow> i32 \<Rightarrow> nat \<Rightarrow> u64 \<Rightarrow> i32 \<times> 'p shm_manager
     \<Rightarrow> (i32 \<times> 'p shm_manager) \<times> int outcome" where
  "sys_shmget mm cur_pid key sz shmflg st =
     (let (ipc_id, sm) = st;
          page_num = mm_align_up_4k mm sz div PAGE_SIZE_4K;
          mapping_flags = shm_mapping_flags shmflg;
          create =
            (let (shmid, ipc_id') = next_ipc_id ipc_id;
                 s = shm_inner_new mm key shmid sz mapping_flags cur_pid
             in ((ipc_id', insert_shmid_inner shmid s (insert_key_shmid key shmid sm)), Ok shmid))
      in
      if page_num = 0 then (st, Fail InvalidInput)
      else if key \<noteq> IPC_PRIVATE then
        (case get_shmid_by_key key sm of
           Some shmid \<Rightarrow>
             (case get_inner_by_shmid shmid sm of
                None \<Rightarrow> (st, Fail InvalidInput)
              | Some s \<Rightarrow>
                  (let (s', r) = try_update mm sz mapping_flags cur_pid s
                   in ((ipc_id, insert_shmid_inner shmid s' sm), r)))
         | None \<Rightarrow> create)
      else create)"

text \<open>
  The mapping step of \<open>sys_shmat\<close>: the first attach allocates the pages. The segment is
  returned with its pages set.
\<close>

definition shmat_map ::
    "('a, 'p) shm_mm \<Rightarrow> addr \<Rightarrow> nat \<Rightarrow> mapping_flags \<Rightarrow> 'p shm_inner \<Rightarrow> 'a \<Rightarrow> 'a \<times> 'p shm_inner outcome" where
  "shmat_map mm start_addr len flags s aspace =
     (case si_phys_pages s of
        Some phys_pages \<Rightarrow>
          (case mm_map_shared mm start_addr len flags phys_pages aspace of
             (a, Inl e) \<Rightarrow> (a, Inl e) | (a, Inr _) \<Rightarrow> (a, Ok s))
      | None \<Rightarrow>
          (case mm_shared_pages mm len aspace of
             (a, Inl e) \<Rightarrow> (a, Inl e)
           | (a, Inr pages) \<Rightarrow>
               (case mm_map_shared mm start_addr len flags pages a of
                  (a', Inl e) \<Rightarrow> (a', Inl e)
                | (a', Inr _) \<Rightarrow> (a', Ok (map_to_phys pages s)))))"

definition sys_shmat ::
    "('a, 'p) shm_mm \<Rightarrow> i64 \<Rightarrow> pid \<Rightarrow> i32 \<Rightarrow> addr \<Rightarrow> u32 \<Rightarrow> 'a \<Rightarrow> 'p shm_manager
     \<Rightarrow> 'a \<times> 'p shm_manager \<times> nat outcome" where
  "sys_shmat mm now p shmid va shmflg aspace sm =
     (case get_inner_by_shmid shmid sm of
        None \<Rightarrow> (aspace, sm, Panicked)
      | Some s \<Rightarrow>
          (let flags = (if has_flags shmflg SHM_RDONLY then (si_mapping_flags s)\<lparr>mf_write := False\<rparr>
                        else si_mapping_flags s);
               start_aligned = mm_align_down_4k mm va;
               len = umul (si_page_num s) PAGE_SIZE_4K;
               limit = (mm_base mm aspace, mm_end mm aspace)
           in
           case get_addr_range p s of
             Some _ \<Rightarrow> (aspace, sm, Panicked)
           | None \<Rightarrow>
             (case (case mm_find_free mm aspace start_aligned len limit PAGE_SIZE_4K of
                      Some a \<Rightarrow> Some a
                    | None \<Rightarrow> mm_find_free mm aspace (mm_base mm aspace) len limit PAGE_SIZE_4K) of
                None \<Rightarrow> (aspace, sm, Fail NoMemory)
              | Some start_addr \<Rightarrow>
                  (let va_range = (start_addr, uadd start_addr len);
                       sm1 = insert_shmid_vaddr p (si_shmid s) start_addr sm;
                       (aspace2, r) = shmat_map mm start_addr len flags s aspace
                   in
                   case r of
                     Inl e \<Rightarrow> (aspace2, sm1, Inl e)
                   | Inr s1 \<Rightarrow>
                       (case attach_process now p va_range s1 of
                          Inl e \<Rightarrow> (aspace2, sm1, Inl e)
                        | Inr s2 \<Rightarrow> (aspace2, insert_shmid_inner shmid s2 sm1, Ok start_addr))))))"

text \<open>The user's \<open>shmid_ds\<close> buffer, read and written through \<open>UserPtr\<close>.\<close>

record 'u shm_vm =
  svm_get_ds :: "addr \<Rightarrow> 'u \<Rightarrow> shmid_ds outcome"
  svm_put_ds :: "addr \<Rightarrow> shmid_ds \<Rightarrow> 'u \<Rightarrow> 'u"

definition sys_shmctl ::
    "'u shm_vm \<Rightarrow> i64 \<Rightarrow> i32 \<Rightarrow> i32 \<Rightarrow> addr \<Rightarrow> 'u \<Rightarrow> 'p shm_manager
     \<Rightarrow> 'p shm_manager \<times> 'u \<times> int outcome" where
  "sys_shmctl vm now shmid cmd buf u sm =
     (case get_inner_by_shmid shmid sm of
        None \<Rightarrow> (sm, u, Fail InvalidInput)
      | Some s \<Rightarrow>
          (let finish = (\<lambda>s' u'. (insert_shmid_inner shmid (s'\<lparr>si_ds := (si_ds s')\<lparr>shm_ctime := now\<rparr>\<rparr>) sm,
                                   u', Ok 0))
           in
           if cmd = IPC_SET then
             (case svm_get_ds vm buf u of
                Inl e \<Rightarrow> (sm, u, Inl e)
              | Inr ds \<Rightarrow> finish (s\<lparr>si_ds := ds\<rparr>) u)
           else if cmd = IPC_STAT then
             (if buf = 0 then finish s u
              else case svm_get_ds vm buf u of
                     Inl e \<Rightarrow> (sm, u, Inl e)
                   | Inr _ \<Rightarrow> finish s (svm_put_ds vm buf (si_ds s) u))
           else if cmd = IPC_RMID then finish (s\<lparr>si_rmid := True\<rparr>) u
           else (sm, u, Fail InvalidInput)))"

definition sys_shmdt ::
    "('a, 'p) shm_mm \<Rightarrow> i64 \<Rightarrow> pid \<Rightarrow> addr \<Rightarrow> 'a \<Rightarrow> 'p shm_manager
     \<Rightarrow> 'a \<times> 'p shm_manager \<times> int outcome" where
  "sys_shmdt mm now p shmaddr aspace sm =
     (case get_shmid_by_vaddr p shmaddr sm of
        None \<Rightarrow> (aspace, sm, Fail InvalidInput)
      | Some shmid \<Rightarrow>
          (case get_inner_by_shmid shmid sm of
             None \<Rightarrow> (aspace, sm, Fail InvalidInput)
           | Some s \<Rightarrow>
               (case get_addr_range p s of
                  None \<Rightarrow> (aspace, sm, Fail InvalidInput)
                | Some va_range \<Rightarrow>
                    (case mm_unmap mm (fst va_range) (snd va_range - fst va_range) aspace of
                       (aspace', Inl e) \<Rightarrow> (aspace', sm, Inl e)
                     | (aspace', Inr _) \<Rightarrow>
                         (let sm1 = remove_shmaddr p shmaddr sm in
                          case detach_process now p s of
                            Inl e \<Rightarrow> (aspace', sm1, Inl e)
                          | Inr s' \<Rightarrow>
                              (let sm2 = insert_shmid_inner shmid s' sm1
                               in (aspace',
                                   if si_rmid s' \<and> attach_count s' = 0 then remove_shmid shmid sm2
                                   else sm2, Ok 0)))))))"

end
