(* ===== verification/Shm_Theorems.thy ===== *)
theory Shm_Theorems
  imports Shm
begin

section \<open>Shared memory: the invariant and the properties\<close>

text \<open>
  The manager keeps the attachments twice: per process (\<open>pid_shmid_vaddr\<close>) and per segment
  (\<open>va_range\<close>). The invariant \<open>shm_ok\<close> says that the two agree. It is kept by every call
  that runs to its end and by process exit; a \<open>sys_shmat\<close> that fails half way breaks it.
\<close>

subsection \<open>The invariant\<close>

definition attached_at :: "pid \<Rightarrow> i32 \<Rightarrow> 'p shm_manager \<Rightarrow> addr option" where
  "attached_at p i sm =
     (case get_inner_by_shmid i sm of None \<Rightarrow> None | Some s \<Rightarrow> map_option fst (get_addr_range p s))"

definition seg_ok :: "i32 \<Rightarrow> i32 \<Rightarrow> 'p shm_inner \<Rightarrow> bool" where
  "seg_ok n i s \<longleftrightarrow> si_shmid s = i \<and> 0 \<le> i \<and> i < n \<and> bt_ok (si_va_range s)"

text \<open>
  \<open>D\<close> holds the attachments already taken out of their segment but not yet out of the
  process's table, as in the middle of a process exit; between calls it is empty.
\<close>

definition shm_inv :: "(pid \<times> i32) set \<Rightarrow> i32 \<times> 'p shm_manager \<Rightarrow> bool" where
  "shm_inv D st \<longleftrightarrow> (let (n, sm) = st in
     is_i32 n \<and> 0 \<le> n \<and> bi_ok (key_shmid sm) \<and> bt_ok (shmid_inner sm) \<and> bt_ok (pid_shmid_vaddr sm)
     \<and> (\<forall>i s. get_inner_by_shmid i sm = Some s \<longrightarrow> seg_ok n i s)
     \<and> (\<forall>k i. get_shmid_by_key k sm = Some i \<longrightarrow> get_inner_by_shmid i sm \<noteq> None)
     \<and> (\<forall>p m. bt_get (pid_shmid_vaddr sm) p = Some m \<longrightarrow> bi_ok m)
     \<and> (\<forall>p i. attached_at p i sm = (if (p, i) \<in> D then None else find_vaddr_by_shmid p i sm)))"

definition shm_ok :: "i32 \<times> 'p shm_manager \<Rightarrow> bool" where
  "shm_ok st \<longleftrightarrow> shm_inv {} st"

lemma shm_invI:
  assumes "is_i32 n" and "0 \<le> n" and "bi_ok (key_shmid sm)" and "bt_ok (shmid_inner sm)"
    and "bt_ok (pid_shmid_vaddr sm)"
    and "\<And>i s. get_inner_by_shmid i sm = Some s \<Longrightarrow> seg_ok n i s"
    and "\<And>k i. get_shmid_by_key k sm = Some i \<Longrightarrow> get_inner_by_shmid i sm \<noteq> None"
    and "\<And>p m. bt_get (pid_shmid_vaddr sm) p = Some m \<Longrightarrow> bi_ok m"
    and "\<And>p i. attached_at p i sm = (if (p, i) \<in> D then None else find_vaddr_by_shmid p i sm)"
  shows "shm_inv D (n, sm)"
  unfolding shm_inv_def Let_def prod.case using assms by blast

lemma shm_invD:
  assumes "shm_inv D (n, sm)"
  shows "is_i32 n" and "0 \<le> n" and "bi_ok (key_shmid sm)" and "bt_ok (shmid_inner sm)"
    and "bt_ok (pid_shmid_vaddr sm)"
    and "get_inner_by_shmid i sm = Some s \<Longrightarrow> seg_ok n i s"
    and "get_shmid_by_key k sm = Some i \<Longrightarrow> get_inner_by_shmid i sm \<noteq> None"
    and "bt_get (pid_shmid_vaddr sm) p = Some m \<Longrightarrow> bi_ok m"
    and "attached_at p i sm = (if (p, i) \<in> D then None else find_vaddr_by_shmid p i sm)"
  using assms unfolding shm_inv_def Let_def prod.case by blast+

lemma shm_ok_init: "shm_ok (0, shm_manager_new)"
  by (simp add: shm_ok_def shm_inv_def shm_manager_new_def is_i32_def bi.inv_emp get_inner_by_shmid_def
      get_shmid_by_key_def bi.fwd_emp find_vaddr_by_shmid_def attached_at_def)

subsection \<open>What the table updates do to the lookups\<close>

lemma inner_insert:
  "bt_ok (shmid_inner sm) \<Longrightarrow>
     get_inner_by_shmid j (insert_shmid_inner i s sm) = (if j = i then Some s else get_inner_by_shmid j sm)"
  by (simp add: get_inner_by_shmid_def insert_shmid_inner_def)

lemma inner_remove:
  "bt_ok (shmid_inner sm) \<Longrightarrow>
     get_inner_by_shmid j (remove_shmid i sm) = (if j = i then None else get_inner_by_shmid j sm)"
  by (simp add: get_inner_by_shmid_def remove_shmid_def)

lemma shm_frames [simp]:
  "key_shmid (insert_shmid_inner i s sm) = key_shmid sm"
  "pid_shmid_vaddr (insert_shmid_inner i s sm) = pid_shmid_vaddr sm"
  "shmid_inner (insert_shmid_inner i s sm) = bt_insert i s (shmid_inner sm)"
  "key_shmid (insert_key_shmid k i sm) = bi_insert k i (key_shmid sm)"
  "shmid_inner (insert_key_shmid k i sm) = shmid_inner sm"
  "pid_shmid_vaddr (insert_key_shmid k i sm) = pid_shmid_vaddr sm"
  "shmid_inner (insert_shmid_vaddr p i va sm) = shmid_inner sm"
  "key_shmid (insert_shmid_vaddr p i va sm) = key_shmid sm"
  "pid_shmid_vaddr (remove_shmid i sm) = pid_shmid_vaddr sm"
  "shmid_inner (remove_pid p sm) = shmid_inner sm"
  "key_shmid (remove_pid p sm) = key_shmid sm"
  by (simp_all add: insert_shmid_inner_def insert_key_shmid_def insert_shmid_vaddr_def
      remove_shmid_def remove_pid_def Let_def)

lemma remove_shmaddr_frame [simp]:
  "shmid_inner (remove_shmaddr p va sm) = shmid_inner sm"
  "key_shmid (remove_shmaddr p va sm) = key_shmid sm"
  by (simp_all add: remove_shmaddr_def Let_def split: option.split)

lemma shm_lookup_frames [simp]:
  "find_vaddr_by_shmid p j (insert_shmid_inner i s sm) = find_vaddr_by_shmid p j sm"
  "find_vaddr_by_shmid p j (remove_shmid i sm) = find_vaddr_by_shmid p j sm"
  "find_vaddr_by_shmid p j (insert_key_shmid k i sm) = find_vaddr_by_shmid p j sm"
  "get_shmid_by_key k (insert_shmid_inner i s sm) = get_shmid_by_key k sm"
  "get_shmid_by_key k (insert_shmid_vaddr p i va sm) = get_shmid_by_key k sm"
  "get_shmid_by_key k (remove_shmaddr p va sm) = get_shmid_by_key k sm"
  "get_shmid_by_key k (remove_pid p sm) = get_shmid_by_key k sm"
  "get_inner_by_shmid j (insert_shmid_vaddr p i va sm) = get_inner_by_shmid j sm"
  "get_inner_by_shmid j (insert_key_shmid k i sm) = get_inner_by_shmid j sm"
  "get_inner_by_shmid j (remove_shmaddr p va sm) = get_inner_by_shmid j sm"
  "get_inner_by_shmid j (remove_pid p sm) = get_inner_by_shmid j sm"
  by (simp_all add: find_vaddr_by_shmid_def get_shmid_by_key_def get_inner_by_shmid_def)

lemma key_remove:
  "bi_ok (key_shmid sm) \<Longrightarrow> get_shmid_by_key k (remove_shmid i sm) =
     (if get_shmid_by_key k sm = Some i then None else get_shmid_by_key k sm)"
  by (simp add: get_shmid_by_key_def remove_shmid_def bi.fwd_delv)

lemma vaddr_insert:
  assumes "shm_inv D (n, sm)" and "\<And>j. find_vaddr_by_shmid p j sm \<noteq> Some va"
  shows "find_vaddr_by_shmid q j (insert_shmid_vaddr p i va sm) =
    (if q = p \<and> j = i then Some va else find_vaddr_by_shmid q j sm)"
proof (cases "bt_get (pid_shmid_vaddr sm) p")
  case None
  with shm_invD(5) [OF assms(1)] show ?thesis
    by (simp add: find_vaddr_by_shmid_def insert_shmid_vaddr_def Let_def bi.fwd_ins bi.inv_emp bi.fwd_emp)
next
  case (Some m)
  with shm_invD(5,8) [OF assms(1)] assms(2) show ?thesis
    by (simp add: find_vaddr_by_shmid_def insert_shmid_vaddr_def Let_def bi.fwd_ins)
qed

lemma vaddr_maps_insert:
  assumes "shm_inv D (n, sm)" and "bt_get (pid_shmid_vaddr (insert_shmid_vaddr p i va sm)) q = Some m"
  shows "bi_ok m"
  using assms(2) shm_invD(5) [OF assms(1)] shm_invD(8) [OF assms(1)]
  by (auto simp: insert_shmid_vaddr_def Let_def bi.inv_emp bi.inv_ins split: if_splits option.splits)

lemma vaddr_remove:
  assumes "shm_inv D (n, sm)" and "find_vaddr_by_shmid p i sm = Some va"
  shows "find_vaddr_by_shmid q j (remove_shmaddr p va sm) =
    (if q = p \<and> j = i then None else find_vaddr_by_shmid q j sm)"
proof -
  from assms(2) obtain m where m: "bt_get (pid_shmid_vaddr sm) p = Some m"
    and va: "bi_get_by_key m i = Some va"
    by (auto simp: find_vaddr_by_shmid_def split: option.splits)
  have ok: "bi_ok m" by (rule shm_invD(8) [OF assms(1) m])
  have fwd: "bi_get_by_key (fst (bi_remove_by_value va m)) k
      = (if k = i then None else bi_get_by_key m k)" for k
  proof (cases "k = i")
    case True
    with va show ?thesis by (simp add: bi.fwd_delv [OF ok])
  next
    case False
    then have "bi_get_by_key m k \<noteq> Some va" using bi.fwd_inj [OF ok va] by blast
    with False show ?thesis by (simp add: bi.fwd_delv [OF ok])
  qed
  show ?thesis
  proof (cases "bi_forward (fst (bi_remove_by_value va m)) = []")
    case True
    then have "bi_get_by_key (fst (bi_remove_by_value va m)) k = None" for k
      by (simp add: bi_get_by_key_def)
    with fwd have "k \<noteq> i \<Longrightarrow> bi_get_by_key m k = None" for k by metis
    with True m shm_invD(5) [OF assms(1)] show ?thesis
      by (simp add: find_vaddr_by_shmid_def remove_shmaddr_def Let_def)
  next
    case False
    with m fwd shm_invD(5) [OF assms(1)] show ?thesis
      by (simp add: find_vaddr_by_shmid_def remove_shmaddr_def Let_def)
  qed
qed

lemma vaddr_maps_remove:
  assumes "shm_inv D (n, sm)" and "bt_get (pid_shmid_vaddr (remove_shmaddr p va sm)) q = Some m"
  shows "bi_ok m"
  using assms(2) shm_invD(5) [OF assms(1)] shm_invD(8) [OF assms(1)]
  by (auto simp: remove_shmaddr_def Let_def bi.inv_delv split: if_splits option.splits)

lemma vaddr_remove_pid:
  "bt_ok (pid_shmid_vaddr sm) \<Longrightarrow> find_vaddr_by_shmid q j (remove_pid p sm) =
     (if q = p then None else find_vaddr_by_shmid q j sm)"
  by (simp add: find_vaddr_by_shmid_def remove_pid_def)

lemma attached_insert:
  "bt_ok (shmid_inner sm) \<Longrightarrow> attached_at p j (insert_shmid_inner i s sm) =
     (if j = i then map_option fst (get_addr_range p s) else attached_at p j sm)"
  by (simp add: attached_at_def inner_insert)

lemma attached_frames [simp]:
  "attached_at p j (insert_shmid_vaddr q i va sm) = attached_at p j sm"
  "attached_at p j (insert_key_shmid k i sm) = attached_at p j sm"
  "attached_at p j (remove_shmaddr q va sm) = attached_at p j sm"
  "attached_at p j (remove_pid q sm) = attached_at p j sm"
  by (simp_all add: attached_at_def)

subsection \<open>Updates of one segment\<close>

lemma shm_inv_segment:
  assumes inv: "shm_inv D (n, sm)" and old: "get_inner_by_shmid i sm = Some s"
    and new: "seg_ok n i s'"
    and range: "\<And>p. map_option fst (get_addr_range p s') =
      (if (p, i) \<in> D' then None else find_vaddr_by_shmid p i sm)"
    and same: "\<And>p j. j \<noteq> i \<Longrightarrow> (p, j) \<in> D' \<longleftrightarrow> (p, j) \<in> D"
  shows "shm_inv D' (n, insert_shmid_inner i s' sm)"
proof -
  note D = shm_invD [OF inv]
  show ?thesis
  proof (rule shm_invI, unfold inner_insert [OF D(4)] attached_insert [OF D(4)] shm_lookup_frames)
    fix p j
    show "(if j = i then map_option fst (get_addr_range p s') else attached_at p j sm) =
        (if (p, j) \<in> D' then None else find_vaddr_by_shmid p j sm)"
      using range [of p] same [of j p] D(9) [of p j] by (cases "j = i") simp_all
  next
    fix j r
    assume "(if j = i then Some s' else get_inner_by_shmid j sm) = Some r"
    then show "seg_ok n j r" using new D(6) [of j r] by (cases "j = i") simp_all
  next
    fix k j
    assume "get_shmid_by_key k sm = Some j"
    then show "(if j = i then Some s' else get_inner_by_shmid j sm) \<noteq> None"
      using D(7) [of k j] by simp
  next
    fix p m
    assume "bt_get (pid_shmid_vaddr (insert_shmid_inner i s' sm)) p = Some m"
    then show "bi_ok m" using D(8) by simp
  qed (use D in simp_all)
qed

text \<open>Changing anything but the attachments.\<close>

lemma shm_inv_stamp:
  assumes inv: "shm_inv D (n, sm)" and old: "get_inner_by_shmid i sm = Some s"
    and same: "si_va_range s' = si_va_range s" "si_shmid s' = si_shmid s"
  shows "shm_inv D (n, insert_shmid_inner i s' sm)"
proof (rule shm_inv_segment [OF inv old])
  show "seg_ok n i s'" using shm_invD(6) [OF inv old] same by (simp add: seg_ok_def)
  show "map_option fst (get_addr_range p s') =
      (if (p, i) \<in> D then None else find_vaddr_by_shmid p i sm)" for p
    using shm_invD(9) [OF inv, of p i] old same by (simp add: attached_at_def get_addr_range_def)
qed simp

lemma shm_inv_remove:
  assumes inv: "shm_inv D (n, sm)" and gone: "\<And>p. attached_at p i sm = None"
  shows "shm_inv D (n, remove_shmid i sm)"
proof -
  note D = shm_invD [OF inv]
  show ?thesis
  proof (rule shm_invI, unfold inner_remove [OF D(4)] key_remove [OF D(3)] shm_lookup_frames)
    fix p j
    show "attached_at p j (remove_shmid i sm) =
        (if (p, j) \<in> D then None else find_vaddr_by_shmid p j sm)"
      using gone [of p] D(9) [of p j]
      by (cases "j = i") (simp_all add: attached_at_def inner_remove [OF D(4)])
  next
    fix k j
    assume "(if get_shmid_by_key k sm = Some i then None else get_shmid_by_key k sm) = Some j"
    then show "(if j = i then None else get_inner_by_shmid j sm) \<noteq> None"
      using D(7) [of k j] by (auto split: if_splits)
  next
    show "bi_ok (key_shmid (remove_shmid i sm))"
      using D(3) by (simp add: remove_shmid_def bi.inv_delv)
    show "bt_ok (shmid_inner (remove_shmid i sm))"
      using D(4) by (simp add: remove_shmid_def)
  qed (use D in \<open>auto split: if_splits\<close>)
qed

lemma detach_process_ranges:
  assumes "detach_process now p s = Ok s'" and "bt_ok (si_va_range s)"
  shows "get_addr_range q s' = (if q = p then None else get_addr_range q s)"
    and "si_shmid s' = si_shmid s" and "si_rmid s' = si_rmid s" and "bt_ok (si_va_range s')"
    and "si_va_range s' = bt_remove p (si_va_range s)"
  using assms by (auto simp: detach_process_def get_addr_range_def split: if_splits)

lemma detach_process_total:
  "get_addr_range p s \<noteq> None \<Longrightarrow> \<exists>s'. detach_process now p s = Ok s'"
  by (simp add: detach_process_def)

lemma shm_inv_detach:
  assumes inv: "shm_inv D (n, sm)" and seg: "get_inner_by_shmid i sm = Some s"
    and det: "detach_process now p s = Ok s'"
  shows "shm_inv (insert (p, i) D) (n, insert_shmid_inner i s' sm)"
proof (rule shm_inv_segment [OF inv seg])
  have ok: "seg_ok n i s" by (rule shm_invD(6) [OF inv seg])
  then have "bt_ok (si_va_range s)" by (simp add: seg_ok_def)
  note R = detach_process_ranges [OF det this]
  show "seg_ok n i s'" using ok R by (simp add: seg_ok_def)
  show "map_option fst (get_addr_range q s') =
      (if (q, i) \<in> insert (p, i) D then None else find_vaddr_by_shmid q i sm)" for q
    using shm_invD(9) [OF inv, of q i] seg R(1) [of q]
    by (cases "(q, i) \<in> D"; cases "q = p") (simp_all add: attached_at_def)
qed simp

lemma attach_count_zero: "attach_count s = 0 \<longleftrightarrow> (\<forall>p. get_addr_range p s = None)"
  by (auto simp: attach_count_def get_addr_range_def bt_empty_iff)

text \<open>The detach used by both \<open>sys_shmdt\<close> and process exit, with the removal of the segment.\<close>

lemma shm_inv_detach_reap:
  assumes inv: "shm_inv D (n, sm)" and seg: "get_inner_by_shmid i sm = Some s"
    and det: "detach_process now p s = Ok s'"
  shows "shm_inv (insert (p, i) D) (n,
    if si_rmid s' \<and> attach_count s' = 0 then remove_shmid i (insert_shmid_inner i s' sm)
    else insert_shmid_inner i s' sm)"
proof -
  note inv' = shm_inv_detach [OF assms]
  have "attached_at q i (insert_shmid_inner i s' sm) = None" if "attach_count s' = 0" for q
    using that shm_invD(4) [OF inv] by (simp add: attach_count_zero attached_insert)
  with inv' show ?thesis by (simp add: shm_inv_remove)
qed

subsection \<open>Process exit\<close>

lemma clear_shmids_inv:
  assumes "shm_inv D (n, sm)" and "distinct ids"
    and "\<And>i. i \<in> set ids \<Longrightarrow> find_vaddr_by_shmid p i sm \<noteq> None \<and> (p, i) \<notin> D"
  shows "\<exists>sm'. clear_shmids now p ids sm = Ok sm' \<and> shm_inv (D \<union> Pair p ` set ids) (n, sm')
    \<and> pid_shmid_vaddr sm' = pid_shmid_vaddr sm"
  using assms
proof (induction ids arbitrary: D sm)
  case Nil
  then show ?case by simp
next
  case (Cons i ids)
  have "attached_at p i sm \<noteq> None"
    using Cons.prems(3) [of i] shm_invD(9) [OF Cons.prems(1), of p i] by simp
  then obtain s where seg: "get_inner_by_shmid i sm = Some s" and range: "get_addr_range p s \<noteq> None"
    by (auto simp: attached_at_def split: option.splits)
  from detach_process_total [OF range] obtain s' where det: "detach_process now p s = Ok s'"
    by blast
  define sm1 where "sm1 = (if si_rmid s' \<and> attach_count s' = 0
    then remove_shmid i (insert_shmid_inner i s' sm) else insert_shmid_inner i s' sm)"
  have inv1: "shm_inv (insert (p, i) D) (n, sm1)"
    unfolding sm1_def by (rule shm_inv_detach_reap [OF Cons.prems(1) seg det])
  have pids: "pid_shmid_vaddr sm1 = pid_shmid_vaddr sm" by (simp add: sm1_def)
  then have vaddr: "find_vaddr_by_shmid p j sm1 = find_vaddr_by_shmid p j sm" for j
    by (simp add: find_vaddr_by_shmid_def)
  have "\<exists>sm'. clear_shmids now p ids sm1 = Ok sm'
      \<and> shm_inv (insert (p, i) D \<union> Pair p ` set ids) (n, sm') \<and> pid_shmid_vaddr sm' = pid_shmid_vaddr sm1"
    by (rule Cons.IH [OF inv1]) (use Cons.prems vaddr in auto)
  moreover have "clear_shmids now p (i # ids) sm = clear_shmids now p ids sm1"
    by (simp add: seg det sm1_def Let_def)
  ultimately show ?case using pids by simp
qed

text \<open>After the loop the process is detached from every segment it was recorded with.\<close>

lemma clear_proc_shm_loop:
  assumes inv: "shm_inv {} (n, sm)"
  shows "\<exists>sm' E. clear_proc_shm now p sm = Ok (remove_pid p sm') \<and> shm_inv E (n, sm')
    \<and> E \<subseteq> Pair p ` UNIV \<and> (\<forall>i. (p, i) \<notin> E \<longrightarrow> find_vaddr_by_shmid p i sm' = None)"
proof (cases "bt_get (pid_shmid_vaddr sm) p")
  case None
  then show ?thesis
    using inv by (intro exI [of _ sm] exI [of _ "{}"])
      (simp add: clear_proc_shm_def get_shmids_by_pid_def find_vaddr_by_shmid_def)
next
  case (Some m)
  have fwd: "bt_ok (bi_forward m)" by (rule bi_okD(1) [OF shm_invD(8) [OF inv Some]])
  have keys: "find_vaddr_by_shmid p i sm \<noteq> None \<longleftrightarrow> i \<in> set (bt_keys (bi_forward m))" for i
    using Some by (simp add: find_vaddr_by_shmid_def bi_get_by_key_def bt_keys_iff)
  have "\<exists>sm'. clear_shmids now p (bt_keys (bi_forward m)) sm = Ok sm'
      \<and> shm_inv ({} \<union> Pair p ` set (bt_keys (bi_forward m))) (n, sm')
      \<and> pid_shmid_vaddr sm' = pid_shmid_vaddr sm"
    by (rule clear_shmids_inv [OF inv])
      (use bt_ok_distinct [OF fwd] keys in \<open>auto simp: bt_keys_def\<close>)
  then obtain sm' where run: "clear_shmids now p (bt_keys (bi_forward m)) sm = Ok sm'"
    and inv': "shm_inv (Pair p ` set (bt_keys (bi_forward m))) (n, sm')"
    and pids: "pid_shmid_vaddr sm' = pid_shmid_vaddr sm"
    by auto
  have "find_vaddr_by_shmid p i sm' = find_vaddr_by_shmid p i sm" for i
    using pids by (simp add: find_vaddr_by_shmid_def)
  then have "(p, i) \<notin> Pair p ` set (bt_keys (bi_forward m)) \<longrightarrow> find_vaddr_by_shmid p i sm' = None"
    for i
    using keys [of i] by (cases "find_vaddr_by_shmid p i sm") auto
  with Some run inv' show ?thesis
    by (intro exI [of _ sm'] exI [of _ "Pair p ` set (bt_keys (bi_forward m))"])
      (auto simp: clear_proc_shm_def get_shmids_by_pid_def)
qed

lemma clear_proc_shm_ok:
  assumes "shm_ok (n, sm)"
  shows "\<exists>sm'. clear_proc_shm now p sm = Ok sm' \<and> shm_ok (n, sm')
    \<and> (\<forall>i. attached_at p i sm' = None \<and> find_vaddr_by_shmid p i sm' = None)"
proof -
  have inv: "shm_inv {} (n, sm)" using assms by (simp add: shm_ok_def)
  obtain sm' E where run: "clear_proc_shm now p sm = Ok (remove_pid p sm')"
    and inv': "shm_inv E (n, sm')" and E: "E \<subseteq> Pair p ` UNIV"
    and rest: "\<And>i. (p, i) \<notin> E \<Longrightarrow> find_vaddr_by_shmid p i sm' = None"
    using clear_proc_shm_loop [OF inv] by blast
  note D' = shm_invD [OF inv']
  have gone: "attached_at p i sm' = None" for i using D'(9) [of p i] rest [of i] by simp
  have "shm_inv {} (n, remove_pid p sm')"
  proof (rule shm_invI, unfold shm_frames shm_lookup_frames attached_frames)
    fix q i
    have "(q, i) \<notin> E" if "q \<noteq> p" using E that by auto
    then show "attached_at q i sm' =
        (if (q, i) \<in> {} then None else find_vaddr_by_shmid q i (remove_pid p sm'))"
      using gone [of i] D'(9) [of q i] by (cases "q = p") (simp_all add: vaddr_remove_pid [OF D'(5)])
  next
    fix q m
    assume "bt_get (pid_shmid_vaddr (remove_pid p sm')) q = Some m"
    then show "bi_ok m" using D'(5,8) by (auto simp: remove_pid_def split: if_splits)
  next
    show "bt_ok (pid_shmid_vaddr (remove_pid p sm'))" using D'(5) by (simp add: remove_pid_def)
  qed (use D' in simp_all)
  with run gone show ?thesis
    by (auto simp: shm_ok_def vaddr_remove_pid [OF D'(5)])
qed

subsection \<open>The system calls\<close>

lemma sys_shmget_ok:
  assumes ok: "shm_ok (n, sm)" and n: "n < 2 ^ 31 - 1"
    and run: "sys_shmget mm p key sz flg (n, sm) = (st', r)"
  shows "shm_ok st'"
proof -
  have inv: "shm_inv {} (n, sm)" using ok by (simp add: shm_ok_def)
  note D = shm_invD [OF inv]
  have id: "next_ipc_id n = (n, n + 1)" using D(1) n by (rule next_ipc_id_fresh)
  let ?s = "shm_inner_new mm key n sz (shm_mapping_flags flg) p"
  let ?new = "insert_shmid_inner n ?s (insert_key_shmid key n sm)"
  have none: "get_inner_by_shmid n sm = None"
    using D(6) [of n] by (cases "get_inner_by_shmid n sm") (auto simp: seg_ok_def)
  have ok1: "bt_ok (shmid_inner (insert_key_shmid key n sm))" using D(4) by simp
  have new: "shm_inv {} (n + 1, ?new)"
  proof (rule shm_invI, unfold inner_insert [OF ok1] attached_insert [OF ok1] shm_lookup_frames attached_frames)
    fix q j
    show "(if j = n then map_option fst (get_addr_range q ?s) else attached_at q j sm) =
        (if (q, j) \<in> {} then None else find_vaddr_by_shmid q j sm)"
      using D(9) [of q j] none by (auto simp: attached_at_def get_addr_range_def shm_inner_new_def)
  next
    fix j r
    assume "(if j = n then Some ?s else get_inner_by_shmid j sm) = Some r"
    then show "seg_ok (n + 1) j r"
      using D(2) D(6) [of j r] by (auto simp: seg_ok_def shm_inner_new_def split: if_splits)
  next
    fix k j
    assume "get_shmid_by_key k (insert_key_shmid key n sm) = Some j"
    then show "(if j = n then Some ?s else get_inner_by_shmid j sm) \<noteq> None"
      using D(3) D(7) [of k j]
      by (auto simp: get_shmid_by_key_def insert_key_shmid_def bi.fwd_ins split: if_splits)
  qed (use D n in \<open>auto simp: is_i32_def bi.inv_ins\<close>)
  consider "st' = (n, sm)" | "st' = (n + 1, ?new)"
    | i s where "get_inner_by_shmid i sm = Some s"
      "st' = (n, insert_shmid_inner i (fst (try_update mm sz (shm_mapping_flags flg) p s)) sm)"
    using run id by (auto simp: sys_shmget_def Let_def split: if_splits option.splits prod.splits)
  then show ?thesis
  proof cases
    case 3
    then show ?thesis
      using shm_inv_stamp [OF inv 3(1), of "fst (try_update mm sz (shm_mapping_flags flg) p s)"]
      by (simp add: shm_ok_def try_update_def)
  qed (use ok new in \<open>simp_all add: shm_ok_def\<close>)
qed

text \<open>What a successful \<open>sys_shmat\<close> has done to the tables.\<close>

lemma shmat_map_same:
  assumes "shmat_map mm start len flags s a = (a', Ok s1)"
  shows "si_va_range s1 = si_va_range s" and "si_shmid s1 = si_shmid s" and "si_ds s1 = si_ds s"
    and "si_rmid s1 = si_rmid s"
  using assms
  by (auto simp: shmat_map_def map_to_phys_def split: option.splits prod.splits sum.splits)

lemma sys_shmat_done:
  assumes "sys_shmat mm now p i va flg a sm = (a', sm', Ok start)"
  obtains s s1 s2 e where "get_inner_by_shmid i sm = Some s" and "get_addr_range p s = None"
    and "si_va_range s1 = si_va_range s" and "si_shmid s1 = si_shmid s" and "si_ds s1 = si_ds s"
    and "si_rmid s1 = si_rmid s"
    and "s2 = s1\<lparr>si_va_range := bt_insert p (start, e) (si_va_range s1),
          si_ds := (si_ds s1)\<lparr>shm_nattch := shm_nattch (si_ds s1) + 1,
                              shm_lpid := wrap_i32 (int p), shm_atime := now\<rparr>\<rparr>"
    and "sm' = insert_shmid_inner i s2 (insert_shmid_vaddr p (si_shmid s) start sm)"
proof -
  from assms obtain s len flags s1 s2 where seg: "get_inner_by_shmid i sm = Some s"
    and none: "get_addr_range p s = None"
    and map: "shmat_map mm start len flags s a = (a', Ok s1)"
    and att: "attach_process now p (start, uadd start len) s1 = Ok s2"
    and sm': "sm' = insert_shmid_inner i s2 (insert_shmid_vaddr p (si_shmid s) start sm)"
    by (auto simp: sys_shmat_def Let_def split: if_splits option.splits prod.splits sum.splits)
  from att have "s2 = s1\<lparr>si_va_range := bt_insert p (start, uadd start len) (si_va_range s1),
          si_ds := (si_ds s1)\<lparr>shm_nattch := shm_nattch (si_ds s1) + 1,
                              shm_lpid := wrap_i32 (int p), shm_atime := now\<rparr>\<rparr>"
    by (simp add: attach_process_def split: if_splits)
  with that seg none shmat_map_same [OF map] sm' show ?thesis by blast
qed

lemma sys_shmat_ok:
  assumes ok: "shm_ok (n, sm)" and run: "sys_shmat mm now p i va flg a sm = (a', sm', Ok start)"
    and free: "\<And>j. find_vaddr_by_shmid p j sm \<noteq> Some start"
  shows "shm_ok (n, sm')"
proof -
  have inv: "shm_inv {} (n, sm)" using ok by (simp add: shm_ok_def)
  note D = shm_invD [OF inv]
  from run obtain s s1 s2 e where seg: "get_inner_by_shmid i sm = Some s"
    and s1: "si_va_range s1 = si_va_range s" "si_shmid s1 = si_shmid s"
    and s2: "s2 = s1\<lparr>si_va_range := bt_insert p (start, e) (si_va_range s1),
          si_ds := (si_ds s1)\<lparr>shm_nattch := shm_nattch (si_ds s1) + 1,
                              shm_lpid := wrap_i32 (int p), shm_atime := now\<rparr>\<rparr>"
    and sm': "sm' = insert_shmid_inner i s2 (insert_shmid_vaddr p (si_shmid s) start sm)"
    by (rule sys_shmat_done)
  have okseg: "seg_ok n i s" by (rule D(6) [OF seg])
  then have range: "get_addr_range q s2 = (if q = p then Some (start, e) else get_addr_range q s)" for q
    using s1 by (simp add: s2 get_addr_range_def seg_ok_def)
  have ok2: "seg_ok n i s2" using okseg s1 by (simp add: s2 seg_ok_def)
  have id: "si_shmid s = i" using okseg by (simp add: seg_ok_def)
  have okt: "bt_ok (shmid_inner (insert_shmid_vaddr p i start sm))" using D(4) by simp
  have "shm_inv {} (n, insert_shmid_inner i s2 (insert_shmid_vaddr p i start sm))"
  proof (rule shm_invI, unfold inner_insert [OF okt] attached_insert [OF okt] shm_lookup_frames
      attached_frames vaddr_insert [OF inv free] shm_frames)
    fix q j
    show "(if j = i then map_option fst (get_addr_range q s2) else attached_at q j sm) =
        (if (q, j) \<in> {} then None
         else if q = p \<and> j = i then Some start else find_vaddr_by_shmid q j sm)"
      using D(9) [of q j] seg range by (auto simp: attached_at_def)
  next
    fix j r
    assume "(if j = i then Some s2 else get_inner_by_shmid j sm) = Some r"
    then show "seg_ok n j r" using ok2 D(6) [of j r] by (auto split: if_splits)
  next
    fix k j
    assume "get_shmid_by_key k sm = Some j"
    then show "(if j = i then Some s2 else get_inner_by_shmid j sm) \<noteq> None"
      using D(7) [of k j] by simp
  next
    fix q m
    assume "bt_get (pid_shmid_vaddr (insert_shmid_vaddr p i start sm)) q = Some m"
    then show "bi_ok m" by (rule vaddr_maps_insert [OF inv])
  next
    show "bt_ok (pid_shmid_vaddr (insert_shmid_vaddr p i start sm))"
      using D(5) by (simp add: insert_shmid_vaddr_def Let_def)
  qed (use D in simp_all)
  then show ?thesis by (simp add: shm_ok_def sm' id)
qed

lemma sys_shmctl_ok:
  assumes ok: "shm_ok (n, sm)" and run: "sys_shmctl vm now i cmd buf u sm = (sm', u', r)"
  shows "shm_ok (n, sm')"
proof (cases "get_inner_by_shmid i sm")
  case None
  with run ok show ?thesis by (simp add: sys_shmctl_def)
next
  case (Some s)
  have inv: "shm_inv {} (n, sm)" using ok by (simp add: shm_ok_def)
  have upd: "shm_ok (n, insert_shmid_inner i s' sm)"
    if "si_va_range s' = si_va_range s" and "si_shmid s' = si_shmid s" for s'
    using shm_inv_stamp [OF inv Some that] by (simp add: shm_ok_def)
  show ?thesis
    using run ok Some
    by (auto simp: sys_shmctl_def Let_def intro!: upd split: if_splits sum.splits)
qed

text \<open>
  \<open>sys_shmdt\<close> on a state that satisfies the invariant: an address that is not attached is
  rejected, otherwise the range is unmapped and the attachment leaves both tables.
\<close>

lemma sys_shmdt_cases:
  assumes ok: "shm_ok (n, sm)" and run: "sys_shmdt mm now p va a sm = (a', sm', r)"
  obtains (rejected) e where "r = Fail e" and "sm' = sm"
  | (unmap_failed) e where "r = Inl e" and "sm' = sm"
  | (detached) i s s' where "r = Ok 0" and "get_inner_by_shmid i sm = Some s"
    "find_vaddr_by_shmid p i sm = Some va" "detach_process now p s = Ok s'"
    "sm' = (if si_rmid s' \<and> attach_count s' = 0
            then remove_shmid i (insert_shmid_inner i s' (remove_shmaddr p va sm))
            else insert_shmid_inner i s' (remove_shmaddr p va sm))"
proof (cases "get_shmid_by_vaddr p va sm")
  case None
  with run show ?thesis by (auto simp: sys_shmdt_def intro: rejected)
next
  case (Some i)
  have inv: "shm_inv {} (n, sm)" using ok by (simp add: shm_ok_def)
  from Some obtain m where m: "bt_get (pid_shmid_vaddr sm) p = Some m"
    and "bi_get_by_value m va = Some i"
    by (auto simp: get_shmid_by_vaddr_def split: option.splits)
  then have vaddr: "find_vaddr_by_shmid p i sm = Some va"
    using bi.inverse [OF shm_invD(8) [OF inv m], of i va] by (simp add: find_vaddr_by_shmid_def)
  then have "attached_at p i sm = Some va" using shm_invD(9) [OF inv, of p i] by simp
  then obtain s range where seg: "get_inner_by_shmid i sm = Some s"
    and range: "get_addr_range p s = Some range"
    by (auto simp: attached_at_def split: option.splits)
  from range detach_process_total [of p s now] obtain s' where det: "detach_process now p s = Ok s'"
    by auto
  show ?thesis
  proof (cases "mm_unmap mm (fst range) (snd range - fst range) a")
    case (Pair a1 r1)
    show ?thesis
    proof (cases r1)
      case (Inl e)
      with Pair run Some seg range show ?thesis by (auto simp: sys_shmdt_def intro: unmap_failed)
    next
      case (Inr x)
      with Pair run Some seg range det vaddr show ?thesis
        by (intro detached [of i s s']) (auto simp: sys_shmdt_def Let_def)
    qed
  qed
qed

lemma remove_shmaddr_commute:
  "remove_shmaddr p va (insert_shmid_inner i s sm) = insert_shmid_inner i s (remove_shmaddr p va sm)"
  "remove_shmaddr p va (remove_shmid i sm) = remove_shmid i (remove_shmaddr p va sm)"
  by (simp_all add: remove_shmaddr_def insert_shmid_inner_def remove_shmid_def Let_def split: option.split)

lemma shm_inv_unrecord:
  assumes inv: "shm_inv {(p, i)} (n, sm)" and vaddr: "find_vaddr_by_shmid p i sm = Some va"
  shows "shm_inv {} (n, remove_shmaddr p va sm)"
proof -
  note D = shm_invD [OF inv]
  show ?thesis
  proof (rule shm_invI, unfold shm_lookup_frames attached_frames vaddr_remove [OF inv vaddr] remove_shmaddr_frame)
    fix q j
    show "attached_at q j sm = (if (q, j) \<in> {} then None
        else if q = p \<and> j = i then None else find_vaddr_by_shmid q j sm)"
      using D(9) [of q j] by simp
  next
    fix q m
    assume "bt_get (pid_shmid_vaddr (remove_shmaddr p va sm)) q = Some m"
    then show "bi_ok m" by (rule vaddr_maps_remove [OF inv])
  next
    show "bt_ok (pid_shmid_vaddr (remove_shmaddr p va sm))"
      using D(5) by (simp add: remove_shmaddr_def Let_def split: option.split)
  qed (use D in simp_all)
qed

lemma sys_shmdt_ok:
  assumes ok: "shm_ok (n, sm)" and run: "sys_shmdt mm now p va a sm = (a', sm', r)"
  shows "shm_ok (n, sm')"
  using ok run
proof (cases rule: sys_shmdt_cases)
  case (detached i s s')
  have inv: "shm_inv {} (n, sm)" using ok by (simp add: shm_ok_def)
  let ?sm1 = "if si_rmid s' \<and> attach_count s' = 0 then remove_shmid i (insert_shmid_inner i s' sm)
    else insert_shmid_inner i s' sm"
  have "shm_inv {(p, i)} (n, ?sm1)"
    using shm_inv_detach_reap [OF inv detached(2,4)] by simp
  then have "shm_inv {} (n, remove_shmaddr p va ?sm1)"
    by (rule shm_inv_unrecord) (use detached(3) in simp)
  moreover have "remove_shmaddr p va ?sm1 = sm'"
    unfolding detached(5) by (simp add: remove_shmaddr_commute)
  ultimately show ?thesis by (simp add: shm_ok_def)
qed (use ok in simp_all)

subsection \<open>Reachable states\<close>

text \<open>
  One step is one call of any process, or the exit of a process. The \<open>at\<close> steps are the
  \<open>sys_shmat\<close> calls that ran to their end, at an address where the process has no other
  segment (\<open>find_free_area\<close> returns a free area), or that failed before the first
  table was changed.
\<close>

inductive shm_step ::
    "('a, 'p) shm_mm \<Rightarrow> 'u shm_vm \<Rightarrow> i32 \<times> 'p shm_manager \<Rightarrow> i32 \<times> 'p shm_manager \<Rightarrow> bool"
  for mm vm where
  get: "n < 2 ^ 31 - 1 \<Longrightarrow> sys_shmget mm p key sz flg (n, sm) = (st', r) \<Longrightarrow> shm_step mm vm (n, sm) st'"
| at: "sys_shmat mm now p i va flg a sm = (a', sm', Ok start)
    \<Longrightarrow> (\<And>j. find_vaddr_by_shmid p j sm \<noteq> Some start) \<Longrightarrow> shm_step mm vm (n, sm) (n, sm')"
| at_early: "sys_shmat mm now p i va flg a sm = (a', sm, Inl e) \<Longrightarrow> shm_step mm vm (n, sm) (n, sm)"
| ctl: "sys_shmctl vm now i cmd buf u sm = (sm', u', r) \<Longrightarrow> shm_step mm vm (n, sm) (n, sm')"
| dt: "sys_shmdt mm now p va a sm = (a', sm', r) \<Longrightarrow> shm_step mm vm (n, sm) (n, sm')"
| exit: "clear_proc_shm now p sm = Ok sm' \<Longrightarrow> shm_step mm vm (n, sm) (n, sm')"
| other_id: "n < 2 ^ 31 - 1 \<Longrightarrow> shm_step mm vm (n, sm) (n + 1, sm)"

lemma shm_ok_bump:
  assumes "shm_ok (n, sm)" and "n < 2 ^ 31 - 1"
  shows "shm_ok (n + 1, sm)"
proof -
  have inv: "shm_inv {} (n, sm)" using assms(1) by (simp add: shm_ok_def)
  note D = shm_invD [OF inv]
  have seg: "seg_ok (n + 1) i s" if "get_inner_by_shmid i sm = Some s" for i s
    using D(6) [OF that] by (simp add: seg_ok_def)
  show ?thesis
    unfolding shm_ok_def
    by (rule shm_invI [OF _ _ D(3,4,5) seg D(7,8,9)])
      (use D(1,2) assms(2) in \<open>simp_all add: is_i32_def\<close>)
qed

lemma shm_exit_ok:
  assumes "shm_ok (n, sm)" and "clear_proc_shm now p sm = Ok sm'"
  shows "shm_ok (n, sm')"
  using clear_proc_shm_ok [OF assms(1), of now p] assms(2) by auto

lemma shm_step_ok: "shm_step mm vm st st' \<Longrightarrow> shm_ok st \<Longrightarrow> shm_ok st'"
  by (induction rule: shm_step.induct)
    (blast intro: sys_shmget_ok sys_shmat_ok sys_shmctl_ok sys_shmdt_ok shm_exit_ok shm_ok_bump)+

lemma shm_steps_ok: "(shm_step mm vm)\<^sup>*\<^sup>* st st' \<Longrightarrow> shm_ok st \<Longrightarrow> shm_ok st'"
  by (induction rule: rtranclp_induct) (blast intro: shm_step_ok)+

subsection \<open>Properties\<close>


text \<open>A concrete address space for the witnesses: the list of mapped ranges.\<close>

definition list_mm :: "((addr \<times> nat) list, nat) shm_mm" where
  "list_mm = \<lparr>mm_align_up_4k = (\<lambda>x. (x + 4095) div 4096 * 4096),
     mm_align_down_4k = (\<lambda>x. x div 4096 * 4096), mm_flag_bits = (\<lambda>_. 11),
     mm_base = (\<lambda>_. 0x1000), mm_end = (\<lambda>_. 0x100000),
     mm_find_free = (\<lambda>a hint len lim al. Some (0x1000 + sum_list (map snd a))),
     mm_shared_pages = (\<lambda>len a. (a, Ok len)),
     mm_map_shared = (\<lambda>va len fl pg a. (a @ [(va, len)], Ok ())),
     mm_unmap = (\<lambda>va len a. (filter (\<lambda>r. fst r \<noteq> va) a, Ok ()))\<rparr>"

definition zero_vm :: "unit shm_vm" where
  "zero_vm = \<lparr>svm_get_ds = (\<lambda>_ _. Fail BadAddress), svm_put_ds = (\<lambda>_ _ u. u)\<rparr>"

definition shm_demo1 :: "nat shm_manager" where
  "shm_demo1 = snd (fst (sys_shmget list_mm 5 77 4096 0x180 (0, shm_manager_new)))"

definition shm_demo2 :: "nat shm_manager" where
  "shm_demo2 = fst (snd (sys_shmat list_mm 3 5 0 0 0 [] shm_demo1))"

lemmas shm_eval = sys_shmget_def sys_shmat_def shmat_map_def list_mm_def shm_manager_new_def
  get_shmid_by_key_def get_inner_by_shmid_def insert_shmid_inner_def insert_key_shmid_def
  insert_shmid_vaddr_def next_ipc_id_def wrap_i32_def IPC_PRIVATE_def bi_get_by_key_def
  bi_get_by_value_def bi_new_def bi_insert_def bt_get_def shm_inner_new_def shmid_ds_new_def
  shm_mapping_flags_def any_flag_def has_flags_def SHM_RDONLY_def get_addr_range_def umul_def uadd_def
  attach_process_def map_to_phys_def find_vaddr_by_shmid_def

lemma shm_demo1_run: "sys_shmget list_mm 5 77 4096 0x180 (0, shm_manager_new) = ((1, shm_demo1), Ok 0)"
  unfolding shm_demo1_def by (simp add: shm_eval)

lemma shm_demo2_run:
  "sys_shmat list_mm 3 5 0 0 0 [] shm_demo1 = ([(0x1000, 0x1000)], shm_demo2, Ok 0x1000)"
  unfolding shm_demo1_def shm_demo2_def by (simp add: shm_eval)

lemma shm_demo1_vaddr: "find_vaddr_by_shmid 5 j shm_demo1 = None"
  unfolding shm_demo1_def by (simp add: shm_eval)

lemma shm_demo_steps: "(shm_step list_mm zero_vm)\<^sup>*\<^sup>* (0, shm_manager_new) (1, shm_demo2)"
proof -
  have "shm_step list_mm zero_vm (0, shm_manager_new) (1, shm_demo1)"
    by (rule shm_step.get [OF _ shm_demo1_run]) simp
  moreover have "shm_step list_mm zero_vm (1, shm_demo1) (1, shm_demo2)"
    by (rule shm_step.at [OF shm_demo2_run]) (simp add: shm_demo1_vaddr)
  ultimately show ?thesis by auto
qed


lemma sys_shmat_attaches:
  assumes ok: "shm_ok (n, sm)" and at: "sys_shmat mm now p i va flg a sm = (a1, sm1, Ok start)"
    and free: "\<And>j. find_vaddr_by_shmid p j sm \<noteq> Some start"
  shows "attached_at q j sm1 = (if q = p \<and> j = i then Some start else attached_at q j sm)"
    and "attached_at p i sm = None"
    and "get_inner_by_shmid i sm = Some s
      \<Longrightarrow> \<exists>s1. get_inner_by_shmid i sm1 = Some s1 \<and> si_rmid s1 = si_rmid s"
proof -
  have inv: "shm_inv {} (n, sm)" using ok by (simp add: shm_ok_def)
  note D = shm_invD [OF inv]
  from at obtain r s1 s2 e where seg: "get_inner_by_shmid i sm = Some r" "get_addr_range p r = None"
    and s1: "si_va_range s1 = si_va_range r" "si_shmid s1 = si_shmid r" "si_rmid s1 = si_rmid r"
    and s2: "s2 = s1\<lparr>si_va_range := bt_insert p (start, e) (si_va_range s1),
          si_ds := (si_ds s1)\<lparr>shm_nattch := shm_nattch (si_ds s1) + 1,
                              shm_lpid := wrap_i32 (int p), shm_atime := now\<rparr>\<rparr>"
    and sm1: "sm1 = insert_shmid_inner i s2 (insert_shmid_vaddr p (si_shmid r) start sm)"
    by (rule sys_shmat_done)
  have "bt_ok (si_va_range r)" using D(6) [OF seg(1)] by (simp add: seg_ok_def)
  then show "attached_at q j sm1 = (if q = p \<and> j = i then Some start else attached_at q j sm)"
    using seg s1 D(4) by (simp add: sm1 attached_at_def inner_insert s2 get_addr_range_def)
  show "attached_at p i sm = None" using seg by (simp add: attached_at_def)
  show "\<exists>s1. get_inner_by_shmid i sm1 = Some s1 \<and> si_rmid s1 = si_rmid s"
    if "get_inner_by_shmid i sm = Some s"
    using that seg s1 D(4) by (simp add: sm1 inner_insert s2)
qed

lemma sys_shmdt_detaches:
  assumes ok: "shm_ok (n, sm)" and dt: "sys_shmdt mm now p va a sm = (a', sm', Ok 0)"
    and at: "attached_at p i sm = Some va"
  obtains s s' where "get_inner_by_shmid i sm = Some s" and "detach_process now p s = Ok s'"
    and "sm' = (if si_rmid s' \<and> attach_count s' = 0
            then remove_shmid i (insert_shmid_inner i s' (remove_shmaddr p va sm))
            else insert_shmid_inner i s' (remove_shmaddr p va sm))"
    and "\<And>q j. attached_at q j sm' = (if q = p \<and> j = i then None else attached_at q j sm)"
  using ok dt
proof (cases rule: sys_shmdt_cases)
  case (detached i' s s')
  have inv: "shm_inv {} (n, sm)" and inv': "shm_inv {} (n, sm')"
    using ok sys_shmdt_ok [OF ok dt] by (simp_all add: shm_ok_def)
  note D = shm_invD [OF inv] and D' = shm_invD [OF inv']
  have vaddr: "find_vaddr_by_shmid p i sm = Some va" using D(9) [of p i] at by simp
  have i': "i' = i"
  proof -
    from vaddr detached(3) obtain m where m: "bt_get (pid_shmid_vaddr sm) p = Some m"
      "bi_get_by_key m i = Some va" "bi_get_by_key m i' = Some va"
      by (auto simp: find_vaddr_by_shmid_def split: option.splits)
    then show ?thesis using bi.fwd_inj [OF D(8) [OF m(1)]] by blast
  qed
  have "find_vaddr_by_shmid q j sm' = find_vaddr_by_shmid q j (remove_shmaddr p va sm)" for q j
    unfolding detached(5) by simp
  then have "attached_at q j sm' = (if q = p \<and> j = i then None else attached_at q j sm)" for q j
    using D(9) [of q j] D'(9) [of q j] vaddr_remove [OF inv vaddr, of q j] by simp
  with that detached(2,4,5) i' show ?thesis by blast
qed simp_all

text \<open>
  C30: Attach, then detach. After a successful \<open>sys_shmat\<close> that returned \<open>start\<close>, a
  successful \<open>sys_shmdt(start)\<close> leaves every process attached exactly where it was before
  the attach. If the segment was marked by \<open>IPC_RMID\<close> and nobody else is attached, the
  detach frees it, its key included.
\<close>

theorem shmat_shmdt_roundtrip:
  assumes ok: "shm_ok (n, sm)" and at: "sys_shmat mm now p i va flg a sm = (a1, sm1, Ok start)"
    and free: "\<And>j. find_vaddr_by_shmid p j sm \<noteq> Some start"
    and dt: "sys_shmdt mm now' p start a1 sm1 = (a2, sm2, Ok 0)"
    and seg: "get_inner_by_shmid i sm = Some s"
  shows "(\<forall>q j. attached_at q j sm2 = attached_at q j sm)
    \<and> (si_rmid s \<and> (\<forall>q. attached_at q i sm = None) \<longrightarrow>
         get_inner_by_shmid i sm2 = None \<and> (\<forall>k. get_shmid_by_key k sm2 \<noteq> Some i))"
proof -
  have ok1: "shm_ok (n, sm1)" by (rule sys_shmat_ok [OF ok at free])
  note A = sys_shmat_attaches [OF ok at free]
  have "attached_at p i sm1 = Some start" using A(1) by simp
  from sys_shmdt_detaches [OF ok1 dt this] obtain t t' where
    t: "get_inner_by_shmid i sm1 = Some t" "detach_process now' p t = Ok t'"
    and sm2: "sm2 = (if si_rmid t' \<and> attach_count t' = 0
      then remove_shmid i (insert_shmid_inner i t' (remove_shmaddr p start sm1))
      else insert_shmid_inner i t' (remove_shmaddr p start sm1))"
    and det: "\<And>q j. attached_at q j sm2 = (if q = p \<and> j = i then None else attached_at q j sm1)"
    by blast
  have same: "attached_at q j sm2 = attached_at q j sm" for q j
    using A(1,2) det [of q j] by auto
  note D1 = shm_invD [OF ok1 [unfolded shm_ok_def]]
  have "bt_ok (si_va_range t)" using D1(6) [OF t(1)] by (simp add: seg_ok_def)
  note R = detach_process_ranges [OF t(2) this]
  have "get_inner_by_shmid i sm2 = None \<and> (\<forall>k. get_shmid_by_key k sm2 \<noteq> Some i)"
    if "si_rmid s" and none: "\<And>q. attached_at q i sm = None"
  proof -
    have "si_rmid t'" using A(3) [OF seg] t(1) R(3) that(1) by auto
    moreover have "get_addr_range q t' = None" for q
      using none [of q] A(1) [of q i] t(1) R(1) [of q]
      by (cases "q = p") (simp_all add: attached_at_def)
    ultimately show ?thesis
      using D1(3,4) unfolding sm2 by (simp add: attach_count_zero inner_remove key_remove)
  qed
  with same show ?thesis by blast
qed

theorem shmat_shmdt_roundtrip_witness:
  "\<exists>a2 sm2. sys_shmdt list_mm 4 5 0x1000 [(0x1000, 0x1000)] shm_demo2 = (a2, sm2, Ok 0)
    \<and> (\<forall>q j. attached_at q j sm2 = attached_at q j shm_demo1)"
proof -
  have ok: "shm_ok (1, shm_demo1)" by (rule sys_shmget_ok [OF shm_ok_init _ shm_demo1_run]) simp
  obtain s where seg: "get_inner_by_shmid 0 shm_demo1 = Some s"
    unfolding shm_demo1_def by (simp add: shm_eval)
  have "snd (snd (sys_shmdt list_mm 4 5 0x1000 [(0x1000, 0x1000)] shm_demo2)) = Ok 0"
    unfolding shm_demo2_def shm_demo1_def
    by (simp add: shm_eval sys_shmdt_def get_shmid_by_vaddr_def detach_process_def Let_def)
  then obtain a2 sm2 where
    dt: "sys_shmdt list_mm 4 5 0x1000 [(0x1000, 0x1000)] shm_demo2 = (a2, sm2, Ok 0)"
    by (metis prod.collapse)
  with shmat_shmdt_roundtrip [OF ok shm_demo2_run _ dt seg] shm_demo1_vaddr show ?thesis by simp
qed

lemma clear_shmids_panics:
  assumes "bt_ok (shmid_inner sm)" and "i \<in> set ids" and "get_inner_by_shmid i sm = Some s"
    and "get_addr_range p s = None"
  shows "clear_shmids now p ids sm = Panicked"
  using assms
proof (induction ids arbitrary: sm)
  case (Cons j ids)
  show ?case
  proof (cases "j = i")
    case True
    with Cons.prems show ?thesis by (simp add: detach_process_def)
  next
    case False
    then have i: "i \<in> set ids" using Cons.prems(2) by simp
    show ?thesis
    proof (cases "get_inner_by_shmid j sm")
      case None
      with Cons i show ?thesis by simp
    next
      case (Some t)
      show ?thesis
      proof (cases "detach_process now p t")
        case (Inl e)
        with Some show ?thesis by (auto simp: detach_process_def split: if_splits)
      next
        case (Inr t')
        let ?sm = "if si_rmid t' \<and> attach_count t' = 0
          then remove_shmid j (insert_shmid_inner j t' sm) else insert_shmid_inner j t' sm"
        have "bt_ok (shmid_inner ?sm)" using Cons.prems(1) by (simp add: remove_shmid_def)
        moreover have "get_inner_by_shmid i ?sm = Some s"
          using Cons.prems(1,3) False by (simp add: inner_insert inner_remove)
        ultimately show ?thesis
          using Cons.IH [OF _ i] Cons.prems(4) Some Inr by (simp add: Let_def)
      qed
    qed
  qed
qed simp

text \<open>
  A \<open>sys_shmat\<close> that fails after it has recorded the address (no memory for the pages,
  or the mapping refused) leaves the address in the process's table although the segment
  does not know the process. The next exit of that process then hits the assertion of
  \<open>detach_process\<close>: the kernel panics.
\<close>

lemma shmat_failure_panics_exit:
  assumes ok: "shm_ok (n, sm)"
    and at: "sys_shmat mm now p i va flg a sm = (a', sm', Inl e)" and changed: "sm' \<noteq> sm"
  shows "clear_proc_shm now' p sm' = Panicked"
proof -
  note D = shm_invD [OF ok [unfolded shm_ok_def]]
  from at changed obtain s start where seg: "get_inner_by_shmid i sm = Some s"
    and none: "get_addr_range p s = None" and sm': "sm' = insert_shmid_vaddr p (si_shmid s) start sm"
    by (auto simp: sys_shmat_def Let_def split: if_splits option.splits prod.splits sum.splits)
  have id: "si_shmid s = i" using D(6) [OF seg] by (simp add: seg_ok_def)
  obtain m where m: "bt_get (pid_shmid_vaddr sm') p = Some m" and key: "bi_get_by_key m i = Some start"
    using D(5,8) id
    by (cases "bt_get (pid_shmid_vaddr sm) p")
      (simp_all add: sm' insert_shmid_vaddr_def Let_def bi.fwd_ins bi.inv_emp)
  have "i \<in> set (bt_keys (bi_forward m))"
    using key by (simp add: bt_keys_iff bi_get_by_key_def)
  moreover have "bt_ok (shmid_inner sm')" "get_inner_by_shmid i sm' = Some s"
    using D(4) seg by (simp_all add: sm')
  ultimately have "clear_shmids now' p (bt_keys (bi_forward m)) sm' = Panicked"
    using none by (intro clear_shmids_panics)
  with m show ?thesis by (simp add: clear_proc_shm_def get_shmids_by_pid_def)
qed

definition full_mm :: "((addr \<times> nat) list, nat) shm_mm" where
  "full_mm = list_mm\<lparr>mm_shared_pages := (\<lambda>len a. (a, Fail NoMemory))\<rparr>"

lemma shmat_failure_panics_exit_witness:
  "\<exists>sm'. sys_shmat full_mm 3 5 0 0 0 [] shm_demo1 = ([], sm', Fail NoMemory)
     \<and> clear_proc_shm 9 5 sm' = Panicked"
proof -
  have ok: "shm_ok (1, shm_demo1)" by (rule sys_shmget_ok [OF shm_ok_init _ shm_demo1_run]) simp
  let ?sm = "insert_shmid_vaddr 5 0 0x1000 shm_demo1"
  have run: "sys_shmat full_mm 3 5 0 0 0 [] shm_demo1 = ([], ?sm, Fail NoMemory)"
    unfolding shm_demo1_def by (simp add: shm_eval full_mm_def)
  have "?sm \<noteq> shm_demo1" unfolding shm_demo1_def by (simp add: shm_eval)
  with run shmat_failure_panics_exit [OF ok run] show ?thesis by blast
qed

end
