(* ===== verification/Epoll.thy ===== *)
theory Epoll
  imports Prelude
begin

section \<open>The \<open>epoll\<close> instance\<close>

text \<open>
  \<open>api/src/file/epoll.rs\<close> and the argument checks of \<open>api/src/syscall/io_mpx/epoll.rs\<close>.

  Interests are shared objects (\<open>Arc<EpollInterest>\<close>), so the model has an explicit store:
  an interest is a position in \<open>ep_store\<close>. The only strong reference that outlives an
  operation is the one in the table \<open>ep_interests\<close>; the ready queue and the wakers hold weak
  ones, so \<open>upgrade\<close> succeeds exactly when the table still maps the interest's key to it
  (\<open>interest_alive\<close>). Files are named by numbers (their address); whether a file still exists,
  what \<open>poll\<close> on it returns and which file a descriptor names are arguments of the
  operations. \<open>ep_regs\<close> collects the wakers handed to \<open>file.register\<close>.
\<close>

type_synonym file_id = nat
type_synonym iid = nat

record epoll_event =
  ev_events :: u32
  ev_user_data :: u64

datatype trigger_mode = Level | Edge | OneShot bool

definition EPOLLET :: u32 where "EPOLLET = 0x80000000"
definition EPOLLONESHOT :: u32 where "EPOLLONESHOT = 0x40000000"

definition from_flags :: "u32 \<Rightarrow> trigger_mode" where
  "from_flags flags =
     (if has_flags flags EPOLLONESHOT then OneShot False
      else if has_flags flags EPOLLET then Edge
      else Level)"

fun should_notify :: "trigger_mode \<Rightarrow> bool \<times> trigger_mode" where
  "should_notify Level = (True, Level)"
| "should_notify Edge = (True, Edge)"
| "should_notify (OneShot fired) = (if fired then (False, OneShot fired) else (True, OneShot True))"

fun mode_enabled :: "trigger_mode \<Rightarrow> bool" where
  "mode_enabled (OneShot fired) = (\<not> fired)"
| "mode_enabled _ = True"

datatype consume_result = EventAndKeep epoll_event | EventAndRemove epoll_event | NoEvent

text \<open>\<open>EntryKey\<close>: the descriptor and the file it named when it was registered.\<close>

record entry_key =
  ek_fd :: i32
  ek_file :: file_id

record epoll_interest =
  ei_key :: entry_key
  ei_event :: epoll_event
  ei_mode :: trigger_mode
  ei_in_ready_queue :: bool

definition interest_new :: "entry_key \<Rightarrow> epoll_event \<Rightarrow> u32 \<Rightarrow> epoll_interest" where
  "interest_new key event flags =
     \<lparr>ei_key = key, ei_event = event, ei_mode = from_flags flags, ei_in_ready_queue = False\<rparr>"

definition consume :: "u32 \<Rightarrow> epoll_interest \<Rightarrow> epoll_interest \<times> consume_result" where
  "consume current_events i =
     (let matched = current_events AND ev_events (ei_event i) in
      if matched = 0 then (i, NoEvent)
      else
        let (notify, new_mode) = should_notify (ei_mode i);
            i' = i\<lparr>ei_mode := new_mode\<rparr>;
            event = \<lparr>ev_events = matched, ev_user_data = ev_user_data (ei_event i)\<rparr>
        in
        if \<not> notify then (i', NoEvent)
        else (i', case new_mode of Level \<Rightarrow> EventAndKeep event | _ \<Rightarrow> EventAndRemove event))"

record epoll =
  ep_store :: "epoll_interest list"
  ep_interests :: "entry_key \<rightharpoonup> iid"
  ep_ready :: "iid list"
  ep_regs :: "(file_id \<times> iid) list"

definition epoll_new :: epoll where
  "epoll_new = \<lparr>ep_store = [], ep_interests = Map.empty, ep_ready = [], ep_regs = []\<rparr>"

definition interest_of :: "epoll \<Rightarrow> iid \<Rightarrow> epoll_interest" where
  "interest_of ep i = ep_store ep ! i"

definition interest_alive :: "epoll \<Rightarrow> iid \<Rightarrow> bool" where
  "interest_alive ep i \<longleftrightarrow> i < length (ep_store ep) \<and> ep_interests ep (ei_key (interest_of ep i)) = Some i"

definition update_interest :: "iid \<Rightarrow> (epoll_interest \<Rightarrow> epoll_interest) \<Rightarrow> epoll \<Rightarrow> epoll" where
  "update_interest i f ep = ep\<lparr>ep_store := (ep_store ep)[i := f (ep_store ep ! i)]\<rparr>"

abbreviation mark_not_in_queue :: "epoll_interest \<Rightarrow> epoll_interest" where
  "mark_not_in_queue i \<equiv> i\<lparr>ei_in_ready_queue := False\<rparr>"

text \<open>\<open>InterestWaker::wake_by_ref\<close>, with the weak reference's \<open>upgrade\<close> and the compare-exchange.\<close>

definition wake_by_ref :: "iid \<Rightarrow> epoll \<Rightarrow> epoll" where
  "wake_by_ref i ep =
     (if \<not> interest_alive ep i then ep
      else if ei_in_ready_queue (interest_of ep i) then ep
      else (update_interest i (\<lambda>x. x\<lparr>ei_in_ready_queue := True\<rparr>) ep)\<lparr>ep_ready := ep_ready ep @ [i]\<rparr>)"

definition register_waker_only :: "(file_id \<Rightarrow> bool) \<Rightarrow> iid \<Rightarrow> epoll \<Rightarrow> epoll" where
  "register_waker_only exists i ep =
     (let file = ek_file (ei_key (interest_of ep i)) in
      if \<not> exists file then ep
      else if \<not> mode_enabled (ei_mode (interest_of ep i)) then ep
      else ep\<lparr>ep_regs := ep_regs ep @ [(file, i)]\<rparr>)"

text \<open>The file is polled twice: before and after the registration (\<open>poll1\<close>, \<open>poll2\<close>).\<close>

definition check_and_register_waker ::
    "(file_id \<Rightarrow> bool) \<Rightarrow> (file_id \<Rightarrow> u32) \<Rightarrow> (file_id \<Rightarrow> u32) \<Rightarrow> iid \<Rightarrow> epoll \<Rightarrow> epoll" where
  "check_and_register_waker exists poll1 poll2 i ep =
     (let file = ek_file (ei_key (interest_of ep i));
          wanted = ev_events (ei_event (interest_of ep i))
      in
      if \<not> exists file then ep
      else if \<not> mode_enabled (ei_mode (interest_of ep i)) then ep
      else if poll1 file AND wanted \<noteq> 0 then wake_by_ref i ep
      else
        let ep1 = ep\<lparr>ep_regs := ep_regs ep @ [(file, i)]\<rparr> in
        if poll2 file AND wanted \<noteq> 0 then wake_by_ref i ep1 else ep1)"

text \<open>What the operations see of the rest of the kernel.\<close>

record file_env =
  fe_file_of :: "i32 \<Rightarrow> file_id option"
  fe_exists :: "file_id \<Rightarrow> bool"
  fe_poll1 :: "file_id \<Rightarrow> u32"
  fe_poll2 :: "file_id \<Rightarrow> u32"

definition entry_key_new :: "file_env \<Rightarrow> i32 \<Rightarrow> entry_key outcome" where
  "entry_key_new env fd =
     (case fe_file_of env fd of None \<Rightarrow> Fail BadFileDescriptor | Some f \<Rightarrow> Ok \<lparr>ek_fd = fd, ek_file = f\<rparr>)"

definition epoll_add :: "file_env \<Rightarrow> i32 \<Rightarrow> epoll_event \<Rightarrow> u32 \<Rightarrow> epoll \<Rightarrow> epoll \<times> unit outcome" where
  "epoll_add env fd event flags ep =
     (case entry_key_new env fd of
        Inl e \<Rightarrow> (ep, Inl e)
      | Inr key \<Rightarrow>
          (case ep_interests ep key of
             Some _ \<Rightarrow> (ep, Fail AlreadyExists)
           | None \<Rightarrow>
               (let i = length (ep_store ep);
                    ep1 = ep\<lparr>ep_store := ep_store ep @ [interest_new key event flags],
                             ep_interests := (ep_interests ep)(key \<mapsto> i)\<rparr>
                in (check_and_register_waker (fe_exists env) (fe_poll1 env) (fe_poll2 env) i ep1, Ok ()))))"

definition epoll_modify :: "file_env \<Rightarrow> i32 \<Rightarrow> epoll_event \<Rightarrow> u32 \<Rightarrow> epoll \<Rightarrow> epoll \<times> unit outcome" where
  "epoll_modify env fd event flags ep =
     (case entry_key_new env fd of
        Inl e \<Rightarrow> (ep, Inl e)
      | Inr key \<Rightarrow>
          (case ep_interests ep key of
             None \<Rightarrow> (ep, Fail NotFound)
           | Some old \<Rightarrow>
               (let i = length (ep_store ep);
                    new = (interest_new key event flags)
                            \<lparr>ei_in_ready_queue := ei_in_ready_queue (interest_of ep old)\<rparr>;
                    ep1 = ep\<lparr>ep_store := ep_store ep @ [new],
                             ep_interests := (ep_interests ep)(key \<mapsto> i)\<rparr>
                in (check_and_register_waker (fe_exists env) (fe_poll1 env) (fe_poll2 env) i ep1, Ok ()))))"

definition epoll_delete :: "file_env \<Rightarrow> i32 \<Rightarrow> epoll \<Rightarrow> epoll \<times> unit outcome" where
  "epoll_delete env fd ep =
     (case entry_key_new env fd of
        Inl e \<Rightarrow> (ep, Inl e)
      | Inr key \<Rightarrow>
          (case ep_interests ep key of
             None \<Rightarrow> (ep, Fail NotFound)
           | Some _ \<Rightarrow> (ep\<lparr>ep_interests := (ep_interests ep)(key := None)\<rparr>, Ok ())))"

text \<open>
  The loop of \<open>poll_events\<close>: \<open>out\<close> is what has been written so far, \<open>cap\<close> the length of the
  caller's buffer. It ends because every turn either writes an entry or shortens the queue.
\<close>

function poll_loop :: "file_env \<Rightarrow> nat \<Rightarrow> epoll_event list \<Rightarrow> epoll \<Rightarrow> epoll \<times> epoll_event list" where
  "poll_loop env cap out ep =
     (case ep_ready ep of
        [] \<Rightarrow> (ep, out)
      | i # queue \<Rightarrow>
          (let ep1 = ep\<lparr>ep_ready := queue\<rparr> in
           if length out \<ge> cap then (ep1\<lparr>ep_ready := i # queue\<rparr>, out)
           else if \<not> interest_alive ep1 i then poll_loop env cap out ep1
           else if \<not> fe_exists env (ek_file (ei_key (interest_of ep1 i))) then
             poll_loop env cap out
               (update_interest i mark_not_in_queue
                  (ep1\<lparr>ep_interests := (ep_interests ep1)(ei_key (interest_of ep1 i) := None)\<rparr>))
           else
             (case consume (fe_poll1 env (ek_file (ei_key (interest_of ep1 i)))) (interest_of ep1 i) of
                (x, EventAndKeep event) \<Rightarrow>
                  poll_loop env cap (out @ [event])
                    ((update_interest i (\<lambda>_. x) ep1)\<lparr>ep_ready := queue @ [i]\<rparr>)
              | (x, EventAndRemove event) \<Rightarrow>
                  poll_loop env cap (out @ [event])
                    (register_waker_only (fe_exists env) i
                       (update_interest i (\<lambda>_. mark_not_in_queue x) ep1))
              | (x, NoEvent) \<Rightarrow>
                  poll_loop env cap out
                    (register_waker_only (fe_exists env) i
                       (update_interest i (\<lambda>_. mark_not_in_queue x) ep1)))))"
  by pat_completeness auto

lemma ready_frames [simp]:
  "ep_ready (update_interest i f ep) = ep_ready ep"
  "ep_ready (register_waker_only ex i ep) = ep_ready ep"
  by (simp_all add: update_interest_def register_waker_only_def Let_def)

termination poll_loop
  by (relation "measure (\<lambda>(env, cap, out, ep). 2 * (cap - length out) + length (ep_ready ep))") auto

definition poll_events :: "file_env \<Rightarrow> nat \<Rightarrow> epoll \<Rightarrow> epoll \<times> epoll_event list outcome" where
  "poll_events env cap ep =
     (let (ep', out) = poll_loop env cap [] ep
      in (ep', if out = [] then Fail WouldBlock else Ok out))"

definition IO_IN :: u32 where "IO_IN = 0x1"

definition epoll_poll :: "epoll \<Rightarrow> u32" where
  "epoll_poll ep = (if ep_ready ep = [] then 0 else IO_IN)"

subsection \<open>\<open>epoll_ctl\<close> and the timeout of \<open>epoll_pwait\<close>\<close>

text \<open>
  \<open>io_mask\<close> is the set of bits \<open>IoEvents\<close> defines (crate \<open>axpoll\<close>); \<open>user_event\<close> is the
  result of reading the user's \<open>epoll_event\<close>.
\<close>

definition EPOLL_CTL_ADD :: u32 where "EPOLL_CTL_ADD = 1"
definition EPOLL_CTL_DEL :: u32 where "EPOLL_CTL_DEL = 2"
definition EPOLL_CTL_MOD :: u32 where "EPOLL_CTL_MOD = 3"

definition epoll_flags_from_bits :: "u32 \<Rightarrow> u32 option" where
  "epoll_flags_from_bits bits =
     (if bits AND NOT (EPOLLET OR EPOLLONESHOT) = 0 then Some bits else None)"

definition parse_event :: "u32 \<Rightarrow> (u32 \<times> u64) outcome \<Rightarrow> (epoll_event \<times> u32) outcome" where
  "parse_event io_mask user_event =
     (case user_event of
        Inl e \<Rightarrow> Inl e
      | Inr (bits, data) \<Rightarrow>
          (let events = bits AND io_mask in
           case epoll_flags_from_bits (bits AND NOT events) of
             None \<Rightarrow> Fail InvalidInput
           | Some flags \<Rightarrow> Ok (\<lparr>ev_events = events, ev_user_data = data\<rparr>, flags)))"

definition sys_epoll_ctl ::
    "file_env \<Rightarrow> u32 \<Rightarrow> u32 \<Rightarrow> i32 \<Rightarrow> (u32 \<times> u64) outcome \<Rightarrow> epoll \<Rightarrow> epoll \<times> int outcome" where
  "sys_epoll_ctl env io_mask op fd user_event ep =
     (let finish = (\<lambda>(ep', r :: unit outcome). (ep', case r of Inl e \<Rightarrow> Inl e | Inr _ \<Rightarrow> Ok 0)) in
      if op = EPOLL_CTL_ADD then
        (case parse_event io_mask user_event of
           Inl e \<Rightarrow> (ep, Inl e)
         | Inr (event, flags) \<Rightarrow> finish (epoll_add env fd event flags ep))
      else if op = EPOLL_CTL_MOD then
        (case parse_event io_mask user_event of
           Inl e \<Rightarrow> (ep, Inl e)
         | Inr (event, flags) \<Rightarrow> finish (epoll_modify env fd event flags ep))
      else if op = EPOLL_CTL_DEL then finish (epoll_delete env fd ep)
      else (ep, Fail InvalidInput))"

text \<open>The timeout in milliseconds, \<open>None\<close> for "wait forever".\<close>

definition epoll_pwait_timeout :: "i32 \<Rightarrow> nat option outcome" where
  "epoll_pwait_timeout timeout =
     (if timeout = -1 then Ok None
      else if timeout \<ge> 0 then Ok (Some (nat timeout))
      else Fail InvalidInput)"

end
