(* ===== verification/Epoll_Theorems.thy ===== *)
theory Epoll_Theorems
  imports Epoll
begin

section \<open>\<open>epoll\<close>: the ready queue\<close>

text \<open>
  \<open>ep_wf\<close>: the interest table and the queue only name objects of the store, and the table
  maps a key to an interest with that key. \<open>ep_sync\<close>: the queue has no duplicates and a live
  interest is flagged \<open>in_ready_queue\<close> exactly when it is in the queue. \<open>add\<close>, \<open>delete\<close>,
  wake-ups and \<open>poll_events\<close> keep both; \<open>modify\<close> keeps \<open>ep_sync\<close> only when the old
  interest is not queued.
\<close>

subsection \<open>Well-formedness\<close>

definition ep_wf :: "epoll \<Rightarrow> bool" where
  "ep_wf ep \<longleftrightarrow>
     (\<forall>k i. ep_interests ep k = Some i \<longrightarrow> i < length (ep_store ep) \<and> ei_key (ep_store ep ! i) = k)
     \<and> (\<forall>i \<in> set (ep_ready ep). i < length (ep_store ep))"

definition ep_sync :: "epoll \<Rightarrow> bool" where
  "ep_sync ep \<longleftrightarrow> ep_wf ep \<and> distinct (ep_ready ep)
     \<and> (\<forall>i. interest_alive ep i \<longrightarrow> ei_in_ready_queue (ep_store ep ! i) = (i \<in> set (ep_ready ep)))"

lemma ep_wf_alive:
  "ep_wf ep \<Longrightarrow> interest_alive ep i \<longleftrightarrow> (\<exists>k. ep_interests ep k = Some i)"
  unfolding ep_wf_def interest_alive_def interest_of_def by blast

lemma update_interest_simps [simp]:
  "ep_interests (update_interest i f ep) = ep_interests ep"
  "ep_regs (update_interest i f ep) = ep_regs ep"
  "length (ep_store (update_interest i f ep)) = length (ep_store ep)"
  by (simp_all add: update_interest_def)

lemma update_interest_nth:
  "j < length (ep_store ep) \<Longrightarrow> ep_store (update_interest i f ep) ! j =
     (if j = i then f (ep_store ep ! i) else ep_store ep ! j)"
  by (auto simp: update_interest_def nth_list_update)

lemma register_simps [simp]:
  "ep_interests (register_waker_only ex i ep) = ep_interests ep"
  "ep_store (register_waker_only ex i ep) = ep_store ep"
  by (simp_all add: register_waker_only_def Let_def)

text \<open>
  Every change the operations make to a queued or live interest has the same shape: the
  store changes at one position without changing the key, and the queue is replaced.
\<close>

definition ep_touch :: "iid \<Rightarrow> (epoll_interest \<Rightarrow> epoll_interest) \<Rightarrow> iid list \<Rightarrow> epoll \<Rightarrow> epoll \<Rightarrow> bool" where
  "ep_touch i f q ep ep' \<longleftrightarrow> ep_interests ep' = ep_interests ep \<and> ep_ready ep' = q
     \<and> length (ep_store ep') = length (ep_store ep)
     \<and> (\<forall>j < length (ep_store ep). ep_store ep' ! j = (if j = i then f (ep_store ep ! j) else ep_store ep ! j))"

lemma ep_touch_wf:
  assumes "ep_touch i f q ep ep'" and "ep_wf ep" and "ei_key (f (ep_store ep ! i)) = ei_key (ep_store ep ! i)"
    and "set q \<subseteq> insert i (set (ep_ready ep))" and "i < length (ep_store ep)"
  shows "ep_wf ep'"
  unfolding ep_wf_def
proof (intro conjI allI impI ballI)
  fix k j
  assume "ep_interests ep' k = Some j"
  with assms(1) have "ep_interests ep k = Some j" by (simp add: ep_touch_def)
  with assms(2) have "j < length (ep_store ep)" "ei_key (ep_store ep ! j) = k"
    by (auto simp: ep_wf_def)
  with assms(1,3) show "j < length (ep_store ep')" "ei_key (ep_store ep' ! j) = k"
    by (auto simp: ep_touch_def)
next
  fix j
  assume "j \<in> set (ep_ready ep')"
  with assms show "j < length (ep_store ep')" by (auto simp: ep_touch_def ep_wf_def)
qed

lemma ep_touch_alive:
  assumes "ep_touch i f q ep ep'" and "ep_wf ep" and "ep_wf ep'"
  shows "interest_alive ep' j \<longleftrightarrow> interest_alive ep j"
  using assms by (simp add: ep_wf_alive ep_touch_def)

lemma ep_touch_sync:
  assumes touch: "ep_touch i f q ep ep'" and sync: "ep_sync ep" and key: "ei_key (f (ep_store ep ! i)) = ei_key (ep_store ep ! i)"
    and q: "set q \<subseteq> insert i (set (ep_ready ep))" "distinct q" and i: "i < length (ep_store ep)"
    and flag: "interest_alive ep i \<Longrightarrow> ei_in_ready_queue (f (ep_store ep ! i)) = (i \<in> set q)"
    and others: "set (ep_ready ep) - {i} \<subseteq> set q"
  shows "ep_sync ep'"
proof -
  have wf: "ep_wf ep" using sync by (simp add: ep_sync_def)
  have wf': "ep_wf ep'" by (rule ep_touch_wf [OF touch wf key q(1) i])
  have "ei_in_ready_queue (ep_store ep' ! j) = (j \<in> set (ep_ready ep'))" if "interest_alive ep' j" for j
  proof -
    have alive: "interest_alive ep j" using that ep_touch_alive [OF touch wf wf'] by simp
    then have "j < length (ep_store ep)" by (simp add: interest_alive_def)
    moreover have "ei_in_ready_queue (ep_store ep ! j) = (j \<in> set (ep_ready ep))"
      using sync alive by (simp add: ep_sync_def)
    ultimately show ?thesis
      using touch flag alive q(1) others by (cases "j = i") (auto simp: ep_touch_def)
  qed
  with wf' q(2) touch show ?thesis by (simp add: ep_sync_def ep_touch_def)
qed

subsection \<open>Wake-ups\<close>

lemma wake_touch:
  "wake_by_ref i ep = ep \<or> interest_alive ep i \<and> \<not> ei_in_ready_queue (ep_store ep ! i)
     \<and> ep_touch i (\<lambda>x. x\<lparr>ei_in_ready_queue := True\<rparr>) (ep_ready ep @ [i]) ep (wake_by_ref i ep)"
  by (auto simp: wake_by_ref_def ep_touch_def interest_of_def update_interest_nth)

lemma wake_sync:
  assumes "ep_sync ep"
  shows "ep_sync (wake_by_ref i ep)"
  using wake_touch [of i ep]
proof
  assume "wake_by_ref i ep = ep"
  with assms show ?thesis by simp
next
  assume *: "interest_alive ep i \<and> \<not> ei_in_ready_queue (ep_store ep ! i)
     \<and> ep_touch i (\<lambda>x. x\<lparr>ei_in_ready_queue := True\<rparr>) (ep_ready ep @ [i]) ep (wake_by_ref i ep)"
  then have "i \<notin> set (ep_ready ep)" "i < length (ep_store ep)"
    using assms by (auto simp: ep_sync_def interest_alive_def)
  moreover have "distinct (ep_ready ep)" using assms by (simp add: ep_sync_def)
  ultimately show ?thesis
    using * by (intro ep_touch_sync [OF conjunct2 [OF conjunct2 [OF *]] assms]) auto
qed

lemma wake_wf: "ep_wf ep \<Longrightarrow> ep_wf (wake_by_ref i ep)"
  using wake_touch [of i ep]
proof
  assume "ep_wf ep" and "wake_by_ref i ep = ep"
  then show ?thesis by simp
next
  assume "ep_wf ep" and *: "interest_alive ep i \<and> \<not> ei_in_ready_queue (ep_store ep ! i)
     \<and> ep_touch i (\<lambda>x. x\<lparr>ei_in_ready_queue := True\<rparr>) (ep_ready ep @ [i]) ep (wake_by_ref i ep)"
  then show ?thesis
    by (intro ep_touch_wf [OF conjunct2 [OF conjunct2 [OF *]]]) (auto simp: interest_alive_def)
qed

lemma ep_regs_sync [simp]:
  "ep_sync (ep\<lparr>ep_regs := r\<rparr>) = ep_sync ep" "ep_wf (ep\<lparr>ep_regs := r\<rparr>) = ep_wf ep"
  by (simp_all add: ep_sync_def ep_wf_def interest_alive_def interest_of_def)

lemma check_register_sync: "ep_sync ep \<Longrightarrow> ep_sync (check_and_register_waker ex p1 p2 i ep)"
  by (auto simp: check_and_register_waker_def Let_def intro!: wake_sync)

lemma check_register_wf: "ep_wf ep \<Longrightarrow> ep_wf (check_and_register_waker ex p1 p2 i ep)"
  by (auto simp: check_and_register_waker_def Let_def intro!: wake_wf)

subsection \<open>Add, modify, delete\<close>

lemma ep_extend_wf:
  assumes "ep_wf ep" and "ei_key x = key"
  shows "ep_wf (ep\<lparr>ep_store := ep_store ep @ [x], ep_interests := (ep_interests ep)(key \<mapsto> length (ep_store ep))\<rparr>)"
  using assms by (auto simp: ep_wf_def nth_append intro: less_SucI split: if_splits)

lemma ep_extend_sync:
  assumes sync: "ep_sync ep" and key: "ei_key x = key" and flag: "\<not> ei_in_ready_queue x"
  shows "ep_sync (ep\<lparr>ep_store := ep_store ep @ [x],
      ep_interests := (ep_interests ep)(key \<mapsto> length (ep_store ep))\<rparr>)" (is "ep_sync ?ep")
proof -
  have wf: "ep_wf ep" using sync by (simp add: ep_sync_def)
  have wf': "ep_wf ?ep" by (rule ep_extend_wf [OF wf key])
  have fresh: "length (ep_store ep) \<notin> set (ep_ready ep)" using wf by (auto simp: ep_wf_def)
  have "ei_in_ready_queue (ep_store ?ep ! j) = (j \<in> set (ep_ready ?ep))" if "interest_alive ?ep j" for j
  proof (cases "j = length (ep_store ep)")
    case True
    with fresh flag show ?thesis by simp
  next
    case False
    with that ep_wf_alive [OF wf'] have "\<exists>k. ep_interests ep k = Some j" by (auto split: if_splits)
    with ep_wf_alive [OF wf] have "interest_alive ep j" by simp
    with sync False show ?thesis by (simp add: ep_sync_def interest_alive_def nth_append)
  qed
  with wf' sync show ?thesis by (simp add: ep_sync_def)
qed

lemma ep_forget_sync:
  assumes "ep_sync ep"
  shows "ep_sync (ep\<lparr>ep_interests := (ep_interests ep)(key := None)\<rparr>)"
  using assms unfolding ep_sync_def
  by (auto simp: ep_wf_def interest_alive_def interest_of_def split: if_splits)

lemma ep_forget_wf:
  "ep_wf ep \<Longrightarrow> ep_wf (ep\<lparr>ep_interests := (ep_interests ep)(key := None)\<rparr>)"
  by (auto simp: ep_wf_def split: if_splits)

lemma interest_new_simps [simp]:
  "ei_key (interest_new key event flags) = key"
  "\<not> ei_in_ready_queue (interest_new key event flags)"
  by (simp_all add: interest_new_def)

lemma epoll_add_sync:
  assumes "ep_sync ep" and "epoll_add env fd event flags ep = (ep', r)"
  shows "ep_sync ep'"
  using assms
  by (auto simp: epoll_add_def Let_def intro!: check_register_sync ep_extend_sync
      split: sum.splits option.splits)

lemma epoll_delete_sync:
  assumes "ep_sync ep" and "epoll_delete env fd ep = (ep', r)"
  shows "ep_sync ep'"
  using assms
  by (auto simp: epoll_delete_def intro!: ep_forget_sync split: sum.splits option.splits)

lemma epoll_modify_sync:
  assumes "ep_sync ep" and "epoll_modify env fd event flags ep = (ep', r)"
    and "\<And>f i. fe_file_of env fd = Some f \<Longrightarrow> ep_interests ep \<lparr>ek_fd = fd, ek_file = f\<rparr> = Some i
      \<Longrightarrow> \<not> ei_in_ready_queue (interest_of ep i)"
  shows "ep_sync ep'"
  using assms
  by (auto simp: epoll_modify_def entry_key_new_def Let_def intro!: check_register_sync ep_extend_sync
      split: sum.splits option.splits)

subsection \<open>The loop of \<open>poll_events\<close>\<close>

lemma ep_pop_sync:
  assumes sync: "ep_sync ep" and ready: "ep_ready ep = i # q"
    and key: "ei_key (f (ep_store ep ! i)) = ei_key (ep_store ep ! i)"
    and flag: "interest_alive ep i \<Longrightarrow> \<not> ei_in_ready_queue (f (ep_store ep ! i))"
  shows "ep_sync (update_interest i f (ep\<lparr>ep_ready := q\<rparr>))"
proof -
  have touch: "ep_touch i f q ep (update_interest i f (ep\<lparr>ep_ready := q\<rparr>))"
    by (auto simp: ep_touch_def update_interest_nth)
  have "i \<notin> set q" "distinct q" "i < length (ep_store ep)"
    using sync ready by (auto simp: ep_sync_def ep_wf_def)
  then show ?thesis
    using ready flag by (intro ep_touch_sync [OF touch sync key]) auto
qed

lemma ep_requeue_sync:
  assumes sync: "ep_sync ep" and ready: "ep_ready ep = i # q" and alive: "interest_alive ep i"
    and key: "ei_key x = ei_key (ep_store ep ! i)"
    and flag: "ei_in_ready_queue x = ei_in_ready_queue (ep_store ep ! i)"
  shows "ep_sync ((update_interest i (\<lambda>_. x) (ep\<lparr>ep_ready := q\<rparr>))\<lparr>ep_ready := q @ [i]\<rparr>)"
    (is "ep_sync ?ep")
proof -
  have touch: "ep_touch i (\<lambda>_. x) (q @ [i]) ep ?ep"
    by (auto simp: ep_touch_def update_interest_nth)
  have "distinct (q @ [i])" "i < length (ep_store ep)" "ei_in_ready_queue (ep_store ep ! i)"
    using sync ready alive by (auto simp: ep_sync_def ep_wf_def)
  then show ?thesis
    using ready flag by (intro ep_touch_sync [OF touch sync key]) auto
qed

lemma consume_frame:
  assumes "consume ev x = (x', r)"
  shows "ei_key x' = ei_key x" and "ei_in_ready_queue x' = ei_in_ready_queue x"
    and "ei_event x' = ei_event x"
  using assms by (auto simp: consume_def Let_def split: if_splits prod.splits)

text \<open>
  One turn of the loop as a step relation, so that what a turn keeps is kept by the loop.
\<close>

lemma ready_irrelevant [simp]:
  "interest_alive (ep\<lparr>ep_ready := q\<rparr>) i = interest_alive ep i"
  "interest_of (ep\<lparr>ep_ready := q\<rparr>) i = interest_of ep i"
  by (simp_all add: interest_alive_def interest_of_def)

inductive poll_turn ::
    "file_env \<Rightarrow> nat \<Rightarrow> epoll_event list \<times> epoll \<Rightarrow> epoll_event list \<times> epoll \<Rightarrow> bool" for env cap where
  dead: "ep_ready ep = i # q \<Longrightarrow> length out < cap \<Longrightarrow> \<not> interest_alive ep i
    \<Longrightarrow> poll_turn env cap (out, ep) (out, ep\<lparr>ep_ready := q\<rparr>)"
| closed: "ep_ready ep = i # q \<Longrightarrow> length out < cap \<Longrightarrow> interest_alive ep i
    \<Longrightarrow> \<not> fe_exists env (ek_file (ei_key (interest_of ep i)))
    \<Longrightarrow> poll_turn env cap (out, ep) (out, update_interest i mark_not_in_queue
          (ep\<lparr>ep_ready := q, ep_interests := (ep_interests ep)(ei_key (interest_of ep i) := None)\<rparr>))"
| keep: "ep_ready ep = i # q \<Longrightarrow> length out < cap \<Longrightarrow> interest_alive ep i
    \<Longrightarrow> fe_exists env (ek_file (ei_key (interest_of ep i)))
    \<Longrightarrow> consume (fe_poll1 env (ek_file (ei_key (interest_of ep i)))) (interest_of ep i) = (x, EventAndKeep event)
    \<Longrightarrow> poll_turn env cap (out, ep) (out @ [event],
          (update_interest i (\<lambda>_. x) (ep\<lparr>ep_ready := q\<rparr>))\<lparr>ep_ready := q @ [i]\<rparr>)"
| remove: "ep_ready ep = i # q \<Longrightarrow> length out < cap \<Longrightarrow> interest_alive ep i
    \<Longrightarrow> fe_exists env (ek_file (ei_key (interest_of ep i)))
    \<Longrightarrow> consume (fe_poll1 env (ek_file (ei_key (interest_of ep i)))) (interest_of ep i) = (x, EventAndRemove event)
    \<Longrightarrow> poll_turn env cap (out, ep) (out @ [event],
          register_waker_only (fe_exists env) i
            (update_interest i (\<lambda>_. mark_not_in_queue x) (ep\<lparr>ep_ready := q\<rparr>)))"
| none: "ep_ready ep = i # q \<Longrightarrow> length out < cap \<Longrightarrow> interest_alive ep i
    \<Longrightarrow> fe_exists env (ek_file (ei_key (interest_of ep i)))
    \<Longrightarrow> consume (fe_poll1 env (ek_file (ei_key (interest_of ep i)))) (interest_of ep i) = (x, NoEvent)
    \<Longrightarrow> poll_turn env cap (out, ep) (out,
          register_waker_only (fe_exists env) i
            (update_interest i (\<lambda>_. mark_not_in_queue x) (ep\<lparr>ep_ready := q\<rparr>)))"

declare poll_loop.simps [simp del]

lemma poll_loop_stop:
  "ep_ready ep = [] \<or> cap \<le> length out \<Longrightarrow> poll_loop env cap out ep = (ep, out)"
  by (cases "ep_ready ep") (auto simp: poll_loop.simps [of env cap out ep])

lemma poll_loop_turn:
  assumes "ep_ready ep = i # q" and "length out < cap"
  shows "\<exists>out' ep'. poll_turn env cap (out, ep) (out', ep')
    \<and> poll_loop env cap out ep = poll_loop env cap out' ep'"
proof -
  let ?c = "consume (fe_poll1 env (ek_file (ei_key (interest_of ep i)))) (interest_of ep i)"
  obtain x r where c: "?c = (x, r)" by (cases ?c)
  show ?thesis
    using assms c poll_turn.dead [OF assms, of env] poll_turn.closed [OF assms, of env]
      poll_turn.keep [OF assms, of env x] poll_turn.remove [OF assms, of env x]
      poll_turn.none [OF assms, of env x]
    unfolding poll_loop.simps [of env cap out ep]
    by (cases "interest_alive ep i"; cases "fe_exists env (ek_file (ei_key (interest_of ep i)))"; cases r)
      (auto simp: Let_def)
qed

lemma poll_loop_turns:
  assumes "poll_loop env cap out ep = (ep', out')"
  shows "(poll_turn env cap)\<^sup>*\<^sup>* (out, ep) (out', ep') \<and> (ep_ready ep' = [] \<or> cap \<le> length out')"
  using assms
proof (induction "2 * (cap - length out) + length (ep_ready ep)" arbitrary: out ep rule: less_induct)
  case less
  show ?case
  proof (cases "ep_ready ep = [] \<or> cap \<le> length out")
    case True
    with less.prems poll_loop_stop [OF True] show ?thesis by auto
  next
    case False
    then obtain i q where ready: "ep_ready ep = i # q" and room: "length out < cap"
      by (cases "ep_ready ep") auto
    from poll_loop_turn [OF this] obtain out1 ep1 where turn: "poll_turn env cap (out, ep) (out1, ep1)"
      and eq: "poll_loop env cap out ep = poll_loop env cap out1 ep1" by blast
    from turn have "2 * (cap - length out1) + length (ep_ready ep1) < 2 * (cap - length out) + length (ep_ready ep)"
      by cases (use room in auto)
    from less.hyps [OF this] less.prems eq turn show ?thesis
      by (auto intro: converse_rtranclp_into_rtranclp)
  qed
qed

lemma poll_turn_sync:
  assumes "poll_turn env cap s s'" and "ep_sync (snd s)"
  shows "ep_sync (snd s')"
  using assms
proof (induction rule: poll_turn.induct)
  case (dead ep i q out)
  from ep_pop_sync [OF _ dead(1), of id] dead show ?case
    by (simp add: update_interest_def)
next
  case (closed ep i q out)
  let ?ep = "ep\<lparr>ep_interests := (ep_interests ep)(ei_key (interest_of ep i) := None)\<rparr>"
  have "ep_sync ?ep" using closed(5) by (simp add: ep_forget_sync)
  moreover have "\<not> interest_alive ?ep i" by (simp add: interest_alive_def interest_of_def)
  ultimately have "ep_sync (update_interest i mark_not_in_queue (?ep\<lparr>ep_ready := q\<rparr>))"
    using closed(1) by (intro ep_pop_sync) simp_all
  moreover have "?ep\<lparr>ep_ready := q\<rparr> =
      ep\<lparr>ep_ready := q, ep_interests := (ep_interests ep)(ei_key (interest_of ep i) := None)\<rparr>"
    by simp
  ultimately show ?case by (metis snd_conv)
next
  case (keep ep i q out x event)
  with ep_requeue_sync [OF _ keep(1,3), of x] consume_frame [OF keep(5)] show ?case
    by (simp add: interest_of_def)
next
  case (remove ep i q out x event)
  with ep_pop_sync [OF _ remove(1), of "\<lambda>_. mark_not_in_queue x"] consume_frame [OF remove(5)]
  show ?case by (simp add: interest_of_def register_waker_only_def Let_def)
next
  case (none ep i q out x)
  with ep_pop_sync [OF _ none(1), of "\<lambda>_. mark_not_in_queue x"] consume_frame [OF none(5)]
  show ?case by (simp add: interest_of_def register_waker_only_def Let_def)
qed

lemma poll_turns_sync:
  "(poll_turn env cap)\<^sup>*\<^sup>* s s' \<Longrightarrow> ep_sync (snd s) \<Longrightarrow> ep_sync (snd s')"
  by (induction rule: rtranclp_induct) (auto intro: poll_turn_sync)

lemma poll_events_sync:
  assumes "ep_sync ep" and "poll_events env cap ep = (ep', r)"
  shows "ep_sync ep'"
  using assms poll_loop_turns [of env cap "[]" ep] poll_turns_sync [of env cap "([], ep)"]
  by (auto simp: poll_events_def split: prod.splits)

subsection \<open>No wake-up is lost\<close>

text \<open>
  \<open>ep_armed F\<close>: for the files of \<open>F\<close>, every live interest that may still fire is either in
  the ready queue or has a waker registered with its file.
\<close>

definition ep_armed :: "file_id set \<Rightarrow> epoll \<Rightarrow> bool" where
  "ep_armed F ep \<longleftrightarrow> (\<forall>i. interest_alive ep i \<longrightarrow> ek_file (ei_key (ep_store ep ! i)) \<in> F
     \<longrightarrow> mode_enabled (ei_mode (ep_store ep ! i))
     \<longrightarrow> i \<in> set (ep_ready ep) \<or> (ek_file (ei_key (ep_store ep ! i)), i) \<in> set (ep_regs ep))"

definition ep_good :: "file_id set \<Rightarrow> epoll \<Rightarrow> bool" where
  "ep_good F ep \<longleftrightarrow> ep_sync ep \<and> ep_armed F ep"

text \<open>A file that becomes ready wakes the registered wakers and forgets them.\<close>

definition file_wake :: "file_id \<Rightarrow> epoll \<Rightarrow> epoll" where
  "file_wake f ep = foldl (\<lambda>ep r. wake_by_ref (snd r) ep)
     (ep\<lparr>ep_regs := filter (\<lambda>r. fst r \<noteq> f) (ep_regs ep)\<rparr>) (filter (\<lambda>r. fst r = f) (ep_regs ep))"

lemma regs_irrelevant [simp]:
  "interest_alive (ep\<lparr>ep_regs := r\<rparr>) i = interest_alive ep i"
  by (simp add: interest_alive_def interest_of_def)

lemma wake_frame [simp]:
  "ep_interests (wake_by_ref i ep) = ep_interests ep"
  "ep_regs (wake_by_ref i ep) = ep_regs ep"
  "length (ep_store (wake_by_ref i ep)) = length (ep_store ep)"
  by (simp_all add: wake_by_ref_def)

lemma wake_store:
  assumes "j < length (ep_store ep)"
  shows "ei_key (ep_store (wake_by_ref i ep) ! j) = ei_key (ep_store ep ! j)"
    and "ei_mode (ep_store (wake_by_ref i ep) ! j) = ei_mode (ep_store ep ! j)"
    and "ei_event (ep_store (wake_by_ref i ep) ! j) = ei_event (ep_store ep ! j)"
  using assms by (auto simp: wake_by_ref_def update_interest_nth)

lemma wake_alive [simp]: "interest_alive (wake_by_ref i ep) j = interest_alive ep j"
  using wake_store(1) [of j ep i] by (auto simp: interest_alive_def interest_of_def)

lemma wake_ready:
  "set (ep_ready ep) \<subseteq> set (ep_ready (wake_by_ref i ep))"
  by (auto simp: wake_by_ref_def)

lemma wake_puts_in_queue:
  assumes "ep_sync ep" and "interest_alive ep i"
  shows "i \<in> set (ep_ready (wake_by_ref i ep))"
  using assms by (auto simp: wake_by_ref_def ep_sync_def interest_of_def)

lemma wake_armed: "ep_armed F ep \<Longrightarrow> ep_armed F (wake_by_ref i ep)"
  using wake_ready [of ep i] wake_store [of _ ep i]
  by (fastforce simp: ep_armed_def interest_alive_def [of ep])

lemma wakes_good:
  assumes "ep_sync ep"
    and "\<And>i. interest_alive ep i \<Longrightarrow> ek_file (ei_key (ep_store ep ! i)) \<in> F
      \<Longrightarrow> mode_enabled (ei_mode (ep_store ep ! i))
      \<Longrightarrow> i \<in> set (ep_ready ep) \<or> i \<in> snd ` set ws
        \<or> (ek_file (ei_key (ep_store ep ! i)), i) \<in> set (ep_regs ep)"
  shows "ep_good F (foldl (\<lambda>ep r. wake_by_ref (snd r) ep) ep ws)"
  using assms
proof (induction ws arbitrary: ep)
  case Nil
  then show ?case by (auto simp: ep_good_def ep_armed_def)
next
  case (Cons w ws)
  let ?ep = "wake_by_ref (snd w) ep"
  have "i \<in> set (ep_ready ?ep) \<or> i \<in> snd ` set ws
        \<or> (ek_file (ei_key (ep_store ?ep ! i)), i) \<in> set (ep_regs ?ep)"
    if "interest_alive ?ep i" "ek_file (ei_key (ep_store ?ep ! i)) \<in> F"
      "mode_enabled (ei_mode (ep_store ?ep ! i))" for i
  proof -
    have alive: "interest_alive ep i" using that(1) by simp
    then have i: "i < length (ep_store ep)" by (simp add: interest_alive_def)
    from Cons.prems(2) [OF alive] that(2,3) wake_store(1,2) [OF i, of "snd w"] show ?thesis
      using wake_ready [of ep "snd w"] wake_puts_in_queue [OF Cons.prems(1), of i] alive by auto
  qed
  with Cons.IH [OF wake_sync [OF Cons.prems(1)]] show ?case by simp
qed

lemma file_wake_good: "ep_good F ep \<Longrightarrow> ep_good F (file_wake f ep)"
  unfolding file_wake_def
  by (rule wakes_good) (force simp: ep_good_def ep_armed_def interest_alive_def interest_of_def)+

text \<open>After \<open>check_and_register_waker\<close> the interest itself is armed.\<close>

lemma check_register_good:
  assumes sync: "ep_sync ep" and i: "interest_alive ep i"
    and ex: "\<And>f. f \<in> F \<Longrightarrow> ex f"
    and others: "\<And>j. j \<noteq> i \<Longrightarrow> interest_alive ep j \<Longrightarrow> ek_file (ei_key (ep_store ep ! j)) \<in> F
      \<Longrightarrow> mode_enabled (ei_mode (ep_store ep ! j))
      \<Longrightarrow> j \<in> set (ep_ready ep) \<or> (ek_file (ei_key (ep_store ep ! j)), j) \<in> set (ep_regs ep)"
  shows "ep_good F (check_and_register_waker ex p1 p2 i ep)"
proof -
  let ?f = "ek_file (ei_key (interest_of ep i))"
  have wake: "ep_good F (wake_by_ref i ep)"
    using wakes_good [OF sync, of F "[(0, i)]"] others by auto
  have reg: "ep_good F (ep\<lparr>ep_regs := ep_regs ep @ [(?f, i)]\<rparr>)"
  proof -
    have "j \<in> set (ep_ready ep) \<or> (ek_file (ei_key (ep_store ep ! j)), j) \<in> set (ep_regs ep @ [(?f, i)])"
      if "interest_alive ep j" "ek_file (ei_key (ep_store ep ! j)) \<in> F"
        "mode_enabled (ei_mode (ep_store ep ! j))" for j
      using others [OF _ that] by (cases "j = i") (auto simp: interest_of_def)
    with sync show ?thesis by (simp add: ep_good_def ep_armed_def)
  qed
  have both: "ep_good F (wake_by_ref i (ep\<lparr>ep_regs := ep_regs ep @ [(?f, i)]\<rparr>))"
    using reg by (simp add: ep_good_def wake_sync wake_armed)
  have "ep_good F ep" if off: "\<not> ex ?f \<or> \<not> mode_enabled (ei_mode (interest_of ep i))"
  proof -
    have "j \<in> set (ep_ready ep) \<or> (ek_file (ei_key (ep_store ep ! j)), j) \<in> set (ep_regs ep)"
      if "interest_alive ep j" "ek_file (ei_key (ep_store ep ! j)) \<in> F"
        "mode_enabled (ei_mode (ep_store ep ! j))" for j
      using others [OF _ that] off ex [of ?f] that by (cases "j = i") (auto simp: interest_of_def)
    with sync show ?thesis by (simp add: ep_good_def ep_armed_def)
  qed
  with wake reg both show ?thesis
    by (simp add: check_and_register_waker_def Let_def)
qed

lemma ep_extend_good:
  assumes good: "ep_good F ep" and key: "ei_key x = key" and flag: "\<not> ei_in_ready_queue x"
    and ex: "\<And>f. f \<in> F \<Longrightarrow> ex f"
  shows "ep_good F (check_and_register_waker ex p1 p2 (length (ep_store ep))
    (ep\<lparr>ep_store := ep_store ep @ [x], ep_interests := (ep_interests ep)(key \<mapsto> length (ep_store ep))\<rparr>))"
    (is "ep_good F (check_and_register_waker ex p1 p2 ?n ?ep)")
proof (rule check_register_good [OF _ _ ex])
  have sync: "ep_sync ep" and armed: "ep_armed F ep" using good by (simp_all add: ep_good_def)
  show sync': "ep_sync ?ep" using sync key flag by (rule ep_extend_sync)
  show "interest_alive ?ep ?n" using key by (simp add: interest_alive_def interest_of_def)
  fix j
  assume j: "j \<noteq> ?n" "interest_alive ?ep j" "ek_file (ei_key (ep_store ?ep ! j)) \<in> F"
    "mode_enabled (ei_mode (ep_store ?ep ! j))"
  have wf: "ep_wf ep" "ep_wf ?ep" using sync sync' by (simp_all add: ep_sync_def)
  from j(1,2) ep_wf_alive [OF wf(2)] have "\<exists>k. ep_interests ep k = Some j" by (auto split: if_splits)
  then have alive: "interest_alive ep j" using ep_wf_alive [OF wf(1)] by simp
  then have "ep_store ?ep ! j = ep_store ep ! j" by (simp add: interest_alive_def nth_append)
  with armed alive j(3,4) show "j \<in> set (ep_ready ?ep)
      \<or> (ek_file (ei_key (ep_store ?ep ! j)), j) \<in> set (ep_regs ?ep)"
    by (auto simp: ep_armed_def)
qed

lemma epoll_add_good:
  assumes "ep_good F ep" and "\<And>f. f \<in> F \<Longrightarrow> fe_exists env f" and "epoll_add env fd event flags ep = (ep', r)"
  shows "ep_good F ep'"
  using assms
  by (auto simp: epoll_add_def Let_def intro!: ep_extend_good split: sum.splits option.splits)

lemma epoll_modify_good:
  assumes "ep_good F ep" and "\<And>f. f \<in> F \<Longrightarrow> fe_exists env f" and "epoll_modify env fd event flags ep = (ep', r)"
    and "\<And>f i. fe_file_of env fd = Some f \<Longrightarrow> ep_interests ep \<lparr>ek_fd = fd, ek_file = f\<rparr> = Some i
      \<Longrightarrow> \<not> ei_in_ready_queue (interest_of ep i)"
  shows "ep_good F ep'"
  using assms
  by (auto simp: epoll_modify_def entry_key_new_def Let_def intro!: ep_extend_good
      split: sum.splits option.splits)

lemma ep_forget_good:
  assumes "ep_good F ep"
  shows "ep_good F (ep\<lparr>ep_interests := (ep_interests ep)(key := None)\<rparr>)"
  using assms ep_forget_sync [of ep key]
  by (auto simp: ep_good_def ep_armed_def interest_alive_def interest_of_def split: if_splits)

lemma epoll_delete_good:
  assumes "ep_good F ep" and "epoll_delete env fd ep = (ep', r)"
  shows "ep_good F ep'"
  using assms
  by (auto simp: epoll_delete_def intro!: ep_forget_good split: sum.splits option.splits)

lemma ep_touch_armed:
  assumes touch: "ep_touch i f q ep ep'" and wf: "ep_wf ep" "ep_wf ep'" and armed: "ep_armed F ep"
    and key: "ei_key (f (ep_store ep ! i)) = ei_key (ep_store ep ! i)"
    and regs: "set (ep_regs ep) \<subseteq> set (ep_regs ep')" and q: "set (ep_ready ep) - {i} \<subseteq> set q"
    and self: "interest_alive ep i \<Longrightarrow> ek_file (ei_key (ep_store ep ! i)) \<in> F
      \<Longrightarrow> mode_enabled (ei_mode (f (ep_store ep ! i)))
      \<Longrightarrow> i \<in> set q \<or> (ek_file (ei_key (ep_store ep ! i)), i) \<in> set (ep_regs ep')"
  shows "ep_armed F ep'"
  unfolding ep_armed_def
proof (intro allI impI)
  fix j
  assume j: "interest_alive ep' j" "ek_file (ei_key (ep_store ep' ! j)) \<in> F"
    "mode_enabled (ei_mode (ep_store ep' ! j))"
  have alive: "interest_alive ep j" using j(1) ep_touch_alive [OF touch wf] by simp
  then have len: "j < length (ep_store ep)" by (simp add: interest_alive_def)
  show "j \<in> set (ep_ready ep') \<or> (ek_file (ei_key (ep_store ep' ! j)), j) \<in> set (ep_regs ep')"
  proof (cases "j = i")
    case True
    with j len alive touch key self show ?thesis by (auto simp: ep_touch_def)
  next
    case False
    with len touch have same: "ep_store ep' ! j = ep_store ep ! j" "ep_ready ep' = q"
      by (simp_all add: ep_touch_def)
    with armed alive j have "j \<in> set (ep_ready ep) \<or> (ek_file (ei_key (ep_store ep ! j)), j) \<in> set (ep_regs ep)"
      by (simp add: ep_armed_def)
    with same False q regs show ?thesis by auto
  qed
qed

lemma ep_leave_armed:
  assumes good: "ep_good F ep" and ready: "ep_ready ep = i # q"
    and exists: "ex (ek_file (ei_key (ep_store ep ! i)))"
    and key: "ei_key x = ei_key (ep_store ep ! i)"
    and wf: "ep_wf (register_waker_only ex i (update_interest i (\<lambda>_. mark_not_in_queue x) (ep\<lparr>ep_ready := q\<rparr>)))"
      (is "ep_wf ?ep")
  shows "ep_armed F ?ep"
proof -
  have len: "i < length (ep_store ep)" using good ready by (auto simp: ep_good_def ep_sync_def ep_wf_def)
  have touch: "ep_touch i (\<lambda>_. mark_not_in_queue x) q ep ?ep"
    by (auto simp: ep_touch_def update_interest_nth)
  have regs: "set (ep_regs ep) \<subseteq> set (ep_regs ?ep)"
    by (auto simp: register_waker_only_def Let_def)
  have "(ek_file (ei_key (ep_store ep ! i)), i) \<in> set (ep_regs ?ep)" if "mode_enabled (ei_mode x)"
    using that len exists key
    by (simp add: register_waker_only_def Let_def interest_of_def update_interest_nth)
  then show ?thesis
    using good ready key wf regs
    by (intro ep_touch_armed [OF touch]) (auto simp: ep_good_def ep_sync_def)
qed

lemma poll_turn_good:
  assumes "poll_turn env cap s s'" and "\<And>f. f \<in> F \<Longrightarrow> fe_exists env f" and "ep_good F (snd s)"
  shows "ep_good F (snd s')"
  using assms
proof (induction rule: poll_turn.induct)
  case (dead ep i q out)
  have "ep_armed F (ep\<lparr>ep_ready := q\<rparr>)"
    using dead by (auto simp: ep_good_def ep_armed_def)
  with poll_turn_sync [OF poll_turn.dead [OF dead(1-3)]] dead(5) show ?case
    by (simp add: ep_good_def)
next
  case (closed ep i q out)
  let ?ep1 = "ep\<lparr>ep_interests := (ep_interests ep)(ei_key (interest_of ep i) := None)\<rparr>"
  let ?ep2 = "update_interest i mark_not_in_queue
      (ep\<lparr>ep_ready := q, ep_interests := (ep_interests ep)(ei_key (interest_of ep i) := None)\<rparr>)"
  have good1: "ep_good F ?ep1" using ep_forget_good closed(6) by simp
  have sync2: "ep_sync ?ep2"
    using poll_turn_sync [OF poll_turn.closed [OF closed(1-4)]] closed(6) by (simp add: ep_good_def)
  have touch: "ep_touch i mark_not_in_queue q ?ep1 ?ep2"
    by (auto simp: ep_touch_def update_interest_nth)
  have "\<not> interest_alive ?ep1 i" by (simp add: interest_alive_def interest_of_def)
  then have "ep_armed F ?ep2"
    using good1 sync2 closed(1)
    by (intro ep_touch_armed [OF touch]) (auto simp: ep_good_def ep_sync_def)
  with sync2 show ?case by (simp add: ep_good_def)
next
  case (keep ep i q out x event)
  note C = consume_frame [OF keep(5)]
  let ?ep = "(update_interest i (\<lambda>_. x) (ep\<lparr>ep_ready := q\<rparr>))\<lparr>ep_ready := q @ [i]\<rparr>"
  have sync: "ep_sync ep" "ep_sync ?ep"
    using poll_turn_sync [OF poll_turn.keep [OF keep(1-5)]] keep(7) by (simp_all add: ep_good_def)
  have touch: "ep_touch i (\<lambda>_. x) (q @ [i]) ep ?ep"
    by (auto simp: ep_touch_def update_interest_nth)
  have "ep_armed F ?ep"
    by (rule ep_touch_armed [OF touch])
      (use sync keep(1,7) C in \<open>auto simp: ep_sync_def ep_good_def interest_of_def\<close>)
  with sync show ?case by (simp add: ep_good_def)
next
  case (remove ep i q out x event)
  then show ?case
    using poll_turn_sync [OF poll_turn.remove [OF remove(1-5)]] consume_frame [OF remove(5)]
      ep_leave_armed [OF _ remove(1), of F "fe_exists env" x]
    by (simp add: ep_good_def ep_sync_def interest_of_def)
next
  case (none ep i q out x)
  then show ?case
    using poll_turn_sync [OF poll_turn.none [OF none(1-5)]] consume_frame [OF none(5)]
      ep_leave_armed [OF _ none(1), of F "fe_exists env" x]
    by (simp add: ep_good_def ep_sync_def interest_of_def)
qed

lemma poll_turns_good:
  assumes "(poll_turn env cap)\<^sup>*\<^sup>* s s'" and "\<And>f. f \<in> F \<Longrightarrow> fe_exists env f" and "ep_good F (snd s)"
  shows "ep_good F (snd s')"
  using assms by (induction rule: rtranclp_induct) (auto intro: poll_turn_good)

lemma poll_events_good:
  assumes "ep_good F ep" and "\<And>f. f \<in> F \<Longrightarrow> fe_exists env f" and "poll_events env cap ep = (ep', r)"
  shows "ep_good F ep'"
  using assms poll_loop_turns [of env cap "[]" ep] poll_turns_good [of env cap "([], ep)" _ F]
  by (auto simp: poll_events_def split: prod.splits)

end
