(* ===== verification/Epoll_Props.thy ===== *)
theory Epoll_Props
  imports Epoll_Theorems
begin

section \<open>\<open>epoll\<close>: the properties\<close>

text \<open>
  The transition system of one \<open>epoll\<close> instance and what it guarantees: no wake-up is lost
  unless \<open>modify\<close> hits a queued interest, in which case it is lost for good.
\<close>

inductive epoll_step :: "file_id set \<Rightarrow> epoll \<Rightarrow> epoll \<Rightarrow> bool" for F where
  add: "(\<And>f. f \<in> F \<Longrightarrow> fe_exists env f) \<Longrightarrow> epoll_add env fd event flags ep = (ep', r)
    \<Longrightarrow> epoll_step F ep ep'"
| modify: "(\<And>f. f \<in> F \<Longrightarrow> fe_exists env f) \<Longrightarrow> epoll_modify env fd event flags ep = (ep', r)
    \<Longrightarrow> (\<And>f i. fe_file_of env fd = Some f \<Longrightarrow> ep_interests ep \<lparr>ek_fd = fd, ek_file = f\<rparr> = Some i
          \<Longrightarrow> \<not> ei_in_ready_queue (interest_of ep i))
    \<Longrightarrow> epoll_step F ep ep'"
| delete: "epoll_delete env fd ep = (ep', r) \<Longrightarrow> epoll_step F ep ep'"
| wake: "epoll_step F ep (file_wake f ep)"
| spurious: "epoll_step F ep (wake_by_ref i ep)"
| poll: "(\<And>f. f \<in> F \<Longrightarrow> fe_exists env f) \<Longrightarrow> poll_events env cap ep = (ep', r) \<Longrightarrow> epoll_step F ep ep'"

inductive_simps epoll_step_iff: "epoll_step F ep ep'"

lemma wake_good: "ep_good F ep \<Longrightarrow> ep_good F (wake_by_ref i ep)"
  by (simp add: ep_good_def wake_sync wake_armed)

lemma epoll_step_good: "epoll_step F ep ep' \<Longrightarrow> ep_good F ep \<Longrightarrow> ep_good F ep'"
  by (induction rule: epoll_step.induct)
    (blast intro: epoll_add_good epoll_modify_good epoll_delete_good file_wake_good wake_good
      poll_events_good)+

lemma epoll_new_good: "ep_good F epoll_new"
  by (simp add: ep_good_def ep_sync_def ep_wf_def ep_armed_def epoll_new_def interest_alive_def)


definition idle_env :: file_env where
  "idle_env = \<lparr>fe_file_of = (\<lambda>fd. if fd = 4 then Some 9 else None), fe_exists = (\<lambda>_. True),
     fe_poll1 = (\<lambda>_. 0), fe_poll2 = (\<lambda>_. 0)\<rparr>"

definition ready_env :: file_env where
  "ready_env = idle_env\<lparr>fe_poll1 := (\<lambda>_. 1), fe_poll2 := (\<lambda>_. 1)\<rparr>"

definition in_event :: epoll_event where
  "in_event = \<lparr>ev_events = 1, ev_user_data = 42\<rparr>"

definition one_interest :: epoll where
  "one_interest = fst (epoll_add idle_env 4 in_event 0 epoll_new)"

lemmas epoll_eval = one_interest_def epoll_add_def entry_key_new_def idle_env_def ready_env_def
  epoll_new_def check_and_register_waker_def interest_of_def interest_new_def from_flags_def
  in_event_def has_flags_def EPOLLONESHOT_def EPOLLET_def interest_alive_def

lemma one_interest_value:
  "one_interest = \<lparr>ep_store = [\<lparr>ei_key = \<lparr>ek_fd = 4, ek_file = 9\<rparr>, ei_event = in_event, ei_mode = Level,
     ei_in_ready_queue = False\<rparr>], ep_interests = [\<lparr>ek_fd = 4, ek_file = 9\<rparr> \<mapsto> 0], ep_ready = [],
     ep_regs = [(9, 0)]\<rparr>"
  by (simp add: epoll_eval)


subsection \<open>What \<open>poll_events\<close> reports\<close>

text \<open>What a turn of the loop appends: an event that was asked for and is present.\<close>

definition reportable :: "file_env \<Rightarrow> epoll \<Rightarrow> epoll_event \<Rightarrow> bool" where
  "reportable env ep event \<longleftrightarrow> (\<exists>i < length (ep_store ep).
     ev_events event = fe_poll1 env (ek_file (ei_key (ep_store ep ! i))) AND ev_events (ei_event (ep_store ep ! i))
     \<and> ev_events event \<noteq> 0 \<and> ev_user_data event = ev_user_data (ei_event (ep_store ep ! i)))"

lemma consume_event:
  assumes "consume ev x = (x', EventAndKeep event) \<or> consume ev x = (x', EventAndRemove event)"
  shows "ev_events event = ev AND ev_events (ei_event x)" and "ev_events event \<noteq> 0"
    and "ev_user_data event = ev_user_data (ei_event x)"
  using assms
  by (auto simp: consume_def Let_def split: if_splits prod.splits trigger_mode.splits)

lemma store_same_turn:
  assumes "poll_turn env cap s s'"
  shows "length (ep_store (snd s')) = length (ep_store (snd s))
    \<and> (\<forall>j < length (ep_store (snd s)). ei_key (ep_store (snd s') ! j) = ei_key (ep_store (snd s) ! j)
         \<and> ei_event (ep_store (snd s') ! j) = ei_event (ep_store (snd s) ! j))"
  using assms
  by (induction rule: poll_turn.induct)
    (auto simp: update_interest_nth interest_of_def dest: consume_frame)

lemma turn_reports:
  assumes "poll_turn env cap s s'"
  shows "\<exists>new. fst s' = fst s @ new \<and> (\<forall>event \<in> set new. reportable env (snd s) event)
    \<and> length (fst s') \<le> cap"
  using assms
proof (induction rule: poll_turn.induct)
  case (keep ep i q out x event)
  have "reportable env ep event"
    using keep(3) consume_event [OF disjI1 [OF keep(5)]]
    by (auto simp: reportable_def interest_alive_def interest_of_def)
  with keep(2) show ?case by simp
next
  case (remove ep i q out x event)
  have "reportable env ep event"
    using remove(3) consume_event [OF disjI2 [OF remove(5)]]
    by (auto simp: reportable_def interest_alive_def interest_of_def)
  with remove(2) show ?case by simp
qed simp_all

lemma turns_report:
  assumes "(poll_turn env cap)\<^sup>*\<^sup>* s s'" and "length (fst s) \<le> cap"
  shows "length (fst s') \<le> cap \<and> length (ep_store (snd s')) = length (ep_store (snd s))
    \<and> (\<forall>event. reportable env (snd s') event = reportable env (snd s) event)
    \<and> (\<exists>new. fst s' = fst s @ new \<and> (\<forall>event \<in> set new. reportable env (snd s) event))"
  using assms
proof (induction rule: rtranclp_induct)
  case base
  then show ?case by simp
next
  case (step t u)
  have same: "reportable env (snd u) event = reportable env (snd t) event" for event
    using store_same_turn [OF step.hyps(2)] by (auto simp: reportable_def)
  from turn_reports [OF step.hyps(2)] obtain new where
    "fst u = fst t @ new" "\<forall>event \<in> set new. reportable env (snd t) event" "length (fst u) \<le> cap"
    by blast
  with step same store_same_turn [OF step.hyps(2)] show ?case by auto
qed

text \<open>
  C29: \<open>poll_events\<close> always returns. It reports at most as many events as the buffer holds,
  each with a non-empty set of flags that is exactly what the file offers of what the
  interest asked for, together with that interest's user data; it blocks only with nothing
  to report, and it stops early only with a full buffer.
\<close>

theorem poll_events_sound:
  assumes "poll_events env cap ep = (ep', r)"
  shows "(r = Fail WouldBlock \<or> (\<exists>out. r = Ok out \<and> out \<noteq> [] \<and> length out \<le> cap
      \<and> list_all (reportable env ep) out))
    \<and> (ep_ready ep' = [] \<or> (case r of Inl _ \<Rightarrow> cap = 0 | Inr out \<Rightarrow> length out = cap))"
proof -
  obtain out where loop: "poll_loop env cap [] ep = (ep', out)" and r: "r = (if out = [] then Fail WouldBlock else Ok out)"
    using assms by (auto simp: poll_events_def Let_def split: prod.splits)
  note turns = poll_loop_turns [OF loop]
  from turns_report [of env cap "([], ep)" "(out, ep')"] turns
  have "length out \<le> cap" "\<forall>event \<in> set out. reportable env ep event" by auto
  with turns r show ?thesis by (auto simp: list_all_iff)
qed

text \<open>One turn on a level-triggered interest that is ready reports it and puts it back.\<close>

lemma level_turn:
  assumes ready: "ep_ready ep = [i]" and alive: "interest_alive ep i"
    and open_file: "fe_exists env (ek_file (ei_key (interest_of ep i)))"
    and level: "ei_mode (interest_of ep i) = Level"
    and matched: "fe_poll1 env (ek_file (ei_key (interest_of ep i))) AND ev_events (ei_event (interest_of ep i)) = m" "m \<noteq> 0"
    and room: "length out < cap"
  shows "poll_loop env cap out ep =
    poll_loop env cap (out @ [\<lparr>ev_events = m, ev_user_data = ev_user_data (ei_event (interest_of ep i))\<rparr>]) ep"
proof -
  have same: "(interest_of ep i)\<lparr>ei_mode := Level\<rparr> = interest_of ep i" using level by simp
  have "update_interest i (\<lambda>_. (interest_of ep i)\<lparr>ei_mode := Level\<rparr>) (ep\<lparr>ep_ready := []\<rparr>)
      \<lparr>ep_ready := [i]\<rparr> = ep"
    unfolding same using ready by (simp add: update_interest_def interest_of_def)
  then show ?thesis
    using assms
    by (simp add: poll_loop.simps [of env cap out ep] consume_def Let_def)
qed

lemma level_loop:
  assumes "ep_ready ep = [i]" and "interest_alive ep i"
    and "fe_exists env (ek_file (ei_key (interest_of ep i)))"
    and "ei_mode (interest_of ep i) = Level"
    and "fe_poll1 env (ek_file (ei_key (interest_of ep i))) AND ev_events (ei_event (interest_of ep i)) = m" and "m \<noteq> 0"
  shows "poll_loop env cap out ep = (ep, out @ replicate (cap - length out)
    \<lparr>ev_events = m, ev_user_data = ev_user_data (ei_event (interest_of ep i))\<rparr>)"
proof (induction "cap - length out" arbitrary: out)
  case 0
  then show ?case by (simp add: poll_loop_stop)
next
  case (Suc n)
  let ?e = "\<lparr>ev_events = m, ev_user_data = ev_user_data (ei_event (interest_of ep i))\<rparr>"
  have "cap - length out = Suc (cap - length (out @ [?e]))" using Suc.hyps(2) by simp
  then show ?case
    using level_turn [OF assms, of out cap] Suc.hyps(1) [of "out @ [?e]"] Suc.hyps(2)
    by (simp add: replicate_app_Cons_same)
qed

text \<open>
  One ready level-triggered descriptor fills the whole buffer. The loop puts such an
  interest back into the queue it is reading from, so \<open>poll_events\<close> reports the same event
  once per slot of the caller's buffer instead of once per call.
\<close>

lemma poll_events_level_duplicates:
  assumes "ep_ready ep = [i]" and "interest_alive ep i"
    and "fe_exists env (ek_file (ei_key (interest_of ep i)))"
    and "ei_mode (interest_of ep i) = Level"
    and "fe_poll1 env (ek_file (ei_key (interest_of ep i))) AND ev_events (ei_event (interest_of ep i)) \<noteq> 0"
    and "0 < cap"
  shows "poll_events env cap ep = (ep, Ok (replicate cap
    \<lparr>ev_events = fe_poll1 env (ek_file (ei_key (interest_of ep i))) AND ev_events (ei_event (interest_of ep i)),
     ev_user_data = ev_user_data (ei_event (interest_of ep i))\<rparr>))"
  using level_loop [OF assms(1-4) refl assms(5), of cap "[]"] assms(6)
  by (simp add: poll_events_def)

definition woken_interest :: epoll where
  "woken_interest = file_wake 9 one_interest"

lemma woken_interest_value:
  "woken_interest = \<lparr>ep_store = [\<lparr>ei_key = \<lparr>ek_fd = 4, ek_file = 9\<rparr>, ei_event = in_event, ei_mode = Level,
     ei_in_ready_queue = True\<rparr>], ep_interests = [\<lparr>ek_fd = 4, ek_file = 9\<rparr> \<mapsto> 0], ep_ready = [0],
     ep_regs = []\<rparr>"
  by (simp add: woken_interest_def file_wake_def one_interest_value wake_by_ref_def interest_alive_def
      interest_of_def update_interest_def)

lemma poll_events_level_duplicates_witness:
  "snd (poll_events ready_env 3 woken_interest) = Ok [in_event, in_event, in_event]"
proof -
  have "poll_events ready_env 3 woken_interest = (woken_interest, Ok (replicate 3
    \<lparr>ev_events = fe_poll1 ready_env (ek_file (ei_key (interest_of woken_interest 0)))
        AND ev_events (ei_event (interest_of woken_interest 0)),
     ev_user_data = ev_user_data (ei_event (interest_of woken_interest 0))\<rparr>))"
    by (rule poll_events_level_duplicates)
      (simp_all add: woken_interest_value interest_alive_def interest_of_def ready_env_def
        idle_env_def in_event_def)
  then show ?thesis
    by (simp add: woken_interest_value interest_of_def ready_env_def in_event_def numeral_3_eq_3)
qed

theorem poll_events_sound_witness:
  "\<exists>out. snd (poll_events ready_env 2 woken_interest) = Ok out
     \<and> length out = 2 \<and> list_all (reportable ready_env woken_interest) out"
proof -
  have "poll_loop ready_env 2 [] woken_interest = (woken_interest, replicate 2
      \<lparr>ev_events = 1, ev_user_data = ev_user_data (ei_event (interest_of woken_interest 0))\<rparr>)"
    using level_loop [of woken_interest 0 ready_env 1 2 "[]"]
    by (simp add: woken_interest_value interest_alive_def interest_of_def ready_env_def
        idle_env_def in_event_def)
  then have "poll_events ready_env 2 woken_interest = (woken_interest, Ok (replicate 2
      \<lparr>ev_events = 1, ev_user_data = ev_user_data (ei_event (interest_of woken_interest 0))\<rparr>))"
    by (simp add: poll_events_def)
  from this poll_events_sound [OF this] show ?thesis by simp
qed

subsection \<open>Modifying a queued interest\<close>

text \<open>
  \<open>ep_lost k\<close>: the interest of key \<open>k\<close>, the only one of the instance, is flagged as queued
  but not in the queue.
\<close>

definition ep_lost :: "entry_key \<Rightarrow> epoll \<Rightarrow> bool" where
  "ep_lost k ep \<longleftrightarrow> ep_wf ep \<and> (\<exists>i. ep_interests ep = [k \<mapsto> i] \<and> ei_in_ready_queue (ep_store ep ! i)
     \<and> i \<notin> set (ep_ready ep))"

lemma ep_lost_dead:
  assumes "ep_lost k ep" and "j \<in> set (ep_ready ep)"
  shows "\<not> interest_alive ep j"
  using assms by (auto simp: ep_lost_def ep_wf_alive split: if_splits)

lemma ep_lost_wake:
  assumes "ep_lost k ep"
  shows "wake_by_ref i ep = ep"
proof (cases "interest_alive ep i")
  case True
  with assms have "ep_interests ep k = Some i \<and> ei_in_ready_queue (ep_store ep ! i)"
    by (auto simp: ep_lost_def ep_wf_alive split: if_splits)
  then show ?thesis by (simp add: wake_by_ref_def interest_of_def)
qed (simp add: wake_by_ref_def)

lemma poll_loop_dead:
  assumes "\<And>j. j \<in> set (ep_ready ep) \<Longrightarrow> \<not> interest_alive ep j"
  shows "poll_loop env cap out ep = (if length out < cap then ep\<lparr>ep_ready := []\<rparr> else ep, out)"
  using assms
proof (induction "ep_ready ep" arbitrary: ep)
  case Nil
  then have "ep\<lparr>ep_ready := []\<rparr> = ep" by simp
  with Nil show ?case by (simp add: poll_loop_stop)
next
  case (Cons j q)
  show ?case
  proof (cases "length out < cap")
    case True
    have "\<not> interest_alive ep j" using Cons.prems Cons.hyps(2) [symmetric] by simp
    with True Cons.hyps(2) [symmetric]
    have "poll_loop env cap out ep = poll_loop env cap out (ep\<lparr>ep_ready := q\<rparr>)"
      by (simp add: poll_loop.simps [of env cap out ep] Let_def)
    with Cons.hyps(1) [of "ep\<lparr>ep_ready := q\<rparr>"] Cons.prems Cons.hyps(2) [symmetric] True
    show ?thesis by simp
  qed (simp add: poll_loop_stop)
qed

lemma ep_lost_poll:
  assumes "ep_lost k ep"
  shows "snd (poll_events env cap ep) = Fail WouldBlock" and "ep_lost k (fst (poll_events env cap ep))"
proof -
  have loop: "poll_loop env cap [] ep = (if 0 < cap then ep\<lparr>ep_ready := []\<rparr> else ep, [])"
    using poll_loop_dead [of ep env cap "[]"] ep_lost_dead [OF assms] by simp
  then show "snd (poll_events env cap ep) = Fail WouldBlock" by (simp add: poll_events_def)
  show "ep_lost k (fst (poll_events env cap ep))"
    using assms loop by (auto simp: poll_events_def ep_lost_def ep_wf_def)
qed

lemma check_register_lost:
  assumes "ep_lost k ep"
  shows "ep_lost k (check_and_register_waker ex p1 p2 i ep)"
proof -
  have lost: "ep_lost k (ep\<lparr>ep_regs := r\<rparr>)" for r using assms by (simp add: ep_lost_def ep_wf_def)
  show ?thesis
    using assms lost
    by (simp add: check_and_register_waker_def Let_def ep_lost_wake [OF assms] ep_lost_wake [OF lost])
qed

lemma modify_lost:
  assumes wf: "ep_wf ep" and only: "ep_interests ep = [\<lparr>ek_fd = fd, ek_file = f\<rparr> \<mapsto> old]"
    and queued: "ei_in_ready_queue (ep_store ep ! old)" and open_file: "fe_file_of env fd = Some f"
  shows "\<exists>ep'. epoll_modify env fd event flags ep = (ep', Ok ()) \<and> ep_lost \<lparr>ek_fd = fd, ek_file = f\<rparr> ep'"
proof -
  let ?k = "\<lparr>ek_fd = fd, ek_file = f\<rparr>"
  let ?new = "(interest_new ?k event flags)\<lparr>ei_in_ready_queue := True\<rparr>"
  let ?ep = "ep\<lparr>ep_store := ep_store ep @ [?new], ep_interests := (ep_interests ep)(?k \<mapsto> length (ep_store ep))\<rparr>"
  have "ep_wf ?ep" using wf by (rule ep_extend_wf) simp
  moreover have "length (ep_store ep) \<notin> set (ep_ready ep)" using wf by (auto simp: ep_wf_def)
  ultimately have "ep_lost ?k ?ep"
    using only unfolding ep_lost_def
    by (intro conjI exI [of _ "length (ep_store ep)"]) simp_all
  then show ?thesis
    using only queued open_file check_register_lost
    by (simp add: epoll_modify_def entry_key_new_def Let_def interest_of_def)
qed

inductive lost_step :: "entry_key \<Rightarrow> epoll \<Rightarrow> epoll \<Rightarrow> bool" for k where
  wake: "lost_step k ep (wake_by_ref i ep)"
| poll: "lost_step k ep (fst (poll_events env cap ep))"
| modify: "fe_file_of env (ek_fd k) = Some (ek_file k) \<Longrightarrow> lost_step k ep (fst (epoll_modify env (ek_fd k) event flags ep))"

lemma lost_step_keeps:
  assumes "lost_step k ep ep'" and "ep_lost k ep"
  shows "ep_lost k ep'"
  using assms
proof (induction rule: lost_step.induct)
  case (modify env ep event flags)
  have k: "\<lparr>ek_fd = ek_fd k, ek_file = ek_file k\<rparr> = k" by simp
  from modify(2) obtain i where "ep_wf ep" "ep_interests ep = [k \<mapsto> i]" "ei_in_ready_queue (ep_store ep ! i)"
    by (auto simp: ep_lost_def)
  with modify_lost [of ep "ek_fd k" "ek_file k" i env event flags] modify(1) k show ?case by auto
qed (use ep_lost_wake ep_lost_poll in auto)

text \<open>
  \<open>modify\<close> of an interest that is in the ready queue loses it. The new interest inherits
  the flag \<open>in_ready_queue\<close>, but the queue entry refers to the old, dropped object. From
  then on, through any sequence of wake-ups, polls and further modifications,
  \<open>poll_events\<close> reports nothing, although the file is ready, until the descriptor is removed.
\<close>

lemma epoll_modify_queued_lost:
  assumes wf: "ep_wf ep" and only: "ep_interests ep = [\<lparr>ek_fd = fd, ek_file = f\<rparr> \<mapsto> old]"
    and queued: "ei_in_ready_queue (interest_of ep old)" and open_file: "fe_file_of env fd = Some f"
    and run: "(lost_step \<lparr>ek_fd = fd, ek_file = f\<rparr>)\<^sup>*\<^sup>* (fst (epoll_modify env fd event flags ep)) ep'"
  shows "snd (poll_events env' cap ep') = Fail WouldBlock"
proof -
  have "ep_lost \<lparr>ek_fd = fd, ek_file = f\<rparr> (fst (epoll_modify env fd event flags ep))"
    using modify_lost [OF wf only _ open_file, of event flags] queued by (auto simp: interest_of_def)
  with run have "ep_lost \<lparr>ek_fd = fd, ek_file = f\<rparr> ep'"
    by (induction rule: rtranclp_induct) (auto intro: lost_step_keeps)
  then show ?thesis by (rule ep_lost_poll(1))
qed

lemma epoll_modify_queued_lost_witness:
  "snd (poll_events ready_env 8 (wake_by_ref 1 (fst (epoll_modify ready_env 4 in_event 0 woken_interest))))
     = Fail WouldBlock"
proof (rule epoll_modify_queued_lost [of woken_interest 4 9 0 ready_env in_event 0])
  show "(lost_step \<lparr>ek_fd = 4, ek_file = 9\<rparr>)\<^sup>*\<^sup>* (fst (epoll_modify ready_env 4 in_event 0 woken_interest))
      (wake_by_ref 1 (fst (epoll_modify ready_env 4 in_event 0 woken_interest)))"
    by (intro r_into_rtranclp lost_step.wake)
qed (simp_all add: woken_interest_value ep_wf_def interest_of_def ready_env_def idle_env_def)

end
