(* ===== verification/Futex.thy ===== *)
theory Futex
  imports Prelude
begin

section \<open>Futexes\<close>

text \<open>
  \<open>core/src/futex.rs\<close> (\<open>WaitQueue\<close>, \<open>FutexKey\<close>, \<open>FutexTable\<close>, \<open>FutexGuard\<close>), the choice of the
  table in \<open>core/src/task.rs\<close> and \<open>api/src/syscall/sync/futex.rs\<close>.

  Entries are shared objects: an entry is a position in \<open>fx_store\<close>, and the tables map a key
  to it. A blocked task holds a \<open>FutexGuard\<close> until its call returns, so the strong count of
  an entry is the number of tasks blocked on it, plus the guards of the running call, plus one
  for the table. A waiting call is three operations: \<open>futex_wait\<close> up to the point where the
  task blocks, \<open>futex_wait_return\<close> when it is resumed, \<open>futex_wait_abort\<close> when the timeout
  or a signal ends the wait.
\<close>

type_synonym tid = nat

subsection \<open>The wait queue\<close>

type_synonym wait_queue = "(tid \<times> u32) list"

text \<open>
  The first poll of \<open>wait_if\<close>: with the queue locked, evaluate the condition and enqueue.
  \<open>None\<close> is \<open>Poll::Pending\<close>.
\<close>

definition wait_if_poll :: "u32 \<Rightarrow> bool \<Rightarrow> tid \<Rightarrow> wait_queue \<Rightarrow> wait_queue \<times> bool option" where
  "wait_if_poll bitset cond t q = (if \<not> cond then (q, Some False) else (q @ [(t, bitset)], None))"

text \<open>The \<open>retain\<close> loop of \<open>wake\<close>: what stays, and whom it wakes, in order.\<close>

fun wake_retain :: "nat \<Rightarrow> u32 \<Rightarrow> nat \<Rightarrow> wait_queue \<Rightarrow> wait_queue \<times> tid list" where
  "wake_retain count msk woke [] = ([], [])"
| "wake_retain count msk woke ((waker, bitset) # q) =
     (if woke \<ge> count \<or> bitset AND msk = 0
      then (let (q', ts) = wake_retain count msk woke q in ((waker, bitset) # q', ts))
      else (let (q', ts) = wake_retain count msk (woke + 1) q in (q', waker # ts)))"

definition wq_wake :: "nat \<Rightarrow> u32 \<Rightarrow> wait_queue \<Rightarrow> wait_queue \<times> tid list" where
  "wq_wake count msk q = wake_retain count msk 0 q"

definition wq_requeue :: "nat \<Rightarrow> wait_queue \<Rightarrow> wait_queue \<times> wait_queue \<times> nat" where
  "wq_requeue count q =
     (let c = min count (length q) in (drop c q, take c q, c))"

subsection \<open>Keys, entries, tables\<close>

datatype futex_key = Private addr | Shared addr nat

definition as_usize :: "futex_key \<Rightarrow> nat" where
  "as_usize key = (case key of Private address \<Rightarrow> address | Shared offset region \<Rightarrow> offset)"

text \<open>The area of an address: its start, and the identity of its shared pages or file, if any.\<close>

definition futex_key_new :: "(addr \<Rightarrow> (addr \<times> nat option) option) \<Rightarrow> addr \<Rightarrow> futex_key" where
  "futex_key_new find_area address =
     (case find_area address of
        Some (start, Some region) \<Rightarrow> Shared (address - start) region
      | _ \<Rightarrow> Private address)"

datatype futex_table_id = PrivateTable pid | SharedTable nat

definition futex_table_for :: "pid \<Rightarrow> futex_key \<Rightarrow> futex_table_id" where
  "futex_table_for p key =
     (case key of Private _ \<Rightarrow> PrivateTable p | Shared _ region \<Rightarrow> SharedTable region)"

type_synonym futex_slot = "futex_table_id \<times> nat"

definition futex_slot_of :: "pid \<Rightarrow> futex_key \<Rightarrow> futex_slot" where
  "futex_slot_of p key = (futex_table_for p key, as_usize key)"

text \<open>\<open>fx_slot\<close> is the slot the entry was created for; the code keeps it in the guards.\<close>

record futex_entry =
  fx_wq :: wait_queue
  fx_owner_dead :: bool
  fx_slot :: futex_slot

record futexes =
  fx_table :: "futex_slot \<rightharpoonup> nat"
  fx_store :: "futex_entry list"
  fx_blocked :: "(tid \<times> nat) list"

definition futexes_new :: futexes where
  "futexes_new = \<lparr>fx_table = Map.empty, fx_store = [], fx_blocked = []\<rparr>"

definition futex_get :: "futex_slot \<Rightarrow> futexes \<Rightarrow> nat option" where
  "futex_get slot st = fx_table st slot"

definition futex_get_or_insert :: "futex_slot \<Rightarrow> futexes \<Rightarrow> nat \<times> futexes" where
  "futex_get_or_insert slot st =
     (case fx_table st slot of
        Some e \<Rightarrow> (e, st)
      | None \<Rightarrow>
          (let e = length (fx_store st) in
           (e, st\<lparr>fx_table := (fx_table st)(slot \<mapsto> e),
                  fx_store := fx_store st @ [\<lparr>fx_wq = [], fx_owner_dead = False, fx_slot = slot\<rparr>]\<rparr>)))"

definition set_wq :: "nat \<Rightarrow> wait_queue \<Rightarrow> futexes \<Rightarrow> futexes" where
  "set_wq e q st = st\<lparr>fx_store := (fx_store st)[e := (fx_store st ! e)\<lparr>fx_wq := q\<rparr>]\<rparr>"

definition set_owner_dead :: "nat \<Rightarrow> bool \<Rightarrow> futexes \<Rightarrow> futexes" where
  "set_owner_dead e v st = st\<lparr>fx_store := (fx_store st)[e := (fx_store st ! e)\<lparr>fx_owner_dead := v\<rparr>]\<rparr>"

text \<open>
  \<open>FutexGuard::drop\<close>. \<open>others\<close> is the number of other guards of the entry. The test and the
  removal are separate definitions, because the code does not hold a lock across them.
\<close>

definition blocked_on :: "nat \<Rightarrow> futexes \<Rightarrow> nat" where
  "blocked_on e st = length (filter (\<lambda>b. snd b = e) (fx_blocked st))"

definition guard_drop_test :: "nat \<Rightarrow> nat \<Rightarrow> futexes \<Rightarrow> bool" where
  "guard_drop_test e others st \<longleftrightarrow>
     (let strong_count = others + 1 + (if fx_table st (fx_slot (fx_store st ! e)) = Some e then 1 else 0)
      in strong_count \<le> 2 \<and> fx_wq (fx_store st ! e) = [])"

definition guard_drop_remove :: "nat \<Rightarrow> futexes \<Rightarrow> futexes" where
  "guard_drop_remove e st = st\<lparr>fx_table := (fx_table st)(fx_slot (fx_store st ! e) := None)\<rparr>"

definition guard_drop :: "nat \<Rightarrow> nat \<Rightarrow> futexes \<Rightarrow> futexes" where
  "guard_drop e others st = (if guard_drop_test e others st then guard_drop_remove e st else st)"

subsection \<open>\<open>sys_futex\<close>\<close>

datatype wait_state = Blocked | Returned "int outcome"

text \<open>
  \<open>fast\<close> and \<open>slow\<close> are the two reads of the futex word, \<open>ts\<close> the conversion of the timeout.
\<close>

definition futex_wait ::
    "futex_slot \<Rightarrow> tid \<Rightarrow> u32 \<Rightarrow> u32 \<Rightarrow> u32 outcome \<Rightarrow> unit outcome \<Rightarrow> u32 outcome \<Rightarrow> futexes
     \<Rightarrow> futexes \<times> wait_state" where
  "futex_wait slot t val bitset fast ts slow st =
     (case fast of
        Inl e \<Rightarrow> (st, Returned (Inl e))
      | Inr v \<Rightarrow>
          if v \<noteq> val then (st, Returned (Fail WouldBlock))
          else
            (case ts of
               Inl e \<Rightarrow> (st, Returned (Inl e))
             | Inr _ \<Rightarrow>
                 (let (e, st1) = futex_get_or_insert slot st in
                  case wait_if_poll bitset (slow = Ok val) t (fx_wq (fx_store st1 ! e)) of
                    (q, None) \<Rightarrow>
                      ((set_wq e q st1)\<lparr>fx_blocked := (t, e) # fx_blocked st1\<rparr>, Blocked)
                  | (q, Some _) \<Rightarrow>
                      (guard_drop e (blocked_on e st1) st1, Returned (Fail WouldBlock)))))"

definition unblock :: "tid \<Rightarrow> futexes \<Rightarrow> futexes" where
  "unblock t st = st\<lparr>fx_blocked := filter (\<lambda>b. fst b \<noteq> t) (fx_blocked st)\<rparr>"

definition futex_wait_return :: "tid \<Rightarrow> futexes \<Rightarrow> futexes \<times> int outcome" where
  "futex_wait_return t st =
     (case map_of (fx_blocked st) t of
        None \<Rightarrow> (st, Panicked)
      | Some e \<Rightarrow>
          (let st1 = unblock t st;
               dead = fx_owner_dead (fx_store st1 ! e);
               st2 = set_owner_dead e False st1
           in (guard_drop e (blocked_on e st2) st2,
               if dead then Fail (LinuxErr EOWNERDEAD) else Ok 0)))"

definition futex_wait_abort :: "ax_error \<Rightarrow> tid \<Rightarrow> futexes \<Rightarrow> futexes \<times> int outcome" where
  "futex_wait_abort err t st =
     (case map_of (fx_blocked st) t of
        None \<Rightarrow> (st, Panicked)
      | Some e \<Rightarrow> (let st1 = unblock t st in (guard_drop e (blocked_on e st1) st1, Fail err)))"

definition futex_wake :: "futex_slot \<Rightarrow> nat \<Rightarrow> u32 \<Rightarrow> futexes \<Rightarrow> futexes \<times> tid list \<times> int outcome" where
  "futex_wake slot val bitset st =
     (case futex_get slot st of
        None \<Rightarrow> (st, [], Ok 0)
      | Some e \<Rightarrow>
          (let (q, ts) = wq_wake val bitset (fx_wq (fx_store st ! e));
               st1 = set_wq e q st
           in (guard_drop e (blocked_on e st1) st1, ts, Ok (int (length ts)))))"

definition assert_unsigned :: "u32 \<Rightarrow> u32 outcome" where
  "assert_unsigned v = (if sint v < 0 then Fail InvalidInput else Ok v)"

text \<open>Waking and moving the waiters of a requeue, and the end of the scopes of its two guards.\<close>

definition requeue_move :: "nat \<Rightarrow> nat \<Rightarrow> nat \<Rightarrow> nat \<Rightarrow> futexes \<Rightarrow> futexes \<times> tid list \<times> nat" where
  "requeue_move e e2 val val2 st =
     (let (q, ts) = wq_wake val (-1) (fx_wq (fx_store st ! e));
          st1 = set_wq e q st
      in
      if length ts = val
      then (let (rest, tasks, c) = wq_requeue val2 q;
                st2 = set_wq e rest st1
            in (if tasks = [] then st2 else set_wq e2 (fx_wq (fx_store st2 ! e2) @ tasks) st2,
                ts, length ts + c))
      else (st1, ts, length ts))"

definition requeue_drops :: "nat \<Rightarrow> nat \<Rightarrow> futexes \<Rightarrow> futexes" where
  "requeue_drops e e2 st =
     (let st1 = guard_drop e (blocked_on e st + (if e2 = e then 1 else 0)) st
      in guard_drop e2 (blocked_on e2 st1) st1)"

text \<open>\<open>cmp\<close> is \<open>None\<close> for \<open>FUTEX_REQUEUE\<close>, the comparison's read and value otherwise.\<close>

definition futex_requeue ::
    "futex_slot \<Rightarrow> futex_slot \<Rightarrow> u32 \<Rightarrow> u32 \<Rightarrow> (u32 outcome \<times> u32) option \<Rightarrow> futexes
     \<Rightarrow> futexes \<times> tid list \<times> int outcome" where
  "futex_requeue slot slot2 val val2 cmp st =
     (case assert_unsigned val of
        Inl err \<Rightarrow> (st, [], Inl err)
      | Inr _ \<Rightarrow>
          (case (case cmp of
                   None \<Rightarrow> Ok ()
                 | Some (word, val3) \<Rightarrow>
                     (case word of Inl err \<Rightarrow> Inl err
                      | Inr w \<Rightarrow> if w \<noteq> val3 then Fail WouldBlock else Ok ())) of
             Inl err \<Rightarrow> (st, [], Inl err)
           | Inr _ \<Rightarrow>
               (case assert_unsigned val2 of
                  Inl err \<Rightarrow> (st, [], Inl err)
                | Inr _ \<Rightarrow>
                    (let futex = futex_get slot st;
                         (e2, st1) = futex_get_or_insert slot2 st
                     in
                     case futex of
                       None \<Rightarrow> (guard_drop e2 (blocked_on e2 st1) st1, [], Ok 0)
                     | Some e \<Rightarrow>
                         (let (st2, ts, count) = requeue_move e e2 (unat val) (unat val2) st1
                          in (requeue_drops e e2 st2, ts, Ok (int count)))))))"

definition FUTEX_WAIT :: u32 where "FUTEX_WAIT = 0"
definition FUTEX_WAKE :: u32 where "FUTEX_WAKE = 1"
definition FUTEX_REQUEUE :: u32 where "FUTEX_REQUEUE = 3"
definition FUTEX_CMP_REQUEUE :: u32 where "FUTEX_CMP_REQUEUE = 4"
definition FUTEX_WAIT_BITSET :: u32 where "FUTEX_WAIT_BITSET = 9"
definition FUTEX_WAKE_BITSET :: u32 where "FUTEX_WAKE_BITSET = 10"
definition FUTEX_CMD_MASK :: u32 where "FUTEX_CMD_MASK = 0xFFFFFE7F"

text \<open>
  The dispatch. \<open>word\<close> and \<open>word'\<close> are the reads of \<open>*uaddr\<close> before and under the queue lock,
  \<open>timeout_addr\<close> the raw timeout argument, which carries the second value of a requeue.
\<close>

definition sys_futex ::
    "(addr \<Rightarrow> (addr \<times> nat option) option) \<Rightarrow> pid \<Rightarrow> tid \<Rightarrow> addr \<Rightarrow> u32 \<Rightarrow> u32 \<Rightarrow> u64 \<Rightarrow> unit outcome
     \<Rightarrow> addr \<Rightarrow> u32 \<Rightarrow> u32 outcome \<Rightarrow> u32 outcome \<Rightarrow> futexes \<Rightarrow> futexes \<times> tid list \<times> wait_state" where
  "sys_futex find_area p t uaddr futex_op val timeout_addr ts uaddr2 val3 word word' st =
     (let slot = futex_slot_of p (futex_key_new find_area uaddr);
          command = futex_op AND FUTEX_CMD_MASK
      in
      if command = FUTEX_WAIT \<or> command = FUTEX_WAIT_BITSET then
        (let bitset = (if command = FUTEX_WAIT_BITSET then val3 else -1);
             (st', r) = futex_wait slot t val bitset word ts word' st
         in (st', [], r))
      else if command = FUTEX_WAKE \<or> command = FUTEX_WAKE_BITSET then
        (let bitset = (if command = FUTEX_WAKE_BITSET then val3 else -1);
             (st', ts', r) = futex_wake slot (unat val) bitset st
         in (st', ts', Returned r))
      else if command = FUTEX_REQUEUE \<or> command = FUTEX_CMP_REQUEUE then
        (let slot2 = futex_slot_of p (futex_key_new find_area uaddr2);
             cmp = (if command = FUTEX_CMP_REQUEUE then Some (word, val3) else None);
             (st', ts', r) = futex_requeue slot slot2 val (ucast timeout_addr) cmp st
         in (st', ts', Returned r))
      else (st, [], Returned (Fail Unsupported)))"

end
