(* ===== verification/Futex_Props.thy ===== *)
theory Futex_Props
  imports Futex
begin

section \<open>Futexes: the properties\<close>

text \<open>
  The wait queue wakes in order; a queued waiter is always found through its key as long as
  \<open>FutexGuard::drop\<close> runs atomically; two defects shown by concrete runs: the drop's test and
  removal are separate, and an aborted wait leaves its queue entry behind.
\<close>

subsection \<open>The wait queue\<close>

abbreviation wants :: "u32 \<Rightarrow> tid \<times> u32 \<Rightarrow> bool" where
  "wants msk w \<equiv> snd w AND msk \<noteq> 0"

lemma wake_retain_spec:
  "snd (wake_retain count msk woke q) = map fst (take (count - woke) (filter (wants msk) q))
   \<and> filter (wants msk) (fst (wake_retain count msk woke q)) = drop (count - woke) (filter (wants msk) q)
   \<and> filter (\<lambda>w. \<not> wants msk w) (fst (wake_retain count msk woke q)) = filter (\<lambda>w. \<not> wants msk w) q
   \<and> set (fst (wake_retain count msk woke q)) \<subseteq> set q"
proof (induction count msk woke q rule: wake_retain.induct)
  case (1 count msk woke)
  then show ?case by simp
next
  case (2 count msk woke t b q)
  show ?case
  proof (cases "woke \<ge> count \<or> b AND msk = 0")
    case True
    with 2(1) show ?thesis by (auto split: prod.splits)
  next
    case False
    then have "count - woke = Suc (count - (woke + 1))" by auto
    with False 2(2) show ?thesis by (auto split: prod.splits)
  qed
qed

text \<open>
  C22: \<open>WaitQueue::wake\<close> wakes exactly the first \<open>count\<close> waiters whose bit set meets the mask,
  in the order they queued; the other matching waiters and all non-matching ones stay in
  the queue in their order. \<open>requeue\<close> moves the first waiters, in order, and loses none.
\<close>

theorem futex_wake_in_order:
  "snd (wq_wake count msk q) = map fst (take count (filter (wants msk) q))
   \<and> filter (wants msk) (fst (wq_wake count msk q)) = drop count (filter (wants msk) q)
   \<and> filter (\<lambda>w. \<not> wants msk w) (fst (wq_wake count msk q)) = filter (\<lambda>w. \<not> wants msk w) q
   \<and> (let (rest, moved, c) = wq_requeue n q in moved @ rest = q \<and> c = length moved \<and> c = min n (length q))"
  using wake_retain_spec [of count msk 0 q] by (simp add: wq_wake_def wq_requeue_def Let_def)

subsection \<open>The tables\<close>

definition entry_listed :: "nat \<Rightarrow> futexes \<Rightarrow> bool" where
  "entry_listed e st \<longleftrightarrow> e < length (fx_store st) \<and> fx_table st (fx_slot (fx_store st ! e)) = Some e"

definition futex_ok :: "futexes \<Rightarrow> bool" where
  "futex_ok st \<longleftrightarrow>
     (\<forall>slot e. fx_table st slot = Some e \<longrightarrow> e < length (fx_store st) \<and> fx_slot (fx_store st ! e) = slot)
     \<and> (\<forall>e < length (fx_store st). fx_wq (fx_store st ! e) \<noteq> [] \<longrightarrow> entry_listed e st)
     \<and> (\<forall>t e. (t, e) \<in> set (fx_blocked st) \<longrightarrow> entry_listed e st)"

lemma futex_okI:
  assumes "\<And>slot e. fx_table st slot = Some e \<Longrightarrow> e < length (fx_store st) \<and> fx_slot (fx_store st ! e) = slot"
    and "\<And>e. e < length (fx_store st) \<Longrightarrow> fx_wq (fx_store st ! e) \<noteq> [] \<Longrightarrow> entry_listed e st"
    and "\<And>t e. (t, e) \<in> set (fx_blocked st) \<Longrightarrow> entry_listed e st"
  shows "futex_ok st"
  unfolding futex_ok_def using assms by blast

lemma futex_okD:
  assumes "futex_ok st"
  shows "fx_table st slot = Some e \<Longrightarrow> e < length (fx_store st)"
    and "fx_table st slot = Some e \<Longrightarrow> fx_slot (fx_store st ! e) = slot"
    and "e < length (fx_store st) \<Longrightarrow> fx_wq (fx_store st ! e) \<noteq> [] \<Longrightarrow> entry_listed e st"
    and "(t, e) \<in> set (fx_blocked st) \<Longrightarrow> entry_listed e st"
  using assms unfolding futex_ok_def by blast+

lemma futex_new_ok: "futex_ok futexes_new"
  by (simp add: futex_ok_def futexes_new_def)

lemma get_listed: "futex_ok st \<Longrightarrow> futex_get slot st = Some e \<Longrightarrow> entry_listed e st"
  using futex_okD(1,2) [of st slot e] by (simp add: futex_get_def entry_listed_def)

lemma get_or_insert_ok:
  assumes ok: "futex_ok st" and run: "futex_get_or_insert slot st = (e, st')"
  shows "futex_ok st'" and "entry_listed e st'" and "fx_blocked st' = fx_blocked st"
    and "entry_listed d st \<Longrightarrow> entry_listed d st' \<and> fx_store st' ! d = fx_store st ! d"
    and "fx_slot (fx_store st' ! e) = slot"
proof -
  consider "fx_table st slot = Some e" "st' = st"
    | "fx_table st slot = None" "e = length (fx_store st)"
      "st' = st\<lparr>fx_table := (fx_table st)(slot \<mapsto> e),
          fx_store := fx_store st @ [\<lparr>fx_wq = [], fx_owner_dead = False, fx_slot = slot\<rparr>]\<rparr>"
    using run by (auto simp: futex_get_or_insert_def Let_def split: option.splits)
  then have "futex_ok st' \<and> entry_listed e st' \<and> fx_blocked st' = fx_blocked st
    \<and> (entry_listed d st \<longrightarrow> entry_listed d st' \<and> fx_store st' ! d = fx_store st ! d)
    \<and> fx_slot (fx_store st' ! e) = slot"
  proof cases
    case 1
    with ok show ?thesis
      using futex_okD(1,2) [OF ok 1(1)] by (auto simp: entry_listed_def)
  next
    case 2
    have old: "entry_listed d st' \<and> fx_store st' ! d = fx_store st ! d" if "entry_listed d st" for d
      using that 2 by (auto simp: entry_listed_def nth_append)
    have "futex_ok st'"
    proof (rule futex_okI)
      show "e' < length (fx_store st') \<and> fx_slot (fx_store st' ! e') = slot'"
        if "fx_table st' slot' = Some e'" for slot' e'
        using that 2 futex_okD(1,2) [OF ok, of slot' e'] by (auto simp: nth_append split: if_splits)
      show "entry_listed d st'" if "d < length (fx_store st')" "fx_wq (fx_store st' ! d) \<noteq> []" for d
        using that 2 futex_okD(3) [OF ok, of d] old [of d] by (auto simp: nth_append less_Suc_eq split: if_splits)
      show "entry_listed d st'" if "(t, d) \<in> set (fx_blocked st')" for t d
        using that 2 futex_okD(4) [OF ok, of t d] old [of d] by simp
    qed
    with old 2 show ?thesis by (simp add: entry_listed_def nth_append)
  qed
  then show "futex_ok st'" and "entry_listed e st'" and "fx_blocked st' = fx_blocked st"
    and "entry_listed d st \<Longrightarrow> entry_listed d st' \<and> fx_store st' ! d = fx_store st ! d"
    and "fx_slot (fx_store st' ! e) = slot"
    by blast+
qed

lemma set_wq_store:
  "length (fx_store (set_wq e q st)) = length (fx_store st)"
  "fx_table (set_wq e q st) = fx_table st"
  "fx_blocked (set_wq e q st) = fx_blocked st"
  "d < length (fx_store st) \<Longrightarrow> fx_store (set_wq e q st) ! d =
     (if d = e then (fx_store st ! e)\<lparr>fx_wq := q\<rparr> else fx_store st ! d)"
  by (auto simp: set_wq_def nth_list_update)

lemma set_wq_listed: "entry_listed d (set_wq e q st) = entry_listed d st"
  by (cases "d = e") (auto simp: entry_listed_def set_wq_store)

lemma set_wq_ok:
  assumes ok: "futex_ok st" and "entry_listed e st"
  shows "futex_ok (set_wq e q st)"
proof (rule futex_okI, unfold set_wq_listed set_wq_store(1-3))
  show "d < length (fx_store st) \<and> fx_slot (fx_store (set_wq e q st) ! d) = slot"
    if "fx_table st slot = Some d" for slot d
    using futex_okD(1,2) [OF ok that] by (auto simp: set_wq_store)
  show "entry_listed d st" if "d < length (fx_store st)" "fx_wq (fx_store (set_wq e q st) ! d) \<noteq> []" for d
    using that assms(2) futex_okD(3) [OF ok, of d] by (auto simp: set_wq_store split: if_splits)
  show "entry_listed d st" if "(t, d) \<in> set (fx_blocked st)" for t d
    by (rule futex_okD(4) [OF ok that])
qed

lemma blocked_on_zero: "blocked_on e st = 0 \<longleftrightarrow> (\<forall>t. (t, e) \<notin> set (fx_blocked st))"
  by (auto simp: blocked_on_def filter_empty_conv)

lemma guard_drop_ok:
  assumes ok: "futex_ok st" and e: "entry_listed e st" and others: "blocked_on e st \<le> others"
  shows "futex_ok (guard_drop e others st)"
    and "0 < others \<Longrightarrow> guard_drop e others st = st"
    and "d \<noteq> e \<Longrightarrow> entry_listed d st \<Longrightarrow> entry_listed d (guard_drop e others st)"
    and "fx_blocked (guard_drop e others st) = fx_blocked st"
    and "fx_store (guard_drop e others st) = fx_store st"
proof -
  have keep: "entry_listed d (guard_drop_remove e st)" if "d \<noteq> e" "entry_listed d st" for d
    using that e by (auto simp: entry_listed_def guard_drop_remove_def)
  show "0 < others \<Longrightarrow> guard_drop e others st = st"
    using e by (simp add: guard_drop_def guard_drop_test_def entry_listed_def)
  show "d \<noteq> e \<Longrightarrow> entry_listed d st \<Longrightarrow> entry_listed d (guard_drop e others st)"
    using keep by (simp add: guard_drop_def)
  show "fx_blocked (guard_drop e others st) = fx_blocked st"
    "fx_store (guard_drop e others st) = fx_store st"
    by (simp_all add: guard_drop_def guard_drop_remove_def)
  have "futex_ok (guard_drop_remove e st)" if test: "guard_drop_test e others st"
  proof -
    have none: "blocked_on e st = 0" and empty: "fx_wq (fx_store st ! e) = []"
      using test others e by (auto simp: guard_drop_test_def entry_listed_def)
    show ?thesis
    proof (rule futex_okI)
      show "d < length (fx_store (guard_drop_remove e st)) \<and> fx_slot (fx_store (guard_drop_remove e st) ! d) = slot"
        if "fx_table (guard_drop_remove e st) slot = Some d" for slot d
        using that futex_okD(1,2) [OF ok, of slot d] by (auto simp: guard_drop_remove_def split: if_splits)
      show "entry_listed d (guard_drop_remove e st)"
        if "d < length (fx_store (guard_drop_remove e st))" "fx_wq (fx_store (guard_drop_remove e st) ! d) \<noteq> []" for d
        using that empty futex_okD(3) [OF ok, of d] keep [of d] by (cases "d = e") (auto simp: guard_drop_remove_def)
      show "entry_listed d (guard_drop_remove e st)" if "(t, d) \<in> set (fx_blocked (guard_drop_remove e st))" for t d
        using that none futex_okD(4) [OF ok, of t d] keep [of d]
        by (cases "d = e") (auto simp: guard_drop_remove_def blocked_on_zero)
    qed
  qed
  with ok show "futex_ok (guard_drop e others st)" by (simp add: guard_drop_def)
qed

subsection \<open>The calls keep the invariant\<close>

lemma futex_wait_ok:
  assumes ok: "futex_ok st" and run: "futex_wait slot t val bitset fast ts slow st = (st', r)"
  shows "futex_ok st'"
proof -
  obtain e st1 where ins: "futex_get_or_insert slot st = (e, st1)" by (cases "futex_get_or_insert slot st")
  note G = get_or_insert_ok [OF ok ins]
  have "futex_ok (guard_drop e (blocked_on e st1) st1)" using G(1,2) by (intro guard_drop_ok) simp_all
  moreover have "futex_ok ((set_wq e q st1)\<lparr>fx_blocked := (t, e) # fx_blocked st1\<rparr>)" for q
  proof -
    have ok1: "futex_ok (set_wq e q st1)" by (rule set_wq_ok [OF G(1,2)])
    have same: "entry_listed d ((set_wq e q st1)\<lparr>fx_blocked := (t, e) # fx_blocked st1\<rparr>) = entry_listed d st1" for d
      using set_wq_listed [of d e q st1] by (simp add: entry_listed_def)
    show ?thesis
      using futex_okD [OF ok1] futex_okD(4) [OF G(1)] G(2)
      by (intro futex_okI, unfold same) (auto simp: set_wq_listed)
  qed
  ultimately show ?thesis
    using ok run ins
    by (auto simp: futex_wait_def wait_if_poll_def split: sum.splits if_splits)
qed

lemma unblock_ok:
  assumes "futex_ok st"
  shows "futex_ok (unblock t st)" and "entry_listed e (unblock t st) = entry_listed e st"
proof -
  show same: "entry_listed e (unblock t st) = entry_listed e st" for e
    by (simp add: entry_listed_def unblock_def)
  show "futex_ok (unblock t st)"
    using futex_okD [OF assms] by (intro futex_okI, unfold same) (auto simp: unblock_def)
qed

lemma owner_dead_ok:
  assumes "futex_ok st"
  shows "futex_ok (set_owner_dead e v st)" and "entry_listed d (set_owner_dead e v st) = entry_listed d st"
proof -
  let ?st = "set_owner_dead e v st"
  have nth: "d < length (fx_store st) \<Longrightarrow> fx_slot (fx_store ?st ! d) = fx_slot (fx_store st ! d)
      \<and> fx_wq (fx_store ?st ! d) = fx_wq (fx_store st ! d)" for d
    by (cases "d = e") (simp_all add: set_owner_dead_def)
  have frame: "fx_table ?st = fx_table st" "length (fx_store ?st) = length (fx_store st)"
    "fx_blocked ?st = fx_blocked st"
    by (simp_all add: set_owner_dead_def)
  show same: "entry_listed d ?st = entry_listed d st" for d
    using nth [of d] frame by (auto simp: entry_listed_def)
  show "futex_ok ?st"
  proof (rule futex_okI, unfold same frame)
    show "d < length (fx_store st) \<and> fx_slot (fx_store ?st ! d) = slot" if "fx_table st slot = Some d" for slot d
      using that futex_okD(1,2) [OF assms, of slot d] nth [of d] by simp
    show "entry_listed d st" if "d < length (fx_store st)" "fx_wq (fx_store ?st ! d) \<noteq> []" for d
      using that futex_okD(3) [OF assms, of d] nth [of d] by simp
    show "entry_listed d st" if "(u, d) \<in> set (fx_blocked st)" for u d
      using that futex_okD(4) [OF assms, of u d] by simp
  qed
qed

lemma blocked_listed:
  "futex_ok st \<Longrightarrow> map_of (fx_blocked st) t = Some e \<Longrightarrow> entry_listed e st"
  by (auto dest: map_of_SomeD futex_okD(4))

lemma futex_wait_return_ok:
  assumes ok: "futex_ok st" and run: "futex_wait_return t st = (st', r)"
  shows "futex_ok st'"
proof (cases "map_of (fx_blocked st) t")
  case None
  with run ok show ?thesis by (simp add: futex_wait_return_def)
next
  case (Some e)
  note U = unblock_ok [OF ok] and O = owner_dead_ok [OF unblock_ok(1) [OF ok, of t]]
  have "entry_listed e st" by (rule blocked_listed [OF ok Some])
  with Some run U O show ?thesis
    by (auto simp: futex_wait_return_def Let_def intro!: guard_drop_ok(1))
qed

lemma futex_wait_abort_ok:
  assumes ok: "futex_ok st" and run: "futex_wait_abort err t st = (st', r)"
  shows "futex_ok st'"
proof (cases "map_of (fx_blocked st) t")
  case None
  with run ok show ?thesis by (simp add: futex_wait_abort_def)
next
  case (Some e)
  have "entry_listed e st" by (rule blocked_listed [OF ok Some])
  with Some run unblock_ok [OF ok] show ?thesis
    by (auto simp: futex_wait_abort_def Let_def intro!: guard_drop_ok(1))
qed

lemma futex_wake_ok:
  assumes ok: "futex_ok st" and run: "futex_wake slot val bitset st = (st', ts, r)"
  shows "futex_ok st'"
proof (cases "futex_get slot st")
  case None
  with run ok show ?thesis by (simp add: futex_wake_def)
next
  case (Some e)
  have e: "entry_listed e st" by (rule get_listed [OF ok Some])
  with Some run set_wq_ok [OF ok e] show ?thesis
    by (auto simp: futex_wake_def Let_def set_wq_listed intro!: guard_drop_ok(1) split: prod.splits)
qed

text \<open>The middle part of a requeue: waking and moving waiters, then the two guard drops.\<close>

lemma requeue_drops_ok:
  assumes ok: "futex_ok st" and e: "entry_listed e st" and e2: "entry_listed e2 st"
  shows "futex_ok (requeue_drops e e2 st)"
proof (cases "e2 = e")
  case True
  then have "guard_drop e (blocked_on e st + (if e2 = e then 1 else 0)) st = st"
    by (intro guard_drop_ok(2) [OF ok e]) simp_all
  with True guard_drop_ok(1) [OF ok e, of "blocked_on e st"] show ?thesis
    by (simp add: requeue_drops_def Let_def)
next
  case False
  let ?st = "guard_drop e (blocked_on e st) st"
  have "futex_ok ?st" "entry_listed e2 ?st"
    using guard_drop_ok(1,3) [OF ok e, of "blocked_on e st"] False e2 by simp_all
  with guard_drop_ok(1) [of ?st e2 "blocked_on e2 ?st"] False show ?thesis
    by (simp add: requeue_drops_def Let_def)
qed

lemma requeue_move_ok:
  assumes "futex_ok st" and "entry_listed e st" and "entry_listed e2 st"
    and "requeue_move e e2 val val2 st = (st', ts, c)"
  shows "futex_ok st'" and "entry_listed d st' = entry_listed d st"
  using assms
  by (auto simp: requeue_move_def Let_def set_wq_listed intro!: set_wq_ok split: if_splits prod.splits)

lemma futex_requeue_ok:
  assumes ok: "futex_ok st" and run: "futex_requeue slot slot2 val val2 cmp st = (st', ts, r)"
  shows "futex_ok st'"
proof -
  obtain e2 st1 where ins: "futex_get_or_insert slot2 st = (e2, st1)" by (cases "futex_get_or_insert slot2 st")
  note G = get_or_insert_ok [OF ok ins]
  have none: "futex_ok (guard_drop e2 (blocked_on e2 st1) st1)" using G(1,2) by (intro guard_drop_ok) simp_all
  have some: "futex_ok (requeue_drops e e2 st2)"
    if "futex_get slot st = Some e" "requeue_move e e2 a b st1 = (st2, us, c)" for e st2 us c a b
  proof -
    have e: "entry_listed e st1" using get_listed [OF ok that(1)] G(4) by simp
    show ?thesis
      using requeue_move_ok [OF G(1) e G(2) that(2)] e G(2) by (intro requeue_drops_ok) simp_all
  qed
  show ?thesis
    using run ok none ins
    by (auto simp: futex_requeue_def Let_def dest: some split: sum.splits if_splits option.splits prod.splits)
qed

subsection \<open>Properties\<close>

inductive futex_step :: "futexes \<Rightarrow> futexes \<Rightarrow> bool" where
  wait: "futex_wait slot t val bitset fast ts slow st = (st', r) \<Longrightarrow> futex_step st st'"
| return: "futex_wait_return t st = (st', r) \<Longrightarrow> futex_step st st'"
| abort: "futex_wait_abort err t st = (st', r) \<Longrightarrow> futex_step st st'"
| wake: "futex_wake slot val bitset st = (st', ts, r) \<Longrightarrow> futex_step st st'"
| requeue: "futex_requeue slot slot2 val val2 cmp st = (st', ts, r) \<Longrightarrow> futex_step st st'"

lemma futex_step_ok: "futex_step st st' \<Longrightarrow> futex_ok st \<Longrightarrow> futex_ok st'"
  by (induction rule: futex_step.induct)
    (blast intro: futex_wait_ok futex_wait_return_ok futex_wait_abort_ok futex_wake_ok futex_requeue_ok)+

lemma futex_steps_ok: "futex_step\<^sup>*\<^sup>* st st' \<Longrightarrow> futex_ok st \<Longrightarrow> futex_ok st'"
  by (induction rule: rtranclp_induct) (blast intro: futex_step_ok)+


definition slot_a :: futex_slot where "slot_a = (PrivateTable 1, 0x1000)"

definition one_waiter :: futexes where
  "one_waiter = fst (futex_wait slot_a 7 5 (-1) (Ok 5) (Ok ()) (Ok 5) futexes_new)"

lemma one_waiter_value:
  "one_waiter = \<lparr>fx_table = [slot_a \<mapsto> 0],
     fx_store = [\<lparr>fx_wq = [(7, -1)], fx_owner_dead = False, fx_slot = slot_a\<rparr>], fx_blocked = [(7, 0)]\<rparr>"
  by (simp add: one_waiter_def futex_wait_def futex_get_or_insert_def futexes_new_def wait_if_poll_def
      set_wq_def)


text \<open>
  C38: The guard's clean-up is not atomic, and a waiter can be lost. Task 7 waits and is
  woken; when its guard is dropped, the test finds no other user. Before the removal, task 8
  waits on the same word: it finds the entry in the table and queues there. The removal
  then unlinks the entry. A wake on the word finds nothing and wakes nobody, while task 8
  is still in the queue.
\<close>

theorem futex_drop_race_loses_waiter:
  "\<exists>st1 st2. futex_step\<^sup>*\<^sup>* futexes_new st1 \<and> guard_drop_test 0 (blocked_on 0 (unblock 7 st1)) (unblock 7 st1)
     \<and> futex_wait slot_a 8 5 (-1) (Ok 5) (Ok ()) (Ok 5) (unblock 7 st1) = (st2, Blocked)
     \<and> fx_wq (fx_store (guard_drop_remove 0 st2) ! 0) = [(8, -1)]
     \<and> futex_wake slot_a 1 (-1) (guard_drop_remove 0 st2) = (guard_drop_remove 0 st2, [], Ok 0)"
proof -
  define st1 where "st1 = one_waiter\<lparr>fx_store := [\<lparr>fx_wq = [], fx_owner_dead = False, fx_slot = slot_a\<rparr>]\<rparr>"
  have "futex_step futexes_new one_waiter"
    unfolding one_waiter_def by (rule futex_step.wait [OF prod.collapse [symmetric]])
  moreover have "futex_wake slot_a 1 (-1) one_waiter = (st1, [7], Ok 1)"
    by (simp add: futex_wake_def futex_get_def one_waiter_value wq_wake_def set_wq_def guard_drop_def
        guard_drop_test_def blocked_on_def st1_def)
  then have "futex_step one_waiter st1" by (rule futex_step.wake)
  ultimately have run: "futex_step\<^sup>*\<^sup>* futexes_new st1" by auto
  let ?st2 = "fst (futex_wait slot_a 8 5 (-1) (Ok 5) (Ok ()) (Ok 5) (unblock 7 st1))"
  have wait: "futex_wait slot_a 8 5 (-1) (Ok 5) (Ok ()) (Ok 5) (unblock 7 st1) = (?st2, Blocked)"
    and queued: "fx_wq (fx_store (guard_drop_remove 0 ?st2) ! 0) = [(8, -1)]"
    and lost: "futex_wake slot_a 1 (-1) (guard_drop_remove 0 ?st2) = (guard_drop_remove 0 ?st2, [], Ok 0)"
    by (simp_all add: st1_def one_waiter_value unblock_def futex_wait_def futex_get_or_insert_def
        wait_if_poll_def set_wq_def guard_drop_remove_def futex_wake_def futex_get_def)
  have "guard_drop_test 0 (blocked_on 0 (unblock 7 st1)) (unblock 7 st1)"
    by (simp add: guard_drop_test_def blocked_on_def unblock_def st1_def one_waiter_value)
  with run wait queued lost show ?thesis by blast
qed

text \<open>
  An aborted wait swallows a wake-up. When a wait ends by timeout or signal, its queue
  entry stays. A later \<open>FUTEX_WAKE\<close> of one waiter then reports one task woken, but that is the
  task that left, and the task that really waits behind it stays asleep.
\<close>

lemma futex_aborted_wait_steals_wake:
  assumes q: "fx_wq (fx_store st ! e) = (t, b) # (t', b') # q" and get: "futex_get slot st = Some e"
    and e: "e < length (fx_store st)" and slot: "fx_slot (fx_store st ! e) = slot"
    and blocked: "map_of (fx_blocked st) t = Some e" and bits: "b AND msk \<noteq> 0"
  shows "\<exists>st1 st2. futex_wait_abort TimedOut t st = (st1, Fail TimedOut)
    \<and> futex_wake slot 1 msk st1 = (st2, [t], Ok 1) \<and> fx_wq (fx_store st2 ! e) = (t', b') # q"
proof -
  let ?st1 = "unblock t st"
  have abort: "futex_wait_abort TimedOut t st = (?st1, Fail TimedOut)"
    using blocked q by (simp add: futex_wait_abort_def guard_drop_def guard_drop_test_def unblock_def Let_def)
  have get1: "futex_get slot ?st1 = Some e" using get by (simp add: futex_get_def unblock_def)
  have wake: "wq_wake 1 msk (fx_wq (fx_store ?st1 ! e)) = ((t', b') # q, [t])"
  proof -
    have full: "wake_retain 1 msk 1 r = (r, [])" for r by (induction r) auto
    show ?thesis using q bits full by (simp add: wq_wake_def unblock_def)
  qed
  let ?st2 = "guard_drop e (blocked_on e (set_wq e ((t', b') # q) ?st1)) (set_wq e ((t', b') # q) ?st1)"
  have "futex_wake slot 1 msk ?st1 = (?st2, [t], Ok 1)"
    using get1 wake by (simp add: futex_wake_def Let_def)
  moreover have "fx_wq (fx_store ?st2 ! e) = (t', b') # q"
    using e by (simp add: guard_drop_def guard_drop_remove_def set_wq_def unblock_def)
  ultimately show ?thesis using abort by blast
qed

definition two_waiters :: futexes where
  "two_waiters = fst (futex_wait slot_a 8 5 (-1) (Ok 5) (Ok ()) (Ok 5) one_waiter)"

lemma futex_aborted_wait_steals_wake_witness:
  "\<exists>st1 st2. futex_wait_abort TimedOut 7 two_waiters = (st1, Fail TimedOut)
    \<and> futex_wake slot_a 1 1 st1 = (st2, [7], Ok 1) \<and> fx_wq (fx_store st2 ! 0) = [(8, -1)]"
  using futex_aborted_wait_steals_wake [of two_waiters 0 7 "-1" 8 "-1" "[]" slot_a 1]
  by (simp add: two_waiters_def one_waiter_value futex_wait_def futex_get_or_insert_def wait_if_poll_def
      set_wq_def futex_get_def)

end
