(* ===== verification/Tty.thy ===== *)
theory Tty
  imports Prelude
begin

section \<open>The terminal: termios, job control and the line discipline\<close>

text \<open>
  \<open>api/src/terminal/termios.rs\<close>, \<open>job.rs\<close> and \<open>ldisc.rs\<close>.

  The byte buffer between the input side and the readers is a \<open>ringbuf\<close> ring; its operations
  are the fields of \<open>ring_ops\<close>, an argument of the definitions, and \<open>ring_ok\<close> is their
  documented behaviour. \<open>ir_pending\<close> is the part of \<open>read_buf\<close> that \<open>read_range\<close> still covers.
  What the input side does to the outside (bytes echoed, signals sent) is collected in
  lists.
\<close>

subsection \<open>Termios\<close>

definition ICRNL :: u32 where "ICRNL = 0x100"
definition IGNCR :: u32 where "IGNCR = 0x80"
definition IXON :: u32 where "IXON = 0x400"
definition OPOST :: u32 where "OPOST = 0x1"
definition ONLCR :: u32 where "ONLCR = 0x4"
definition B38400 :: u32 where "B38400 = 0xF"
definition CS8 :: u32 where "CS8 = 0x30"
definition CREAD :: u32 where "CREAD = 0x80"
definition ISIG :: u32 where "ISIG = 0x1"
definition ICANON :: u32 where "ICANON = 0x2"
definition ECHO :: u32 where "ECHO = 0x8"
definition ECHOE :: u32 where "ECHOE = 0x10"
definition ECHOK :: u32 where "ECHOK = 0x20"
definition ECHOCTL :: u32 where "ECHOCTL = 0x200"
definition ECHOKE :: u32 where "ECHOKE = 0x800"
definition IEXTEN :: u32 where "IEXTEN = 0x8000"

definition VINTR :: nat where "VINTR = 0"
definition VQUIT :: nat where "VQUIT = 1"
definition VERASE :: nat where "VERASE = 2"
definition VKILL :: nat where "VKILL = 3"
definition VEOF :: nat where "VEOF = 4"
definition VTIME :: nat where "VTIME = 5"
definition VMIN :: nat where "VMIN = 6"
definition VEOL :: nat where "VEOL = 11"
definition VREPRINT :: nat where "VREPRINT = 12"
definition VDISCARD :: nat where "VDISCARD = 13"
definition VWERASE :: nat where "VWERASE = 14"
definition VLNEXT :: nat where "VLNEXT = 15"
definition VEOL2 :: nat where "VEOL2 = 16"

record termios =
  c_iflag :: u32
  c_oflag :: u32
  c_cflag :: u32
  c_lflag :: u32
  c_line :: u8
  c_cc :: "u8 list"

definition ctl :: "u8 \<Rightarrow> u8" where
  "ctl ch = ch - 0x40"

definition termios_default :: termios where
  "termios_default =
     \<lparr>c_iflag = ICRNL OR IXON, c_oflag = OPOST OR ONLCR, c_cflag = B38400 OR CS8 OR CREAD,
      c_lflag = ICANON OR ECHO OR ISIG OR ECHOE OR ECHOK OR ECHOCTL OR ECHOKE OR IEXTEN,
      c_line = 0,
      c_cc = foldl (\<lambda>cc (i, ch). cc[i := ch]) (replicate 19 0)
        [(VINTR, ctl 0x43), (VQUIT, ctl 0x5C), (VERASE, 0x7F), (VKILL, ctl 0x55), (VEOF, ctl 0x44),
         (VEOL, 0), (VREPRINT, ctl 0x52), (VDISCARD, ctl 0x4F), (VWERASE, ctl 0x57),
         (VLNEXT, ctl 0x56), (VEOL2, 0)]\<rparr>"

definition special_char :: "termios \<Rightarrow> nat \<Rightarrow> u8" where
  "special_char t i = c_cc t ! i"

definition has_iflag :: "termios \<Rightarrow> u32 \<Rightarrow> bool" where
  "has_iflag t flag \<longleftrightarrow> any_flag (c_iflag t) flag"

definition has_lflag :: "termios \<Rightarrow> u32 \<Rightarrow> bool" where
  "has_lflag t flag \<longleftrightarrow> any_flag (c_lflag t) flag"

definition echo :: "termios \<Rightarrow> bool" where
  "echo t \<longleftrightarrow> has_lflag t ECHO"

definition canonical :: "termios \<Rightarrow> bool" where
  "canonical t \<longleftrightarrow> has_lflag t ICANON"

definition contains_iexten :: "termios \<Rightarrow> bool" where
  "contains_iexten t \<longleftrightarrow> has_lflag t IEXTEN"

definition is_eol :: "termios \<Rightarrow> u8 \<Rightarrow> bool" where
  "is_eol t ch \<longleftrightarrow>
     (if ch = 0x0A \<or> ch = special_char t VEOL then True
      else if contains_iexten t \<and> ch = special_char t VEOL2 then True
      else False)"

datatype tty_signal = SIGINT | SIGQUIT

definition signo_for :: "termios \<Rightarrow> u8 \<Rightarrow> tty_signal option" where
  "signo_for t ch =
     (if ch = special_char t VINTR then Some SIGINT
      else if ch = special_char t VQUIT then Some SIGQUIT
      else None)"

subsection \<open>Job control\<close>

text \<open>
  Process groups and sessions (crate \<open>starry_process\<close>) are numbers; \<open>alive\<close> says whether the
  weak references still upgrade, \<open>session_of\<close> is \<open>ProcessGroup::session\<close>.
\<close>

record job_control =
  jc_foreground :: "nat option"
  jc_session :: "nat option"

definition job_control_new :: job_control where
  "job_control_new = \<lparr>jc_foreground = None, jc_session = None\<rparr>"

definition upgrade :: "(nat \<Rightarrow> bool) \<Rightarrow> nat option \<Rightarrow> nat option" where
  "upgrade alive w = (case w of None \<Rightarrow> None | Some x \<Rightarrow> if alive x then Some x else None)"

definition current_in_foreground :: "(nat \<Rightarrow> bool) \<Rightarrow> nat \<Rightarrow> job_control \<Rightarrow> bool" where
  "current_in_foreground pg_alive my_group jc =
     (case upgrade pg_alive (jc_foreground jc) of None \<Rightarrow> True | Some pg \<Rightarrow> my_group = pg)"

definition foreground :: "(nat \<Rightarrow> bool) \<Rightarrow> job_control \<Rightarrow> nat option" where
  "foreground pg_alive jc = upgrade pg_alive (jc_foreground jc)"

definition set_foreground ::
    "(nat \<Rightarrow> bool) \<Rightarrow> (nat \<Rightarrow> nat) \<Rightarrow> nat \<Rightarrow> job_control \<Rightarrow> job_control \<times> unit outcome" where
  "set_foreground s_alive session_of pg jc =
     (if jc_foreground jc = Some pg then (jc, Ok ())
      else
        case upgrade s_alive (jc_session jc) of
          None \<Rightarrow> (jc, Fail OperationNotPermitted)
        | Some session \<Rightarrow>
            if session_of pg \<noteq> session then (jc, Fail OperationNotPermitted)
            else (jc\<lparr>jc_foreground := Some pg\<rparr>, Ok ()))"

definition set_session :: "(nat \<Rightarrow> bool) \<Rightarrow> nat \<Rightarrow> job_control \<Rightarrow> job_control outcome" where
  "set_session s_alive session jc =
     (case upgrade s_alive (jc_session jc) of
        Some _ \<Rightarrow> Panicked
      | None \<Rightarrow> Ok (jc\<lparr>jc_session := Some session\<rparr>))"

subsection \<open>The input side of the line discipline\<close>

definition BUF_SIZE :: nat where "BUF_SIZE = 80"

record 'r ring_ops =
  rb_push_slice :: "u8 list \<Rightarrow> 'r \<Rightarrow> 'r \<times> nat"
  rb_try_push :: "u8 \<Rightarrow> 'r \<Rightarrow> 'r option"
  rb_is_full :: "'r \<Rightarrow> bool"
  rb_is_empty :: "'r \<Rightarrow> bool"
  rb_pop_slice :: "nat \<Rightarrow> 'r \<Rightarrow> 'r \<times> u8 list"
  rb_clear :: "'r \<Rightarrow> 'r"

text \<open>The documented behaviour of a ring of capacity \<open>cap\<close> with contents \<open>view\<close>.\<close>

definition ring_ok :: "'r ring_ops \<Rightarrow> ('r \<Rightarrow> u8 list) \<Rightarrow> nat \<Rightarrow> bool" where
  "ring_ok ops view cap \<longleftrightarrow>
     (\<forall>r. length (view r) \<le> cap)
     \<and> (\<forall>xs r. snd (rb_push_slice ops xs r) = min (length xs) (cap - length (view r))
          \<and> view (fst (rb_push_slice ops xs r)) = view r @ take (cap - length (view r)) xs)
     \<and> (\<forall>x r. if length (view r) < cap
               then \<exists>r'. rb_try_push ops x r = Some r' \<and> view r' = view r @ [x]
               else rb_try_push ops x r = None)
     \<and> (\<forall>r. rb_is_full ops r = (length (view r) = cap))
     \<and> (\<forall>r. rb_is_empty ops r = (view r = []))
     \<and> (\<forall>n r. snd (rb_pop_slice ops n r) = take n (view r)
          \<and> view (fst (rb_pop_slice ops n r)) = drop n (view r))
     \<and> (\<forall>r. view (rb_clear ops r) = [])"

record 'r input_reader =
  ir_ring :: 'r
  ir_pending :: "u8 list"
  ir_line_buf :: "u8 list"
  ir_line_read :: "nat option"
  ir_clear_line_buf :: bool
  ir_echoed :: "u8 list list"
  ir_signals :: "(nat \<times> tty_signal) list"

definition is_ascii_graphic :: "u8 \<Rightarrow> bool" where
  "is_ascii_graphic ch \<longleftrightarrow> 0x21 \<le> ch \<and> ch \<le> 0x7E"

definition is_ascii_control :: "u8 \<Rightarrow> bool" where
  "is_ascii_control ch \<longleftrightarrow> ch \<le> 0x1F \<or> ch = 0x7F"

definition check_send_signal :: "nat option \<Rightarrow> termios \<Rightarrow> u8 \<Rightarrow> 'r input_reader \<Rightarrow> 'r input_reader" where
  "check_send_signal fg tio ch s =
     (if \<not> canonical tio \<or> \<not> has_lflag tio ISIG then s
      else case (signo_for tio ch, fg) of
             (Some signo, Some pg) \<Rightarrow> s\<lparr>ir_signals := ir_signals s @ [(pg, signo)]\<rparr>
           | _ \<Rightarrow> s)"

definition output_char :: "termios \<Rightarrow> u8 \<Rightarrow> u8 list list" where
  "output_char tio ch =
     (if ch = 0x0A then [[0x0A]]
      else if ch = 0x0D then [[0x0D, 0x0A]]
      else if ch = special_char tio VERASE then [[0x08, 0x20, 0x08]]
      else if ch = 0x20 \<or> is_ascii_graphic ch then [[ch]]
      else if is_ascii_control ch \<and> has_lflag tio ECHOCTL then [[0x5E, ch + 0x40]]
      else [])"

text \<open>The canonical-mode part of the loop body: the line editor proper.\<close>

definition canonical_byte :: "termios \<Rightarrow> u8 \<Rightarrow> 'r input_reader \<Rightarrow> 'r input_reader" where
  "canonical_byte tio ch s =
     (if has_lflag tio ECHOK \<and> ch = special_char tio VKILL then s\<lparr>ir_line_buf := []\<rparr>
      else if ch = special_char tio VERASE then s\<lparr>ir_line_buf := butlast (ir_line_buf s)\<rparr>
      else if is_eol tio ch \<or> ch = special_char tio VEOF then
        (let s1 = (if ch \<noteq> special_char tio VEOF then s\<lparr>ir_line_buf := ir_line_buf s @ [ch]\<rparr> else s)
         in if ir_line_buf s1 \<noteq> [] then s1\<lparr>ir_line_read := Some 0\<rparr> else s1)
      else if is_ascii_graphic ch then s\<lparr>ir_line_buf := ir_line_buf s @ [ch]\<rparr>
      else s)"

text \<open>
  The processing of one byte, once it has been taken from \<open>read_buf\<close>: carriage returns, the
  signal characters, the echo, then either mode. The ring is known to have room.
\<close>

definition translate_cr :: "termios \<Rightarrow> u8 \<Rightarrow> u8 option" where
  "translate_cr tio ch =
     (if ch = 0x0D then
        (if has_iflag tio IGNCR then None
         else if has_iflag tio ICRNL then Some 0x0A
         else Some ch)
      else Some ch)"

definition signal_and_echo :: "nat option \<Rightarrow> termios \<Rightarrow> u8 \<Rightarrow> 'r input_reader \<Rightarrow> 'r input_reader" where
  "signal_and_echo fg tio ch s =
     (let s1 = check_send_signal fg tio ch s
      in if echo tio then s1\<lparr>ir_echoed := ir_echoed s1 @ output_char tio ch\<rparr> else s1)"

definition input_byte ::
    "'r ring_ops \<Rightarrow> nat option \<Rightarrow> termios \<Rightarrow> u8 \<Rightarrow> 'r input_reader \<Rightarrow> nat \<times> 'r input_reader outcome" where
  "input_byte ops fg tio ch0 s =
     (case translate_cr tio ch0 of
        None \<Rightarrow> (0, Ok s)
      | Some ch \<Rightarrow>
          (let s2 = signal_and_echo fg tio ch s in
           if \<not> canonical tio then
             (case rb_try_push ops ch (ir_ring s2) of
                None \<Rightarrow> (0, Panicked)
              | Some r \<Rightarrow> (1, Ok (s2\<lparr>ir_ring := r\<rparr>)))
           else (0, Ok (canonical_byte tio ch s2))))"

text \<open>The loop of \<open>poll\<close>; slicing a line beyond its end panics.\<close>

function input_loop ::
    "'r ring_ops \<Rightarrow> nat option \<Rightarrow> termios \<Rightarrow> nat \<Rightarrow> 'r input_reader \<Rightarrow> ('r input_reader \<times> nat) outcome" where
  "input_loop ops fg tio sent s =
     (case ir_line_read s of
        Some offset \<Rightarrow>
          if offset > length (ir_line_buf s) then Panicked
          else
            (let (r, n) = rb_push_slice ops (drop offset (ir_line_buf s)) (ir_ring s);
                 s1 = s\<lparr>ir_ring := r\<rparr>
             in
             if n = 0 then Ok (s1, sent)
             else
               input_loop ops fg tio (sent + n)
                 (if offset + n = length (ir_line_buf s)
                  then s1\<lparr>ir_line_read := None, ir_line_buf := []\<rparr>
                  else s1\<lparr>ir_line_read := Some (offset + n)\<rparr>))
      | None \<Rightarrow>
          (case ir_pending s of
             [] \<Rightarrow> Ok (s, sent)
           | ch # rest \<Rightarrow>
               if rb_is_full ops (ir_ring s) then Ok (s, sent)
               else
                 (case input_byte ops fg tio ch (s\<lparr>ir_pending := rest\<rparr>) of
                    (n, Inl e) \<Rightarrow> Inl e
                  | (n, Inr s1) \<Rightarrow> input_loop ops fg tio (sent + n) (s1\<lparr>ir_pending := rest\<rparr>))))"
  by pat_completeness auto

definition line_left :: "'r input_reader \<Rightarrow> nat" where
  "line_left s = (case ir_line_read s of
     None \<Rightarrow> 0
   | Some offset \<Rightarrow> if offset \<le> length (ir_line_buf s) then 2 + (length (ir_line_buf s) - offset) else 1)"

termination input_loop
  by (relation "measures [\<lambda>(ops, fg, tio, sent, s). length (ir_pending s), \<lambda>(ops, fg, tio, sent, s). line_left s]")
    (auto simp: line_left_def)

definition input_reader_new :: "'r \<Rightarrow> 'r input_reader" where
  "input_reader_new r =
     \<lparr>ir_ring = r, ir_pending = [], ir_line_buf = [], ir_line_read = None, ir_clear_line_buf = False,
      ir_echoed = [], ir_signals = []\<rparr>"

text \<open>\<open>input\<close> is what the device returns if it is asked for more bytes.\<close>

definition input_poll ::
    "'r ring_ops \<Rightarrow> nat option \<Rightarrow> termios \<Rightarrow> u8 list \<Rightarrow> 'r input_reader \<Rightarrow> ('r input_reader \<times> bool) outcome" where
  "input_poll ops fg tio input s =
     (let s1 = (if ir_clear_line_buf s then s\<lparr>ir_line_buf := [], ir_clear_line_buf := False\<rparr> else s);
          s2 = (if ir_pending s1 = [] then s1\<lparr>ir_pending := input\<rparr> else s1)
      in case input_loop ops fg tio 0 s2 of
           Inl e \<Rightarrow> Inl e
         | Inr (s3, sent) \<Rightarrow> Ok (s3, sent > 0))"

definition drain_input :: "'r ring_ops \<Rightarrow> 'r input_reader \<Rightarrow> 'r input_reader" where
  "drain_input ops s = s\<lparr>ir_ring := rb_clear ops (ir_ring s), ir_clear_line_buf := True\<rparr>"

text \<open>\<open>SimpleReader::poll\<close>, the master side of a pseudo terminal.\<close>

fun simple_poll :: "'r ring_ops \<Rightarrow> u8 list \<Rightarrow> 'r \<Rightarrow> 'r" where
  "simple_poll ops [] r = r"
| "simple_poll ops (ch # rest) r =
     (let push = (\<lambda>x r. case rb_try_push ops x r of None \<Rightarrow> r | Some r' \<Rightarrow> r');
          r1 = (if ch = 0x0A then push 0x0D r else r)
      in simple_poll ops rest (push ch r1))"

subsection \<open>The reading side\<close>

datatype process_mode = Manual | External | NoProcess

text \<open>\<open>poll_read\<close>: a reader that does its own processing (or none) is run first.\<close>

definition poll_read ::
    "'r ring_ops \<Rightarrow> process_mode \<Rightarrow> nat option \<Rightarrow> termios \<Rightarrow> u8 list \<Rightarrow> 'r input_reader
      \<Rightarrow> ('r input_reader \<times> bool) outcome" where
  "poll_read ops mode fg tio input s =
     (case mode of
        Manual \<Rightarrow>
          (case input_poll ops fg tio input s of
             Inl e \<Rightarrow> Inl e
           | Inr (s1, _) \<Rightarrow> Ok (s1, \<not> rb_is_empty ops (ir_ring s1)))
      | NoProcess \<Rightarrow>
          (let r = simple_poll ops input (ir_ring s)
           in Ok (s\<lparr>ir_ring := r\<rparr>, \<not> rb_is_empty ops r))
      | External \<Rightarrow> Ok (s, \<not> rb_is_empty ops (ir_ring s)))"

text \<open>
  One attempt of \<open>LineDiscipline::read\<close>. The caller's buffer has \<open>buf_len\<close> bytes, of which
  \<open>total_read\<close> are filled. \<open>WouldBlock\<close> from a later attempt makes \<open>poll_io\<close> wait and retry.
\<close>

definition read_vmin :: "termios \<Rightarrow> nat outcome" where
  "read_vmin tio =
     (if canonical tio then Ok 1
      else if special_char tio VTIME > 0 then Panicked
      else Ok (unat (special_char tio VMIN)))"

definition read_attempt ::
    "'r ring_ops \<Rightarrow> nat \<Rightarrow> nat \<Rightarrow> u8 list \<Rightarrow> 'r \<Rightarrow> 'r \<times> u8 list \<times> nat outcome" where
  "read_attempt ops vmin buf_len got r =
     (let (r', xs) = rb_pop_slice ops (buf_len - length got) r;
          got' = got @ xs
      in (r', got', if length got' \<ge> vmin then Ok (length got') else Fail WouldBlock))"

definition ldisc_read ::
    "'r ring_ops \<Rightarrow> process_mode \<Rightarrow> termios \<Rightarrow> nat \<Rightarrow> 'r \<Rightarrow> 'r \<times> u8 list \<times> nat outcome" where
  "ldisc_read ops mode tio buf_len r =
     (if buf_len = 0 then (r, [], Ok 0)
      else if mode = NoProcess then
        (let (r', xs) = rb_pop_slice ops buf_len r
         in (r', xs, if length xs = 0 then Fail WouldBlock else Ok (length xs)))
      else
        case read_vmin tio of
          Inl e \<Rightarrow> (r, [], Inl e)
        | Inr vmin \<Rightarrow>
            if buf_len < vmin then (r, [], Fail WouldBlock)
            else read_attempt ops vmin buf_len [] r)"

end
