(* ===== verification/Tty_Props.thy ===== *)
theory Tty_Props
  imports Tty
begin

section \<open>The terminal: properties\<close>

text \<open>
  The input loop against a reference line editor: \<open>cook\<close> says what a sequence of typed bytes
  turns into when the buffer is unbounded. The loop delivers exactly that, however often it has
  to stop for a full buffer.
\<close>

subsection \<open>The reference line editor\<close>

definition edit_line :: "termios \<Rightarrow> u8 list \<Rightarrow> u8 \<Rightarrow> u8 list \<times> u8 list" where
  "edit_line tio line ch =
     (if has_lflag tio ECHOK \<and> ch = special_char tio VKILL then ([], [])
      else if ch = special_char tio VERASE then ([], butlast line)
      else if ch = special_char tio VEOF then (line, [])
      else if is_eol tio ch then (line @ [ch], [])
      else if is_ascii_graphic ch then ([], line @ [ch])
      else ([], line))"

definition cook_byte :: "termios \<Rightarrow> u8 list \<Rightarrow> u8 \<Rightarrow> u8 list \<times> u8 list" where
  "cook_byte tio line ch0 =
     (case translate_cr tio ch0 of
        None \<Rightarrow> ([], line)
      | Some ch \<Rightarrow> if canonical tio then edit_line tio line ch else ([ch], line))"

fun cook :: "termios \<Rightarrow> u8 list \<Rightarrow> u8 list \<Rightarrow> u8 list \<times> u8 list" where
  "cook tio line [] = ([], line)"
| "cook tio line (ch # chs) =
     (let (out, line') = cook_byte tio line ch; (out', line'') = cook tio line' chs
      in (out @ out', line''))"

text \<open>What a reader state still owes the ring, and the line being typed.\<close>

definition undelivered :: "'r input_reader \<Rightarrow> u8 list" where
  "undelivered s = (case ir_line_read s of None \<Rightarrow> [] | Some offset \<Rightarrow> drop offset (ir_line_buf s))"

definition typed_line :: "'r input_reader \<Rightarrow> u8 list" where
  "typed_line s = (case ir_line_read s of None \<Rightarrow> ir_line_buf s | Some _ \<Rightarrow> [])"

definition line_ok :: "'r input_reader \<Rightarrow> bool" where
  "line_ok s \<longleftrightarrow> (case ir_line_read s of None \<Rightarrow> True | Some offset \<Rightarrow> offset < length (ir_line_buf s))"

lemma ring_okD:
  assumes "ring_ok ops view cap"
  shows "length (view r) \<le> cap"
    and "snd (rb_push_slice ops xs r) = min (length xs) (cap - length (view r))"
    and "view (fst (rb_push_slice ops xs r)) = view r @ take (cap - length (view r)) xs"
    and "length (view r) < cap \<Longrightarrow> \<exists>r'. rb_try_push ops x r = Some r' \<and> view r' = view r @ [x]"
    and "\<not> length (view r) < cap \<Longrightarrow> rb_try_push ops x r = None"
    and "rb_is_full ops r = (length (view r) = cap)"
    and "rb_is_empty ops r = (view r = [])"
    and "snd (rb_pop_slice ops n r) = take n (view r)"
    and "view (fst (rb_pop_slice ops n r)) = drop n (view r)"
    and "view (rb_clear ops r) = []"
  using assms unfolding ring_ok_def by metis+

text \<open>One byte, with room in the ring and no line waiting to be delivered.\<close>

lemma canonical_byte_edits:
  assumes "ir_line_read s = None"
  shows "ir_ring (canonical_byte tio ch s) = ir_ring s"
    and "ir_pending (canonical_byte tio ch s) = ir_pending s"
    and "line_ok (canonical_byte tio ch s)"
    and "undelivered (canonical_byte tio ch s) = fst (edit_line tio (ir_line_buf s) ch)"
    and "typed_line (canonical_byte tio ch s) = snd (edit_line tio (ir_line_buf s) ch)"
  using assms
  by (simp_all add: canonical_byte_def edit_line_def line_ok_def undelivered_def typed_line_def Let_def)

lemma signal_and_echo_frame:
  "ir_ring (signal_and_echo fg tio ch s) = ir_ring s"
  "ir_line_buf (signal_and_echo fg tio ch s) = ir_line_buf s"
  "ir_line_read (signal_and_echo fg tio ch s) = ir_line_read s"
  "ir_pending (signal_and_echo fg tio ch s) = ir_pending s"
  by (auto simp: signal_and_echo_def check_send_signal_def Let_def split: option.split)

lemma input_byte_cooks:
  assumes ring: "ring_ok ops view cap" and room: "length (view (ir_ring s)) < cap"
    and idle: "ir_line_read s = None"
  shows "\<exists>s' n. input_byte ops fg tio ch s = (n, Ok s') \<and> line_ok s' \<and> ir_pending s' = ir_pending s
    \<and> view (ir_ring s') @ undelivered s' = view (ir_ring s) @ fst (cook_byte tio (typed_line s) ch)
    \<and> typed_line s' = snd (cook_byte tio (typed_line s) ch)
    \<and> length (view (ir_ring s')) = length (view (ir_ring s)) + n"
proof (cases "translate_cr tio ch")
  case None
  with idle show ?thesis
    by (simp add: input_byte_def cook_byte_def line_ok_def undelivered_def typed_line_def)
next
  case (Some c)
  note frame = signal_and_echo_frame [of fg tio c s]
  have idle2: "ir_line_read (signal_and_echo fg tio c s) = None" using frame idle by simp
  have typed: "typed_line s = ir_line_buf s" using idle by (simp add: typed_line_def)
  show ?thesis
  proof (cases "canonical tio")
    case True
    with Some typed frame canonical_byte_edits [OF idle2, of tio c] show ?thesis
      by (simp add: input_byte_def cook_byte_def)
  next
    case False
    obtain r where "rb_try_push ops c (ir_ring s) = Some r" "view r = view (ir_ring s) @ [c]"
      using ring_okD(4) [OF ring room] by blast
    with False Some frame idle typed show ?thesis
      by (simp add: input_byte_def cook_byte_def line_ok_def undelivered_def typed_line_def)
  qed
qed

text \<open>
  Two reader states before and after some steps: the bytes consumed in between have been cooked
  and the result is in the ring, behind what was there and what was owed.
\<close>

definition cooked :: "('r \<Rightarrow> u8 list) \<Rightarrow> termios \<Rightarrow> u8 list \<Rightarrow> nat \<Rightarrow> 'r input_reader \<Rightarrow> 'r input_reader \<Rightarrow> bool" where
  "cooked view tio consumed n s s' \<longleftrightarrow>
     ir_pending s = consumed @ ir_pending s' \<and> line_ok s'
     \<and> view (ir_ring s') @ undelivered s'
         = view (ir_ring s) @ undelivered s @ fst (cook tio (typed_line s) consumed)
     \<and> typed_line s' = snd (cook tio (typed_line s) consumed)
     \<and> length (view (ir_ring s')) = length (view (ir_ring s)) + n"

lemma cook_append:
  "cook tio line (xs @ ys)
     = (fst (cook tio line xs) @ fst (cook tio (snd (cook tio line xs)) ys),
        snd (cook tio (snd (cook tio line xs)) ys))"
  by (induction tio line xs rule: cook.induct) (auto simp: Let_def split: prod.splits)

lemma cooked_refl: "line_ok s \<Longrightarrow> cooked view tio [] 0 s s"
  by (simp add: cooked_def)

lemma cooked_trans:
  assumes "cooked view tio xs n s s1" and "cooked view tio ys k s1 s2"
  shows "cooked view tio (xs @ ys) (n + k) s s2"
  using assms unfolding cooked_def by (simp add: cook_append)

lemma push_line_cooked:
  assumes ring: "ring_ok ops view cap" and read: "ir_line_read s = Some offset"
    and off: "offset < length (ir_line_buf s)"
    and push: "rb_push_slice ops (drop offset (ir_line_buf s)) (ir_ring s) = (r, n)"
    and s1: "s1 = (if offset + n = length (ir_line_buf s)
                  then s\<lparr>ir_ring := r, ir_line_read := None, ir_line_buf := []\<rparr>
                  else s\<lparr>ir_ring := r, ir_line_read := Some (offset + n)\<rparr>)"
  shows "cooked view tio [] n s s1"
proof -
  let ?line = "drop offset (ir_line_buf s)" and ?room = "cap - length (view (ir_ring s))"
  have n: "n = min (length ?line) ?room" and r: "view r = view (ir_ring s) @ take ?room ?line"
    using ring_okD(2,3) [OF ring, of ?line "ir_ring s"] push by simp_all
  have tk: "take ?room ?line = take n ?line"
    using n by (cases "?room \<le> length ?line") (auto simp: min_def)
  have split: "view r @ drop n ?line = view (ir_ring s) @ ?line"
    using r tk by (simp del: drop_drop)
  have len: "length (view r) = length (view (ir_ring s)) + n" using r tk n by simp
  show ?thesis
  proof (cases "offset + n = length (ir_line_buf s)")
    case True
    with split have "view r = view (ir_ring s) @ ?line" by simp
    with True len read show ?thesis
      by (simp add: s1 cooked_def line_ok_def undelivered_def typed_line_def)
  next
    case False
    moreover have "offset + n \<le> length (ir_line_buf s)" using n off by simp
    ultimately have "offset + n < length (ir_line_buf s)" by simp
    with False split len read show ?thesis
      by (simp add: s1 cooked_def line_ok_def undelivered_def typed_line_def add.commute)
  qed
qed

lemma input_byte_cooked:
  assumes ring: "ring_ok ops view cap" and room: "length (view (ir_ring s)) < cap"
    and idle: "ir_line_read s = None" and pending: "ir_pending s = ch # rest"
  shows "\<exists>s' n. input_byte ops fg tio ch (s\<lparr>ir_pending := rest\<rparr>) = (n, Ok s')
    \<and> cooked view tio [ch] n s (s'\<lparr>ir_pending := rest\<rparr>) \<and> line_ok (s'\<lparr>ir_pending := rest\<rparr>)"
proof -
  have frame: "typed_line (t\<lparr>ir_pending := rest\<rparr>) = typed_line t"
    "undelivered (t\<lparr>ir_pending := rest\<rparr>) = undelivered t"
    "line_ok (t\<lparr>ir_pending := rest\<rparr>) = line_ok t" for t :: "'a input_reader"
    by (simp_all add: typed_line_def undelivered_def line_ok_def cong: option.case_cong)
  have owed: "undelivered s = []" using idle by (simp add: undelivered_def)
  have single: "cook tio line [ch] = cook_byte tio line ch" for line
    by (simp add: Let_def split: prod.split)
  obtain s' n where "input_byte ops fg tio ch (s\<lparr>ir_pending := rest\<rparr>) = (n, Ok s')" "line_ok s'"
    "view (ir_ring s') @ undelivered s' = view (ir_ring s) @ fst (cook_byte tio (typed_line s) ch)"
    "typed_line s' = snd (cook_byte tio (typed_line s) ch)"
    "length (view (ir_ring s')) = length (view (ir_ring s)) + n"
    using input_byte_cooks [OF ring, of "s\<lparr>ir_pending := rest\<rparr>" fg tio ch] room idle
    by (auto simp: frame)
  with owed pending show ?thesis
    by (intro exI [of _ s'] exI [of _ n]) (simp add: cooked_def frame single del: cook.simps)
qed

lemma push_nothing_full:
  assumes "ring_ok ops view cap" and "xs \<noteq> []" and "rb_push_slice ops xs q = (r, 0)"
  shows "length (view r) = cap"
  using ring_okD(1) [OF assms(1), of q] ring_okD(2,3) [OF assms(1), of xs q] assms(2,3)
  by (cases xs) (auto simp: min_def split: if_splits)

text \<open>The loop never panics on a well-formed state, and it stops only when there is no more to do.\<close>

lemma input_loop_cooks:
  assumes "ring_ok ops view cap" and "line_ok s"
  shows "\<exists>s' n consumed. input_loop ops fg tio sent s = Ok (s', sent + n)
    \<and> cooked view tio consumed n s s'
    \<and> (ir_pending s' = [] \<and> ir_line_read s' = None \<or> length (view (ir_ring s')) = cap)"
  using assms
proof (induction ops fg tio sent s rule: input_loop.induct)
  case (1 ops fg tio sent s)
  note ring = "1.prems"(1) and ok = "1.prems"(2)
  show ?case
  proof (cases "ir_line_read s")
    case read: (Some offset)
    with ok have off: "offset < length (ir_line_buf s)" by (simp add: line_ok_def)
    obtain r n where push: "rb_push_slice ops (drop offset (ir_line_buf s)) (ir_ring s) = (r, n)"
      by fastforce
    define s1 where "s1 = (if offset + n = length (ir_line_buf s)
                  then s\<lparr>ir_ring := r, ir_line_read := None, ir_line_buf := []\<rparr>
                  else s\<lparr>ir_ring := r, ir_line_read := Some (offset + n)\<rparr>)"
    note step = push_line_cooked [OF ring read off push s1_def, of tio]
    show ?thesis
    proof (cases "n = 0")
      case True
      with off read have "s1 = s\<lparr>ir_ring := r\<rparr>" by (cases s) (simp add: s1_def)
      with True step push_nothing_full [OF ring _ push [unfolded True]] off read push show ?thesis
        by (intro exI [of _ s1] exI [of _ 0] exI [of _ "[]"]) simp
    next
      case False
      have ok1: "line_ok s1" using step by (simp add: cooked_def)
      obtain s' k consumed where
        "input_loop ops fg tio (sent + n) s1 = Ok (s', sent + n + k)" "cooked view tio consumed k s1 s'"
        "ir_pending s' = [] \<and> ir_line_read s' = None \<or> length (view (ir_ring s')) = cap"
        using "1.IH"(2) [OF read _ push [symmetric] refl refl False ring] off ok1
        unfolding s1_def by auto
      with cooked_trans [OF step, of consumed k s'] False push read off show ?thesis
        by (intro exI [of _ s'] exI [of _ "n + k"] exI [of _ consumed]) (simp add: s1_def add.assoc)
    qed
  next
    case idle: None
    show ?thesis
    proof (cases "ir_pending s = [] \<or> rb_is_full ops (ir_ring s)")
      case True
      with idle cooked_refl [OF ok] ring_okD(6) [OF ring] show ?thesis
        by (intro exI [of _ s] exI [of _ 0] exI [of _ "[]"]) (auto split: list.split)
    next
      case False
      then obtain ch rest where pending: "ir_pending s = ch # rest" by (cases "ir_pending s") auto
      have room: "length (view (ir_ring s)) < cap"
        using False ring_okD(1,6) [OF ring, of "ir_ring s"] by auto
      obtain s1 n where byte: "input_byte ops fg tio ch (s\<lparr>ir_pending := rest\<rparr>) = (n, Ok s1)"
        and step: "cooked view tio [ch] n s (s1\<lparr>ir_pending := rest\<rparr>)"
        and ok1: "line_ok (s1\<lparr>ir_pending := rest\<rparr>)"
        using input_byte_cooked [OF ring room idle pending] by blast
      obtain s' k consumed where
        "input_loop ops fg tio (sent + n) (s1\<lparr>ir_pending := rest\<rparr>) = Ok (s', sent + n + k)"
        "cooked view tio consumed k (s1\<lparr>ir_pending := rest\<rparr>) s'"
        "ir_pending s' = [] \<and> ir_line_read s' = None \<or> length (view (ir_ring s')) = cap"
        using "1.IH"(1) [OF idle pending _ byte [symmetric] refl ring ok1] False by auto
      with cooked_trans [OF step, of consumed k s'] False idle pending byte show ?thesis
        by (intro exI [of _ s'] exI [of _ "n + k"] exI [of _ "ch # consumed"]) (simp add: add.assoc)
    qed
  qed
qed

declare input_loop.simps [simp del]

subsection \<open>Runs of the terminal\<close>

text \<open>
  A terminal whose settings stay \<open>tio\<close>: the input side is polled, with whatever the device has to
  offer, and readers read, in any order. \<open>typed\<close> is all the device delivered, \<open>got\<close> all that
  the readers received.
\<close>

inductive tty_run ::
    "'r ring_ops \<Rightarrow> nat option \<Rightarrow> termios \<Rightarrow> 'r \<Rightarrow> 'r input_reader \<Rightarrow> u8 list \<Rightarrow> u8 list \<Rightarrow> bool"
  for ops fg tio r0 where
  tty_start: "tty_run ops fg tio r0 (input_reader_new r0) [] []"
| tty_poll: "tty_run ops fg tio r0 s typed got \<Longrightarrow> input_poll ops fg tio input s = Ok (s', progress)
    \<Longrightarrow> tty_run ops fg tio r0 s' (typed @ (if ir_pending s = [] then input else [])) got"
| tty_read: "tty_run ops fg tio r0 s typed got
    \<Longrightarrow> ldisc_read ops mode tio buf_len (ir_ring s) = (r', xs, result)
    \<Longrightarrow> tty_run ops fg tio r0 (s\<lparr>ir_ring := r'\<rparr>) typed (got @ xs)"

definition tty_cooked ::
    "('r \<Rightarrow> u8 list) \<Rightarrow> termios \<Rightarrow> 'r input_reader \<Rightarrow> u8 list \<Rightarrow> u8 list \<Rightarrow> bool" where
  "tty_cooked view tio s typed got \<longleftrightarrow>
     (\<exists>consumed. typed = consumed @ ir_pending s
        \<and> got @ view (ir_ring s) @ undelivered s = fst (cook tio [] consumed)
        \<and> typed_line s = snd (cook tio [] consumed))"

lemma input_poll_cooks:
  assumes ring: "ring_ok ops view cap" and ok: "line_ok s" and noclear: "\<not> ir_clear_line_buf s"
  shows "\<exists>s' n consumed. input_poll ops fg tio input s = Ok (s', n > 0)
    \<and> cooked view tio consumed n (if ir_pending s = [] then s\<lparr>ir_pending := input\<rparr> else s) s'
    \<and> (ir_pending s' = [] \<and> ir_line_read s' = None \<or> length (view (ir_ring s')) = cap)"
proof -
  let ?s = "if ir_pending s = [] then s\<lparr>ir_pending := input\<rparr> else s"
  have "line_ok ?s" using ok by (simp add: line_ok_def cong: option.case_cong)
  from input_loop_cooks [OF ring this, of fg tio 0] obtain s' n consumed where
    "input_loop ops fg tio 0 ?s = Ok (s', n)" "cooked view tio consumed n ?s s'"
    "ir_pending s' = [] \<and> ir_line_read s' = None \<or> length (view (ir_ring s')) = cap"
    by auto
  with noclear show ?thesis
    by (intro exI [of _ s'] exI [of _ n] exI [of _ consumed]) (simp add: input_poll_def Let_def)
qed

lemma ldisc_read_takes:
  assumes "ring_ok ops view cap" and "ldisc_read ops mode tio n r = (r', xs, result)"
  shows "view r = xs @ view r'"
  using assms(2) ring_okD(8,9) [OF assms(1), of n r]
  by (auto simp: ldisc_read_def read_attempt_def Let_def split: if_splits sum.splits prod.splits)


text \<open>The pending flag of \<open>drain_input\<close> is never raised in such a run.\<close>

lemma signal_and_echo_clear: "ir_clear_line_buf (signal_and_echo fg tio ch s) = ir_clear_line_buf s"
  by (auto simp: signal_and_echo_def check_send_signal_def Let_def split: option.split)

lemma input_byte_clear:
  "input_byte ops fg tio ch s = (n, Ok s') \<Longrightarrow> ir_clear_line_buf s' = ir_clear_line_buf s"
  by (auto simp: input_byte_def canonical_byte_def Let_def signal_and_echo_clear
      split: option.splits if_splits)

lemma input_loop_clear:
  "input_loop ops fg tio sent s = Ok (s', n) \<Longrightarrow> ir_clear_line_buf s' = ir_clear_line_buf s"
proof (induction ops fg tio sent s rule: input_loop.induct)
  case (1 ops fg tio sent s)
  from "1.prems" show ?case
    by (subst (asm) input_loop.simps)
      (auto simp: Let_def split: option.splits if_splits list.splits sum.splits prod.splits
        dest!: "1.IH" [OF _ _ _ sym] "1.IH" dest: input_byte_clear)
qed

lemma input_poll_clear:
  "input_poll ops fg tio input s = Ok (s', b) \<Longrightarrow> \<not> ir_clear_line_buf s'"
  by (auto simp: input_poll_def Let_def split: sum.splits if_splits dest!: input_loop_clear)

lemma tty_run_invariant:
  assumes ring: "ring_ok ops view cap" and start: "view r0 = []" and "tty_run ops fg tio r0 s typed got"
  shows "line_ok s \<and> \<not> ir_clear_line_buf s \<and> tty_cooked view tio s typed got"
  using assms(3)
proof (induction rule: tty_run.induct)
  case tty_start
  show ?case using start
    by (simp add: input_reader_new_def line_ok_def tty_cooked_def undelivered_def typed_line_def)
next
  case (tty_poll s typed got input s' progress)
  let ?s = "if ir_pending s = [] then s\<lparr>ir_pending := input\<rparr> else s"
  have frame: "undelivered ?s = undelivered s" "typed_line ?s = typed_line s" "ir_ring ?s = ir_ring s"
    by (simp_all add: undelivered_def typed_line_def cong: option.case_cong)
  obtain n consumed where step: "cooked view tio consumed n ?s s'"
    using input_poll_cooks [OF ring, of s fg tio input] tty_poll by auto
  obtain before where before: "typed = before @ ir_pending s"
    "got @ view (ir_ring s) @ undelivered s = fst (cook tio [] before)"
    "typed_line s = snd (cook tio [] before)"
    using tty_poll.IH by (auto simp: tty_cooked_def)
  have "tty_cooked view tio s' (typed @ (if ir_pending s = [] then input else [])) got"
    unfolding tty_cooked_def
    using step before frame
    by (intro exI [of _ "before @ consumed"])
      (auto simp: cooked_def cook_append simp flip: append_assoc split: if_splits)
  with step tty_poll.hyps show ?case by (auto simp: cooked_def dest: input_poll_clear)
next
  case (tty_read s typed got mode buf_len r' xs result)
  from ldisc_read_takes [OF ring tty_read.hyps(2)] tty_read.IH show ?case
    by (auto simp: line_ok_def tty_cooked_def undelivered_def typed_line_def cong: option.case_cong)
qed

subsection \<open>A concrete ring\<close>

definition list_ring :: "nat \<Rightarrow> u8 list ring_ops" where
  "list_ring cap =
     \<lparr>rb_push_slice = (\<lambda>xs r. let r = take cap r in
         (r @ take (cap - length r) xs, min (length xs) (cap - length r))),
      rb_try_push = (\<lambda>x r. let r = take cap r in if length r < cap then Some (r @ [x]) else None),
      rb_is_full = (\<lambda>r. length (take cap r) = cap),
      rb_is_empty = (\<lambda>r. take cap r = []),
      rb_pop_slice = (\<lambda>n r. let r = take cap r in (drop n r, take n r)),
      rb_clear = (\<lambda>r. [])\<rparr>"

lemma list_ring_ok: "ring_ok (list_ring cap) (take cap) cap"
  by (auto simp: ring_ok_def list_ring_def Let_def min_def)

subsection \<open>Properties\<close>

text \<open>
  C4: while the terminal's settings do not change and no input is flushed, the readers of a
  terminal receive the edited input exactly: in every run of polls and reads, what has been read,
  followed by the ring and by the completed line not yet delivered, is what the reference line
  editor makes of the bytes the device delivered, in order and without loss, and the line being
  typed is the one the editor would hold. The next poll does not panic, whatever is typed.
\<close>

theorem tty_reads_cooked_input:
  assumes "ring_ok ops view cap" and "view r0 = []" and "tty_run ops fg tio r0 s typed got"
  shows "(\<exists>consumed. typed = consumed @ ir_pending s
            \<and> got @ view (ir_ring s) @ undelivered s = fst (cook tio [] consumed)
            \<and> typed_line s = snd (cook tio [] consumed))
         \<and> (\<exists>s' progress. input_poll ops fg tio input s = Ok (s', progress)
               \<and> (ir_pending s' = [] \<and> ir_line_read s' = None \<or> length (view (ir_ring s')) = cap))"
proof -
  have inv: "line_ok s" "\<not> ir_clear_line_buf s" "tty_cooked view tio s typed got"
    using tty_run_invariant [OF assms] by auto
  then show ?thesis
    using input_poll_cooks [OF assms(1) inv(1,2), of fg tio input] by (auto simp: tty_cooked_def)
qed

definition tty_demo_typed :: "u8 list" where
  "tty_demo_typed = [0x61, 0x62, 0x7F, 0x63, 0x0D, 0x64]"

definition tty_demo_polled :: "u8 list input_reader" where
  "tty_demo_polled =
     (case input_poll (list_ring 2) None termios_default tty_demo_typed (input_reader_new []) of
        Inr (s, _) \<Rightarrow> s | Inl _ \<Rightarrow> input_reader_new [])"

lemma tty_demo_poll:
  "input_poll (list_ring 2) None termios_default tty_demo_typed (input_reader_new []) = Ok (tty_demo_polled, True)"
  by code_simp

lemma tty_demo_run: "tty_run (list_ring 2) None termios_default [] tty_demo_polled tty_demo_typed []"
  using tty_poll [OF tty_start tty_demo_poll] by (simp add: input_reader_new_def)

theorem tty_reads_cooked_input_witness:
  "take 2 (ir_ring tty_demo_polled) = [0x61, 0x63] \<and> ir_pending tty_demo_polled = [0x64]
   \<and> (\<exists>consumed. tty_demo_typed = consumed @ ir_pending tty_demo_polled
        \<and> take 2 (ir_ring tty_demo_polled) @ undelivered tty_demo_polled
            = fst (cook termios_default [] consumed))"
proof -
  have "take 2 (ir_ring tty_demo_polled) = [0x61, 0x63]" "ir_pending tty_demo_polled = [0x64]"
    by code_simp+
  with tty_reads_cooked_input [OF list_ring_ok _ tty_demo_run] show ?thesis by auto
qed

text \<open>
  flushing the input in the middle of a delivered line breaks the terminal. When part of a
  completed line is already in the ring, \<open>drain_input\<close> raises the flag that makes the next poll
  empty \<open>line_buf\<close>, but \<open>line_read\<close> keeps its offset, and slicing the line from there panics.
\<close>

lemma tty_drain_mid_line_panics:
  assumes "ir_line_read s = Some offset" and "0 < offset"
  shows "input_poll ops fg tio input (drain_input ops s) = Panicked"
  using assms by (simp add: input_poll_def drain_input_def Let_def input_loop.simps)

definition tty_demo_full :: "u8 list input_reader" where
  "tty_demo_full =
     (case input_poll (list_ring BUF_SIZE) None termios_default [0x61, 0x62, 0x0A]
             (input_reader_new (replicate 79 0x78)) of
        Inr (s, _) \<Rightarrow> s | Inl _ \<Rightarrow> input_reader_new [])"

lemma tty_drain_mid_line_panics_witness:
  "ir_line_read tty_demo_full = Some 1
   \<and> input_poll (list_ring BUF_SIZE) None termios_default [] (drain_input (list_ring BUF_SIZE) tty_demo_full)
       = Panicked"
proof -
  have "ir_line_read tty_demo_full = Some 1" by code_simp
  with tty_drain_mid_line_panics [OF this] show ?thesis by simp
qed

text \<open>
  in canonical mode the line editor drops blanks. With the default settings the line
  \<open>a b\<close> is echoed as typed, but the reader receives \<open>ab\<close>: a byte that is not
  \<open>is_ascii_graphic\<close> is not stored, and the space is not graphic.
\<close>

lemma tty_canonical_drops_space:
  "case input_poll (list_ring BUF_SIZE) None termios_default [0x61, 0x20, 0x62, 0x0A] (input_reader_new []) of
     Inr (s, progress) \<Rightarrow> ir_echoed s = [[0x61], [0x20], [0x62], [0x0A]] \<and> ir_ring s = [0x61, 0x62, 0x0A]
   | Inl _ \<Rightarrow> False"
  by code_simp

end
