(* ===== verification/Fd_Table.thy ===== *)
theory Fd_Table
  imports Prelude
begin

section \<open>File descriptor tables\<close>

text \<open>
  The descriptor table of \<open>api/src/file/mod.rs\<close> and the system calls of
  \<open>api/src/syscall/fs/fd_ops.rs\<close> that work on it.

  The table is a \<open>FlattenObjects\<close> of the crate \<open>flatten_objects\<close>; its operations are the fields
  of \<open>flat_ops\<close>, an argument of the definitions, and \<open>flat_ok\<close> is their documented behaviour.
  An open file is the number of its \<open>Arc<dyn FileLike>\<close> object, and the \<open>FileLike\<close> methods the
  calls dispatch to are the fields of \<open>file_like\<close>.
\<close>

subsection \<open>The table\<close>

definition AX_FILE_LIMIT :: nat where "AX_FILE_LIMIT = 1024"

record file_descriptor =
  fd_inner :: nat
  fd_cloexec :: bool

record 't flat_ops =
  fo_get :: "'t \<Rightarrow> nat \<Rightarrow> file_descriptor option"
  fo_set :: "nat \<Rightarrow> file_descriptor \<Rightarrow> 't \<Rightarrow> 't"
  fo_count :: "'t \<Rightarrow> nat"
  fo_add :: "file_descriptor \<Rightarrow> 't \<Rightarrow> ('t \<times> nat) option"
  fo_add_at :: "nat \<Rightarrow> file_descriptor \<Rightarrow> 't \<Rightarrow> 't option"
  fo_remove :: "nat \<Rightarrow> 't \<Rightarrow> 't \<times> file_descriptor option"
  fo_last_id :: "'t \<Rightarrow> nat option"

text \<open>
  A table of \<open>cap\<close> slots: \<open>add\<close> takes the lowest free slot, \<open>add_at\<close> a given free one;
  \<open>fo_set\<close> is an assignment through \<open>get_mut\<close>, \<open>fo_last_id\<close> is \<open>ids().next_back()\<close>.
\<close>

definition flat_ok :: "'t flat_ops \<Rightarrow> nat \<Rightarrow> bool" where
  "flat_ok ops cap \<longleftrightarrow>
     (\<forall>t i. cap \<le> i \<longrightarrow> fo_get ops t i = None)
     \<and> (\<forall>t. fo_count ops t = card {i. fo_get ops t i \<noteq> None})
     \<and> (\<forall>t i e. fo_get ops t i \<noteq> None \<longrightarrow> fo_get ops (fo_set ops i e t) = (fo_get ops t)(i \<mapsto> e))
     \<and> (\<forall>t e. if \<exists>i<cap. fo_get ops t i = None
               then \<exists>t'. fo_add ops e t = Some (t', LEAST i. fo_get ops t i = None)
                      \<and> fo_get ops t' = (fo_get ops t)((LEAST i. fo_get ops t i = None) \<mapsto> e)
               else fo_add ops e t = None)
     \<and> (\<forall>t i e. if i < cap \<and> fo_get ops t i = None
               then \<exists>t'. fo_add_at ops i e t = Some t' \<and> fo_get ops t' = (fo_get ops t)(i \<mapsto> e)
               else fo_add_at ops i e t = None)
     \<and> (\<forall>t i. snd (fo_remove ops i t) = fo_get ops t i
          \<and> fo_get ops (fst (fo_remove ops i t)) = (fo_get ops t)(i := None))
     \<and> (\<forall>t. fo_last_id ops t = (if dom (fo_get ops t) = {} then None else Some (Max (dom (fo_get ops t)))))"

text \<open>The cast \<open>fd as usize\<close> of a \<open>c_int\<close>: sign extension.\<close>

definition fd_index :: "i32 \<Rightarrow> usize" where
  "fd_index fd = nat (fd mod 2 ^ 64)"

subsection \<open>Looking up, adding and closing\<close>

definition get_file_like :: "'t flat_ops \<Rightarrow> i32 \<Rightarrow> 't \<Rightarrow> nat outcome" where
  "get_file_like ops fd t = ok_or (map_option fd_inner (fo_get ops t (fd_index fd))) BadFileDescriptor"

definition add_file_like ::
    "'t flat_ops \<Rightarrow> nat \<Rightarrow> nat \<Rightarrow> bool \<Rightarrow> 't \<Rightarrow> 't \<times> i32 outcome" where
  "add_file_like ops max_nofile f cloexec t =
     (if fo_count ops t \<ge> max_nofile then (t, Fail TooManyOpenFiles)
      else case fo_add ops \<lparr>fd_inner = f, fd_cloexec = cloexec\<rparr> t of
             None \<Rightarrow> (t, Fail TooManyOpenFiles)
           | Some (t', i) \<Rightarrow> (t', Ok (wrap_i32 (int i))))"

definition close_file_like :: "'t flat_ops \<Rightarrow> i32 \<Rightarrow> 't \<Rightarrow> 't \<times> unit outcome" where
  "close_file_like ops fd t =
     (case fo_remove ops (fd_index fd) t of
        (t', None) \<Rightarrow> (t', Fail BadFileDescriptor)
      | (t', Some _) \<Rightarrow> (t', Ok ()))"

text \<open>\<open>add_stdio\<close>; \<open>open_console\<close> opens the console for reading (\<open>True\<close>) or writing.\<close>

definition add_stdio ::
    "'t flat_ops \<Rightarrow> (bool \<Rightarrow> nat outcome) \<Rightarrow> 't \<Rightarrow> 't \<times> unit outcome" where
  "add_stdio ops open_console t =
     (if fo_count ops t \<noteq> 0 then (t, Panicked)
      else case open_console True of
        Inl e \<Rightarrow> (t, Inl e)
      | Inr tty_in \<Rightarrow>
          (case open_console False of
             Inl e \<Rightarrow> (t, Inl e)
           | Inr tty_out \<Rightarrow>
               (case fo_add ops \<lparr>fd_inner = tty_in, fd_cloexec = False\<rparr> t of
                  None \<Rightarrow> (t, Fail TooManyOpenFiles)
                | Some (t1, _) \<Rightarrow>
                    (case fo_add ops \<lparr>fd_inner = tty_out, fd_cloexec = False\<rparr> t1 of
                       None \<Rightarrow> (t1, Fail TooManyOpenFiles)
                     | Some (t2, _) \<Rightarrow>
                         (case fo_add ops \<lparr>fd_inner = tty_out, fd_cloexec = False\<rparr> t2 of
                            None \<Rightarrow> (t2, Fail TooManyOpenFiles)
                          | Some (t3, _) \<Rightarrow> (t3, Ok ()))))))"

subsection \<open>System calls\<close>

definition sys_close :: "'t flat_ops \<Rightarrow> i32 \<Rightarrow> 't \<Rightarrow> 't \<times> int outcome" where
  "sys_close ops fd t =
     (case close_file_like ops fd t of
        (t', Inl e) \<Rightarrow> (t', Inl e)
      | (t', Inr _) \<Rightarrow> (t', Ok 0))"

definition CLOSE_RANGE_UNSHARE :: u32 where "CLOSE_RANGE_UNSHARE = 2"
definition CLOSE_RANGE_CLOEXEC :: u32 where "CLOSE_RANGE_CLOEXEC = 4"

definition close_range_fd :: "'t flat_ops \<Rightarrow> bool \<Rightarrow> int \<Rightarrow> 't \<Rightarrow> 't" where
  "close_range_fd ops cloexec fd t =
     (if cloexec then
        (case fo_get ops t (fd_index fd) of
           None \<Rightarrow> t
         | Some f \<Rightarrow> fo_set ops (fd_index fd) (f\<lparr>fd_cloexec := True\<rparr>) t)
      else fst (fo_remove ops (fd_index fd) t))"

text \<open>
  \<open>sys_close_range\<close>. With the \<open>UNSHARE\<close> flag the statement
  \<open>old_files.write().clone_from(old_files.read().deref())\<close> asks for the read lock while it holds
  the write lock of the same \<open>RwLock\<close>; the call does not return, the value \<open>None\<close>.
\<close>

definition sys_close_range ::
    "'t flat_ops \<Rightarrow> i32 \<Rightarrow> i32 \<Rightarrow> u32 \<Rightarrow> 't \<Rightarrow> ('t \<times> int outcome) option" where
  "sys_close_range ops first lst flags t =
     (if first < 0 \<or> lst < first then Some (t, Fail InvalidInput)
      else if any_flag flags (NOT (CLOSE_RANGE_UNSHARE OR CLOSE_RANGE_CLOEXEC)) then Some (t, Fail InvalidInput)
      else if has_flags flags CLOSE_RANGE_UNSHARE then None
      else
        let cloexec = has_flags flags CLOSE_RANGE_CLOEXEC in
        case fo_last_id ops t of
          None \<Rightarrow> Some (t, Ok 0)
        | Some max_index \<Rightarrow>
            Some (fold (close_range_fd ops cloexec) [first..min lst (wrap_i32 (int max_index))] t, Ok 0))"

definition dup_fd :: "'t flat_ops \<Rightarrow> nat \<Rightarrow> i32 \<Rightarrow> bool \<Rightarrow> 't \<Rightarrow> 't \<times> int outcome" where
  "dup_fd ops max_nofile old_fd cloexec t =
     (case get_file_like ops old_fd t of
        Inl e \<Rightarrow> (t, Inl e)
      | Inr f \<Rightarrow> add_file_like ops max_nofile f cloexec t)"

definition sys_dup :: "'t flat_ops \<Rightarrow> nat \<Rightarrow> i32 \<Rightarrow> 't \<Rightarrow> 't \<times> int outcome" where
  "sys_dup ops max_nofile old_fd t = dup_fd ops max_nofile old_fd False t"

definition O_CLOEXEC :: u32 where "O_CLOEXEC = 0x80000"

definition sys_dup3 :: "'t flat_ops \<Rightarrow> i32 \<Rightarrow> i32 \<Rightarrow> u32 \<Rightarrow> 't \<Rightarrow> 't \<times> int outcome" where
  "sys_dup3 ops old_fd new_fd flags t =
     (if any_flag flags (NOT O_CLOEXEC) then (t, Fail InvalidInput)
      else if old_fd = new_fd then (t, Fail InvalidInput)
      else case fo_get ops t (fd_index old_fd) of
             None \<Rightarrow> (t, Fail BadFileDescriptor)
           | Some f \<Rightarrow>
               (let f' = f\<lparr>fd_cloexec := has_flags flags O_CLOEXEC\<rparr>;
                    t1 = fst (fo_remove ops (fd_index new_fd) t)
                in case fo_add_at ops (fd_index new_fd) f' t1 of
                     None \<Rightarrow> (t1, Fail BadFileDescriptor)
                   | Some t2 \<Rightarrow> (t2, Ok new_fd)))"

definition sys_dup2 :: "'t flat_ops \<Rightarrow> i32 \<Rightarrow> i32 \<Rightarrow> 't \<Rightarrow> 't \<times> int outcome" where
  "sys_dup2 ops old_fd new_fd t =
     (if old_fd = new_fd then
        (case get_file_like ops new_fd t of
           Inl e \<Rightarrow> (t, Inl e)
         | Inr _ \<Rightarrow> (t, Ok new_fd))
      else sys_dup3 ops old_fd new_fd 0 t)"

subsection \<open>\<open>fcntl\<close>\<close>

text \<open>
  The \<open>FileLike\<close> methods that \<open>fcntl\<close> calls, over a store \<open>'s\<close> of file objects:
  \<open>fl_pipe_capacity\<close> is \<open>None\<close> for an object that is not a pipe; \<open>fl_set_unlck\<close> writes
  \<open>F_UNLCK\<close> through a user pointer.
\<close>

record 's file_like =
  fl_nonblocking :: "nat \<Rightarrow> 's \<Rightarrow> bool"
  fl_set_nonblocking :: "nat \<Rightarrow> bool \<Rightarrow> 's \<Rightarrow> 's \<times> unit outcome"
  fl_mode :: "nat \<Rightarrow> 's \<Rightarrow> u32 outcome"
  fl_pipe_capacity :: "nat \<Rightarrow> 's \<Rightarrow> nat option"
  fl_pipe_resize :: "nat \<Rightarrow> usize \<Rightarrow> 's \<Rightarrow> 's \<times> unit outcome"
  fl_set_unlck :: "usize \<Rightarrow> 's \<Rightarrow> 's \<times> unit outcome"

definition O_NONBLOCK :: u32 where "O_NONBLOCK = 0x800"
definition O_WRONLY :: u32 where "O_WRONLY = 1"
definition O_RDWR :: u32 where "O_RDWR = 2"
definition OWNER_READ :: u32 where "OWNER_READ = 0x100"
definition OWNER_WRITE :: u32 where "OWNER_WRITE = 0x80"

datatype fcntl_cmd =
    F_DUPFD | F_DUPFD_CLOEXEC | F_SETLK | F_SETLKW | F_OFD_SETLK | F_OFD_SETLKW | F_GETLK | F_OFD_GETLK
  | F_SETFL | F_GETFL | F_GETFD | F_SETFD | F_GETPIPE_SZ | F_SETPIPE_SZ | F_other

text \<open>The flag tests on \<open>arg\<close>: \<open>O_NONBLOCK\<close> is bit 11, \<open>FD_CLOEXEC\<close> is bit 0.\<close>

definition arg_nonblock :: "usize \<Rightarrow> bool" where
  "arg_nonblock arg \<longleftrightarrow> bit arg 11"

definition arg_cloexec :: "usize \<Rightarrow> bool" where
  "arg_cloexec arg \<longleftrightarrow> bit arg 0"

definition getfl_flags :: "bool \<Rightarrow> u32 \<Rightarrow> u32" where
  "getfl_flags nonblocking mode =
     (if nonblocking then O_NONBLOCK else 0)
     OR (if has_flags mode OWNER_WRITE then (if has_flags mode OWNER_READ then O_RDWR else O_WRONLY) else 0)"

definition sys_fcntl ::
    "'t flat_ops \<Rightarrow> 's file_like \<Rightarrow> nat \<Rightarrow> i32 \<Rightarrow> fcntl_cmd \<Rightarrow> usize \<Rightarrow> 't \<Rightarrow> 's \<Rightarrow> 't \<times> 's \<times> int outcome" where
  "sys_fcntl ops fl max_nofile fd cmd arg t s =
     (case cmd of
        F_DUPFD \<Rightarrow> (let (t', r) = dup_fd ops max_nofile fd False t in (t', s, r))
      | F_DUPFD_CLOEXEC \<Rightarrow> (let (t', r) = dup_fd ops max_nofile fd True t in (t', s, r))
      | F_SETLK \<Rightarrow> (t, s, Ok 0)
      | F_SETLKW \<Rightarrow> (t, s, Ok 0)
      | F_OFD_SETLK \<Rightarrow> (t, s, Ok 0)
      | F_OFD_SETLKW \<Rightarrow> (t, s, Ok 0)
      | F_GETLK \<Rightarrow>
          (case fl_set_unlck fl arg s of (s', Inl e) \<Rightarrow> (t, s', Inl e) | (s', Inr _) \<Rightarrow> (t, s', Ok 0))
      | F_OFD_GETLK \<Rightarrow>
          (case fl_set_unlck fl arg s of (s', Inl e) \<Rightarrow> (t, s', Inl e) | (s', Inr _) \<Rightarrow> (t, s', Ok 0))
      | F_SETFL \<Rightarrow>
          (case get_file_like ops fd t of
             Inl e \<Rightarrow> (t, s, Inl e)
           | Inr f \<Rightarrow>
               (case fl_set_nonblocking fl f (arg_nonblock arg) s of
                  (s', Inl e) \<Rightarrow> (t, s', Inl e)
                | (s', Inr _) \<Rightarrow> (t, s', Ok 0)))
      | F_GETFL \<Rightarrow>
          (case get_file_like ops fd t of
             Inl e \<Rightarrow> (t, s, Inl e)
           | Inr f \<Rightarrow>
               (case fl_mode fl f s of
                  Inl e \<Rightarrow> (t, s, Inl e)
                | Inr mode \<Rightarrow> (t, s, Ok (uint (getfl_flags (fl_nonblocking fl f s) mode)))))
      | F_GETFD \<Rightarrow>
          (case fo_get ops t (fd_index fd) of
             None \<Rightarrow> (t, s, Fail BadFileDescriptor)
           | Some f \<Rightarrow> (t, s, Ok (if fd_cloexec f then 1 else 0)))
      | F_SETFD \<Rightarrow>
          (case fo_get ops t (fd_index fd) of
             None \<Rightarrow> (t, s, Fail BadFileDescriptor)
           | Some f \<Rightarrow> (fo_set ops (fd_index fd) (f\<lparr>fd_cloexec := arg_cloexec arg\<rparr>) t, s, Ok 0))
      | F_GETPIPE_SZ \<Rightarrow>
          (case get_file_like ops fd t of
             Inl e \<Rightarrow> (t, s, Inl e)
           | Inr f \<Rightarrow>
               (case fl_pipe_capacity fl f s of
                  None \<Rightarrow> (t, s, Fail InvalidInput)
                | Some cap \<Rightarrow> (t, s, Ok (int cap))))
      | F_SETPIPE_SZ \<Rightarrow>
          (case get_file_like ops fd t of
             Inl e \<Rightarrow> (t, s, Inl e)
           | Inr f \<Rightarrow>
               (case fl_pipe_capacity fl f s of
                  None \<Rightarrow> (t, s, Fail InvalidInput)
                | Some _ \<Rightarrow>
                    (case fl_pipe_resize fl f arg s of
                       (s', Inl e) \<Rightarrow> (t, s', Inl e)
                     | (s', Inr _) \<Rightarrow> (t, s', Ok 0))))
      | F_other \<Rightarrow> (t, s, Ok 0))"

subsection \<open>Opening files\<close>

record open_options =
  oo_mode :: u32
  oo_user :: "u32 \<times> u32"
  oo_read :: bool
  oo_write :: bool
  oo_append :: bool
  oo_truncate :: bool
  oo_create :: bool
  oo_path :: bool
  oo_create_new :: bool
  oo_directory :: bool
  oo_no_follow :: bool
  oo_direct :: bool

definition O_APPEND :: u32 where "O_APPEND = 0x400"
definition O_TRUNC :: u32 where "O_TRUNC = 0x200"
definition O_CREAT :: u32 where "O_CREAT = 0x40"
definition O_PATH :: u32 where "O_PATH = 0x200000"
definition O_EXCL :: u32 where "O_EXCL = 0x80"
definition O_DIRECTORY :: u32 where "O_DIRECTORY = 0x10000"
definition O_NOFOLLOW :: u32 where "O_NOFOLLOW = 0x20000"
definition O_DIRECT :: u32 where "O_DIRECT = 0x4000"

definition flags_to_options :: "u32 \<Rightarrow> u32 \<Rightarrow> u32 \<times> u32 \<Rightarrow> open_options" where
  "flags_to_options flags mode user =
     \<lparr>oo_mode = mode, oo_user = user,
      oo_read = (flags AND 3 \<noteq> O_WRONLY),
      oo_write = (flags AND 3 \<noteq> 0),
      oo_append = any_flag flags O_APPEND,
      oo_truncate = any_flag flags O_TRUNC,
      oo_create = any_flag flags O_CREAT,
      oo_path = any_flag flags O_PATH,
      oo_create_new = any_flag flags O_EXCL,
      oo_directory = any_flag flags O_DIRECTORY,
      oo_no_follow = any_flag flags O_NOFOLLOW,
      oo_direct = any_flag flags O_DIRECT\<rparr>"

text \<open>
  What \<open>add_to_fd\<close> distinguishes of an opened location: an ordinary file, the \<open>ptmx\<close> device, the
  controlling terminal device, a directory. The file system, the creation of a pseudo terminal and
  the terminal of the session are arguments; \<open>oe_file\<close> and \<open>oe_directory\<close> make the \<open>FileLike\<close>
  object of a location.
\<close>

datatype opened = Opened_file nat | Opened_ptmx nat | Opened_tty nat | Opened_dir nat

datatype terminal_kind = NTtyDriver | PtyDriver nat | Unknown_terminal

record 's open_env =
  oe_create_pty :: "'s \<Rightarrow> 's \<times> (nat \<times> nat) outcome"
  oe_pty_entry :: "nat \<Rightarrow> nat \<Rightarrow> nat \<Rightarrow> nat"
  oe_resolve :: "string \<Rightarrow> 's \<Rightarrow> nat outcome"
  oe_terminal :: "'s \<Rightarrow> terminal_kind option"
  oe_file :: "nat \<Rightarrow> 's \<Rightarrow> 's \<times> nat"
  oe_directory :: "nat \<Rightarrow> 's \<Rightarrow> 's \<times> nat"

fun digits :: "nat \<Rightarrow> string" where
  "digits n = (if n < 10 then [char_of (48 + n)] else digits (n div 10) @ [char_of (48 + n mod 10)])"

declare digits.simps [simp del]

definition opened_object :: "'s open_env \<Rightarrow> opened \<Rightarrow> 's \<Rightarrow> 's \<times> nat outcome" where
  "opened_object env op s =
     (case op of
        Opened_dir loc \<Rightarrow> map_prod id Ok (oe_directory env loc s)
      | Opened_file loc \<Rightarrow> map_prod id Ok (oe_file env loc s)
      | Opened_ptmx loc \<Rightarrow>
          (case oe_create_pty env s of
             (s1, Inl e) \<Rightarrow> (s1, Inl e)
           | (s1, Inr (master, pty_number)) \<Rightarrow>
               (case oe_resolve env ''/dev/pts'' s1 of
                  Inl e \<Rightarrow> (s1, Inl e)
                | Inr pts \<Rightarrow> map_prod id Ok (oe_file env (oe_pty_entry env pts master pty_number) s1)))
      | Opened_tty loc \<Rightarrow>
          (case oe_terminal env s of
             None \<Rightarrow> (s, Fail NotFound)
           | Some Unknown_terminal \<Rightarrow> (s, Panicked)
           | Some NTtyDriver \<Rightarrow>
               (case oe_resolve env ''/dev/console'' s of
                  Inl e \<Rightarrow> (s, Inl e)
                | Inr loc' \<Rightarrow> map_prod id Ok (oe_file env loc' s))
           | Some (PtyDriver n) \<Rightarrow>
               (case oe_resolve env (''/dev/pts/'' @ digits n) s of
                  Inl e \<Rightarrow> (s, Inl e)
                | Inr loc' \<Rightarrow> map_prod id Ok (oe_file env loc' s))))"

definition add_to_fd ::
    "'t flat_ops \<Rightarrow> 's file_like \<Rightarrow> 's open_env \<Rightarrow> nat \<Rightarrow> opened \<Rightarrow> u32 \<Rightarrow> 't \<Rightarrow> 's \<Rightarrow> 't \<times> 's \<times> i32 outcome" where
  "add_to_fd ops fl env max_nofile result flags t s =
     (case opened_object env result s of
        (s1, Inl e) \<Rightarrow> (t, s1, Inl e)
      | (s1, Inr f) \<Rightarrow>
          (case (if any_flag flags O_NONBLOCK then fl_set_nonblocking fl f True s1 else (s1, Ok ())) of
             (s2, Inl e) \<Rightarrow> (t, s2, Inl e)
           | (s2, Inr _) \<Rightarrow>
               (let (t', r) = add_file_like ops max_nofile f (any_flag flags O_CLOEXEC) t in (t', s2, r))))"

text \<open>
  \<open>sys_openat\<close>: \<open>load_path\<close> reads the path from user memory, \<open>open_at\<close> is \<open>OpenOptions::open\<close>
  below the directory \<open>dirfd\<close>.
\<close>

definition sys_openat ::
    "'t flat_ops \<Rightarrow> 's file_like \<Rightarrow> 's open_env \<Rightarrow> string outcome \<Rightarrow> (i32 \<Rightarrow> open_options \<Rightarrow> string \<Rightarrow> 's \<Rightarrow> 's \<times> opened outcome)
      \<Rightarrow> nat \<Rightarrow> u32 \<Rightarrow> u32 \<times> u32 \<Rightarrow> i32 \<Rightarrow> u32 \<Rightarrow> u32 \<Rightarrow> 't \<Rightarrow> 's \<Rightarrow> 't \<times> 's \<times> i32 outcome" where
  "sys_openat ops fl env load_path open_at max_nofile umask user dirfd flags mode t s =
     (case load_path of
        Inl e \<Rightarrow> (t, s, Inl e)
      | Inr path \<Rightarrow>
          (case open_at dirfd (flags_to_options flags (mode AND NOT umask) user) path s of
             (s1, Inl e) \<Rightarrow> (t, s1, Inl e)
           | (s1, Inr result) \<Rightarrow> add_to_fd ops fl env max_nofile result flags t s1))"

definition sys_flock :: "i32 \<Rightarrow> i32 \<Rightarrow> int outcome" where
  "sys_flock fd operation = Ok 0"

end
