(* ===== verification/Pipe.thy ===== *)
theory Pipe
  imports Fd_Table
begin

section \<open>Pipes\<close>

text \<open>
  \<open>api/src/file/pipe.rs\<close> and \<open>api/src/syscall/fs/pipe.rs\<close>.

  The byte buffer is a \<open>HeapRb\<close> of the crate \<open>ringbuf\<close>; its operations are the fields of
  \<open>pipe_ring\<close> and \<open>pipe_ring_ok\<close> is their documented behaviour. The caller's buffers (the traits
  \<open>IoDst\<close> and \<open>IoSrc\<close>) are arguments too: \<open>dst_write\<close> stores a slice and may accept less or
  fault, \<open>src_read\<close> takes at most so many bytes. \<open>poll_io\<close> of \<open>axtask\<close> repeats an attempt that
  ends in \<open>WouldBlock\<close> until the file is ready, so the attempt is the unit of the model.
\<close>

subsection \<open>The ring\<close>

record 'r pipe_ring =
  pr_new :: "nat \<Rightarrow> 'r"
  pr_capacity :: "'r \<Rightarrow> nat"
  pr_occupied :: "'r \<Rightarrow> nat"
  pr_vacant :: "'r \<Rightarrow> nat"
  pr_slices :: "'r \<Rightarrow> u8 list \<times> u8 list"
  pr_advance_read :: "nat \<Rightarrow> 'r \<Rightarrow> 'r"
  pr_vacant_slices :: "'r \<Rightarrow> nat \<times> nat"
  pr_fill :: "u8 list \<Rightarrow> 'r \<Rightarrow> 'r"
  pr_push_slice :: "u8 list \<Rightarrow> 'r \<Rightarrow> 'r"

text \<open>
  The contents \<open>view\<close> are the two occupied slices in order; \<open>pr_fill\<close> stores bytes at the start of
  the vacant slices and advances the write index over them.
\<close>

definition pipe_ring_ok :: "'r pipe_ring \<Rightarrow> ('r \<Rightarrow> u8 list) \<Rightarrow> bool" where
  "pipe_ring_ok ops view \<longleftrightarrow>
     (\<forall>r. length (view r) \<le> pr_capacity ops r
        \<and> pr_occupied ops r = length (view r)
        \<and> pr_vacant ops r = pr_capacity ops r - length (view r)
        \<and> fst (pr_slices ops r) @ snd (pr_slices ops r) = view r
        \<and> fst (pr_vacant_slices ops r) + snd (pr_vacant_slices ops r) = pr_capacity ops r - length (view r))
     \<and> (\<forall>n>0. view (pr_new ops n) = [] \<and> pr_capacity ops (pr_new ops n) = n)
     \<and> (\<forall>r n. n \<le> length (view r) \<longrightarrow> view (pr_advance_read ops n r) = drop n (view r)
          \<and> pr_capacity ops (pr_advance_read ops n r) = pr_capacity ops r)
     \<and> (\<forall>r bs. length bs \<le> pr_capacity ops r - length (view r) \<longrightarrow> view (pr_fill ops bs r) = view r @ bs
          \<and> pr_capacity ops (pr_fill ops bs r) = pr_capacity ops r)
     \<and> (\<forall>r bs. view (pr_push_slice ops bs r) = view r @ take (pr_capacity ops r - length (view r)) bs
          \<and> pr_capacity ops (pr_push_slice ops bs r) = pr_capacity ops r)"

subsection \<open>The pipe\<close>

definition RING_BUFFER_INIT_SIZE :: nat where "RING_BUFFER_INIT_SIZE = 65536"

datatype pipe_wake = Wake_rx | Wake_tx | Wake_close

text \<open>
  \<open>Shared\<close>, with the number of \<open>Pipe\<close> objects that hold it (the strong count of the \<open>Arc\<close>) and
  the wake-ups sent so far.
\<close>

record 'r pipe_shared =
  ps_buffer :: 'r
  ps_ends :: nat
  ps_wakes :: "pipe_wake list"

record pipe =
  pp_read_side :: bool
  pp_non_blocking :: bool

definition pipe_new :: "'r pipe_ring \<Rightarrow> 'r pipe_shared \<times> pipe \<times> pipe" where
  "pipe_new ops =
     (\<lparr>ps_buffer = pr_new ops RING_BUFFER_INIT_SIZE, ps_ends = 2, ps_wakes = []\<rparr>,
      \<lparr>pp_read_side = True, pp_non_blocking = False\<rparr>,
      \<lparr>pp_read_side = False, pp_non_blocking = False\<rparr>)"

definition pipe_drop :: "'r pipe_shared \<Rightarrow> 'r pipe_shared" where
  "pipe_drop sh = sh\<lparr>ps_ends := ps_ends sh - 1, ps_wakes := ps_wakes sh @ [Wake_close]\<rparr>"

definition pipe_closed :: "'r pipe_shared \<Rightarrow> bool" where
  "pipe_closed sh \<longleftrightarrow> ps_ends sh = 1"

definition wake :: "pipe_wake \<Rightarrow> 'r pipe_shared \<Rightarrow> 'r pipe_shared" where
  "wake w sh = sh\<lparr>ps_wakes := ps_wakes sh @ [w]\<rparr>"

definition pipe_capacity :: "'r pipe_ring \<Rightarrow> 'r pipe_shared \<Rightarrow> nat" where
  "pipe_capacity ops sh = pr_capacity ops (ps_buffer sh)"

definition resize_target :: "usize \<Rightarrow> usize" where
  "resize_target new_size = umul (max ((new_size + (PAGE_SIZE_4K - 1)) div PAGE_SIZE_4K) 1) PAGE_SIZE_4K"

definition pipe_resize :: "'r pipe_ring \<Rightarrow> usize \<Rightarrow> 'r pipe_shared \<Rightarrow> 'r pipe_shared \<times> unit outcome" where
  "pipe_resize ops size_arg sh =
     (let new_size = resize_target size_arg; buffer = ps_buffer sh in
      if new_size = pr_capacity ops buffer then (sh, Ok ())
      else if new_size < pr_occupied ops buffer then (sh, Fail ResourceBusy)
      else
        let (left, right) = pr_slices ops buffer
        in (sh\<lparr>ps_buffer := pr_push_slice ops right (pr_push_slice ops left (pr_new ops new_size))\<rparr>, Ok ()))"

subsection \<open>Reading\<close>

text \<open>The closure of \<open>read\<close>: both slices are offered to the destination.\<close>

definition pipe_copy_out ::
    "(u8 list \<Rightarrow> 'd \<Rightarrow> 'd \<times> nat outcome) \<Rightarrow> u8 list \<Rightarrow> u8 list \<Rightarrow> 'd \<Rightarrow> 'd \<times> nat outcome" where
  "pipe_copy_out dst_write left right d =
     (case dst_write left d of
        (d1, Inl e) \<Rightarrow> (d1, Inl e)
      | (d1, Inr count) \<Rightarrow>
          if count \<ge> length left then
            (case dst_write right d1 of
               (d2, Inl e) \<Rightarrow> (d2, Inl e)
             | (d2, Inr n) \<Rightarrow> (d2, Ok (count + n)))
          else (d1, Ok count))"

definition pipe_read_attempt ::
    "'r pipe_ring \<Rightarrow> (u8 list \<Rightarrow> 'd \<Rightarrow> 'd \<times> nat outcome) \<Rightarrow> 'd \<Rightarrow> 'r pipe_shared \<Rightarrow> 'r pipe_shared \<times> 'd \<times> nat outcome" where
  "pipe_read_attempt ops dst_write d sh =
     (let (left, right) = pr_slices ops (ps_buffer sh) in
      case pipe_copy_out dst_write left right d of
        (d', Inl e) \<Rightarrow> (sh, d', Inl e)
      | (d', Inr count) \<Rightarrow>
          (let sh' = sh\<lparr>ps_buffer := pr_advance_read ops count (ps_buffer sh)\<rparr> in
           if count > 0 then (wake Wake_tx sh', d', Ok count)
           else if pipe_closed sh' then (sh', d', Ok 0)
           else (sh', d', Fail WouldBlock)))"

definition pipe_read ::
    "'r pipe_ring \<Rightarrow> (u8 list \<Rightarrow> 'd \<Rightarrow> 'd \<times> nat outcome) \<Rightarrow> bool \<Rightarrow> pipe \<Rightarrow> 'd \<Rightarrow> 'r pipe_shared
      \<Rightarrow> 'r pipe_shared \<times> 'd \<times> nat outcome" where
  "pipe_read ops dst_write dst_full p d sh =
     (if \<not> pp_read_side p then (sh, d, Fail BadFileDescriptor)
      else if dst_full then (sh, d, Ok 0)
      else pipe_read_attempt ops dst_write d sh)"

subsection \<open>Writing\<close>

definition pipe_copy_in ::
    "(nat \<Rightarrow> 'd \<Rightarrow> 'd \<times> u8 list outcome) \<Rightarrow> nat \<Rightarrow> nat \<Rightarrow> 'd \<Rightarrow> 'd \<times> u8 list outcome" where
  "pipe_copy_in src_read left right s =
     (case src_read left s of
        (s1, Inl e) \<Rightarrow> (s1, Inl e)
      | (s1, Inr bs) \<Rightarrow>
          if length bs \<ge> left then
            (case src_read right s1 of
               (s2, Inl e) \<Rightarrow> (s2, Inl e)
             | (s2, Inr bs') \<Rightarrow> (s2, Ok (bs @ bs')))
          else (s1, Ok bs))"

text \<open>
  The closure of \<open>write\<close> with its counter \<open>total_written\<close>; \<open>sigpipe\<close> tells whether the signal is
  raised. A blocking write ends when all \<open>size\<close> bytes are written, a non-blocking one with the first
  progress.
\<close>

definition pipe_write_attempt ::
    "'r pipe_ring \<Rightarrow> (nat \<Rightarrow> 'd \<Rightarrow> 'd \<times> u8 list outcome) \<Rightarrow> bool \<Rightarrow> nat \<Rightarrow> nat \<Rightarrow> 'd \<Rightarrow> 'r pipe_shared
      \<Rightarrow> 'r pipe_shared \<times> 'd \<times> nat \<times> bool \<times> nat outcome" where
  "pipe_write_attempt ops src_read nonblocking sz total_written s sh =
     (if pipe_closed sh then (sh, s, total_written, True, Fail BrokenPipe)
      else
        let (left, right) = pr_vacant_slices ops (ps_buffer sh) in
        case pipe_copy_in src_read left right s of
          (s', Inl e) \<Rightarrow> (sh, s', total_written, False, Inl e)
        | (s', Inr bs) \<Rightarrow>
            (let sh' = sh\<lparr>ps_buffer := pr_fill ops bs (ps_buffer sh)\<rparr>; written = length bs in
             if written > 0 then
               (let sh2 = wake Wake_rx sh'; total = total_written + written in
                if total = sz \<or> nonblocking then (sh2, s', total, False, Ok total)
                else (sh2, s', total, False, Fail WouldBlock))
             else (sh', s', total_written, False, Fail WouldBlock)))"

definition pipe_write ::
    "'r pipe_ring \<Rightarrow> (nat \<Rightarrow> 'd \<Rightarrow> 'd \<times> u8 list outcome) \<Rightarrow> pipe \<Rightarrow> nat \<Rightarrow> 'd \<Rightarrow> 'r pipe_shared
      \<Rightarrow> 'r pipe_shared \<times> 'd \<times> nat \<times> bool \<times> nat outcome" where
  "pipe_write ops src_read p sz s sh =
     (if pp_read_side p then (sh, s, 0, False, Fail BadFileDescriptor)
      else if sz = 0 then (sh, s, 0, False, Ok 0)
      else pipe_write_attempt ops src_read (pp_non_blocking p) sz 0 s sh)"

subsection \<open>Status, readiness and creation\<close>

definition S_IFIFO :: u32 where "S_IFIFO = 0x1000"

definition pipe_mode :: "pipe \<Rightarrow> u32" where
  "pipe_mode p = S_IFIFO OR (if pp_read_side p then 0x124 else 0x92)"

definition pipe_set_nonblocking :: "bool \<Rightarrow> pipe \<Rightarrow> pipe" where
  "pipe_set_nonblocking b p = p\<lparr>pp_non_blocking := b\<rparr>"

definition pipe_ioctl_fionread :: "'r pipe_ring \<Rightarrow> (u32 \<Rightarrow> 'm \<Rightarrow> 'm \<times> unit outcome) \<Rightarrow> 'r pipe_shared \<Rightarrow> 'm \<Rightarrow> 'm \<times> nat outcome" where
  "pipe_ioctl_fionread ops write_u32 sh m =
     (case write_u32 (of_nat (pr_occupied ops (ps_buffer sh))) m of
        (m', Inl e) \<Rightarrow> (m', Inl e)
      | (m', Inr _) \<Rightarrow> (m', Ok 0))"

record pipe_events =
  ev_in :: bool
  ev_out :: bool
  ev_hup :: bool

definition pipe_poll :: "'r pipe_ring \<Rightarrow> pipe \<Rightarrow> 'r pipe_shared \<Rightarrow> pipe_events" where
  "pipe_poll ops p sh =
     (if pp_read_side p
      then \<lparr>ev_in = pr_occupied ops (ps_buffer sh) > 0, ev_out = False, ev_hup = pipe_closed sh\<rparr>
      else \<lparr>ev_in = False, ev_out = pr_vacant ops (ps_buffer sh) > 0, ev_hup = False\<rparr>)"

text \<open>
  \<open>sys_pipe2\<close> on the descriptor table: \<open>rd\<close> and \<open>wr\<close> are the two new \<open>Pipe\<close> objects, \<open>write_fds\<close>
  stores the pair through the user pointer. A failing close of the descriptor just added would
  panic.
\<close>

definition sys_pipe2 ::
    "'t flat_ops \<Rightarrow> nat \<Rightarrow> nat \<Rightarrow> nat \<Rightarrow> (i32 \<Rightarrow> i32 \<Rightarrow> 'm \<Rightarrow> 'm \<times> unit outcome) \<Rightarrow> u32 \<Rightarrow> 't \<Rightarrow> 'm
      \<Rightarrow> 't \<times> 'm \<times> int outcome" where
  "sys_pipe2 ops max_nofile rd wr write_fds flags t m =
     (let cloexec = has_flags flags O_CLOEXEC in
      case add_file_like ops max_nofile rd cloexec t of
        (t1, Inl e) \<Rightarrow> (t1, m, Inl e)
      | (t1, Inr read_fd) \<Rightarrow>
          (case add_file_like ops max_nofile wr cloexec t1 of
             (t2, Inl e) \<Rightarrow>
               (case close_file_like ops read_fd t2 of
                  (t3, Inl _) \<Rightarrow> (t3, m, Panicked)
                | (t3, Inr _) \<Rightarrow> (t3, m, Inl e))
           | (t2, Inr write_fd) \<Rightarrow>
               (case write_fds read_fd write_fd m of
                  (m', Inl e) \<Rightarrow> (t2, m', Inl e)
                | (m', Inr _) \<Rightarrow> (t2, m', Ok 0))))"

text \<open>The two ends as created under the flags of the call.\<close>

definition pipe2_ends :: "'r pipe_ring \<Rightarrow> u32 \<Rightarrow> 'r pipe_shared \<times> pipe \<times> pipe" where
  "pipe2_ends ops flags =
     (let (sh, r, w) = pipe_new ops in
      if has_flags flags O_NONBLOCK then (sh, pipe_set_nonblocking True r, pipe_set_nonblocking True w)
      else (sh, r, w))"

end
