(* ===== verification/Fd_Props.thy ===== *)
theory Fd_Props
  imports Fd_Table
begin

section \<open>File descriptor tables: refinement\<close>

text \<open>
  What a process sees of its descriptors is a finite map from numbers to open files. \<open>fd_spec\<close>
  says what each call does to that map; the model of the code implements it, call by call and over
  any sequence of calls.
\<close>

subsection \<open>The contract of the table\<close>

lemma flat_okD:
  assumes "flat_ok ops cap"
  shows "cap \<le> i \<Longrightarrow> fo_get ops t i = None"
    and "fo_count ops t = card {i. fo_get ops t i \<noteq> None}"
    and "fo_get ops t i \<noteq> None \<Longrightarrow> fo_get ops (fo_set ops i e t) = (fo_get ops t)(i \<mapsto> e)"
    and "snd (fo_remove ops i t) = fo_get ops t i"
    and "fo_get ops (fst (fo_remove ops i t)) = (fo_get ops t)(i := None)"
    and "fo_last_id ops t = (if dom (fo_get ops t) = {} then None else Some (Max (dom (fo_get ops t))))"
  using assms unfolding flat_ok_def by metis+

lemma flat_ok_add:
  assumes "flat_ok ops cap"
  shows "\<exists>i<cap. fo_get ops t i = None \<Longrightarrow>
      \<exists>t'. fo_add ops e t = Some (t', LEAST i. fo_get ops t i = None)
         \<and> fo_get ops t' = (fo_get ops t)((LEAST i. fo_get ops t i = None) \<mapsto> e)"
    and "\<not> (\<exists>i<cap. fo_get ops t i = None) \<Longrightarrow> fo_add ops e t = None"
  using assms unfolding flat_ok_def by meson+

lemma flat_ok_add_at:
  assumes "flat_ok ops cap"
  shows "i < cap \<Longrightarrow> fo_get ops t i = None \<Longrightarrow>
      \<exists>t'. fo_add_at ops i e t = Some t' \<and> fo_get ops t' = (fo_get ops t)(i \<mapsto> e)"
    and "\<not> i < cap \<Longrightarrow> fo_add_at ops i e t = None"
  using assms unfolding flat_ok_def by meson+

text \<open>A negative descriptor becomes an index beyond every table.\<close>

lemma fd_index_nonneg: "0 \<le> fd \<Longrightarrow> is_i32 fd \<Longrightarrow> fd_index fd = nat fd"
  by (simp add: fd_index_def is_i32_def)

lemma fd_index_neg:
  assumes "fd < 0" and "is_i32 fd" and "cap \<le> 2 ^ 31"
  shows "cap \<le> fd_index fd"
proof -
  have "(fd + 2 ^ 64) mod 2 ^ 64 = fd + 2 ^ 64"
    using assms by (intro mod_pos_pos_trivial) (auto simp: is_i32_def)
  then have "fd mod 2 ^ 64 = fd + 2 ^ 64" by (simp add: mod_add_self2)
  then show ?thesis using assms by (simp add: fd_index_def is_i32_def)
qed

subsection \<open>The specification\<close>

type_synonym fd_map = "nat \<Rightarrow> file_descriptor option"

datatype fd_call =
    Call_open nat bool
  | Call_close i32
  | Call_dup i32
  | Call_dup2 i32 i32
  | Call_dup3 i32 i32 u32
  | Call_close_range i32 i32 u32

definition spec_get :: "fd_map \<Rightarrow> i32 \<Rightarrow> file_descriptor option" where
  "spec_get m fd = (if fd < 0 then None else m (nat fd))"

definition spec_open :: "nat \<Rightarrow> nat \<Rightarrow> nat \<Rightarrow> bool \<Rightarrow> fd_map \<Rightarrow> fd_map \<times> int outcome" where
  "spec_open cap max_nofile f cloexec m =
     (if max_nofile \<le> card (dom m) \<or> {..<cap} \<subseteq> dom m then (m, Fail TooManyOpenFiles)
      else let i = LEAST i. m i = None
           in (m(i \<mapsto> \<lparr>fd_inner = f, fd_cloexec = cloexec\<rparr>), Ok (int i)))"

definition spec_dup3 :: "nat \<Rightarrow> i32 \<Rightarrow> i32 \<Rightarrow> u32 \<Rightarrow> fd_map \<Rightarrow> fd_map \<times> int outcome" where
  "spec_dup3 cap old new flags m =
     (if any_flag flags (NOT O_CLOEXEC) \<or> old = new then (m, Fail InvalidInput)
      else case spec_get m old of
             None \<Rightarrow> (m, Fail BadFileDescriptor)
           | Some f \<Rightarrow>
               if new < 0 \<or> int cap \<le> new then (m, Fail BadFileDescriptor)
               else (m(nat new \<mapsto> f\<lparr>fd_cloexec := has_flags flags O_CLOEXEC\<rparr>), Ok new))"

definition spec_close_range :: "i32 \<Rightarrow> i32 \<Rightarrow> u32 \<Rightarrow> fd_map \<Rightarrow> (fd_map \<times> int outcome) option" where
  "spec_close_range first lst flags m =
     (if first < 0 \<or> lst < first \<or> any_flag flags (NOT (CLOSE_RANGE_UNSHARE OR CLOSE_RANGE_CLOEXEC)) then Some (m, Fail InvalidInput)
      else if has_flags flags CLOSE_RANGE_UNSHARE then None
      else Some (\<lambda>i. if first \<le> int i \<and> int i \<le> lst
                     then (if has_flags flags CLOSE_RANGE_CLOEXEC then map_option (\<lambda>f. f\<lparr>fd_cloexec := True\<rparr>) (m i) else None)
                     else m i, Ok 0))"

fun fd_spec :: "nat \<Rightarrow> nat \<Rightarrow> fd_call \<Rightarrow> fd_map \<Rightarrow> (fd_map \<times> int outcome) option" where
  "fd_spec cap max_nofile (Call_open f cloexec) m = Some (spec_open cap max_nofile f cloexec m)"
| "fd_spec cap max_nofile (Call_close fd) m =
     Some (case spec_get m fd of
             None \<Rightarrow> (m, Fail BadFileDescriptor)
           | Some _ \<Rightarrow> (m(nat fd := None), Ok 0))"
| "fd_spec cap max_nofile (Call_dup fd) m =
     Some (case spec_get m fd of
             None \<Rightarrow> (m, Fail BadFileDescriptor)
           | Some f \<Rightarrow> spec_open cap max_nofile (fd_inner f) False m)"
| "fd_spec cap max_nofile (Call_dup2 old new) m =
     Some (if old = new
           then (case spec_get m new of None \<Rightarrow> (m, Fail BadFileDescriptor) | Some _ \<Rightarrow> (m, Ok new))
           else spec_dup3 cap old new 0 m)"
| "fd_spec cap max_nofile (Call_dup3 old new flags) m = Some (spec_dup3 cap old new flags m)"
| "fd_spec cap max_nofile (Call_close_range first lst flags) m = spec_close_range first lst flags m"

text \<open>The same calls on the model of the code.\<close>

fun fd_exec :: "'t flat_ops \<Rightarrow> nat \<Rightarrow> fd_call \<Rightarrow> 't \<Rightarrow> ('t \<times> int outcome) option" where
  "fd_exec ops max_nofile (Call_open f cloexec) t = Some (add_file_like ops max_nofile f cloexec t)"
| "fd_exec ops max_nofile (Call_close fd) t = Some (sys_close ops fd t)"
| "fd_exec ops max_nofile (Call_dup fd) t = Some (sys_dup ops max_nofile fd t)"
| "fd_exec ops max_nofile (Call_dup2 old new) t = Some (sys_dup2 ops old new t)"
| "fd_exec ops max_nofile (Call_dup3 old new flags) t = Some (sys_dup3 ops old new flags t)"
| "fd_exec ops max_nofile (Call_close_range first lst flags) t = sys_close_range ops first lst flags t"

fun fd_call_ok :: "fd_call \<Rightarrow> bool" where
  "fd_call_ok (Call_open f cloexec) \<longleftrightarrow> True"
| "fd_call_ok (Call_close fd) \<longleftrightarrow> is_i32 fd"
| "fd_call_ok (Call_dup fd) \<longleftrightarrow> is_i32 fd"
| "fd_call_ok (Call_dup2 old new) \<longleftrightarrow> is_i32 old \<and> is_i32 new"
| "fd_call_ok (Call_dup3 old new flags) \<longleftrightarrow> is_i32 old \<and> is_i32 new"
| "fd_call_ok (Call_close_range first lst flags) \<longleftrightarrow> is_i32 first \<and> is_i32 lst"

subsection \<open>Refinement, call by call\<close>

lemma get_index:
  assumes "flat_ok ops cap" and "cap \<le> 2 ^ 31" and "is_i32 fd"
  shows "fo_get ops t (fd_index fd) = spec_get (fo_get ops t) fd"
  using fd_index_nonneg [of fd] fd_index_neg [of fd cap] flat_okD(1) [OF assms(1)] assms
  by (cases "fd < 0") (simp_all add: spec_get_def)

lemma add_file_like_refines:
  assumes ok: "flat_ok ops cap" and cap: "cap \<le> 2 ^ 31"
  shows "map_prod (fo_get ops) id (add_file_like ops max_nofile f cloexec t)
           = spec_open cap max_nofile f cloexec (fo_get ops t)"
proof -
  let ?m = "fo_get ops t"
  have count: "fo_count ops t = card (dom ?m)"
    using flat_okD(2) [OF ok, of t] by (simp add: dom_def)
  show ?thesis
  proof (cases "max_nofile \<le> card (dom ?m) \<or> {..<cap} \<subseteq> dom ?m")
    case True
    moreover have "fo_add ops e t = None" if "{..<cap} \<subseteq> dom ?m" for e
      using that by (intro flat_ok_add(2) [OF ok]) auto
    ultimately show ?thesis by (auto simp: add_file_like_def spec_open_def count)
  next
    case False
    then have free: "\<exists>i<cap. ?m i = None" by (auto simp: dom_def)
    then have "(LEAST i. ?m i = None) < cap" by (meson LeastI Least_le leD le_less_trans not_le)
    then have "wrap_i32 (int (LEAST i. ?m i = None)) = int (LEAST i. ?m i = None)"
      using cap by (intro wrap_i32_id) (simp add: is_i32_def)
    with False flat_ok_add(1) [OF ok free, of "\<lparr>fd_inner = f, fd_cloexec = cloexec\<rparr>"] show ?thesis
      by (auto simp: add_file_like_def spec_open_def count Let_def)
  qed
qed

lemma sys_close_refines:
  assumes "flat_ok ops cap" and "cap \<le> 2 ^ 31" and "is_i32 fd"
  shows "map_option (map_prod (fo_get ops) id) (fd_exec ops n (Call_close fd) t)
           = fd_spec cap n (Call_close fd) (fo_get ops t)"
proof -
  obtain t' r where rm: "fo_remove ops (fd_index fd) t = (t', r)" by fastforce
  note get = flat_okD(4,5) [OF assms(1), of "fd_index fd" t] get_index [OF assms, of t]
  show ?thesis
  proof (cases r)
    case None
    with rm get have "fo_get ops t' = fo_get ops t" "spec_get (fo_get ops t) fd = None"
      by (auto intro: fun_upd_idem)
    with None rm show ?thesis by (simp add: sys_close_def close_file_like_def)
  next
    case (Some f)
    with rm get have f: "spec_get (fo_get ops t) fd = Some f" by simp
    then have "fd_index fd = nat fd" using fd_index_nonneg [of fd] assms(3)
      by (auto simp: spec_get_def split: if_splits)
    then have "fo_get ops t' = (fo_get ops t)(nat fd := None)" using rm get by simp
    with f Some rm show ?thesis by (simp add: sys_close_def close_file_like_def)
  qed
qed

lemma sys_dup3_refines:
  assumes ok: "flat_ok ops cap" and cap: "cap \<le> 2 ^ 31" and old: "is_i32 old" and new: "is_i32 new"
  shows "map_prod (fo_get ops) id (sys_dup3 ops old new flags t) = spec_dup3 cap old new flags (fo_get ops t)"
proof (cases "any_flag flags (NOT O_CLOEXEC) \<or> old = new")
  case True
  then show ?thesis by (auto simp: sys_dup3_def spec_dup3_def)
next
  case valid: False
  let ?t1 = "fst (fo_remove ops (fd_index new) t)"
  show ?thesis
  proof (cases "spec_get (fo_get ops t) old")
    case None
    with valid show ?thesis by (simp add: sys_dup3_def spec_dup3_def get_index [OF ok cap old])
  next
    case (Some f)
    let ?f = "f\<lparr>fd_cloexec := has_flags flags O_CLOEXEC\<rparr>"
    note common = sys_dup3_def spec_dup3_def get_index [OF ok cap old] Some Let_def
    have t1: "fo_get ops ?t1 = (fo_get ops t)(fd_index new := None)" by (rule flat_okD(5) [OF ok])
    show ?thesis
    proof (cases "fd_index new < cap")
      case True
      then have "0 \<le> new" using fd_index_neg [OF _ new cap] by force
      with True have new': "fd_index new = nat new" "0 \<le> new" "new < int cap"
        using fd_index_nonneg [OF _ new] by auto
      obtain t2 where "fo_add_at ops (fd_index new) ?f ?t1 = Some t2"
        "fo_get ops t2 = (fo_get ops ?t1)(fd_index new \<mapsto> ?f)"
        using flat_ok_add_at(1) [OF ok True, of ?t1 ?f] t1 by auto
      with valid new' t1 show ?thesis by (simp add: common)
    next
      case False
      then have new': "new < 0 \<or> int cap \<le> new"
        using fd_index_nonneg [OF _ new] by force
      have "fo_get ops t (fd_index new) = None" using False by (simp add: flat_okD(1) [OF ok])
      then have "fo_get ops ?t1 = fo_get ops t" by (simp add: t1 fun_upd_idem)
      moreover have "fo_add_at ops (fd_index new) ?f ?t1 = None" by (rule flat_ok_add_at(2) [OF ok False])
      ultimately show ?thesis using valid new' by (simp add: common)
    qed
  qed
qed

text \<open>The loop of \<open>close_range\<close>.\<close>

lemma close_range_loop:
  assumes ok: "flat_ok ops cap" and a: "0 \<le> a" and b: "is_i32 b"
  shows "fo_get ops (fold (close_range_fd ops cloexec) [a..b] t) =
    (\<lambda>i. if a \<le> int i \<and> int i \<le> b
         then (if cloexec then map_option (\<lambda>f. f\<lparr>fd_cloexec := True\<rparr>) (fo_get ops t i) else None)
         else fo_get ops t i)"
  using a
proof (induction "nat (b - a + 1)" arbitrary: a t)
  case 0
  then show ?case by (auto simp: fun_eq_iff)
next
  case (Suc n)
  then have ab: "a \<le> b" and i32: "is_i32 a" using b by (auto simp: is_i32_def)
  have one: "fo_get ops (close_range_fd ops c a t) =
      (fo_get ops t)(nat a := (if c then map_option (\<lambda>f. f\<lparr>fd_cloexec := True\<rparr>) (fo_get ops t (nat a)) else None))"
    for c
    using flat_okD(3,5) [OF ok] fd_index_nonneg [OF Suc.prems i32]
    by (auto simp: close_range_fd_def split: option.split)
  have upto: "[a..b] = a # [a + 1..b]" using ab by (simp add: upto_rec1)
  have IH: "fo_get ops (fold (close_range_fd ops cloexec) [a + 1..b] t') i =
      (if a + 1 \<le> int i \<and> int i \<le> b
       then (if cloexec then map_option (\<lambda>f. f\<lparr>fd_cloexec := True\<rparr>) (fo_get ops t' i) else None)
       else fo_get ops t' i)" for i t'
    using Suc.hyps(1) [of "a + 1" t'] Suc.hyps(2) Suc.prems by simp
  show ?case
  proof
    fix i
    show "fo_get ops (fold (close_range_fd ops cloexec) [a..b] t) i =
      (if a \<le> int i \<and> int i \<le> b
       then (if cloexec then map_option (\<lambda>f. f\<lparr>fd_cloexec := True\<rparr>) (fo_get ops t i) else None)
       else fo_get ops t i)"
      using ab Suc.prems by (cases "int i = a") (auto simp: upto IH one)
  qed
qed

lemma sys_close_range_refines:
  assumes ok: "flat_ok ops cap" and cap: "cap \<le> 2 ^ 31" and i32: "is_i32 lst"
  shows "map_option (map_prod (fo_get ops) id) (sys_close_range ops first lst flags t)
           = spec_close_range first lst flags (fo_get ops t)"
proof -
  let ?m = "fo_get ops t"
  have fin: "dom ?m \<subseteq> {..<cap}" using flat_okD(1) [OF ok] by (force simp: not_le [symmetric])
  show ?thesis
  proof (cases "dom ?m = {}")
    case True
    then have "?m i = None" for i by blast
    with True flat_okD(6) [OF ok, of t] show ?thesis
      by (auto simp: sys_close_range_def spec_close_range_def Let_def)
  next
    case False
    define k where "k = Max (dom ?m)"
    have fin': "finite (dom ?m)" using fin finite_subset by blast
    then have "k < cap" using False fin Max_in [OF fin' False] by (auto simp: k_def)
    then have wrap: "wrap_i32 (int k) = int k" "is_i32 (min lst (int k))"
      using cap i32 by (auto simp: is_i32_def intro!: wrap_i32_id)
    have above: "?m i = None" if "k < i" for i
      using that Max_ge [OF fin', of i] by (auto simp: k_def)
    have last_id: "fo_last_id ops t = Some k" using flat_okD(6) [OF ok, of t] False by (simp add: k_def)
    show ?thesis
    proof (cases "first < 0")
      case True
      then show ?thesis by (simp add: sys_close_range_def spec_close_range_def)
    next
      case False
      then have "fo_get ops (fold (close_range_fd ops c) [first..min lst (int k)] t) =
        (\<lambda>i. if first \<le> int i \<and> int i \<le> lst
         then (if c then map_option (\<lambda>f. f\<lparr>fd_cloexec := True\<rparr>) (?m i) else None) else ?m i)" for c
        using close_range_loop [OF ok _ wrap(2), of first c t] above by (force simp: fun_eq_iff not_le)
      then show ?thesis
        by (simp add: sys_close_range_def spec_close_range_def last_id wrap Let_def)
    qed
  qed
qed

lemma fd_exec_refines:
  assumes ok: "flat_ok ops cap" and cap: "cap \<le> 2 ^ 31" and call: "fd_call_ok call"
  shows "map_option (map_prod (fo_get ops) id) (fd_exec ops max_nofile call t)
           = fd_spec cap max_nofile call (fo_get ops t)"
proof (cases call)
  case (Call_dup fd)
  with call get_index [OF ok cap, of fd t] add_file_like_refines [OF ok cap] show ?thesis
    by (auto simp: sys_dup_def dup_fd_def get_file_like_def split: option.split)
next
  case (Call_dup2 old new)
  with call get_index [OF ok cap, of new t] sys_dup3_refines [OF ok cap] show ?thesis
    by (auto simp: sys_dup2_def get_file_like_def split: option.split)
qed (use call add_file_like_refines [OF ok cap] sys_close_refines [OF ok cap]
    sys_dup3_refines [OF ok cap] sys_close_range_refines [OF ok cap] in auto)

subsection \<open>Sequences of calls\<close>

text \<open>The calls of a process in order; a call that does not return ends the run.\<close>

fun fd_run :: "(fd_call \<Rightarrow> 's \<Rightarrow> ('s \<times> int outcome) option) \<Rightarrow> fd_call list \<Rightarrow> 's \<Rightarrow> ('s \<times> int outcome list) option" where
  "fd_run step [] s = Some (s, [])"
| "fd_run step (c # cs) s =
     (case step c s of
        None \<Rightarrow> None
      | Some (s1, r) \<Rightarrow> map_option (map_prod id ((#) r)) (fd_run step cs s1))"

lemma fd_run_refines:
  assumes "\<And>c t. c \<in> set cs \<Longrightarrow> map_option (map_prod view id) (impl c t) = spec c (view t)"
  shows "map_option (map_prod view id) (fd_run impl cs t) = fd_run spec cs (view t)"
  using assms
proof (induction cs arbitrary: t)
  case (Cons c cs)
  show ?case
  proof (cases "impl c t")
    case None
    with Cons.prems [of c t] show ?thesis by simp
  next
    case (Some p)
    obtain t' r where p: "p = (t', r)" by fastforce
    with Some Cons.prems [of c t] have "spec c (view t) = Some (view t', r)" by simp
    with Some p Cons.IH [of t'] Cons.prems show ?thesis
      by (auto simp: option.map_comp comp_def map_prod_def split_beta dest!: sym [of "map_option _ _"])
  qed
qed simp

text \<open>
  C5: the descriptor calls implement a map from descriptor numbers to open files. For every
  sequence of open, close, dup, dup2, dup3 and close_range calls the results are those of the
  specification, and the final table represents the specified map: a new descriptor is the lowest
  free number, dup3 replaces exactly its target, close_range acts on exactly its range, and a call
  that fails leaves every descriptor as it was.
\<close>

theorem fd_table_refines_map:
  assumes "flat_ok ops cap" and "cap \<le> 2 ^ 31" and "list_all fd_call_ok calls"
  shows "map_option (map_prod (fo_get ops) id) (fd_run (fd_exec ops max_nofile) calls t)
           = fd_run (fd_spec cap max_nofile) calls (fo_get ops t)"
  using assms by (intro fd_run_refines fd_exec_refines) (auto simp: list_all_iff)

text \<open>A table over a list of slots.\<close>

definition slot_get :: "nat \<Rightarrow> file_descriptor option list \<Rightarrow> nat \<Rightarrow> file_descriptor option" where
  "slot_get cap t i = (if i < cap \<and> i < length t then t ! i else None)"

definition slot_put :: "nat \<Rightarrow> nat \<Rightarrow> file_descriptor option \<Rightarrow> file_descriptor option list \<Rightarrow> file_descriptor option list" where
  "slot_put cap i e t = (take cap t @ replicate (cap - length t) None)[i := e]"

definition slot_free :: "nat \<Rightarrow> file_descriptor option list \<Rightarrow> nat list" where
  "slot_free cap t = filter (\<lambda>i. slot_get cap t i = None) [0..<cap]"

definition slot_used :: "nat \<Rightarrow> file_descriptor option list \<Rightarrow> nat list" where
  "slot_used cap t = filter (\<lambda>i. slot_get cap t i \<noteq> None) [0..<cap]"

definition slot_table :: "nat \<Rightarrow> file_descriptor option list flat_ops" where
  "slot_table cap =
     \<lparr>fo_get = slot_get cap,
      fo_set = (\<lambda>i e t. slot_put cap i (Some e) t),
      fo_count = (\<lambda>t. length (slot_used cap t)),
      fo_add = (\<lambda>e t. case slot_free cap t of [] \<Rightarrow> None | i # _ \<Rightarrow> Some (slot_put cap i (Some e) t, i)),
      fo_add_at = (\<lambda>i e t. if i < cap \<and> slot_get cap t i = None then Some (slot_put cap i (Some e) t) else None),
      fo_remove = (\<lambda>i t. (slot_put cap i None t, slot_get cap t i)),
      fo_last_id = (\<lambda>t. case slot_used cap t of [] \<Rightarrow> None | xs \<Rightarrow> Some (last xs))\<rparr>"

lemma slot_get_put: "slot_get cap (slot_put cap i e t) = (\<lambda>j. if j = i \<and> i < cap then e else slot_get cap t j)"
  by (auto simp: slot_get_def slot_put_def fun_eq_iff nth_list_update nth_append)

lemma filter_upt_Least:
  assumes "filter P [0..<b] = i # xs"
  shows "i = (LEAST k. P k)" and "i < b" and "P i"
proof -
  obtain us vs where split: "[0..<b] = us @ i # vs" and us: "\<forall>u\<in>set us. \<not> P u" and i: "P i"
    using assms by (auto simp: filter_eq_Cons_iff)
  have len: "length us < b" using arg_cong [OF split, of length] by simp
  have nth: "[0..<b] ! k = k" if "k < b" for k using that by simp
  have "i = length us" using nth [OF len] split by simp
  moreover have "k \<in> set us" if "k < length us" for k
    using nth [of k] that len split by (metis less_trans nth_append nth_mem)
  ultimately have "\<And>k. P k \<Longrightarrow> i \<le> k" using us by (meson not_le)
  with i show "i = (LEAST k. P k)" by (metis Least_equality)
  show "i < b" "P i" using len i \<open>i = length us\<close> by simp_all
qed

lemma slot_dom: "{i. slot_get cap t i \<noteq> None} = set (slot_used cap t)"
  by (auto simp: slot_used_def slot_get_def split: if_splits)

lemma sorted_last_Max:
  fixes xs :: "nat list"
  assumes "sorted xs" and "xs \<noteq> []"
  shows "last xs = Max (set xs)"
proof -
  have "sorted (butlast xs @ [last xs])" using assms by simp
  then have "\<forall>x\<in>set (butlast xs). x \<le> last xs" by (simp only: sorted_append) simp
  then have "\<And>x. x \<in> set xs \<Longrightarrow> x \<le> last xs"
    using assms(2) by (metis append_butlast_last_id in_set_butlastD order_refl rotate1.simps(2) set_ConsD set_rotate1)
  then show ?thesis using assms(2) by (intro Max_eqI [symmetric]) auto
qed

lemma slot_table_ok: "flat_ok (slot_table cap) cap"
proof -
  have add: "if \<exists>i<cap. slot_get cap t i = None
      then \<exists>t'. fo_add (slot_table cap) e t = Some (t', LEAST i. slot_get cap t i = None)
             \<and> slot_get cap t' = (slot_get cap t)((LEAST i. slot_get cap t i = None) \<mapsto> e)
      else fo_add (slot_table cap) e t = None" for t e
  proof (cases "slot_free cap t")
    case Nil
    then show ?thesis by (auto simp: slot_table_def slot_free_def filter_empty_conv)
  next
    case (Cons i xs)
    from filter_upt_Least [OF Cons [unfolded slot_free_def]] Cons show ?thesis
      by (auto simp: slot_table_def slot_get_put fun_eq_iff)
  qed
  have last_id: "fo_last_id (slot_table cap) t =
      (if dom (slot_get cap t) = {} then None else Some (Max (dom (slot_get cap t))))" for t
  proof (cases "slot_used cap t = []")
    case True
    then show ?thesis using slot_dom [of cap t] by (simp add: slot_table_def dom_def)
  next
    case False
    moreover have "sorted (slot_used cap t)"
      unfolding slot_used_def by (rule sorted_wrt_filter) simp
    ultimately show ?thesis
      using slot_dom [of cap t] sorted_last_Max
      by (auto simp: slot_table_def dom_def split: list.split)
  qed
  have count: "fo_count (slot_table cap) t = card {i. slot_get cap t i \<noteq> None}" for t
    unfolding slot_dom by (subst distinct_card) (simp_all add: slot_table_def slot_used_def)
  have get: "fo_get (slot_table cap) = slot_get cap" by (simp add: slot_table_def)
  show ?thesis
    unfolding flat_ok_def get
  proof (intro conjI allI)
    fix t i e
    show "cap \<le> i \<longrightarrow> slot_get cap t i = None"
      and "slot_get cap t i \<noteq> None \<longrightarrow>
        slot_get cap (fo_set (slot_table cap) i e t) = (slot_get cap t)(i \<mapsto> e)"
      and "snd (fo_remove (slot_table cap) i t) = slot_get cap t i"
      and "slot_get cap (fst (fo_remove (slot_table cap) i t)) = (slot_get cap t)(i := None)"
      by (auto simp: slot_table_def slot_get_put fun_eq_iff) (auto simp: slot_get_def)
    show "if i < cap \<and> slot_get cap t i = None
        then \<exists>t'. fo_add_at (slot_table cap) i e t = Some t'
               \<and> slot_get cap t' = (slot_get cap t)(i \<mapsto> e)
        else fo_add_at (slot_table cap) i e t = None"
      by (auto simp: slot_table_def slot_get_put fun_eq_iff)
  qed (rule count add last_id)+
qed


definition fd_demo_calls :: "fd_call list" where
  "fd_demo_calls = [Call_open 7 False, Call_open 8 True, Call_dup 0, Call_dup3 1 3 O_CLOEXEC, Call_close 0,
     Call_close_range 2 100 4, Call_close 9]"

theorem fd_table_refines_map_witness:
  "map_option snd (fd_run (fd_exec (slot_table 4) 4) fd_demo_calls [])
     = Some [Ok 0, Ok 1, Ok 2, Ok 3, Ok 0, Ok 0, Fail BadFileDescriptor]
   \<and> map_option (map_prod (fo_get (slot_table 4)) id) (fd_run (fd_exec (slot_table 4) 4) fd_demo_calls [])
     = fd_run (fd_spec 4 4) fd_demo_calls (fo_get (slot_table 4) [])"
proof
  show "map_option snd (fd_run (fd_exec (slot_table 4) 4) fd_demo_calls [])
     = Some [Ok 0, Ok 1, Ok 2, Ok 3, Ok 0, Ok 0, Fail BadFileDescriptor]"
    by code_simp
  show "map_option (map_prod (fo_get (slot_table 4)) id) (fd_run (fd_exec (slot_table 4) 4) fd_demo_calls [])
     = fd_run (fd_spec 4 4) fd_demo_calls (fo_get (slot_table 4) [])"
    by (rule fd_table_refines_map [OF slot_table_ok]) (simp_all add: fd_demo_calls_def is_i32_def)
qed

text \<open>
  \<open>close_range\<close> with the \<open>UNSHARE\<close> flag never returns: on every table, for every valid
  range, the call waits for a lock that it holds itself.
\<close>

lemma close_range_unshare_blocks:
  assumes "0 \<le> first" and "first \<le> lst"
    and "flags = CLOSE_RANGE_UNSHARE \<or> flags = CLOSE_RANGE_UNSHARE OR CLOSE_RANGE_CLOEXEC"
  shows "sys_close_range ops first lst flags t = None"
  using assms
  by (auto simp: sys_close_range_def any_flag_def has_flags_def CLOSE_RANGE_UNSHARE_def CLOSE_RANGE_CLOEXEC_def)

lemma close_range_unshare_blocks_witness:
  "sys_close_range (slot_table 4) 3 5 CLOSE_RANGE_UNSHARE [] = None"
  by (rule close_range_unshare_blocks) simp_all

text \<open>\<open>F_DUPFD\<close> does not look at its argument, the least descriptor the caller asks for.\<close>

lemma fcntl_dupfd_ignores_arg:
  "sys_fcntl ops fl max_nofile fd F_DUPFD arg t s = sys_fcntl ops fl max_nofile fd F_DUPFD 0 t s"
  by (simp add: sys_fcntl_def)

end
