(* ===== verification/Pipe_Props.thy ===== *)
theory Pipe_Props
  imports Pipe Fd_Props
begin

section \<open>Pipes: properties\<close>

text \<open>
  A pipe is a bounded first-in first-out byte stream: whatever the readers and writers do, in
  whatever order, and however the buffer is resized, what was sent is what was received followed by
  what is in the buffer.
\<close>

subsection \<open>Contracts of the caller's buffers\<close>

definition dst_ok :: "(u8 list \<Rightarrow> 'd \<Rightarrow> 'd \<times> nat outcome) \<Rightarrow> ('d \<Rightarrow> u8 list) \<Rightarrow> ('d \<Rightarrow> nat) \<Rightarrow> bool" where
  "dst_ok dst_write data room \<longleftrightarrow>
     (\<forall>bs d d' n. dst_write bs d = (d', Ok n) \<longrightarrow>
        n = min (length bs) (room d) \<and> data d' = data d @ take n bs \<and> room d' = room d - n)"

definition src_ok :: "(nat \<Rightarrow> 'd \<Rightarrow> 'd \<times> u8 list outcome) \<Rightarrow> ('d \<Rightarrow> u8 list) \<Rightarrow> bool" where
  "src_ok src_read rest \<longleftrightarrow>
     (\<forall>n s s' bs. src_read n s = (s', Ok bs) \<longrightarrow> length bs \<le> n \<and> rest s = bs @ rest s')"

lemma pipe_ring_okD:
  assumes "pipe_ring_ok ops view"
  shows "length (view r) \<le> pr_capacity ops r"
    and "pr_occupied ops r = length (view r)"
    and "pr_vacant ops r = pr_capacity ops r - length (view r)"
    and "fst (pr_slices ops r) @ snd (pr_slices ops r) = view r"
    and "fst (pr_vacant_slices ops r) + snd (pr_vacant_slices ops r) = pr_capacity ops r - length (view r)"
    and "0 < n \<Longrightarrow> view (pr_new ops n) = []"
    and "0 < n \<Longrightarrow> pr_capacity ops (pr_new ops n) = n"
    and "n \<le> length (view r) \<Longrightarrow> view (pr_advance_read ops n r) = drop n (view r)"
    and "length bs \<le> pr_capacity ops r - length (view r) \<Longrightarrow> view (pr_fill ops bs r) = view r @ bs"
    and "view (pr_push_slice ops bs r) = view r @ take (pr_capacity ops r - length (view r)) bs"
    and "pr_capacity ops (pr_push_slice ops bs r) = pr_capacity ops r"
  using assms unfolding pipe_ring_ok_def by blast+

lemma pipe_copy_out_ok:
  assumes "dst_ok dst_write data room" and "pipe_copy_out dst_write left right d = (d', Ok n)"
  shows "n = min (length (left @ right)) (room d)" and "data d' = data d @ take n (left @ right)"
proof -
  obtain d1 k where one: "dst_write left d = (d1, Ok k)"
    using assms(2) by (auto simp: pipe_copy_out_def split: prod.splits sum.splits)
  then have k: "k = min (length left) (room d)" "data d1 = data d @ take k left" "room d1 = room d - k"
    using assms(1) by (auto simp: dst_ok_def)
  have "n = min (length (left @ right)) (room d) \<and> data d' = data d @ take n (left @ right)"
  proof (cases "length left \<le> k")
    case True
    then obtain j where "dst_write right d1 = (d', Ok j)" "n = k + j"
      using assms(2) one by (auto simp: pipe_copy_out_def split: prod.splits sum.splits)
    moreover from this have "j = min (length right) (room d1)" "data d' = data d1 @ take j right"
      using assms(1) by (auto simp: dst_ok_def)
    ultimately show ?thesis using True k by auto
  next
    case False
    then show ?thesis using assms(2) one k by (auto simp: pipe_copy_out_def)
  qed
  then show "n = min (length (left @ right)) (room d)" and "data d' = data d @ take n (left @ right)"
    by blast+
qed

lemma pipe_copy_in_ok:
  assumes "src_ok src_read rest" and "pipe_copy_in src_read left right s = (s', Ok bs)"
  shows "length bs \<le> left + right" and "rest s = bs @ rest s'"
proof -
  have src: "length xs \<le> n \<and> rest t = xs @ rest t'" if "src_read n t = (t', Ok xs)" for n t t' xs
    using assms(1) that by (auto simp: src_ok_def)
  have "length bs \<le> left + right \<and> rest s = bs @ rest s'"
    using assms(2)
    by (auto simp: pipe_copy_in_def split: prod.splits sum.splits if_splits dest!: src)
  then show "length bs \<le> left + right" and "rest s = bs @ rest s'" by blast+
qed

subsection \<open>Single operations\<close>

lemma pipe_read_attempt_takes:
  assumes ring: "pipe_ring_ok ops view" and dst: "dst_ok dst_write data room"
    and read: "pipe_read_attempt ops dst_write d sh = (sh', d', r)"
  shows "view (ps_buffer sh) = (case r of Inr _ \<Rightarrow> drop (length (data d)) (data d') | Inl _ \<Rightarrow> []) @ view (ps_buffer sh')"
    and "r = Ok 0 \<Longrightarrow> room d \<noteq> 0 \<Longrightarrow> view (ps_buffer sh) = [] \<and> pipe_closed sh"
proof -
  let ?v = "view (ps_buffer sh)"
  obtain left right where sl: "pr_slices ops (ps_buffer sh) = (left, right)" by fastforce
  have v: "left @ right = ?v" using pipe_ring_okD(4) [OF ring, of "ps_buffer sh"] sl by simp
  obtain d2 c where copy: "pipe_copy_out dst_write left right d = (d2, c)" by fastforce
  show "?v = (case r of Inr _ \<Rightarrow> drop (length (data d)) (data d') | Inl _ \<Rightarrow> []) @ view (ps_buffer sh')"
    and "r = Ok 0 \<Longrightarrow> room d \<noteq> 0 \<Longrightarrow> ?v = [] \<and> pipe_closed sh"
  proof (atomize (full), cases c)
    case (Inl e)
    with read sl copy show "?v = (case r of Inr _ \<Rightarrow> drop (length (data d)) (data d') | Inl _ \<Rightarrow> []) @ view (ps_buffer sh')
      \<and> (r = Ok 0 \<longrightarrow> room d \<noteq> 0 \<longrightarrow> ?v = [] \<and> pipe_closed sh)"
      by (auto simp: pipe_read_attempt_def)
  next
    case (Inr n)
    then have n: "n = min (length ?v) (room d)" "data d2 = data d @ take n ?v"
      using pipe_copy_out_ok [OF dst, of left right d d2 n] copy unfolding v by simp_all
    then have adv: "view (pr_advance_read ops n (ps_buffer sh)) = drop n ?v"
      by (intro pipe_ring_okD(8) [OF ring]) simp
    have zero: "?v = []" if "n = 0" "room d \<noteq> 0" using that n(1) by (cases ?v) (auto simp: min_def split: if_splits)
    from read sl copy Inr n(2) adv zero show "?v = (case r of Inr _ \<Rightarrow> drop (length (data d)) (data d') | Inl _ \<Rightarrow> []) @ view (ps_buffer sh')
      \<and> (r = Ok 0 \<longrightarrow> room d \<noteq> 0 \<longrightarrow> ?v = [] \<and> pipe_closed sh)"
      by (auto simp: pipe_read_attempt_def wake_def pipe_closed_def Let_def split: if_splits)
  qed
qed

lemma pipe_read_takes:
  assumes "pipe_ring_ok ops view" and "dst_ok dst_write data room"
    and "pipe_read ops dst_write dst_full p d sh = (sh', d', r)"
  shows "view (ps_buffer sh) = (case r of Inr _ \<Rightarrow> drop (length (data d)) (data d') | Inl _ \<Rightarrow> []) @ view (ps_buffer sh')"
  using assms(3) pipe_read_attempt_takes(1) [OF assms(1,2), of d sh sh' d' r]
  by (auto simp: pipe_read_def split: if_splits)

lemma pipe_write_attempt_appends:
  assumes ring: "pipe_ring_ok ops view" and src: "src_ok src_read rest"
    and wr: "pipe_write_attempt ops src_read nb sz tw s sh = (sh', s', tw', sig, r)"
  shows "view (ps_buffer sh') = view (ps_buffer sh) @ take (tw' - tw) (rest s)"
proof (cases "pipe_closed sh")
  case True
  with wr show ?thesis by (auto simp: pipe_write_attempt_def)
next
  case False
  obtain left right where sl: "pr_vacant_slices ops (ps_buffer sh) = (left, right)" by fastforce
  obtain s2 c where copy: "pipe_copy_in src_read left right s = (s2, c)" by fastforce
  show ?thesis
  proof (cases c)
    case (Inl e)
    with False wr sl copy show ?thesis by (auto simp: pipe_write_attempt_def)
  next
    case (Inr bs)
    then have bs: "length bs \<le> left + right" "rest s = bs @ rest s2"
      using pipe_copy_in_ok [OF src] copy by auto
    then have "view (pr_fill ops bs (ps_buffer sh)) = view (ps_buffer sh) @ bs"
      using pipe_ring_okD(5) [OF ring, of "ps_buffer sh"] sl by (intro pipe_ring_okD(9) [OF ring]) simp
    with False wr sl copy Inr bs show ?thesis
      by (auto simp: pipe_write_attempt_def wake_def Let_def split: if_splits)
  qed
qed

lemma resize_target_bounds:
  assumes "n \<le> 2 ^ 64 - 4096"
  shows "n \<le> resize_target n" and "0 < resize_target n"
proof -
  let ?k = "max ((n + 4095) div 4096) 1"
  have "?k * 4096 < 2 ^ 64" using assms by (auto simp: max_def)
  then have t: "resize_target n = ?k * 4096" by (simp add: resize_target_def umul_exact)
  have "n \<le> (n + 4095) div 4096 * 4096" by linarith
  then show "n \<le> resize_target n" and "0 < resize_target n" unfolding t by (auto simp: max_def)
qed

lemma pipe_resize_keeps:
  assumes ring: "pipe_ring_ok ops view" and pos: "0 < resize_target n"
    and rs: "pipe_resize ops n sh = (sh', r)"
  shows "view (ps_buffer sh') = view (ps_buffer sh)"
    and "r = Ok () \<Longrightarrow> pipe_capacity ops sh' = resize_target n"
proof -
  let ?v = "view (ps_buffer sh)" and ?new = "pr_new ops (resize_target n)"
  obtain left right where sl: "pr_slices ops (ps_buffer sh) = (left, right)" by fastforce
  have v: "left @ right = ?v" using pipe_ring_okD(4) [OF ring, of "ps_buffer sh"] sl by simp
  note new = pipe_ring_okD(6,7) [OF ring pos]
  have "view (pr_push_slice ops right (pr_push_slice ops left ?new)) = ?v" if "length ?v \<le> resize_target n"
  proof -
    have "length left + length right \<le> resize_target n" using that unfolding v [symmetric] by simp
    then have "view (pr_push_slice ops right (pr_push_slice ops left ?new)) = left @ right"
      by (simp add: pipe_ring_okD(10,11) [OF ring] new)
    with v show ?thesis by simp
  qed
  moreover have "pr_capacity ops (pr_push_slice ops right (pr_push_slice ops left ?new)) = resize_target n"
    using new by (simp add: pipe_ring_okD(11) [OF ring])
  ultimately show "view (ps_buffer sh') = ?v" and "r = Ok () \<Longrightarrow> pipe_capacity ops sh' = resize_target n"
    using rs sl pipe_ring_okD(2) [OF ring, of "ps_buffer sh"]
    by (auto simp: pipe_resize_def pipe_capacity_def Let_def split: if_splits)
qed

subsection \<open>Runs of a pipe\<close>

text \<open>
  Reads, attempts of writes, resizes and closes of a pipe in any order. \<open>sent\<close> collects the bytes the
  writers' attempts took from their buffers, \<open>recv\<close> the bytes successful reads delivered.
\<close>

inductive pipe_run ::
    "'r pipe_ring \<Rightarrow> (u8 list \<Rightarrow> 'd \<Rightarrow> 'd \<times> nat outcome) \<Rightarrow> ('d \<Rightarrow> u8 list) \<Rightarrow> (nat \<Rightarrow> 's \<Rightarrow> 's \<times> u8 list outcome)
      \<Rightarrow> ('s \<Rightarrow> u8 list) \<Rightarrow> 'r pipe_shared \<Rightarrow> u8 list \<Rightarrow> u8 list \<Rightarrow> bool"
  for ops dst_write data src_read rest where
  pipe_start: "pipe_run ops dst_write data src_read rest (fst (pipe_new ops)) [] []"
| pipe_step_read: "pipe_run ops dst_write data src_read rest sh sent recv
    \<Longrightarrow> pipe_read ops dst_write dst_full p d sh = (sh', d', r)
    \<Longrightarrow> pipe_run ops dst_write data src_read rest sh' sent
          (recv @ (case r of Inr _ \<Rightarrow> drop (length (data d)) (data d') | Inl _ \<Rightarrow> []))"
| pipe_step_write: "pipe_run ops dst_write data src_read rest sh sent recv
    \<Longrightarrow> pipe_write_attempt ops src_read nb sz tw s sh = (sh', s', tw', sig, r)
    \<Longrightarrow> pipe_run ops dst_write data src_read rest sh' (sent @ take (tw' - tw) (rest s)) recv"
| pipe_step_resize: "pipe_run ops dst_write data src_read rest sh sent recv
    \<Longrightarrow> n \<le> 2 ^ 64 - 4096 \<Longrightarrow> pipe_resize ops n sh = (sh', r)
    \<Longrightarrow> pipe_run ops dst_write data src_read rest sh' sent recv"
| pipe_step_drop: "pipe_run ops dst_write data src_read rest sh sent recv
    \<Longrightarrow> pipe_run ops dst_write data src_read rest (pipe_drop sh) sent recv"

lemma pipe_run_fifo:
  assumes ring: "pipe_ring_ok ops view" and dst: "dst_ok dst_write data room" and src: "src_ok src_read rest"
    and "pipe_run ops dst_write data src_read rest sh sent recv"
  shows "sent = recv @ view (ps_buffer sh)"
  using assms(4)
proof (induction rule: pipe_run.induct)
  case pipe_start
  show ?case by (simp add: pipe_new_def RING_BUFFER_INIT_SIZE_def pipe_ring_okD(6) [OF ring])
next
  case (pipe_step_read sh sent recv dst_full p d sh' d' r)
  from pipe_read_takes [OF ring dst pipe_step_read.hyps(2)] pipe_step_read.IH show ?case by simp
next
  case (pipe_step_write sh sent recv nb sz tw s sh' s' tw' sig r)
  from pipe_write_attempt_appends [OF ring src pipe_step_write.hyps(2)] pipe_step_write.IH show ?case by simp
next
  case (pipe_step_resize sh sent recv n sh' r)
  from pipe_resize_keeps(1) [OF ring resize_target_bounds(2) pipe_step_resize.hyps(3)] pipe_step_resize
  show ?case by simp
next
  case (pipe_step_drop sh sent recv)
  then show ?case by (simp add: pipe_drop_def)
qed


text \<open>Concrete buffers: a ring over a list, a destination with room for some bytes, a list to send.\<close>

definition list_pipe_ring :: "(nat \<times> u8 list) pipe_ring" where
  "list_pipe_ring =
     \<lparr>pr_new = (\<lambda>n. (n, [])),
      pr_capacity = fst,
      pr_occupied = (\<lambda>(c, xs). length (take c xs)),
      pr_vacant = (\<lambda>(c, xs). c - length (take c xs)),
      pr_slices = (\<lambda>(c, xs). (take c xs, [])),
      pr_advance_read = (\<lambda>n (c, xs). (c, drop n (take c xs))),
      pr_vacant_slices = (\<lambda>(c, xs). (c - length (take c xs), 0)),
      pr_fill = (\<lambda>bs (c, xs). (c, take c xs @ bs)),
      pr_push_slice = (\<lambda>bs (c, xs). (c, take c xs @ bs))\<rparr>"

definition list_dst_write :: "u8 list \<Rightarrow> nat \<times> u8 list \<Rightarrow> (nat \<times> u8 list) \<times> nat outcome" where
  "list_dst_write bs d = (let n = min (length bs) (fst d) in ((fst d - n, snd d @ take n bs), Ok n))"

definition list_src_read :: "nat \<Rightarrow> u8 list \<Rightarrow> u8 list \<times> u8 list outcome" where
  "list_src_read n s = (drop n s, Ok (take n s))"

lemma list_pipe_ring_ok: "pipe_ring_ok list_pipe_ring (\<lambda>(c, xs). take c xs)"
  by (auto simp: pipe_ring_ok_def list_pipe_ring_def)

lemma list_dst_ok: "dst_ok list_dst_write snd fst"
  by (auto simp: dst_ok_def list_dst_write_def Let_def)

lemma list_src_ok: "src_ok list_src_read id"
  by (auto simp: src_ok_def list_src_read_def)

definition pipe_demo_write :: "(nat \<times> u8 list) pipe_shared" where
  "pipe_demo_write = fst (pipe_write_attempt list_pipe_ring list_src_read False 3 0 [10, 20, 30] (fst (pipe_new list_pipe_ring)))"

definition pipe_demo_read :: "(nat \<times> u8 list) pipe_shared" where
  "pipe_demo_read = fst (pipe_read list_pipe_ring list_dst_write False \<lparr>pp_read_side = True, pp_non_blocking = False\<rparr> (2, []) pipe_demo_write)"

lemmas pipe_demo_defs = pipe_demo_write_def pipe_demo_read_def pipe_write_attempt_def pipe_read_def
  pipe_read_attempt_def pipe_copy_in_def pipe_copy_out_def pipe_new_def pipe_closed_def wake_def Let_def
  list_pipe_ring_def list_src_read_def list_dst_write_def RING_BUFFER_INIT_SIZE_def

lemma pipe_demo_run:
  "pipe_run list_pipe_ring list_dst_write snd list_src_read id pipe_demo_read [10, 20, 30] [10, 20]"
proof -
  let ?s0 = "fst (pipe_new list_pipe_ring)" and ?p = "\<lparr>pp_read_side = True, pp_non_blocking = False\<rparr>"
  have "pipe_run list_pipe_ring list_dst_write snd list_src_read id pipe_demo_write ([] @ take (3 - 0) (id [10, 20, 30])) []"
    by (rule pipe_step_write [OF pipe_start, where nb = False and sz = 3 and s' = "[]" and sig = False and r = "Ok 3"])
      (simp add: pipe_demo_defs)
  then have "pipe_run list_pipe_ring list_dst_write snd list_src_read id pipe_demo_read ([] @ take (3 - 0) (id [10, 20, 30]))
      ([] @ (case Ok (2 :: nat) of Inr _ \<Rightarrow> drop (length (snd (2 :: nat, [] :: u8 list))) (snd (0 :: nat, [10, 20])) | Inl _ \<Rightarrow> []))"
    by (rule pipe_step_read [where dst_full = False and p = ?p]) (simp add: pipe_demo_defs)
  then show ?thesis by simp
qed



subsection \<open>Creating a pipe\<close>

lemma slot_after_add:
  assumes ok: "flat_ok ops cap" and cap: "cap \<le> 2 ^ 31"
    and add: "add_file_like ops max_nofile f cloexec t = (t1, Ok fd)"
  shows "0 \<le> fd \<and> is_i32 fd \<and> fo_get ops t (nat fd) = None
    \<and> fo_get ops t1 = (fo_get ops t)(nat fd \<mapsto> \<lparr>fd_inner = f, fd_cloexec = cloexec\<rparr>)"
proof -
  let ?m = "fo_get ops t" and ?i = "LEAST i. fo_get ops t i = None"
  have eq: "(fo_get ops t1, Ok fd) = spec_open cap max_nofile f cloexec ?m"
    using add_file_like_refines [OF ok cap, of max_nofile f cloexec t] add by simp
  then have free: "\<exists>i<cap. ?m i = None" and fd: "fd = int ?i"
    and m1: "fo_get ops t1 = ?m(?i \<mapsto> \<lparr>fd_inner = f, fd_cloexec = cloexec\<rparr>)"
    by (auto simp: spec_open_def Let_def dom_def split: if_splits)
  from free obtain i where i: "i < cap" "?m i = None" by blast
  then have "?m ?i = None" "?i \<le> i" by (auto intro: LeastI Least_le)
  with i cap fd m1 show ?thesis by (simp add: is_i32_def)
qed

lemma add_file_like_error_keeps:
  assumes "flat_ok ops cap" and "cap \<le> 2 ^ 31" and "add_file_like ops max_nofile f cloexec t = (t1, Inl e)"
  shows "fo_get ops t1 = fo_get ops t \<and> e = Err TooManyOpenFiles"
  using add_file_like_refines [OF assms(1,2), of max_nofile f cloexec t] assms(3)
  by (auto simp: spec_open_def Let_def split: if_splits)

lemma close_after_add:
  assumes ok: "flat_ok ops cap" and fd: "0 \<le> fd" "is_i32 fd" and open_fd: "fo_get ops t (nat fd) = Some e"
  shows "\<exists>t'. close_file_like ops fd t = (t', Ok ()) \<and> fo_get ops t' = (fo_get ops t)(nat fd := None)"
  using flat_okD(4,5) [OF ok, of "nat fd" t] fd_index_nonneg [OF fd] open_fd
  by (cases "fo_remove ops (nat fd) t") (auto simp: close_file_like_def)

text \<open>
  creating a pipe is atomic with respect to the descriptor limit. If the table cannot take two
  descriptors, the call fails with \<open>TooManyOpenFiles\<close> and the table is as before; otherwise
  two new descriptors are added for the two ends and no other changes. When storing their numbers
  in user memory faults, the call reports the fault but both descriptors stay open.
\<close>

lemma pipe2_descriptors:
  assumes ok: "flat_ok ops cap" and cap: "cap \<le> 2 ^ 31"
    and call: "sys_pipe2 ops max_nofile rd wr write_fds flags t m = (t', m', r)"
  shows "fo_get ops t' = fo_get ops t \<and> m' = m \<and> r = Fail TooManyOpenFiles
    \<or> (\<exists>i j. i \<noteq> j \<and> fo_get ops t i = None \<and> fo_get ops t j = None
        \<and> fo_get ops t' = (fo_get ops t)(i \<mapsto> \<lparr>fd_inner = rd, fd_cloexec = has_flags flags O_CLOEXEC\<rparr>,
                                     j \<mapsto> \<lparr>fd_inner = wr, fd_cloexec = has_flags flags O_CLOEXEC\<rparr>)
        \<and> (case write_fds (int i) (int j) m of
             (m1, Inl e) \<Rightarrow> m' = m1 \<and> r = Inl e
           | (m1, Inr _) \<Rightarrow> m' = m1 \<and> r = Ok 0))"
proof -
  let ?c = "has_flags flags O_CLOEXEC"
  obtain t1 r1 where one: "add_file_like ops max_nofile rd ?c t = (t1, r1)" by fastforce
  show ?thesis
  proof (cases r1)
    case (Inl e)
    with one call add_file_like_error_keeps [OF ok cap] show ?thesis
      by (auto simp: sys_pipe2_def Let_def)
  next
    case (Inr read_fd)
    note first = slot_after_add [OF ok cap one [unfolded Inr]]
    obtain t2 r2 where two: "add_file_like ops max_nofile wr ?c t1 = (t2, r2)" by fastforce
    show ?thesis
    proof (cases r2)
      case (Inl e)
      then have t2: "fo_get ops t2 = fo_get ops t1" "e = Err TooManyOpenFiles"
        using add_file_like_error_keeps [OF ok cap] two by blast+
      obtain t3 where "close_file_like ops read_fd t2 = (t3, Ok ())"
        "fo_get ops t3 = (fo_get ops t2)(nat read_fd := None)"
        using close_after_add [OF ok, of read_fd t2] first t2 by auto
      with call one two Inr Inl t2 first show ?thesis
        by (auto simp: sys_pipe2_def Let_def fun_upd_idem)
    next
      case write_fd: (Inr write_fd)
      note second = slot_after_add [OF ok cap two [unfolded write_fd]]
      have "nat read_fd \<noteq> nat write_fd" "fo_get ops t (nat write_fd) = None"
        using first second by (auto split: if_splits)
      with call one two Inr write_fd first second show ?thesis
        by (intro disjI2 exI [of _ "nat read_fd"] exI [of _ "nat write_fd"])
          (auto simp: sys_pipe2_def Let_def split: prod.splits sum.splits)
    qed
  qed
qed

lemma pipe2_descriptors_witness:
  "\<exists>i j. i \<noteq> j \<and> fo_get (slot_table 4) [] i = None \<and> fo_get (slot_table 4) [] j = None
     \<and> fst (snd (sys_pipe2 (slot_table 4) 4 7 8 (\<lambda>a b m. (m + 1, Fail BadAddress)) 0 [] (0 :: nat))) = 1"
proof -
  define res where "res = sys_pipe2 (slot_table 4) 4 7 8 (\<lambda>a b m. (m + 1, Fail BadAddress)) 0 [] (0 :: nat)"
  have m: "fst (snd res) = 1" unfolding res_def by code_simp
  obtain t' m' r where "sys_pipe2 (slot_table 4) 4 7 8 (\<lambda>a b m. (m + 1, Fail BadAddress)) 0 [] (0 :: nat) = (t', m', r)"
    using prod_cases3 by blast
  from pipe2_descriptors [OF slot_table_ok _ this] this m show ?thesis by (auto simp: res_def)
qed

end
