(* ===== verification/Event_Fd.thy ===== *)
theory Event_Fd
  imports Fd_Table
begin

section \<open>Event counters\<close>

text \<open>
  \<open>api/src/file/event.rs\<close> and \<open>api/src/syscall/fs/event.rs\<close>. The counter is an atomic
  64-bit word, kept here as a natural below \<open>2 ^ 64\<close>; one attempt of a read or write is one
  \<open>fetch_update\<close>. The bytes are in the order of the supported targets, little endian.
\<close>

definition u64_max :: nat where "u64_max = 2 ^ 64 - 1"

record event_fd =
  ef_count :: nat
  ef_semaphore :: bool
  ef_non_blocking :: bool
  ef_rx_wakes :: nat
  ef_tx_wakes :: nat

definition event_fd_new :: "u64 \<Rightarrow> bool \<Rightarrow> event_fd" where
  "event_fd_new initval semaphore =
     \<lparr>ef_count = unat initval, ef_semaphore = semaphore, ef_non_blocking = False, ef_rx_wakes = 0, ef_tx_wakes = 0\<rparr>"

fun le_bytes :: "nat \<Rightarrow> nat \<Rightarrow> u8 list" where
  "le_bytes 0 n = []"
| "le_bytes (Suc k) n = of_nat (n mod 256) # le_bytes k (n div 256)"

fun le_value :: "u8 list \<Rightarrow> nat" where
  "le_value [] = 0"
| "le_value (b # bs) = unat b + 256 * le_value bs"

text \<open>A read attempt; the value is the 8 bytes stored in the caller's buffer.\<close>

definition event_fd_read :: "nat \<Rightarrow> event_fd \<Rightarrow> event_fd \<times> (u8 list \<times> nat) outcome" where
  "event_fd_read remaining_mut e =
     (if remaining_mut < 8 then (e, Fail InvalidInput)
      else if ef_count e > 0 then
        (let dec = (if ef_semaphore e then 1 else ef_count e)
         in (e\<lparr>ef_count := ef_count e - dec, ef_tx_wakes := ef_tx_wakes e + 1\<rparr>,
             Ok (le_bytes 8 (ef_count e), 8)))
      else (e, Fail WouldBlock))"

definition event_fd_write :: "u8 list \<Rightarrow> event_fd \<Rightarrow> event_fd \<times> nat outcome" where
  "event_fd_write src e =
     (if length src < 8 then (e, Fail InvalidInput)
      else
        let value = le_value (take 8 src) in
        if value = u64_max then (e, Fail InvalidInput)
        else if u64_max - ef_count e > value then
          (e\<lparr>ef_count := ef_count e + value, ef_rx_wakes := ef_rx_wakes e + 1\<rparr>, Ok 8)
        else (e, Fail WouldBlock))"

definition event_fd_set_nonblocking :: "bool \<Rightarrow> event_fd \<Rightarrow> event_fd" where
  "event_fd_set_nonblocking b e = e\<lparr>ef_non_blocking := b\<rparr>"

definition event_fd_poll :: "event_fd \<Rightarrow> bool \<times> bool" where
  "event_fd_poll e = (ef_count e > 0, u64_max - 1 > ef_count e)"

definition EFD_CLOEXEC :: u32 where "EFD_CLOEXEC = 0x80000"
definition EFD_NONBLOCK :: u32 where "EFD_NONBLOCK = 0x800"
definition EFD_SEMAPHORE :: u32 where "EFD_SEMAPHORE = 1"

text \<open>\<open>sys_eventfd2\<close>: the new counter, and its descriptor as object \<open>obj\<close>.\<close>

definition sys_eventfd2 ::
    "'t flat_ops \<Rightarrow> nat \<Rightarrow> nat \<Rightarrow> u32 \<Rightarrow> u32 \<Rightarrow> 't \<Rightarrow> 't \<times> (event_fd \<times> i32) outcome" where
  "sys_eventfd2 ops max_nofile obj initval flags t =
     (if any_flag flags (NOT (EFD_CLOEXEC OR EFD_NONBLOCK OR EFD_SEMAPHORE)) then (t, Fail InvalidInput)
      else
        let e = event_fd_set_nonblocking (has_flags flags EFD_NONBLOCK)
                  (event_fd_new (ucast initval) (has_flags flags EFD_SEMAPHORE))
        in case add_file_like ops max_nofile obj (has_flags flags EFD_CLOEXEC) t of
             (t', Inl err) \<Rightarrow> (t', Inl err)
           | (t', Inr fd) \<Rightarrow> (t', Ok (e, fd)))"

subsection \<open>Encoding of values\<close>

lemma length_le_bytes [simp]: "length (le_bytes k n) = k"
  by (induction k arbitrary: n) simp_all

lemma le_value_bytes: "n < 256 ^ k \<Longrightarrow> le_value (le_bytes k n) = n"
proof (induction k arbitrary: n)
  case (Suc k)
  then have "n div 256 < 256 ^ k" by (simp add: less_mult_imp_div_less mult.commute)
  moreover have "unat (of_nat (n mod 256) :: u8) = n mod 256" by (simp add: unat_of_nat)
  ultimately show ?case using Suc.IH [of "n div 256"] by simp
qed simp

subsection \<open>Runs\<close>

text \<open>
  Writes and reads of a counter in any order: \<open>added\<close> is the sum of the accepted values,
  \<open>taken\<close> the sum of the amounts by which reads lowered the counter, \<open>outs\<close> the values the
  readers were given.
\<close>

inductive event_run :: "event_fd \<Rightarrow> event_fd \<Rightarrow> nat \<Rightarrow> nat \<Rightarrow> nat list \<Rightarrow> bool" for e0 where
  event_start: "event_run e0 e0 0 0 []"
| event_step_write: "event_run e0 e added taken outs \<Longrightarrow> event_fd_write src e = (e', Ok n)
    \<Longrightarrow> event_run e0 e' (added + le_value (take 8 src)) taken outs"
| event_step_read: "event_run e0 e added taken outs \<Longrightarrow> event_fd_read room e = (e', Ok (bs, n))
    \<Longrightarrow> event_run e0 e' added (taken + (ef_count e - ef_count e')) (outs @ [le_value bs])"

lemma event_write_okD:
  "event_fd_write src e = (e', Ok n) \<Longrightarrow>
     n = 8 \<and> ef_count e' = ef_count e + le_value (take 8 src) \<and> ef_semaphore e' = ef_semaphore e
     \<and> ef_count e + le_value (take 8 src) < u64_max"
  by (auto simp: event_fd_write_def Let_def split: if_splits)

lemma event_read_okD:
  "event_fd_read room e = (e', Ok (bs, n)) \<Longrightarrow>
     0 < ef_count e \<and> bs = le_bytes 8 (ef_count e) \<and> ef_semaphore e' = ef_semaphore e
     \<and> ef_count e' = ef_count e - (if ef_semaphore e then 1 else ef_count e)"
  by (auto simp: event_fd_read_def Let_def split: if_splits)

lemma event_run_invariant:
  assumes "event_run e0 e added taken outs" and "ef_count e0 < u64_max"
  shows "ef_count e < u64_max \<and> ef_semaphore e = ef_semaphore e0
    \<and> ef_count e + taken = ef_count e0 + added
    \<and> (\<not> ef_semaphore e0 \<longrightarrow> sum_list outs = taken)
    \<and> (ef_semaphore e0 \<longrightarrow> taken = length outs)"
  using assms
proof (induction rule: event_run.induct)
  case (event_step_write e added taken outs src e' n)
  with event_write_okD [OF event_step_write.hyps(2)] show ?case by auto
next
  case (event_step_read e added taken outs room e' bs n)
  have "le_value (le_bytes 8 (ef_count e)) = ef_count e"
    using event_step_read by (intro le_value_bytes) (simp add: u64_max_def)
  with event_read_okD [OF event_step_read.hyps(2)] event_step_read show ?case by auto
qed simp



text \<open>
  a semaphore counter hands out the wrong value. A read with the semaphore flag takes one from
  the counter but gives the reader the whole count, where a semaphore read is to give 1.
\<close>

lemma event_fd_semaphore_value:
  assumes "ef_semaphore e" and "1 < ef_count e" and "ef_count e < 2 ^ 64"
  shows "\<exists>e' bs. event_fd_read 8 e = (e', Ok (bs, 8)) \<and> ef_count e' = ef_count e - 1
    \<and> le_value bs = ef_count e \<and> le_value bs \<noteq> 1"
  using assms by (simp add: event_fd_read_def le_value_bytes)

lemma event_fd_semaphore_value_witness:
  "\<exists>e' bs. event_fd_read 8 (event_fd_new 5 True) = (e', Ok (bs, 8)) \<and> ef_count e' = 4
    \<and> le_value bs = 5"
  using event_fd_semaphore_value [of "event_fd_new 5 True"] by (auto simp: event_fd_new_def)

end
