(* ===== verification/User_Io.thy ===== *)
theory User_Io
  imports Prelude
begin

section \<open>User memory buffers\<close>

text \<open>
  \<open>api/src/mm.rs\<close> (pointers into user memory, byte buffers) and \<open>api/src/io.rs\<close> (vectored
  buffers). Copying between kernel and user memory is the crate \<open>starry_vm\<close>: \<open>read_slice\<close> and
  \<open>write_slice\<close> are arguments of the definitions, over a memory of type \<open>'m\<close>. The address space
  of \<open>axmm\<close> is represented by the questions the code asks of it.
\<close>

subsection \<open>Checked access to user memory\<close>

text \<open>
  \<open>check_region\<close>: the alignment test, the access test, then the pages are populated.
\<close>

definition check_region ::
    "(addr \<Rightarrow> usize \<Rightarrow> mapping_flags \<Rightarrow> bool) \<Rightarrow> (addr \<Rightarrow> usize \<Rightarrow> mapping_flags \<Rightarrow> 'm \<Rightarrow> 'm \<times> unit outcome)
      \<Rightarrow> (addr \<Rightarrow> addr) \<Rightarrow> (addr \<Rightarrow> addr) \<Rightarrow> addr \<Rightarrow> usize \<Rightarrow> usize \<Rightarrow> mapping_flags \<Rightarrow> 'm \<Rightarrow> 'm \<times> unit outcome" where
  "check_region can_access populate align_down align_up start sz align access_flags m =
     (if start mod align \<noteq> 0 then (m, Fail BadAddress)
      else if \<not> can_access start sz access_flags then (m, Fail BadAddress)
      else
        let page_start = align_down start; page_end = align_up (start + sz)
        in populate page_start (page_end - page_start) access_flags m)"

text \<open>
  \<open>check_null_terminated\<close>: the scan for the terminator. Every page is checked before the first
  element on it is read; \<open>is_zero\<close> says whether the element at an address is the default value.
\<close>

function check_pages :: "(addr \<Rightarrow> bool) \<Rightarrow> addr \<Rightarrow> addr \<Rightarrow> addr option" where
  "check_pages access ptr page =
     (if page \<le> ptr then (if access page then check_pages access ptr (page + PAGE_SIZE_4K) else None)
      else Some page)"
  by pat_completeness auto

termination check_pages
  by (relation "measure (\<lambda>(access, ptr, page). Suc ptr - page)") auto

partial_function (option) null_scan ::
    "(addr \<Rightarrow> bool) \<Rightarrow> (addr \<Rightarrow> bool) \<Rightarrow> usize \<Rightarrow> addr \<Rightarrow> addr \<Rightarrow> nat \<Rightarrow> nat outcome option" where
  "null_scan access is_zero elem start page len =
     (case check_pages access (start + len * elem) page of
        None \<Rightarrow> Some (Fail BadAddress)
      | Some page' \<Rightarrow>
          if is_zero (start + len * elem) then Some (Ok len)
          else null_scan access is_zero elem start page' (len + 1))"

definition check_null_terminated ::
    "(addr \<Rightarrow> bool) \<Rightarrow> (addr \<Rightarrow> bool) \<Rightarrow> (addr \<Rightarrow> addr) \<Rightarrow> usize \<Rightarrow> usize \<Rightarrow> addr \<Rightarrow> nat outcome option" where
  "check_null_terminated access is_zero align_down elem align start =
     (if start mod align \<noteq> 0 then Some (Fail BadAddress)
      else null_scan access is_zero elem start (align_down start) 0)"

text \<open>The kernel's page fault handler takes a fault only in a window of user memory access.\<close>

definition handle_page_fault :: "bool option \<Rightarrow> (addr \<Rightarrow> mapping_flags \<Rightarrow> bool) \<Rightarrow> addr \<Rightarrow> mapping_flags \<Rightarrow> bool" where
  "handle_page_fault accessing_user_memory aspace_fault vaddr access_flags =
     (case accessing_user_memory of
        None \<Rightarrow> False
      | Some False \<Rightarrow> False
      | Some True \<Rightarrow> aspace_fault vaddr access_flags)"

subsection \<open>Byte buffers\<close>

record vm_bytes =
  vb_ptr :: addr
  vb_len :: usize

definition vm_bytes_read ::
    "(addr \<Rightarrow> usize \<Rightarrow> u8 list outcome) \<Rightarrow> usize \<Rightarrow> vm_bytes \<Rightarrow> vm_bytes \<times> u8 list outcome" where
  "vm_bytes_read read_slice buf_len b =
     (let len = min (vb_len b) buf_len in
      case read_slice (vb_ptr b) len of
        Inl e \<Rightarrow> (b, Inl e)
      | Inr bs \<Rightarrow> (b\<lparr>vb_ptr := uadd (vb_ptr b) len, vb_len := vb_len b - len\<rparr>, Ok bs))"

definition vm_bytes_write ::
    "(addr \<Rightarrow> u8 list \<Rightarrow> 'm \<Rightarrow> 'm \<times> unit outcome) \<Rightarrow> u8 list \<Rightarrow> vm_bytes \<Rightarrow> 'm \<Rightarrow> vm_bytes \<times> 'm \<times> nat outcome" where
  "vm_bytes_write write_slice buf b m =
     (let len = min (vb_len b) (length buf) in
      case write_slice (vb_ptr b) (take len buf) m of
        (m', Inl e) \<Rightarrow> (b, m', Inl e)
      | (m', Inr _) \<Rightarrow> (b\<lparr>vb_ptr := uadd (vb_ptr b) len, vb_len := vb_len b - len\<rparr>, m', Ok len))"

subsection \<open>Vectored buffers\<close>

text \<open>
  \<open>IoVectorBuf\<close>: the array of descriptors stays in user memory; \<open>read_iov i\<close> reads its element
  \<open>i\<close>.
\<close>

record io_vec =
  iov_base :: addr
  iov_len :: int

text \<open>The cast \<open>iov_len as usize\<close>.\<close>

definition iov_size :: "io_vec \<Rightarrow> usize" where
  "iov_size iov = nat (iov_len iov mod 2 ^ 64)"

record io_vector_buf =
  iv_iovcnt :: usize
  iv_total :: usize

fun iov_sum :: "(nat \<Rightarrow> io_vec outcome) \<Rightarrow> nat list \<Rightarrow> usize \<Rightarrow> usize outcome" where
  "iov_sum read_iov [] len = Ok len"
| "iov_sum read_iov (i # is) len =
     (case read_iov i of
        Inl e \<Rightarrow> Inl e
      | Inr iov \<Rightarrow>
          if iov_len iov < 0 then Fail InvalidInput
          else iov_sum read_iov is (uadd len (iov_size iov)))"

definition io_vector_buf_new :: "(nat \<Rightarrow> io_vec outcome) \<Rightarrow> usize \<Rightarrow> io_vector_buf outcome" where
  "io_vector_buf_new read_iov iovcnt =
     (if iovcnt > 1024 then Fail InvalidInput
      else case iov_sum read_iov [0..<iovcnt] 0 of
             Inl e \<Rightarrow> Inl e
           | Inr len \<Rightarrow> Ok \<lparr>iv_iovcnt = iovcnt, iv_total = len\<rparr>)"

text \<open>
  \<open>read_with\<close> and \<open>fill_with\<close> are one loop: \<open>f\<close> is called for every non-empty element until it
  transfers nothing. The state \<open>'s\<close> is what \<open>f\<close> works on.
\<close>

fun iov_each ::
    "(nat \<Rightarrow> io_vec outcome) \<Rightarrow> (addr \<Rightarrow> usize \<Rightarrow> 's \<Rightarrow> 's \<times> nat outcome) \<Rightarrow> nat list \<Rightarrow> nat \<Rightarrow> 's \<Rightarrow> 's \<times> nat outcome" where
  "iov_each read_iov f [] count s = (s, Ok count)"
| "iov_each read_iov f (i # is) count s =
     (case read_iov i of
        Inl e \<Rightarrow> (s, Inl e)
      | Inr iov \<Rightarrow>
          if iov_len iov = 0 then iov_each read_iov f is count s
          else
            (case f (iov_base iov) (iov_size iov) s of
               (s', Inl e) \<Rightarrow> (s', Inl e)
             | (s', Inr 0) \<Rightarrow> (s', Ok count)
             | (s', Inr n) \<Rightarrow> iov_each read_iov f is (count + n) s'))"

definition read_with ::
    "(nat \<Rightarrow> io_vec outcome) \<Rightarrow> io_vector_buf \<Rightarrow> (addr \<Rightarrow> usize \<Rightarrow> 's \<Rightarrow> 's \<times> nat outcome) \<Rightarrow> 's \<Rightarrow> 's \<times> nat outcome" where
  "read_with read_iov b f s = iov_each read_iov f [0..<iv_iovcnt b] 0 s"

definition fill_with ::
    "(nat \<Rightarrow> io_vec outcome) \<Rightarrow> io_vector_buf \<Rightarrow> (addr \<Rightarrow> usize \<Rightarrow> 's \<Rightarrow> 's \<times> nat outcome) \<Rightarrow> 's \<Rightarrow> 's \<times> nat outcome" where
  "fill_with read_iov b f s = iov_each read_iov f [0..<iv_iovcnt b] 0 s"

text \<open>\<open>IoVectorBufIo\<close>: a cursor into the vector.\<close>

record io_cursor =
  ic_iovcnt :: usize
  ic_len :: usize
  ic_start :: usize
  ic_offset :: usize

definition into_io :: "io_vector_buf \<Rightarrow> io_cursor" where
  "into_io b = \<lparr>ic_iovcnt = iv_iovcnt b, ic_len = iv_total b, ic_start = 0, ic_offset = 0\<rparr>"

function skip_empty :: "(nat \<Rightarrow> io_vec outcome) \<Rightarrow> io_cursor \<Rightarrow> io_cursor \<times> unit outcome" where
  "skip_empty read_iov c =
     (if ic_start c < ic_iovcnt c then
        (case read_iov (ic_start c) of
           Inl e \<Rightarrow> (c, Inl e)
         | Inr iov \<Rightarrow>
             if iov_size iov > ic_offset c then (c, Ok ())
             else skip_empty read_iov (c\<lparr>ic_offset := 0, ic_start := ic_start c + 1\<rparr>))
      else (c, Ok ()))"
  by pat_completeness auto

termination skip_empty
  by (relation "measure (\<lambda>(read_iov, c). ic_iovcnt c - ic_start c)") auto

definition advance_cursor :: "usize \<Rightarrow> io_cursor \<Rightarrow> io_cursor" where
  "advance_cursor len c = c\<lparr>ic_offset := ic_offset c + len, ic_len := usub (ic_len c) len\<rparr>"

text \<open>
  The reading loop fills a buffer of \<open>buf_len\<close> bytes, of which \<open>got\<close> are filled. On a fault the
  cursor keeps the elements already passed.
\<close>

function cursor_read ::
    "(nat \<Rightarrow> io_vec outcome) \<Rightarrow> (addr \<Rightarrow> usize \<Rightarrow> u8 list outcome) \<Rightarrow> usize \<Rightarrow> u8 list \<Rightarrow> io_cursor \<Rightarrow> io_cursor \<times> u8 list outcome" where
  "cursor_read read_iov read_slice left got c =
     (case skip_empty read_iov c of
        (c1, Inl e) \<Rightarrow> (c1, Inl e)
      | (c1, Inr _) \<Rightarrow>
          if ic_start c1 \<ge> ic_iovcnt c1 then (c1, Ok got)
          else
            (case read_iov (ic_start c1) of
               Inl e \<Rightarrow> (c1, Inl e)
             | Inr iov \<Rightarrow>
                 (let len = min (usub (iov_size iov) (ic_offset c1)) left in
                  if len = 0 then (c1, Ok got)
                  else
                    (case read_slice (uadd (iov_base iov) (ic_offset c1)) len of
                       Inl e \<Rightarrow> (c1, Inl e)
                     | Inr bs \<Rightarrow> cursor_read read_iov read_slice (left - len) (got @ bs) (advance_cursor len c1)))))"
  by pat_completeness auto

termination cursor_read
  by (relation "measure (\<lambda>(read_iov, read_slice, left, got, c). left)") auto

function cursor_write ::
    "(nat \<Rightarrow> io_vec outcome) \<Rightarrow> (addr \<Rightarrow> u8 list \<Rightarrow> 'm \<Rightarrow> 'm \<times> unit outcome) \<Rightarrow> u8 list \<Rightarrow> nat \<Rightarrow> io_cursor \<Rightarrow> 'm
      \<Rightarrow> io_cursor \<times> 'm \<times> nat outcome" where
  "cursor_write read_iov write_slice buf count c m =
     (case skip_empty read_iov c of
        (c1, Inl e) \<Rightarrow> (c1, m, Inl e)
      | (c1, Inr _) \<Rightarrow>
          if ic_start c1 \<ge> ic_iovcnt c1 then (c1, m, Ok count)
          else
            (case read_iov (ic_start c1) of
               Inl e \<Rightarrow> (c1, m, Inl e)
             | Inr iov \<Rightarrow>
                 (let len = min (usub (iov_size iov) (ic_offset c1)) (length buf) in
                  if len = 0 then (c1, m, Ok count)
                  else
                    (case write_slice (uadd (iov_base iov) (ic_offset c1)) (take len buf) m of
                       (m', Inl e) \<Rightarrow> (c1, m', Inl e)
                     | (m', Inr _) \<Rightarrow>
                         cursor_write read_iov write_slice (drop len buf) (count + len) (advance_cursor len c1) m'))))"
  by pat_completeness auto

termination cursor_write
  by (relation "measure (\<lambda>(read_iov, write_slice, buf, count, c, m). length buf)") auto

end
