(* ===== verification/User_Io_Props.thy ===== *)
theory User_Io_Props
  imports User_Io
begin

section \<open>User memory buffers: properties\<close>

text \<open>
  Gathering from a vectored buffer yields the bytes of its elements in order, however the reads are
  cut; the scan for a terminator returns and finds the first one.
\<close>

subsection \<open>Gathering reads\<close>

text \<open>
  A readable vector: the array \<open>iovs\<close> and the bytes it points to can be read, with contents \<open>mem\<close>.
\<close>

definition iov_fits :: "io_vec \<Rightarrow> bool" where
  "iov_fits iov \<longleftrightarrow> 0 \<le> iov_len iov \<and> int (iov_base iov) + iov_len iov < 2 ^ 63"

definition vector_readable ::
    "(nat \<Rightarrow> io_vec outcome) \<Rightarrow> (addr \<Rightarrow> usize \<Rightarrow> u8 list outcome) \<Rightarrow> io_vec list \<Rightarrow> (addr \<Rightarrow> u8) \<Rightarrow> bool" where
  "vector_readable read_iov read_slice iovs mem \<longleftrightarrow>
     (\<forall>i<length iovs. read_iov i = Ok (iovs ! i))
     \<and> (\<forall>iov\<in>set iovs. iov_fits iov
          \<and> (\<forall>a n. iov_base iov \<le> a \<longrightarrow> int a + int n \<le> int (iov_base iov) + iov_len iov
                 \<longrightarrow> read_slice a n = Ok (map mem [a..<a + n])))"

definition iov_bytes :: "(addr \<Rightarrow> u8) \<Rightarrow> io_vec \<Rightarrow> u8 list" where
  "iov_bytes mem iov = map mem [iov_base iov..<iov_base iov + iov_size iov]"

definition vector_bytes :: "(addr \<Rightarrow> u8) \<Rightarrow> io_vec list \<Rightarrow> u8 list" where
  "vector_bytes mem iovs = concat (map (iov_bytes mem) iovs)"

text \<open>What is left to read at a cursor, and the cursors that occur.\<close>

definition cursor_rest :: "(addr \<Rightarrow> u8) \<Rightarrow> io_vec list \<Rightarrow> io_cursor \<Rightarrow> u8 list" where
  "cursor_rest mem iovs c = drop (ic_offset c) (vector_bytes mem (drop (ic_start c) iovs))"

definition cursor_ok :: "io_vec list \<Rightarrow> io_cursor \<Rightarrow> bool" where
  "cursor_ok iovs c \<longleftrightarrow> ic_iovcnt c = length iovs
     \<and> (if ic_start c < length iovs then ic_offset c \<le> iov_size (iovs ! ic_start c) else ic_offset c = 0)"

lemma iov_bytes_length [simp]: "length (iov_bytes mem iov) = iov_size iov"
  by (simp add: iov_bytes_def)

lemma vector_bytes_step:
  "i < length iovs \<Longrightarrow>
     vector_bytes mem (drop i iovs) = iov_bytes mem (iovs ! i) @ vector_bytes mem (drop (Suc i) iovs)"
  by (simp add: vector_bytes_def flip: Cons_nth_drop_Suc)

lemma iov_fits_size: "iov_fits iov \<Longrightarrow> iov_size iov = nat (iov_len iov)"
  by (simp add: iov_fits_def iov_size_def)

lemma vector_readable_slice:
  assumes "vector_readable read_iov read_slice iovs mem" and "i < length iovs"
    and "k + n \<le> iov_size (iovs ! i)"
  shows "read_slice (uadd (iov_base (iovs ! i)) k) n = Ok (take n (drop k (iov_bytes mem (iovs ! i))))"
proof -
  let ?iov = "iovs ! i"
  have fits: "iov_fits ?iov" using assms(1,2) by (auto simp: vector_readable_def)
  have le: "iov_base ?iov + k + n \<le> iov_base ?iov + iov_size ?iov" using assms(3) by simp
  have "uadd (iov_base ?iov) k = iov_base ?iov + k"
    using fits assms(3) iov_fits_size [OF fits] by (intro uadd_exact) (auto simp: iov_fits_def)
  moreover have "read_slice (iov_base ?iov + k) n = Ok (map mem [iov_base ?iov + k..<iov_base ?iov + k + n])"
  proof -
    have "\<forall>a n. iov_base ?iov \<le> a \<longrightarrow> int a + int n \<le> int (iov_base ?iov) + iov_len ?iov
        \<longrightarrow> read_slice a n = Ok (map mem [a..<a + n])"
      using assms(1) nth_mem [OF assms(2)] unfolding vector_readable_def by blast
    moreover have "int (iov_base ?iov + k) + int n \<le> int (iov_base ?iov) + iov_len ?iov"
      using fits assms(3) iov_fits_size [OF fits] by (simp add: iov_fits_def) linarith
    ultimately show ?thesis by simp
  qed
  moreover have "take n (drop k (iov_bytes mem ?iov)) = map mem [iov_base ?iov + k..<iov_base ?iov + k + n]"
    using le by (simp add: iov_bytes_def take_map drop_map take_upt)
  ultimately show ?thesis by simp
qed

lemma skip_empty_rest:
  assumes "vector_readable read_iov read_slice iovs mem" and "cursor_ok iovs c"
  shows "\<exists>c'. skip_empty read_iov c = (c', Ok ()) \<and> cursor_ok iovs c' \<and> ic_len c' = ic_len c
    \<and> cursor_rest mem iovs c' = cursor_rest mem iovs c
    \<and> (ic_start c' < length iovs \<longrightarrow> ic_offset c' < iov_size (iovs ! ic_start c'))"
  using assms
proof (induction read_iov c rule: skip_empty.induct)
  case (1 read_iov c)
  show ?case
  proof (cases "ic_start c < length iovs")
    case False
    with "1.prems" show ?thesis by (auto simp: cursor_ok_def skip_empty.simps [of _ c])
  next
    case True
    note read = "1.prems"(1)
    let ?iov = "iovs ! ic_start c" and ?c = "c\<lparr>ic_offset := 0, ic_start := ic_start c + 1\<rparr>"
    have cnt: "ic_start c < ic_iovcnt c" using True "1.prems"(2) by (simp add: cursor_ok_def)
    have iov: "read_iov (ic_start c) = Ok ?iov"
      using read True by (simp add: vector_readable_def)
    show ?thesis
    proof (cases "iov_size ?iov > ic_offset c")
      case True
      then show ?thesis using cnt iov "1.prems" by (auto simp: skip_empty.simps [of _ c])
    next
      case False
      have ok: "cursor_ok iovs ?c" using cnt "1.prems"(2) by (auto simp: cursor_ok_def)
      have "ic_offset c = iov_size ?iov" using False True "1.prems"(2) by (simp add: cursor_ok_def)
      then have "cursor_rest mem iovs ?c = cursor_rest mem iovs c"
        by (simp add: cursor_rest_def vector_bytes_step [OF True])
      with "1.IH" [OF cnt iov False read ok] show ?thesis
        using cnt iov False by (auto simp: skip_empty.simps [of _ c])
    qed
  qed
qed

declare skip_empty.simps [simp del]

lemma cursor_read_rest:
  assumes "vector_readable read_iov read_slice iovs mem" and "cursor_ok iovs c"
    and "length (cursor_rest mem iovs c) = ic_len c"
  shows "\<exists>c'. cursor_read read_iov read_slice n got c = (c', Ok (got @ take n (cursor_rest mem iovs c)))
    \<and> cursor_ok iovs c' \<and> cursor_rest mem iovs c' = drop n (cursor_rest mem iovs c)
    \<and> length (cursor_rest mem iovs c') = ic_len c'"
  using assms
proof (induction read_iov read_slice n got c rule: cursor_read.induct)
  case (1 read_iov read_slice left got c)
  note read = "1.prems"(1)
  obtain c1 where skip: "skip_empty read_iov c = (c1, Ok ())" and ok1: "cursor_ok iovs c1"
    and len1: "ic_len c1 = ic_len c" and rest1: "cursor_rest mem iovs c1 = cursor_rest mem iovs c"
    and room: "ic_start c1 < length iovs \<longrightarrow> ic_offset c1 < iov_size (iovs ! ic_start c1)"
    using skip_empty_rest [OF read "1.prems"(2)] by blast
  show ?case
  proof (cases "ic_start c1 < length iovs \<and> left \<noteq> 0")
    case False
    moreover have "cursor_rest mem iovs c1 = []" if "\<not> ic_start c1 < length iovs"
      using that by (simp add: cursor_rest_def vector_bytes_def)
    moreover have "read_iov (ic_start c1) = Ok (iovs ! ic_start c1)" if "ic_start c1 < length iovs"
      using read that by (simp add: vector_readable_def)
    ultimately show ?thesis
      using skip ok1 rest1 len1 "1.prems"(3)
      by (cases "ic_start c1 < length iovs") (auto simp: cursor_ok_def cursor_read.simps [of _ _ _ _ c])
  next
    case True
    then have i: "ic_start c1 < length iovs" and left: "left \<noteq> 0" by auto
    let ?iov = "iovs ! ic_start c1"
    define len where "len = min (iov_size ?iov - ic_offset c1) left"
    define c2 where "c2 = advance_cursor len c1"
    have iov: "read_iov (ic_start c1) = Ok ?iov" using read i by (simp add: vector_readable_def)
    have len: "0 < len" "len \<le> left" "ic_offset c1 + len \<le> iov_size ?iov" using room i left by (auto simp: len_def)
    have usub: "usub (iov_size ?iov) (ic_offset c1) = iov_size ?iov - ic_offset c1"
      using room i by (simp add: usub_def)
    let ?bs = "take len (drop (ic_offset c1) (iov_bytes mem ?iov))"
    have slice: "read_slice (uadd (iov_base ?iov) (ic_offset c1)) len = Ok ?bs"
      by (rule vector_readable_slice [OF read i len(3)])
    have bs: "?bs = take len (cursor_rest mem iovs c1)"
      using len(3) by (simp add: cursor_rest_def vector_bytes_step [OF i])
    have rest2: "cursor_rest mem iovs c2 = drop len (cursor_rest mem iovs c1)"
      by (simp add: cursor_rest_def c2_def advance_cursor_def add.commute)
    have ok2: "cursor_ok iovs c2" using ok1 i len(3) by (simp add: cursor_ok_def c2_def advance_cursor_def)
    have "len \<le> length (cursor_rest mem iovs c1)"
      using len(3) by (simp add: cursor_rest_def vector_bytes_step [OF i])
    then have len2: "length (cursor_rest mem iovs c2) = ic_len c2"
      using "1.prems"(3) rest1 rest2 len1 by (simp add: c2_def advance_cursor_def)
    have step: "cursor_read read_iov read_slice left got c = cursor_read read_iov read_slice (left - len) (got @ ?bs) c2"
      using skip iov usub slice i left ok1 len(1)
      by (subst cursor_read.simps) (simp add: cursor_ok_def Let_def flip: len_def c2_def)
    have "\<exists>c'. cursor_read read_iov read_slice (left - len) (got @ ?bs) c2
          = (c', Ok ((got @ ?bs) @ take (left - len) (cursor_rest mem iovs c2)))
        \<and> cursor_ok iovs c' \<and> cursor_rest mem iovs c' = drop (left - len) (cursor_rest mem iovs c2)
        \<and> length (cursor_rest mem iovs c') = ic_len c'"
      unfolding c2_def
      by (rule "1.IH" [OF skip [symmetric] refl _ iov _ _ slice read])
        (use ok1 ok2 len2 i len(1) usub in \<open>simp_all add: cursor_ok_def c2_def len_def\<close>)
    then show ?thesis
      using len(2) unfolding step bs rest2 rest1
      by (simp flip: take_add add: drop_drop)
  qed
qed

lemma iov_sum_total:
  assumes "vector_readable read_iov read_slice iovs mem"
    and "i \<le> length iovs" and "len + length (vector_bytes mem (drop i iovs)) < 2 ^ 64"
  shows "iov_sum read_iov [i..<length iovs] len = Ok (len + length (vector_bytes mem (drop i iovs)))"
  using assms(2,3)
proof (induction "length iovs - i" arbitrary: i len)
  case 0
  then show ?case by (simp add: vector_bytes_def)
next
  case (Suc k)
  then have i: "i < length iovs" by simp
  then have iov: "read_iov i = Ok (iovs ! i)" "iov_fits (iovs ! i)"
    using assms(1) by (auto simp: vector_readable_def)
  have "uadd len (iov_size (iovs ! i)) = len + iov_size (iovs ! i)"
    using Suc.prems vector_bytes_step [OF i, of mem] by (intro uadd_exact) simp
  with i iov Suc.hyps(1) [of "Suc i" "len + iov_size (iovs ! i)"] Suc.hyps(2) Suc.prems
    vector_bytes_step [OF i, of mem] show ?case
    by (simp add: upt_conv_Cons iov_fits_def)
qed

text \<open>A sequence of reads through one cursor.\<close>

fun cursor_reads ::
    "(nat \<Rightarrow> io_vec outcome) \<Rightarrow> (addr \<Rightarrow> usize \<Rightarrow> u8 list outcome) \<Rightarrow> usize list \<Rightarrow> io_cursor \<Rightarrow> io_cursor \<times> u8 list list outcome" where
  "cursor_reads read_iov read_slice [] c = (c, Ok [])"
| "cursor_reads read_iov read_slice (n # ns) c =
     (case cursor_read read_iov read_slice n [] c of
        (c1, Inl e) \<Rightarrow> (c1, Inl e)
      | (c1, Inr bs) \<Rightarrow>
          (case cursor_reads read_iov read_slice ns c1 of
             (c2, Inl e) \<Rightarrow> (c2, Inl e)
           | (c2, Inr chunks) \<Rightarrow> (c2, Ok (bs # chunks))))"

lemma cursor_reads_rest:
  assumes "vector_readable read_iov read_slice iovs mem" and "cursor_ok iovs c"
    and "length (cursor_rest mem iovs c) = ic_len c"
  shows "\<exists>c' chunks. cursor_reads read_iov read_slice ns c = (c', Ok chunks)
    \<and> concat chunks = take (sum_list ns) (cursor_rest mem iovs c)
    \<and> ic_len c' = ic_len c - sum_list ns"
  using assms(2,3)
proof (induction ns arbitrary: c)
  case (Cons n ns)
  obtain c1 where "cursor_read read_iov read_slice n [] c = (c1, Ok (take n (cursor_rest mem iovs c)))"
    "cursor_ok iovs c1" "cursor_rest mem iovs c1 = drop n (cursor_rest mem iovs c)"
    "length (cursor_rest mem iovs c1) = ic_len c1"
    using cursor_read_rest [OF assms(1) Cons.prems, of n "[]"] by auto
  moreover from this Cons.prems have "ic_len c1 = ic_len c - n" by simp
  ultimately show ?case using Cons.IH [of c1] by (auto simp: take_add)
qed simp

text \<open>
  C26: a vectored buffer of at most 1024 readable elements is accepted with the sum of their lengths as
  its size, and reading through it gives the bytes of the elements in order: whatever sizes the
  reads ask for, the pieces put together are a prefix of the concatenated elements, nothing is
  skipped or read twice, and the size left decreases by what was read.
\<close>

theorem vectored_read_gathers:
  assumes "vector_readable read_iov read_slice iovs mem" and "length iovs \<le> 1024"
    and "length (vector_bytes mem iovs) < 2 ^ 64"
  shows "\<exists>b c chunks. io_vector_buf_new read_iov (length iovs) = Ok b
    \<and> iv_total b = length (vector_bytes mem iovs)
    \<and> cursor_reads read_iov read_slice ns (into_io b) = (c, Ok chunks)
    \<and> concat chunks = take (sum_list ns) (vector_bytes mem iovs)
    \<and> ic_len c = length (vector_bytes mem iovs) - sum_list ns"
proof -
  let ?b = "\<lparr>iv_iovcnt = length iovs, iv_total = length (vector_bytes mem iovs)\<rparr>"
  have "io_vector_buf_new read_iov (length iovs) = Ok ?b"
    using iov_sum_total [OF assms(1), of 0 0] assms(2,3) by (simp add: io_vector_buf_new_def)
  moreover have "cursor_ok iovs (into_io ?b)" "cursor_rest mem iovs (into_io ?b) = vector_bytes mem iovs"
    by (simp_all add: cursor_ok_def into_io_def cursor_rest_def)
  ultimately show ?thesis
    using cursor_reads_rest [OF assms(1), of "into_io ?b" ns] by (force simp: into_io_def)
qed

definition demo_iovs :: "io_vec list" where
  "demo_iovs = [\<lparr>iov_base = 100, iov_len = 3\<rparr>, \<lparr>iov_base = 50, iov_len = 0\<rparr>, \<lparr>iov_base = 7, iov_len = 2\<rparr>]"

definition demo_read_iov :: "nat \<Rightarrow> io_vec outcome" where
  "demo_read_iov i = (if i < length demo_iovs then Ok (demo_iovs ! i) else Fail BadAddress)"

definition demo_read_slice :: "addr \<Rightarrow> usize \<Rightarrow> u8 list outcome" where
  "demo_read_slice a n = Ok (map of_nat [a..<a + n])"

theorem vectored_read_gathers_witness:
  "vector_bytes of_nat demo_iovs = [100, 101, 102, 7, 8]
   \<and> (\<exists>b c chunks. io_vector_buf_new demo_read_iov 3 = Ok b
      \<and> cursor_reads demo_read_iov demo_read_slice [2, 2, 9] (into_io b) = (c, Ok chunks)
      \<and> concat chunks = [100, 101, 102, 7, 8])"
proof -
  have bytes: "vector_bytes of_nat demo_iovs = [100, 101, 102, 7, 8]" by code_simp
  have "vector_readable demo_read_iov demo_read_slice demo_iovs of_nat"
    by (auto simp: vector_readable_def demo_read_iov_def demo_read_slice_def demo_iovs_def iov_fits_def)
  moreover have "length demo_iovs = 3" by (simp add: demo_iovs_def)
  ultimately show ?thesis
    using vectored_read_gathers [of demo_read_iov demo_read_slice demo_iovs of_nat "[2, 2, 9]"] bytes
    by auto
qed

text \<open>The total is added up with wrap-around: three elements can have the total 0.\<close>

lemma iov_total_wraps:
  "io_vector_buf_new (\<lambda>i. Ok \<lparr>iov_base = 0, iov_len = (if i < 2 then 2 ^ 63 - 1 else 2)\<rparr>) 3
     = Ok \<lparr>iv_iovcnt = 3, iv_total = 0\<rparr>"
  by (simp add: io_vector_buf_new_def upt_rec iov_size_def uadd_def)


subsection \<open>The scan for a terminator\<close>

declare check_pages.simps [simp del]

lemma check_pages_Some:
  assumes "4096 dvd page" and "check_pages access ptr page = Some page'"
  shows "4096 dvd page'" and "ptr < page'" and "\<And>q. 4096 dvd q \<Longrightarrow> page \<le> q \<Longrightarrow> q < page' \<Longrightarrow> access q"
proof -
  have "4096 dvd page' \<and> ptr < page' \<and> (\<forall>q. 4096 dvd q \<longrightarrow> page \<le> q \<longrightarrow> q < page' \<longrightarrow> access q)"
    using assms
  proof (induction access ptr page rule: check_pages.induct)
    case (1 access ptr page)
    show ?case
    proof (cases "page \<le> ptr")
      case False
      with "1.prems" show ?thesis by (auto simp: check_pages.simps [of _ _ page])
    next
      case True
      with "1.prems" have acc: "access page" and rec: "check_pages access ptr (page + 4096) = Some page'"
        by (auto simp: check_pages.simps [of _ _ page] split: if_splits)
      have next_page: "q = page \<or> page + 4096 \<le> q" if "4096 dvd q" "page \<le> q" for q
        using that "1.prems"(1) by (auto elim!: dvdE)
      from "1.IH" [OF True acc _ rec] "1.prems"(1) next_page acc show ?thesis by auto
    qed
  qed
  then show "4096 dvd page'" and "ptr < page'"
    and "\<And>q. 4096 dvd q \<Longrightarrow> page \<le> q \<Longrightarrow> q < page' \<Longrightarrow> access q" by blast+
qed

lemma check_pages_None:
  assumes "4096 dvd page" and "check_pages access ptr page = None"
  shows "\<exists>q. 4096 dvd q \<and> page \<le> q \<and> q \<le> ptr \<and> \<not> access q"
  using assms
proof (induction access ptr page rule: check_pages.induct)
  case (1 access ptr page)
  then show ?case
    by (cases "page \<le> ptr \<and> access page") (force simp: check_pages.simps [of _ _ page] split: if_splits)+
qed

lemma check_pages_mono: "check_pages access ptr page = Some page' \<Longrightarrow> page \<le> page'"
proof (induction access ptr page rule: check_pages.induct)
  case (1 access ptr page)
  then show ?case
    by (cases "page \<le> ptr \<and> access page") (auto simp: check_pages.simps [of _ _ page] split: if_splits)
qed

lemma check_pages_accessible:
  assumes "\<And>q. 4096 dvd q \<Longrightarrow> base \<le> q \<Longrightarrow> q \<le> ptr \<Longrightarrow> access q" and "4096 dvd page" and "base \<le> page"
  obtains page' where "check_pages access ptr page = Some page'" "base \<le> page'" "4096 dvd page'"
proof (cases "check_pages access ptr page")
  case None
  from check_pages_None [OF assms(2) this] assms show ?thesis by (meson le_trans)
next
  case (Some page')
  from that [OF this] check_pages_mono [OF this] check_pages_Some(1) [OF assms(2) this] assms(3)
  show ?thesis by simp
qed

lemma null_scan_ok:
  assumes "is_zero (start + k * elem)" and "\<And>i. i < k \<Longrightarrow> \<not> is_zero (start + i * elem)"
    and "\<And>q. 4096 dvd q \<Longrightarrow> base \<le> q \<Longrightarrow> q \<le> start + k * elem \<Longrightarrow> access q"
    and "len \<le> k" and "4096 dvd page" and "base \<le> page"
  shows "null_scan access is_zero elem start page len = Some (Ok k)"
  using assms(4-6)
proof (induction "k - len" arbitrary: len page)
  case 0
  then have "len = k" by simp
  moreover obtain page' where "check_pages access (start + k * elem) page = Some page'"
    by (rule check_pages_accessible [OF assms(3) 0(3,4)])
  ultimately show ?case using assms(1) by (subst null_scan.simps) simp
next
  case (Suc n)
  then have lt: "len < k" by simp
  then have le: "start + len * elem \<le> start + k * elem" by simp
  obtain page' where "check_pages access (start + len * elem) page = Some page'" "base \<le> page'" "4096 dvd page'"
    by (rule check_pages_accessible [of base "start + len * elem" access page])
      (blast intro: assms(3) order_trans [OF _ le] Suc.prems)+
  with Suc.hyps(1) [of "Suc len" page'] Suc.hyps(2) lt assms(2) show ?case
    by (subst null_scan.simps) simp
qed

lemma null_scan_fault:
  assumes "\<And>i. i < k \<Longrightarrow> \<not> is_zero (start + i * elem)"
    and "4096 dvd q" and "q \<le> start + k * elem" and "\<not> access q"
    and "len \<le> k" and "4096 dvd page" and "page \<le> q"
  shows "null_scan access is_zero elem start page len = Some (Fail BadAddress)"
  using assms(5-7)
proof (induction "k - len" arbitrary: len page)
  case 0
  then have "len = k" by simp
  have "check_pages access (start + k * elem) page = None"
    using 0 check_pages_Some(2,3) [of page access "start + k * elem"] assms(2-4)
    by (metis le_less_trans not_Some_eq)
  with \<open>len = k\<close> show ?case by (subst null_scan.simps) simp
next
  case (Suc n)
  then have lt: "len < k" by simp
  show ?case
  proof (cases "check_pages access (start + len * elem) page")
    case None
    then show ?thesis by (subst null_scan.simps) simp
  next
    case (Some page')
    have "page' \<le> q" using check_pages_Some(3) [OF _ Some] Suc.prems assms(2,4) by (meson not_le)
    with Suc.hyps(1) [of "Suc len" page'] Suc.hyps(2) lt check_pages_Some(1) [OF _ Some] Suc.prems assms(1) Some
    show ?thesis by (subst null_scan.simps) simp
  qed
qed

text \<open>
  the scan for a terminator returns. If the elements before index \<open>k\<close> are not zero, then either
  every page from the one of the first element up to that of element \<open>k\<close> may be accessed and element
  \<open>k\<close> is zero, and the length is \<open>k\<close>; or one of these pages may not be accessed, and the
  result is \<open>BadAddress\<close>: no element is read from a page that was not checked.
\<close>

lemma check_null_terminated_scans:
  assumes "rounds_down 4096 align_down" and "start mod align = 0"
    and "\<forall>i<k. \<not> is_zero (start + i * elem)"
  shows "(is_zero (start + k * elem)
            \<and> (\<forall>q. 4096 dvd q \<longrightarrow> align_down start \<le> q \<longrightarrow> q \<le> start + k * elem \<longrightarrow> access q)
          \<longrightarrow> check_null_terminated access is_zero align_down elem align start = Some (Ok k))
       \<and> ((\<exists>q. 4096 dvd q \<and> align_down start \<le> q \<and> q \<le> start + k * elem \<and> \<not> access q)
          \<longrightarrow> check_null_terminated access is_zero align_down elem align start = Some (Fail BadAddress))"
proof -
  have page: "4096 dvd align_down start" using assms(1) by (simp add: rounds_down_def)
  show ?thesis
    using null_scan_ok [of is_zero start k elem "align_down start" access 0 "align_down start"]
      null_scan_fault [of k is_zero start elem _ access 0 "align_down start"] page assms(2,3)
    by (auto simp: check_null_terminated_def)
qed

lemma check_null_terminated_scans_witness:
  "check_null_terminated (\<lambda>q. q < 8192) (\<lambda>a. a = 4098) (\<lambda>a. a - a mod 4096) 1 1 4090 = Some (Ok 8)
   \<and> check_null_terminated (\<lambda>q. q < 4096) (\<lambda>a. a = 4098) (\<lambda>a. a - a mod 4096) 1 1 4090 = Some (Fail BadAddress)"
proof -
  have "rounds_down 4096 (\<lambda>a. a - a mod 4096)"
    by (auto simp: rounds_down_def minus_mod_eq_mult_div less_imp_le)
  note scan = check_null_terminated_scans [OF this, of 4090 1 8 "\<lambda>a. a = 4098" 1]
  have "check_null_terminated (\<lambda>q. q < 8192) (\<lambda>a. a = 4098) (\<lambda>a. a - a mod 4096) 1 1 4090 = Some (Ok 8)"
    by (rule scan [THEN conjunct1, rule_format]) auto
  moreover have "check_null_terminated (\<lambda>q. q < 4096) (\<lambda>a. a = 4098) (\<lambda>a. a - a mod 4096) 1 1 4090 = Some (Fail BadAddress)"
  proof (rule scan [THEN conjunct2, rule_format])
    show "\<exists>q. 4096 dvd q \<and> 4090 - 4090 mod 4096 \<le> q \<and> q \<le> 4090 + 8 * 1 \<and> \<not> q < (4096 :: nat)"
      by (rule exI [of _ 4096]) simp
  qed simp_all
  ultimately show ?thesis by simp
qed

end
