(* ===== verification/Tmpfs.thy ===== *)
theory Tmpfs
  imports BTree "HOL-Library.Char_ord" "HOL-Library.List_Lexorder"
begin

section \<open>The in-memory file system\<close>

text \<open>
  \<open>api/src/vfs/tmp.rs\<close>: inodes in a slab, directories as maps from names to counted references
  (\<open>InodeRef\<close>), and nodes (\<open>MemoryNode\<close>) that keep their inode alive.

  The slab and the hash maps of the directories are ordered association lists. Which free slot the
  slab hands out is the argument \<open>vacant\<close>. \<open>mf_handles i\<close> counts the \<open>MemoryNode\<close>s of inode \<open>i\<close>:
  the strong count of its \<open>Arc\<close> is that plus one for the slab plus the temporary clones. Dropping
  a reference or a node runs the destructors of the source, as explicit steps.
\<close>

subsection \<open>File names\<close>

datatype file_name = FileName string

fun name_index :: "file_name \<Rightarrow> nat" where
  "name_index (FileName s) = (if s = ''.'' then 0 else if s = ''..'' then 1 else 2)"

fun name_chars :: "file_name \<Rightarrow> string" where
  "name_chars (FileName s) = s"

instantiation file_name :: linorder
begin

definition less_eq_file_name :: "file_name \<Rightarrow> file_name \<Rightarrow> bool" where
  "less_eq_file_name a b \<longleftrightarrow>
     name_index a < name_index b \<or> name_index a = name_index b \<and> name_chars a \<le> name_chars b"

definition less_file_name :: "file_name \<Rightarrow> file_name \<Rightarrow> bool" where
  "less_file_name a b \<longleftrightarrow>
     name_index a < name_index b \<or> name_index a = name_index b \<and> name_chars a < name_chars b"

instance
proof
  fix a b c :: file_name
  show "a < b \<longleftrightarrow> a \<le> b \<and> \<not> b \<le> a"
    by (auto simp: less_eq_file_name_def less_file_name_def)
  show "a \<le> a" by (simp add: less_eq_file_name_def)
  show "a \<le> b \<Longrightarrow> b \<le> c \<Longrightarrow> a \<le> c" by (auto simp: less_eq_file_name_def)
  show "a \<le> b \<Longrightarrow> b \<le> a \<Longrightarrow> a = b"
    by (cases a; cases b) (auto simp: less_eq_file_name_def)
  show "a \<le> b \<or> b \<le> a" by (auto simp: less_eq_file_name_def)
qed

end

abbreviation dot :: file_name where "dot \<equiv> FileName ''.''"
abbreviation dotdot :: file_name where "dotdot \<equiv> FileName ''..''"

subsection \<open>Inodes\<close>

datatype node_type = Directory | RegularFile | Symlink | Fifo | CharacterDevice | BlockDevice | Socket

record tmp_metadata =
  md_nlink :: nat
  md_mode :: u32
  md_type :: node_type
  md_size :: nat
  md_uid :: u32
  md_gid :: u32
  md_atime :: nat
  md_mtime :: nat

datatype node_content =
    File_content nat "string option"
  | Dir_content "(file_name, nat) btree"

record tmp_inode =
  ti_meta :: tmp_metadata
  ti_content :: node_content

record memory_fs =
  mf_inodes :: "(nat, tmp_inode) btree"
  mf_handles :: "nat \<Rightarrow> nat"

definition set_inode :: "nat \<Rightarrow> tmp_inode \<Rightarrow> memory_fs \<Rightarrow> memory_fs" where
  "set_inode ino n fs = fs\<lparr>mf_inodes := bt_insert ino n (mf_inodes fs)\<rparr>"

definition set_nlink :: "nat \<Rightarrow> tmp_inode \<Rightarrow> tmp_inode" where
  "set_nlink k n = n\<lparr>ti_meta := (ti_meta n)\<lparr>md_nlink := k\<rparr>\<rparr>"

text \<open>The entries of a directory; none for a file.\<close>

definition entries_of :: "tmp_inode \<Rightarrow> (file_name, nat) btree" where
  "entries_of n = (case ti_content n of Dir_content es \<Rightarrow> es | File_content _ _ \<Rightarrow> [])"

definition is_dir :: "tmp_inode \<Rightarrow> bool" where
  "is_dir n \<longleftrightarrow> (case ti_content n of Dir_content _ \<Rightarrow> True | File_content _ _ \<Rightarrow> False)"

definition set_entries :: "(file_name, nat) btree \<Rightarrow> tmp_inode \<Rightarrow> tmp_inode" where
  "set_entries es n = n\<lparr>ti_content := Dir_content es\<rparr>"

text \<open>\<open>MemoryFs::get\<close>: indexing the slab panics on a free slot.\<close>

definition fs_get :: "nat \<Rightarrow> memory_fs \<Rightarrow> tmp_inode outcome" where
  "fs_get ino fs = (case bt_get (mf_inodes fs) ino of None \<Rightarrow> Panicked | Some n \<Rightarrow> Ok n)"

text \<open>\<open>InodeRef::new\<close>.\<close>

definition inode_ref_new :: "nat \<Rightarrow> memory_fs \<Rightarrow> memory_fs outcome" where
  "inode_ref_new ino fs =
     (case fs_get ino fs of
        Inl e \<Rightarrow> Inl e
      | Inr n \<Rightarrow> Ok (set_inode ino (set_nlink (md_nlink (ti_meta n) + 1) n) fs))"

text \<open>
  Dropping \<open>InodeRef\<close>s, in order: \<open>release_inode\<close> with one link. The slab, the temporary clone and
  no node hold the inode exactly when the strong count is 2. An inode that goes drops its own
  references next.
\<close>

function drop_refs :: "nat list \<Rightarrow> memory_fs \<Rightarrow> memory_fs outcome" where
  "drop_refs [] fs = Ok fs"
| "drop_refs (ino # inos) fs =
     (case bt_get (mf_inodes fs) ino of
        None \<Rightarrow> Panicked
      | Some n \<Rightarrow>
          (let nlink = usub (md_nlink (ti_meta n)) 1 in
           if nlink = 0 \<and> mf_handles fs ino = 0 then
             drop_refs (map snd (entries_of n) @ inos) (fs\<lparr>mf_inodes := bt_remove ino (mf_inodes fs)\<rparr>)
           else drop_refs inos (set_inode ino (set_nlink nlink n) fs)))"
  by pat_completeness auto

lemma bt_get_in_keys: "bt_get m k = Some v \<Longrightarrow> k \<in> fst ` set m"
  by (force dest: bt_get_in_set)

lemma bt_remove_keys: "fst ` set (bt_remove k m) = fst ` set m - {k}"
  by (auto simp: bt_remove_def)

termination drop_refs
proof (relation "measures [\<lambda>(l, fs). card (fst ` set (mf_inodes fs)), \<lambda>(l, fs). length l]")
  fix ino :: nat and inos and fs :: memory_fs and n nlink
  assume get: "bt_get (mf_inodes fs) ino = Some n"
  have "card (fst ` set (mf_inodes fs) - {ino}) < card (fst ` set (mf_inodes fs))"
    by (rule card_Diff1_less) (use bt_get_in_keys [OF get] in auto)
  then show "((map snd (entries_of n) @ inos, fs\<lparr>mf_inodes := bt_remove ino (mf_inodes fs)\<rparr>), ino # inos, fs)
      \<in> measures [\<lambda>(l, fs). card (fst ` set (mf_inodes fs)), \<lambda>(l, fs). length l]"
    by (simp add: bt_remove_keys)
  have "fst ` set (bt_insert ino v (mf_inodes fs)) = fst ` set (mf_inodes fs)" for v
    using bt_insert_keys [of ino v "mf_inodes fs"] bt_get_in_keys [OF get] by auto
  then show "((inos, set_inode ino (set_nlink nlink n) fs), ino # inos, fs)
      \<in> measures [\<lambda>(l, fs). card (fst ` set (mf_inodes fs)), \<lambda>(l, fs). length l]"
    by (simp add: set_inode_def)
qed simp

subsection \<open>Nodes\<close>

definition hold :: "nat \<Rightarrow> memory_fs \<Rightarrow> memory_fs" where
  "hold ino fs = fs\<lparr>mf_handles := (mf_handles fs)(ino := mf_handles fs ino + 1)\<rparr>"

text \<open>
  \<open>MemoryNode::drop\<close>: a directory loses its entries, then the inode is released without giving up
  a link. The node's own reference is still counted during both.
\<close>

definition release_node :: "nat \<Rightarrow> memory_fs \<Rightarrow> memory_fs outcome" where
  "release_node ino fs =
     (case fs_get ino fs of
        Inl e \<Rightarrow> Inl e
      | Inr n \<Rightarrow>
          (let fs1 = (if md_nlink (ti_meta n) = 0 \<and> mf_handles fs ino = 1
                      then fs\<lparr>mf_inodes := bt_remove ino (mf_inodes fs)\<rparr> else fs)
           in Ok (fs1\<lparr>mf_handles := (mf_handles fs1)(ino := mf_handles fs1 ino - 1)\<rparr>)))"

definition node_drop :: "nat \<Rightarrow> memory_fs \<Rightarrow> memory_fs outcome" where
  "node_drop ino fs =
     (case fs_get ino fs of
        Inl e \<Rightarrow> Inl e
      | Inr n \<Rightarrow>
          (if is_dir n then
             (case drop_refs (map snd (entries_of n)) (set_inode ino (set_entries [] n) fs) of
                Inl e \<Rightarrow> Inl e
              | Inr fs1 \<Rightarrow> release_node ino fs1)
           else release_node ino fs))"

subsection \<open>Creating inodes\<close>

definition new_inode :: "node_type \<Rightarrow> u32 \<Rightarrow> tmp_inode" where
  "new_inode node_type permission =
     \<lparr>ti_meta = \<lparr>md_nlink = 0, md_mode = permission, md_type = node_type, md_size = 0, md_uid = 0, md_gid = 0,
        md_atime = 0, md_mtime = 0\<rparr>,
      ti_content = (case node_type of Directory \<Rightarrow> Dir_content [] | _ \<Rightarrow> File_content 0 None)\<rparr>"

definition inode_new ::
    "((nat, tmp_inode) btree \<Rightarrow> nat) \<Rightarrow> nat option \<Rightarrow> node_type \<Rightarrow> u32 \<Rightarrow> memory_fs \<Rightarrow> (memory_fs \<times> nat) outcome" where
  "inode_new vacant parent node_type permission fs =
     (let ino = vacant (mf_inodes fs) + 1;
          fs1 = set_inode ino (new_inode node_type permission) fs
      in if node_type \<noteq> Directory then Ok (fs1, ino)
         else
           let up = (case parent of None \<Rightarrow> ino | Some p \<Rightarrow> p) in
           case inode_ref_new ino fs1 of
             Inl e \<Rightarrow> Inl e
           | Inr fs2 \<Rightarrow>
               (case inode_ref_new up fs2 of
                  Inl e \<Rightarrow> Inl e
                | Inr fs3 \<Rightarrow>
                    (case fs_get ino fs3 of
                       Inl e \<Rightarrow> Inl e
                     | Inr n \<Rightarrow>
                         Ok (set_inode ino (set_entries (bt_insert dotdot up (bt_insert dot ino [])) n) fs3, ino))))"

definition memory_fs_new :: "((nat, tmp_inode) btree \<Rightarrow> nat) \<Rightarrow> (memory_fs \<times> nat) outcome" where
  "memory_fs_new vacant =
     (case inode_new vacant None Directory 0x1ED \<lparr>mf_inodes = [], mf_handles = (\<lambda>_. 0)\<rparr> of
        Inl e \<Rightarrow> Inl e
      | Inr (fs, ino) \<Rightarrow> Ok (hold ino fs, ino))"

subsection \<open>Directory operations\<close>

text \<open>Every operation works on the node \<open>d\<close> of a directory; the nodes it returns are new handles.\<close>

definition as_dir :: "nat \<Rightarrow> memory_fs \<Rightarrow> (file_name, nat) btree outcome" where
  "as_dir d fs =
     (case fs_get d fs of
        Inl e \<Rightarrow> Inl e
      | Inr n \<Rightarrow> (case ti_content n of Dir_content es \<Rightarrow> Ok es | File_content _ _ \<Rightarrow> Fail NotADirectory))"

definition dir_update :: "nat \<Rightarrow> (file_name, nat) btree \<Rightarrow> memory_fs \<Rightarrow> memory_fs" where
  "dir_update d es fs =
     (case bt_get (mf_inodes fs) d of
        None \<Rightarrow> fs
      | Some n \<Rightarrow> set_inode d (set_entries es n) fs)"

definition node_lookup :: "nat \<Rightarrow> file_name \<Rightarrow> memory_fs \<Rightarrow> memory_fs \<times> nat outcome" where
  "node_lookup d name fs =
     (case as_dir d fs of
        Inl e \<Rightarrow> (fs, Inl e)
      | Inr es \<Rightarrow>
          (case bt_get es name of
             None \<Rightarrow> (fs, Fail NotFound)
           | Some ino \<Rightarrow>
               (case fs_get ino fs of
                  Inl e \<Rightarrow> (fs, Inl e)
                | Inr _ \<Rightarrow> (hold ino fs, Ok ino))))"

definition node_create ::
    "((nat, tmp_inode) btree \<Rightarrow> nat) \<Rightarrow> nat \<Rightarrow> file_name \<Rightarrow> node_type \<Rightarrow> u32 \<Rightarrow> memory_fs \<Rightarrow> memory_fs \<times> nat outcome" where
  "node_create vacant d name node_type permission fs =
     (case as_dir d fs of
        Inl e \<Rightarrow> (fs, Inl e)
      | Inr es \<Rightarrow>
          if bt_get es name \<noteq> None then (fs, Fail AlreadyExists)
          else
            (case inode_new vacant (Some d) node_type permission fs of
               Inl e \<Rightarrow> (fs, Inl e)
             | Inr (fs1, ino) \<Rightarrow>
                 (case inode_ref_new ino fs1 of
                    Inl e \<Rightarrow> (fs1, Inl e)
                  | Inr fs2 \<Rightarrow> (hold ino (dir_update d (bt_insert name ino es) fs2), Ok ino))))"

definition node_link :: "nat \<Rightarrow> file_name \<Rightarrow> nat \<Rightarrow> memory_fs \<Rightarrow> memory_fs \<times> nat outcome" where
  "node_link d name target fs =
     (case as_dir d fs of
        Inl e \<Rightarrow> (fs, Inl e)
      | Inr es \<Rightarrow>
          if bt_get es name \<noteq> None then (fs, Fail AlreadyExists)
          else
            (case inode_ref_new target fs of
               Inl e \<Rightarrow> (fs, Inl e)
             | Inr fs1 \<Rightarrow> (hold target (dir_update d (bt_insert name target es) fs1), Ok target)))"

text \<open>
  \<open>unlink\<close>. The test for an empty directory takes the lock of the entry's directory while the lock of
  \<open>d\<close> is held: when they are the same the call does not return (\<open>None\<close>).
\<close>

definition node_unlink :: "nat \<Rightarrow> file_name \<Rightarrow> memory_fs \<Rightarrow> (memory_fs \<times> unit outcome) option" where
  "node_unlink d name fs =
     (case as_dir d fs of
        Inl e \<Rightarrow> Some (fs, Inl e)
      | Inr es \<Rightarrow>
          (case bt_get es name of
             None \<Rightarrow> Some (fs, Fail NotFound)
           | Some ino \<Rightarrow>
               (case fs_get ino fs of
                  Inl e \<Rightarrow> Some (fs, Inl e)
                | Inr n \<Rightarrow>
                    if is_dir n \<and> ino = d then None
                    else if is_dir n \<and> length (entries_of n) > 2 then Some (fs, Fail DirectoryNotEmpty)
                    else
                      (case drop_refs [ino] (dir_update d (bt_remove name es) fs) of
                         Inl e \<Rightarrow> Some (fs, Inl e)
                       | Inr fs1 \<Rightarrow> Some (fs1, Ok ())))))"

text \<open>The second half of \<open>rename\<close>: the reference moves, and a reference it replaces is dropped.\<close>

definition move_entry :: "nat \<Rightarrow> file_name \<Rightarrow> nat \<Rightarrow> file_name \<Rightarrow> memory_fs \<Rightarrow> memory_fs \<times> unit outcome" where
  "move_entry d src_name e dst_name fs =
     (case as_dir d fs of
        Inl x \<Rightarrow> (fs, Inl x)
      | Inr es \<Rightarrow>
          (case bt_get es src_name of
             None \<Rightarrow> (fs, Fail NotFound)
           | Some ino \<Rightarrow>
               (let fs1 = dir_update d (bt_remove src_name es) fs in
                case as_dir e fs1 of
                  Inl x \<Rightarrow>
                    (case drop_refs [ino] fs1 of Inl y \<Rightarrow> (fs1, Inl y) | Inr fs2 \<Rightarrow> (fs2, Inl x))
                | Inr es1 \<Rightarrow>
                    (let fs2 = dir_update e (bt_insert dst_name ino es1) fs1 in
                     case bt_get es1 dst_name of
                       None \<Rightarrow> (fs2, Ok ())
                     | Some old \<Rightarrow>
                         (case drop_refs [old] fs2 of Inl y \<Rightarrow> (fs2, Inl y) | Inr fs3 \<Rightarrow> (fs3, Ok ()))))))"

text \<open>
  \<open>rename\<close>. The destination is looked up through the \<open>DirNode\<close> of the VFS layer, which keeps the entry
  in its cache (\<open>dst_cached\<close> says whether it was there already); the source is looked up on the node
  itself, and the node made for it is dropped at the end of the test.
\<close>

definition node_rename ::
    "nat \<Rightarrow> file_name \<Rightarrow> nat \<Rightarrow> file_name \<Rightarrow> bool \<Rightarrow> memory_fs \<Rightarrow> memory_fs \<times> unit outcome" where
  "node_rename d src_name e dst_name dst_cached fs =
     (case node_lookup e dst_name fs of
        (_, Inl Panic) \<Rightarrow> (fs, Panicked)
      | (_, Inl (Err _)) \<Rightarrow> move_entry d src_name e dst_name fs
      | (fs0, Inr dst_ino) \<Rightarrow>
          (let fs1 = (if dst_cached then fs else fs0) in
           case node_lookup d src_name fs1 of
             (fs2, Inl x) \<Rightarrow> (fs2, Inl x)
           | (fs2, Inr src_ino) \<Rightarrow>
               (case node_drop src_ino fs2 of
                  Inl x \<Rightarrow> (fs2, Inl x)
                | Inr fs3 \<Rightarrow>
                    if dst_ino = src_ino then (fs3, Ok ())
                    else move_entry d src_name e dst_name fs3)))"

text \<open>\<open>read_dir\<close>: entries from \<open>offset\<close> on are offered to the sink until it refuses one.\<close>

fun read_dir_loop ::
    "(file_name \<Rightarrow> nat \<Rightarrow> node_type \<Rightarrow> nat \<Rightarrow> 'k \<Rightarrow> 'k \<times> bool) \<Rightarrow> memory_fs \<Rightarrow> (nat \<times> file_name \<times> nat) list \<Rightarrow> nat \<Rightarrow> 'k
      \<Rightarrow> 'k \<times> nat outcome" where
  "read_dir_loop accept fs [] count k = (k, Ok count)"
| "read_dir_loop accept fs ((i, name, ino) # rest) count k =
     (case fs_get ino fs of
        Inl e \<Rightarrow> (k, Inl e)
      | Inr n \<Rightarrow>
          (case accept name ino (md_type (ti_meta n)) (i + 1) k of
             (k', False) \<Rightarrow> (k', Ok count)
           | (k', True) \<Rightarrow> read_dir_loop accept fs rest (count + 1) k'))"

definition node_read_dir ::
    "(file_name \<Rightarrow> nat \<Rightarrow> node_type \<Rightarrow> nat \<Rightarrow> 'k \<Rightarrow> 'k \<times> bool) \<Rightarrow> nat \<Rightarrow> nat \<Rightarrow> memory_fs \<Rightarrow> 'k \<Rightarrow> 'k \<times> nat outcome" where
  "node_read_dir accept d offset fs k =
     (case as_dir d fs of
        Inl e \<Rightarrow> (k, Inl e)
      | Inr es \<Rightarrow> read_dir_loop accept fs (drop offset (zip [0..<length es] es)) 0 k)"

subsection \<open>Metadata and file contents\<close>

definition node_metadata :: "tmp_inode \<Rightarrow> tmp_metadata" where
  "node_metadata n =
     (ti_meta n)\<lparr>md_size := (case ti_content n of File_content len _ \<Rightarrow> len | Dir_content es \<Rightarrow> length es)\<rparr>"

record metadata_update =
  mu_mode :: "u32 option"
  mu_owner :: "(u32 \<times> u32) option"
  mu_atime :: "nat option"
  mu_mtime :: "nat option"

definition update_metadata :: "metadata_update \<Rightarrow> tmp_inode \<Rightarrow> tmp_inode" where
  "update_metadata u n =
     (let m = ti_meta n;
          m1 = (case mu_mode u of None \<Rightarrow> m | Some mode \<Rightarrow> m\<lparr>md_mode := mode\<rparr>);
          m2 = (case mu_owner u of None \<Rightarrow> m1 | Some (uid, gid) \<Rightarrow> m1\<lparr>md_uid := uid, md_gid := gid\<rparr>);
          m3 = (case mu_atime u of None \<Rightarrow> m2 | Some t \<Rightarrow> m2\<lparr>md_atime := t\<rparr>);
          m4 = (case mu_mtime u of None \<Rightarrow> m3 | Some t \<Rightarrow> m3\<lparr>md_mtime := t\<rparr>)
      in n\<lparr>ti_meta := m4\<rparr>)"

definition set_len :: "nat \<Rightarrow> tmp_inode \<Rightarrow> tmp_inode outcome" where
  "set_len len n =
     (case ti_content n of
        File_content _ link \<Rightarrow> Ok (n\<lparr>ti_content := File_content len link\<rparr>)
      | Dir_content _ \<Rightarrow> Fail IsADirectory)"

definition set_symlink :: "string \<Rightarrow> tmp_inode \<Rightarrow> tmp_inode outcome" where
  "set_symlink target n =
     (case ti_content n of
        File_content _ _ \<Rightarrow> Ok (n\<lparr>ti_content := File_content (length target) (Some target)\<rparr>)
      | Dir_content _ \<Rightarrow> Fail IsADirectory)"

text \<open>Reading: only symbolic links are read here, from offset 0; anything else is a panic.\<close>

definition read_at :: "nat \<Rightarrow> nat \<Rightarrow> tmp_inode \<Rightarrow> string outcome" where
  "read_at buf_len offset n =
     (case ti_content n of
        Dir_content _ \<Rightarrow> Fail IsADirectory
      | File_content _ None \<Rightarrow> Panicked
      | File_content _ (Some link) \<Rightarrow> if offset \<noteq> 0 then Panicked else Ok (take (min buf_len (length link)) link))"

end
