(* ===== verification/Tmpfs_Props.thy ===== *)
theory Tmpfs_Props
  imports Tmpfs
begin

section \<open>The in-memory file system: link counts\<close>

text \<open>
  The slab never holds a dangling reference: an inode's link count is the number of directory
  entries that refer to it, an inode is freed only when no entry and no node refers to it, and so
  no operation indexes a free slot. References that are on their way (taken but not yet stored, or
  removed but not yet released) are the list \<open>pend\<close> of the invariant.
\<close>

subsection \<open>Counting references\<close>

definition entry_refs :: "nat \<Rightarrow> (file_name, nat) btree \<Rightarrow> nat" where
  "entry_refs k es = bt_sum (\<lambda>v. of_bool (v = k)) es"

definition ref_count :: "nat \<Rightarrow> memory_fs \<Rightarrow> nat" where
  "ref_count k fs = bt_sum (\<lambda>n. entry_refs k (entries_of n)) (mf_inodes fs)"

definition tmp_inv :: "memory_fs \<Rightarrow> nat list \<Rightarrow> bool" where
  "tmp_inv fs pend \<longleftrightarrow>
     bt_ok (mf_inodes fs)
     \<and> (\<forall>k n. bt_get (mf_inodes fs) k = Some n \<longrightarrow>
          md_nlink (ti_meta n) = ref_count k fs + count_list pend k \<and> bt_ok (entries_of n))
     \<and> (\<forall>k. bt_get (mf_inodes fs) k = None \<longrightarrow>
          ref_count k fs = 0 \<and> count_list pend k = 0 \<and> mf_handles fs k = 0)"

lemma tmp_invI:
  assumes "bt_ok (mf_inodes fs)"
    and "\<And>k n. bt_get (mf_inodes fs) k = Some n \<Longrightarrow> md_nlink (ti_meta n) = ref_count k fs + count_list pend k"
    and "\<And>k n. bt_get (mf_inodes fs) k = Some n \<Longrightarrow> bt_ok (entries_of n)"
    and "\<And>k. bt_get (mf_inodes fs) k = None \<Longrightarrow> ref_count k fs = 0 \<and> count_list pend k = 0 \<and> mf_handles fs k = 0"
  shows "tmp_inv fs pend"
  using assms unfolding tmp_inv_def by blast

lemma tmp_invD:
  assumes "tmp_inv fs pend"
  shows "bt_ok (mf_inodes fs)"
    and "bt_get (mf_inodes fs) k = Some n \<Longrightarrow> md_nlink (ti_meta n) = ref_count k fs + count_list pend k"
    and "bt_get (mf_inodes fs) k = Some n \<Longrightarrow> bt_ok (entries_of n)"
    and "bt_get (mf_inodes fs) k = None \<Longrightarrow> ref_count k fs = 0 \<and> count_list pend k = 0 \<and> mf_handles fs k = 0"
  using assms unfolding tmp_inv_def by blast+

lemma entry_refs_list: "entry_refs k es = count_list (map snd es) k"
  by (induction es) (auto simp: entry_refs_def bt_sum_def)

lemma entry_refs_insert:
  "bt_ok es \<Longrightarrow> entry_refs k (bt_insert name v es) + (case bt_get es name of None \<Rightarrow> 0 | Some w \<Rightarrow> of_bool (w = k))
     = entry_refs k es + of_bool (v = k)"
  using bt_sum_insert [of es "\<lambda>v. of_bool (v = k)" name v] by (simp add: entry_refs_def)

lemma entry_refs_remove:
  "bt_ok es \<Longrightarrow> entry_refs k (bt_remove name es) + (case bt_get es name of None \<Rightarrow> 0 | Some w \<Rightarrow> of_bool (w = k))
     = entry_refs k es"
  using bt_sum_remove [of es "\<lambda>v. of_bool (v = k)" name] by (simp add: entry_refs_def)

lemma entry_refs_Nil [simp]: "entry_refs k [] = 0"
  by (simp add: entry_refs_def)

lemma entries_set_nlink [simp]: "entries_of (set_nlink j n) = entries_of n"
  by (simp add: set_nlink_def entries_of_def)

lemma nlink_set_nlink [simp]: "md_nlink (ti_meta (set_nlink j n)) = j"
  by (simp add: set_nlink_def)

lemma entries_set_entries [simp]: "entries_of (set_entries es n) = es"
  by (simp add: set_entries_def entries_of_def)

lemma meta_set_entries [simp]: "ti_meta (set_entries es n) = ti_meta n"
  by (simp add: set_entries_def)

lemma set_inode_sel [simp]:
  "mf_inodes (set_inode ino n fs) = bt_insert ino n (mf_inodes fs)"
  "mf_handles (set_inode ino n fs) = mf_handles fs"
  by (simp_all add: set_inode_def)

lemma ref_count_set:
  "bt_ok (mf_inodes fs) \<Longrightarrow> ref_count k (set_inode ino n fs)
     + (case bt_get (mf_inodes fs) ino of None \<Rightarrow> 0 | Some old \<Rightarrow> entry_refs k (entries_of old))
     = ref_count k fs + entry_refs k (entries_of n)"
  using bt_sum_insert [of "mf_inodes fs" "\<lambda>n. entry_refs k (entries_of n)" ino n]
  by (simp add: ref_count_def set_inode_def)

lemma ref_count_remove:
  "bt_ok (mf_inodes fs) \<Longrightarrow> bt_get (mf_inodes fs) ino = Some n \<Longrightarrow>
     ref_count k (fs\<lparr>mf_inodes := bt_remove ino (mf_inodes fs)\<rparr>) + entry_refs k (entries_of n) = ref_count k fs"
  using bt_sum_remove [of "mf_inodes fs" "\<lambda>n. entry_refs k (entries_of n)" ino]
  by (simp add: ref_count_def)

subsection \<open>Steps on the invariant\<close>

text \<open>
  One inode changes: its link count and its entries. The references stay balanced when what the
  entries gain the pending list loses.
\<close>

lemma tmp_inv_set:
  assumes inv: "tmp_inv fs pend" and old: "bt_get (mf_inodes fs) ino = Some n"
    and ok: "bt_ok (entries_of n')"
    and bal: "\<And>k. entry_refs k (entries_of n') + count_list pend' k
        + (if k = ino then md_nlink (ti_meta n) else 0)
      = entry_refs k (entries_of n) + count_list pend k + (if k = ino then md_nlink (ti_meta n') else 0)"
  shows "tmp_inv (set_inode ino n' fs) pend'"
proof (rule tmp_invI)
  note ok_fs = tmp_invD(1) [OF inv]
  have rc: "ref_count k (set_inode ino n' fs) + entry_refs k (entries_of n) = ref_count k fs + entry_refs k (entries_of n')" for k
    using ref_count_set [OF ok_fs, of k ino n'] old by simp
  show "bt_ok (mf_inodes (set_inode ino n' fs))" using ok_fs by simp
  fix k m
  show "md_nlink (ti_meta m) = ref_count k (set_inode ino n' fs) + count_list pend' k"
    if "bt_get (mf_inodes (set_inode ino n' fs)) k = Some m"
    using that rc [of k] bal [of k] tmp_invD(2) [OF inv, of k] tmp_invD(2) [OF inv old] ok_fs old
    by (cases "k = ino") auto
  show "bt_ok (entries_of m)" if "bt_get (mf_inodes (set_inode ino n' fs)) k = Some m"
    using that ok tmp_invD(3) [OF inv] ok_fs by (auto split: if_splits)
  show "ref_count k (set_inode ino n' fs) = 0 \<and> count_list pend' k = 0 \<and> mf_handles (set_inode ino n' fs) k = 0"
    if "bt_get (mf_inodes (set_inode ino n' fs)) k = None"
    using that rc [of k] bal [of k] tmp_invD(4) [OF inv, of k] ok_fs by (auto split: if_splits)
qed

lemma tmp_inv_fresh:
  assumes inv: "tmp_inv fs pend" and fresh: "bt_get (mf_inodes fs) ino = None"
    and n: "entries_of n = []" "md_nlink (ti_meta n) = 0"
  shows "tmp_inv (set_inode ino n fs) pend"
proof (rule tmp_invI)
  note ok_fs = tmp_invD(1) [OF inv]
  have rc: "ref_count k (set_inode ino n fs) = ref_count k fs" for k
    using ref_count_set [OF ok_fs, of k ino n] fresh n by simp
  show "bt_ok (mf_inodes (set_inode ino n fs))" using ok_fs by simp
  fix k m
  show "md_nlink (ti_meta m) = ref_count k (set_inode ino n fs) + count_list pend k"
    if "bt_get (mf_inodes (set_inode ino n fs)) k = Some m"
    using that rc [of k] tmp_invD(2) [OF inv, of k] tmp_invD(4) [OF inv fresh] ok_fs n
    by (cases "k = ino") auto
  show "bt_ok (entries_of m)" if "bt_get (mf_inodes (set_inode ino n fs)) k = Some m"
    using that n tmp_invD(3) [OF inv] ok_fs by (auto split: if_splits)
  show "ref_count k (set_inode ino n fs) = 0 \<and> count_list pend k = 0 \<and> mf_handles (set_inode ino n fs) k = 0"
    if "bt_get (mf_inodes (set_inode ino n fs)) k = None"
    using that rc [of k] tmp_invD(4) [OF inv, of k] ok_fs by (auto split: if_splits)
qed

lemma tmp_inv_remove:
  assumes inv: "tmp_inv fs pend" and old: "bt_get (mf_inodes fs) ino = Some n"
    and zero: "ref_count ino fs = entry_refs ino (entries_of n)" "count_list pend' ino = 0" "mf_handles fs ino = 0"
    and bal: "\<And>k. k \<noteq> ino \<Longrightarrow> count_list pend' k = count_list pend k + entry_refs k (entries_of n)"
  shows "tmp_inv (fs\<lparr>mf_inodes := bt_remove ino (mf_inodes fs)\<rparr>) pend'"
proof (rule tmp_invI)
  let ?fs = "fs\<lparr>mf_inodes := bt_remove ino (mf_inodes fs)\<rparr>"
  note ok_fs = tmp_invD(1) [OF inv]
  note rc = ref_count_remove [OF ok_fs old]
  show "bt_ok (mf_inodes ?fs)" using ok_fs by simp
  fix k m
  show "md_nlink (ti_meta m) = ref_count k ?fs + count_list pend' k" if "bt_get (mf_inodes ?fs) k = Some m"
    using that rc [of k] bal [of k] tmp_invD(2) [OF inv, of k m] ok_fs by (auto split: if_splits)
  show "bt_ok (entries_of m)" if "bt_get (mf_inodes ?fs) k = Some m"
    using that tmp_invD(3) [OF inv] ok_fs by (auto split: if_splits)
  show "ref_count k ?fs = 0 \<and> count_list pend' k = 0 \<and> mf_handles ?fs k = 0" if "bt_get (mf_inodes ?fs) k = None"
    using that rc [of k] bal [of k] zero tmp_invD(4) [OF inv, of k] ok_fs by (auto split: if_splits)
qed

lemma ref_count_ge:
  "bt_ok (mf_inodes fs) \<Longrightarrow> bt_get (mf_inodes fs) ino = Some n \<Longrightarrow> entry_refs k (entries_of n) \<le> ref_count k fs"
  using ref_count_remove [of fs ino n k] by linarith

text \<open>What dropping references leaves alone: the nodes, and the entries of the inodes that stay.\<close>

definition same_entries :: "memory_fs \<Rightarrow> memory_fs \<Rightarrow> bool" where
  "same_entries fs fs' \<longleftrightarrow> mf_handles fs' = mf_handles fs
     \<and> (\<forall>k n'. bt_get (mf_inodes fs') k = Some n' \<longrightarrow>
          (\<exists>n. bt_get (mf_inodes fs) k = Some n \<and> ti_content n' = ti_content n))"

lemma same_entries_trans: "same_entries a b \<Longrightarrow> same_entries b c \<Longrightarrow> same_entries a c"
  unfolding same_entries_def by metis

lemma drop_refs_inv:
  assumes "tmp_inv fs pend"
  shows "\<exists>fs'. drop_refs pend fs = Ok fs' \<and> tmp_inv fs' [] \<and> same_entries fs fs'"
  using assms
proof (induction pend fs rule: drop_refs.induct)
  case (1 fs)
  then show ?case by (simp add: same_entries_def)
next
  case (2 ino inos fs)
  note inv = "2.prems" and ok_fs = tmp_invD(1) [OF "2.prems"]
  obtain n where get: "bt_get (mf_inodes fs) ino = Some n"
    using tmp_invD(4) [OF inv, of ino] by (cases "bt_get (mf_inodes fs) ino") auto
  let ?nlink = "md_nlink (ti_meta n)"
  have nlink: "?nlink = ref_count ino fs + Suc (count_list inos ino)" using tmp_invD(2) [OF inv get] by simp
  then have usub: "usub ?nlink 1 = ?nlink - 1" by (simp add: usub_def)
  show ?case
  proof (cases "?nlink - 1 = 0 \<and> mf_handles fs ino = 0")
    case True
    let ?fs = "fs\<lparr>mf_inodes := bt_remove ino (mf_inodes fs)\<rparr>"
    have zero: "ref_count ino fs = 0" "count_list inos ino = 0" using True nlink by auto
    then have "entry_refs ino (entries_of n) = 0" using ref_count_ge [OF ok_fs get, of ino] by simp
    then have "tmp_inv ?fs (map snd (entries_of n) @ inos)"
      using zero True by (intro tmp_inv_remove [OF inv get]) (auto simp: entry_refs_list)
    with "2.IH"(1) [OF get refl] True usub obtain fs' where
      "drop_refs (map snd (entries_of n) @ inos) ?fs = Ok fs'" "tmp_inv fs' []" "same_entries ?fs fs'"
      by auto
    moreover have "same_entries fs ?fs" using ok_fs by (auto simp: same_entries_def split: if_splits)
    ultimately show ?thesis using get True usub by (auto simp: Let_def intro: same_entries_trans)
  next
    case False
    let ?fs = "set_inode ino (set_nlink (?nlink - 1) n) fs"
    have "tmp_inv ?fs inos"
      using nlink tmp_invD(3) [OF inv get] by (intro tmp_inv_set [OF inv get]) auto
    with "2.IH"(2) [OF get refl] False usub obtain fs' where
      "drop_refs inos ?fs = Ok fs'" "tmp_inv fs' []" "same_entries ?fs fs'"
      by auto
    moreover have "same_entries fs ?fs"
      using ok_fs get by (auto simp: same_entries_def set_nlink_def split: if_splits)
    ultimately show ?thesis using get False usub by (auto simp: Let_def intro: same_entries_trans)
  qed
qed

lemma inode_ref_new_inv:
  assumes inv: "tmp_inv fs pend" and get: "bt_get (mf_inodes fs) ino = Some n"
  shows "\<exists>fs'. inode_ref_new ino fs = Ok fs' \<and> tmp_inv fs' (ino # pend) \<and> same_entries fs fs'
    \<and> (\<forall>k. bt_get (mf_inodes fs) k \<noteq> None \<longrightarrow> bt_get (mf_inodes fs') k \<noteq> None)"
proof -
  let ?fs = "set_inode ino (set_nlink (md_nlink (ti_meta n) + 1) n) fs"
  have "tmp_inv ?fs (ino # pend)"
    using tmp_invD(3) [OF inv get] by (intro tmp_inv_set [OF inv get]) auto
  moreover have "same_entries fs ?fs" "\<forall>k. bt_get (mf_inodes fs) k \<noteq> None \<longrightarrow> bt_get (mf_inodes ?fs) k \<noteq> None"
    using tmp_invD(1) [OF inv] get by (auto simp: same_entries_def set_nlink_def split: if_splits)
  ultimately show ?thesis using get by (auto simp: inode_ref_new_def fs_get_def)
qed

lemma dir_update_inv:
  assumes inv: "tmp_inv fs pend" and get: "bt_get (mf_inodes fs) d = Some n"
    and ok: "bt_ok es" and bal: "\<And>k. entry_refs k es + count_list pend' k = entry_refs k (entries_of n) + count_list pend k"
  shows "tmp_inv (dir_update d es fs) pend'"
  using get ok bal by (auto simp: dir_update_def intro!: tmp_inv_set [OF inv get])

lemma as_dir_Ok: "as_dir d fs = Ok es \<longleftrightarrow> (\<exists>n. bt_get (mf_inodes fs) d = Some n \<and> ti_content n = Dir_content es)"
  by (auto simp: as_dir_def fs_get_def split: option.splits node_content.splits)

lemma as_dir_entries: "as_dir d fs = Ok es \<Longrightarrow> bt_get (mf_inodes fs) d = Some n \<Longrightarrow> entries_of n = es"
  by (auto simp: as_dir_Ok entries_of_def)

lemma as_dir_no_panic: "bt_get (mf_inodes fs) d \<noteq> None \<Longrightarrow> as_dir d fs \<noteq> Panicked"
  by (auto simp: as_dir_def fs_get_def split: option.splits node_content.splits)

lemma handle_exists: "tmp_inv fs pend \<Longrightarrow> 0 < mf_handles fs d \<Longrightarrow> \<exists>n. bt_get (mf_inodes fs) d = Some n"
  using tmp_invD(4) [of fs pend d] by (cases "bt_get (mf_inodes fs) d") auto

lemma entry_exists:
  assumes inv: "tmp_inv fs pend" and dir: "as_dir d fs = Ok es" and get: "bt_get es name = Some ino"
  shows "\<exists>n. bt_get (mf_inodes fs) ino = Some n"
proof -
  obtain n where n: "bt_get (mf_inodes fs) d = Some n" "entries_of n = es"
    using dir by (auto simp: as_dir_Ok entries_of_def)
  have "ino \<in> set (map snd es)" using bt_get_in_set [OF get] by force
  then have "0 < entry_refs ino es" by (simp add: entry_refs_list count_list_0_iff flip: neq0_conv)
  then have "0 < ref_count ino fs" using ref_count_ge [OF tmp_invD(1) [OF inv] n(1), of ino] n(2) by simp
  then show ?thesis using tmp_invD(4) [OF inv, of ino] by (cases "bt_get (mf_inodes fs) ino") auto
qed

lemma hold_inv: "tmp_inv fs pend \<Longrightarrow> bt_get (mf_inodes fs) ino = Some n \<Longrightarrow> tmp_inv (hold ino fs) pend"
  by (auto simp: tmp_inv_def hold_def ref_count_def)

subsection \<open>The operations keep the invariant and do not panic\<close>

definition keeps_contents :: "memory_fs \<Rightarrow> memory_fs \<Rightarrow> bool" where
  "keeps_contents fs fs' \<longleftrightarrow>
     (\<forall>k n. bt_get (mf_inodes fs) k = Some n \<longrightarrow>
        (\<exists>n'. bt_get (mf_inodes fs') k = Some n' \<and> ti_content n' = ti_content n))"

lemma keeps_contents_trans: "keeps_contents a b \<Longrightarrow> keeps_contents b c \<Longrightarrow> keeps_contents a c"
  unfolding keeps_contents_def by metis

lemma keeps_contents_dir: "keeps_contents fs fs' \<Longrightarrow> as_dir d fs = Ok es \<Longrightarrow> as_dir d fs' = Ok es"
  unfolding keeps_contents_def as_dir_Ok by metis

lemma keeps_contents_entries:
  "keeps_contents fs fs' \<Longrightarrow> bt_get (mf_inodes fs) k = Some n \<Longrightarrow>
     \<exists>n'. bt_get (mf_inodes fs') k = Some n' \<and> entries_of n' = entries_of n"
  unfolding keeps_contents_def entries_of_def by metis

lemma inode_ref_new_keeps:
  "bt_ok (mf_inodes fs) \<Longrightarrow> inode_ref_new ino fs = Ok fs' \<Longrightarrow> keeps_contents fs fs'"
  by (auto simp: inode_ref_new_def fs_get_def keeps_contents_def set_nlink_def split: option.splits)

lemma node_lookup_inv:
  assumes inv: "tmp_inv fs []" and d: "0 < mf_handles fs d" and op: "node_lookup d name fs = (fs', r)"
  shows "tmp_inv fs' [] \<and> r \<noteq> Panicked
    \<and> (case r of Inr ino \<Rightarrow> mf_handles fs' = (mf_handles fs)(ino := mf_handles fs ino + 1) | Inl _ \<Rightarrow> fs' = fs)"
proof (cases "as_dir d fs")
  case (Inl e)
  then show ?thesis
    using op inv as_dir_no_panic [of fs d] handle_exists [OF inv d] by (auto simp: node_lookup_def)
next
  case (Inr es)
  show ?thesis
  proof (cases "bt_get es name")
    case None
    then show ?thesis using op inv Inr by (auto simp: node_lookup_def)
  next
    case (Some ino)
    obtain n where n: "bt_get (mf_inodes fs) ino = Some n" using entry_exists [OF inv Inr Some] by blast
    then have "fs' = hold ino fs \<and> r = Ok ino" using op Inr Some by (simp add: node_lookup_def fs_get_def)
    with hold_inv [OF inv n] show ?thesis by (auto simp: hold_def)
  qed
qed

definition vacant_ok :: "((nat, tmp_inode) btree \<Rightarrow> nat) \<Rightarrow> bool" where
  "vacant_ok vacant \<longleftrightarrow> (\<forall>m. bt_get m (vacant m + 1) = None)"

lemma new_inode_empty: "entries_of (new_inode t p) = []" "md_nlink (ti_meta (new_inode t p)) = 0"
  by (auto simp: new_inode_def entries_of_def split: node_type.split)

lemma inode_new_inv:
  assumes inv: "tmp_inv fs []" and vac: "vacant_ok vacant"
    and up: "case parent of None \<Rightarrow> True | Some p \<Rightarrow> bt_get (mf_inodes fs) p \<noteq> None"
  shows "\<exists>fs' ino. inode_new vacant parent t perm fs = Ok (fs', ino) \<and> tmp_inv fs' []
    \<and> bt_get (mf_inodes fs') ino \<noteq> None \<and> keeps_contents fs fs' \<and> mf_handles fs' = mf_handles fs"
proof -
  let ?ino = "vacant (mf_inodes fs) + 1"
  let ?fs1 = "set_inode ?ino (new_inode t perm) fs"
  have fresh: "bt_get (mf_inodes fs) ?ino = None" using vac by (simp add: vacant_ok_def)
  have inv1: "tmp_inv ?fs1 []" by (rule tmp_inv_fresh [OF inv fresh new_inode_empty])
  note ok_fs = tmp_invD(1) [OF inv]
  have k1: "keeps_contents fs ?fs1" using ok_fs fresh by (auto simp: keeps_contents_def)
  have get1: "bt_get (mf_inodes ?fs1) ?ino = Some (new_inode t perm)" using ok_fs by simp
  show ?thesis
  proof (cases "t = Directory")
    case False
    then show ?thesis using inv1 k1 get1 by (simp add: inode_new_def Let_def)
  next
    case True
    define u where "u = (case parent of None \<Rightarrow> ?ino | Some p \<Rightarrow> p)"
    obtain fs2 where fs2: "inode_ref_new ?ino ?fs1 = Ok fs2" "tmp_inv fs2 [?ino]" "same_entries ?fs1 fs2"
      "\<forall>k. bt_get (mf_inodes ?fs1) k \<noteq> None \<longrightarrow> bt_get (mf_inodes fs2) k \<noteq> None"
      using inode_ref_new_inv [OF inv1 get1] by blast
    have k2: "keeps_contents ?fs1 fs2" by (rule inode_ref_new_keeps [OF tmp_invD(1) [OF inv1] fs2(1)])
    have "bt_get (mf_inodes ?fs1) u \<noteq> None" using up ok_fs by (auto simp: u_def split: option.splits)
    then obtain m where m: "bt_get (mf_inodes fs2) u = Some m" using fs2(4) by blast
    obtain fs3 where fs3: "inode_ref_new u fs2 = Ok fs3" "tmp_inv fs3 [u, ?ino]" "same_entries fs2 fs3"
      using inode_ref_new_inv [OF fs2(2) m] by blast
    have k3: "keeps_contents fs2 fs3" by (rule inode_ref_new_keeps [OF tmp_invD(1) [OF fs2(2)] fs3(1)])
    obtain n where n: "bt_get (mf_inodes fs3) ?ino = Some n" "entries_of n = []"
      using keeps_contents_entries [OF keeps_contents_trans [OF k2 k3] get1] new_inode_empty(1) [of t perm]
      by metis
    let ?es = "bt_insert dotdot u (bt_insert dot ?ino [])"
    let ?fs4 = "set_inode ?ino (set_entries ?es n) fs3"
    have bal: "entry_refs k ?es = count_list [u, ?ino] k" for k
      by (simp add: entry_refs_list less_file_name_def)
    have "bt_ok ?es" by (intro bt.inv_ins) simp
    then have "tmp_inv ?fs4 []"
      using n(2) bal by (intro tmp_inv_set [OF fs3(2) n(1)]) (simp_all del: bt_insert.simps)
    moreover have "keeps_contents fs ?fs4"
      using keeps_contents_trans [OF k1 keeps_contents_trans [OF k2 k3]] fresh tmp_invD(1) [OF fs3(2)]
      by (auto simp: keeps_contents_def)
    moreover have "mf_handles ?fs4 = mf_handles fs" using fs2(3) fs3(3) by (simp add: same_entries_def)
    moreover have "inode_new vacant parent t perm fs = Ok (?fs4, ?ino)"
      using True fs2(1) fs3(1) n(1) unfolding inode_new_def Let_def u_def by (simp add: fs_get_def)
    moreover have "bt_get (mf_inodes ?fs4) ?ino \<noteq> None" using tmp_invD(1) [OF fs3(2)] by simp
    ultimately show ?thesis by blast
  qed
qed

text \<open>A counted reference is stored under a new name, and the node for it is made.\<close>

lemma store_ref_inv:
  assumes inv: "tmp_inv fs [ino]" and dir: "as_dir d fs = Ok es" and new: "bt_get es name = None"
    and ino: "bt_get (mf_inodes fs) ino \<noteq> None"
  shows "tmp_inv (hold ino (dir_update d (bt_insert name ino es) fs)) []"
proof -
  let ?fs = "dir_update d (bt_insert name ino es) fs"
  obtain n where n: "bt_get (mf_inodes fs) d = Some n" "entries_of n = es"
    using dir by (auto simp: as_dir_Ok entries_of_def)
  have ok: "bt_ok es" using tmp_invD(3) [OF inv n(1)] n(2) by simp
  have "tmp_inv ?fs []"
    using entry_refs_insert [OF ok, of _ name ino] new ok n(2) by (intro dir_update_inv [OF inv n(1)]) auto
  moreover have "bt_get (mf_inodes ?fs) ino \<noteq> None"
    using ino n(1) tmp_invD(1) [OF inv] by (auto simp: dir_update_def)
  ultimately show ?thesis using hold_inv by blast
qed

lemma node_create_inv:
  assumes inv: "tmp_inv fs []" and vac: "vacant_ok vacant" and d: "0 < mf_handles fs d"
    and op: "node_create vacant d name t perm fs = (fs', r)"
  shows "tmp_inv fs' [] \<and> r \<noteq> Panicked"
proof (cases "as_dir d fs")
  case (Inl e)
  then show ?thesis
    using op inv as_dir_no_panic [of fs d] handle_exists [OF inv d] by (auto simp: node_create_def)
next
  case (Inr es)
  show ?thesis
  proof (cases "bt_get es name")
    case (Some x)
    then show ?thesis using op inv Inr by (auto simp: node_create_def)
  next
    case None
    obtain fs1 ino where one: "inode_new vacant (Some d) t perm fs = Ok (fs1, ino)" "tmp_inv fs1 []"
      "bt_get (mf_inodes fs1) ino \<noteq> None" "keeps_contents fs fs1"
      using inode_new_inv [OF inv vac, of "Some d" t perm] handle_exists [OF inv d] by auto
    then obtain m where "bt_get (mf_inodes fs1) ino = Some m" by blast
    from inode_ref_new_inv [OF one(2) this] obtain fs2 where
      two: "inode_ref_new ino fs1 = Ok fs2" "tmp_inv fs2 [ino]"
      "\<forall>k. bt_get (mf_inodes fs1) k \<noteq> None \<longrightarrow> bt_get (mf_inodes fs2) k \<noteq> None" by blast
    have k2: "keeps_contents fs1 fs2" by (rule inode_ref_new_keeps [OF tmp_invD(1) [OF one(2)] two(1)])
    have "as_dir d fs2 = Ok es" by (rule keeps_contents_dir [OF keeps_contents_trans [OF one(4) k2] Inr])
    from store_ref_inv [OF two(2) this None] one(3) two(3)
    have "tmp_inv (hold ino (dir_update d (bt_insert name ino es) fs2)) []" by blast
    with op Inr None one two show ?thesis by (auto simp: node_create_def)
  qed
qed

lemma node_link_inv:
  assumes inv: "tmp_inv fs []" and d: "0 < mf_handles fs d" and tgt: "0 < mf_handles fs target"
    and op: "node_link d name target fs = (fs', r)"
  shows "tmp_inv fs' [] \<and> r \<noteq> Panicked"
proof (cases "as_dir d fs")
  case (Inl e)
  then show ?thesis
    using op inv as_dir_no_panic [of fs d] handle_exists [OF inv d] by (auto simp: node_link_def)
next
  case (Inr es)
  show ?thesis
  proof (cases "bt_get es name")
    case (Some x)
    then show ?thesis using op inv Inr by (auto simp: node_link_def)
  next
    case None
    obtain m where "bt_get (mf_inodes fs) target = Some m" using handle_exists [OF inv tgt] by blast
    from inode_ref_new_inv [OF inv this] obtain fs2 where
      two: "inode_ref_new target fs = Ok fs2" "tmp_inv fs2 [target]"
      "\<forall>k. bt_get (mf_inodes fs) k \<noteq> None \<longrightarrow> bt_get (mf_inodes fs2) k \<noteq> None" by blast
    have k2: "keeps_contents fs fs2" by (rule inode_ref_new_keeps [OF tmp_invD(1) [OF inv] two(1)])
    from store_ref_inv [OF two(2) keeps_contents_dir [OF k2 Inr] None] handle_exists [OF inv tgt] two(3)
    have "tmp_inv (hold target (dir_update d (bt_insert name target es) fs2)) []" by auto
    with op Inr None two show ?thesis by (auto simp: node_link_def)
  qed
qed

text \<open>A reference is taken out of a directory.\<close>

lemma take_ref_inv:
  assumes inv: "tmp_inv fs []" and dir: "as_dir d fs = Ok es" and get: "bt_get es name = Some ino"
  shows "tmp_inv (dir_update d (bt_remove name es) fs) [ino]"
proof -
  obtain n where n: "bt_get (mf_inodes fs) d = Some n" "entries_of n = es"
    using dir by (auto simp: as_dir_Ok entries_of_def)
  have ok: "bt_ok es" using tmp_invD(3) [OF inv n(1)] n(2) by simp
  have "entry_refs k (bt_remove name es) + count_list [ino] k = entry_refs k es" for k
    using entry_refs_remove [OF ok, of k name] get by (cases "ino = k") simp_all
  with ok n(2) show ?thesis by (intro dir_update_inv [OF inv n(1)]) simp_all
qed

lemma node_unlink_inv:
  assumes inv: "tmp_inv fs []" and d: "0 < mf_handles fs d" and op: "node_unlink d name fs = Some (fs', r)"
  shows "tmp_inv fs' [] \<and> r \<noteq> Panicked"
proof (cases "as_dir d fs")
  case (Inl e)
  then show ?thesis
    using op inv as_dir_no_panic [of fs d] handle_exists [OF inv d] by (auto simp: node_unlink_def)
next
  case (Inr es)
  show ?thesis
  proof (cases "bt_get es name")
    case None
    then show ?thesis using op inv Inr by (auto simp: node_unlink_def)
  next
    case (Some ino)
    obtain n where "bt_get (mf_inodes fs) ino = Some n" using entry_exists [OF inv Inr Some] by blast
    moreover obtain fs2 where "drop_refs [ino] (dir_update d (bt_remove name es) fs) = Ok fs2" "tmp_inv fs2 []"
      using drop_refs_inv [OF take_ref_inv [OF inv Inr Some]] by blast
    ultimately show ?thesis
      using op inv Inr Some by (auto simp: node_unlink_def fs_get_def split: if_splits)
  qed
qed

lemma release_node_inv:
  assumes inv: "tmp_inv fs []" and h: "0 < mf_handles fs ino"
    and empty: "\<And>n. bt_get (mf_inodes fs) ino = Some n \<Longrightarrow> entries_of n = []"
  shows "\<exists>fs'. release_node ino fs = Ok fs' \<and> tmp_inv fs' []
    \<and> mf_handles fs' = (mf_handles fs)(ino := mf_handles fs ino - 1)"
proof -
  obtain n where n: "bt_get (mf_inodes fs) ino = Some n" using handle_exists [OF inv h] by blast
  let ?dec = "\<lambda>fs. fs\<lparr>mf_handles := (mf_handles fs)(ino := mf_handles fs ino - 1)\<rparr>"
  have dec: "tmp_inv (?dec fs) []" using inv n by (auto simp: tmp_inv_def ref_count_def)
  show ?thesis
  proof (cases "md_nlink (ti_meta n) = 0 \<and> mf_handles fs ino = 1")
    case True
    then have "ref_count ino fs = 0" using tmp_invD(2) [OF inv n] by simp
    then have "tmp_inv ((?dec fs)\<lparr>mf_inodes := bt_remove ino (mf_inodes (?dec fs))\<rparr>) []"
      using True empty [OF n] n by (intro tmp_inv_remove [OF dec]) (auto simp: ref_count_def)
    moreover have "(?dec fs)\<lparr>mf_inodes := bt_remove ino (mf_inodes (?dec fs))\<rparr>
        = ?dec (fs\<lparr>mf_inodes := bt_remove ino (mf_inodes fs)\<rparr>)"
      by simp
    ultimately have "tmp_inv (?dec (fs\<lparr>mf_inodes := bt_remove ino (mf_inodes fs)\<rparr>)) []" by (simp only:)
    moreover have "release_node ino fs = Ok (?dec (fs\<lparr>mf_inodes := bt_remove ino (mf_inodes fs)\<rparr>))"
      using True n by (simp add: release_node_def fs_get_def)
    ultimately show ?thesis by (intro exI conjI) (assumption | simp)+
  next
    case False
    then show ?thesis using dec n by (auto simp: release_node_def fs_get_def Let_def)
  qed
qed

lemma node_drop_inv:
  assumes inv: "tmp_inv fs []" and h: "0 < mf_handles fs ino"
  shows "\<exists>fs'. node_drop ino fs = Ok fs' \<and> tmp_inv fs' []
    \<and> mf_handles fs' = (mf_handles fs)(ino := mf_handles fs ino - 1)"
proof -
  obtain n where n: "bt_get (mf_inodes fs) ino = Some n" using handle_exists [OF inv h] by blast
  show ?thesis
  proof (cases "is_dir n")
    case False
    then have "entries_of n = []" by (auto simp: is_dir_def entries_of_def split: node_content.splits)
    with release_node_inv [OF inv h] n False show ?thesis by (simp add: node_drop_def fs_get_def)
  next
    case True
    let ?fs = "set_inode ino (set_entries [] n) fs"
    have "tmp_inv ?fs (map snd (entries_of n))"
      by (intro tmp_inv_set [OF inv n]) (auto simp: entry_refs_list)
    then obtain fs1 where fs1: "drop_refs (map snd (entries_of n)) ?fs = Ok fs1" "tmp_inv fs1 []" "same_entries ?fs fs1"
      using drop_refs_inv by blast
    have h1: "mf_handles fs1 = mf_handles fs" using fs1(3) by (simp add: same_entries_def)
    have "entries_of m = []" if "bt_get (mf_inodes fs1) ino = Some m" for m
      using that fs1(3) tmp_invD(1) [OF inv] by (fastforce simp: same_entries_def entries_of_def set_entries_def)
    with release_node_inv [OF fs1(2), of ino] h h1 obtain fs2 where "release_node ino fs1 = Ok fs2" "tmp_inv fs2 []"
      "mf_handles fs2 = (mf_handles fs)(ino := mf_handles fs ino - 1)" by auto
    with True fs1(1) n show ?thesis by (simp add: node_drop_def fs_get_def)
  qed
qed

lemma move_entry_inv:
  assumes inv: "tmp_inv fs []" and d: "0 < mf_handles fs d" and e: "0 < mf_handles fs e"
    and op: "move_entry d src e dst fs = (fs', r)"
  shows "tmp_inv fs' [] \<and> r \<noteq> Panicked"
proof (cases "as_dir d fs")
  case (Inl x)
  then show ?thesis
    using op inv as_dir_no_panic [of fs d] handle_exists [OF inv d] by (auto simp: move_entry_def)
next
  case (Inr es)
  show ?thesis
  proof (cases "bt_get es src")
    case None
    then show ?thesis using op inv Inr by (auto simp: move_entry_def)
  next
    case (Some ino)
    let ?fs1 = "dir_update d (bt_remove src es) fs"
    have inv1: "tmp_inv ?fs1 [ino]" by (rule take_ref_inv [OF inv Inr Some])
    have e1: "0 < mf_handles ?fs1 e" using e by (auto simp: dir_update_def split: option.split)
    show ?thesis
    proof (cases "as_dir e ?fs1")
      case (Inl x)
      then have "x \<noteq> Panic" using as_dir_no_panic [of ?fs1 e] handle_exists [OF inv1 e1] by auto
      with op Inr Some Inl drop_refs_inv [OF inv1] show ?thesis by (auto simp: move_entry_def Let_def)
    next
      case es1: (Inr es1)
      let ?fs2 = "dir_update e (bt_insert dst ino es1) ?fs1"
      obtain n where n: "bt_get (mf_inodes ?fs1) e = Some n" "entries_of n = es1"
        using es1 by (auto simp: as_dir_Ok entries_of_def)
      have ok: "bt_ok es1" using tmp_invD(3) [OF inv1 n(1)] n(2) by simp
      have inv2: "tmp_inv ?fs2 (case bt_get es1 dst of None \<Rightarrow> [] | Some old \<Rightarrow> [old])"
      proof (rule dir_update_inv [OF inv1 n(1)])
        show "entry_refs k (bt_insert dst ino es1) + count_list (case bt_get es1 dst of None \<Rightarrow> [] | Some old \<Rightarrow> [old]) k
            = entry_refs k (entries_of n) + count_list [ino] k" for k
          using entry_refs_insert [OF ok, of k dst ino] n(2)
          by (cases "bt_get es1 dst"; cases "ino = k") (auto split: if_splits)
      qed (use ok in simp)
      show ?thesis
        using op Inr Some es1 inv2 drop_refs_inv [OF inv2]
        by (cases "bt_get es1 dst") (auto simp: move_entry_def Let_def)
    qed
  qed
qed

lemma node_rename_inv:
  assumes inv: "tmp_inv fs []" and d: "0 < mf_handles fs d" and e: "0 < mf_handles fs e"
    and op: "node_rename d src e dst cached fs = (fs', r)"
  shows "tmp_inv fs' [] \<and> r \<noteq> Panicked"
proof -
  obtain fs0 r0 where one: "node_lookup e dst fs = (fs0, r0)" by fastforce
  note inv0 = node_lookup_inv [OF inv e one]
  show ?thesis
  proof (cases r0)
    case (Inl x)
    then show ?thesis
      using op one inv0 move_entry_inv [OF inv d e] by (cases x) (auto simp: node_rename_def)
  next
    case (Inr dst_ino)
    define fs1 where "fs1 = (if cached then fs else fs0)"
    have inv1: "tmp_inv fs1 []" and h1: "0 < mf_handles fs1 d" "0 < mf_handles fs1 e"
      using inv inv0 d e Inr by (auto simp: fs1_def)
    obtain fs2 r2 where two: "node_lookup d src fs1 = (fs2, r2)" by fastforce
    note inv2 = node_lookup_inv [OF inv1 h1(1) two]
    show ?thesis
    proof (cases r2)
      case two_err: (Inl x)
      then show ?thesis using op one two inv2 Inr by (auto simp: node_rename_def Let_def simp flip: fs1_def)
    next
      case src: (Inr src_ino)
      obtain fs3 where three: "node_drop src_ino fs2 = Ok fs3" "tmp_inv fs3 []"
        "mf_handles fs3 = (mf_handles fs2)(src_ino := mf_handles fs2 src_ino - 1)"
        using node_drop_inv [of fs2 src_ino] inv2 src by auto
      then have "mf_handles fs3 = mf_handles fs1" using inv2 src by auto
      with move_entry_inv [OF three(2), of d e src dst] h1 op one two three Inr src show ?thesis
        by (auto simp: node_rename_def Let_def simp flip: fs1_def split: if_splits)
    qed
  qed
qed

subsection \<open>Runs of the file system\<close>

datatype tmp_op =
    Op_lookup nat file_name
  | Op_create nat file_name node_type u32
  | Op_link nat file_name nat
  | Op_unlink nat file_name
  | Op_rename nat file_name nat file_name bool
  | Op_drop nat

fun op_nodes :: "tmp_op \<Rightarrow> nat list" where
  "op_nodes (Op_lookup d name) = [d]"
| "op_nodes (Op_create d name t perm) = [d]"
| "op_nodes (Op_link d name target) = [d, target]"
| "op_nodes (Op_unlink d name) = [d]"
| "op_nodes (Op_rename d src e dst cached) = [d, e]"
| "op_nodes (Op_drop i) = [i]"

fun tmp_exec :: "((nat, tmp_inode) btree \<Rightarrow> nat) \<Rightarrow> tmp_op \<Rightarrow> memory_fs \<Rightarrow> (memory_fs \<times> unit outcome) option" where
  "tmp_exec vacant (Op_lookup d name) fs = Some (map_prod id (map_sum id (\<lambda>_. ())) (node_lookup d name fs))"
| "tmp_exec vacant (Op_create d name t perm) fs =
     Some (map_prod id (map_sum id (\<lambda>_. ())) (node_create vacant d name t perm fs))"
| "tmp_exec vacant (Op_link d name target) fs =
     Some (map_prod id (map_sum id (\<lambda>_. ())) (node_link d name target fs))"
| "tmp_exec vacant (Op_unlink d name) fs = node_unlink d name fs"
| "tmp_exec vacant (Op_rename d src e dst cached) fs = Some (node_rename d src e dst cached fs)"
| "tmp_exec vacant (Op_drop i) fs = Some (case node_drop i fs of Inl e \<Rightarrow> (fs, Inl e) | Inr fs' \<Rightarrow> (fs', Ok ()))"

text \<open>Operations on nodes that are held, one after the other, from a new file system.\<close>

inductive tmp_run :: "((nat, tmp_inode) btree \<Rightarrow> nat) \<Rightarrow> memory_fs \<Rightarrow> bool" for vacant where
  tmp_start: "memory_fs_new vacant = Ok (fs, root) \<Longrightarrow> tmp_run vacant fs"
| tmp_step: "tmp_run vacant fs \<Longrightarrow> \<forall>i\<in>set (op_nodes op). 0 < mf_handles fs i \<Longrightarrow> tmp_exec vacant op fs = Some (fs', r)
    \<Longrightarrow> tmp_run vacant fs'"

lemma panic_map_sum: "map_sum id f r = Panicked \<longleftrightarrow> r = Panicked"
  by (cases r) auto

lemma tmp_exec_inv:
  assumes "tmp_inv fs []" and "vacant_ok vacant" and "\<forall>i\<in>set (op_nodes op). 0 < mf_handles fs i"
    and "tmp_exec vacant op fs = Some (fs', r)"
  shows "tmp_inv fs' [] \<and> r \<noteq> Panicked"
proof (cases op)
  case (Op_lookup d name)
  then show ?thesis
    using assms node_lookup_inv [OF assms(1), of d name] by (cases "node_lookup d name fs") (auto simp: panic_map_sum)
next
  case (Op_create d name t perm)
  then show ?thesis
    using assms node_create_inv [OF assms(1,2), of d name t perm]
    by (cases "node_create vacant d name t perm fs") (auto simp: panic_map_sum)
next
  case (Op_link d name target)
  then show ?thesis
    using assms node_link_inv [OF assms(1), of d target name]
    by (cases "node_link d name target fs") (auto simp: panic_map_sum)
next
  case (Op_unlink d name)
  then show ?thesis using assms node_unlink_inv [OF assms(1), of d name] by auto
next
  case (Op_rename d src e dst cached)
  then show ?thesis using assms node_rename_inv [OF assms(1), of d e src dst cached] by auto
next
  case (Op_drop i)
  then show ?thesis using assms node_drop_inv [OF assms(1), of i] by auto
qed

lemma tmp_run_inv:
  assumes "tmp_run vacant fs" and vac: "vacant_ok vacant"
  shows "tmp_inv fs []"
  using assms(1)
proof (induction rule: tmp_run.induct)
  case (tmp_start fs root)
  have "tmp_inv \<lparr>mf_inodes = [], mf_handles = (\<lambda>_. 0)\<rparr> []"
    by (auto simp: tmp_inv_def ref_count_def)
  from inode_new_inv [OF this vac, of None Directory "0x1ED"] tmp_start hold_inv show ?case
    by (auto simp: memory_fs_new_def)
next
  case (tmp_step fs op fs' r)
  with tmp_exec_inv [OF _ vac] show ?case by blast
qed

text \<open>
  C8: the link counts of the in-memory file system are exact and its slab is never indexed out of
  place. After any sequence of lookups, creations, links, unlinks, renames and drops of nodes, every
  inode's link count is the number of directory entries that refer to it, every entry and every
  node refers to an inode that exists, and the next operation on nodes that are held does not panic.
\<close>

theorem tmpfs_link_counts:
  assumes "tmp_run vacant fs" and "vacant_ok vacant"
  shows "(\<forall>k n. bt_get (mf_inodes fs) k = Some n \<longrightarrow>
            md_nlink (ti_meta n) = (\<Sum>(_, m)\<leftarrow>mf_inodes fs. count_list (map snd (entries_of m)) k))
       \<and> (\<forall>k. bt_get (mf_inodes fs) k = None \<longrightarrow>
            mf_handles fs k = 0 \<and> (\<forall>(_, m)\<in>set (mf_inodes fs). k \<notin> set (map snd (entries_of m))))
       \<and> (\<forall>op fs' r. (\<forall>i\<in>set (op_nodes op). 0 < mf_handles fs i) \<longrightarrow> tmp_exec vacant op fs = Some (fs', r)
            \<longrightarrow> r \<noteq> Panicked)"
proof -
  have inv: "tmp_inv fs []" by (rule tmp_run_inv [OF assms])
  have rc: "ref_count k fs = (\<Sum>(_, m)\<leftarrow>mf_inodes fs. count_list (map snd (entries_of m)) k)" for k
    by (simp add: ref_count_def bt_sum_def entry_refs_list case_prod_unfold)
  have "\<forall>(_, m)\<in>set (mf_inodes fs). k \<notin> set (map snd (entries_of m))" if "ref_count k fs = 0" for k
  proof -
    have "\<forall>p\<in>set (mf_inodes fs). count_list (map snd (entries_of (snd p))) k = 0"
      using that unfolding rc by (simp add: case_prod_unfold)
    then show ?thesis by (simp only: count_list_0_iff case_prod_unfold)
  qed
  then show ?thesis
    using tmp_invD(2,4) [OF inv] tmp_exec_inv [OF inv assms(2)] rc by simp
qed


definition next_slot :: "(nat, tmp_inode) btree \<Rightarrow> nat" where
  "next_slot m = foldr max (map fst m) 0"

lemma next_slot_ok: "vacant_ok next_slot"
proof -
  have le: "x \<in> set xs \<Longrightarrow> x \<le> foldr max xs 0" for x and xs :: "nat list"
    by (induction xs) (auto simp: max_def)
  have "next_slot m + 1 \<notin> fst ` set m" for m
    using le [of "next_slot m + 1" "map fst m"] by (auto simp: next_slot_def)
  then show ?thesis by (simp add: vacant_ok_def bt_get_def map_of_eq_None_iff)
qed

text \<open>A file system with a directory \<open>a\<close> that holds a file \<open>f\<close>.\<close>

definition tmp_demo_new :: memory_fs where
  "tmp_demo_new = (case memory_fs_new next_slot of Inr (fs, root) \<Rightarrow> fs | Inl _ \<Rightarrow> \<lparr>mf_inodes = [], mf_handles = (\<lambda>_. 0)\<rparr>)"

definition tmp_demo_dir :: memory_fs where
  "tmp_demo_dir = fst (node_create next_slot 1 (FileName ''a'') Directory 0 tmp_demo_new)"

definition tmp_demo :: memory_fs where
  "tmp_demo = fst (node_create next_slot 2 (FileName ''f'') RegularFile 0 tmp_demo_dir)"

lemma tmp_demo_start: "memory_fs_new next_slot = Ok (tmp_demo_new, 1)"
proof -
  have "case memory_fs_new next_slot of Inr (fs, root) \<Rightarrow> root = 1 | Inl _ \<Rightarrow> False" by code_simp
  then show ?thesis by (auto simp: tmp_demo_new_def split: sum.splits)
qed

lemma tmp_exec_create:
  "tmp_exec vacant (Op_create d name t perm) fs
     = Some (fst (node_create vacant d name t perm fs), map_sum id (\<lambda>_. ()) (snd (node_create vacant d name t perm fs)))"
  by (simp add: map_prod_def split_beta)

lemma tmp_demo_run: "tmp_run next_slot tmp_demo"
proof -
  have one: "0 < mf_handles tmp_demo_new 1" by code_simp
  have two: "0 < mf_handles tmp_demo_dir 2" by code_simp
  have "tmp_run next_slot tmp_demo_dir"
    unfolding tmp_demo_dir_def
    by (rule tmp_step [OF tmp_start [OF tmp_demo_start] _ tmp_exec_create]) (use one in simp)
  then show ?thesis
    unfolding tmp_demo_def by (rule tmp_step [OF _ _ tmp_exec_create]) (use two in simp)
qed

theorem tmpfs_link_counts_witness:
  "map_option (\<lambda>n. md_nlink (ti_meta n)) (bt_get (mf_inodes tmp_demo) 1)
     = Some (\<Sum>(_, m)\<leftarrow>mf_inodes tmp_demo. count_list (map snd (entries_of m)) 1)
   \<and> (\<Sum>(_, m)\<leftarrow>mf_inodes tmp_demo. count_list (map snd (entries_of m)) 1) = 3"
proof -
  have "bt_get (mf_inodes tmp_demo) 1 \<noteq> None" by code_simp
  moreover have "(\<Sum>(_, m)\<leftarrow>mf_inodes tmp_demo. count_list (map snd (entries_of m)) 1) = 3" by code_simp
  ultimately show ?thesis using tmpfs_link_counts [OF tmp_demo_run next_slot_ok] by auto
qed

text \<open>
  renaming a directory onto an existing name empties it. The node that \<open>rename\<close> makes to look at
  the source is dropped before the move, and dropping a directory's node clears its entries: here
  the rename of \<open>a\<close> to itself succeeds and leaves \<open>a\<close> with no entry, its file gone from the
  directory, although \<open>a\<close> is still linked in its parent.
\<close>

lemma tmpfs_rename_empties_directory:
  "map_option entries_of (bt_get (mf_inodes tmp_demo) 2)
     = Some [(FileName ''.'', 2), (FileName ''..'', 1), (FileName ''f'', 3)]
   \<and> snd (node_rename 1 (FileName ''a'') 1 (FileName ''a'') True tmp_demo) = Ok ()
   \<and> map_option entries_of (bt_get (mf_inodes (fst (node_rename 1 (FileName ''a'') 1 (FileName ''a'') True tmp_demo))) 2)
     = Some []
   \<and> map_option entries_of (bt_get (mf_inodes (fst (node_rename 1 (FileName ''a'') 1 (FileName ''a'') True tmp_demo))) 1)
     = Some [(FileName ''.'', 1), (FileName ''..'', 1), (FileName ''a'', 2)]"
  by code_simp

end
