(* ===== verification/Mm.thy ===== *)
theory Mm
  imports Prelude
begin

section \<open>Memory management system calls\<close>

text \<open>
  \<open>api/src/syscall/mm/brk.rs\<close>, \<open>mmap.rs\<close> and \<open>mincore.rs\<close>, with the layout constants of
  \<open>core/src/config\<close> (the same on every architecture).

  The address space is \<open>axmm::AddrSpace\<close>: its operations are the fields of \<open>aspace_ops\<close> and an
  argument of the definitions. The rounding functions of the crate \<open>memory_addr\<close> are arguments too.
\<close>

subsection \<open>Address spaces\<close>

datatype page_size = Size4K | Size2M | Size1G

fun page_bytes :: "page_size \<Rightarrow> nat" where
  "page_bytes Size4K = 0x1000"
| "page_bytes Size2M = 0x200000"
| "page_bytes Size1G = 0x40000000"

text \<open>
  The backends the calls create. A file backend keeps the cache, the file whose open flags it takes and
  the offset.
\<close>

datatype backend =
    Backend_alloc addr page_size
  | Backend_shared addr usize
  | Backend_file addr nat nat usize
  | Backend_cow addr page_size nat usize
  | Backend_linear int

record 'a aspace_ops =
  as_map :: "addr \<Rightarrow> usize \<Rightarrow> mapping_flags \<Rightarrow> bool \<Rightarrow> backend \<Rightarrow> 'a \<Rightarrow> 'a \<times> unit outcome"
  as_unmap :: "addr \<Rightarrow> usize \<Rightarrow> 'a \<Rightarrow> 'a \<times> unit outcome"
  as_protect :: "addr \<Rightarrow> usize \<Rightarrow> mapping_flags \<Rightarrow> 'a \<Rightarrow> 'a \<times> unit outcome"
  as_find_free_area :: "addr \<Rightarrow> usize \<Rightarrow> usize \<Rightarrow> 'a \<Rightarrow> addr option"
  as_base :: "'a \<Rightarrow> addr"
  as_find_area :: "addr \<Rightarrow> 'a \<Rightarrow> mapping_flags option"
  as_query :: "addr \<Rightarrow> 'a \<Rightarrow> page_size option"

subsection \<open>\<open>brk\<close>\<close>

definition USER_HEAP_BASE :: nat where "USER_HEAP_BASE = 0x40000000"
definition USER_HEAP_SIZE :: nat where "USER_HEAP_SIZE = 0x10000"
definition USER_HEAP_SIZE_MAX :: nat where "USER_HEAP_SIZE_MAX = 0x20000000"

definition heap_flags :: mapping_flags where
  "heap_flags = \<lparr>mf_read = True, mf_write = True, mf_execute = False, mf_user = True\<rparr>"

text \<open>The state is the heap top of the process and its address space.\<close>

definition sys_brk ::
    "'a aspace_ops \<Rightarrow> (addr \<Rightarrow> addr) \<Rightarrow> addr \<Rightarrow> addr \<times> 'a \<Rightarrow> (addr \<times> 'a) \<times> addr outcome" where
  "sys_brk ops align_up a s =
     (let (current_top, asp) = s; heap_limit = USER_HEAP_BASE + USER_HEAP_SIZE_MAX in
      if a = 0 then (s, Ok current_top)
      else if a < USER_HEAP_BASE \<or> a > heap_limit then (s, Ok current_top)
      else
        let new_top_aligned = align_up a;
            current_top_aligned = align_up current_top;
            initial_heap_end = USER_HEAP_BASE + USER_HEAP_SIZE
        in
        if new_top_aligned > current_top_aligned then
          let expand_start = max initial_heap_end current_top_aligned;
              expand_size = new_top_aligned - expand_start
          in if expand_size > 0 then
               (case as_map ops expand_start expand_size heap_flags False (Backend_alloc expand_start Size4K) asp of
                  (asp', Inl Panic) \<Rightarrow> ((current_top, asp'), Panicked)
                | (asp', Inl (Err _)) \<Rightarrow> ((current_top, asp'), Ok current_top)
                | (asp', Inr _) \<Rightarrow> ((a, asp'), Ok a))
             else ((a, asp), Ok a)
        else if new_top_aligned < current_top_aligned then
          let shrink_start = max initial_heap_end new_top_aligned;
              shrink_size = current_top_aligned - shrink_start
          in if shrink_size > 0 then
               (case as_unmap ops shrink_start shrink_size asp of
                  (asp', Inl Panic) \<Rightarrow> ((current_top, asp'), Panicked)
                | (asp', Inl (Err _)) \<Rightarrow> ((current_top, asp'), Ok current_top)
                | (asp', Inr _) \<Rightarrow> ((a, asp'), Ok a))
             else ((a, asp), Ok a)
        else ((a, asp), Ok a))"

subsection \<open>\<open>mmap\<close> and its relatives\<close>

definition PROT_READ :: u32 where "PROT_READ = 1"
definition PROT_WRITE :: u32 where "PROT_WRITE = 2"
definition PROT_EXEC :: u32 where "PROT_EXEC = 4"
definition PROT_GROWSDOWN :: u32 where "PROT_GROWSDOWN = 0x1000000"
definition PROT_GROWSUP :: u32 where "PROT_GROWSUP = 0x2000000"

definition prot_bits :: u32 where
  "prot_bits = PROT_READ OR PROT_WRITE OR PROT_EXEC OR PROT_GROWSDOWN OR PROT_GROWSUP"

definition prot_flags :: "u32 \<Rightarrow> mapping_flags" where
  "prot_flags p =
     \<lparr>mf_read = has_flags p PROT_READ, mf_write = has_flags p PROT_WRITE,
      mf_execute = has_flags p PROT_EXEC, mf_user = True\<rparr>"

definition MAP_SHARED :: u32 where "MAP_SHARED = 1"
definition MAP_PRIVATE :: u32 where "MAP_PRIVATE = 2"
definition MAP_SHARED_VALIDATE :: u32 where "MAP_SHARED_VALIDATE = 3"
definition MAP_TYPE :: u32 where "MAP_TYPE = 0xF"
definition MAP_FIXED :: u32 where "MAP_FIXED = 0x10"
definition MAP_ANONYMOUS :: u32 where "MAP_ANONYMOUS = 0x20"
definition MAP_DENYWRITE :: u32 where "MAP_DENYWRITE = 0x800"
definition MAP_NORESERVE :: u32 where "MAP_NORESERVE = 0x4000"
definition MAP_POPULATE :: u32 where "MAP_POPULATE = 0x8000"
definition MAP_STACK :: u32 where "MAP_STACK = 0x20000"
definition MAP_HUGETLB :: u32 where "MAP_HUGETLB = 0x40000"
definition MAP_FIXED_NOREPLACE :: u32 where "MAP_FIXED_NOREPLACE = 0x100000"
definition MAP_HUGE_1GB :: u32 where "MAP_HUGE_1GB = 0x78000000"

definition mmap_bits :: u32 where
  "mmap_bits = MAP_TYPE OR MAP_FIXED OR MAP_ANONYMOUS OR MAP_DENYWRITE OR MAP_NORESERVE OR MAP_POPULATE
     OR MAP_STACK OR MAP_HUGETLB OR MAP_FIXED_NOREPLACE OR MAP_HUGE_1GB"

text \<open>
  What \<open>mmap\<close> distinguishes of an open file: a cached file, or a location that may be a device with its
  way of mapping.
\<close>

datatype device_mmap = Mmap_none | Mmap_readonly | Mmap_physical addr addr | Mmap_cache nat

datatype file_backend = Cached_file nat | Direct_other | Direct_device nat device_mmap

definition mmap_flags_of :: "u32 \<Rightarrow> u32 outcome" where
  "mmap_flags_of flags =
     (if \<not> any_flag flags (NOT mmap_bits) then Ok flags
      else if flags AND MAP_TYPE = MAP_SHARED_VALIDATE then Fail OperationNotSupported
      else Ok (flags AND mmap_bits))"

definition mmap_page_size :: "u32 \<Rightarrow> page_size" where
  "mmap_page_size map_flags =
     (if has_flags map_flags (MAP_HUGETLB OR MAP_HUGE_1GB) then Size1G
      else if has_flags map_flags MAP_HUGETLB then Size2M
      else Size4K)"

text \<open>The checks of the arguments, before anything is changed.\<close>

definition mmap_check :: "usize \<Rightarrow> u32 \<Rightarrow> i32 \<Rightarrow> int \<Rightarrow> u32 outcome" where
  "mmap_check len flags fd offset =
     (if len = 0 then Fail InvalidInput
      else case mmap_flags_of flags of
        Inl e \<Rightarrow> Inl e
      | Inr map_flags \<Rightarrow>
          (let map_type = map_flags AND MAP_TYPE in
           if map_type \<noteq> MAP_PRIVATE \<and> map_type \<noteq> MAP_SHARED \<and> map_type \<noteq> MAP_SHARED_VALIDATE then Fail InvalidInput
           else if has_flags map_flags MAP_ANONYMOUS \<noteq> (fd \<le> 0) then Fail InvalidInput
           else if fd \<le> 0 \<and> offset \<noteq> 0 then Fail InvalidInput
           else if offset < 0 then Fail InvalidInput
           else if nat offset mod page_bytes Size4K \<noteq> 0 then Fail InvalidInput
           else Ok map_flags))"

text \<open>
  Where the mapping goes; a fixed mapping removes what is there. The search is within the bounds of the
  address space, which \<open>as_find_free_area\<close> knows.
\<close>

definition mmap_place ::
    "'a aspace_ops \<Rightarrow> u32 \<Rightarrow> page_size \<Rightarrow> addr \<Rightarrow> usize \<Rightarrow> 'a \<Rightarrow> 'a \<times> addr outcome" where
  "mmap_place ops map_flags ps start len asp =
     (if any_flag map_flags (MAP_FIXED OR MAP_FIXED_NOREPLACE) then
        (if \<not> has_flags map_flags MAP_FIXED_NOREPLACE then
           (case as_unmap ops start len asp of
              (asp', Inl e) \<Rightarrow> (asp', Inl e)
            | (asp', Inr _) \<Rightarrow> (asp', Ok start))
         else (asp, Ok start))
      else
        case as_find_free_area ops start len (page_bytes ps) asp of
          Some a \<Rightarrow> (asp, Ok a)
        | None \<Rightarrow>
            (case as_find_free_area ops (as_base ops asp) len (page_bytes ps) asp of
               Some a \<Rightarrow> (asp, Ok a)
             | None \<Rightarrow> (asp, Fail NoMemory)))"

text \<open>The backend and the length to map; \<open>shared_pages\<close> allocates shared pages and may fail.\<close>

definition mmap_backend ::
    "(usize \<Rightarrow> addr \<Rightarrow> addr) \<Rightarrow> (usize \<Rightarrow> unit outcome) \<Rightarrow> (nat \<Rightarrow> file_backend outcome) \<Rightarrow> u32 \<Rightarrow> page_size \<Rightarrow> addr \<Rightarrow> usize
      \<Rightarrow> usize \<Rightarrow> nat option \<Rightarrow> (backend \<times> usize) outcome" where
  "mmap_backend align_down shared_pages backend_of map_type ps start len offset file_opt =
     (if map_type = MAP_PRIVATE then
        (case file_opt of
           None \<Rightarrow> Ok (Backend_alloc start ps, len)
         | Some f \<Rightarrow>
             (case backend_of f of
                Inl e \<Rightarrow> Inl e
              | Inr _ \<Rightarrow> Ok (Backend_cow start ps f offset, len)))
      else
        case file_opt of
          None \<Rightarrow> (case shared_pages len of Inl e \<Rightarrow> Inl e | Inr _ \<Rightarrow> Ok (Backend_shared start len, len))
        | Some f \<Rightarrow>
            (case backend_of f of
               Inl e \<Rightarrow> Inl e
             | Inr (Cached_file c) \<Rightarrow> Ok (Backend_file start c f offset, len)
             | Inr Direct_other \<Rightarrow> Fail NoSuchDevice
             | Inr (Direct_device dev Mmap_none) \<Rightarrow> Fail NoSuchDevice
             | Inr (Direct_device dev Mmap_readonly) \<Rightarrow> Ok (Backend_cow start ps f offset, len)
             | Inr (Direct_device dev (Mmap_physical lo hi)) \<Rightarrow>
                 let lo' = uadd lo offset in
                 if hi \<le> lo' then Fail InvalidInput
                 else Ok (Backend_linear (wrap_i64 (int start - int lo')),
                          min len (align_down (page_bytes ps) (hi - lo')))
             | Inr (Direct_device dev (Mmap_cache c)) \<Rightarrow> Ok (Backend_file start c f offset, len)))"

text \<open>\<open>file_of\<close> is \<open>File::from_fd\<close>.\<close>

definition sys_mmap ::
    "'a aspace_ops \<Rightarrow> (usize \<Rightarrow> addr \<Rightarrow> addr) \<Rightarrow> (usize \<Rightarrow> addr \<Rightarrow> addr) \<Rightarrow> (usize \<Rightarrow> unit outcome)
      \<Rightarrow> (i32 \<Rightarrow> nat outcome) \<Rightarrow> (nat \<Rightarrow> file_backend outcome)
      \<Rightarrow> addr \<Rightarrow> usize \<Rightarrow> u32 \<Rightarrow> u32 \<Rightarrow> i32 \<Rightarrow> int \<Rightarrow> 'a \<Rightarrow> 'a \<times> addr outcome" where
  "sys_mmap ops align_down align_up shared_pages file_of backend_of a len0 prot flags fd offset asp =
     (case mmap_check len0 flags fd offset of
        Inl e \<Rightarrow> (asp, Inl e)
      | Inr map_flags \<Rightarrow>
          (let ps = mmap_page_size map_flags;
               start0 = align_down (page_bytes ps) a;
               len = usub (align_up (page_bytes ps) (uadd a len0)) start0
           in case mmap_place ops map_flags ps start0 len asp of
                (asp1, Inl e) \<Rightarrow> (asp1, Inl e)
              | (asp1, Inr start) \<Rightarrow>
                  (case (if fd > 0 then map_sum id Some (file_of fd) else Ok None) of
                     Inl e \<Rightarrow> (asp1, Inl e)
                   | Inr file_opt \<Rightarrow>
                       (case mmap_backend align_down shared_pages backend_of (map_flags AND MAP_TYPE) ps start len
                               (nat offset) file_opt of
                          Inl e \<Rightarrow> (asp1, Inl e)
                        | Inr (backend, len') \<Rightarrow>
                            (case as_map ops start len' (prot_flags (prot AND prot_bits))
                                    (has_flags map_flags MAP_POPULATE) backend asp1 of
                               (asp2, Inl e) \<Rightarrow> (asp2, Inl e)
                             | (asp2, Inr _) \<Rightarrow> (asp2, Ok start))))))"

definition sys_munmap :: "'a aspace_ops \<Rightarrow> (addr \<Rightarrow> addr) \<Rightarrow> addr \<Rightarrow> usize \<Rightarrow> 'a \<Rightarrow> 'a \<times> int outcome" where
  "sys_munmap ops align_up a len asp =
     (case as_unmap ops a (align_up len) asp of
        (asp', Inl e) \<Rightarrow> (asp', Inl e)
      | (asp', Inr _) \<Rightarrow> (asp', Ok 0))"

definition sys_mprotect :: "'a aspace_ops \<Rightarrow> (addr \<Rightarrow> addr) \<Rightarrow> addr \<Rightarrow> usize \<Rightarrow> u32 \<Rightarrow> 'a \<Rightarrow> 'a \<times> int outcome" where
  "sys_mprotect ops align_up a len prot asp =
     (if any_flag prot (NOT prot_bits) then (asp, Fail InvalidInput)
      else if has_flags prot (PROT_GROWSDOWN OR PROT_GROWSUP) then (asp, Fail InvalidInput)
      else case as_protect ops a (align_up len) (prot_flags prot) asp of
             (asp', Inl e) \<Rightarrow> (asp', Inl e)
           | (asp', Inr _) \<Rightarrow> (asp', Ok 0))"

text \<open>
  \<open>sys_mremap\<close>: a new private mapping through \<open>sys_mmap\<close> with descriptor -1, a copy, and the old
  range unmapped. \<open>copy\<close> is the load and store through user memory; \<open>flag_bits\<close> is the numeric
  value of mapping flags.
\<close>

definition sys_mremap ::
    "'a aspace_ops \<Rightarrow> (usize \<Rightarrow> addr \<Rightarrow> addr) \<Rightarrow> (usize \<Rightarrow> addr \<Rightarrow> addr) \<Rightarrow> (usize \<Rightarrow> unit outcome)
      \<Rightarrow> (i32 \<Rightarrow> nat outcome) \<Rightarrow> (nat \<Rightarrow> file_backend outcome) \<Rightarrow> (mapping_flags \<Rightarrow> u32)
      \<Rightarrow> (addr \<Rightarrow> addr \<Rightarrow> usize \<Rightarrow> 'a \<Rightarrow> 'a \<times> unit outcome) \<Rightarrow> addr \<Rightarrow> usize \<Rightarrow> usize \<Rightarrow> 'a \<Rightarrow> 'a \<times> addr outcome" where
  "sys_mremap ops align_down align_up shared_pages file_of backend_of flag_bits copy a old_size0 new_size0 asp =
     (if a mod page_bytes Size4K \<noteq> 0 then (asp, Fail InvalidInput)
      else
        let old_size = align_up 4096 old_size0; new_size = align_up 4096 new_size0 in
        case as_find_area ops a asp of
          None \<Rightarrow> (asp, Fail NoMemory)
        | Some flags \<Rightarrow>
            (case sys_mmap ops align_down align_up shared_pages file_of backend_of a new_size (flag_bits flags)
                    MAP_PRIVATE (-1) 0 asp of
               (asp1, Inl e) \<Rightarrow> (asp1, Inl e)
             | (asp1, Inr new_addr) \<Rightarrow>
                 (case copy a new_addr (min new_size old_size) asp1 of
                    (asp2, Inl e) \<Rightarrow> (asp2, Inl e)
                  | (asp2, Inr _) \<Rightarrow>
                      (case sys_munmap ops (align_up 4096) a old_size asp2 of
                         (asp3, Inl e) \<Rightarrow> (asp3, Inl e)
                       | (asp3, Inr _) \<Rightarrow> (asp3, Ok new_addr)))))"

text \<open>The calls that do nothing.\<close>

definition sys_madvise :: "addr \<Rightarrow> usize \<Rightarrow> i32 \<Rightarrow> int outcome" where
  "sys_madvise a len advice = Ok 0"

definition sys_msync :: "addr \<Rightarrow> usize \<Rightarrow> u32 \<Rightarrow> int outcome" where
  "sys_msync a len flags = Ok 0"

definition sys_mlock2 :: "addr \<Rightarrow> usize \<Rightarrow> u32 \<Rightarrow> int outcome" where
  "sys_mlock2 a len flags = Ok 0"

definition sys_mlock :: "addr \<Rightarrow> usize \<Rightarrow> int outcome" where
  "sys_mlock a len = sys_mlock2 a len 0"

subsection \<open>\<open>mincore\<close>\<close>

fun page_count_of :: "page_size \<Rightarrow> nat" where
  "page_count_of ps = page_bytes ps div PAGE_SIZE_4K"

lemma page_count_pos [simp]: "0 < page_count_of ps"
  by (cases ps) simp_all

text \<open>
  The loop; \<open>result\<close> is the vector being filled. A page that is present covers as many entries as its
  size, one that is not covers one.
\<close>

function mincore_loop ::
    "'a aspace_ops \<Rightarrow> 'a \<Rightarrow> addr \<Rightarrow> nat \<Rightarrow> nat \<Rightarrow> u8 list \<Rightarrow> u8 list outcome" where
  "mincore_loop ops asp start page_count i result =
     (if i < page_count then
        (let a = uadd start (i * PAGE_SIZE_4K) in
         case as_find_area ops a asp of
           None \<Rightarrow> Fail NoMemory
         | Some flags \<Rightarrow>
             if \<not> mf_user flags then Fail NoMemory
             else
               (case as_query ops a asp of
                  Some ps \<Rightarrow>
                    (let n = page_count_of ps; stop = min (i + n) page_count in
                     mincore_loop ops asp start page_count (i + n)
                       (take i result @ replicate (stop - i) 1 @ drop stop result))
                | None \<Rightarrow> mincore_loop ops asp start page_count (i + 1) result))
      else Ok result)"
  by pat_completeness auto

termination mincore_loop
  by (relation "measure (\<lambda>(ops, asp, start, page_count, i, result). page_count - i)")
    (auto intro: diff_less_mono2 simp del: page_count_of.simps)

text \<open>
  \<open>can_alloc\<close> says whether the kernel heap can give the result vector, whose size the caller chooses;
  \<open>vec!\<close> panics when it cannot.
\<close>

definition sys_mincore ::
    "'a aspace_ops \<Rightarrow> (nat \<Rightarrow> bool) \<Rightarrow> (addr \<Rightarrow> u8 list \<Rightarrow> 'm \<Rightarrow> 'm \<times> unit outcome) \<Rightarrow> addr \<Rightarrow> usize \<Rightarrow> addr \<Rightarrow> 'a \<Rightarrow> 'm \<Rightarrow> 'm \<times> int outcome" where
  "sys_mincore ops can_alloc write_slice start len vec asp m =
     (if start mod PAGE_SIZE_4K \<noteq> 0 then (m, Fail InvalidInput)
      else if vec = 0 then (m, Fail BadAddress)
      else if len = 0 then (m, Ok 0)
      else
        let page_count = (len + (PAGE_SIZE_4K - 1)) div PAGE_SIZE_4K in
        if \<not> can_alloc page_count then (m, Panicked)
        else case mincore_loop ops asp start page_count 0 (replicate page_count 0) of
          Inl e \<Rightarrow> (m, Inl e)
        | Inr result \<Rightarrow>
            (case write_slice vec result m of
               (m', Inl e) \<Rightarrow> (m', Inl e)
             | (m', Inr _) \<Rightarrow> (m', Ok 0)))"

end
