(* ===== verification/Mm_Props.thy ===== *)
theory Mm_Props
  imports Mm
begin

section \<open>Properties of the memory management calls\<close>

text \<open>
  The heap of a process over any sequence of \<open>brk\<close> calls, the argument checks of \<open>mmap\<close> and
  \<open>mremap\<close>, and the residency vector of \<open>mincore\<close> against a page by page specification.
\<close>

subsection \<open>The heap\<close>

text \<open>
  What \<open>brk\<close> relies on: a successful \<open>map\<close> adds exactly its range and a successful \<open>unmap\<close>
  removes exactly its range from the mapped addresses, a call that fails changes nothing, and neither
  panics.
\<close>

definition aspace_contract :: "'a aspace_ops \<Rightarrow> ('a \<Rightarrow> addr set) \<Rightarrow> bool" where
  "aspace_contract ops mapped \<longleftrightarrow>
     (\<forall>a sz fl pop b s. snd (as_map ops a sz fl pop b s) \<noteq> Panicked
        \<and> mapped (fst (as_map ops a sz fl pop b s)) =
            (case snd (as_map ops a sz fl pop b s) of Inl _ \<Rightarrow> mapped s | Inr _ \<Rightarrow> mapped s \<union> {a..<a + sz}))
     \<and> (\<forall>a sz s. snd (as_unmap ops a sz s) \<noteq> Panicked
        \<and> mapped (fst (as_unmap ops a sz s)) =
            (case snd (as_unmap ops a sz s) of Inl _ \<Rightarrow> mapped s | Inr _ \<Rightarrow> mapped s - {a..<a + sz}))"

definition heap_end :: nat where "heap_end = USER_HEAP_BASE + USER_HEAP_SIZE"
definition heap_limit :: nat where "heap_limit = USER_HEAP_BASE + USER_HEAP_SIZE_MAX"

definition heap_ok :: "('a \<Rightarrow> addr set) \<Rightarrow> (addr \<Rightarrow> addr) \<Rightarrow> addr \<times> 'a \<Rightarrow> bool" where
  "heap_ok mapped align_up s \<longleftrightarrow>
     USER_HEAP_BASE \<le> fst s \<and> fst s \<le> heap_limit
     \<and> mapped (snd s) \<inter> {USER_HEAP_BASE..<heap_limit} = {USER_HEAP_BASE..<max heap_end (align_up (fst s))}"

lemmas heap_defs = heap_end_def heap_limit_def USER_HEAP_BASE_def USER_HEAP_SIZE_def USER_HEAP_SIZE_MAX_def

lemma align_up_limit:
  assumes "rounds_up 4096 f" "a \<le> heap_limit"
  shows "f a \<le> heap_limit"
proof -
  have r: "f a < a + 4096" "4096 dvd f a"
    using assms unfolding rounds_up_def by (auto simp: heap_defs)
  then obtain k where k: "f a = 4096 * k" by (auto simp: dvd_def)
  show ?thesis using r(1) assms(2) unfolding k heap_defs by simp
qed

lemma map_cases:
  assumes "aspace_contract ops mapped" "as_map ops a sz fl pop b s = (s', r)"
  obtains e where "r = Inl (Err e)" "mapped s' = mapped s"
  | u where "r = Inr u" "mapped s' = mapped s \<union> {a..<a + sz}"
proof (cases r)
  case (Inl x)
  with assms have "x \<noteq> Panic" "mapped s' = mapped s"
    unfolding aspace_contract_def by (metis snd_conv fst_conv sum.case(1))+
  with Inl that(1) show ?thesis by (cases x) auto
next
  case (Inr u)
  with assms have "mapped s' = mapped s \<union> {a..<a + sz}"
    unfolding aspace_contract_def by (metis snd_conv fst_conv sum.case(2))
  with Inr that(2) show ?thesis by blast
qed

lemma unmap_cases:
  assumes "aspace_contract ops mapped" "as_unmap ops a sz s = (s', r)"
  obtains e where "r = Inl (Err e)" "mapped s' = mapped s"
  | u where "r = Inr u" "mapped s' = mapped s - {a..<a + sz}"
proof (cases r)
  case (Inl x)
  with assms have "x \<noteq> Panic" "mapped s' = mapped s"
    unfolding aspace_contract_def by (metis snd_conv fst_conv sum.case(1))+
  with Inl that(1) show ?thesis by (cases x) auto
next
  case (Inr u)
  with assms have "mapped s' = mapped s - {a..<a + sz}"
    unfolding aspace_contract_def by (metis snd_conv fst_conv sum.case(2))
  with Inr that(2) show ?thesis by blast
qed

lemma interval_grow:
  fixes lo e t hi :: nat
  assumes m: "M \<inter> {lo..<hi} = {lo..<e}" and o: "lo \<le> e" "e \<le> t" "t \<le> hi"
  shows "(M \<union> {e..<t}) \<inter> {lo..<hi} = {lo..<t}" "(M \<union> {e..<t}) - {lo..<hi} = M - {lo..<hi}"
proof -
  have "(M \<union> {e..<t}) \<inter> {lo..<hi} = {lo..<e} \<union> {e..<t} \<inter> {lo..<hi}"
    unfolding m [symmetric] by blast
  also have "\<dots> = {lo..<t}" using o by auto
  finally show "(M \<union> {e..<t}) \<inter> {lo..<hi} = {lo..<t}" .
  have "{e..<t} \<subseteq> {lo..<hi}" using o by auto
  then show "(M \<union> {e..<t}) - {lo..<hi} = M - {lo..<hi}" by blast
qed

lemma interval_shrink:
  fixes lo e t hi :: nat
  assumes m: "M \<inter> {lo..<hi} = {lo..<e}" and o: "lo \<le> t" "t \<le> e" "e \<le> hi"
  shows "(M - {t..<e}) \<inter> {lo..<hi} = {lo..<t}" "(M - {t..<e}) - {lo..<hi} = M - {lo..<hi}"
proof -
  have "(M - {t..<e}) \<inter> {lo..<hi} = {lo..<e} - {t..<e}"
    unfolding m [symmetric] by blast
  also have "\<dots> = {lo..<t}" using o by auto
  finally show "(M - {t..<e}) \<inter> {lo..<hi} = {lo..<t}" .
  have "{t..<e} \<subseteq> {lo..<hi}" using o by auto
  then show "(M - {t..<e}) - {lo..<hi} = M - {lo..<hi}" by blast
qed

text \<open>What one call does, given the state of the heap.\<close>

definition brk_step_ok :: "('a \<Rightarrow> addr set) \<Rightarrow> (addr \<Rightarrow> addr) \<Rightarrow> addr \<times> 'a \<Rightarrow> (addr \<times> 'a) \<times> addr outcome \<Rightarrow> bool" where
  "brk_step_ok mapped align_up s r \<longleftrightarrow>
     heap_ok mapped align_up (fst r) \<and> snd r = Ok (fst (fst r))
     \<and> mapped (snd (fst r)) - {USER_HEAP_BASE..<heap_limit} = mapped (snd s) - {USER_HEAP_BASE..<heap_limit}"

lemma heap_order: "USER_HEAP_BASE \<le> heap_end" "heap_end \<le> heap_limit" "0 < USER_HEAP_BASE"
  by (simp_all add: heap_defs)

lemma brk_moved:
  assumes "USER_HEAP_BASE \<le> a" "a \<le> heap_limit"
    and "mapped asp' \<inter> {USER_HEAP_BASE..<heap_limit} = {USER_HEAP_BASE..<max heap_end (align_up a)}"
    and "mapped asp' - {USER_HEAP_BASE..<heap_limit} = mapped (snd s) - {USER_HEAP_BASE..<heap_limit}"
  shows "brk_step_ok mapped align_up s ((a, asp'), Ok a)"
  using assms by (simp add: brk_step_ok_def heap_ok_def)

lemma brk_kept:
  "heap_ok mapped align_up s \<Longrightarrow> mapped asp' = mapped (snd s) \<Longrightarrow>
    brk_step_ok mapped align_up s ((fst s, asp'), Ok (fst s))"
  by (simp add: brk_step_ok_def heap_ok_def)

lemma brk_grown:
  assumes h: "heap_ok mapped align_up s" and a: "USER_HEAP_BASE \<le> a" "a \<le> heap_limit" "align_up a \<le> heap_limit"
    and m: "mapped asp' = mapped (snd s) \<union> {max heap_end (align_up (fst s))..<align_up a}"
    and l: "max heap_end (align_up (fst s)) < align_up a"
  shows "brk_step_ok mapped align_up s ((a, asp'), Ok a)"
proof -
  have inv: "mapped (snd s) \<inter> {USER_HEAP_BASE..<heap_limit} = {USER_HEAP_BASE..<max heap_end (align_up (fst s))}"
    using h by (simp add: heap_ok_def)
  have "USER_HEAP_BASE \<le> max heap_end (align_up (fst s))" using heap_order(1) by simp
  note g = interval_grow [OF inv this less_imp_le [OF l] a(3)]
  have "max heap_end (align_up a) = align_up a" using l by simp
  then show ?thesis using g unfolding m [symmetric] by (intro brk_moved a) simp_all
qed

lemma brk_shrunk:
  assumes h: "heap_ok mapped align_up s" and a: "USER_HEAP_BASE \<le> a" "a \<le> heap_limit" "align_up (fst s) \<le> heap_limit"
    and m: "mapped asp' = mapped (snd s) - {max heap_end (align_up a)..<align_up (fst s)}"
    and l: "max heap_end (align_up a) < align_up (fst s)"
  shows "brk_step_ok mapped align_up s ((a, asp'), Ok a)"
proof -
  have "max heap_end (align_up (fst s)) = align_up (fst s)" using l by simp
  then have inv: "mapped (snd s) \<inter> {USER_HEAP_BASE..<heap_limit} = {USER_HEAP_BASE..<align_up (fst s)}"
    using h by (simp add: heap_ok_def)
  have "USER_HEAP_BASE \<le> max heap_end (align_up a)" using heap_order(1) by simp
  note g = interval_shrink [OF inv this less_imp_le [OF l] a(3)]
  show ?thesis using g unfolding m [symmetric] by (intro brk_moved a) simp_all
qed

lemma brk_same_end:
  assumes "heap_ok mapped align_up s" "USER_HEAP_BASE \<le> a" "a \<le> heap_limit"
    and "max heap_end (align_up a) = max heap_end (align_up (fst s))"
  shows "brk_step_ok mapped align_up s ((a, snd s), Ok a)"
  using assms by (intro brk_moved) (simp_all add: heap_ok_def)

lemmas brk_unfold = sys_brk_def [folded heap_limit_def heap_end_def, unfolded Let_def]

text \<open>A new top above and below the pages of the current one.\<close>

lemma brk_step_grow:
  assumes c: "aspace_contract ops mapped" and h: "heap_ok mapped align_up s"
    and a: "USER_HEAP_BASE \<le> a" "a \<le> heap_limit" "align_up a \<le> heap_limit" and g: "align_up (fst s) < align_up a"
  shows "brk_step_ok mapped align_up s (sys_brk ops align_up a s)"
proof -
  define es where "es = max heap_end (align_up (fst s))"
  have nz: "a \<noteq> 0" "\<not> a < USER_HEAP_BASE" "\<not> heap_limit < a" using a heap_order by linarith+
  show ?thesis
  proof (cases "es < align_up a")
    case True
    obtain asp' r where m: "as_map ops es (align_up a - es) heap_flags False (Backend_alloc es Size4K) (snd s) = (asp', r)"
      by fastforce
    from c m show ?thesis
    proof (cases rule: map_cases)
      case (1 e)
      then show ?thesis using brk_kept [OF h] m g True nz by (simp add: brk_unfold es_def split_beta)
    next
      case (2 u)
      with True have "mapped asp' = mapped (snd s) \<union> {es..<align_up a}" by simp
      from brk_grown [OF h a this [unfolded es_def] True [unfolded es_def]] show ?thesis
        using 2 m g True nz by (simp add: brk_unfold es_def split_beta)
    qed
  next
    case False
    with g have "max heap_end (align_up a) = max heap_end (align_up (fst s))" by (simp add: es_def)
    from brk_same_end [OF h a(1,2) this] show ?thesis
      using g False nz by (simp add: brk_unfold es_def split_beta)
  qed
qed

lemma brk_step_shrink:
  assumes c: "aspace_contract ops mapped" and h: "heap_ok mapped align_up s"
    and a: "USER_HEAP_BASE \<le> a" "a \<le> heap_limit" "align_up (fst s) \<le> heap_limit" and g: "align_up a < align_up (fst s)"
  shows "brk_step_ok mapped align_up s (sys_brk ops align_up a s)"
proof -
  define ss where "ss = max heap_end (align_up a)"
  have nz: "a \<noteq> 0" "\<not> a < USER_HEAP_BASE" "\<not> heap_limit < a" using a heap_order by linarith+
  show ?thesis
  proof (cases "ss < align_up (fst s)")
    case True
    obtain asp' r where m: "as_unmap ops ss (align_up (fst s) - ss) (snd s) = (asp', r)" by fastforce
    from c m show ?thesis
    proof (cases rule: unmap_cases)
      case (1 e)
      then show ?thesis using brk_kept [OF h] m g True nz by (simp add: brk_unfold ss_def split_beta)
    next
      case (2 u)
      with True have "mapped asp' = mapped (snd s) - {ss..<align_up (fst s)}" by simp
      from brk_shrunk [OF h a this [unfolded ss_def] True [unfolded ss_def]] show ?thesis
        using 2 m g True nz by (simp add: brk_unfold ss_def split_beta)
    qed
  next
    case False
    with g have "max heap_end (align_up a) = max heap_end (align_up (fst s))" by (simp add: ss_def)
    from brk_same_end [OF h a(1,2) this] show ?thesis
      using g False nz by (simp add: brk_unfold ss_def split_beta)
  qed
qed

lemma brk_step:
  assumes c: "aspace_contract ops mapped" and r: "rounds_up 4096 align_up" and h: "heap_ok mapped align_up s"
  shows "brk_step_ok mapped align_up s (sys_brk ops align_up a s)"
proof (cases "a = 0 \<or> a < USER_HEAP_BASE \<or> a > heap_limit")
  case True
  then have "sys_brk ops align_up a s = (s, Ok (fst s))" by (auto simp: brk_unfold split_beta)
  then show ?thesis using brk_kept [OF h refl] by simp
next
  case False
  then have a: "USER_HEAP_BASE \<le> a" "a \<le> heap_limit" by simp_all
  have la: "align_up a \<le> heap_limit" and lt: "align_up (fst s) \<le> heap_limit"
    using align_up_limit [OF r] a h by (simp_all add: heap_ok_def)
  show ?thesis
  proof (cases "align_up a" "align_up (fst s)" rule: linorder_cases)
    case equal
    then show ?thesis using brk_same_end [OF h a] False by (simp add: brk_unfold split_beta)
  qed (use brk_step_grow [OF c h a la] brk_step_shrink [OF c h a lt] in \<open>auto\<close>)
qed

text \<open>A sequence of calls: the state after them, with the results.\<close>

fun brk_calls :: "'a aspace_ops \<Rightarrow> (addr \<Rightarrow> addr) \<Rightarrow> addr list \<Rightarrow> addr \<times> 'a \<Rightarrow> (addr \<times> 'a) \<times> addr outcome list" where
  "brk_calls ops align_up [] s = (s, [])"
| "brk_calls ops align_up (a # as) s =
     (let (s1, r) = sys_brk ops align_up a s; (s2, rs) = brk_calls ops align_up as s1 in (s2, r # rs))"

lemma brk_calls_ok:
  assumes "aspace_contract ops mapped" "rounds_up 4096 align_up" "heap_ok mapped align_up s"
    and "brk_calls ops align_up as s = (s', rs)"
  shows "heap_ok mapped align_up s' \<and> Panicked \<notin> set rs \<and> (as \<noteq> [] \<longrightarrow> last rs = Ok (fst s'))
    \<and> mapped (snd s') - {USER_HEAP_BASE..<heap_limit} = mapped (snd s) - {USER_HEAP_BASE..<heap_limit}"
  using assms(3,4)
proof (induction as arbitrary: s rs)
  case (Cons a as)
  obtain s1 r where b: "sys_brk ops align_up a s = (s1, r)" by fastforce
  obtain s2 rs1 where cs: "brk_calls ops align_up as s1 = (s2, rs1)" by fastforce
  have st: "brk_step_ok mapped align_up s (s1, r)"
    using brk_step [OF assms(1,2) Cons.prems(1), of a] b by simp
  then have ok: "heap_ok mapped align_up s1" by (simp add: brk_step_ok_def)
  have e: "s' = s2" "rs = r # rs1" using Cons.prems(2) b cs by simp_all
  have "length rs1 = length as" using cs by (induction as arbitrary: s1 s2 rs1) (auto split: prod.splits)
  then show ?case using st Cons.IH [OF ok] cs e by (cases as) (auto simp: brk_step_ok_def)
qed simp

subsection \<open>Placing a mapping\<close>

text \<open>What \<open>mmap\<close> relies on of the search: the range found is aligned and free.\<close>

definition finder_contract :: "'a aspace_ops \<Rightarrow> ('a \<Rightarrow> addr set) \<Rightarrow> bool" where
  "finder_contract ops mapped \<longleftrightarrow>
     (\<forall>hint sz al s a. as_find_free_area ops hint sz al s = Some a \<longrightarrow> al dvd a \<and> {a..<a + sz} \<inter> mapped s = {})"

definition page_rounding :: "(usize \<Rightarrow> addr \<Rightarrow> addr) \<Rightarrow> (usize \<Rightarrow> addr \<Rightarrow> addr) \<Rightarrow> bool" where
  "page_rounding align_down align_up \<longleftrightarrow>
     (\<forall>ps. rounds_down (page_bytes ps) (align_down (page_bytes ps)) \<and> rounds_up (page_bytes ps) (align_up (page_bytes ps)))"

lemma mmap_check_flags:
  assumes "mmap_check len flags fd offset = Ok mf" "mmap_bits AND m = m"
  shows "mf AND m = flags AND m"
proof -
  have "mf = flags \<or> mf = flags AND mmap_bits"
    using assms(1) by (auto simp: mmap_check_def mmap_flags_of_def Let_def split: if_splits sum.splits)
  then show ?thesis using assms(2) by (auto simp: and.assoc)
qed

lemma mmap_fixed_bits: "mmap_bits AND (MAP_FIXED OR MAP_FIXED_NOREPLACE) = MAP_FIXED OR MAP_FIXED_NOREPLACE"
  "mmap_bits AND MAP_FIXED_NOREPLACE = MAP_FIXED_NOREPLACE"
  by (simp_all add: mmap_bits_def MAP_TYPE_def MAP_FIXED_def MAP_ANONYMOUS_def MAP_DENYWRITE_def MAP_NORESERVE_def
      MAP_POPULATE_def MAP_STACK_def MAP_HUGETLB_def MAP_FIXED_NOREPLACE_def MAP_HUGE_1GB_def)

lemma page_bytes_4k: "page_bytes Size4K dvd page_bytes ps"
  by (cases ps) simp_all

lemma mmap_place_free:
  assumes "finder_contract ops mapped" "\<not> any_flag mf (MAP_FIXED OR MAP_FIXED_NOREPLACE)"
    and "mmap_place ops mf ps start len asp = (asp', r)"
  shows "asp' = asp \<and> (case r of Inl e \<Rightarrow> e = Err NoMemory
           | Inr a \<Rightarrow> page_bytes Size4K dvd a \<and> {a..<a + len} \<inter> mapped asp = {})"
proof -
  have f: "page_bytes Size4K dvd a \<and> {a..<a + len} \<inter> mapped asp = {}"
    if "as_find_free_area ops hint len (page_bytes ps) asp = Some a" for hint a
    using assms(1) that page_bytes_4k [of ps] unfolding finder_contract_def by (meson dvd_trans)
  show ?thesis using assms(2,3) f
    by (auto simp: mmap_place_def split: option.splits)
qed

lemma mmap_backend_length:
  assumes "mmap_backend align_down shared backend_of mt ps start len off fopt = Ok (b, len')"
  shows "len' \<le> len" "fopt = None \<Longrightarrow> len' = len"
  using assms
  by (auto simp: mmap_backend_def Let_def split: if_splits option.splits sum.splits file_backend.splits device_mmap.splits)

lemma mmap_length_covers:
  assumes "page_rounding align_down align_up" "a + len0 + page_bytes ps \<le> 2 ^ 64"
  shows "len0 \<le> usub (align_up (page_bytes ps) (uadd a len0)) (align_down (page_bytes ps) a)"
proof -
  have "uadd a len0 = a + len0"
    using assms(2) by (intro uadd_exact) (cases ps; simp)
  moreover have "align_down (page_bytes ps) a \<le> a" "a + len0 \<le> align_up (page_bytes ps) (a + len0)"
    using assms unfolding page_rounding_def rounds_down_def rounds_up_def by blast+
  ultimately show ?thesis by (simp add: usub_def)
qed

lemma mmap_free:
  assumes c: "aspace_contract ops mapped" and f: "finder_contract ops mapped" and p: "page_rounding align_down align_up"
    and n: "\<not> any_flag flags (MAP_FIXED OR MAP_FIXED_NOREPLACE)" and l: "a + len + 2 ^ 30 \<le> 2 ^ 64"
    and e: "sys_mmap ops align_down align_up shared file_of backend_of a len prot flags fd off asp = (asp', r)"
  shows "(case r of Inl _ \<Rightarrow> mapped asp' = mapped asp
    | Inr start \<Rightarrow> \<exists>k. mapped asp' = mapped asp \<union> {start..<start + k} \<and> {start..<start + k} \<inter> mapped asp = {}
        \<and> page_bytes Size4K dvd start \<and> (0 < fd \<or> len \<le> k))"
proof (cases "mmap_check len flags fd off")
  case (Inl x)
  then show ?thesis using e by (auto simp: sys_mmap_def)
next
  case (Inr mf)
  define ps where "ps = mmap_page_size mf"
  define n1 where "n1 = usub (align_up (page_bytes ps) (uadd a len)) (align_down (page_bytes ps) a)"
  have nf: "\<not> any_flag mf (MAP_FIXED OR MAP_FIXED_NOREPLACE)"
    using mmap_check_flags [OF Inr mmap_fixed_bits(1)] n by (simp add: any_flag_def)
  have "a + len + page_bytes ps \<le> 2 ^ 64" using l by (cases ps) simp_all
  then have cover: "len \<le> n1" unfolding n1_def by (rule mmap_length_covers [OF p])
  obtain asp1 pr where pl: "mmap_place ops mf ps (align_down (page_bytes ps) a) n1 asp = (asp1, pr)" by fastforce
  note free = mmap_place_free [OF f nf pl]
  show ?thesis
  proof (cases pr)
    case (Inl x)
    then show ?thesis using e Inr pl free by (auto simp: sys_mmap_def Let_def ps_def n1_def)
  next
    case pr: (Inr start)
    with free have fr: "asp1 = asp" "page_bytes Size4K dvd start" "{start..<start + n1} \<inter> mapped asp = {}"
      by simp_all
    consider (err) x where "asp' = asp" "r = Inl x"
      | (mapped) fopt b k fl pop mr where
          "mmap_backend align_down shared backend_of (mf AND MAP_TYPE) ps start n1 (nat off) fopt = Ok (b, k)"
          "0 < fd \<or> fopt = None" "as_map ops start k fl pop b asp = (asp', mr)" "r = map_sum id (\<lambda>_. start) mr"
      using e Inr pl pr fr(1)
      by (auto simp: sys_mmap_def Let_def ps_def [symmetric] n1_def [symmetric] split: if_splits sum.splits prod.splits)
    then show ?thesis
    proof cases
      case err
      then show ?thesis by simp
    next
      case mapped
      have k: "k \<le> n1" "0 < fd \<or> k = n1" using mmap_backend_length [OF mapped(1)] mapped(2) by auto
      then have d: "{start..<start + k} \<inter> mapped asp = {}" using fr(3) by fastforce
      from c mapped(3) show ?thesis
      proof (cases rule: map_cases)
        case (2 u)
        then have "r = Inr start" using mapped(4) by simp
        then show ?thesis using 2(2) d fr(2) k cover by auto
      qed (use mapped(4) in simp)
    qed
  qed
qed

subsection \<open>Residency\<close>

text \<open>
  The state of page \<open>i\<close> of a range: \<open>None\<close> outside the user areas, otherwise whether it is resident.
  Blocks are uniform when a page that the page table reports as part of a block of \<open>n\<close> pages is followed
  by the rest of \<open>n\<close> pages in the same state, which is so for pages of 4 KiB and for a range that starts
  at a block.
\<close>

definition page_state :: "'a aspace_ops \<Rightarrow> 'a \<Rightarrow> addr \<Rightarrow> nat \<Rightarrow> bool option" where
  "page_state ops asp start i =
     (case as_find_area ops (uadd start (i * PAGE_SIZE_4K)) asp of
        None \<Rightarrow> None
      | Some fl \<Rightarrow> if mf_user fl then Some (as_query ops (uadd start (i * PAGE_SIZE_4K)) asp \<noteq> None) else None)"

definition blocks_uniform :: "'a aspace_ops \<Rightarrow> 'a \<Rightarrow> addr \<Rightarrow> nat \<Rightarrow> bool" where
  "blocks_uniform ops asp start n \<longleftrightarrow>
     (\<forall>i<n. \<forall>ps. as_query ops (uadd start (i * PAGE_SIZE_4K)) asp = Some ps \<and> page_state ops asp start i \<noteq> None \<longrightarrow>
        (\<forall>j<n. i \<le> j \<and> j < i + page_count_of ps \<longrightarrow> page_state ops asp start j = Some True))"

definition residency :: "'a aspace_ops \<Rightarrow> 'a \<Rightarrow> addr \<Rightarrow> nat \<Rightarrow> u8 list" where
  "residency ops asp start n = map (\<lambda>i. if page_state ops asp start i = Some True then 1 else 0) [0..<n]"

declare mincore_loop.simps [simp del] page_count_of.simps [simp del]

lemma residency_length [simp]: "length (residency ops asp start n) = n"
  by (simp add: residency_def)

lemma residency_fill:
  assumes "i \<le> k" "k \<le> n" "\<And>j. i \<le> j \<Longrightarrow> j < k \<Longrightarrow> page_state ops asp start j = Some True"
  shows "take i (residency ops asp start n) @ replicate (k - i) 1 = take k (residency ops asp start n)"
  using assms by (intro nth_equalityI) (auto simp: residency_def nth_append)

lemma residency_unset:
  assumes "i < n" "page_state ops asp start i = Some False"
  shows "take (Suc i) (residency ops asp start n) @ replicate (n - Suc i) 0 = take i (residency ops asp start n) @ replicate (n - i) 0"
  using assms by (simp add: take_Suc_conv_app_nth Suc_diff_Suc [symmetric]) (simp add: residency_def)

lemma blocks_uniformD:
  assumes "blocks_uniform ops asp start n" "i < n" "as_query ops (uadd start (i * PAGE_SIZE_4K)) asp = Some ps"
    and "page_state ops asp start i \<noteq> None" "i \<le> j" "j < i + page_count_of ps" "j < n"
  shows "page_state ops asp start j = Some True"
  using assms unfolding blocks_uniform_def by blast

lemma blocks_uniform_4k:
  assumes "\<And>a ps. as_query ops a asp = Some ps \<Longrightarrow> ps = Size4K"
  shows "blocks_uniform ops asp start n"
  unfolding blocks_uniform_def
proof (intro allI impI, elim conjE)
  fix i j ps
  assume q: "as_query ops (uadd start (i * PAGE_SIZE_4K)) asp = Some ps" and s: "page_state ops asp start i \<noteq> None"
    and j: "i \<le> j" "j < i + page_count_of ps"
  have "j = i" using j assms [OF q] by (simp add: page_count_of.simps)
  then show "page_state ops asp start j = Some True"
    using q s by (auto simp: page_state_def split: option.splits if_splits)
qed

text \<open>The vector after \<open>i\<close> pages, and one round of the loop.\<close>

definition partial_residency :: "'a aspace_ops \<Rightarrow> 'a \<Rightarrow> addr \<Rightarrow> nat \<Rightarrow> nat \<Rightarrow> u8 list" where
  "partial_residency ops asp start n i = take (min i n) (residency ops asp start n) @ replicate (n - i) 0"

lemma partial_residency_block:
  assumes "i < n" "k = min (i + c) n" "\<And>j. i \<le> j \<Longrightarrow> j < k \<Longrightarrow> page_state ops asp start j = Some True"
  shows "take i (partial_residency ops asp start n i) @ replicate (k - i) 1 @ drop k (partial_residency ops asp start n i)
    = partial_residency ops asp start n (i + c)"
proof -
  have k: "i \<le> k" "k \<le> n" using assms(1,2) by simp_all
  have "take i (partial_residency ops asp start n i) @ replicate (k - i) 1 = take k (residency ops asp start n)"
    using residency_fill [OF k assms(3)] k by (simp add: partial_residency_def)
  moreover have "drop k (partial_residency ops asp start n i) = replicate (n - (i + c)) 0"
    using k assms(1,2) by (auto simp: partial_residency_def)
  ultimately show ?thesis using assms(2) unfolding append_assoc [symmetric] by (simp add: partial_residency_def)
qed

lemma mincore_loop_round:
  assumes u: "blocks_uniform ops asp start n" and i: "i < n" and s: "page_state ops asp start i \<noteq> None"
  shows "\<exists>c>0. mincore_loop ops asp start n i (partial_residency ops asp start n i)
      = mincore_loop ops asp start n (i + c) (partial_residency ops asp start n (i + c))
    \<and> (\<forall>j<n. i \<le> j \<and> j < i + c \<longrightarrow> page_state ops asp start j \<noteq> None)"
proof -
  let ?a = "uadd start (i * PAGE_SIZE_4K)"
  obtain fl where fl: "as_find_area ops ?a asp = Some fl" "mf_user fl"
    using s by (auto simp: page_state_def split: option.splits if_splits)
  then have r: "page_state ops asp start i = Some (as_query ops ?a asp \<noteq> None)" by (simp add: page_state_def)
  show ?thesis
  proof (cases "as_query ops ?a asp")
    case None
    then have "partial_residency ops asp start n i = partial_residency ops asp start n (i + 1)"
      using residency_unset [of i n ops asp start] i r by (simp add: partial_residency_def)
    then show ?thesis using i fl None s
      by (intro exI [of _ 1]) (subst mincore_loop.simps, auto simp: Let_def less_Suc_eq)
  next
    case (Some ps)
    note res = blocks_uniformD [OF u i Some s]
    have "mincore_loop ops asp start n i (partial_residency ops asp start n i)
        = mincore_loop ops asp start n (i + page_count_of ps) (partial_residency ops asp start n (i + page_count_of ps))"
      using i fl Some partial_residency_block [OF i refl, of "page_count_of ps" ops asp start] res
      by (subst mincore_loop.simps) (simp add: Let_def)
    then show ?thesis using res by (intro exI [of _ "page_count_of ps"]) auto
  qed
qed

lemma mincore_loop_spec:
  assumes u: "blocks_uniform ops asp start n"
    and "\<forall>j<n. j < i \<longrightarrow> page_state ops asp start j \<noteq> None"
  shows "mincore_loop ops asp start n i (partial_residency ops asp start n i) =
    (if \<forall>j<n. page_state ops asp start j \<noteq> None then Ok (residency ops asp start n) else Fail NoMemory)"
  using assms(2)
proof (induction "n - i" arbitrary: i rule: less_induct)
  case less
  consider (over) "\<not> i < n" | (out) "i < n" "page_state ops asp start i = None"
    | (round) "i < n" "page_state ops asp start i \<noteq> None" by blast
  then show ?case
  proof cases
    case over
    then show ?thesis using less.prems by (subst mincore_loop.simps) (auto simp: partial_residency_def)
  next
    case out
    then have "mincore_loop ops asp start n i (partial_residency ops asp start n i) = Fail NoMemory"
      by (subst mincore_loop.simps) (auto simp: page_state_def Let_def split: option.splits if_splits)
    then show ?thesis using out by auto
  next
    case round
    then obtain c where c: "0 < c" "\<forall>j<n. i \<le> j \<and> j < i + c \<longrightarrow> page_state ops asp start j \<noteq> None"
        "mincore_loop ops asp start n i (partial_residency ops asp start n i)
          = mincore_loop ops asp start n (i + c) (partial_residency ops asp start n (i + c))"
      using mincore_loop_round [OF u] by blast
    have "\<forall>j<n. j < i + c \<longrightarrow> page_state ops asp start j \<noteq> None"
      using c(2) less.prems by (metis not_le)
    moreover have "n - (i + c) < n - i" using c(1) round(1) by simp
    ultimately show ?thesis unfolding c(3) by (intro less.hyps)
  qed
qed

subsection \<open>A concrete address space\<close>

text \<open>An address space that is the set of its mapped addresses, on which the contracts hold.\<close>

definition set_space :: "addr set aspace_ops" where
  "set_space =
     \<lparr>as_map = (\<lambda>a sz fl pop b s. if {a..<a + sz} \<inter> s = {} then (s \<union> {a..<a + sz}, Ok ()) else (s, Fail AlreadyExists)),
      as_unmap = (\<lambda>a sz s. (s - {a..<a + sz}, Ok ())),
      as_protect = (\<lambda>a sz fl s. (s, Ok ())),
      as_find_free_area = (\<lambda>hint sz al s. if al dvd hint \<and> {hint..<hint + sz} \<inter> s = {} then Some hint else None),
      as_base = (\<lambda>s. 4096),
      as_find_area = (\<lambda>a s. if a \<in> s then Some heap_flags else None),
      as_query = (\<lambda>a s. if a \<in> s then Some Size4K else None)\<rparr>"

definition round_up_to :: "nat \<Rightarrow> nat \<Rightarrow> nat" where
  "round_up_to sz a = (a + (sz - 1)) div sz * sz"

definition round_down_to :: "nat \<Rightarrow> nat \<Rightarrow> nat" where
  "round_down_to sz a = a div sz * sz"

lemma set_space_contract: "aspace_contract set_space id" "finder_contract set_space id"
  by (auto simp: aspace_contract_def finder_contract_def set_space_def)

lemma round_up_to_rounds:
  assumes "0 < sz"
  shows "rounds_up sz (round_up_to sz)"
  unfolding rounds_up_def
proof (intro allI impI conjI)
  fix a :: nat
  have "round_up_to sz a \<le> a + (sz - 1)" by (simp add: round_up_to_def)
  then show "round_up_to sz a < a + sz" using assms by linarith
  have "a + (sz - 1) < sz + round_up_to sz a"
    unfolding round_up_to_def by (rule dividend_less_div_times [OF assms])
  then show "a \<le> round_up_to sz a" using assms by linarith
qed (simp add: round_up_to_def)

lemma round_down_to_rounds: "0 < sz \<Longrightarrow> rounds_down sz (round_down_to sz)"
  unfolding rounds_down_def round_down_to_def
  by (auto simp: dividend_less_div_times add.commute [of _ sz])

lemma page_rounding_concrete: "page_rounding round_down_to round_up_to"
proof -
  have "0 < page_bytes ps" for ps by (cases ps) simp_all
  then show ?thesis by (simp add: page_rounding_def round_up_to_rounds round_down_to_rounds)
qed

subsection \<open>Properties\<close>

text \<open>C24: Over any sequence of \<open>brk\<close> calls the heap top stays within the heap region, exactly the pages from
  the heap base to the top (and at least the initial heap) are mapped in the region, no mapping outside it changes,
  no call panics and the last call returned the heap top.\<close>

theorem brk_keeps_heap:
  assumes "aspace_contract ops mapped" "rounds_up 4096 align_up" "heap_ok mapped align_up s"
    and "brk_calls ops align_up as s = (s', rs)"
  shows "heap_ok mapped align_up s' \<and> Panicked \<notin> set rs \<and> (as \<noteq> [] \<longrightarrow> last rs = Ok (fst s'))
    \<and> mapped (snd s') - {USER_HEAP_BASE..<heap_limit} = mapped (snd s) - {USER_HEAP_BASE..<heap_limit}"
  by (rule brk_calls_ok [OF assms])

definition brk_demo :: "(addr \<times> addr set) \<times> addr outcome list" where
  "brk_demo = brk_calls set_space (round_up_to 4096) [0x40020001, 0x40010001, 0x10]
     (USER_HEAP_BASE, {USER_HEAP_BASE..<heap_end})"

theorem brk_keeps_heap_witness:
  "heap_ok id (round_up_to 4096) (fst brk_demo) \<and> fst (fst brk_demo) = 0x40010001
    \<and> snd brk_demo = [Ok 0x40020001, Ok 0x40010001, Ok 0x40010001]"
proof -
  have h: "heap_ok id (round_up_to 4096) (USER_HEAP_BASE, {USER_HEAP_BASE..<heap_end})"
    by (auto simp: heap_ok_def heap_defs round_up_to_def)
  have "brk_calls set_space (round_up_to 4096) [0x40020001, 0x40010001, 0x10]
     (USER_HEAP_BASE, {USER_HEAP_BASE..<heap_end}) = (fst brk_demo, snd brk_demo)" by (simp add: brk_demo_def)
  from brk_keeps_heap [OF set_space_contract(1) round_up_to_rounds h this]
  have "heap_ok id (round_up_to 4096) (fst brk_demo)" by simp
  then show ?thesis
    by (auto simp: brk_demo_def sys_brk_def set_space_def heap_defs round_up_to_def Let_def)
qed


definition mmap_demo :: "u32 \<Rightarrow> i32 \<Rightarrow> addr set \<Rightarrow> addr set \<times> addr outcome" where
  "mmap_demo flags fd = sys_mmap set_space round_down_to round_up_to (\<lambda>_. Ok ()) (\<lambda>_. Fail BadFileDescriptor)
     (\<lambda>_. Ok Direct_other) 0x5000 100 3 flags fd 0"

lemmas mmap_consts = MAP_SHARED_def MAP_PRIVATE_def MAP_SHARED_VALIDATE_def MAP_TYPE_def MAP_FIXED_def MAP_ANONYMOUS_def
  MAP_DENYWRITE_def MAP_NORESERVE_def MAP_POPULATE_def MAP_STACK_def MAP_HUGETLB_def MAP_FIXED_NOREPLACE_def
  MAP_HUGE_1GB_def mmap_bits_def has_flags_def any_flag_def

lemmas mmap_demo_defs = mmap_demo_def sys_mmap_def mmap_check_def mmap_flags_of_def mmap_page_size_def mmap_place_def
  mmap_backend_def set_space_def round_down_to_def round_up_to_def usub_def uadd_def Let_def mmap_consts


text \<open>A fixed \<open>mmap\<close> with a descriptor that is not open unmaps the range and only then fails, so the
  previous mapping is lost.\<close>

lemma mmap_fixed_bad_fd_unmaps:
  assumes "mmap_check len flags fd off = Ok mf" "0 < fd" "file_of fd = Inl e"
    and "any_flag flags MAP_FIXED" "\<not> has_flags flags MAP_FIXED_NOREPLACE"
    and "as_unmap ops (align_down (page_bytes (mmap_page_size mf)) a)
           (usub (align_up (page_bytes (mmap_page_size mf)) (uadd a len)) (align_down (page_bytes (mmap_page_size mf)) a)) asp
         = (asp', Ok ())"
  shows "sys_mmap ops align_down align_up shared file_of backend_of a len prot flags fd off asp = (asp', Inl e)"
proof -
  note keep = mmap_check_flags [OF assms(1) mmap_fixed_bits(1)] mmap_check_flags [OF assms(1) mmap_fixed_bits(2)]
  have "any_flag flags (MAP_FIXED OR MAP_FIXED_NOREPLACE)"
    using assms(4) by (auto simp: any_flag_def bit_eq_iff bit_or_iff bit_and_iff)
  then have "any_flag mf (MAP_FIXED OR MAP_FIXED_NOREPLACE)" "\<not> has_flags mf MAP_FIXED_NOREPLACE"
    using keep assms(5) by (simp_all add: any_flag_def has_flags_def)
  then show ?thesis using assms by (simp add: sys_mmap_def mmap_place_def Let_def)
qed

lemma mmap_fixed_bad_fd_unmaps_witness:
  "mmap_demo 0x12 7 {0x4000..<0x7000} = ({0x4000..<0x5000} \<union> {0x6000..<0x7000}, Fail BadFileDescriptor)"
proof -
  have "mmap_check 100 0x12 7 0 = Ok 0x12" by (simp add: mmap_check_def mmap_flags_of_def Let_def mmap_consts)
  moreover have "any_flag (0x12 :: u32) MAP_FIXED" "\<not> has_flags (0x12 :: u32) MAP_FIXED_NOREPLACE"
    by (simp_all add: mmap_consts)
  moreover have "as_unmap set_space (round_down_to (page_bytes (mmap_page_size 0x12)) 0x5000)
      (usub (round_up_to (page_bytes (mmap_page_size 0x12)) (uadd 0x5000 100)) (round_down_to (page_bytes (mmap_page_size 0x12)) 0x5000))
      {0x4000..<0x7000} = ({0x4000..<0x5000} \<union> {0x6000..<0x7000}, Ok ())"
    by (auto simp: mmap_page_size_def mmap_demo_defs)
  ultimately show ?thesis
    unfolding mmap_demo_def by (intro mmap_fixed_bad_fd_unmaps [of 100 "0x12" 7 0 "0x12"]) simp_all
qed

text \<open>\<open>mremap\<close> never succeeds and never changes the address space: the mapping it asks \<open>sys_mmap\<close> for is
  private, has no descriptor and is not marked anonymous, which \<open>sys_mmap\<close> refuses.\<close>

lemma mremap_never_succeeds:
  "sys_mremap ops align_down align_up shared file_of backend_of flag_bits copy a old_size new_size asp =
     (asp, if a mod 4096 = 0 \<and> as_find_area ops a asp = None then Fail NoMemory else Fail InvalidInput)"
proof -
  have "mmap_check n MAP_PRIVATE (-1) 0 = Fail InvalidInput" for n
    by (simp add: mmap_check_def mmap_flags_of_def Let_def mmap_consts)
  then show ?thesis by (auto simp: sys_mremap_def sys_mmap_def Let_def split: option.splits)
qed

text \<open>
  A range that starts inside a large page: the loop steps by the size of the whole page, so every page up to
  that distance is reported resident, whatever its state and even when it is not mapped.
\<close>

lemma mincore_overshoots:
  assumes "page_state ops asp start 0 = Some True" "as_query ops (uadd start 0) asp = Some ps"
    and "0 < n" "n \<le> page_count_of ps"
  shows "mincore_loop ops asp start n 0 (replicate n 0) = Ok (replicate n 1)"
proof -
  obtain fl where "as_find_area ops (uadd start 0) asp = Some fl" "mf_user fl"
    using assms(1) by (auto simp: page_state_def split: option.splits if_splits)
  then show ?thesis using assms(2-4)
    by (subst mincore_loop.simps) (simp add: Let_def, subst mincore_loop.simps, simp)
qed

text \<open>On ranges whose large pages do not start before the range and lie in user areas, \<open>mincore\<close> writes
  exactly the residency of each page, and fails with \<open>NoMemory\<close> exactly when a page is outside the user areas;
  it never writes a partial vector.\<close>

lemma mincore_reports_residency:
  assumes "start mod 4096 = 0" "vec \<noteq> 0" "0 < len" "n = (len + 4095) div 4096" "can_alloc n"
    and "blocks_uniform ops asp start n"
  shows "sys_mincore ops can_alloc write_slice start len vec asp m =
    (if \<forall>i<n. page_state ops asp start i \<noteq> None
     then map_prod id (map_sum id (\<lambda>_. 0)) (write_slice vec (residency ops asp start n) m)
     else (m, Fail NoMemory))"
proof -
  have "mincore_loop ops asp start n 0 (replicate n 0) =
    (if \<forall>j<n. page_state ops asp start j \<noteq> None then Ok (residency ops asp start n) else Fail NoMemory)"
    using mincore_loop_spec [OF assms(6), of 0] by (simp add: partial_residency_def)
  then show ?thesis using assms(1-5)
    by (auto simp: sys_mincore_def Let_def split: prod.splits sum.splits)
qed

text \<open>Three pages in a user area, the middle one not populated.\<close>

definition sparse_space :: "unit aspace_ops" where
  "sparse_space =
     \<lparr>as_map = (\<lambda>a sz fl pop b s. (s, Ok ())), as_unmap = (\<lambda>a sz s. (s, Ok ())), as_protect = (\<lambda>a sz fl s. (s, Ok ())),
      as_find_free_area = (\<lambda>hint sz al s. None), as_base = (\<lambda>s. 0),
      as_find_area = (\<lambda>a s. if a < 0x4000 then Some heap_flags else None),
      as_query = (\<lambda>a s. if a < 0x4000 \<and> a \<noteq> 0x2000 then Some Size4K else None)\<rparr>"

lemma mincore_reports_residency_witness:
  "sys_mincore sparse_space (\<lambda>_. True) (\<lambda>a bs m. (bs, Ok ())) 0x1000 0x2001 1 () [] = ([1, 0, 1], Ok 0)
    \<and> sys_mincore sparse_space (\<lambda>_. True) (\<lambda>a bs m. (bs, Ok ())) 0x1000 0x3001 1 () [] = ([], Fail NoMemory)"
proof -
  have b: "blocks_uniform sparse_space () 0x1000 n" for n
    by (rule blocks_uniform_4k) (auto simp: sparse_space_def split: if_splits)
  have three: "i < 3 \<longleftrightarrow> i = 0 \<or> i = 1 \<or> i = 2" for i :: nat by auto
  have s3: "\<forall>i<3. page_state sparse_space () 0x1000 i \<noteq> None"
    by (auto simp: three page_state_def sparse_space_def uadd_def heap_flags_def)
  have s4: "page_state sparse_space () 0x1000 3 = None"
    by (simp add: page_state_def sparse_space_def uadd_def)
  have r: "residency sparse_space () 0x1000 3 = [1, 0, 1]"
    by (simp add: residency_def page_state_def sparse_space_def uadd_def heap_flags_def upt_rec)
  have a: "sys_mincore sparse_space (\<lambda>_. True) (\<lambda>a bs m. (bs, Ok ())) 0x1000 0x2001 1 () [] = ([1, 0, 1], Ok 0)"
    using s3 r by (subst mincore_reports_residency [of _ _ _ 3]) (simp_all add: b)
  have "sys_mincore sparse_space (\<lambda>_. True) (\<lambda>a bs m. (bs, Ok ())) 0x1000 0x3001 1 () [] = ([], Fail NoMemory)"
    using s4 by (subst mincore_reports_residency [of _ _ _ 4]) (auto simp: b intro: exI [of _ 3])
  with a show ?thesis by simp
qed

end
