(* ===== verification/Timers.thy ===== *)
theory Timers
  imports Fd_Table
begin

section \<open>Time, interval timers and resource limits\<close>

text \<open>
  \<open>core/src/time.rs\<close> with \<open>poll_timer\<close> and \<open>set_timer_state\<close> of \<open>core/src/task.rs\<close>,
  \<open>core/src/resources.rs\<close>, \<open>api/src/time.rs\<close>, \<open>api/src/syscall/time.rs\<close> and
  \<open>api/src/syscall/resources.rs\<close>.

  A \<open>TimeValue\<close> is \<open>core::time::Duration\<close>: a number of nanoseconds. The clocks, user memory and the
  \<open>event_listener\<close> crate are arguments.
\<close>

subsection \<open>Time values\<close>

type_synonym time_value = nat

definition NANOS_PER_SEC :: nat where "NANOS_PER_SEC = 1000000000"

definition tv_new :: "nat \<Rightarrow> nat \<Rightarrow> time_value" where
  "tv_new secs nsecs = secs * NANOS_PER_SEC + nsecs"

definition as_secs :: "time_value \<Rightarrow> nat" where "as_secs t = t div NANOS_PER_SEC"
definition subsec_nanos :: "time_value \<Rightarrow> nat" where "subsec_nanos t = t mod NANOS_PER_SEC"
definition subsec_micros :: "time_value \<Rightarrow> nat" where "subsec_micros t = subsec_nanos t div 1000"

definition time_value_from_nanos :: "usize \<Rightarrow> time_value" where
  "time_value_from_nanos nanos =
     (let secs = nanos div NANOS_PER_SEC; nsecs = nanos - secs * NANOS_PER_SEC in tv_new secs nsecs)"

text \<open>\<open>timespec\<close>, \<open>__kernel_timespec\<close>, \<open>__kernel_old_timespec\<close> have the same conversions.\<close>

record timespec =
  ts_sec :: i64
  ts_nsec :: i64

definition timespec_from_time_value :: "time_value \<Rightarrow> timespec" where
  "timespec_from_time_value t = \<lparr>ts_sec = wrap_i64 (int (as_secs t)), ts_nsec = int (subsec_nanos t)\<rparr>"

definition timespec_try_into_time_value :: "timespec \<Rightarrow> time_value outcome" where
  "timespec_try_into_time_value ts =
     (if ts_nsec ts < 0 \<or> ts_nsec ts > 999999999 \<or> ts_sec ts < 0 then Fail InvalidInput
      else Ok (tv_new (nat (ts_sec ts)) (nat (ts_nsec ts))))"

text \<open>\<open>timeval\<close>, \<open>__kernel_old_timeval\<close>, \<open>__kernel_sock_timeval\<close>.\<close>

record timeval =
  tv_sec :: i64
  tv_usec :: i64

definition timeval_from_time_value :: "time_value \<Rightarrow> timeval" where
  "timeval_from_time_value t = \<lparr>tv_sec = wrap_i64 (int (as_secs t)), tv_usec = int (subsec_micros t)\<rparr>"

definition timeval_try_into_time_value :: "timeval \<Rightarrow> time_value outcome" where
  "timeval_try_into_time_value tv =
     (if tv_usec tv < 0 \<or> tv_usec tv > 999999 \<or> tv_sec tv < 0 then Fail InvalidInput
      else Ok (tv_new (nat (tv_sec tv)) (nat (tv_usec tv) * 1000)))"

subsection \<open>The alarm list\<close>

text \<open>
  \<open>BinaryHeap<Entry>\<close> with the reversed order on deadlines: the top is an entry with the least deadline.
  The heap is the list of its entries by deadline; which of several entries with the same deadline is on
  top is not specified by the library, and nothing below depends on it.
\<close>

record alarm_entry =
  ae_deadline :: time_value
  ae_task :: nat

type_synonym alarm_heap = "alarm_entry list"

definition heap_peek :: "alarm_heap \<Rightarrow> alarm_entry option" where
  "heap_peek h = (case h of [] \<Rightarrow> None | e # _ \<Rightarrow> Some e)"

fun heap_push :: "alarm_entry \<Rightarrow> alarm_heap \<Rightarrow> alarm_heap" where
  "heap_push e [] = [e]"
| "heap_push e (x # h) = (if ae_deadline x \<le> ae_deadline e then x # heap_push e h else e # x # h)"

definition heap_pop :: "alarm_heap \<Rightarrow> alarm_entry option \<times> alarm_heap" where
  "heap_pop h = (case h of [] \<Rightarrow> (None, []) | e # h' \<Rightarrow> (Some e, h'))"

text \<open>The statics \<open>ALARM_LIST\<close> and \<open>EVENT_NEW_TIMER\<close>.\<close>

record 'e event_ops =
  ev_listen :: "'e \<Rightarrow> 'e"
  ev_notify :: "'e \<Rightarrow> 'e"
  ev_notified :: "'e \<Rightarrow> bool"

record 'e alarms =
  al_list :: alarm_heap
  al_event :: 'e

subsection \<open>Interval timers\<close>

datatype itimer_type = Real | Virtual | Prof

datatype timer_signal = SIGALRM | SIGVTALRM | SIGPROF

definition itimer_from_repr :: "i32 \<Rightarrow> itimer_type option" where
  "itimer_from_repr n = (if n = 0 then Some Real else if n = 1 then Some Virtual else if n = 2 then Some Prof else None)"

fun itimer_signo :: "itimer_type \<Rightarrow> timer_signal" where
  "itimer_signo Real = SIGALRM"
| "itimer_signo Virtual = SIGVTALRM"
| "itimer_signo Prof = SIGPROF"

record itimer =
  it_interval_ns :: usize
  it_remained_ns :: usize

definition itimer_default :: itimer where
  "itimer_default = \<lparr>it_interval_ns = 0, it_remained_ns = 0\<rparr>"

text \<open>\<open>now\<close> is what \<open>wall_time()\<close> returns, \<open>cur\<close> the current task.\<close>

definition renew_timer :: "'e event_ops \<Rightarrow> time_value \<Rightarrow> nat \<Rightarrow> itimer \<Rightarrow> 'e alarms \<Rightarrow> 'e alarms" where
  "renew_timer ev now cur t al =
     (if it_remained_ns t > 0 then
        (let deadline = now + it_remained_ns t;
             should_wake = (case heap_peek (al_list al) of None \<Rightarrow> True | Some e \<Rightarrow> ae_deadline e > deadline);
             al' = al\<lparr>al_list := heap_push \<lparr>ae_deadline = deadline, ae_task = cur\<rparr> (al_list al)\<rparr>
         in if should_wake then al'\<lparr>al_event := ev_notify ev (al_event al')\<rparr> else al')
      else al)"

definition itimer_new ::
    "'e event_ops \<Rightarrow> time_value \<Rightarrow> nat \<Rightarrow> usize \<Rightarrow> usize \<Rightarrow> 'e alarms \<Rightarrow> 'e alarms \<times> itimer" where
  "itimer_new ev now cur interval remained al =
     (let t = \<lparr>it_interval_ns = interval, it_remained_ns = remained\<rparr> in (renew_timer ev now cur t al, t))"

definition itimer_update ::
    "'e event_ops \<Rightarrow> time_value \<Rightarrow> nat \<Rightarrow> usize \<Rightarrow> itimer \<Rightarrow> 'e alarms \<Rightarrow> 'e alarms \<times> itimer \<times> bool" where
  "itimer_update ev now cur delta t al =
     (if it_remained_ns t = 0 then (al, t, False)
      else if it_remained_ns t > delta then (al, t\<lparr>it_remained_ns := it_remained_ns t - delta\<rparr>, False)
      else
        let t' = t\<lparr>it_remained_ns := it_interval_ns t\<rparr>
        in (renew_timer ev now cur t' al, t', True))"

subsection \<open>The time manager of a thread\<close>

datatype timer_state = TS_None | TS_User | TS_Kernel

text \<open>The array of the three timers is a function of their type.\<close>

record time_manager =
  tm_utime_ns :: usize
  tm_stime_ns :: usize
  tm_last_wall_ns :: usize
  tm_state :: timer_state
  tm_itimers :: "itimer_type \<Rightarrow> itimer"

definition time_manager_new :: time_manager where
  "time_manager_new =
     \<lparr>tm_utime_ns = 0, tm_stime_ns = 0, tm_last_wall_ns = 0, tm_state = TS_None, tm_itimers = (\<lambda>_. itimer_default)\<rparr>"

definition time_output :: "time_manager \<Rightarrow> time_value \<times> time_value" where
  "time_output tm = (time_value_from_nanos (tm_utime_ns tm), time_value_from_nanos (tm_stime_ns tm))"

text \<open>The signals emitted are returned in order; \<open>wall ty\<close> is the clock read when that timer is renewed.\<close>

definition update_itimer ::
    "'e event_ops \<Rightarrow> (itimer_type \<Rightarrow> time_value) \<Rightarrow> nat \<Rightarrow> itimer_type \<Rightarrow> usize
      \<Rightarrow> time_manager \<times> 'e alarms \<times> timer_signal list \<Rightarrow> time_manager \<times> 'e alarms \<times> timer_signal list" where
  "update_itimer ev wall cur ty delta s =
     (let (tm, al, sigs) = s;
          (al', t', fired) = itimer_update ev (wall ty) cur delta (tm_itimers tm ty) al
      in (tm\<lparr>tm_itimers := (tm_itimers tm)(ty := t')\<rparr>, al', if fired then sigs @ [itimer_signo ty] else sigs))"

definition time_poll ::
    "'e event_ops \<Rightarrow> (itimer_type \<Rightarrow> time_value) \<Rightarrow> nat \<Rightarrow> usize \<Rightarrow> time_manager \<Rightarrow> 'e alarms
      \<Rightarrow> time_manager \<times> 'e alarms \<times> timer_signal list" where
  "time_poll ev wall cur now_ns tm al =
     (let delta = usub now_ns (tm_last_wall_ns tm);
          s1 = (case tm_state tm of
                  TS_User \<Rightarrow>
                    update_itimer ev wall cur Prof delta
                      (update_itimer ev wall cur Virtual delta
                         (tm\<lparr>tm_utime_ns := uadd (tm_utime_ns tm) delta\<rparr>, al, []))
                | TS_Kernel \<Rightarrow>
                    update_itimer ev wall cur Prof delta (tm\<lparr>tm_stime_ns := uadd (tm_stime_ns tm) delta\<rparr>, al, [])
                | TS_None \<Rightarrow> (tm, al, []));
          (tm2, al2, sigs) = update_itimer ev wall cur Real delta s1
      in (tm2\<lparr>tm_last_wall_ns := now_ns\<rparr>, al2, sigs))"

definition time_set_state :: "timer_state \<Rightarrow> time_manager \<Rightarrow> time_manager" where
  "time_set_state st tm = tm\<lparr>tm_state := st\<rparr>"

definition set_itimer ::
    "'e event_ops \<Rightarrow> time_value \<Rightarrow> nat \<Rightarrow> itimer_type \<Rightarrow> usize \<Rightarrow> usize \<Rightarrow> time_manager \<Rightarrow> 'e alarms
      \<Rightarrow> time_manager \<times> 'e alarms \<times> time_value \<times> time_value" where
  "set_itimer ev now cur ty interval remained tm al =
     (let old = tm_itimers tm ty; (al', t) = itimer_new ev now cur interval remained al
      in (tm\<lparr>tm_itimers := (tm_itimers tm)(ty := t)\<rparr>, al',
          time_value_from_nanos (it_interval_ns old), time_value_from_nanos (it_remained_ns old)))"

definition get_itimer :: "itimer_type \<Rightarrow> time_manager \<Rightarrow> time_value \<times> time_value" where
  "get_itimer ty tm =
     (let t = tm_itimers tm ty in (time_value_from_nanos (it_interval_ns t), time_value_from_nanos (it_remained_ns t)))"

subsection \<open>Tasks and the alarm task\<close>

text \<open>
  Where the loop of \<open>alarm_task\<close> stands between two points at which it does not hold the lock of the alarm
  list. \<open>AP_poll d t\<close>: about to poll task \<open>t\<close> for an entry with deadline \<open>d\<close>; \<open>AP_pop d\<close>: about to
  remove that entry; \<open>AP_empty\<close> and \<open>AP_listen d\<close>: about to create the listener; \<open>AP_empty_check\<close> and
  \<open>AP_listen_check d\<close>: listener created, list to be looked at again; \<open>AP_await\<close> and \<open>AP_sleep d\<close>: waiting.
\<close>

datatype alarm_pc =
    AP_top
  | AP_empty
  | AP_empty_check
  | AP_await
  | AP_poll time_value nat
  | AP_pop time_value
  | AP_listen time_value
  | AP_listen_check time_value
  | AP_sleep time_value
  | AP_panic

text \<open>
  The whole: the alarms, the two clocks, the time managers of the tasks that are threads, the tasks that are
  alive, the signals sent, and the alarm task.
\<close>

record 'e time_sys =
  sy_alarms :: "'e alarms"
  sy_wall :: time_value
  sy_mono :: usize
  sy_times :: "nat \<Rightarrow> time_manager option"
  sy_alive :: "nat \<Rightarrow> bool"
  sy_signals :: "(nat \<times> timer_signal) list"
  sy_pc :: alarm_pc

text \<open>
  \<open>poll_timer\<close> and \<open>set_timer_state\<close>, called by task \<open>cur\<close> for \<open>task\<close>; \<open>busy\<close> is a borrow of the
  time manager that is already held.
\<close>

definition poll_timer ::
    "'e event_ops \<Rightarrow> (itimer_type \<Rightarrow> time_value) \<Rightarrow> nat \<Rightarrow> bool \<Rightarrow> nat \<Rightarrow> 'e time_sys \<Rightarrow> 'e time_sys" where
  "poll_timer ev wall cur busy task s =
     (case sy_times s task of
        None \<Rightarrow> s
      | Some tm \<Rightarrow>
          if busy then s
          else
            let (tm', al', sigs) = time_poll ev wall cur (sy_mono s) tm (sy_alarms s)
            in s\<lparr>sy_times := (sy_times s)(task \<mapsto> tm'), sy_alarms := al',
                 sy_signals := sy_signals s @ map (Pair task) sigs\<rparr>)"

definition set_timer_state ::
    "'e event_ops \<Rightarrow> (itimer_type \<Rightarrow> time_value) \<Rightarrow> nat \<Rightarrow> bool \<Rightarrow> nat \<Rightarrow> timer_state \<Rightarrow> 'e time_sys \<Rightarrow> 'e time_sys" where
  "set_timer_state ev wall cur busy task st s =
     (case sy_times s task of
        None \<Rightarrow> s
      | Some tm \<Rightarrow>
          if busy then s
          else
            let (tm', al', sigs) = time_poll ev wall cur (sy_mono s) tm (sy_alarms s)
            in s\<lparr>sy_times := (sy_times s)(task \<mapsto> time_set_state st tm'), sy_alarms := al',
                 sy_signals := sy_signals s @ map (Pair task) sigs\<rparr>)"

text \<open>One stretch of \<open>alarm_task\<close>, which is task \<open>me\<close>.\<close>

definition alarm_turn ::
    "'e event_ops \<Rightarrow> (itimer_type \<Rightarrow> time_value) \<Rightarrow> nat \<Rightarrow> bool \<Rightarrow> 'e time_sys \<Rightarrow> 'e time_sys" where
  "alarm_turn ev wall me busy s =
     (let al = sy_alarms s; listen = al\<lparr>al_event := ev_listen ev (al_event al)\<rparr> in
      case sy_pc s of
        AP_top \<Rightarrow>
          (case heap_peek (al_list al) of
             None \<Rightarrow> s\<lparr>sy_pc := AP_empty\<rparr>
           | Some e \<Rightarrow>
               if ae_deadline e \<le> sy_wall s then
                 (if sy_alive s (ae_task e) then s\<lparr>sy_pc := AP_poll (ae_deadline e) (ae_task e)\<rparr>
                  else s\<lparr>sy_pc := AP_pop (ae_deadline e)\<rparr>)
               else s\<lparr>sy_pc := AP_listen (ae_deadline e)\<rparr>)
      | AP_empty \<Rightarrow> s\<lparr>sy_alarms := listen, sy_pc := AP_empty_check\<rparr>
      | AP_empty_check \<Rightarrow> (if al_list al \<noteq> [] then s\<lparr>sy_pc := AP_top\<rparr> else s\<lparr>sy_pc := AP_await\<rparr>)
      | AP_await \<Rightarrow> (if ev_notified ev (al_event al) then s\<lparr>sy_pc := AP_top\<rparr> else s)
      | AP_poll d t \<Rightarrow> (poll_timer ev wall me busy t s)\<lparr>sy_pc := AP_pop d\<rparr>
      | AP_pop d \<Rightarrow>
          (case heap_pop (al_list al) of
             (Some e, h) \<Rightarrow>
               if ae_deadline e = d then s\<lparr>sy_alarms := al\<lparr>al_list := h\<rparr>, sy_pc := AP_top\<rparr> else s\<lparr>sy_pc := AP_panic\<rparr>
           | (None, h) \<Rightarrow> s\<lparr>sy_pc := AP_panic\<rparr>)
      | AP_listen d \<Rightarrow> s\<lparr>sy_alarms := listen, sy_pc := AP_listen_check d\<rparr>
      | AP_listen_check d \<Rightarrow>
          (case heap_peek (al_list al) of
             None \<Rightarrow> s\<lparr>sy_pc := AP_top\<rparr>
           | Some e \<Rightarrow> if ae_deadline e \<noteq> d then s\<lparr>sy_pc := AP_top\<rparr> else s\<lparr>sy_pc := AP_sleep d\<rparr>)
      | AP_sleep d \<Rightarrow>
          (if ev_notified ev (al_event al) \<or> d \<le> sy_wall s then s\<lparr>sy_pc := AP_top\<rparr> else s)
      | AP_panic \<Rightarrow> s)"

subsection \<open>The time system calls\<close>

definition clock_now :: "time_value \<Rightarrow> time_value \<Rightarrow> time_manager \<Rightarrow> i32 \<Rightarrow> time_value" where
  "clock_now wall mtime tm clock_id =
     (if clock_id \<in> {0, 5} then wall
      else if clock_id \<in> {1, 4, 6, 7} then mtime
      else if clock_id \<in> {2, 3} then (let (utime, stime) = time_output tm in utime + stime)
      else wall)"

definition sys_clock_gettime ::
    "(addr \<Rightarrow> timespec \<Rightarrow> 'm \<Rightarrow> 'm \<times> unit outcome) \<Rightarrow> time_value \<Rightarrow> time_value \<Rightarrow> time_manager \<Rightarrow> i32 \<Rightarrow> addr \<Rightarrow> 'm
      \<Rightarrow> 'm \<times> int outcome" where
  "sys_clock_gettime vm_write wall mtime tm clock_id ts m =
     map_prod id (map_sum id (\<lambda>_. 0)) (vm_write ts (timespec_from_time_value (clock_now wall mtime tm clock_id)) m)"

definition sys_gettimeofday ::
    "(addr \<Rightarrow> timeval \<Rightarrow> 'm \<Rightarrow> 'm \<times> unit outcome) \<Rightarrow> time_value \<Rightarrow> addr \<Rightarrow> 'm \<Rightarrow> 'm \<times> int outcome" where
  "sys_gettimeofday vm_write wall ts m =
     map_prod id (map_sum id (\<lambda>_. 0)) (vm_write ts (timeval_from_time_value wall) m)"

definition sys_clock_getres ::
    "(addr \<Rightarrow> timespec \<Rightarrow> 'm \<Rightarrow> 'm \<times> unit outcome) \<Rightarrow> i32 \<Rightarrow> addr \<Rightarrow> 'm \<Rightarrow> 'm \<times> int outcome" where
  "sys_clock_getres vm_write clock_id res m =
     (if res \<noteq> 0 then map_prod id (map_sum id (\<lambda>_. 0)) (vm_write res (timespec_from_time_value 1000) m)
      else (m, Ok 0))"

record tms =
  tms_utime :: usize
  tms_stime :: usize
  tms_cutime :: usize
  tms_cstime :: usize

definition sys_times ::
    "(addr \<Rightarrow> tms \<Rightarrow> 'm \<Rightarrow> 'm \<times> unit outcome) \<Rightarrow> (nat \<Rightarrow> int) \<Rightarrow> nat \<Rightarrow> time_manager \<Rightarrow> addr \<Rightarrow> 'm \<Rightarrow> 'm \<times> int outcome" where
  "sys_times vm_write nanos_to_ticks mono_ns tm p m =
     (let (u, s) = time_output tm; utime = u div 1000; stime = s div 1000 in
      map_prod id (map_sum id (\<lambda>_. nanos_to_ticks mono_ns))
        (vm_write p \<lparr>tms_utime = utime, tms_stime = stime, tms_cutime = utime, tms_cstime = stime\<rparr> m))"

record itimerval =
  itv_interval :: timeval
  itv_value :: timeval

definition itimerval_of :: "time_value \<times> time_value \<Rightarrow> itimerval" where
  "itimerval_of p = \<lparr>itv_interval = timeval_from_time_value (fst p), itv_value = timeval_from_time_value (snd p)\<rparr>"

definition sys_getitimer ::
    "(addr \<Rightarrow> itimerval \<Rightarrow> 'm \<Rightarrow> 'm \<times> unit outcome) \<Rightarrow> i32 \<Rightarrow> addr \<Rightarrow> time_manager \<Rightarrow> 'm \<Rightarrow> 'm \<times> int outcome" where
  "sys_getitimer vm_write which value tm m =
     (case itimer_from_repr which of
        None \<Rightarrow> (m, Fail InvalidInput)
      | Some ty \<Rightarrow> map_prod id (map_sum id (\<lambda>_. 0)) (vm_write value (itimerval_of (get_itimer ty tm)) m))"

text \<open>The new interval and value of \<open>setitimer\<close>, \<open>(0, 0)\<close> for a null pointer.\<close>

definition read_itimerval :: "(addr \<Rightarrow> 'm \<Rightarrow> itimerval outcome) \<Rightarrow> addr \<Rightarrow> 'm \<Rightarrow> (usize \<times> usize) outcome" where
  "read_itimerval vm_read p m =
     (if p = 0 then Ok (0, 0)
      else case vm_read p m of
        Inl e \<Rightarrow> Inl e
      | Inr v \<Rightarrow>
          (case timeval_try_into_time_value (itv_interval v) of
             Inl e \<Rightarrow> Inl e
           | Inr i \<Rightarrow>
               (case timeval_try_into_time_value (itv_value v) of
                  Inl e \<Rightarrow> Inl e
                | Inr r \<Rightarrow> Ok (i mod 2 ^ 64, r mod 2 ^ 64))))"

definition sys_setitimer ::
    "'e event_ops \<Rightarrow> (addr \<Rightarrow> 'm \<Rightarrow> itimerval outcome) \<Rightarrow> (addr \<Rightarrow> itimerval \<Rightarrow> 'm \<Rightarrow> 'm \<times> unit outcome) \<Rightarrow> time_value \<Rightarrow> nat
      \<Rightarrow> i32 \<Rightarrow> addr \<Rightarrow> addr \<Rightarrow> time_manager \<Rightarrow> 'e alarms \<Rightarrow> 'm \<Rightarrow> time_manager \<times> 'e alarms \<times> 'm \<times> int outcome" where
  "sys_setitimer ev vm_read vm_write now cur which new_value old_value tm al m =
     (case itimer_from_repr which of
        None \<Rightarrow> (tm, al, m, Fail InvalidInput)
      | Some ty \<Rightarrow>
          (case read_itimerval vm_read new_value m of
             Inl e \<Rightarrow> (tm, al, m, Inl e)
           | Inr (interval, remained) \<Rightarrow>
               (let (tm', al', old) = set_itimer ev now cur ty interval remained tm al in
                if old_value \<noteq> 0 then
                  (let (m', r) = vm_write old_value (itimerval_of old) m in (tm', al', m', map_sum id (\<lambda>_. 0) r))
                else (tm', al', m, Ok 0))))"

subsection \<open>Resource limits\<close>

record rlimit =
  rl_current :: nat
  rl_max :: nat

definition rlimit_from :: "nat \<Rightarrow> rlimit" where
  "rlimit_from v = \<lparr>rl_current = v, rl_max = v\<rparr>"

definition USER_STACK_SIZE :: nat where "USER_STACK_SIZE = 0x80000"
definition RLIM_NLIMITS :: nat where "RLIM_NLIMITS = 16"
definition RLIMIT_STACK :: nat where "RLIMIT_STACK = 3"
definition RLIMIT_NOFILE :: nat where "RLIMIT_NOFILE = 7"

definition rlimits_default :: "rlimit list" where
  "rlimits_default =
     ((replicate RLIM_NLIMITS (rlimit_from 0))[RLIMIT_STACK := rlimit_from USER_STACK_SIZE])[RLIMIT_NOFILE := rlimit_from AX_FILE_LIMIT]"

text \<open>
  \<open>get_process_data\<close> finds the limits of the process; \<open>rlim\<close> is its result. The
  structure \<open>rlimit64\<close> in user memory is the pair of its fields.
\<close>

definition sys_prlimit64 ::
    "(addr \<Rightarrow> 'm \<Rightarrow> (nat \<times> nat) outcome) \<Rightarrow> (addr \<Rightarrow> nat \<times> nat \<Rightarrow> 'm \<Rightarrow> 'm \<times> unit outcome) \<Rightarrow> nat \<Rightarrow> addr \<Rightarrow> addr
      \<Rightarrow> rlimit list outcome \<Rightarrow> 'm \<Rightarrow> rlimit list outcome \<times> 'm \<times> int outcome" where
  "sys_prlimit64 vm_read vm_write resource new_limit old_limit rlim m =
     (if resource \<ge> RLIM_NLIMITS then (rlim, m, Fail InvalidInput)
      else case rlim of
        Inl e \<Rightarrow> (rlim, m, Inl e)
      | Inr ls \<Rightarrow>
          (let limit = ls ! resource;
               (m1, w) = (if old_limit \<noteq> 0 then vm_write old_limit (rl_current limit, rl_max limit) m else (m, Ok ()))
           in case w of
                Inl e \<Rightarrow> (rlim, m1, Inl e)
              | Inr _ \<Rightarrow>
                  if new_limit \<noteq> 0 then
                    (case vm_read new_limit m1 of
                       Inl e \<Rightarrow> (rlim, m1, Inl e)
                     | Inr (cur, mx) \<Rightarrow>
                         if cur > mx then (rlim, m1, Fail InvalidInput)
                         else if mx \<le> rl_max limit then
                           (Ok (ls[resource := \<lparr>rl_current = cur, rl_max = mx\<rparr>]), m1, Ok 0)
                         else (rlim, m1, Ok 0))
                  else (rlim, m1, Ok 0)))"

record rusage_times =
  ru_utime :: time_value
  ru_stime :: time_value

definition rusage_from_thread :: "time_manager \<Rightarrow> rusage_times" where
  "rusage_from_thread tm = (let (u, s) = time_output tm in \<lparr>ru_utime = u, ru_stime = s\<rparr>)"

definition rusage_collate :: "rusage_times \<Rightarrow> rusage_times \<Rightarrow> rusage_times" where
  "rusage_collate a b = \<lparr>ru_utime = ru_utime a + ru_utime b, ru_stime = ru_stime a + ru_stime b\<rparr>"

text \<open>\<open>get_task\<close> gives the time manager of a task that still exists; \<open>cur\<close> is the current thread.\<close>

definition getrusage_result ::
    "(nat \<Rightarrow> time_manager option) \<Rightarrow> nat list \<Rightarrow> nat \<Rightarrow> time_manager \<Rightarrow> i32 \<Rightarrow> rusage_times outcome" where
  "getrusage_result get_task threads cur tm who =
     (let sum_over = (\<lambda>keep. fold (\<lambda>tid acc. case get_task tid of
                          Some t \<Rightarrow> if keep tid then rusage_collate acc (rusage_from_thread t) else acc
                        | None \<Rightarrow> acc) threads \<lparr>ru_utime = 0, ru_stime = 0\<rparr>)
      in if who = 0 then Ok (sum_over (\<lambda>_. True))
         else if who = -1 then Ok (sum_over (\<lambda>tid. tid \<noteq> cur))
         else if who = 1 then Ok (rusage_from_thread tm)
         else Fail InvalidInput)"

definition sys_getrusage ::
    "(addr \<Rightarrow> timeval \<times> timeval \<Rightarrow> 'm \<Rightarrow> 'm \<times> unit outcome) \<Rightarrow> (nat \<Rightarrow> time_manager option) \<Rightarrow> nat list \<Rightarrow> nat \<Rightarrow> time_manager
      \<Rightarrow> i32 \<Rightarrow> addr \<Rightarrow> 'm \<Rightarrow> 'm \<times> int outcome" where
  "sys_getrusage vm_write get_task threads cur tm who usage m =
     (case getrusage_result get_task threads cur tm who of
        Inl e \<Rightarrow> (m, Inl e)
      | Inr r \<Rightarrow>
          map_prod id (map_sum id (\<lambda>_. 0))
            (vm_write usage (timeval_from_time_value (ru_utime r), timeval_from_time_value (ru_stime r)) m))"

end
