(* ===== verification/Timers_Props.thy ===== *)
theory Timers_Props
  imports Timers
begin

section \<open>Properties of timers and resource limits\<close>

text \<open>
  Conversions between time values and the structures of the system calls, the accounting of \<open>poll\<close>, the alarm
  task under every interleaving with the threads that set and poll timers, and resource limits.
\<close>

subsection \<open>Conversions\<close>

lemma tv_parts: "tv_new (as_secs t) (subsec_nanos t) = t"
  by (simp add: tv_new_def as_secs_def subsec_nanos_def)

lemma time_value_from_nanos_id [simp]: "time_value_from_nanos n = n"
  by (simp add: time_value_from_nanos_def tv_new_def Let_def)

lemma subsec_nanos_less: "subsec_nanos t < 1000000000"
  by (simp add: subsec_nanos_def NANOS_PER_SEC_def)

lemma secs_wrap: "as_secs t < 2 ^ 63 \<Longrightarrow> wrap_i64 (int (as_secs t)) = int (as_secs t)"
  by (rule wrap_i64_id) (simp add: is_i64_def)

lemma timespec_roundtrip:
  "as_secs t < 2 ^ 63 \<Longrightarrow> timespec_try_into_time_value (timespec_from_time_value t) = Ok t"
  using subsec_nanos_less [of t]
  by (simp add: timespec_try_into_time_value_def timespec_from_time_value_def secs_wrap tv_parts)

text \<open>A \<open>timeval\<close> keeps the time down to the microsecond.\<close>

lemma timeval_roundtrip:
  assumes "as_secs t < 2 ^ 63"
  shows "timeval_try_into_time_value (timeval_from_time_value t) = Ok (t - t mod 1000)"
proof -
  have n: "subsec_nanos t < 1000000000" by (rule subsec_nanos_less)
  then have u: "subsec_micros t \<le> 999999" by (simp add: subsec_micros_def)
  have "(1000::nat) dvd NANOS_PER_SEC" by (simp add: NANOS_PER_SEC_def)
  then have "t mod 1000 = subsec_nanos t mod 1000" by (simp add: subsec_nanos_def mod_mod_cancel)
  then have "tv_new (as_secs t) (subsec_micros t * 1000) = t - t mod 1000"
    using tv_parts [of t] by (simp add: tv_new_def subsec_micros_def minus_mod_eq_div_mult [symmetric])
  then show ?thesis using assms u
    by (simp add: timeval_try_into_time_value_def timeval_from_time_value_def secs_wrap)
qed

subsection \<open>Accounting\<close>

lemma update_itimer_times [simp]:
  "tm_utime_ns (fst (update_itimer ev wall cur ty delta s)) = tm_utime_ns (fst s)"
  "tm_stime_ns (fst (update_itimer ev wall cur ty delta s)) = tm_stime_ns (fst s)"
  "tm_state (fst (update_itimer ev wall cur ty delta s)) = tm_state (fst s)"
  by (simp_all add: update_itimer_def Let_def split_beta)

text \<open>\<open>poll\<close> charges the time since the last poll to the state the thread was in, and to nothing else.\<close>

lemma time_poll_accounts:
  assumes "time_poll ev wall cur now_ns tm al = (tm', al', sigs)"
  shows "tm_utime_ns tm' = (if tm_state tm = TS_User then uadd (tm_utime_ns tm) (usub now_ns (tm_last_wall_ns tm)) else tm_utime_ns tm)"
    "tm_stime_ns tm' = (if tm_state tm = TS_Kernel then uadd (tm_stime_ns tm) (usub now_ns (tm_last_wall_ns tm)) else tm_stime_ns tm)"
    "tm_last_wall_ns tm' = now_ns" "tm_state tm' = tm_state tm"
proof -
  have e: "tm' = fst (time_poll ev wall cur now_ns tm al)" using assms by simp
  show "tm_utime_ns tm' = (if tm_state tm = TS_User then uadd (tm_utime_ns tm) (usub now_ns (tm_last_wall_ns tm)) else tm_utime_ns tm)"
    "tm_stime_ns tm' = (if tm_state tm = TS_Kernel then uadd (tm_stime_ns tm) (usub now_ns (tm_last_wall_ns tm)) else tm_stime_ns tm)"
    "tm_last_wall_ns tm' = now_ns" "tm_state tm' = tm_state tm"
    unfolding e by (auto simp: time_poll_def Let_def split_beta split: timer_state.splits)
qed

subsection \<open>The alarm list\<close>

text \<open>What the alarm task relies on of a heap, and that the model of \<open>BinaryHeap\<close> provides it.\<close>

locale min_heap =
  fixes ok :: "'h \<Rightarrow> bool" and peek :: "'h \<Rightarrow> alarm_entry option" and push :: "alarm_entry \<Rightarrow> 'h \<Rightarrow> 'h"
    and pop :: "'h \<Rightarrow> alarm_entry option \<times> 'h"
  assumes push_ok: "ok h \<Longrightarrow> ok (push e h)"
    and pop_ok: "ok h \<Longrightarrow> ok (snd (pop h))"
    and pop_peek: "ok h \<Longrightarrow> fst (pop h) = peek h"
    and push_peek: "ok h \<Longrightarrow> peek (push e h) =
      (case peek h of None \<Rightarrow> Some e | Some x \<Rightarrow> if ae_deadline x \<le> ae_deadline e then Some x else Some e)"
begin

lemma push_keeps_top:
  "ok h \<Longrightarrow> peek h = Some x \<Longrightarrow> ae_deadline x \<le> ae_deadline e \<Longrightarrow> peek (push e h) = Some x"
  by (simp add: push_peek)

lemma push_later:
  assumes "ok h" "peek h = Some x" "ae_deadline x = d" "d \<le> ae_deadline e"
  shows "\<exists>y. peek (push e h) = Some y \<and> ae_deadline y = d \<and> fst (pop (push e h)) = Some y"
  using assms push_keeps_top [of h x e] pop_peek [OF push_ok [of h e]] by auto

end

definition heap_sorted :: "alarm_heap \<Rightarrow> bool" where
  "heap_sorted h \<longleftrightarrow> sorted (map ae_deadline h)"

lemma heap_push_set: "set (heap_push e h) = insert e (set h)"
  by (induction e h rule: heap_push.induct) auto

lemma heap_push_sorted: "heap_sorted h \<Longrightarrow> heap_sorted (heap_push e h)"
  by (induction e h rule: heap_push.induct) (auto simp: heap_sorted_def heap_push_set)

interpretation ah: min_heap heap_sorted heap_peek heap_push heap_pop
  by unfold_locales
    (auto simp: heap_push_sorted [unfolded heap_sorted_def] heap_peek_def heap_pop_def heap_sorted_def split: list.splits)

subsection \<open>The alarm task\<close>

text \<open>
  What is relied on of \<open>event_listener\<close>: once a listener exists it stays until the next one, and a notification
  while it exists reaches it.
\<close>

definition event_contract :: "'e event_ops \<Rightarrow> ('e \<Rightarrow> bool) \<Rightarrow> bool" where
  "event_contract ev listening \<longleftrightarrow>
     (\<forall>e. listening (ev_listen ev e))
     \<and> (\<forall>e. listening e \<longrightarrow> listening (ev_notify ev e) \<and> ev_notified ev (ev_notify ev e))"

text \<open>
  The invariant: while an entry is being served it stays on top, and a task that waits without having been
  notified waits for nothing or for the earliest deadline.
\<close>

definition top_is :: "time_value \<Rightarrow> 'e alarms \<Rightarrow> bool" where
  "top_is d al \<longleftrightarrow> (\<exists>e. heap_peek (al_list al) = Some e \<and> ae_deadline e = d)"

fun pc_ok :: "'e event_ops \<Rightarrow> ('e \<Rightarrow> bool) \<Rightarrow> time_value \<Rightarrow> 'e alarms \<Rightarrow> alarm_pc \<Rightarrow> bool" where
  "pc_ok ev listening wall al (AP_poll d t) = (top_is d al \<and> d \<le> wall)"
| "pc_ok ev listening wall al (AP_pop d) = (top_is d al \<and> d \<le> wall)"
| "pc_ok ev listening wall al AP_empty_check = listening (al_event al)"
| "pc_ok ev listening wall al (AP_listen_check d) = listening (al_event al)"
| "pc_ok ev listening wall al AP_await =
     (listening (al_event al) \<and> (ev_notified ev (al_event al) \<or> al_list al = []))"
| "pc_ok ev listening wall al (AP_sleep d) =
     (listening (al_event al) \<and> (ev_notified ev (al_event al) \<or> top_is d al))"
| "pc_ok ev listening wall al AP_panic = False"
| "pc_ok ev listening wall al pc = True"

definition alarms_ok :: "'e event_ops \<Rightarrow> ('e \<Rightarrow> bool) \<Rightarrow> time_value \<Rightarrow> alarm_pc \<Rightarrow> 'e alarms \<Rightarrow> bool" where
  "alarms_ok ev listening wall pc al \<longleftrightarrow> heap_sorted (al_list al) \<and> pc_ok ev listening wall al pc"

lemma alarms_ok_later: "alarms_ok ev listening wall pc al \<Longrightarrow> wall \<le> wall' \<Longrightarrow> alarms_ok ev listening wall' pc al"
  unfolding alarms_ok_def by (cases pc) auto

lemma heap_peek_none [simp]: "heap_peek h = None \<longleftrightarrow> h = []"
  by (simp add: heap_peek_def split: list.splits)

lemma heap_peek_Nil [simp]: "heap_peek [] = None"
  by simp

lemma top_is_push:
  assumes "heap_sorted (al_list al)" "top_is d al" "d \<le> ae_deadline e"
  shows "top_is d (al\<lparr>al_list := heap_push e (al_list al)\<rparr>)"
  using assms ah.push_later [of "al_list al" _ d e] unfolding top_is_def by fastforce

lemma top_is_event [simp]: "top_is d (al\<lparr>al_event := x\<rparr>) = top_is d al"
  by (simp add: top_is_def)

lemma renew_timer_cases:
  obtains "renew_timer ev now cur t al = al" "it_remained_ns t = 0"
  | e where "now < ae_deadline e" "renew_timer ev now cur t al =
        al\<lparr>al_list := heap_push e (al_list al), al_event := ev_notify ev (al_event al)\<rparr>"
  | e d where "now < ae_deadline e" "top_is d al" "d \<le> ae_deadline e"
      "renew_timer ev now cur t al = al\<lparr>al_list := heap_push e (al_list al)\<rparr>"
proof (cases "it_remained_ns t > 0")
  case True
  define e where "e = \<lparr>ae_deadline = now + it_remained_ns t, ae_task = cur\<rparr>"
  have n: "now < ae_deadline e" using True by (simp add: e_def)
  show ?thesis
  proof (cases "case heap_peek (al_list al) of None \<Rightarrow> True | Some x \<Rightarrow> ae_deadline x > ae_deadline e")
    case wake: True
    show ?thesis by (rule that(2) [OF n]) (use True wake in \<open>auto simp: renew_timer_def e_def Let_def split: option.splits\<close>)
  next
    case False
    then obtain x where x: "heap_peek (al_list al) = Some x" "ae_deadline x \<le> ae_deadline e"
      by (auto split: option.splits)
    show ?thesis
      by (rule that(3) [OF n, of "ae_deadline x"])
        (use True x in \<open>auto simp: renew_timer_def e_def Let_def top_is_def\<close>)
  qed
qed (auto intro: that(1) simp: renew_timer_def)

lemma renew_timer_ok:
  assumes c: "event_contract ev listening" and ok: "alarms_ok ev listening wall pc al" and w: "wall \<le> now"
  shows "alarms_ok ev listening wall pc (renew_timer ev now cur t al)"
proof -
  have s: "heap_sorted (al_list al)" and p: "pc_ok ev listening wall al pc" using ok by (simp_all add: alarms_ok_def)
  have keep: "top_is d (al\<lparr>al_list := heap_push e (al_list al)\<rparr>)" if "top_is d al" "d \<le> ae_deadline e" for d e
    using top_is_push [OF s that] .
  show ?thesis
  proof (cases rule: renew_timer_cases [of ev now cur t al])
    case 1
    then show ?thesis using ok by simp
  next
    case (2 e)
    have "pc_ok ev listening wall (al\<lparr>al_list := heap_push e (al_list al), al_event := ev_notify ev (al_event al)\<rparr>) pc"
      using p c keep [of _ e] 2(1) w by (cases pc) (auto simp: event_contract_def)
    then show ?thesis using 2 heap_push_sorted [OF s] by (simp add: alarms_ok_def)
  next
    case (3 e d)
    have ne: "al_list al \<noteq> []" using 3(2) by (auto simp: top_is_def heap_peek_def)
    have top: "top_is d' (al\<lparr>al_list := heap_push e (al_list al)\<rparr>)" if "top_is d' al" for d'
      using keep [of d' e] that 3(2,3) by (auto simp: top_is_def)
    have "pc_ok ev listening wall (al\<lparr>al_list := heap_push e (al_list al)\<rparr>) pc"
      using p top ne by (cases pc) auto
    then show ?thesis using 3 heap_push_sorted [OF s] by (simp add: alarms_ok_def)
  qed
qed

lemma update_itimer_ok:
  assumes "event_contract ev listening" "alarms_ok ev listening wl pc (fst (snd s))" "wl \<le> wall ty"
  shows "alarms_ok ev listening wl pc (fst (snd (update_itimer ev wall cur ty delta s)))"
  using assms by (auto simp: update_itimer_def itimer_update_def Let_def split_beta intro: renew_timer_ok)

lemma time_poll_ok:
  assumes c: "event_contract ev listening" and "alarms_ok ev listening wl pc al" and w: "\<And>ty. wl \<le> wall ty"
  shows "alarms_ok ev listening wl pc (fst (snd (time_poll ev wall cur now_ns tm al)))"
  using assms(2) by (auto simp: time_poll_def Let_def split_beta intro!: update_itimer_ok [OF c _ w] split: timer_state.splits)

lemma poll_timer_alarms:
  assumes "event_contract ev listening" "alarms_ok ev listening wl pc (sy_alarms s)" "\<And>ty. wl \<le> wall ty"
  shows "alarms_ok ev listening wl pc (sy_alarms (poll_timer ev wall cur busy task s))"
    "alarms_ok ev listening wl pc (sy_alarms (set_timer_state ev wall cur busy task st s))"
  using assms time_poll_ok [of ev listening wl pc "sy_alarms s" wall]
  by (auto simp: poll_timer_def set_timer_state_def Let_def split_beta split: option.splits)

lemma poll_timer_frame [simp]:
  "sy_pc (poll_timer ev wall cur busy task s) = sy_pc s" "sy_wall (poll_timer ev wall cur busy task s) = sy_wall s"
  "sy_pc (set_timer_state ev wall cur busy task st s) = sy_pc s"
  "sy_wall (set_timer_state ev wall cur busy task st s) = sy_wall s"
  by (simp_all add: poll_timer_def set_timer_state_def Let_def split_beta split: option.splits)

text \<open>
  The steps: time passes; threads come and go; a thread enters or leaves the kernel, which polls its timers; a thread
  sets a timer; the alarm task runs to its next point. A step that reads the clock reads it between its start and
  its end.
\<close>

definition clock_reads :: "time_value \<Rightarrow> (itimer_type \<Rightarrow> time_value) \<Rightarrow> time_value \<Rightarrow> bool" where
  "clock_reads w wall w' \<longleftrightarrow> w \<le> w' \<and> (\<forall>ty. w \<le> wall ty \<and> wall ty \<le> w')"

inductive timer_step :: "'e event_ops \<Rightarrow> nat \<Rightarrow> 'e time_sys \<Rightarrow> 'e time_sys \<Rightarrow> bool" for ev me where
  tick: "sy_wall s \<le> w \<Longrightarrow> timer_step ev me s (s\<lparr>sy_wall := w, sy_mono := n\<rparr>)"
| tasks: "timer_step ev me s (s\<lparr>sy_times := f, sy_alive := g\<rparr>)"
| switch: "clock_reads (sy_wall s) wall w \<Longrightarrow>
    timer_step ev me s ((set_timer_state ev wall task busy task st s)\<lparr>sy_wall := w\<rparr>)"
| setitimer: "clock_reads (sy_wall s) (\<lambda>_. now) w \<Longrightarrow> sy_times s task = Some tm \<Longrightarrow>
    set_itimer ev now task ty interval remained tm (sy_alarms s) = (tm', al', old) \<Longrightarrow>
    timer_step ev me s (s\<lparr>sy_times := (sy_times s)(task \<mapsto> tm'), sy_alarms := al', sy_wall := w\<rparr>)"
| alarm: "clock_reads (sy_wall s) wall w \<Longrightarrow> timer_step ev me s ((alarm_turn ev wall me busy s)\<lparr>sy_wall := w\<rparr>)"

definition sys_ok :: "'e event_ops \<Rightarrow> ('e \<Rightarrow> bool) \<Rightarrow> 'e time_sys \<Rightarrow> bool" where
  "sys_ok ev listening s \<longleftrightarrow> alarms_ok ev listening (sy_wall s) (sy_pc s) (sy_alarms s)"

lemma alarm_turn_ok:
  assumes c: "event_contract ev listening" and ok: "sys_ok ev listening s" and w: "\<And>ty. sy_wall s \<le> wall ty"
  shows "sys_ok ev listening (alarm_turn ev wall me busy s)"
proof (cases "\<exists>d t. sy_pc s = AP_poll d t")
  case True
  then obtain d t where pc: "sy_pc s = AP_poll d t" by blast
  then have "alarms_ok ev listening (sy_wall s) (AP_poll d t) (sy_alarms s)" using ok by (simp add: sys_ok_def)
  from poll_timer_alarms(1) [OF c this w] show ?thesis
    by (simp add: sys_ok_def alarm_turn_def pc Let_def alarms_ok_def)
next
  case False
  have h: "heap_sorted (al_list (sy_alarms s))" using ok by (simp add: sys_ok_def alarms_ok_def)
  show ?thesis using ok c False ah.pop_ok [OF h] ah.pop_peek [OF h]
    by (auto simp: sys_ok_def alarms_ok_def alarm_turn_def Let_def top_is_def event_contract_def
        split: alarm_pc.splits option.splits prod.splits)
qed

lemma alarm_turn_wall [simp]: "sy_wall (alarm_turn ev wall me busy s) = sy_wall s"
  by (auto simp: alarm_turn_def Let_def split: alarm_pc.splits option.splits prod.splits)

lemma timer_step_ok:
  assumes c: "event_contract ev listening" and st: "timer_step ev me s s'" and ok: "sys_ok ev listening s"
  shows "sys_ok ev listening s'"
  using st ok
proof (induction rule: timer_step.induct)
  case (tick s w n)
  then show ?case using alarms_ok_later by (auto simp: sys_ok_def)
next
  case (tasks s f g)
  then show ?case by (simp add: sys_ok_def)
next
  case (switch s wall w task busy st)
  then have r: "sy_wall s \<le> w" "\<And>ty. sy_wall s \<le> wall ty" by (simp_all add: clock_reads_def)
  note alarms_ok_later [OF poll_timer_alarms(2) [OF c switch(2) [unfolded sys_ok_def] r(2)] r(1)]
  then show ?case by (simp add: sys_ok_def)
next
  case (setitimer s now w task tm ty interval remained tm' al' old)
  have al: "al' = renew_timer ev now task \<lparr>it_interval_ns = interval, it_remained_ns = remained\<rparr> (sy_alarms s)"
    using setitimer(3) by (auto simp: set_itimer_def itimer_new_def Let_def)
  have r: "sy_wall s \<le> w" "sy_wall s \<le> now" using setitimer(1) by (simp_all add: clock_reads_def)
  note alarms_ok_later [OF renew_timer_ok [OF c setitimer(4) [unfolded sys_ok_def] r(2)] r(1)]
  then show ?case by (simp add: sys_ok_def al)
next
  case (alarm s wall w busy)
  have "sys_ok ev listening (alarm_turn ev wall me busy s)"
    using alarm_turn_ok [OF c alarm(2)] alarm(1) by (simp add: clock_reads_def)
  then show ?case using alarm(1) alarms_ok_later by (auto simp: sys_ok_def clock_reads_def)
qed

text \<open>The alarm list is empty and nothing has run.\<close>

definition time_sys_new :: "'e \<Rightarrow> time_value \<Rightarrow> 'e time_sys" where
  "time_sys_new e w =
     \<lparr>sy_alarms = \<lparr>al_list = [], al_event = e\<rparr>, sy_wall = w, sy_mono = 0, sy_times = (\<lambda>_. None), sy_alive = (\<lambda>_. False),
      sy_signals = [], sy_pc = AP_top\<rparr>"

lemma timer_reachable_ok:
  assumes "event_contract ev listening" "(timer_step ev me)\<^sup>*\<^sup>* (time_sys_new e w) s"
  shows "sys_ok ev listening s"
  using assms(2)
proof (induction rule: rtranclp_induct)
  case base
  then show ?case by (simp add: sys_ok_def alarms_ok_def time_sys_new_def heap_sorted_def)
qed (use timer_step_ok [OF assms(1)] in blast)

text \<open>
  An expired periodic timer that is polled by the alarm task is entered again for the alarm task, which is the
  current task, and polling the alarm task does nothing because it is not a thread.
\<close>

lemma alarm_rearms_itself:
  assumes "0 < it_remained_ns t" "it_remained_ns t \<le> delta" "0 < it_interval_ns t"
    and "itimer_update ev now me delta t al = (al', t', fired)"
  shows "fired \<and> al_list al' = heap_push \<lparr>ae_deadline = now + it_interval_ns t, ae_task = me\<rparr> (al_list al)"
    "sy_times s me = None \<Longrightarrow> poll_timer ev wall cur busy me s = s"
  using assms by (auto simp: itimer_update_def renew_timer_def poll_timer_def Let_def split: if_splits)


text \<open>A listener that counts: \<open>(listening, notified)\<close>.\<close>

definition flag_event :: "(bool \<times> bool) event_ops" where
  "flag_event = \<lparr>ev_listen = (\<lambda>_. (True, False)), ev_notify = (\<lambda>(l, n). (l, l)), ev_notified = snd\<rparr>"

definition timer_demo :: "nat \<Rightarrow> (bool \<times> bool) time_sys \<Rightarrow> (bool \<times> bool) time_sys" where
  "timer_demo n = (alarm_turn flag_event (\<lambda>_. 5) 0 False ^^ n)"

text \<open>The alarm task goes to wait, thread 1 sets a timer of 7 nanoseconds, and the alarm task waits for it.\<close>

definition timer_demo_thread :: "(bool \<times> bool) time_sys \<Rightarrow> (bool \<times> bool) time_sys" where
  "timer_demo_thread s = s\<lparr>sy_times := (\<lambda>_. None)(1 \<mapsto> time_manager_new), sy_alive := (\<lambda>t. t = 1)\<rparr>"

definition timer_demo_set :: "(bool \<times> bool) time_sys \<Rightarrow> (bool \<times> bool) time_sys" where
  "timer_demo_set s =
     (let (tm, al, old) = set_itimer flag_event 5 1 Real 0 7 time_manager_new (sy_alarms s)
      in s\<lparr>sy_times := (sy_times s)(1 \<mapsto> tm), sy_alarms := al, sy_wall := 5\<rparr>)"

definition timer_demo_end :: "(bool \<times> bool) time_sys" where
  "timer_demo_end = timer_demo 4 (timer_demo_set (timer_demo_thread (timer_demo 3 (time_sys_new (False, False) 5))))"

lemma flag_event_contract: "event_contract flag_event fst"
  by (auto simp: event_contract_def flag_event_def)

lemma timer_demo_steps: "sy_wall s = 5 \<Longrightarrow> (timer_step flag_event 0)\<^sup>*\<^sup>* s (timer_demo n s)"
proof (induction n)
  case (Suc n)
  let ?t = "timer_demo n s"
  have w: "sy_wall ?t = 5" unfolding timer_demo_def using Suc.prems by (induction n) simp_all
  have "timer_step flag_event 0 ?t ((alarm_turn flag_event (\<lambda>_. 5) 0 False ?t)\<lparr>sy_wall := 5\<rparr>)"
    by (rule timer_step.alarm) (simp add: clock_reads_def w)
  moreover have "(alarm_turn flag_event (\<lambda>_. 5) 0 False ?t)\<lparr>sy_wall := 5\<rparr> = timer_demo (Suc n) s"
    using w by (simp add: timer_demo_def)
  ultimately show ?case using Suc by auto
qed (simp add: timer_demo_def)

lemma timer_demo_reachable: "(timer_step flag_event 0)\<^sup>*\<^sup>* (time_sys_new (False, False) 5) timer_demo_end"
proof -
  define s1 where "s1 = timer_demo 3 (time_sys_new (False, False) 5)"
  have a: "(timer_step flag_event 0)\<^sup>*\<^sup>* (time_sys_new (False, False) 5) s1"
    unfolding s1_def by (rule timer_demo_steps) (simp add: time_sys_new_def)
  have w: "sy_wall s1 = 5"
    unfolding s1_def timer_demo_def by (simp add: numeral_3_eq_3 time_sys_new_def)
  have b: "timer_step flag_event 0 s1 (timer_demo_thread s1)"
    unfolding timer_demo_thread_def by (rule timer_step.tasks)
  have c: "timer_step flag_event 0 (timer_demo_thread s1) (timer_demo_set (timer_demo_thread s1))"
  proof -
    obtain tm al old where e:
      "set_itimer flag_event 5 1 Real 0 7 time_manager_new (sy_alarms (timer_demo_thread s1)) = (tm, al, old)"
      by (metis prod_cases3)
    then have "timer_demo_set (timer_demo_thread s1) = (timer_demo_thread s1)
        \<lparr>sy_times := (sy_times (timer_demo_thread s1))(1 \<mapsto> tm), sy_alarms := al, sy_wall := 5\<rparr>"
      by (simp add: timer_demo_set_def)
    moreover have "timer_step flag_event 0 (timer_demo_thread s1) ((timer_demo_thread s1)
        \<lparr>sy_times := (sy_times (timer_demo_thread s1))(1 \<mapsto> tm), sy_alarms := al, sy_wall := 5\<rparr>)"
      by (rule timer_step.setitimer [OF _ _ e]) (simp_all add: timer_demo_thread_def w clock_reads_def)
    ultimately show ?thesis by simp
  qed
  have "sy_wall (timer_demo_set (timer_demo_thread s1)) = 5" by (simp add: timer_demo_set_def Let_def split_beta)
  from timer_demo_steps [OF this, of 4] show ?thesis
    using a b c unfolding timer_demo_end_def s1_def by (meson rtranclp.rtrancl_into_rtrancl rtranclp_trans)
qed

lemmas timer_demo_defs = timer_demo_end_def timer_demo_def timer_demo_set_def timer_demo_thread_def time_sys_new_def
  alarm_turn_def set_itimer_def itimer_new_def renew_timer_def flag_event_def heap_peek_def heap_pop_def Let_def

lemma timer_demo_end_state:
  "sy_pc timer_demo_end = AP_sleep 12" "\<not> ev_notified flag_event (al_event (sy_alarms timer_demo_end))"
  by (simp_all add: timer_demo_defs eval_nat_numeral)


subsection \<open>Resource limits\<close>

text \<open>The limits of a process are well formed: one per resource, no current limit above its maximum.\<close>

definition rlimits_ok :: "rlimit list \<Rightarrow> bool" where
  "rlimits_ok ls \<longleftrightarrow> length ls = RLIM_NLIMITS \<and> (\<forall>l\<in>set ls. rl_current l \<le> rl_max l)"

lemma rlimits_default_ok: "rlimits_ok rlimits_default"
  by (auto simp: rlimits_ok_def rlimits_default_def rlimit_from_def dest!: set_update_subset_insert [THEN subsetD])

lemma prlimit_cases:
  assumes "sys_prlimit64 vm_read vm_write resource new_limit old_limit (Ok ls) m = (rlim', m', r)"
  obtains "rlim' = Ok ls"
  | cur mx where "rlim' = Ok (ls[resource := \<lparr>rl_current = cur, rl_max = mx\<rparr>])" "resource < RLIM_NLIMITS"
      "cur \<le> mx" "mx \<le> rl_max (ls ! resource)"
  using assms
  by (auto simp: sys_prlimit64_def Let_def not_le not_less split: if_splits prod.splits sum.splits)

text \<open>A sequence of \<open>prlimit64\<close> calls on one process.\<close>

fun prlimit_calls ::
    "(addr \<Rightarrow> 'm \<Rightarrow> (nat \<times> nat) outcome) \<Rightarrow> (addr \<Rightarrow> nat \<times> nat \<Rightarrow> 'm \<Rightarrow> 'm \<times> unit outcome) \<Rightarrow> (nat \<times> addr \<times> addr) list
      \<Rightarrow> rlimit list outcome \<Rightarrow> 'm \<Rightarrow> rlimit list outcome \<times> 'm" where
  "prlimit_calls vm_read vm_write [] rlim m = (rlim, m)"
| "prlimit_calls vm_read vm_write ((resource, new_limit, old_limit) # cs) rlim m =
     (let (rlim', m', r) = sys_prlimit64 vm_read vm_write resource new_limit old_limit rlim m
      in prlimit_calls vm_read vm_write cs rlim' m')"

lemma prlimit_step_ok:
  assumes "rlimits_ok ls" "sys_prlimit64 vm_read vm_write resource new_limit old_limit (Ok ls) m = (rlim', m', r)"
  shows "\<exists>ls'. rlim' = Ok ls' \<and> rlimits_ok ls' \<and> list_all2 (\<lambda>l' l. rl_max l' \<le> rl_max l) ls' ls"
  using assms(2)
proof (cases rule: prlimit_cases)
  case 1
  then show ?thesis using assms(1) by (simp add: list_all2_refl)
next
  case (2 cur mx)
  then have "rlimits_ok (ls[resource := \<lparr>rl_current = cur, rl_max = mx\<rparr>])"
    using assms(1) by (auto simp: rlimits_ok_def dest!: set_update_subset_insert [THEN subsetD])
  moreover have "list_all2 (\<lambda>l' l. rl_max l' \<le> rl_max l) (ls[resource := \<lparr>rl_current = cur, rl_max = mx\<rparr>]) ls"
    using 2(2,4) assms(1) by (auto simp: list_all2_conv_all_nth nth_list_update rlimits_ok_def)
  ultimately show ?thesis using 2(1) by blast
qed

lemma prlimit_calls_ok:
  assumes "rlimits_ok ls" "prlimit_calls vm_read vm_write cs (Ok ls) m = (rlim', m')"
  shows "\<exists>ls'. rlim' = Ok ls' \<and> rlimits_ok ls' \<and> list_all2 (\<lambda>l' l. rl_max l' \<le> rl_max l) ls' ls"
  using assms
proof (induction cs arbitrary: ls m)
  case Nil
  then show ?case by (auto simp: list_all2_refl)
next
  case (Cons c cs)
  obtain resource new_limit old_limit where c: "c = (resource, new_limit, old_limit)" by (cases c)
  obtain rlim1 m1 r where s: "sys_prlimit64 vm_read vm_write resource new_limit old_limit (Ok ls) m = (rlim1, m1, r)"
    by (metis prod_cases3)
  from prlimit_step_ok [OF Cons.prems(1) s] obtain ls1 where
    1: "rlim1 = Ok ls1" "rlimits_ok ls1" "list_all2 (\<lambda>l' l. rl_max l' \<le> rl_max l) ls1 ls" by blast
  have "prlimit_calls vm_read vm_write cs (Ok ls1) m1 = (rlim', m')" using Cons.prems(2) s 1(1) by (simp add: c)
  from Cons.IH [OF 1(2) this] obtain ls' where
    2: "rlim' = Ok ls'" "rlimits_ok ls'" "list_all2 (\<lambda>l' l. rl_max l' \<le> rl_max l) ls' ls1" by blast
  have "list_all2 (\<lambda>l' l. rl_max l' \<le> rl_max l) ls' ls"
    using list_all2_trans [OF _ 2(3) 1(3)] by fastforce
  then show ?case using 2 by blast
qed

text \<open>C39: From the default limits on, every sequence of \<open>prlimit64\<close> calls keeps the limits of a process well formed (one
  entry per resource and no current limit above its maximum), and no call ever raises a maximum.\<close>

theorem prlimit_keeps_limits:
  assumes "prlimit_calls vm_read vm_write cs (Ok rlimits_default) m = (rlim', m')"
  shows "\<exists>ls'. rlim' = Ok ls' \<and> rlimits_ok ls' \<and> list_all2 (\<lambda>l' l. rl_max l' \<le> rl_max l) ls' rlimits_default"
  by (rule prlimit_calls_ok [OF rlimits_default_ok assms])

text \<open>Lower the descriptor limit to 10 of 20, then try to raise it to 30 of 30.\<close>

definition prlimit_demo :: "rlimit list outcome \<times> (nat \<times> nat) list" where
  "prlimit_demo = prlimit_calls (\<lambda>a m. Ok (a, a + 10)) (\<lambda>a v m. (m @ [v], Ok ())) [(7, 10, 0), (7, 30, 1)] (Ok rlimits_default) []"

theorem prlimit_keeps_limits_witness:
  "\<exists>ls. fst prlimit_demo = Ok ls \<and> rlimits_ok ls \<and> ls ! 7 = \<lparr>rl_current = 10, rl_max = 20\<rparr> \<and> snd prlimit_demo = [(10, 20)]"
proof -
  have e: "prlimit_demo = (Ok (rlimits_default[7 := \<lparr>rl_current = 10, rl_max = 20\<rparr>]), [(10, 20)])"
    by (simp add: prlimit_demo_def sys_prlimit64_def RLIM_NLIMITS_def rlimits_default_def RLIMIT_NOFILE_def RLIMIT_STACK_def
        rlimit_from_def AX_FILE_LIMIT_def Let_def)
  have "length rlimits_default = 16" by (simp add: rlimits_default_def RLIM_NLIMITS_def)
  then show ?thesis
    using prlimit_keeps_limits [OF e [unfolded prlimit_demo_def]]
    by (intro exI [of _ "rlimits_default[7 := \<lparr>rl_current = 10, rl_max = 20\<rparr>]"]) (simp add: e)
qed

end
