(* ===== verification/Fs_Io.thy ===== *)
theory Fs_Io
  imports Fd_Table User_Io
begin

section \<open>File input and output system calls\<close>

text \<open>
  \<open>api/src/syscall/fs/io.rs\<close> and the descriptor casts of \<open>api/src/file\<close>. An open file object is a number;
  what the calls distinguish of it is its kind. The methods of the objects (axfs and the other components) and user
  memory are the fields of \<open>file_ops\<close>, over a state \<open>'s\<close> that holds all of them.
\<close>

datatype obj_kind = Obj_file | Obj_dir | Obj_pipe bool | Obj_dummy | Obj_other

text \<open>Where a transfer goes to or comes from in user memory: bytes, or a vector and a cursor into it.\<close>

datatype io_buf = Buf_bytes addr usize | Buf_iov addr io_cursor

datatype seek_from = Seek_start nat | Seek_current int | Seek_end int

record 's file_ops =
  fi_lookup :: "i32 \<Rightarrow> 's \<Rightarrow> nat outcome"
  fi_kind :: "nat \<Rightarrow> obj_kind"
  fi_read :: "nat \<Rightarrow> io_buf \<Rightarrow> 's \<Rightarrow> 's \<times> nat outcome"
  fi_write :: "nat \<Rightarrow> io_buf \<Rightarrow> 's \<Rightarrow> 's \<times> nat outcome"
  fi_read_at :: "nat \<Rightarrow> io_buf \<Rightarrow> nat \<Rightarrow> 's \<Rightarrow> 's \<times> nat outcome"
  fi_write_at :: "nat \<Rightarrow> io_buf \<Rightarrow> nat \<Rightarrow> 's \<Rightarrow> 's \<times> nat outcome"
  fi_read_bytes :: "nat \<Rightarrow> nat \<Rightarrow> 's \<Rightarrow> 's \<times> u8 list outcome"
  fi_write_bytes :: "nat \<Rightarrow> u8 list \<Rightarrow> 's \<Rightarrow> 's \<times> nat outcome"
  fi_read_bytes_at :: "nat \<Rightarrow> nat \<Rightarrow> nat \<Rightarrow> 's \<Rightarrow> 's \<times> u8 list outcome"
  fi_write_bytes_at :: "nat \<Rightarrow> u8 list \<Rightarrow> nat \<Rightarrow> 's \<Rightarrow> 's \<times> nat outcome"
  fi_poll_in :: "nat \<Rightarrow> 's \<Rightarrow> bool"
  fi_seek :: "nat \<Rightarrow> seek_from \<Rightarrow> 's \<Rightarrow> 's \<times> nat outcome"
  fi_access_write :: "nat \<Rightarrow> 's \<Rightarrow> unit outcome"
  fi_access_append :: "nat \<Rightarrow> 's \<Rightarrow> bool"
  fi_is_path :: "nat \<Rightarrow> 's \<Rightarrow> bool"
  fi_len :: "nat \<Rightarrow> 's \<Rightarrow> nat outcome"
  fi_set_len :: "nat \<Rightarrow> nat \<Rightarrow> 's \<Rightarrow> 's \<times> unit outcome"
  fi_sync :: "nat \<Rightarrow> bool \<Rightarrow> 's \<Rightarrow> 's \<times> unit outcome"
  fi_open_write :: "string \<Rightarrow> 's \<Rightarrow> nat outcome"
  fi_read_iov :: "addr \<Rightarrow> 's \<Rightarrow> nat \<Rightarrow> io_vec outcome"
  fi_vm_read :: "addr \<Rightarrow> 's \<Rightarrow> nat outcome"
  fi_vm_write :: "addr \<Rightarrow> nat \<Rightarrow> 's \<Rightarrow> 's \<times> unit outcome"
  fi_path :: "addr \<Rightarrow> 's \<Rightarrow> string outcome"

text \<open>The cast \<open>as u64\<close> of a signed offset.\<close>

definition as_u64 :: "i64 \<Rightarrow> nat" where
  "as_u64 x = nat (x mod 2 ^ 64)"

subsection \<open>Descriptors\<close>

text \<open>\<open>File::from_fd\<close>, \<open>Directory::from_fd\<close>, and \<open>from_fd\<close> of the trait for the other kinds.\<close>

definition file_from_fd :: "'s file_ops \<Rightarrow> i32 \<Rightarrow> 's \<Rightarrow> nat outcome" where
  "file_from_fd ops fd s =
     (case fi_lookup ops fd s of
        Inl e \<Rightarrow> Inl e
      | Inr f \<Rightarrow>
          (case fi_kind ops f of
             Obj_file \<Rightarrow> Ok f
           | Obj_dir \<Rightarrow> Fail IsADirectory
           | _ \<Rightarrow> Fail BrokenPipe))"

definition dir_from_fd :: "'s file_ops \<Rightarrow> i32 \<Rightarrow> 's \<Rightarrow> nat outcome" where
  "dir_from_fd ops fd s =
     (case fi_lookup ops fd s of
        Inl e \<Rightarrow> Inl e
      | Inr f \<Rightarrow> if fi_kind ops f = Obj_dir then Ok f else Fail NotADirectory)"

definition pipe_from_fd :: "'s file_ops \<Rightarrow> i32 \<Rightarrow> 's \<Rightarrow> bool outcome" where
  "pipe_from_fd ops fd s =
     (case fi_lookup ops fd s of
        Inl e \<Rightarrow> Inl e
      | Inr f \<Rightarrow> (case fi_kind ops f of Obj_pipe read_side \<Rightarrow> Ok read_side | _ \<Rightarrow> Fail InvalidInput))"

definition is_ok :: "'a outcome \<Rightarrow> bool" where
  "is_ok r = (case r of Inl _ \<Rightarrow> False | Inr _ \<Rightarrow> True)"

definition dummy_from_fd :: "'s file_ops \<Rightarrow> i32 \<Rightarrow> 's \<Rightarrow> nat outcome" where
  "dummy_from_fd ops fd s =
     (case fi_lookup ops fd s of
        Inl e \<Rightarrow> Inl e
      | Inr f \<Rightarrow> if fi_kind ops f = Obj_dummy then Ok f else Fail InvalidInput)"

text \<open>\<open>name\<close> is the name of the current task.\<close>

definition sys_dummy_fd ::
    "'t flat_ops \<Rightarrow> nat \<Rightarrow> nat \<Rightarrow> string \<Rightarrow> 't \<Rightarrow> 't \<times> int outcome" where
  "sys_dummy_fd ops max_nofile f name t =
     (if take 5 name = ''qemu-'' then (t, Fail Unsupported) else add_file_like ops max_nofile f False t)"

subsection \<open>Reading and writing\<close>

definition map_res :: "('a \<Rightarrow> 'b) \<Rightarrow> 's \<times> 'a outcome \<Rightarrow> 's \<times> 'b outcome" where
  "map_res f p = (fst p, map_sum id f (snd p))"

definition with_obj :: "nat outcome \<Rightarrow> 's \<Rightarrow> (nat \<Rightarrow> 's \<times> 'b outcome) \<Rightarrow> 's \<times> 'b outcome" where
  "with_obj r s k = (case r of Inl e \<Rightarrow> (s, Inl e) | Inr f \<Rightarrow> k f)"

definition with_iov ::
    "'s file_ops \<Rightarrow> addr \<Rightarrow> usize \<Rightarrow> 's \<Rightarrow> (io_buf \<Rightarrow> 's \<times> 'b outcome) \<Rightarrow> 's \<times> 'b outcome" where
  "with_iov ops iov iovcnt s k =
     (case io_vector_buf_new (fi_read_iov ops iov s) iovcnt of
        Inl e \<Rightarrow> (s, Inl e)
      | Inr b \<Rightarrow> k (Buf_iov iov (into_io b)))"

definition sys_read :: "'s file_ops \<Rightarrow> i32 \<Rightarrow> addr \<Rightarrow> usize \<Rightarrow> 's \<Rightarrow> 's \<times> int outcome" where
  "sys_read ops fd buf len s =
     with_obj (fi_lookup ops fd s) s (\<lambda>f. map_res int (fi_read ops f (Buf_bytes buf len) s))"

definition sys_readv :: "'s file_ops \<Rightarrow> i32 \<Rightarrow> addr \<Rightarrow> usize \<Rightarrow> 's \<Rightarrow> 's \<times> int outcome" where
  "sys_readv ops fd iov iovcnt s =
     with_obj (fi_lookup ops fd s) s (\<lambda>f. with_iov ops iov iovcnt s (\<lambda>b. map_res int (fi_read ops f b s)))"

definition sys_write :: "'s file_ops \<Rightarrow> i32 \<Rightarrow> addr \<Rightarrow> usize \<Rightarrow> 's \<Rightarrow> 's \<times> int outcome" where
  "sys_write ops fd buf len s =
     with_obj (fi_lookup ops fd s) s (\<lambda>f. map_res int (fi_write ops f (Buf_bytes buf len) s))"

definition sys_writev :: "'s file_ops \<Rightarrow> i32 \<Rightarrow> addr \<Rightarrow> usize \<Rightarrow> 's \<Rightarrow> 's \<times> int outcome" where
  "sys_writev ops fd iov iovcnt s =
     with_obj (fi_lookup ops fd s) s (\<lambda>f. with_iov ops iov iovcnt s (\<lambda>b. map_res int (fi_write ops f b s)))"

definition sys_lseek :: "'s file_ops \<Rightarrow> i32 \<Rightarrow> i64 \<Rightarrow> i32 \<Rightarrow> 's \<Rightarrow> 's \<times> int outcome" where
  "sys_lseek ops fd offset whence s =
     (case (if whence = 0 then Some (Seek_start (as_u64 offset))
            else if whence = 1 then Some (Seek_current offset)
            else if whence = 2 then Some (Seek_end offset)
            else None) of
        None \<Rightarrow> (s, Fail InvalidInput)
      | Some pos \<Rightarrow> with_obj (file_from_fd ops fd s) s (\<lambda>f. map_res (\<lambda>n. wrap_i64 (int n)) (fi_seek ops f pos s)))"

definition sys_truncate :: "'s file_ops \<Rightarrow> addr \<Rightarrow> i64 \<Rightarrow> 's \<Rightarrow> 's \<times> int outcome" where
  "sys_truncate ops path len s =
     (case fi_path ops path s of
        Inl e \<Rightarrow> (s, Inl e)
      | Inr p \<Rightarrow>
          if len < 0 then (s, Fail InvalidInput)
          else with_obj (fi_open_write ops p s) s (\<lambda>f.
                 case fi_access_write ops f s of
                   Inl e \<Rightarrow> (s, Inl e)
                 | Inr _ \<Rightarrow> map_res (\<lambda>_. 0) (fi_set_len ops f (as_u64 len) s)))"

definition sys_ftruncate :: "'s file_ops \<Rightarrow> i32 \<Rightarrow> i64 \<Rightarrow> 's \<Rightarrow> 's \<times> int outcome" where
  "sys_ftruncate ops fd len s =
     with_obj (file_from_fd ops fd s) s (\<lambda>f.
       case fi_access_write ops f s of
         Inl e \<Rightarrow> (s, Inl e)
       | Inr _ \<Rightarrow> map_res (\<lambda>_. 0) (fi_set_len ops f (as_u64 len) s))"

definition sys_fallocate :: "'s file_ops \<Rightarrow> i32 \<Rightarrow> u32 \<Rightarrow> i64 \<Rightarrow> i64 \<Rightarrow> 's \<Rightarrow> 's \<times> int outcome" where
  "sys_fallocate ops fd mode offset len s =
     (if mode \<noteq> 0 then (s, Fail InvalidInput)
      else with_obj (file_from_fd ops fd s) s (\<lambda>f.
        case fi_access_write ops f s of
          Inl e \<Rightarrow> (s, Inl e)
        | Inr _ \<Rightarrow>
            (case fi_len ops f s of
               Inl e \<Rightarrow> (s, Inl e)
             | Inr n \<Rightarrow> map_res (\<lambda>_. 0) (fi_set_len ops f (max n (uadd (as_u64 offset) (as_u64 len))) s))))"

definition sys_fsync :: "'s file_ops \<Rightarrow> i32 \<Rightarrow> 's \<Rightarrow> 's \<times> int outcome" where
  "sys_fsync ops fd s = with_obj (file_from_fd ops fd s) s (\<lambda>f. map_res (\<lambda>_. 0) (fi_sync ops f False s))"

definition sys_fdatasync :: "'s file_ops \<Rightarrow> i32 \<Rightarrow> 's \<Rightarrow> 's \<times> int outcome" where
  "sys_fdatasync ops fd s = with_obj (file_from_fd ops fd s) s (\<lambda>f. map_res (\<lambda>_. 0) (fi_sync ops f True s))"

definition sys_fadvise64 :: "'s file_ops \<Rightarrow> i32 \<Rightarrow> u32 \<Rightarrow> 's \<Rightarrow> int outcome" where
  "sys_fadvise64 ops fd advice s =
     (if is_ok (pipe_from_fd ops fd s) then Fail BrokenPipe
      else if advice > 5 then Fail InvalidInput
      else Ok 0)"

definition sys_pread64 :: "'s file_ops \<Rightarrow> i32 \<Rightarrow> addr \<Rightarrow> usize \<Rightarrow> i64 \<Rightarrow> 's \<Rightarrow> 's \<times> int outcome" where
  "sys_pread64 ops fd buf len offset s =
     with_obj (file_from_fd ops fd s) s (\<lambda>f.
       if offset < 0 then (s, Fail InvalidInput)
       else map_res int (fi_read_at ops f (Buf_bytes buf len) (as_u64 offset) s))"

definition sys_pwrite64 :: "'s file_ops \<Rightarrow> i32 \<Rightarrow> addr \<Rightarrow> usize \<Rightarrow> i64 \<Rightarrow> 's \<Rightarrow> 's \<times> int outcome" where
  "sys_pwrite64 ops fd buf len offset s =
     (if len = 0 then (s, Ok 0)
      else with_obj (file_from_fd ops fd s) s (\<lambda>f.
             map_res int (fi_write_at ops f (Buf_bytes buf len) (as_u64 offset) s)))"

definition sys_preadv2 :: "'s file_ops \<Rightarrow> i32 \<Rightarrow> addr \<Rightarrow> usize \<Rightarrow> i64 \<Rightarrow> u32 \<Rightarrow> 's \<Rightarrow> 's \<times> int outcome" where
  "sys_preadv2 ops fd iov iovcnt offset flags s =
     with_obj (file_from_fd ops fd s) s (\<lambda>f.
       with_iov ops iov iovcnt s (\<lambda>b. map_res int (fi_read_at ops f b (as_u64 offset) s)))"

text \<open>\<open>sys_pwritev2\<close> calls \<open>read_at\<close>.\<close>

definition sys_pwritev2 :: "'s file_ops \<Rightarrow> i32 \<Rightarrow> addr \<Rightarrow> usize \<Rightarrow> i64 \<Rightarrow> u32 \<Rightarrow> 's \<Rightarrow> 's \<times> int outcome" where
  "sys_pwritev2 ops fd iov iovcnt offset flags s =
     with_obj (file_from_fd ops fd s) s (\<lambda>f.
       with_iov ops iov iovcnt s (\<lambda>b. map_res int (fi_read_at ops f b (as_u64 offset) s)))"

definition sys_preadv :: "'s file_ops \<Rightarrow> i32 \<Rightarrow> addr \<Rightarrow> usize \<Rightarrow> i64 \<Rightarrow> 's \<Rightarrow> 's \<times> int outcome" where
  "sys_preadv ops fd iov iovcnt offset s = sys_preadv2 ops fd iov iovcnt offset 0 s"

definition sys_pwritev :: "'s file_ops \<Rightarrow> i32 \<Rightarrow> addr \<Rightarrow> usize \<Rightarrow> i64 \<Rightarrow> 's \<Rightarrow> 's \<times> int outcome" where
  "sys_pwritev ops fd iov iovcnt offset s = sys_pwritev2 ops fd iov iovcnt offset 0 s"

subsection \<open>Copying between files\<close>

datatype send_file = Send_direct nat | Send_offset nat addr

fun send_obj :: "send_file \<Rightarrow> nat" where
  "send_obj (Send_direct f) = f"
| "send_obj (Send_offset f p) = f"

definition has_data :: "'s file_ops \<Rightarrow> send_file \<Rightarrow> 's \<Rightarrow> bool" where
  "has_data ops sf s = fi_poll_in ops (send_obj sf) s"

fun send_read :: "'s file_ops \<Rightarrow> send_file \<Rightarrow> nat \<Rightarrow> 's \<Rightarrow> 's \<times> u8 list outcome" where
  "send_read ops (Send_direct f) n s = fi_read_bytes ops f n s"
| "send_read ops (Send_offset f p) n s =
     (case fi_vm_read ops p s of
        Inl e \<Rightarrow> (s, Inl e)
      | Inr off \<Rightarrow>
          (case fi_read_bytes_at ops f n off s of
             (s1, Inl e) \<Rightarrow> (s1, Inl e)
           | (s1, Inr bs) \<Rightarrow>
               (case fi_vm_write ops p (uadd off (length bs)) s1 of
                  (s2, Inl e) \<Rightarrow> (s2, Inl e)
                | (s2, Inr _) \<Rightarrow> (s2, Ok bs))))"

fun send_write :: "'s file_ops \<Rightarrow> send_file \<Rightarrow> u8 list \<Rightarrow> 's \<Rightarrow> 's \<times> nat outcome" where
  "send_write ops (Send_direct f) bs s = fi_write_bytes ops f bs s"
| "send_write ops (Send_offset f p) bs s =
     (case fi_vm_read ops p s of
        Inl e \<Rightarrow> (s, Inl e)
      | Inr off \<Rightarrow>
          (case fi_write_bytes_at ops f bs off s of
             (s1, Inl e) \<Rightarrow> (s1, Inl e)
           | (s1, Inr n) \<Rightarrow>
               (case fi_vm_write ops p (uadd off n) s1 of
                  (s2, Inl e) \<Rightarrow> (s2, Inl e)
                | (s2, Inr _) \<Rightarrow> (s2, Ok n))))"

text \<open>
  The loop of \<open>do_send\<close>. A short write ends the loop without being counted. A read cannot fill more than its
  buffer, and a write that reports more than \<open>remaining\<close> makes the subtraction overflow: both stand as a panic.
\<close>

function send_loop :: "'s file_ops \<Rightarrow> send_file \<Rightarrow> send_file \<Rightarrow> nat \<Rightarrow> nat \<Rightarrow> 's \<Rightarrow> 's \<times> nat outcome" where
  "send_loop ops src dst total_written remaining s =
     (if remaining = 0 then (s, Ok total_written)
      else if total_written > 0 \<and> \<not> has_data ops src s then (s, Ok total_written)
      else
        let to_read = min 0x1000 remaining in
        case send_read ops src to_read s of
          (s1, Inl e) \<Rightarrow> (s1, if e = Err WouldBlock \<and> total_written > 0 then Ok total_written else Inl e)
        | (s1, Inr bs) \<Rightarrow>
            if bs = [] then (s1, Ok total_written)
            else if length bs > to_read then (s1, Panicked)
            else
              (case send_write ops dst bs s1 of
                 (s2, Inl e) \<Rightarrow> (s2, Inl e)
               | (s2, Inr n) \<Rightarrow>
                   if n < length bs then (s2, Ok total_written)
                   else if n > remaining then (s2, Panicked)
                   else send_loop ops src dst (total_written + n) (remaining - n) s2))"
  by pat_completeness auto

termination send_loop
  by (relation "measure (\<lambda>(ops, src, dst, total_written, remaining, s). remaining)") (auto simp: neq_Nil_conv)

declare send_loop.simps [simp del]

definition do_send :: "'s file_ops \<Rightarrow> send_file \<Rightarrow> send_file \<Rightarrow> usize \<Rightarrow> 's \<Rightarrow> 's \<times> nat outcome" where
  "do_send ops src dst len s = send_loop ops src dst 0 len s"

definition sys_sendfile :: "'s file_ops \<Rightarrow> i32 \<Rightarrow> i32 \<Rightarrow> addr \<Rightarrow> usize \<Rightarrow> 's \<Rightarrow> 's \<times> int outcome" where
  "sys_sendfile ops out_fd in_fd offset len s =
     (case (if offset \<noteq> 0 then
              (case fi_vm_read ops offset s of
                 Inl e \<Rightarrow> Inl e
               | Inr off \<Rightarrow>
                   if off > 0xFFFFFFFF then Fail InvalidInput
                   else map_sum id (\<lambda>f. Send_offset f offset) (file_from_fd ops in_fd s))
            else map_sum id Send_direct (fi_lookup ops in_fd s)) of
        Inl e \<Rightarrow> (s, Inl e)
      | Inr src \<Rightarrow> with_obj (fi_lookup ops out_fd s) s (\<lambda>f. map_res int (do_send ops src (Send_direct f) len s)))"

definition send_end :: "'s file_ops \<Rightarrow> i32 \<Rightarrow> addr \<Rightarrow> 's \<Rightarrow> send_file outcome" where
  "send_end ops fd off s =
     (if off \<noteq> 0 then map_sum id (\<lambda>f. Send_offset f off) (file_from_fd ops fd s)
      else map_sum id Send_direct (fi_lookup ops fd s))"

definition sys_copy_file_range ::
    "'s file_ops \<Rightarrow> i32 \<Rightarrow> addr \<Rightarrow> i32 \<Rightarrow> addr \<Rightarrow> usize \<Rightarrow> 's \<Rightarrow> 's \<times> int outcome" where
  "sys_copy_file_range ops fd_in off_in fd_out off_out len s =
     (case send_end ops fd_in off_in s of
        Inl e \<Rightarrow> (s, Inl e)
      | Inr src \<Rightarrow>
          (case send_end ops fd_out off_out s of
             Inl e \<Rightarrow> (s, Inl e)
           | Inr dst \<Rightarrow> map_res int (do_send ops src dst len s)))"

text \<open>The two ends of \<open>splice\<close>; the flag says whether the end is a pipe.\<close>

definition splice_offset :: "'s file_ops \<Rightarrow> i32 \<Rightarrow> addr \<Rightarrow> 's \<Rightarrow> (send_file \<times> bool) outcome" where
  "splice_offset ops fd off s =
     (case fi_vm_read ops off s of
        Inl e \<Rightarrow> Inl e
      | Inr v \<Rightarrow>
          if wrap_i64 (int v) < 0 then Fail InvalidInput
          else map_sum id (\<lambda>f. (Send_offset f off, False)) (file_from_fd ops fd s))"

definition splice_src :: "'s file_ops \<Rightarrow> i32 \<Rightarrow> addr \<Rightarrow> 's \<Rightarrow> (send_file \<times> bool) outcome" where
  "splice_src ops fd off s =
     (if off \<noteq> 0 then splice_offset ops fd off s
      else if pipe_from_fd ops fd s = Ok False then Fail BadFileDescriptor
      else if (case file_from_fd ops fd s of Inl _ \<Rightarrow> False | Inr f \<Rightarrow> fi_is_path ops f s) then Fail InvalidInput
      else map_sum id (\<lambda>f. (Send_direct f, is_ok (pipe_from_fd ops fd s))) (fi_lookup ops fd s))"

definition splice_dst :: "'s file_ops \<Rightarrow> i32 \<Rightarrow> addr \<Rightarrow> 's \<Rightarrow> 's \<times> (send_file \<times> bool) outcome" where
  "splice_dst ops fd off s =
     (if off \<noteq> 0 then (s, splice_offset ops fd off s)
      else if pipe_from_fd ops fd s = Ok True then (s, Fail BadFileDescriptor)
      else if (case file_from_fd ops fd s of Inl _ \<Rightarrow> False | Inr f \<Rightarrow> fi_access_append ops f s) then (s, Fail InvalidInput)
      else with_obj (fi_lookup ops fd s) s (\<lambda>f.
             map_res (\<lambda>_. (Send_direct f, is_ok (pipe_from_fd ops fd s))) (fi_write_bytes ops f [] s)))"

definition sys_splice :: "'s file_ops \<Rightarrow> i32 \<Rightarrow> addr \<Rightarrow> i32 \<Rightarrow> addr \<Rightarrow> usize \<Rightarrow> 's \<Rightarrow> 's \<times> int outcome" where
  "sys_splice ops fd_in off_in fd_out off_out len s =
     (if is_ok (dummy_from_fd ops fd_in s) \<or> is_ok (dummy_from_fd ops fd_out s) then (s, Fail BadFileDescriptor)
      else
        case splice_src ops fd_in off_in s of
          Inl e \<Rightarrow> (s, Inl e)
        | Inr (src, p) \<Rightarrow>
            (case splice_dst ops fd_out off_out s of
               (s1, Inl e) \<Rightarrow> (s1, Inl e)
             | (s1, Inr (dst, q)) \<Rightarrow>
                 if \<not> (p \<or> q) then (s1, Fail InvalidInput)
                 else map_res int (do_send ops src dst len s1)))"

end
