(* ===== verification/Fs_Io_Props.thy ===== *)
theory Fs_Io_Props
  imports Fs_Io
begin

section \<open>Properties of the file calls\<close>

text \<open>
  What \<open>sendfile\<close>, \<open>copy_file_range\<close> and \<open>splice\<close> move: always a prefix of the source, in order, at most
  \<open>len\<close> bytes, and exactly the number of bytes they return when every write is complete.
\<close>

text \<open>
  The contract of the two ends: \<open>inp\<close> is what the source still has to give, \<open>outp\<close> what the destination has
  received. A read takes a prefix of the one, a write appends a prefix of its bytes to the other, an error changes
  neither.
\<close>

definition send_contract ::
    "'s file_ops \<Rightarrow> send_file \<Rightarrow> send_file \<Rightarrow> ('s \<Rightarrow> u8 list) \<Rightarrow> ('s \<Rightarrow> u8 list) \<Rightarrow> bool" where
  "send_contract ops src dst inp outp \<longleftrightarrow>
     (\<forall>n s s' r. send_read ops src n s = (s', r) \<longrightarrow> outp s' = outp s \<and>
        (case r of Inl e \<Rightarrow> e \<noteq> Panic \<and> inp s' = inp s | Inr bs \<Rightarrow> length bs \<le> n \<and> inp s = bs @ inp s'))
     \<and> (\<forall>bs s s' r. send_write ops dst bs s = (s', r) \<longrightarrow> inp s' = inp s \<and>
        (case r of Inl e \<Rightarrow> e \<noteq> Panic \<and> outp s' = outp s | Inr n \<Rightarrow> n \<le> length bs \<and> outp s' = outp s @ take n bs))"

definition writes_all :: "'s file_ops \<Rightarrow> send_file \<Rightarrow> bool" where
  "writes_all ops dst \<longleftrightarrow> (\<forall>bs s s' n. send_write ops dst bs s = (s', Ok n) \<longrightarrow> n = length bs)"

text \<open>What a copy has done: \<open>k\<close> bytes arrived, \<open>lost\<close> more were taken from the source.\<close>

definition moved ::
    "('s \<Rightarrow> u8 list) \<Rightarrow> ('s \<Rightarrow> u8 list) \<Rightarrow> nat \<Rightarrow> nat \<Rightarrow> 's \<Rightarrow> 's \<Rightarrow> bool" where
  "moved inp outp k lost s s' \<longleftrightarrow>
     k + lost \<le> length (inp s) \<and> outp s' = outp s @ take k (inp s) \<and> inp s' = drop (k + lost) (inp s)"

lemma moved_none: "inp s' = inp s \<Longrightarrow> outp s' = outp s \<Longrightarrow> moved inp outp 0 0 s s'"
  by (simp add: moved_def)

lemma moved_trans:
  assumes "moved inp outp k 0 s s1" "moved inp outp k' lost s1 s2"
  shows "moved inp outp (k + k') lost s s2"
  using assms by (auto simp: moved_def take_add add_ac)

lemma moved_chunk:
  assumes "inp s = bs @ inp s1" "outp s1 = outp s" "n \<le> length bs" "outp s2 = outp s1 @ take n bs" "inp s2 = inp s1"
  shows "moved inp outp n (length bs - n) s s2"
  using assms by (simp add: moved_def)

lemma send_readD:
  assumes "send_contract ops src dst inp outp" "send_read ops src n s = (s', r)"
  shows "outp s' = outp s"
    and "case r of Inl e \<Rightarrow> e \<noteq> Panic \<and> inp s' = inp s | Inr bs \<Rightarrow> length bs \<le> n \<and> inp s = bs @ inp s'"
  using assms unfolding send_contract_def by blast+

lemma send_writeD:
  assumes "send_contract ops src dst inp outp" "send_write ops dst bs s = (s', r)"
  shows "inp s' = inp s"
    and "case r of Inl e \<Rightarrow> e \<noteq> Panic \<and> outp s' = outp s | Inr n \<Rightarrow> n \<le> length bs \<and> outp s' = outp s @ take n bs"
  using assms unfolding send_contract_def by blast+

text \<open>The result of the loop, given what it has written before.\<close>

definition send_result ::
    "'s file_ops \<Rightarrow> send_file \<Rightarrow> ('s \<Rightarrow> u8 list) \<Rightarrow> ('s \<Rightarrow> u8 list) \<Rightarrow> nat \<Rightarrow> nat \<Rightarrow> 's \<Rightarrow> 's \<times> nat outcome \<Rightarrow> bool" where
  "send_result ops dst inp outp tw len s res \<longleftrightarrow>
     (\<exists>k lost. moved inp outp k lost s (fst res) \<and> k + lost \<le> len \<and> snd res \<noteq> Panicked
        \<and> (\<forall>n. snd res = Ok n \<longrightarrow> tw \<le> n \<and> n \<le> tw + k \<and> (writes_all ops dst \<longrightarrow> n = tw + k \<and> lost = 0)))"

lemma send_result_stop:
  assumes "inp s' = inp s" "outp s' = outp s" "r = Ok tw \<or> (\<exists>e. r = Inl e \<and> e \<noteq> Panic)"
  shows "send_result ops dst inp outp tw len s (s', r)"
  unfolding send_result_def using moved_none [of inp s' s outp] assms by (intro exI [of _ 0]) auto

lemma send_result_step:
  assumes m: "moved inp outp k 0 s s1" and l: "k \<le> len" and r: "send_result ops dst inp outp (tw + k) (len - k) s1 res"
  shows "send_result ops dst inp outp tw len s res"
proof -
  from r obtain k' lost where k: "moved inp outp k' lost s1 (fst res)" "k' + lost \<le> len - k" "snd res \<noteq> Panicked"
    "\<forall>n. snd res = Ok n \<longrightarrow> tw + k \<le> n \<and> n \<le> tw + k + k' \<and> (writes_all ops dst \<longrightarrow> n = tw + k + k' \<and> lost = 0)"
    unfolding send_result_def by blast
  show ?thesis unfolding send_result_def
    by (rule exI [of _ "k + k'"], rule exI [of _ lost]) (use moved_trans [OF m k(1)] k(2-4) l in auto)
qed

lemma send_loop_write:
  assumes "\<not> (len = 0 \<or> 0 < tw \<and> \<not> has_data ops src s)" "send_read ops src (min 0x1000 len) s = (s1, Ok bs)"
    and "bs \<noteq> []" "length bs \<le> min 0x1000 len"
  shows "send_loop ops src dst tw len s =
    (case send_write ops dst bs s1 of
       (s2, Inl e) \<Rightarrow> (s2, Inl e)
     | (s2, Inr n) \<Rightarrow>
         if n < length bs then (s2, Ok tw)
         else if n > len then (s2, Panicked)
         else send_loop ops src dst (tw + n) (len - n) s2)"
  using assms by (subst send_loop.simps) (auto simp: Let_def split: prod.splits sum.splits)

text \<open>One chunk that was read and is not empty, given the result of the rest of the loop.\<close>

lemma send_chunk_result:
  assumes c: "send_contract ops src dst inp outp" and wr: "send_write ops dst bs s1 = (s2, w)"
    and b: "length bs \<le> len" "inp s = bs @ inp s1" "outp s1 = outp s"
    and IH: "w = Ok (length bs) \<Longrightarrow> send_result ops dst inp outp (tw + length bs) (len - length bs) s2 rest"
  shows "send_result ops dst inp outp tw len s
    (case w of Inl e \<Rightarrow> (s2, Inl e) | Inr n \<Rightarrow> if n < length bs then (s2, Ok tw) else rest)"
proof (cases w)
  case (Inl e)
  have "\<exists>a. e = Err a" using send_writeD [OF c wr] Inl by (cases e) auto
  moreover have "moved inp outp 0 (length bs) s s2" using send_writeD [OF c wr] Inl b by (simp add: moved_def)
  ultimately have "send_result ops dst inp outp tw len s (s2, w)"
    unfolding send_result_def Inl using b(1) by (intro exI [of _ 0] exI [of _ "length bs"]) auto
  then show ?thesis using Inl by simp
next
  case w: (Inr n)
  have n: "n \<le> length bs" "moved inp outp n (length bs - n) s s2"
    using send_writeD [OF c wr] w b by (auto intro: moved_chunk)
  show ?thesis
  proof (cases "n = length bs")
    case True
    then show ?thesis using n b(1) w IH by (auto intro: send_result_step [of inp outp n s s2])
  next
    case False
    then have "\<not> writes_all ops dst" using wr w unfolding writes_all_def by blast
    then have "send_result ops dst inp outp tw len s (s2, Ok tw)"
      unfolding send_result_def using n b by (intro exI [of _ n] exI [of _ "length bs - n"]) auto
    then show ?thesis using w False n(1) by simp
  qed
qed

lemma send_loop_result:
  assumes c: "send_contract ops src dst inp outp"
  shows "send_result ops dst inp outp tw len s (send_loop ops src dst tw len s)"
proof (induction len arbitrary: tw s rule: less_induct)
  case (less len)
  let ?n = "min 0x1000 len"
  show ?case
  proof (cases "len = 0 \<or> 0 < tw \<and> \<not> has_data ops src s")
    case True
    then show ?thesis by (subst send_loop.simps) (auto intro: send_result_stop)
  next
    case go: False
    obtain s1 r where rd: "send_read ops src ?n s = (s1, r)" by fastforce
    show ?thesis
    proof (cases "r = Ok [] \<or> (\<exists>e. r = Inl e)")
      case True
      then have io: "inp s1 = inp s" "outp s1 = outp s" "r \<noteq> Panicked" using send_readD [OF c rd] by auto
      show ?thesis using True go rd io(3)
        by (subst send_loop.simps) (auto simp: Let_def intro!: send_result_stop [OF io(1,2)])
    next
      case False
      then obtain bs where bs: "r = Ok bs" "bs \<noteq> []" by (cases r) auto
      then have b: "length bs \<le> ?n" "inp s = bs @ inp s1" "outp s1 = outp s" using send_readD [OF c rd] by simp_all
      obtain s2 w where wr: "send_write ops dst bs s1 = (s2, w)" by fastforce
      let ?rest = "send_loop ops src dst (tw + length bs) (len - length bs) s2"
      have "len - length bs < len" using go bs(2) by (cases bs) auto
      note res = send_chunk_result [OF c wr _ b(2,3) less.IH [OF this], where tw = tw]
      have "n \<le> length bs" if "w = Ok n" for n using send_writeD [OF c wr] that by simp
      then have "send_loop ops src dst tw len s =
          (case w of Inl e \<Rightarrow> (s2, Inl e) | Inr n \<Rightarrow> if n < length bs then (s2, Ok tw) else ?rest)"
        using send_loop_write [OF go rd [unfolded bs(1)] bs(2) b(1)] wr b(1)
        by (auto split: sum.splits dest: le_antisym)
      then show ?thesis using res b(1) by simp
    qed
  qed
qed

text \<open>C17: \<open>do_send\<close>, which carries \<open>sendfile\<close>, \<open>copy_file_range\<close> and \<open>splice\<close>, always ends, never panics, moves a
  prefix of the source in order and never takes more than \<open>len\<close> bytes; when every write is complete it returns
  exactly the number of bytes that arrived and nothing taken from the source is lost.\<close>

theorem do_send_moves_prefix:
  assumes "send_contract ops src dst inp outp" "do_send ops src dst len s = (s', r)"
  shows "\<exists>k lost. moved inp outp k lost s s' \<and> k + lost \<le> len \<and> r \<noteq> Panicked
    \<and> (\<forall>n. r = Ok n \<longrightarrow> n \<le> k \<and> (writes_all ops dst \<longrightarrow> n = k \<and> lost = 0))"
  using send_loop_result [OF assms(1), of 0 len s] assms(2) unfolding do_send_def send_result_def by auto

text \<open>A short write: the bytes that were written are not counted, the others are lost.\<close>

lemma do_send_short_write:
  assumes "0 < len" "send_read ops src (min 0x1000 len) s = (s1, Ok bs)" "length bs \<le> min 0x1000 len"
    and "send_write ops dst bs s1 = (s2, Ok n)" "n < length bs"
  shows "do_send ops src dst len s = (s2, Ok 0)"
proof -
  have "bs \<noteq> []" using assms(5) by auto
  then show ?thesis using assms send_loop_write [of len 0 ops src s s1 bs dst] by (simp add: do_send_def)
qed

text \<open>\<open>pwritev\<close> and \<open>pwritev2\<close> do what \<open>preadv\<close> and \<open>preadv2\<close> do.\<close>

lemma pwritev_reads: "sys_pwritev2 = sys_preadv2" "sys_pwritev = sys_preadv"
  by (simp_all add: fun_eq_iff sys_pwritev2_def sys_preadv2_def sys_pwritev_def sys_preadv_def)

text \<open>Two objects: object 0 gives the bytes of the first list, object 1 appends to the second.\<close>

definition list_files :: "(u8 list \<times> u8 list) file_ops" where
  "list_files =
     \<lparr>fi_lookup = (\<lambda>fd s. if fd = 3 then Ok 0 else if fd = 4 then Ok 1 else Fail BadFileDescriptor),
      fi_kind = (\<lambda>_. Obj_file), fi_read = (\<lambda>f b s. (s, Ok 0)), fi_write = (\<lambda>f b s. (s, Ok 0)),
      fi_read_at = (\<lambda>f b off s. (s, Ok 0)), fi_write_at = (\<lambda>f b off s. (s, Ok 0)),
      fi_read_bytes = (\<lambda>f n s. ((drop n (fst s), snd s), Ok (take n (fst s)))),
      fi_write_bytes = (\<lambda>f bs s. ((fst s, snd s @ bs), Ok (length bs))),
      fi_read_bytes_at = (\<lambda>f n off s. (s, Ok [])), fi_write_bytes_at = (\<lambda>f bs off s. (s, Ok 0)),
      fi_poll_in = (\<lambda>f s. True), fi_seek = (\<lambda>f p s. (s, Ok 0)), fi_access_write = (\<lambda>f s. Ok ()),
      fi_access_append = (\<lambda>f s. False), fi_is_path = (\<lambda>f s. False), fi_len = (\<lambda>f s. Ok 0),
      fi_set_len = (\<lambda>f n s. (s, Ok ())), fi_sync = (\<lambda>f b s. (s, Ok ())), fi_open_write = (\<lambda>p s. Ok 0),
      fi_read_iov = (\<lambda>a s i. Fail BadAddress), fi_vm_read = (\<lambda>a s. Fail BadAddress),
      fi_vm_write = (\<lambda>a v s. (s, Fail BadAddress)), fi_path = (\<lambda>a s. Fail BadAddress)\<rparr>"

lemma list_files_contract:
  "send_contract list_files (Send_direct 0) (Send_direct 1) fst snd" "writes_all list_files (Send_direct 1)"
  by (auto simp: send_contract_def writes_all_def list_files_def)

theorem do_send_moves_prefix_witness:
  "do_send list_files (Send_direct 0) (Send_direct 1) 2 ([1, 2, 3], [9]) = (([3], [9, 1, 2]), Ok 2)
    \<and> (\<exists>k lost. moved fst snd k lost ([1, 2, 3], [9]) ([3], [9, 1, 2]) \<and> 2 = k \<and> lost = 0)"
proof -
  have e: "do_send list_files (Send_direct 0) (Send_direct 1) 2 ([1, 2, 3], [9]) = (([3], [9, 1, 2]), Ok 2)"
    by (simp add: do_send_def send_loop.simps list_files_def has_data_def)
  show ?thesis using do_send_moves_prefix [OF list_files_contract(1) e] list_files_contract(2) e by auto
qed

end
