(* ===== verification/Select.thy ===== *)
theory Select
  imports Timers
begin

section \<open>\<open>poll\<close> and \<open>select\<close>\<close>

text \<open>
  \<open>api/src/syscall/io_mpx/poll.rs\<close>, \<open>select.rs\<close> and \<open>with_replacen_blocked\<close> of \<open>api/src/signal.rs\<close>.
  \<open>get_file_like\<close> on the current table is the argument \<open>lookup\<close>. Waiting belongs to axtask: the closure given to
  \<open>poll_io\<close> is called again and again, each time with the readiness \<open>poll\<close> the files have then, until it
  succeeds or the wait ends with a timeout or a signal.
\<close>

datatype wait_end = Wait_timeout | Wait_interrupted

text \<open>The attempts of a wait: the readiness at each of them, and how the wait ends when none succeeds.\<close>

fun wait_attempts ::
    "((nat \<Rightarrow> u32) \<Rightarrow> 's \<Rightarrow> 's \<times> nat) \<Rightarrow> (nat \<Rightarrow> u32) list \<Rightarrow> wait_end \<Rightarrow> 's \<Rightarrow> 's \<times> int outcome" where
  "wait_attempts attempt [] ending s =
     (s, case ending of Wait_timeout \<Rightarrow> Ok 0 | Wait_interrupted \<Rightarrow> Fail Interrupted)"
| "wait_attempts attempt (poll # polls) ending s =
     (let (s', res) = attempt poll s in
      if res > 0 then (s', Ok (int res)) else wait_attempts attempt polls ending s')"

text \<open>
  \<open>with_replacen_blocked\<close> over the signal state \<open>'g\<close> of the thread; \<open>set_blocked\<close> replaces the mask and returns
  the old one. The mask is restored only when the action succeeds.
\<close>

definition with_replacen_blocked ::
    "(u64 \<Rightarrow> 'g \<Rightarrow> 'g \<times> u64) \<Rightarrow> u64 option \<Rightarrow> ('s \<Rightarrow> 's \<times> 'r outcome) \<Rightarrow> 'g \<Rightarrow> 's \<Rightarrow> 'g \<times> 's \<times> 'r outcome" where
  "with_replacen_blocked set_blocked blocked f g s =
     (let (g1, old_blocked) = (case blocked of
                                 None \<Rightarrow> (g, None)
                               | Some m \<Rightarrow> (let (g', old) = set_blocked m g in (g', Some old)));
          (s', r) = f s
      in case r of
           Inl e \<Rightarrow> (g1, s', r)
         | Inr _ \<Rightarrow> (case old_blocked of None \<Rightarrow> (g1, s', r) | Some old \<Rightarrow> (fst (set_blocked old g1), s', r)))"

definition check_sigset_size :: "usize \<Rightarrow> unit outcome" where
  "check_sigset_size sz = (if sz \<noteq> 8 \<and> sz \<noteq> 0 then Fail InvalidInput else Ok ())"

definition EV_IN :: u32 where "EV_IN = 1"
definition EV_OUT :: u32 where "EV_OUT = 4"
definition EV_ERR :: u32 where "EV_ERR = 8"
definition EV_RDNORM :: u32 where "EV_RDNORM = 0x40"
definition EV_WRNORM :: u32 where "EV_WRNORM = 0x100"
definition POLLNVAL :: u16 where "POLLNVAL = 0x20"

subsection \<open>\<open>poll\<close>\<close>

record pollfd =
  pf_fd :: i32
  pf_events :: u16
  pf_revents :: u16

text \<open>
  The first loop: the descriptors to poll, with their index, file and events, and the number of descriptors that
  are not open, which are marked. \<open>all_bits\<close> are the flags of \<open>IoEvents\<close>, \<open>always\<close> is \<open>ALWAYS_POLL\<close>.
\<close>

fun poll_collect ::
    "(i32 \<Rightarrow> nat outcome) \<Rightarrow> u32 \<Rightarrow> u32 \<Rightarrow> nat \<Rightarrow> pollfd list \<Rightarrow> pollfd list \<times> (nat \<times> nat \<times> u32) list \<times> nat \<times> unit outcome" where
  "poll_collect lookup all_bits always i [] = ([], [], 0, Ok ())"
| "poll_collect lookup all_bits always i (p # ps) =
     (if pf_fd p = -1 then
        (let (ps', fds, res, r) = poll_collect lookup all_bits always (i + 1) ps in (p # ps', fds, res, r))
      else case lookup (pf_fd p) of
        Inr f \<Rightarrow>
          if any_flag (scast (pf_events p)) (NOT all_bits) then (p # ps, [], 0, Fail InvalidInput)
          else
            (let (ps', fds, res, r) = poll_collect lookup all_bits always (i + 1) ps
             in (p # ps', (i, f, scast (pf_events p) OR always) # fds, res, r))
      | Inl _ \<Rightarrow>
          (let (ps', fds, res, r) = poll_collect lookup all_bits always (i + 1) ps
           in (p\<lparr>pf_revents := POLLNVAL\<rparr> # ps', fds, res + 1, r)))"

definition poll_result :: "u32 \<Rightarrow> u32 \<Rightarrow> u16" where
  "poll_result ready events =
     (let r1 = (if has_flags ready EV_IN then ready OR EV_RDNORM else ready);
          r2 = (if has_flags r1 EV_OUT then r1 OR EV_WRNORM else r1)
      in ucast (r2 AND events))"

fun poll_attempt :: "(nat \<times> nat \<times> u32) list \<Rightarrow> (nat \<Rightarrow> u32) \<Rightarrow> pollfd list \<Rightarrow> pollfd list \<times> nat" where
  "poll_attempt [] poll ps = (ps, 0)"
| "poll_attempt ((i, f, events) # fds) poll ps =
     (let rev = poll_result (poll f) events;
          (ps', res) = poll_attempt fds poll (ps[i := (ps ! i)\<lparr>pf_revents := rev\<rparr>])
      in (ps', if rev \<noteq> 0 then res + 1 else res))"

definition do_poll ::
    "(u64 \<Rightarrow> 'g \<Rightarrow> 'g \<times> u64) \<Rightarrow> (i32 \<Rightarrow> nat outcome) \<Rightarrow> u32 \<Rightarrow> u32 \<Rightarrow> (nat \<Rightarrow> u32) list \<Rightarrow> wait_end \<Rightarrow> u64 option
      \<Rightarrow> 'g \<Rightarrow> pollfd list \<Rightarrow> 'g \<times> pollfd list \<times> int outcome" where
  "do_poll set_blocked lookup all_bits always polls ending sigmask g ps =
     (let (ps1, fds, res, r) = poll_collect lookup all_bits always 0 ps in
      case r of
        Inl e \<Rightarrow> (g, ps1, Inl e)
      | Inr _ \<Rightarrow>
          if res > 0 then (g, ps1, Ok (int res))
          else with_replacen_blocked set_blocked sigmask (wait_attempts (poll_attempt fds) polls ending) g ps1)"

text \<open>The timeout arguments, in milliseconds or as a time read from user memory; \<open>None\<close> waits forever.\<close>

definition poll_timeout :: "i32 \<Rightarrow> time_value option" where
  "poll_timeout ms = (if ms < 0 then None else Some (nat ms * 1000000))"

definition opt_time :: "('t \<Rightarrow> time_value outcome) \<Rightarrow> 't option outcome \<Rightarrow> time_value option outcome" where
  "opt_time conv t =
     (case t of
        Inl e \<Rightarrow> Inl e
      | Inr None \<Rightarrow> Ok None
      | Inr (Some x) \<Rightarrow> (case conv x of Inl e \<Rightarrow> Inl e | Inr d \<Rightarrow> Ok (Some d)))"

subsection \<open>\<open>select\<close>\<close>

text \<open>A descriptor set is the membership function of its bits; \<open>None\<close> stands for a null pointer.\<close>

type_synonym fd_set = "nat \<Rightarrow> bool"

definition FD_SETSIZE :: nat where "FD_SETSIZE = 1024"

definition fd_set_new :: "nat \<Rightarrow> fd_set option \<Rightarrow> fd_set" where
  "fd_set_new nfds fds = (case fds of None \<Rightarrow> (\<lambda>_. False) | Some s \<Rightarrow> (\<lambda>i. i < nfds \<and> s i))"

definition fd_zero :: "fd_set option \<Rightarrow> fd_set option" where
  "fd_zero = map_option (\<lambda>_ _. False)"

definition select_events :: "fd_set \<Rightarrow> fd_set \<Rightarrow> fd_set \<Rightarrow> nat \<Rightarrow> u32" where
  "select_events rs ws es fd =
     (if rs fd then EV_IN else 0) OR (if ws fd then EV_OUT else 0) OR (if es fd then EV_ERR else 0)"

text \<open>The files of the descriptors of the union of the three sets, in ascending order.\<close>

fun select_collect ::
    "(nat \<Rightarrow> nat option) \<Rightarrow> (nat \<Rightarrow> u32) \<Rightarrow> nat list \<Rightarrow> (nat \<times> nat \<times> u32) list outcome" where
  "select_collect get events [] = Ok []"
| "select_collect get events (fd # fds) =
     (case get fd of
        None \<Rightarrow> Fail BadFileDescriptor
      | Some f \<Rightarrow>
          (case select_collect get events fds of
             Inl e \<Rightarrow> Inl e
           | Inr rest \<Rightarrow> Ok (if events fd \<noteq> 0 then (fd, f, events fd) # rest else rest)))"

text \<open>Setting the bit of one descriptor in one set, with the count.\<close>

definition mark_ready :: "u32 \<Rightarrow> u32 \<Rightarrow> nat \<Rightarrow> fd_set option \<times> nat \<Rightarrow> fd_set option \<times> nat" where
  "mark_ready events flag fd p =
     (case p of
        (Some s, res) \<Rightarrow> if has_flags events flag then (Some (s(fd := True)), res + 1) else (Some s, res)
      | (None, res) \<Rightarrow> (None, res))"

fun select_attempt ::
    "(nat \<times> nat \<times> u32) list \<Rightarrow> (nat \<Rightarrow> u32) \<Rightarrow> fd_set option \<times> fd_set option \<times> fd_set option
      \<Rightarrow> (fd_set option \<times> fd_set option \<times> fd_set option) \<times> nat" where
  "select_attempt [] poll sets = (sets, 0)"
| "select_attempt ((fd, f, interested) # fds) poll (rs, ws, es) =
     (let events = poll f AND interested;
          (rs1, n1) = mark_ready events EV_IN fd (rs, 0);
          (ws1, n2) = mark_ready events EV_OUT fd (ws, n1);
          (es1, n3) = mark_ready events EV_ERR fd (es, n2);
          (sets, res) = select_attempt fds poll (rs1, ws1, es1)
      in (sets, n3 + res))"

text \<open>\<open>get\<close> is the lookup in the descriptor table; \<open>sigmask\<close> is the mask once it has been read.\<close>

definition do_select ::
    "(u64 \<Rightarrow> 'g \<Rightarrow> 'g \<times> u64) \<Rightarrow> (nat \<Rightarrow> nat option) \<Rightarrow> (nat \<Rightarrow> u32) list \<Rightarrow> wait_end \<Rightarrow> nat \<Rightarrow> u64 option outcome \<Rightarrow> 'g
      \<Rightarrow> fd_set option \<times> fd_set option \<times> fd_set option
      \<Rightarrow> 'g \<times> (fd_set option \<times> fd_set option \<times> fd_set option) \<times> int outcome" where
  "do_select set_blocked get polls ending nfds sigmask g sets =
     (if nfds > FD_SETSIZE then (g, sets, Fail InvalidInput)
      else case sigmask of
        Inl e \<Rightarrow> (g, sets, Inl e)
      | Inr msk \<Rightarrow>
          (let (rs, ws, es) = sets;
               read_set = fd_set_new nfds rs; write_set = fd_set_new nfds ws; except_set = fd_set_new nfds es;
               fds = filter (\<lambda>i. read_set i \<or> write_set i \<or> except_set i) [0..<FD_SETSIZE]
           in case select_collect get (select_events read_set write_set except_set) fds of
                Inl e \<Rightarrow> (g, sets, Inl e)
              | Inr pfds \<Rightarrow>
                  with_replacen_blocked set_blocked msk (wait_attempts (select_attempt pfds) polls ending) g
                    (fd_zero rs, fd_zero ws, fd_zero es)))"

text \<open>The mask argument of \<open>pselect6\<close>: a pointer to the mask and its size.\<close>

definition pselect_mask :: "(usize \<times> u64 option outcome) option outcome \<Rightarrow> u64 option outcome" where
  "pselect_mask arg =
     (case arg of
        Inl e \<Rightarrow> Inl e
      | Inr None \<Rightarrow> Ok None
      | Inr (Some (sz, m)) \<Rightarrow> (case check_sigset_size sz of Inl e \<Rightarrow> Inl e | Inr _ \<Rightarrow> m))"

subsection \<open>The system calls\<close>

text \<open>
  What a call reads from user memory is an outcome: \<open>fds\<close> is the slice of a given length, the time and the mask
  are \<open>None\<close> for a null pointer. \<open>wait\<close> says how a wait with a given timeout goes. \<open>None\<close> in place of the
  descriptors means that nothing of the caller was touched.
\<close>

definition sys_poll ::
    "(u64 \<Rightarrow> 'g \<Rightarrow> 'g \<times> u64) \<Rightarrow> (i32 \<Rightarrow> nat outcome) \<Rightarrow> u32 \<Rightarrow> u32
      \<Rightarrow> (time_value option \<Rightarrow> (nat \<Rightarrow> u32) list \<times> wait_end) \<Rightarrow> (nat \<Rightarrow> pollfd list outcome) \<Rightarrow> u32 \<Rightarrow> i32
      \<Rightarrow> 'g \<Rightarrow> 'g \<times> pollfd list option \<times> int outcome" where
  "sys_poll set_blocked lookup all_bits always wait fds nfds timeout g =
     (case fds (unat nfds) of
        Inl e \<Rightarrow> (g, None, Inl e)
      | Inr ps \<Rightarrow>
          (let (polls, ending) = wait (poll_timeout timeout);
               (g', ps', r) = do_poll set_blocked lookup all_bits always polls ending None g ps
           in (g', Some ps', r)))"

definition sys_ppoll ::
    "(u64 \<Rightarrow> 'g \<Rightarrow> 'g \<times> u64) \<Rightarrow> (i32 \<Rightarrow> nat outcome) \<Rightarrow> u32 \<Rightarrow> u32
      \<Rightarrow> (time_value option \<Rightarrow> (nat \<Rightarrow> u32) list \<times> wait_end) \<Rightarrow> (nat \<Rightarrow> pollfd list outcome) \<Rightarrow> i32
      \<Rightarrow> timespec option outcome \<Rightarrow> u64 option outcome \<Rightarrow> usize \<Rightarrow> 'g \<Rightarrow> 'g \<times> pollfd list option \<times> int outcome" where
  "sys_ppoll set_blocked lookup all_bits always wait fds nfds ts sigmask sigsetsize g =
     (case check_sigset_size sigsetsize of
        Inl e \<Rightarrow> (g, None, Inl e)
      | Inr _ \<Rightarrow>
          if nfds < 0 then (g, None, Fail InvalidInput)
          else
            (case fds (nat nfds) of
               Inl e \<Rightarrow> (g, None, Inl e)
             | Inr ps \<Rightarrow>
                 (case opt_time timespec_try_into_time_value ts of
                    Inl e \<Rightarrow> (g, None, Inl e)
                  | Inr timeout \<Rightarrow>
                      (case sigmask of
                         Inl e \<Rightarrow> (g, None, Inl e)
                       | Inr msk \<Rightarrow>
                           (let (polls, ending) = wait timeout;
                                (g', ps', r) = do_poll set_blocked lookup all_bits always polls ending msk g ps
                            in (g', Some ps', r))))))"

text \<open>The three sets are read in order, after the mask.\<close>

definition select_sets ::
    "fd_set option outcome \<Rightarrow> fd_set option outcome \<Rightarrow> fd_set option outcome
      \<Rightarrow> (fd_set option \<times> fd_set option \<times> fd_set option) outcome" where
  "select_sets rs ws es =
     (case rs of Inl e \<Rightarrow> Inl e | Inr r \<Rightarrow>
     (case ws of Inl e \<Rightarrow> Inl e | Inr w \<Rightarrow>
     (case es of Inl e \<Rightarrow> Inl e | Inr x \<Rightarrow> Ok (r, w, x))))"

definition sys_pselect6 ::
    "(u64 \<Rightarrow> 'g \<Rightarrow> 'g \<times> u64) \<Rightarrow> (nat \<Rightarrow> nat option)
      \<Rightarrow> (time_value option \<Rightarrow> (nat \<Rightarrow> u32) list \<times> wait_end) \<Rightarrow> u32
      \<Rightarrow> (fd_set option \<times> fd_set option \<times> fd_set option) outcome \<Rightarrow> time_value option outcome
      \<Rightarrow> (usize \<times> u64 option outcome) option outcome
      \<Rightarrow> 'g \<Rightarrow> 'g \<times> (fd_set option \<times> fd_set option \<times> fd_set option) option \<times> int outcome" where
  "sys_pselect6 set_blocked get wait nfds sets timeout sigmask g =
     (case timeout of
        Inl e \<Rightarrow> (g, None, Inl e)
      | Inr t \<Rightarrow>
          if unat nfds > FD_SETSIZE then (g, None, Fail InvalidInput)
          else
            (case pselect_mask sigmask of
               Inl e \<Rightarrow> (g, None, Inl e)
             | Inr msk \<Rightarrow>
                 (case sets of
                    Inl e \<Rightarrow> (g, None, Inl e)
                  | Inr ss \<Rightarrow>
                      (let (polls, ending) = wait t;
                           (g', ss', r) = do_select set_blocked get polls ending (unat nfds) (Ok msk) g ss
                       in (g', Some ss', r)))))"

definition sys_select ::
    "(u64 \<Rightarrow> 'g \<Rightarrow> 'g \<times> u64) \<Rightarrow> (nat \<Rightarrow> nat option)
      \<Rightarrow> (time_value option \<Rightarrow> (nat \<Rightarrow> u32) list \<times> wait_end) \<Rightarrow> u32
      \<Rightarrow> (fd_set option \<times> fd_set option \<times> fd_set option) outcome \<Rightarrow> timeval option outcome
      \<Rightarrow> 'g \<Rightarrow> 'g \<times> (fd_set option \<times> fd_set option \<times> fd_set option) option \<times> int outcome" where
  "sys_select set_blocked get wait nfds sets tv g =
     sys_pselect6 set_blocked get wait nfds sets (opt_time timeval_try_into_time_value tv) (Ok None) g"

end
