(* ===== verification/Select_Props.thy ===== *)
theory Select_Props
  imports Select
begin

section \<open>Properties of \<open>poll\<close> and \<open>select\<close>\<close>

text \<open>
  The descriptors that \<open>select\<close> and \<open>poll\<close> report are exactly the requested ones that are ready at the attempt
  that ends the wait, and the value returned counts them.
\<close>

subsection \<open>Flags\<close>

lemma has_flags_and: "has_flags (a AND b) m \<longleftrightarrow> has_flags a m \<and> has_flags b m"
  unfolding has_flags_def by (auto simp: bit_eq_iff bit_and_iff)

lemma select_events_flags:
  "has_flags (select_events rs ws es fd) EV_IN \<longleftrightarrow> rs fd"
  "has_flags (select_events rs ws es fd) EV_OUT \<longleftrightarrow> ws fd"
  "has_flags (select_events rs ws es fd) EV_ERR \<longleftrightarrow> es fd"
  by (cases "rs fd"; cases "ws fd"; cases "es fd"; simp add: select_events_def has_flags_def EV_IN_def EV_OUT_def EV_ERR_def)+

lemma select_events_zero: "select_events rs ws es fd = 0 \<longleftrightarrow> \<not> (rs fd \<or> ws fd \<or> es fd)"
  by (cases "rs fd"; cases "ws fd"; cases "es fd"; simp add: select_events_def EV_IN_def EV_OUT_def EV_ERR_def)

subsection \<open>\<open>select\<close>\<close>

lemma select_collect_map:
  assumes "select_collect get events fds = Ok pfds" "\<And>fd. fd \<in> set fds \<Longrightarrow> events fd \<noteq> 0"
  shows "pfds = map (\<lambda>fd. (fd, the (get fd), events fd)) fds" "\<forall>fd\<in>set fds. get fd \<noteq> None"
  using assms
  by (induction fds arbitrary: pfds) (auto split: option.splits sum.splits)

text \<open>What one attempt does to one set.\<close>

definition mark_all :: "(nat \<times> nat \<times> u32) list \<Rightarrow> (nat \<Rightarrow> u32) \<Rightarrow> u32 \<Rightarrow> fd_set option \<Rightarrow> fd_set option" where
  "mark_all pfds poll flag =
     map_option (\<lambda>s i. s i \<or> (\<exists>f ev. (i, f, ev) \<in> set pfds \<and> has_flags (poll f AND ev) flag))"

definition mark_count :: "(nat \<times> nat \<times> u32) list \<Rightarrow> (nat \<Rightarrow> u32) \<Rightarrow> u32 \<Rightarrow> fd_set option \<Rightarrow> nat" where
  "mark_count pfds poll flag s =
     (if s = None then 0 else length (filter (\<lambda>(i, f, ev). has_flags (poll f AND ev) flag) pfds))"

lemma mark_ready_step:
  "mark_ready (poll f AND ev) flag fd (s, n) =
     (mark_all [(fd, f, ev)] poll flag s, n + mark_count [(fd, f, ev)] poll flag s)"
  by (auto simp: mark_ready_def mark_all_def mark_count_def fun_eq_iff split: option.splits)

lemma mark_all_Cons: "mark_all (x # pfds) poll flag s = mark_all pfds poll flag (mark_all [x] poll flag s)"
  by (cases s) (auto simp: mark_all_def fun_eq_iff)

lemma mark_count_Cons:
  "mark_count (x # pfds) poll flag s = mark_count [x] poll flag s + mark_count pfds poll flag (mark_all [x] poll flag s)"
  by (cases s) (auto simp: mark_all_def mark_count_def)

lemma select_attempt_marks:
  "select_attempt pfds poll (rs, ws, es) =
     ((mark_all pfds poll EV_IN rs, mark_all pfds poll EV_OUT ws, mark_all pfds poll EV_ERR es),
      mark_count pfds poll EV_IN rs + mark_count pfds poll EV_OUT ws + mark_count pfds poll EV_ERR es)"
proof (induction pfds arbitrary: rs ws es)
  case Nil
  show ?case by (auto simp: mark_all_def mark_count_def map_option_case split: option.splits)
next
  case (Cons x pfds)
  obtain fd f ev where x: "x = (fd, f, ev)" by (cases x)
  note fold = mark_all_Cons [of x pfds poll] mark_count_Cons [of x pfds poll]
  show ?case
    unfolding fold by (simp add: x mark_ready_step Cons.IH)
qed

text \<open>The specification: the requested descriptors below \<open>nfds\<close> whose file is ready.\<close>

definition ready_fds :: "(nat \<Rightarrow> nat option) \<Rightarrow> nat \<Rightarrow> (nat \<Rightarrow> u32) \<Rightarrow> u32 \<Rightarrow> fd_set option \<Rightarrow> fd_set option" where
  "ready_fds get nfds poll flag =
     map_option (\<lambda>s i. i < nfds \<and> s i \<and> (case get i of None \<Rightarrow> False | Some f \<Rightarrow> has_flags (poll f) flag))"

definition fd_count :: "fd_set option \<Rightarrow> nat" where
  "fd_count s = (case s of None \<Rightarrow> 0 | Some s \<Rightarrow> length (filter s [0..<FD_SETSIZE]))"

text \<open>The descriptors polled and the events asked for one of the three sets.\<close>

definition select_req ::
    "(nat \<Rightarrow> nat option) \<Rightarrow> nat \<Rightarrow> nat list \<Rightarrow> (nat \<Rightarrow> u32) \<Rightarrow> fd_set option \<Rightarrow> u32 \<Rightarrow> bool" where
  "select_req get nfds fds events req flag \<longleftrightarrow>
     (\<forall>fd\<in>set fds. get fd \<noteq> None) \<and> (\<forall>fd. has_flags (events fd) flag \<longleftrightarrow> fd_set_new nfds req fd)
     \<and> (\<forall>fd. fd_set_new nfds req fd \<longrightarrow> fd \<in> set fds) \<and> (\<exists>P. fds = filter P [0..<FD_SETSIZE])"

lemma select_req_ready:
  assumes "select_req get nfds fds events (Some s) flag"
  shows "(i \<in> set fds \<and> has_flags (poll (the (get i)) AND events i) flag) \<longleftrightarrow>
      (i < nfds \<and> s i \<and> (case get i of None \<Rightarrow> False | Some f \<Rightarrow> has_flags (poll f) flag))"
proof -
  have "i \<in> set fds \<Longrightarrow> get i \<noteq> None" and "has_flags (events i) flag \<longleftrightarrow> i < nfds \<and> s i" and "i < nfds \<and> s i \<Longrightarrow> i \<in> set fds"
    using assms by (simp_all add: select_req_def fd_set_new_def)
  then show ?thesis unfolding has_flags_and by (cases "get i") auto
qed

lemma marks_ready:
  assumes "select_req get nfds fds events req flag"
  shows "mark_all (map (\<lambda>fd. (fd, the (get fd), events fd)) fds) poll flag (fd_zero req) = ready_fds get nfds poll flag req"
proof (cases req)
  case (Some s)
  show ?thesis
    using select_req_ready [OF assms [unfolded Some]]
    by (auto simp: Some mark_all_def fd_zero_def ready_fds_def fun_eq_iff image_iff)
qed (simp add: mark_all_def fd_zero_def ready_fds_def)

lemma counts_ready:
  assumes "select_req get nfds fds events req flag"
  shows "mark_count (map (\<lambda>fd. (fd, the (get fd), events fd)) fds) poll flag (fd_zero req) = fd_count (ready_fds get nfds poll flag req)"
proof (cases req)
  case (Some s)
  obtain P where P: "fds = filter P [0..<FD_SETSIZE]" using assms by (auto simp: select_req_def)
  have "filter (\<lambda>fd. has_flags (poll (the (get fd)) AND events fd) flag) fds =
      filter (\<lambda>i. i < nfds \<and> s i \<and> (case get i of None \<Rightarrow> False | Some f \<Rightarrow> has_flags (poll f) flag)) [0..<FD_SETSIZE]"
    unfolding P filter_filter
  proof (rule filter_cong [OF refl])
    fix i assume "i \<in> set [0..<FD_SETSIZE]"
    then show "(P i \<and> has_flags (poll (the (get i)) AND events i) flag) =
        (i < nfds \<and> s i \<and> (case get i of None \<Rightarrow> False | Some f \<Rightarrow> has_flags (poll f) flag))"
      using select_req_ready [OF assms [unfolded Some], of i poll] by (simp add: P)
  qed
  then show ?thesis by (simp add: Some mark_count_def fd_zero_def fd_count_def ready_fds_def filter_map comp_def)
qed (simp add: mark_count_def fd_zero_def fd_count_def ready_fds_def)

lemma mark_all_none: "mark_count pfds poll flag s = 0 \<Longrightarrow> mark_all pfds poll flag s = s"
  by (cases s) (auto simp: mark_count_def mark_all_def filter_empty_conv fun_eq_iff)

lemma select_attempt_nothing:
  assumes "snd (select_attempt pfds poll sets) = 0"
  shows "fst (select_attempt pfds poll sets) = sets"
  using assms by (cases sets) (simp add: select_attempt_marks mark_all_none)

text \<open>A wait whose unsuccessful attempts change nothing ends with a timeout or with the attempt that succeeded.\<close>

lemma wait_attempts_ok:
  assumes "\<And>p. snd (attempt p s) = 0 \<Longrightarrow> fst (attempt p s) = s" "wait_attempts attempt polls ending s = (s', Ok n)"
  shows "(n = 0 \<and> ending = Wait_timeout \<and> s' = s) \<or> (\<exists>p\<in>set polls. attempt p s = (s', nat n) \<and> 0 < n)"
  using assms(2)
proof (induction polls)
  case Nil
  then show ?case by (auto split: wait_end.splits)
next
  case (Cons p polls)
  show ?case
  proof (cases "snd (attempt p s) = 0")
    case True
    then have "wait_attempts attempt polls ending s = (s', Ok n)"
      using Cons.prems assms(1) [OF True] by (simp add: split_beta)
    from Cons.IH [OF this] show ?thesis by auto
  next
    case False
    then show ?thesis using Cons.prems by (auto simp: split_beta intro: prod_eqI)
  qed
qed

lemma with_replacen_blocked_result:
  "with_replacen_blocked set_blocked blocked f g s = (g', s', r) \<Longrightarrow> f s = (s', r)"
  by (auto simp: with_replacen_blocked_def Let_def split: option.splits prod.splits sum.splits)

text \<open>
  When the action fails, the mask that was put in place stays: the call leaves the thread with the temporary mask.
\<close>

lemma with_replacen_blocked_error_keeps_mask:
  assumes "f s = (s', Inl e)"
  shows "with_replacen_blocked set_blocked (Some m) f g s = (fst (set_blocked m g), s', Inl e)"
  using assms by (simp add: with_replacen_blocked_def Let_def split_beta)

lemma select_reqs:
  assumes "nfds \<le> FD_SETSIZE" "fds = filter (\<lambda>i. fd_set_new nfds rs i \<or> fd_set_new nfds ws i \<or> fd_set_new nfds es i) [0..<FD_SETSIZE]"
    and "events = select_events (fd_set_new nfds rs) (fd_set_new nfds ws) (fd_set_new nfds es)" "\<forall>fd\<in>set fds. get fd \<noteq> None"
  shows "select_req get nfds fds events rs EV_IN" "select_req get nfds fds events ws EV_OUT"
    "select_req get nfds fds events es EV_ERR"
proof -
  have low: "fd_set_new nfds s i \<Longrightarrow> i < FD_SETSIZE" for s i
    using assms(1) by (auto simp: fd_set_new_def split: option.splits)
  have ex: "\<exists>P. fds = filter P [0..<FD_SETSIZE]" using assms(2) by blast
  show "select_req get nfds fds events rs EV_IN" "select_req get nfds fds events ws EV_OUT"
    "select_req get nfds fds events es EV_ERR"
    using low ex assms(4) unfolding select_req_def by (auto simp: assms(2,3) select_events_flags)
qed

text \<open>C14: A \<open>select\<close> call that succeeds returns either 0 after a timeout, with the three sets cleared, or reports one
  attempt: each set then holds exactly the requested descriptors below \<open>nfds\<close> whose file was ready at that attempt,
  and the value returned is the number of bits set in the three sets.\<close>

theorem select_reports_ready:
  assumes "do_select set_blocked get polls ending nfds sigmask g (rs, ws, es) = (g', sets', Ok n)"
  shows "(n = 0 \<and> ending = Wait_timeout \<and> sets' = (fd_zero rs, fd_zero ws, fd_zero es))
    \<or> (\<exists>poll\<in>set polls. 0 < n
         \<and> sets' = (ready_fds get nfds poll EV_IN rs, ready_fds get nfds poll EV_OUT ws, ready_fds get nfds poll EV_ERR es)
         \<and> n = int (fd_count (ready_fds get nfds poll EV_IN rs) + fd_count (ready_fds get nfds poll EV_OUT ws)
               + fd_count (ready_fds get nfds poll EV_ERR es)))"
proof -
  define fds where "fds = filter (\<lambda>i. fd_set_new nfds rs i \<or> fd_set_new nfds ws i \<or> fd_set_new nfds es i) [0..<FD_SETSIZE]"
  define events where "events = select_events (fd_set_new nfds rs) (fd_set_new nfds ws) (fd_set_new nfds es)"
  from assms obtain msk pfds where b: "nfds \<le> FD_SETSIZE" and c: "select_collect get events fds = Ok pfds"
    and w: "with_replacen_blocked set_blocked msk (wait_attempts (select_attempt pfds) polls ending) g
        (fd_zero rs, fd_zero ws, fd_zero es) = (g', sets', Ok n)"
    by (auto simp: do_select_def Let_def fds_def events_def split: if_splits sum.splits)
  have "\<And>fd. fd \<in> set fds \<Longrightarrow> events fd \<noteq> 0" by (auto simp: fds_def events_def select_events_zero)
  note pfds = select_collect_map [OF c this]
  note req = select_reqs [OF b fds_def events_def pfds(2)]
  have at: "select_attempt pfds poll (fd_zero rs, fd_zero ws, fd_zero es) =
      ((ready_fds get nfds poll EV_IN rs, ready_fds get nfds poll EV_OUT ws, ready_fds get nfds poll EV_ERR es),
       fd_count (ready_fds get nfds poll EV_IN rs) + fd_count (ready_fds get nfds poll EV_OUT ws)
         + fd_count (ready_fds get nfds poll EV_ERR es))" for poll
    using req [THEN marks_ready [of _ _ _ _ _ _ poll]] req [THEN counts_ready [of _ _ _ _ _ _ poll]]
    by (simp only: select_attempt_marks pfds(1) [symmetric])
  from wait_attempts_ok [OF select_attempt_nothing with_replacen_blocked_result [OF w]]
  show ?thesis by (auto simp: at)
qed

text \<open>Descriptor 3 is file 0 and always readable, descriptor 5 is file 1 and becomes writable at the second attempt.\<close>

definition select_demo :: "unit \<times> (fd_set option \<times> fd_set option \<times> fd_set option) \<times> int outcome" where
  "select_demo = do_select (\<lambda>m g. (g, 0)) (\<lambda>fd. if fd = 5 then Some 1 else None)
     [\<lambda>_. 0, \<lambda>f. if f = 1 then 4 else 0] Wait_timeout 8 (Ok None) () (None, Some (\<lambda>i. i = 5), None)"


lemma select_demo_value: "select_demo = ((), (None, Some (\<lambda>i. i = 5), None), Ok 1)"
proof -
  have fds: "filter (\<lambda>i. i < 8 \<and> i = 5) [0..<FD_SETSIZE] = [5]"
  proof -
    have "[0..<FD_SETSIZE] = [0..<5] @ 5 # [6..<FD_SETSIZE]"
      using upt_add_eq_append [of 0 5 1019] upt_conv_Cons [of 5 1024] by (simp add: FD_SETSIZE_def)
    then show ?thesis by (simp add: filter_empty_conv)
  qed
  have "\<not> FD_SETSIZE < 8" by (simp add: FD_SETSIZE_def)
  then show ?thesis
    by (simp add: select_demo_def do_select_def fd_set_new_def fds select_events_def EV_OUT_def EV_IN_def EV_ERR_def
        with_replacen_blocked_def mark_ready_def fd_zero_def has_flags_def Let_def fun_eq_iff)
qed

theorem select_reports_ready_witness:
  "snd (snd select_demo) = Ok 1
    \<and> (\<exists>poll. ready_fds (\<lambda>fd. if fd = 5 then Some 1 else None) 8 poll EV_OUT (Some (\<lambda>i. i = 5)) = Some (\<lambda>i. i = 5))"
proof -
  from select_reports_ready [OF select_demo_value [unfolded select_demo_def]] obtain poll where
    "Some (\<lambda>i. i = 5) = ready_fds (\<lambda>fd. if fd = 5 then Some 1 else None) 8 poll EV_OUT (Some (\<lambda>i. i = 5))"
    by auto
  then have r: "ready_fds (\<lambda>fd. if fd = 5 then Some 1 else None) 8 poll EV_OUT (Some (\<lambda>i. i = 5)) = Some (\<lambda>i. i = 5)"
    by (rule sym)
  have "snd (snd select_demo) = Ok 1" by (simp add: select_demo_value)
  with r show ?thesis by blast
qed


subsection \<open>\<open>poll\<close>\<close>

text \<open>What \<open>poll\<close> leaves of an entry: the readiness of an open descriptor within the events asked for.\<close>

definition poll_entry :: "(i32 \<Rightarrow> nat outcome) \<Rightarrow> u32 \<Rightarrow> (nat \<Rightarrow> u32) \<Rightarrow> pollfd \<Rightarrow> pollfd" where
  "poll_entry lookup always poll p =
     (if pf_fd p = -1 then p
      else case lookup (pf_fd p) of
        Inl _ \<Rightarrow> p
      | Inr f \<Rightarrow> p\<lparr>pf_revents := poll_result (poll f) (scast (pf_events p) OR always)\<rparr>)"

definition polled :: "(i32 \<Rightarrow> nat outcome) \<Rightarrow> pollfd \<Rightarrow> bool" where
  "polled lookup p \<longleftrightarrow> pf_fd p \<noteq> -1 \<and> (\<exists>f. lookup (pf_fd p) = Ok f)"

lemma poll_entry_twice [simp]: "poll_entry lookup always poll (poll_entry lookup always poll' p) = poll_entry lookup always poll p"
  by (auto simp: poll_entry_def split: sum.splits)

lemma polled_entry [simp]: "polled lookup (poll_entry lookup always poll p) = polled lookup p"
  by (auto simp: polled_def poll_entry_def split: sum.splits)

lemma poll_collect_same:
  "poll_collect lookup all_bits always i ps = (ps', fds, 0, Ok ()) \<Longrightarrow> ps' = ps"
  by (induction ps arbitrary: i ps' fds) (auto split: if_splits sum.splits prod.splits)

text \<open>
  One attempt, on entries that have the descriptors and events of the collected ones; \<open>pre\<close> are the entries before.
\<close>

lemma poll_attempt_entries:
  assumes "poll_collect lookup all_bits always (length pre) ps = (ps', fds, 0, Ok ())"
    and "map (\<lambda>p. (pf_fd p, pf_events p)) qs = map (\<lambda>p. (pf_fd p, pf_events p)) ps"
  shows "poll_attempt fds poll (pre @ qs) =
      (pre @ map (poll_entry lookup always poll) qs,
       length (filter (\<lambda>p. polled lookup p \<and> pf_revents p \<noteq> 0) (map (poll_entry lookup always poll) qs)))"
  using assms
proof (induction ps arbitrary: pre qs ps' fds)
  case (Cons p ps)
  then obtain q qs' where qs: "qs = q # qs'" and same: "pf_fd q = pf_fd p" "pf_events q = pf_events p"
    and tl: "map (\<lambda>p. (pf_fd p, pf_events p)) qs' = map (\<lambda>p. (pf_fd p, pf_events p)) ps" by (cases qs) auto
  note IH = Cons.IH [where pre = "pre @ [x]" for x, OF _ tl]
  show ?case
  proof (cases "pf_fd p = -1")
    case True
    then obtain ps1 where "poll_collect lookup all_bits always (length (pre @ [q])) ps = (ps1, fds, 0, Ok ())"
      using Cons.prems(1) by (auto split: prod.splits)
    from IH [OF this] show ?thesis using True same by (simp add: qs poll_entry_def polled_def)
  next
    case False
    then obtain f where f: "lookup (pf_fd p) = Ok f"
      using Cons.prems(1) by (auto split: sum.splits prod.splits)
    then obtain ps1 fds1 where c: "poll_collect lookup all_bits always (length (pre @ [q])) ps = (ps1, fds1, 0, Ok ())"
      and fds: "fds = (length pre, f, scast (pf_events p) OR always) # fds1"
      using Cons.prems(1) False by (auto split: if_splits prod.splits)
    have e: "poll_entry lookup always poll q = q\<lparr>pf_revents := poll_result (poll f) (scast (pf_events p) OR always)\<rparr>"
      using False f same by (simp add: poll_entry_def)
    have "polled lookup (poll_entry lookup always poll q)" using False f same by (simp add: polled_def e)
    then show ?thesis
      using Cons.IH [where pre = "pre @ [poll_entry lookup always poll q]", OF _ tl] c
      by (simp add: qs fds e Let_def)
  qed
qed simp

lemma poll_wait_entries:
  assumes c: "poll_collect lookup all_bits always 0 ps = (ps', fds, 0, Ok ())"
    and "map (\<lambda>p. (pf_fd p, pf_events p)) qs = map (\<lambda>p. (pf_fd p, pf_events p)) ps"
    and "wait_attempts (poll_attempt fds) polls ending qs = (qs', Ok n)"
  shows "(n = 0 \<and> ending = Wait_timeout) \<or> (\<exists>poll\<in>set polls. 0 < n \<and> qs' = map (poll_entry lookup always poll) qs
      \<and> n = int (length (filter (\<lambda>p. polled lookup p \<and> pf_revents p \<noteq> 0) qs')))"
  using assms(2,3)
proof (induction polls arbitrary: qs)
  case Nil
  then show ?case by (auto split: wait_end.splits)
next
  case (Cons poll polls)
  let ?m = "map (poll_entry lookup always poll) qs"
  have at: "poll_attempt fds poll qs = (?m, length (filter (\<lambda>p. polled lookup p \<and> pf_revents p \<noteq> 0) ?m))"
    using poll_attempt_entries [of lookup all_bits always "[]" ps ps' fds qs poll] c Cons.prems(1) by simp
  show ?case
  proof (cases "length (filter (\<lambda>p. polled lookup p \<and> pf_revents p \<noteq> 0) ?m) = 0")
    case True
    have k: "map (\<lambda>p. (pf_fd p, pf_events p)) ?m = map (\<lambda>p. (pf_fd p, pf_events p)) qs"
      by (auto simp: poll_entry_def split: sum.splits)
    have "wait_attempts (poll_attempt fds) polls ending ?m = (qs', Ok n)" using Cons.prems(2) True by (simp add: at)
    from Cons.IH [OF k [THEN trans, OF Cons.prems(1)] this] show ?thesis by (auto simp: comp_def)
  next
    case False
    then show ?thesis using Cons.prems(2) by (auto simp: at)
  qed
qed

text \<open>
  A \<open>poll\<close> call all of whose descriptors are open and that reports something gives every entry the readiness of its
  file at one attempt, and the value returned counts the entries with a result.
\<close>

lemma poll_reports_ready:
  assumes "poll_collect lookup all_bits always 0 ps = (ps1, fds, 0, Ok ())"
    and "do_poll set_blocked lookup all_bits always polls ending sigmask g ps = (g', ps', Ok n)" "n \<noteq> 0"
  shows "\<exists>poll\<in>set polls. ps' = map (poll_entry lookup always poll) ps
    \<and> n = int (length (filter (\<lambda>p. polled lookup p \<and> pf_revents p \<noteq> 0) ps'))"
proof -
  have "ps1 = ps" by (rule poll_collect_same [OF assms(1)])
  then have "with_replacen_blocked set_blocked sigmask (wait_attempts (poll_attempt fds) polls ending) g ps = (g', ps', Ok n)"
    using assms(1,2) by (simp add: do_poll_def)
  then have "wait_attempts (poll_attempt fds) polls ending ps = (ps', Ok n)" by (rule with_replacen_blocked_result)
  from poll_wait_entries [OF assms(1) refl this] assms(3) show ?thesis by auto
qed

text \<open>
  With a descriptor that is not open the call returns at once: the other entries keep what the caller had in
  \<open>revents\<close>, also when their files are ready.
\<close>

lemma poll_bad_fd_stale:
  assumes "lookup a = Ok f" "lookup b = Fail e" "a \<noteq> -1" "b \<noteq> -1" "\<not> any_flag (scast ev :: u32) (NOT all_bits)"
  shows "do_poll set_blocked lookup all_bits always polls ending sigmask g
      [\<lparr>pf_fd = a, pf_events = ev, pf_revents = x\<rparr>, \<lparr>pf_fd = b, pf_events = ev', pf_revents = y\<rparr>] =
    (g, [\<lparr>pf_fd = a, pf_events = ev, pf_revents = x\<rparr>, \<lparr>pf_fd = b, pf_events = ev', pf_revents = POLLNVAL\<rparr>], Ok 1)"
  using assms by (simp add: do_poll_def)

end
