(* ===== verification/Task.thy ===== *)
theory Task
  imports Futex
begin

section \<open>Tasks, processes and signal delivery\<close>

text \<open>
  \<open>core/src/task.rs\<close>. Tasks and processes are their numbers, which are not reused; process groups and sessions
  are objects of their own, since a number can stand for another group later.

  Four crates are used and not part of the repository: \<open>weak_map\<close> (the tables), \<open>starry_process\<close> (processes,
  groups, sessions), \<open>starry_signal\<close> (the signal managers) and \<open>axpoll\<close> (\<open>PollSet\<close>). Their operations are the
  fields of \<open>kernel_ops\<close>, over the states \<open>'w\<close>, \<open>'p\<close>, \<open>'g\<close> and \<open>'e\<close>.
\<close>

subsection \<open>The crates\<close>

text \<open>A \<open>SignalInfo\<close>: the number, the code, and the rest of the fields as one value.\<close>

record siginfo =
  si_signo :: nat
  si_code :: i32
  si_rest :: nat

record ('w, 'p, 'g, 'e) kernel_ops =
  wk_get :: "(nat \<Rightarrow> bool) \<Rightarrow> 'w \<Rightarrow> nat \<Rightarrow> nat option"
  wk_insert :: "nat \<Rightarrow> nat \<Rightarrow> 'w \<Rightarrow> 'w"
  wk_values :: "(nat \<Rightarrow> bool) \<Rightarrow> 'w \<Rightarrow> nat list"
  wk_cleanup :: "(nat \<Rightarrow> bool) \<Rightarrow> 'w \<Rightarrow> 'w"
  po_parent :: "'p \<Rightarrow> pid \<Rightarrow> pid option"
  po_children :: "'p \<Rightarrow> pid \<Rightarrow> pid list"
  po_group :: "'p \<Rightarrow> pid \<Rightarrow> nat"
  po_pgid :: "nat \<Rightarrow> pid"
  po_session :: "'p \<Rightarrow> nat \<Rightarrow> nat"
  po_sid :: "nat \<Rightarrow> pid"
  po_group_alive :: "'p \<Rightarrow> nat \<Rightarrow> bool"
  po_session_alive :: "'p \<Rightarrow> nat \<Rightarrow> bool"
  po_processes :: "'p \<Rightarrow> nat \<Rightarrow> pid list"
  po_threads :: "'p \<Rightarrow> pid \<Rightarrow> tid list"
  po_is_init :: "'p \<Rightarrow> pid \<Rightarrow> bool"
  po_is_zombie :: "'p \<Rightarrow> pid \<Rightarrow> bool"
  po_exit_code :: "'p \<Rightarrow> pid \<Rightarrow> i32"
  po_is_group_exited :: "'p \<Rightarrow> pid \<Rightarrow> bool"
  po_free :: "pid \<Rightarrow> 'p \<Rightarrow> 'p outcome"
  po_exit_thread :: "pid \<Rightarrow> tid \<Rightarrow> i32 \<Rightarrow> 'p \<Rightarrow> 'p \<times> bool"
  po_exit :: "pid \<Rightarrow> 'p \<Rightarrow> 'p"
  po_group_exit :: "pid \<Rightarrow> 'p \<Rightarrow> 'p"
  po_add_thread :: "pid \<Rightarrow> tid \<Rightarrow> 'p \<Rightarrow> 'p"
  po_fork :: "pid \<Rightarrow> pid \<Rightarrow> 'p \<Rightarrow> 'p"
  po_create_session :: "pid \<Rightarrow> 'p \<Rightarrow> 'p \<times> nat option"
  po_create_group :: "pid \<Rightarrow> 'p \<Rightarrow> 'p"
  po_move_to_group :: "pid \<Rightarrow> nat \<Rightarrow> 'p \<Rightarrow> 'p \<times> bool"
  sg_send_thread :: "tid \<Rightarrow> siginfo \<Rightarrow> 'g \<Rightarrow> 'g \<times> bool"
  sg_send_process :: "pid \<Rightarrow> siginfo \<Rightarrow> 'g \<Rightarrow> 'g \<times> tid option"
  sg_from_repr :: "nat \<Rightarrow> nat option"
  sg_new_kernel :: "nat \<Rightarrow> siginfo"
  sg_new_user :: "nat \<Rightarrow> i32 \<Rightarrow> pid \<Rightarrow> siginfo"
  ps_register :: "tid \<Rightarrow> 'e \<Rightarrow> 'e"
  ps_wake :: "'e \<Rightarrow> 'e \<times> tid list"

text \<open>
  The weak tables: a lookup gives the object stored last for the key as long as that object is alive, the values are
  the objects that lookups find, and a cleanup changes no lookup.
\<close>

definition weak_ok :: "('w, 'p, 'g, 'e) kernel_ops \<Rightarrow> bool" where
  "weak_ok ops \<longleftrightarrow>
     (\<forall>al m k. wk_get ops al m k =
        (case wk_get ops (\<lambda>_. True) m k of None \<Rightarrow> None | Some v \<Rightarrow> if al v then Some v else None))
     \<and> (\<forall>al m k v k'. wk_get ops al (wk_insert ops k v m) k' =
          (if k' = k then if al v then Some v else None else wk_get ops al m k'))
     \<and> (\<forall>al m. set (wk_values ops al m) = {v. \<exists>k. wk_get ops al m k = Some v})
     \<and> (\<forall>al m. wk_get ops al (wk_cleanup ops al m) = wk_get ops al m)"

subsection \<open>Threads and process data\<close>

record thread =
  th_pid :: pid
  th_clear_child_tid :: addr
  th_robust_list_head :: addr
  th_oom_score_adj :: i32
  th_exit :: bool
  th_accessing_user_memory :: bool

definition thread_new :: "pid \<Rightarrow> thread" where
  "thread_new p =
     \<lparr>th_pid = p, th_clear_child_tid = 0, th_robust_list_head = 0, th_oom_score_adj = 200, th_exit = False,
      th_accessing_user_memory = False\<rparr>"

text \<open>
  \<open>ProcessData\<close>. The address space, the signal actions, the descriptor table and the file system context can be
  shared between processes, so they are numbers of objects.
\<close>

record 'e proc_data =
  pd_exe_path :: string
  pd_cmdline :: "string list"
  pd_aspace :: nat
  pd_actions :: nat
  pd_fd_table :: nat
  pd_fs_context :: nat
  pd_heap_top :: addr
  pd_child_exit_event :: 'e
  pd_exit_event :: 'e
  pd_exit_signal :: "nat option"
  pd_umask :: u32

definition SIGCHLD :: nat where "SIGCHLD = 17"
definition SIGKILL :: nat where "SIGKILL = 9"
definition SIGSTOP :: nat where "SIGSTOP = 19"

text \<open>\<open>scope\<close> are the descriptor table and the context of a new scope, \<open>ev\<close> a new poll set.\<close>

definition proc_data_new ::
    "addr \<Rightarrow> nat \<times> nat \<Rightarrow> 'e \<Rightarrow> string \<Rightarrow> string list \<Rightarrow> nat \<Rightarrow> nat \<Rightarrow> nat option \<Rightarrow> 'e proc_data" where
  "proc_data_new heap_base scope ev exe_path cmdline aspace actions exit_signal =
     \<lparr>pd_exe_path = exe_path, pd_cmdline = cmdline, pd_aspace = aspace, pd_actions = actions,
      pd_fd_table = fst scope, pd_fs_context = snd scope, pd_heap_top = heap_base, pd_child_exit_event = ev,
      pd_exit_event = ev, pd_exit_signal = exit_signal, pd_umask = 0x12\<rparr>"

definition is_clone_child :: "'e proc_data \<Rightarrow> bool" where
  "is_clone_child d \<longleftrightarrow> pd_exit_signal d \<noteq> Some SIGCHLD"

definition replace_umask :: "u32 \<Rightarrow> 'e proc_data \<Rightarrow> 'e proc_data \<times> u32" where
  "replace_umask m d = (d\<lparr>pd_umask := m\<rparr>, pd_umask d)"

subsection \<open>The tables\<close>

text \<open>
  The state. \<open>k_threads\<close> are the tasks that are alive and have a thread, \<open>k_data\<close> the process data that are alive;
  \<open>k_interrupted\<close> collects the tasks that were interrupted and \<open>k_woken\<close> those that a poll set woke.
\<close>

record ('w, 'p, 'g, 'e) kernel =
  k_proc :: 'p
  k_sig :: 'g
  k_threads :: "tid \<rightharpoonup> thread"
  k_data :: "pid \<rightharpoonup> 'e proc_data"
  k_task_table :: 'w
  k_process_table :: 'w
  k_group_table :: 'w
  k_session_table :: 'w
  k_interrupted :: "tid list"
  k_woken :: "tid list"

definition task_alive :: "('w, 'p, 'g, 'e, 'z) kernel_scheme \<Rightarrow> tid \<Rightarrow> bool" where
  "task_alive k t \<longleftrightarrow> k_threads k t \<noteq> None"

definition data_alive :: "('w, 'p, 'g, 'e, 'z) kernel_scheme \<Rightarrow> pid \<Rightarrow> bool" where
  "data_alive k p \<longleftrightarrow> k_data k p \<noteq> None"

definition cleanup_task_tables ::
    "('w, 'p, 'g, 'e) kernel_ops \<Rightarrow> ('w, 'p, 'g, 'e, 'z) kernel_scheme \<Rightarrow> ('w, 'p, 'g, 'e, 'z) kernel_scheme" where
  "cleanup_task_tables ops k =
     k\<lparr>k_task_table := wk_cleanup ops (task_alive k) (k_task_table k),
       k_process_table := wk_cleanup ops (data_alive k) (k_process_table k),
       k_group_table := wk_cleanup ops (po_group_alive ops (k_proc k)) (k_group_table k),
       k_session_table := wk_cleanup ops (po_session_alive ops (k_proc k)) (k_session_table k)\<rparr>"

text \<open>\<open>add_task_to_table\<close>; \<open>p\<close> is the process of the task.\<close>

definition add_task_to_table ::
    "('w, 'p, 'g, 'e) kernel_ops \<Rightarrow> tid \<Rightarrow> pid \<Rightarrow> ('w, 'p, 'g, 'e, 'z) kernel_scheme
      \<Rightarrow> ('w, 'p, 'g, 'e, 'z) kernel_scheme" where
  "add_task_to_table ops t p k =
     (let k1 = k\<lparr>k_task_table := wk_insert ops t t (k_task_table k)\<rparr> in
      if wk_get ops (data_alive k) (k_process_table k) p \<noteq> None then k1
      else
        let k2 = k1\<lparr>k_process_table := wk_insert ops p p (k_process_table k)\<rparr>;
            pg = po_group ops (k_proc k) p
        in
        if wk_get ops (po_group_alive ops (k_proc k)) (k_group_table k) (po_pgid ops pg) \<noteq> None then k2
        else
          let k3 = k2\<lparr>k_group_table := wk_insert ops (po_pgid ops pg) pg (k_group_table k)\<rparr>;
              s = po_session ops (k_proc k) pg
          in
          if wk_get ops (po_session_alive ops (k_proc k)) (k_session_table k) (po_sid ops s) \<noteq> None then k3
          else k3\<lparr>k_session_table := wk_insert ops (po_sid ops s) s (k_session_table k)\<rparr>)"

definition tasks :: "('w, 'p, 'g, 'e) kernel_ops \<Rightarrow> ('w, 'p, 'g, 'e, 'z) kernel_scheme \<Rightarrow> tid list" where
  "tasks ops k = wk_values ops (task_alive k) (k_task_table k)"

definition processes :: "('w, 'p, 'g, 'e) kernel_ops \<Rightarrow> ('w, 'p, 'g, 'e, 'z) kernel_scheme \<Rightarrow> pid list" where
  "processes ops k = wk_values ops (data_alive k) (k_process_table k)"

text \<open>In a lookup the number 0 stands for the current task \<open>cur\<close>; \<open>as_thread\<close> panics for a kernel task.\<close>

definition get_task ::
    "('w, 'p, 'g, 'e) kernel_ops \<Rightarrow> tid \<Rightarrow> tid \<Rightarrow> ('w, 'p, 'g, 'e, 'z) kernel_scheme \<Rightarrow> tid outcome" where
  "get_task ops cur t k =
     (if t = 0 then Ok cur else ok_or (wk_get ops (task_alive k) (k_task_table k) t) NoSuchProcess)"

definition as_thread :: "('w, 'p, 'g, 'e, 'z) kernel_scheme \<Rightarrow> tid \<Rightarrow> thread outcome" where
  "as_thread k t = (case k_threads k t of None \<Rightarrow> Panicked | Some th \<Rightarrow> Ok th)"

definition get_process_data ::
    "('w, 'p, 'g, 'e) kernel_ops \<Rightarrow> tid \<Rightarrow> pid \<Rightarrow> ('w, 'p, 'g, 'e, 'z) kernel_scheme \<Rightarrow> pid outcome" where
  "get_process_data ops cur p k =
     (if p = 0 then map_sum id th_pid (as_thread k cur)
      else ok_or (wk_get ops (data_alive k) (k_process_table k) p) NoSuchProcess)"

definition get_process_group ::
    "('w, 'p, 'g, 'e) kernel_ops \<Rightarrow> pid \<Rightarrow> ('w, 'p, 'g, 'e, 'z) kernel_scheme \<Rightarrow> nat outcome" where
  "get_process_group ops pgid k =
     ok_or (wk_get ops (po_group_alive ops (k_proc k)) (k_group_table k) pgid) NoSuchProcess"

definition get_session ::
    "('w, 'p, 'g, 'e) kernel_ops \<Rightarrow> pid \<Rightarrow> ('w, 'p, 'g, 'e, 'z) kernel_scheme \<Rightarrow> nat outcome" where
  "get_session ops sid k =
     ok_or (wk_get ops (po_session_alive ops (k_proc k)) (k_session_table k) sid) NoSuchProcess"

subsection \<open>Sending signals\<close>

definition interrupt :: "tid \<Rightarrow> ('w, 'p, 'g, 'e, 'z) kernel_scheme \<Rightarrow> ('w, 'p, 'g, 'e, 'z) kernel_scheme" where
  "interrupt t k = k\<lparr>k_interrupted := List.insert t (k_interrupted k)\<rparr>"

definition send_signal_thread_inner ::
    "('w, 'p, 'g, 'e) kernel_ops \<Rightarrow> tid \<Rightarrow> siginfo \<Rightarrow> ('w, 'p, 'g, 'e, 'z) kernel_scheme
      \<Rightarrow> ('w, 'p, 'g, 'e, 'z) kernel_scheme" where
  "send_signal_thread_inner ops t sig k =
     (let (g, wake) = sg_send_thread ops t sig (k_sig k);
          k1 = k\<lparr>k_sig := g\<rparr>
      in if wake then interrupt t k1 else k1)"

definition send_signal_to_thread ::
    "('w, 'p, 'g, 'e) kernel_ops \<Rightarrow> tid \<Rightarrow> pid option \<Rightarrow> tid \<Rightarrow> siginfo option \<Rightarrow> ('w, 'p, 'g, 'e, 'z) kernel_scheme
      \<Rightarrow> ('w, 'p, 'g, 'e, 'z) kernel_scheme \<times> unit outcome" where
  "send_signal_to_thread ops cur tgid t sig k =
     (case get_task ops cur t k of
        Inl e \<Rightarrow> (k, Inl e)
      | Inr task \<Rightarrow>
          (case k_threads k task of
             None \<Rightarrow> (k, Fail OperationNotPermitted)
           | Some th \<Rightarrow>
               if (case tgid of None \<Rightarrow> False | Some g \<Rightarrow> th_pid th \<noteq> g) then (k, Fail NoSuchProcess)
               else
                 (case sig of
                    None \<Rightarrow> (k, Ok ())
                  | Some s \<Rightarrow> (send_signal_thread_inner ops task s k, Ok ()))))"

text \<open>The process manager names a thread that should handle the signal, if there is one.\<close>

definition send_signal_process_inner ::
    "('w, 'p, 'g, 'e) kernel_ops \<Rightarrow> tid \<Rightarrow> pid \<Rightarrow> siginfo \<Rightarrow> ('w, 'p, 'g, 'e, 'z) kernel_scheme
      \<Rightarrow> ('w, 'p, 'g, 'e, 'z) kernel_scheme \<times> bool" where
  "send_signal_process_inner ops cur p s k =
     (let (g, target) = sg_send_process ops p s (k_sig k);
          k1 = k\<lparr>k_sig := g\<rparr>
      in case target of
           None \<Rightarrow> (k1, False)
         | Some t \<Rightarrow>
             (case get_task ops cur t k1 of
                Inl _ \<Rightarrow> (k1, False)
              | Inr task \<Rightarrow> (interrupt task k1, True)))"

definition send_signal_to_process ::
    "('w, 'p, 'g, 'e) kernel_ops \<Rightarrow> tid \<Rightarrow> pid \<Rightarrow> siginfo option \<Rightarrow> ('w, 'p, 'g, 'e, 'z) kernel_scheme
      \<Rightarrow> ('w, 'p, 'g, 'e, 'z) kernel_scheme \<times> unit outcome" where
  "send_signal_to_process ops cur p sig k =
     (case get_process_data ops cur p k of
        Inl e \<Rightarrow> (k, Inl e)
      | Inr d \<Rightarrow>
          (case sig of
             None \<Rightarrow> (k, Ok ())
           | Some s \<Rightarrow> (fst (send_signal_process_inner ops cur d s k), Ok ())))"

text \<open>The loop over the processes of a group; the first failure ends it.\<close>

fun send_signal_to_processes ::
    "('w, 'p, 'g, 'e) kernel_ops \<Rightarrow> tid \<Rightarrow> siginfo \<Rightarrow> pid list \<Rightarrow> ('w, 'p, 'g, 'e, 'z) kernel_scheme
      \<Rightarrow> ('w, 'p, 'g, 'e, 'z) kernel_scheme \<times> unit outcome" where
  "send_signal_to_processes ops cur s [] k = (k, Ok ())"
| "send_signal_to_processes ops cur s (p # ps) k =
     (case send_signal_to_process ops cur p (Some s) k of
        (k1, Inl e) \<Rightarrow> (k1, Inl e)
      | (k1, Inr _) \<Rightarrow> send_signal_to_processes ops cur s ps k1)"

definition send_signal_to_process_group ::
    "('w, 'p, 'g, 'e) kernel_ops \<Rightarrow> tid \<Rightarrow> pid \<Rightarrow> siginfo option \<Rightarrow> ('w, 'p, 'g, 'e, 'z) kernel_scheme
      \<Rightarrow> ('w, 'p, 'g, 'e, 'z) kernel_scheme \<times> unit outcome" where
  "send_signal_to_process_group ops cur pgid sig k =
     (case get_process_group ops pgid k of
        Inl e \<Rightarrow> (k, Inl e)
      | Inr pg \<Rightarrow>
          (case sig of
             None \<Rightarrow> (k, Ok ())
           | Some s \<Rightarrow> send_signal_to_processes ops cur s (po_processes ops (k_proc k) pg) k))"

end
