(* ===== verification/Exit.thy ===== *)
theory Exit
  imports Task Shm
begin

section \<open>The end of a thread\<close>

text \<open>
  \<open>do_exit\<close>, the robust futex list and \<open>raise_signal_fatal\<close> of \<open>api/src/task.rs\<close>, with \<open>sys_exit\<close> and
  \<open>sys_exit_group\<close>. The state adds user memory, the futexes and the shared memory manager to the state of the
  tasks. The reads and writes of user memory (\<open>starry_vm\<close>) and the areas of the address space are the fields of
  \<open>mem_ops\<close>. The calls yield to other tasks in a few places; what those do there is not part of a run.
\<close>

record 'm mem_ops =
  um_read_head :: "addr \<Rightarrow> 'm \<Rightarrow> (addr \<times> i64 \<times> addr) outcome"
  um_read_next :: "addr \<Rightarrow> 'm \<Rightarrow> addr outcome"
  um_write_u32 :: "addr \<Rightarrow> u32 \<Rightarrow> 'm \<Rightarrow> 'm \<times> unit outcome"
  um_find_area :: "'m \<Rightarrow> addr \<Rightarrow> (addr \<times> nat option) option"

record ('w, 'p, 'g, 'e, 'm, 'q) user_kernel = "('w, 'p, 'g, 'e) kernel" +
  k_mem :: 'm
  k_futex :: futexes
  k_shm :: "'q shm_manager"

definition ROBUST_LIST_LIMIT :: nat where "ROBUST_LIST_LIMIT = 2048"

subsection \<open>The robust list\<close>

text \<open>
  \<open>handle_futex_death\<close>; \<open>checked_add_signed\<close> fails outside of 64 bits. The result has the tasks that are woken.
\<close>

definition handle_futex_death ::
    "(addr \<Rightarrow> (addr \<times> nat option) option) \<Rightarrow> pid \<Rightarrow> addr \<Rightarrow> i64 \<Rightarrow> futexes \<Rightarrow> futexes \<times> tid list \<times> unit outcome" where
  "handle_futex_death find_area p entry offset st =
     (let address = int entry + offset in
      if address < 0 \<or> address \<ge> 2 ^ 64 then (st, [], Fail InvalidInput)
      else
        case futex_get (futex_slot_of p (futex_key_new find_area (nat address))) st of
          None \<Rightarrow> (st, [], Ok ())
        | Some e \<Rightarrow>
            (let st1 = set_owner_dead e True st;
                 (q, ts) = wq_wake 1 (-1) (fx_wq (fx_store st1 ! e));
                 st2 = set_wq e q st1
             in (guard_drop e (blocked_on e st2) st2, ts, Ok ())))"

text \<open>
  The loop of \<open>exit_robust_list\<close> with \<open>limit\<close> entries left. The code tests the limit after it has counted down,
  so that the loop never starts a turn with 0.
\<close>

fun robust_loop ::
    "(addr \<Rightarrow> (addr \<times> nat option) option) \<Rightarrow> pid \<Rightarrow> (addr \<Rightarrow> addr outcome) \<Rightarrow> addr \<Rightarrow> i64 \<Rightarrow> addr \<Rightarrow> nat \<Rightarrow> addr \<Rightarrow> futexes
      \<Rightarrow> futexes \<times> tid list \<times> unit outcome" where
  "robust_loop find_area p next_of end_ptr offset pending 0 entry st = (st, [], Panicked)"
| "robust_loop find_area p next_of end_ptr offset pending (Suc limit) entry st =
     (if entry = end_ptr then (st, [], Ok ())
      else case next_of entry of
        Inl e \<Rightarrow> (st, [], Inl e)
      | Inr next_entry \<Rightarrow>
          (case (if entry \<noteq> pending then handle_futex_death find_area p entry offset st else (st, [], Ok ())) of
             (st1, ts, Inl e) \<Rightarrow> (st1, ts, Inl e)
           | (st1, ts, Inr _) \<Rightarrow>
               if limit = 0 then (st1, ts, Fail FilesystemLoop)
               else
                 (let (st2, ts', r) = robust_loop find_area p next_of end_ptr offset pending limit next_entry st1
                  in (st2, ts @ ts', r))))"

text \<open>The list is the first field of its head, so the end pointer is the address of the head.\<close>

definition exit_robust_list ::
    "'m mem_ops \<Rightarrow> pid \<Rightarrow> addr \<Rightarrow> 'm \<Rightarrow> futexes \<Rightarrow> futexes \<times> tid list \<times> unit outcome" where
  "exit_robust_list mo p head m st =
     (case um_read_head mo head m of
        Inl e \<Rightarrow> (st, [], Inl e)
      | Inr (entry, offset, pending) \<Rightarrow>
          robust_loop (um_find_area mo m) p (\<lambda>a. um_read_next mo a m) head offset pending ROBUST_LIST_LIMIT entry st)"

subsection \<open>\<open>do_exit\<close>\<close>

text \<open>The word at \<open>clear_child_tid\<close>: it is cleared, and one waiter on it is woken.\<close>

definition clear_child ::
    "'m mem_ops \<Rightarrow> thread \<Rightarrow> ('w, 'p, 'g, 'e, 'm, 'q) user_kernel \<Rightarrow> ('w, 'p, 'g, 'e, 'm, 'q) user_kernel" where
  "clear_child mo th k =
     (case um_write_u32 mo (th_clear_child_tid th) 0 (k_mem k) of
        (m, Inl _) \<Rightarrow> k\<lparr>k_mem := m\<rparr>
      | (m, Inr _) \<Rightarrow>
          (let slot = futex_slot_of (th_pid th) (futex_key_new (um_find_area mo m) (th_clear_child_tid th));
               (st, ts, _) = futex_wake slot 1 (-1) (k_futex k)
           in k\<lparr>k_mem := m, k_futex := st, k_woken := k_woken k @ ts\<rparr>))"

definition exit_robust ::
    "'m mem_ops \<Rightarrow> thread \<Rightarrow> ('w, 'p, 'g, 'e, 'm, 'q) user_kernel \<Rightarrow> ('w, 'p, 'g, 'e, 'm, 'q) user_kernel" where
  "exit_robust mo th k =
     (if th_robust_list_head th = 0 then k
      else
        (let (st, ts, _) = exit_robust_list mo (th_pid th) (th_robust_list_head th) (k_mem k) (k_futex k)
         in k\<lparr>k_futex := st, k_woken := k_woken k @ ts\<rparr>))"

definition wake_child_exit ::
    "('w, 'p, 'g, 'e) kernel_ops \<Rightarrow> pid \<Rightarrow> ('w, 'p, 'g, 'e, 'z) kernel_scheme \<Rightarrow> ('w, 'p, 'g, 'e, 'z) kernel_scheme" where
  "wake_child_exit ops p k =
     (case k_data k p of
        None \<Rightarrow> k
      | Some d \<Rightarrow>
          (let (ev, ts) = ps_wake ops (pd_child_exit_event d)
           in k\<lparr>k_data := (k_data k)(p \<mapsto> d\<lparr>pd_child_exit_event := ev\<rparr>), k_woken := k_woken k @ ts\<rparr>))"

definition wake_exit ::
    "('w, 'p, 'g, 'e) kernel_ops \<Rightarrow> pid \<Rightarrow> ('w, 'p, 'g, 'e, 'z) kernel_scheme \<Rightarrow> ('w, 'p, 'g, 'e, 'z) kernel_scheme" where
  "wake_exit ops p k =
     (case k_data k p of
        None \<Rightarrow> k
      | Some d \<Rightarrow>
          (let (ev, ts) = ps_wake ops (pd_exit_event d)
           in k\<lparr>k_data := (k_data k)(p \<mapsto> d\<lparr>pd_exit_event := ev\<rparr>), k_woken := k_woken k @ ts\<rparr>))"

text \<open>Telling the parent: the exit signal, if the process has one, then the event of the parent.\<close>

definition notify_parent ::
    "('w, 'p, 'g, 'e) kernel_ops \<Rightarrow> tid \<Rightarrow> nat option \<Rightarrow> pid \<Rightarrow> ('w, 'p, 'g, 'e, 'z) kernel_scheme
      \<Rightarrow> ('w, 'p, 'g, 'e, 'z) kernel_scheme" where
  "notify_parent ops cur exit_signal parent k =
     (let k1 = (case exit_signal of
                  None \<Rightarrow> k
                | Some signo \<Rightarrow> fst (send_signal_to_process ops cur parent (Some (sg_new_kernel ops signo)) k))
      in case get_process_data ops cur parent k1 of
           Inl _ \<Rightarrow> k1
         | Inr d \<Rightarrow> wake_child_exit ops d k1)"

text \<open>What the last thread of a process does; \<open>now\<close> is the time for the shared memory.\<close>

definition exit_process ::
    "('w, 'p, 'g, 'e) kernel_ops \<Rightarrow> i64 \<Rightarrow> tid \<Rightarrow> pid \<Rightarrow> ('w, 'p, 'g, 'e, 'm, 'q) user_kernel
      \<Rightarrow> ('w, 'p, 'g, 'e, 'm, 'q) user_kernel \<times> unit outcome" where
  "exit_process ops now cur p k =
     (let k1 = k\<lparr>k_proc := po_exit ops p (k_proc k)\<rparr>;
          exit_signal = (case k_data k1 p of None \<Rightarrow> None | Some d \<Rightarrow> pd_exit_signal d);
          k2 = (case po_parent ops (k_proc k1) p of
                  None \<Rightarrow> k1
                | Some parent \<Rightarrow> notify_parent ops cur exit_signal parent k1);
          k3 = wake_exit ops p k2
      in case clear_proc_shm now p (k_shm k3) of
           Inl e \<Rightarrow> (k3, Inl e)
         | Inr sm \<Rightarrow> (k3\<lparr>k_shm := sm\<rparr>, Ok ()))"

definition exit_group ::
    "('w, 'p, 'g, 'e) kernel_ops \<Rightarrow> tid \<Rightarrow> pid \<Rightarrow> ('w, 'p, 'g, 'e, 'z) kernel_scheme \<Rightarrow> ('w, 'p, 'g, 'e, 'z) kernel_scheme" where
  "exit_group ops cur p k =
     (if po_is_group_exited ops (k_proc k) p then k
      else
        let k1 = k\<lparr>k_proc := po_group_exit ops p (k_proc k)\<rparr> in
        fold (\<lambda>t k'. fst (send_signal_to_thread ops cur None t (Some (sg_new_kernel ops SIGKILL)) k'))
          (po_threads ops (k_proc k1) p) k1)"

definition set_exit :: "tid \<Rightarrow> ('w, 'p, 'g, 'e, 'z) kernel_scheme \<Rightarrow> ('w, 'p, 'g, 'e, 'z) kernel_scheme" where
  "set_exit t k = k\<lparr>k_threads := (k_threads k)(t := map_option (th_exit_update (\<lambda>_. True)) (k_threads k t))\<rparr>"

definition do_exit ::
    "('w, 'p, 'g, 'e) kernel_ops \<Rightarrow> 'm mem_ops \<Rightarrow> i64 \<Rightarrow> tid \<Rightarrow> i32 \<Rightarrow> bool \<Rightarrow> ('w, 'p, 'g, 'e, 'm, 'q) user_kernel
      \<Rightarrow> ('w, 'p, 'g, 'e, 'm, 'q) user_kernel \<times> unit outcome" where
  "do_exit ops mo now cur exit_code group_exit k =
     (case as_thread k cur of
        Inl e \<Rightarrow> (k, Inl e)
      | Inr th \<Rightarrow>
          (let p = th_pid th;
               k1 = exit_robust mo th (clear_child mo th k);
               (ps, is_last) = po_exit_thread ops p cur exit_code (k_proc k1);
               k2 = k1\<lparr>k_proc := ps\<rparr>
           in case (if is_last then exit_process ops now cur p k2 else (k2, Ok ())) of
                (k3, Inl e) \<Rightarrow> (k3, Inl e)
              | (k3, Inr _) \<Rightarrow>
                  (set_exit cur (if group_exit then exit_group ops cur p k3 else k3), Ok ())))"

definition sys_exit ::
    "('w, 'p, 'g, 'e) kernel_ops \<Rightarrow> 'm mem_ops \<Rightarrow> i64 \<Rightarrow> tid \<Rightarrow> i32 \<Rightarrow> ('w, 'p, 'g, 'e, 'm, 'q) user_kernel
      \<Rightarrow> ('w, 'p, 'g, 'e, 'm, 'q) user_kernel \<times> int outcome" where
  "sys_exit ops mo now cur exit_code k =
     (let (k', r) = do_exit ops mo now cur (wrap_i32 (exit_code * 256)) False k in (k', map_sum id (\<lambda>_. 0) r))"

definition sys_exit_group ::
    "('w, 'p, 'g, 'e) kernel_ops \<Rightarrow> 'm mem_ops \<Rightarrow> i64 \<Rightarrow> tid \<Rightarrow> i32 \<Rightarrow> ('w, 'p, 'g, 'e, 'm, 'q) user_kernel
      \<Rightarrow> ('w, 'p, 'g, 'e, 'm, 'q) user_kernel \<times> int outcome" where
  "sys_exit_group ops mo now cur exit_code k =
     (let (k', r) = do_exit ops mo now cur (wrap_i32 (exit_code * 256)) True k in (k', map_sum id (\<lambda>_. 0) r))"

text \<open>\<open>raise_signal_fatal\<close>: when no task takes the signal the caller ends.\<close>

definition raise_signal_fatal ::
    "('w, 'p, 'g, 'e) kernel_ops \<Rightarrow> 'm mem_ops \<Rightarrow> i64 \<Rightarrow> tid \<Rightarrow> siginfo \<Rightarrow> ('w, 'p, 'g, 'e, 'm, 'q) user_kernel
      \<Rightarrow> ('w, 'p, 'g, 'e, 'm, 'q) user_kernel \<times> unit outcome" where
  "raise_signal_fatal ops mo now cur sig k =
     (case as_thread k cur of
        Inl e \<Rightarrow> (k, Inl e)
      | Inr th \<Rightarrow>
          (case send_signal_process_inner ops cur (th_pid th) sig k of
             (k1, True) \<Rightarrow> (k1, Ok ())
           | (k1, False) \<Rightarrow> do_exit ops mo now cur (int (si_signo sig)) True k1))"

end
