(* ===== verification/Signal.thy ===== *)
theory Signal
  imports Exit Select Event_Fd
begin

section \<open>Signal system calls\<close>

text \<open>
  \<open>api/src/syscall/signal.rs\<close>, \<open>check_signals\<close> of \<open>api/src/signal.rs\<close> and \<open>api/src/file/signalfd.rs\<close>. The
  signal managers belong to \<open>starry_signal\<close>: what these calls use of them beyond sending are the fields of
  \<open>sig_ops\<close>, over the signal state \<open>'g\<close>, the saved registers \<open>'u\<close> and the actions \<open>'a\<close>. A signal set is a 64-bit
  word. What a call reads from and writes to user memory are the fields of \<open>sig_mem\<close>.
\<close>

datatype os_action = Act_terminate | Act_coredump | Act_stop | Act_continue | Act_handler

record ('g, 'u, 'a) sig_ops =
  so_blocked :: "'g \<Rightarrow> tid \<Rightarrow> u64"
  so_set_blocked :: "tid \<Rightarrow> u64 \<Rightarrow> 'g \<Rightarrow> 'g \<times> u64"
  so_pending :: "'g \<Rightarrow> tid \<Rightarrow> u64"
  so_dequeue :: "tid \<Rightarrow> u64 \<Rightarrow> 'g \<Rightarrow> 'g \<times> siginfo option"
  so_check :: "tid \<Rightarrow> u64 option \<Rightarrow> 'u \<Rightarrow> 'g \<Rightarrow> 'g \<times> 'u \<times> (siginfo \<times> os_action) option"
  so_restore :: "tid \<Rightarrow> 'u \<Rightarrow> 'g \<Rightarrow> 'g \<times> 'u"
  so_stack :: "'g \<Rightarrow> tid \<Rightarrow> nat \<times> nat"
  so_set_stack :: "tid \<Rightarrow> nat \<times> nat \<Rightarrow> 'g \<Rightarrow> 'g"
  so_action :: "'g \<Rightarrow> pid \<Rightarrow> nat \<Rightarrow> 'a"
  so_set_action :: "pid \<Rightarrow> nat \<Rightarrow> 'a \<Rightarrow> 'g \<Rightarrow> 'g"
  so_retval :: "'u \<Rightarrow> int"
  so_set_retval :: "int \<Rightarrow> 'u \<Rightarrow> 'u"

record ('m, 'a) sig_mem =
  gm_get_set :: "addr \<Rightarrow> 'm \<Rightarrow> u64 outcome"
  gm_put_set :: "addr \<Rightarrow> u64 \<Rightarrow> 'm \<Rightarrow> 'm \<times> unit outcome"
  gm_get_action :: "addr \<Rightarrow> 'm \<Rightarrow> 'a outcome"
  gm_put_action :: "addr \<Rightarrow> 'a \<Rightarrow> 'm \<Rightarrow> 'm \<times> unit outcome"
  gm_get_info :: "addr \<Rightarrow> 'm \<Rightarrow> siginfo outcome"
  gm_put_info :: "addr \<Rightarrow> siginfo \<Rightarrow> 'm \<Rightarrow> 'm \<times> unit outcome"
  gm_get_stack :: "addr \<Rightarrow> 'm \<Rightarrow> (nat \<times> nat) outcome"
  gm_put_stack :: "addr \<Rightarrow> nat \<times> nat \<Rightarrow> 'm \<Rightarrow> 'm \<times> unit outcome"
  gm_get_time :: "addr \<Rightarrow> 'm \<Rightarrow> timespec outcome"

text \<open>A write through a pointer that may be null.\<close>

definition put_nullable ::
    "(addr \<Rightarrow> 'x \<Rightarrow> 'm \<Rightarrow> 'm \<times> unit outcome) \<Rightarrow> addr \<Rightarrow> 'x \<Rightarrow> ('w, 'p, 'g, 'e, 'm, 'q) user_kernel
      \<Rightarrow> ('w, 'p, 'g, 'e, 'm, 'q) user_kernel \<times> unit outcome" where
  "put_nullable put a x k =
     (if a = 0 then (k, Ok ()) else let (m, r) = put a x (k_mem k) in (k\<lparr>k_mem := m\<rparr>, r))"

subsection \<open>Masks, actions and stacks\<close>

definition parse_signo :: "('w, 'p, 'g, 'e) kernel_ops \<Rightarrow> u32 \<Rightarrow> nat outcome" where
  "parse_signo ops signo = ok_or (sg_from_repr ops (unat signo mod 256)) InvalidInput"

definition sys_rt_sigprocmask ::
    "('g, 'u, 'a) sig_ops \<Rightarrow> ('m, 'a) sig_mem \<Rightarrow> tid \<Rightarrow> i32 \<Rightarrow> addr \<Rightarrow> addr \<Rightarrow> usize \<Rightarrow> ('w, 'p, 'g, 'e, 'm, 'q) user_kernel
      \<Rightarrow> ('w, 'p, 'g, 'e, 'm, 'q) user_kernel \<times> int outcome" where
  "sys_rt_sigprocmask so gm cur how setp oldset sigsetsize k =
     (case check_sigset_size sigsetsize of
        Inl e \<Rightarrow> (k, Inl e)
      | Inr _ \<Rightarrow>
          (let old = so_blocked so (k_sig k) cur in
           case put_nullable (gm_put_set gm) oldset old k of
             (k1, Inl e) \<Rightarrow> (k1, Inl e)
           | (k1, Inr _) \<Rightarrow>
               if setp = 0 then (k1, Ok 0)
               else
                 (case gm_get_set gm setp (k_mem k1) of
                    Inl e \<Rightarrow> (k1, Inl e)
                  | Inr s \<Rightarrow>
                      (case (if how = 0 then Some (old OR s) else if how = 1 then Some (old AND NOT s)
                             else if how = 2 then Some s else None) of
                         None \<Rightarrow> (k1, Fail InvalidInput)
                       | Some s' \<Rightarrow> (k1\<lparr>k_sig := fst (so_set_blocked so cur s' (k_sig k1))\<rparr>, Ok 0)))))"

definition sys_rt_sigaction ::
    "('w, 'p, 'g, 'e) kernel_ops \<Rightarrow> ('g, 'u, 'a) sig_ops \<Rightarrow> ('m, 'a) sig_mem \<Rightarrow> tid \<Rightarrow> u32 \<Rightarrow> addr \<Rightarrow> addr \<Rightarrow> usize
      \<Rightarrow> ('w, 'p, 'g, 'e, 'm, 'q) user_kernel \<Rightarrow> ('w, 'p, 'g, 'e, 'm, 'q) user_kernel \<times> int outcome" where
  "sys_rt_sigaction ops so gm cur signo act oldact sigsetsize k =
     (case check_sigset_size sigsetsize of
        Inl e \<Rightarrow> (k, Inl e)
      | Inr _ \<Rightarrow>
          (case parse_signo ops signo of
             Inl e \<Rightarrow> (k, Inl e)
           | Inr n \<Rightarrow>
               if n = SIGKILL \<or> n = SIGSTOP then (k, Fail InvalidInput)
               else
                 (case as_thread k cur of
                    Inl e \<Rightarrow> (k, Inl e)
                  | Inr th \<Rightarrow>
                      (case put_nullable (gm_put_action gm) oldact (so_action so (k_sig k) (th_pid th) n) k of
                         (k1, Inl e) \<Rightarrow> (k1, Inl e)
                       | (k1, Inr _) \<Rightarrow>
                           if act = 0 then (k1, Ok 0)
                           else
                             (case gm_get_action gm act (k_mem k1) of
                                Inl e \<Rightarrow> (k1, Inl e)
                              | Inr a \<Rightarrow> (k1\<lparr>k_sig := so_set_action so (th_pid th) n a (k_sig k1)\<rparr>, Ok 0))))))"

definition sys_rt_sigpending ::
    "('g, 'u, 'a) sig_ops \<Rightarrow> ('m, 'a) sig_mem \<Rightarrow> tid \<Rightarrow> addr \<Rightarrow> usize \<Rightarrow> ('w, 'p, 'g, 'e, 'm, 'q) user_kernel
      \<Rightarrow> ('w, 'p, 'g, 'e, 'm, 'q) user_kernel \<times> int outcome" where
  "sys_rt_sigpending so gm cur setp sigsetsize k =
     (case check_sigset_size sigsetsize of
        Inl e \<Rightarrow> (k, Inl e)
      | Inr _ \<Rightarrow>
          (let (m, r) = gm_put_set gm setp (so_pending so (k_sig k) cur) (k_mem k)
           in (k\<lparr>k_mem := m\<rparr>, map_sum id (\<lambda>_. 0) r)))"

text \<open>A stack is its address and its size; \<open>minsigstksz\<close> depends on the architecture.\<close>

definition sys_sigaltstack ::
    "('g, 'u, 'a) sig_ops \<Rightarrow> ('m, 'a) sig_mem \<Rightarrow> nat \<Rightarrow> tid \<Rightarrow> addr \<Rightarrow> addr \<Rightarrow> ('w, 'p, 'g, 'e, 'm, 'q) user_kernel
      \<Rightarrow> ('w, 'p, 'g, 'e, 'm, 'q) user_kernel \<times> int outcome" where
  "sys_sigaltstack so gm minsigstksz cur ss old_ss k =
     (case put_nullable (gm_put_stack gm) old_ss (so_stack so (k_sig k) cur) k of
        (k1, Inl e) \<Rightarrow> (k1, Inl e)
      | (k1, Inr _) \<Rightarrow>
          if ss = 0 then (k1, Ok 0)
          else
            (case gm_get_stack gm ss (k_mem k1) of
               Inl e \<Rightarrow> (k1, Inl e)
             | Inr st \<Rightarrow>
                 if snd st \<le> minsigstksz then (k1, Fail NoMemory)
                 else (k1\<lparr>k_sig := so_set_stack so cur st (k_sig k1)\<rparr>, Ok 0)))"

subsection \<open>Sending\<close>

definition SI_USER :: i32 where "SI_USER = 0"
definition SI_TKILL :: i32 where "SI_TKILL = -6"

definition make_siginfo ::
    "('w, 'p, 'g, 'e) kernel_ops \<Rightarrow> tid \<Rightarrow> u32 \<Rightarrow> i32 \<Rightarrow> ('w, 'p, 'g, 'e, 'z) kernel_scheme \<Rightarrow> siginfo option outcome" where
  "make_siginfo ops cur signo code k =
     (if signo = 0 then Ok None
      else case parse_signo ops signo of
        Inl e \<Rightarrow> Inl e
      | Inr n \<Rightarrow> (case as_thread k cur of Inl e \<Rightarrow> Inl e | Inr th \<Rightarrow> Ok (Some (sg_new_user ops n code (th_pid th)))))"

text \<open>\<open>kill(-1)\<close>: all the processes but the first one and the caller; failures are ignored.\<close>

definition kill_all ::
    "('w, 'p, 'g, 'e) kernel_ops \<Rightarrow> tid \<Rightarrow> pid \<Rightarrow> siginfo \<Rightarrow> ('w, 'p, 'g, 'e, 'z) kernel_scheme
      \<Rightarrow> ('w, 'p, 'g, 'e, 'z) kernel_scheme" where
  "kill_all ops cur curr_pid s k =
     fold (\<lambda>p k'. if po_is_init ops (k_proc k') p \<or> p = curr_pid then k'
                  else fst (send_signal_to_process ops cur p (Some s) k'))
       (processes ops k) k"

text \<open>The cast \<open>(-pid) as Pid\<close>, with the negation of a release build.\<close>

definition neg_pid :: "i32 \<Rightarrow> pid" where
  "neg_pid p = nat (wrap_i32 (- p) mod 2 ^ 32)"

definition sys_kill ::
    "('w, 'p, 'g, 'e) kernel_ops \<Rightarrow> tid \<Rightarrow> i32 \<Rightarrow> u32 \<Rightarrow> ('w, 'p, 'g, 'e, 'z) kernel_scheme
      \<Rightarrow> ('w, 'p, 'g, 'e, 'z) kernel_scheme \<times> int outcome" where
  "sys_kill ops cur p signo k =
     (case make_siginfo ops cur signo SI_USER k of
        Inl e \<Rightarrow> (k, Inl e)
      | Inr sig \<Rightarrow>
          if p \<ge> 1 then (let (k', r) = send_signal_to_process ops cur (nat p) sig k in (k', map_sum id (\<lambda>_. 0) r))
          else
            (case as_thread k cur of
               Inl e \<Rightarrow> (k, Inl e)
             | Inr th \<Rightarrow>
                 if p = 0 then
                   (let pgid = po_pgid ops (po_group ops (k_proc k) (th_pid th));
                        (k', r) = send_signal_to_process_group ops cur pgid sig k
                    in (k', map_sum id (\<lambda>_. 0) r))
                 else if p = -1 then
                   (case sig of None \<Rightarrow> (k, Ok 0) | Some s \<Rightarrow> (kill_all ops cur (th_pid th) s k, Ok 0))
                 else
                   (let (k', r) = send_signal_to_process_group ops cur (neg_pid p) sig k
                    in (k', map_sum id (\<lambda>_. 0) r))))"

definition sys_tkill ::
    "('w, 'p, 'g, 'e) kernel_ops \<Rightarrow> tid \<Rightarrow> tid \<Rightarrow> u32 \<Rightarrow> ('w, 'p, 'g, 'e, 'z) kernel_scheme
      \<Rightarrow> ('w, 'p, 'g, 'e, 'z) kernel_scheme \<times> int outcome" where
  "sys_tkill ops cur t signo k =
     (case make_siginfo ops cur signo SI_TKILL k of
        Inl e \<Rightarrow> (k, Inl e)
      | Inr sig \<Rightarrow> (let (k', r) = send_signal_to_thread ops cur None t sig k in (k', map_sum id (\<lambda>_. 0) r)))"

definition sys_tgkill ::
    "('w, 'p, 'g, 'e) kernel_ops \<Rightarrow> tid \<Rightarrow> pid \<Rightarrow> tid \<Rightarrow> u32 \<Rightarrow> ('w, 'p, 'g, 'e, 'z) kernel_scheme
      \<Rightarrow> ('w, 'p, 'g, 'e, 'z) kernel_scheme \<times> int outcome" where
  "sys_tgkill ops cur tgid t signo k =
     (case make_siginfo ops cur signo SI_TKILL k of
        Inl e \<Rightarrow> (k, Inl e)
      | Inr sig \<Rightarrow> (let (k', r) = send_signal_to_thread ops cur (Some tgid) t sig k in (k', map_sum id (\<lambda>_. 0) r)))"

definition make_queue_signal_info ::
    "('w, 'p, 'g, 'e) kernel_ops \<Rightarrow> ('m, 'a) sig_mem \<Rightarrow> tid \<Rightarrow> pid \<Rightarrow> u32 \<Rightarrow> addr \<Rightarrow> ('w, 'p, 'g, 'e, 'm, 'q) user_kernel
      \<Rightarrow> siginfo option outcome" where
  "make_queue_signal_info ops gm cur tgid signo sig k =
     (if signo = 0 then Ok None
      else case parse_signo ops signo of
        Inl e \<Rightarrow> Inl e
      | Inr n \<Rightarrow>
          (case gm_get_info gm sig (k_mem k) of
             Inl e \<Rightarrow> Inl e
           | Inr s \<Rightarrow>
               (case as_thread k cur of
                  Inl e \<Rightarrow> Inl e
                | Inr th \<Rightarrow>
                    if th_pid th \<noteq> tgid \<and> (si_code s \<ge> 0 \<or> si_code s = SI_TKILL) then Fail OperationNotPermitted
                    else Ok (Some (s\<lparr>si_signo := n\<rparr>)))))"

definition sys_rt_sigqueueinfo ::
    "('w, 'p, 'g, 'e) kernel_ops \<Rightarrow> ('m, 'a) sig_mem \<Rightarrow> tid \<Rightarrow> pid \<Rightarrow> u32 \<Rightarrow> addr \<Rightarrow> usize
      \<Rightarrow> ('w, 'p, 'g, 'e, 'm, 'q) user_kernel \<Rightarrow> ('w, 'p, 'g, 'e, 'm, 'q) user_kernel \<times> int outcome" where
  "sys_rt_sigqueueinfo ops gm cur tgid signo sig sigsetsize k =
     (case check_sigset_size sigsetsize of
        Inl e \<Rightarrow> (k, Inl e)
      | Inr _ \<Rightarrow>
          (case make_queue_signal_info ops gm cur tgid signo sig k of
             Inl e \<Rightarrow> (k, Inl e)
           | Inr s \<Rightarrow> (let (k', r) = send_signal_to_process ops cur tgid s k in (k', map_sum id (\<lambda>_. 0) r))))"

definition sys_rt_tgsigqueueinfo ::
    "('w, 'p, 'g, 'e) kernel_ops \<Rightarrow> ('m, 'a) sig_mem \<Rightarrow> tid \<Rightarrow> pid \<Rightarrow> tid \<Rightarrow> u32 \<Rightarrow> addr \<Rightarrow> usize
      \<Rightarrow> ('w, 'p, 'g, 'e, 'm, 'q) user_kernel \<Rightarrow> ('w, 'p, 'g, 'e, 'm, 'q) user_kernel \<times> int outcome" where
  "sys_rt_tgsigqueueinfo ops gm cur tgid t signo sig sigsetsize k =
     (case check_sigset_size sigsetsize of
        Inl e \<Rightarrow> (k, Inl e)
      | Inr _ \<Rightarrow>
          (case make_queue_signal_info ops gm cur tgid signo sig k of
             Inl e \<Rightarrow> (k, Inl e)
           | Inr s \<Rightarrow> (let (k', r) = send_signal_to_thread ops cur (Some tgid) t s k in (k', map_sum id (\<lambda>_. 0) r))))"

subsection \<open>Receiving\<close>

text \<open>\<open>check_signals\<close>: whether a signal was taken, after its default action has been carried out.\<close>

definition check_signals ::
    "('w, 'p, 'g, 'e) kernel_ops \<Rightarrow> 'm mem_ops \<Rightarrow> ('g, 'u, 'a) sig_ops \<Rightarrow> i64 \<Rightarrow> tid \<Rightarrow> u64 option
      \<Rightarrow> 'u \<times> ('w, 'p, 'g, 'e, 'm, 'q) user_kernel \<Rightarrow> ('u \<times> ('w, 'p, 'g, 'e, 'm, 'q) user_kernel) \<times> bool outcome" where
  "check_signals ops mo so now cur restore_blocked uk =
     (case so_check so cur restore_blocked (fst uk) (k_sig (snd uk)) of
        (g, u, None) \<Rightarrow> ((u, (snd uk)\<lparr>k_sig := g\<rparr>), Ok False)
      | (g, u, Some (sig, action)) \<Rightarrow>
          (let k1 = (snd uk)\<lparr>k_sig := g\<rparr>;
               leave = (\<lambda>code. let (k2, r) = do_exit ops mo now cur code True k1 in ((u, k2), map_sum id (\<lambda>_. True) r))
           in case action of
                Act_terminate \<Rightarrow> leave (int (si_signo sig))
              | Act_coredump \<Rightarrow> leave (128 + int (si_signo sig))
              | Act_stop \<Rightarrow> leave 1
              | Act_continue \<Rightarrow> ((u, k1), Ok True)
              | Act_handler \<Rightarrow> ((u, k1), Ok True)))"

text \<open>The flag \<open>BLOCK_NEXT_SIGNAL_CHECK\<close> is one variable of the whole kernel.\<close>

definition block_next_signal :: "bool \<Rightarrow> bool" where
  "block_next_signal flag = True"

definition unblock_next_signal :: "bool \<Rightarrow> bool \<times> bool" where
  "unblock_next_signal flag = (False, flag)"

definition sys_rt_sigreturn ::
    "('g, 'u, 'a) sig_ops \<Rightarrow> tid \<Rightarrow> bool \<times> 'u \<times> ('w, 'p, 'g, 'e, 'm, 'q) user_kernel
      \<Rightarrow> (bool \<times> 'u \<times> ('w, 'p, 'g, 'e, 'm, 'q) user_kernel) \<times> int outcome" where
  "sys_rt_sigreturn so cur st =
     (case st of
        (flag, u, k) \<Rightarrow>
          (let (g, u') = so_restore so cur u (k_sig k)
           in ((block_next_signal flag, u', k\<lparr>k_sig := g\<rparr>), Ok (so_retval so u'))))"

text \<open>
  A wait that polls. Before each poll the rest of the system makes a step, an element of the list; the end of the
  list is the end of the timeout. \<open>Wait_signal\<close> is a signal of the set, \<open>Wait_handled\<close> another signal.
\<close>

datatype sigwait_end = Wait_signal siginfo | Wait_handled | Wait_over | Wait_stop stop

fun sigwait_polls ::
    "('w, 'p, 'g, 'e) kernel_ops \<Rightarrow> 'm mem_ops \<Rightarrow> ('g, 'u, 'a) sig_ops \<Rightarrow> i64 \<Rightarrow> tid \<Rightarrow> u64 \<Rightarrow> u64
      \<Rightarrow> (('w, 'p, 'g, 'e, 'm, 'q) user_kernel \<Rightarrow> ('w, 'p, 'g, 'e, 'm, 'q) user_kernel) list
      \<Rightarrow> 'u \<times> ('w, 'p, 'g, 'e, 'm, 'q) user_kernel \<Rightarrow> ('u \<times> ('w, 'p, 'g, 'e, 'm, 'q) user_kernel) \<times> sigwait_end" where
  "sigwait_polls ops mo so now cur s old_blocked [] uk = (uk, Wait_over)"
| "sigwait_polls ops mo so now cur s old_blocked (step # steps) uk =
     (let k1 = step (snd uk) in
      case so_dequeue so cur s (k_sig k1) of
        (g, Some sig) \<Rightarrow> ((fst uk, k1\<lparr>k_sig := fst (so_set_blocked so cur old_blocked g)\<rparr>), Wait_signal sig)
      | (g, None) \<Rightarrow>
          (case check_signals ops mo so now cur (Some old_blocked) (fst uk, k1\<lparr>k_sig := g\<rparr>) of
             (uk', Inl e) \<Rightarrow> (uk', Wait_stop e)
           | (uk', Inr True) \<Rightarrow> (uk', Wait_handled)
           | (uk', Inr False) \<Rightarrow> sigwait_polls ops mo so now cur s old_blocked steps uk'))"

text \<open>\<open>EINTR\<close> as the value the interrupted context returns.\<close>

definition EINTR_RET :: int where "EINTR_RET = -4"

definition sys_rt_sigtimedwait ::
    "('w, 'p, 'g, 'e) kernel_ops \<Rightarrow> 'm mem_ops \<Rightarrow> ('g, 'u, 'a) sig_ops \<Rightarrow> ('m, 'a) sig_mem \<Rightarrow> i64 \<Rightarrow> tid
      \<Rightarrow> (time_value option \<Rightarrow> (('w, 'p, 'g, 'e, 'm, 'q) user_kernel \<Rightarrow> ('w, 'p, 'g, 'e, 'm, 'q) user_kernel) list)
      \<Rightarrow> addr \<Rightarrow> addr \<Rightarrow> addr \<Rightarrow> usize \<Rightarrow> 'u \<times> ('w, 'p, 'g, 'e, 'm, 'q) user_kernel
      \<Rightarrow> ('u \<times> ('w, 'p, 'g, 'e, 'm, 'q) user_kernel) \<times> int outcome" where
  "sys_rt_sigtimedwait ops mo so gm now cur wait setp info timeout sigsetsize uk =
     (let (u, k) = uk in
      case check_sigset_size sigsetsize of
        Inl e \<Rightarrow> (uk, Inl e)
      | Inr _ \<Rightarrow>
          (case gm_get_set gm setp (k_mem k) of
             Inl e \<Rightarrow> (uk, Inl e)
           | Inr s \<Rightarrow>
               (case (if timeout = 0 then Ok None
                      else case gm_get_time gm timeout (k_mem k) of
                        Inl e \<Rightarrow> Inl e
                      | Inr ts \<Rightarrow> map_sum id Some (timespec_try_into_time_value ts)) of
                  Inl e \<Rightarrow> (uk, Inl e)
                | Inr tmo \<Rightarrow>
                    (let old_blocked = so_blocked so (k_sig k) cur;
                         k1 = k\<lparr>k_sig := fst (so_set_blocked so cur (old_blocked AND NOT s) (k_sig k))\<rparr>
                     in case sigwait_polls ops mo so now cur s old_blocked (wait tmo) (so_set_retval so EINTR_RET u, k1) of
                          ((u', k2), Wait_over) \<Rightarrow>
                            ((u', k2\<lparr>k_sig := fst (so_set_blocked so cur old_blocked (k_sig k2))\<rparr>), Fail WouldBlock)
                        | (uk', Wait_handled) \<Rightarrow> (uk', Ok 0)
                        | (uk', Wait_stop e) \<Rightarrow> (uk', Inl e)
                        | ((u', k2), Wait_signal sig) \<Rightarrow>
                            (case put_nullable (gm_put_info gm) info sig k2 of
                               (k3, Inl e) \<Rightarrow> ((u', k3), Inl e)
                             | (k3, Inr _) \<Rightarrow> ((u', k3), Ok (int (si_signo sig))))))))"

text \<open>\<open>sigsuspend\<close> has no timeout: at the end of the list it is still waiting, the value \<open>None\<close>.\<close>

fun sigsuspend_polls ::
    "('w, 'p, 'g, 'e) kernel_ops \<Rightarrow> 'm mem_ops \<Rightarrow> ('g, 'u, 'a) sig_ops \<Rightarrow> i64 \<Rightarrow> tid \<Rightarrow> u64
      \<Rightarrow> (('w, 'p, 'g, 'e, 'm, 'q) user_kernel \<Rightarrow> ('w, 'p, 'g, 'e, 'm, 'q) user_kernel) list
      \<Rightarrow> 'u \<times> ('w, 'p, 'g, 'e, 'm, 'q) user_kernel
      \<Rightarrow> ('u \<times> ('w, 'p, 'g, 'e, 'm, 'q) user_kernel) \<times> int outcome option" where
  "sigsuspend_polls ops mo so now cur old_blocked [] uk = (uk, None)"
| "sigsuspend_polls ops mo so now cur old_blocked (step # steps) uk =
     (case check_signals ops mo so now cur (Some old_blocked) (fst uk, step (snd uk)) of
        (uk', Inl e) \<Rightarrow> (uk', Some (Inl e))
      | (uk', Inr True) \<Rightarrow> (uk', Some (Fail Interrupted))
      | (uk', Inr False) \<Rightarrow> sigsuspend_polls ops mo so now cur old_blocked steps uk')"

definition sys_rt_sigsuspend ::
    "('w, 'p, 'g, 'e) kernel_ops \<Rightarrow> 'm mem_ops \<Rightarrow> ('g, 'u, 'a) sig_ops \<Rightarrow> ('m, 'a) sig_mem \<Rightarrow> i64 \<Rightarrow> tid
      \<Rightarrow> (('w, 'p, 'g, 'e, 'm, 'q) user_kernel \<Rightarrow> ('w, 'p, 'g, 'e, 'm, 'q) user_kernel) list
      \<Rightarrow> addr \<Rightarrow> usize \<Rightarrow> 'u \<times> ('w, 'p, 'g, 'e, 'm, 'q) user_kernel
      \<Rightarrow> ('u \<times> ('w, 'p, 'g, 'e, 'm, 'q) user_kernel) \<times> int outcome option" where
  "sys_rt_sigsuspend ops mo so gm now cur steps setp sigsetsize uk =
     (let (u, k) = uk in
      case check_sigset_size sigsetsize of
        Inl e \<Rightarrow> (uk, Some (Inl e))
      | Inr _ \<Rightarrow>
          (case gm_get_set gm setp (k_mem k) of
             Inl e \<Rightarrow> (uk, Some (Inl e))
           | Inr s \<Rightarrow>
               (let (g, old_blocked) = so_set_blocked so cur s (k_sig k)
                in sigsuspend_polls ops mo so now cur old_blocked steps (so_set_retval so EINTR_RET u, k\<lparr>k_sig := g\<rparr>))))"

subsection \<open>The loop of a user task\<close>

text \<open>
  One turn of the loop of \<open>new_user_task\<close>, for the architectures that do not emulate unaligned accesses. \<open>handle\<close>
  is the system call dispatcher, the flag of a page fault says whether the address space has resolved it.
\<close>

datatype return_reason =
    Ret_syscall | Ret_page_fault bool | Ret_interrupt | Ret_misaligned | Ret_breakpoint | Ret_illegal
  | Ret_exception | Ret_unexpected

definition fault_signo :: "return_reason \<Rightarrow> nat option" where
  "fault_signo reason =
     (case reason of
        Ret_syscall \<Rightarrow> None
      | Ret_page_fault resolved \<Rightarrow> if resolved then None else Some 11
      | Ret_interrupt \<Rightarrow> None
      | Ret_misaligned \<Rightarrow> Some 7
      | Ret_breakpoint \<Rightarrow> Some 5
      | Ret_illegal \<Rightarrow> Some 4
      | Ret_exception \<Rightarrow> Some 5
      | Ret_unexpected \<Rightarrow> Some 11)"

text \<open>The loop \<open>while check_signals(..) {}\<close>, with a bound on its turns; \<open>None\<close> when the bound is too small.\<close>

fun check_all_signals ::
    "('w, 'p, 'g, 'e) kernel_ops \<Rightarrow> 'm mem_ops \<Rightarrow> ('g, 'u, 'a) sig_ops \<Rightarrow> i64 \<Rightarrow> tid \<Rightarrow> nat
      \<Rightarrow> 'u \<times> ('w, 'p, 'g, 'e, 'm, 'q) user_kernel \<Rightarrow> (('u \<times> ('w, 'p, 'g, 'e, 'm, 'q) user_kernel) \<times> unit outcome) option" where
  "check_all_signals ops mo so now cur 0 uk = None"
| "check_all_signals ops mo so now cur (Suc fuel) uk =
     (case check_signals ops mo so now cur None uk of
        (uk', Inl e) \<Rightarrow> Some (uk', Inl e)
      | (uk', Inr True) \<Rightarrow> check_all_signals ops mo so now cur fuel uk'
      | (uk', Inr False) \<Rightarrow> Some (uk', Ok ()))"

definition clear_interrupt :: "tid \<Rightarrow> ('w, 'p, 'g, 'e, 'z) kernel_scheme \<Rightarrow> ('w, 'p, 'g, 'e, 'z) kernel_scheme" where
  "clear_interrupt t k = k\<lparr>k_interrupted := removeAll t (k_interrupted k)\<rparr>"

definition user_turn ::
    "('w, 'p, 'g, 'e) kernel_ops \<Rightarrow> 'm mem_ops \<Rightarrow> ('g, 'u, 'a) sig_ops
      \<Rightarrow> (bool \<times> 'u \<times> ('w, 'p, 'g, 'e, 'm, 'q) user_kernel \<Rightarrow> bool \<times> 'u \<times> ('w, 'p, 'g, 'e, 'm, 'q) user_kernel)
      \<Rightarrow> i64 \<Rightarrow> tid \<Rightarrow> nat \<Rightarrow> return_reason \<Rightarrow> bool \<times> 'u \<times> ('w, 'p, 'g, 'e, 'm, 'q) user_kernel
      \<Rightarrow> ((bool \<times> 'u \<times> ('w, 'p, 'g, 'e, 'm, 'q) user_kernel) \<times> unit outcome) option" where
  "user_turn ops mo so handle now cur fuel reason st =
     (let (flag, u, k) = (if reason = Ret_syscall then handle st else st);
          (k1, r) = (case fault_signo reason of
                       None \<Rightarrow> (k, Ok ())
                     | Some n \<Rightarrow> raise_signal_fatal ops mo now cur (sg_new_kernel ops n) k)
      in case r of
           Inl e \<Rightarrow> Some ((flag, u, k1), Panicked)
         | Inr _ \<Rightarrow>
             (let (flag', blocked) = unblock_next_signal flag in
              if blocked then Some ((flag', u, clear_interrupt cur k1), Ok ())
              else
                (case check_all_signals ops mo so now cur fuel (u, k1) of
                   None \<Rightarrow> None
                 | Some ((u', k2), Inl e) \<Rightarrow> Some ((flag', u', k2), Inl e)
                 | Some ((u', k2), Inr _) \<Rightarrow> Some ((flag', u', clear_interrupt cur k2), Ok ()))))"

subsection \<open>\<open>signalfd\<close>\<close>

record signalfd =
  sf_mask :: u64
  sf_non_blocking :: bool

definition signalfd_new :: "u64 \<Rightarrow> signalfd" where
  "signalfd_new m = \<lparr>sf_mask = m, sf_non_blocking = False\<rparr>"

definition update_mask :: "u64 \<Rightarrow> signalfd \<Rightarrow> signalfd" where
  "update_mask m f = f\<lparr>sf_mask := m\<rparr>"

definition has_pending_signals :: "('g, 'u, 'a) sig_ops \<Rightarrow> tid \<Rightarrow> signalfd \<Rightarrow> 'g \<Rightarrow> bool" where
  "has_pending_signals so cur f g \<longleftrightarrow> so_pending so g cur AND sf_mask f \<noteq> 0"

text \<open>The 128 bytes of a \<open>signalfd_siginfo\<close> on a little endian machine; \<open>errno\<close> is \<open>SignalInfo::errno\<close>.\<close>

definition from_signal_info :: "(siginfo \<Rightarrow> i32) \<Rightarrow> siginfo \<Rightarrow> u8 list" where
  "from_signal_info errno s =
     le_bytes 4 (si_signo s) @ le_bytes 4 (nat (errno s mod 2 ^ 32)) @ le_bytes 4 (nat (si_code s mod 2 ^ 32))
       @ le_bytes 4 0 @ le_bytes 4 0 @ le_bytes 4 (2 ^ 32 - 1) @ replicate 104 0"

text \<open>One attempt of \<open>read\<close>: the bytes for the buffer, which has room for \<open>remaining\<close>.\<close>

definition signalfd_read ::
    "('g, 'u, 'a) sig_ops \<Rightarrow> (siginfo \<Rightarrow> i32) \<Rightarrow> tid \<Rightarrow> nat \<Rightarrow> signalfd \<Rightarrow> 'g \<Rightarrow> 'g \<times> u8 list outcome" where
  "signalfd_read so errno cur remaining f g =
     (if remaining < 128 then (g, Fail InvalidInput)
      else case so_dequeue so cur (sf_mask f) g of
        (g', Some s) \<Rightarrow> (g', Ok (from_signal_info errno s))
      | (g', None) \<Rightarrow> (g', Fail WouldBlock))"

definition signalfd_poll :: "('g, 'u, 'a) sig_ops \<Rightarrow> tid \<Rightarrow> signalfd \<Rightarrow> 'g \<Rightarrow> bool" where
  "signalfd_poll so cur f g = has_pending_signals so cur f g"

definition SFD_CLOEXEC :: u32 where "SFD_CLOEXEC = 0x80000"
definition SFD_NONBLOCK :: u32 where "SFD_NONBLOCK = 0x800"

text \<open>
  \<open>sys_signalfd4\<close>. \<open>from_fd\<close> is \<open>Signalfd::from_fd\<close>, \<open>files\<close> the signal descriptors that exist, by number; a new one
  gets the number \<open>f\<close>.
\<close>

definition sys_signalfd4 ::
    "'t flat_ops \<Rightarrow> nat \<Rightarrow> (i32 \<Rightarrow> 't \<Rightarrow> nat outcome) \<Rightarrow> nat \<Rightarrow> i32 \<Rightarrow> u64 outcome \<Rightarrow> usize \<Rightarrow> u32
      \<Rightarrow> 't \<times> (nat \<rightharpoonup> signalfd) \<Rightarrow> ('t \<times> (nat \<rightharpoonup> signalfd)) \<times> int outcome" where
  "sys_signalfd4 fo max_nofile from_fd f fd m sigsetsize flags st =
     (case check_sigset_size sigsetsize of
        Inl e \<Rightarrow> (st, Inl e)
      | Inr _ \<Rightarrow>
          if any_flag flags (NOT (SFD_CLOEXEC OR SFD_NONBLOCK)) then (st, Fail InvalidInput)
          else if fd \<noteq> -1 \<and> has_flags flags SFD_CLOEXEC then (st, Fail InvalidInput)
          else
            (case m of
               Inl e \<Rightarrow> (st, Inl e)
             | Inr s \<Rightarrow>
                 (let (t, files) = st; nb = has_flags flags SFD_NONBLOCK in
                  if fd \<noteq> -1 then
                    (case from_fd fd t of
                       Inl e \<Rightarrow> (st, Inl e)
                     | Inr i \<Rightarrow>
                         ((t, files(i := map_option (\<lambda>x. (update_mask s x)\<lparr>sf_non_blocking := nb\<rparr>) (files i))), Ok fd))
                  else
                    (let files' = files(f \<mapsto> (signalfd_new s)\<lparr>sf_non_blocking := nb\<rparr>);
                         (t', r) = add_file_like fo max_nofile f (has_flags flags SFD_CLOEXEC) t
                     in ((t', files'), r)))))"

end
