(* ===== verification/Proc.thy ===== *)
theory Proc
  imports Signal
begin

section \<open>Process system calls\<close>

text \<open>
  \<open>api/src/syscall/task\<close>: \<open>wait.rs\<close>, \<open>clone.rs\<close>, \<open>job.rs\<close>, \<open>execve.rs\<close>, \<open>thread.rs\<close>, \<open>ctl.rs\<close> and
  \<open>schedule.rs\<close>, with \<open>pidfd.rs\<close>. They work on the state of \<open>Exit\<close>.
\<close>

subsection \<open>Waiting for children\<close>

definition WNOHANG :: u32 where "WNOHANG = 1"
definition WNOWAIT :: u32 where "WNOWAIT = 0x1000000"

datatype wait_pid = Wait_any | Wait_pid pid | Wait_pgid pid

fun wait_pid_apply :: "('w, 'p, 'g, 'e) kernel_ops \<Rightarrow> 'p \<Rightarrow> wait_pid \<Rightarrow> pid \<Rightarrow> bool" where
  "wait_pid_apply ops ps Wait_any child = True"
| "wait_pid_apply ops ps (Wait_pid p) child = (child = p)"
| "wait_pid_apply ops ps (Wait_pgid g) child = (po_pgid ops (po_group ops ps child) = g)"

definition wait_pid_of :: "('w, 'p, 'g, 'e) kernel_ops \<Rightarrow> 'p \<Rightarrow> pid \<Rightarrow> i32 \<Rightarrow> wait_pid" where
  "wait_pid_of ops ps self p =
     (if p = -1 then Wait_any
      else if p = 0 then Wait_pgid (po_pgid ops (po_group ops ps self))
      else if p > 0 then Wait_pid (nat p)
      else Wait_pgid (neg_pid p))"

text \<open>\<open>put\<close> writes the exit code; \<open>Ok None\<close> means that there is nothing to report yet.\<close>

definition check_children ::
    "('w, 'p, 'g, 'e) kernel_ops \<Rightarrow> (addr \<Rightarrow> i32 \<Rightarrow> 'm \<Rightarrow> 'm \<times> unit outcome) \<Rightarrow> addr \<Rightarrow> u32 \<Rightarrow> pid list
      \<Rightarrow> ('w, 'p, 'g, 'e, 'm, 'q) user_kernel \<Rightarrow> ('w, 'p, 'g, 'e, 'm, 'q) user_kernel \<times> int option outcome" where
  "check_children ops put exit_code options children k =
     (case List.find (po_is_zombie ops (k_proc k)) children of
        Some child \<Rightarrow>
          (case (if has_flags options WNOWAIT then Ok (k_proc k) else po_free ops child (k_proc k)) of
             Inl e \<Rightarrow> (k, Inl e)
           | Inr ps \<Rightarrow>
               (case put_nullable put exit_code (po_exit_code ops ps child) (k\<lparr>k_proc := ps\<rparr>) of
                  (k1, Inl e) \<Rightarrow> (k1, Inl e)
                | (k1, Inr _) \<Rightarrow> (k1, Ok (Some (int child)))))
      | None \<Rightarrow> (k, Ok (if has_flags options WNOHANG then Some 0 else None)))"

definition register_child_exit ::
    "('w, 'p, 'g, 'e) kernel_ops \<Rightarrow> tid \<Rightarrow> pid \<Rightarrow> ('w, 'p, 'g, 'e, 'z) kernel_scheme \<Rightarrow> ('w, 'p, 'g, 'e, 'z) kernel_scheme" where
  "register_child_exit ops cur p k =
     k\<lparr>k_data := (k_data k)(p := map_option (pd_child_exit_event_update (ps_register ops cur)) (k_data k p))\<rparr>"

text \<open>
  The polls of the call. Before each of them the rest of the system makes a step, and so it does between the look at
  the children and the registration; the end of the list is an interrupt.
\<close>

fun waitpid_polls ::
    "('w, 'p, 'g, 'e) kernel_ops \<Rightarrow> (addr \<Rightarrow> i32 \<Rightarrow> 'm \<Rightarrow> 'm \<times> unit outcome) \<Rightarrow> tid \<Rightarrow> pid \<Rightarrow> addr \<Rightarrow> u32 \<Rightarrow> pid list
      \<Rightarrow> ((('w, 'p, 'g, 'e, 'm, 'q) user_kernel \<Rightarrow> ('w, 'p, 'g, 'e, 'm, 'q) user_kernel)
          \<times> (('w, 'p, 'g, 'e, 'm, 'q) user_kernel \<Rightarrow> ('w, 'p, 'g, 'e, 'm, 'q) user_kernel)) list
      \<Rightarrow> ('w, 'p, 'g, 'e, 'm, 'q) user_kernel \<Rightarrow> ('w, 'p, 'g, 'e, 'm, 'q) user_kernel \<times> int outcome" where
  "waitpid_polls ops put cur p exit_code options children [] k = (k, Fail Interrupted)"
| "waitpid_polls ops put cur p exit_code options children ((before, between) # steps) k =
     (case check_children ops put exit_code options children (before k) of
        (k1, Inl e) \<Rightarrow> (k1, Inl e)
      | (k1, Inr (Some n)) \<Rightarrow> (k1, Ok n)
      | (k1, Inr None) \<Rightarrow>
          waitpid_polls ops put cur p exit_code options children steps (register_child_exit ops cur p (between k1)))"

definition wait_children :: "('w, 'p, 'g, 'e) kernel_ops \<Rightarrow> 'p \<Rightarrow> pid \<Rightarrow> i32 \<Rightarrow> pid list" where
  "wait_children ops ps self p = filter (wait_pid_apply ops ps (wait_pid_of ops ps self p)) (po_children ops ps self)"

definition sys_waitpid ::
    "('w, 'p, 'g, 'e) kernel_ops \<Rightarrow> (addr \<Rightarrow> i32 \<Rightarrow> 'm \<Rightarrow> 'm \<times> unit outcome) \<Rightarrow> tid
      \<Rightarrow> ((('w, 'p, 'g, 'e, 'm, 'q) user_kernel \<Rightarrow> ('w, 'p, 'g, 'e, 'm, 'q) user_kernel)
          \<times> (('w, 'p, 'g, 'e, 'm, 'q) user_kernel \<Rightarrow> ('w, 'p, 'g, 'e, 'm, 'q) user_kernel)) list
      \<Rightarrow> i32 \<Rightarrow> addr \<Rightarrow> u32 \<Rightarrow> ('w, 'p, 'g, 'e, 'm, 'q) user_kernel \<Rightarrow> ('w, 'p, 'g, 'e, 'm, 'q) user_kernel \<times> int outcome" where
  "sys_waitpid ops put cur steps p exit_code options k =
     (case as_thread k cur of
        Inl e \<Rightarrow> (k, Inl e)
      | Inr th \<Rightarrow>
          (let children = wait_children ops (k_proc k) (th_pid th) p in
           if children = [] then (k, Fail (LinuxErr ECHILD))
           else waitpid_polls ops put cur (th_pid th) exit_code options children steps k))"

subsection \<open>Job control\<close>

definition sys_getsid ::
    "('w, 'p, 'g, 'e) kernel_ops \<Rightarrow> tid \<Rightarrow> pid \<Rightarrow> ('w, 'p, 'g, 'e, 'z) kernel_scheme \<Rightarrow> int outcome" where
  "sys_getsid ops cur p k =
     map_sum id (\<lambda>d. int (po_sid ops (po_session ops (k_proc k) (po_group ops (k_proc k) d)))) (get_process_data ops cur p k)"

definition sys_getpgid ::
    "('w, 'p, 'g, 'e) kernel_ops \<Rightarrow> tid \<Rightarrow> pid \<Rightarrow> ('w, 'p, 'g, 'e, 'z) kernel_scheme \<Rightarrow> int outcome" where
  "sys_getpgid ops cur p k =
     map_sum id (\<lambda>d. int (po_pgid ops (po_group ops (k_proc k) d))) (get_process_data ops cur p k)"

definition sys_setsid ::
    "('w, 'p, 'g, 'e) kernel_ops \<Rightarrow> tid \<Rightarrow> ('w, 'p, 'g, 'e, 'z) kernel_scheme
      \<Rightarrow> ('w, 'p, 'g, 'e, 'z) kernel_scheme \<times> int outcome" where
  "sys_setsid ops cur k =
     (case as_thread k cur of
        Inl e \<Rightarrow> (k, Inl e)
      | Inr th \<Rightarrow>
          (case get_process_group ops (th_pid th) k of
             Inr _ \<Rightarrow> (k, Fail OperationNotPermitted)
           | Inl _ \<Rightarrow>
               (case po_create_session ops (th_pid th) (k_proc k) of
                  (ps, Some s) \<Rightarrow> (k\<lparr>k_proc := ps\<rparr>, Ok (int (po_sid ops s)))
                | (ps, None) \<Rightarrow> (k\<lparr>k_proc := ps\<rparr>, Ok (int (th_pid th))))))"

definition sys_setpgid ::
    "('w, 'p, 'g, 'e) kernel_ops \<Rightarrow> tid \<Rightarrow> pid \<Rightarrow> pid \<Rightarrow> ('w, 'p, 'g, 'e, 'z) kernel_scheme
      \<Rightarrow> ('w, 'p, 'g, 'e, 'z) kernel_scheme \<times> int outcome" where
  "sys_setpgid ops cur p pgid k =
     (case get_process_data ops cur p k of
        Inl e \<Rightarrow> (k, Inl e)
      | Inr d \<Rightarrow>
          if pgid = 0 then (k\<lparr>k_proc := po_create_group ops d (k_proc k)\<rparr>, Ok 0)
          else
            (case get_process_group ops pgid k of
               Inl e \<Rightarrow> (k, Inl e)
             | Inr g \<Rightarrow>
                 (case po_move_to_group ops d g (k_proc k) of
                    (ps, True) \<Rightarrow> (k\<lparr>k_proc := ps\<rparr>, Ok 0)
                  | (ps, False) \<Rightarrow> (k\<lparr>k_proc := ps\<rparr>, Fail OperationNotPermitted))))"

subsection \<open>Creating threads and processes\<close>

definition CLONE_VM :: u32 where "CLONE_VM = 0x100"
definition CLONE_FS :: u32 where "CLONE_FS = 0x200"
definition CLONE_FILES :: u32 where "CLONE_FILES = 0x400"
definition CLONE_SIGHAND :: u32 where "CLONE_SIGHAND = 0x800"
definition CLONE_PIDFD :: u32 where "CLONE_PIDFD = 0x1000"
definition CLONE_VFORK :: u32 where "CLONE_VFORK = 0x4000"
definition CLONE_PARENT :: u32 where "CLONE_PARENT = 0x8000"
definition CLONE_THREAD :: u32 where "CLONE_THREAD = 0x10000"
definition CLONE_SETTLS :: u32 where "CLONE_SETTLS = 0x80000"
definition CLONE_PARENT_SETTID :: u32 where "CLONE_PARENT_SETTID = 0x100000"
definition CLONE_CHILD_CLEARTID :: u32 where "CLONE_CHILD_CLEARTID = 0x200000"
definition CLONE_CHILD_SETTID :: u32 where "CLONE_CHILD_SETTID = 0x1000000"

text \<open>
  The objects that processes share or copy live in a state \<open>'x\<close>: address spaces, signal actions, descriptor tables
  and file system contexts. A copy gives the number of the new object.
\<close>

record ('x, 'u) clone_ops =
  co_clone_aspace :: "nat \<Rightarrow> 'x \<Rightarrow> 'x \<times> nat outcome"
  co_copy_actions :: "nat \<Rightarrow> 'x \<Rightarrow> 'x \<times> nat"
  co_copy_fds :: "nat \<Rightarrow> 'x \<Rightarrow> 'x \<times> nat"
  co_copy_fs :: "nat \<Rightarrow> 'x \<Rightarrow> 'x \<times> nat"
  co_add_pidfd :: "pid \<Rightarrow> 'x \<Rightarrow> 'x \<times> i32 outcome"
  co_set_sp :: "addr \<Rightarrow> 'u \<Rightarrow> 'u"
  co_set_tls :: "addr \<Rightarrow> 'u \<Rightarrow> 'u"
  co_set_retval :: "int \<Rightarrow> 'u \<Rightarrow> 'u"

text \<open>The flags without the exit signal, after the \<open>vfork\<close> path, and the combinations that are refused.\<close>

definition clone_flags :: "u32 \<Rightarrow> u32" where
  "clone_flags flags =
     (let f = flags AND NOT 0xff in if has_flags f CLONE_VFORK then f AND NOT CLONE_VM else f)"

definition clone_flags_ok :: "u32 \<Rightarrow> u32 \<Rightarrow> bool" where
  "clone_flags_ok exit_signal f \<longleftrightarrow>
     \<not> (exit_signal \<noteq> 0 \<and> has_flags f (CLONE_THREAD OR CLONE_PARENT))
     \<and> \<not> (has_flags f CLONE_THREAD \<and> \<not> has_flags f (CLONE_VM OR CLONE_SIGHAND))
     \<and> \<not> has_flags f (CLONE_PIDFD OR CLONE_PARENT_SETTID)"

definition clone_uctx :: "('x, 'u) clone_ops \<Rightarrow> u32 \<Rightarrow> addr \<Rightarrow> addr \<Rightarrow> 'u \<Rightarrow> 'u" where
  "clone_uctx co f stack tls u =
     (let u1 = (if stack \<noteq> 0 then co_set_sp co stack u else u);
          u2 = (if has_flags f CLONE_SETTLS then co_set_tls co tls u1 else u1)
      in co_set_retval co 0 u2)"

text \<open>A new process \<open>t\<close> with the data \<open>d\<close> of its creator \<open>self\<close> as the model.\<close>

definition clone_process ::
    "('w, 'p, 'g, 'e) kernel_ops \<Rightarrow> ('x, 'u) clone_ops \<Rightarrow> addr \<Rightarrow> 'e \<Rightarrow> u32 \<Rightarrow> nat option \<Rightarrow> pid \<Rightarrow> pid \<Rightarrow> 'e proc_data
      \<Rightarrow> ('w, 'p, 'g, 'e, 'm, 'q) user_kernel \<times> 'x \<Rightarrow> (('w, 'p, 'g, 'e, 'm, 'q) user_kernel \<times> 'x) \<times> pid outcome" where
  "clone_process ops co heap_base ev f exit_signal t self d st =
     (let (k, x) = st in
      case (if has_flags f CLONE_PARENT then ok_or (po_parent ops (k_proc k) self) InvalidInput else Ok self) of
        Inl e \<Rightarrow> (st, Inl e)
      | Inr parent \<Rightarrow>
          (let k1 = k\<lparr>k_proc := po_fork ops parent t (k_proc k)\<rparr> in
           case (if has_flags f CLONE_VM then (x, Ok (pd_aspace d)) else co_clone_aspace co (pd_aspace d) x) of
             (x1, Inl e) \<Rightarrow> ((k1, x1), Inl e)
           | (x1, Inr aspace) \<Rightarrow>
               (let (x2, actions) = (if has_flags f CLONE_SIGHAND then (x1, pd_actions d) else co_copy_actions co (pd_actions d) x1);
                    (x3, fds) = (if has_flags f CLONE_FILES then (x2, pd_fd_table d) else co_copy_fds co (pd_fd_table d) x2);
                    (x4, fs) = (if has_flags f CLONE_FS then (x3, pd_fs_context d) else co_copy_fs co (pd_fs_context d) x3);
                    d1 = proc_data_new heap_base (fds, fs) ev (pd_exe_path d) (pd_cmdline d) aspace actions exit_signal;
                    d2 = d1\<lparr>pd_umask := pd_umask d, pd_heap_top := pd_heap_top d\<rparr>
                in ((k1\<lparr>k_data := (k_data k1)(t \<mapsto> d2)\<rparr>, x4), Ok t))))"

text \<open>The process of the new task: the one of the caller, or a new one.\<close>

definition clone_target ::
    "('w, 'p, 'g, 'e) kernel_ops \<Rightarrow> ('x, 'u) clone_ops \<Rightarrow> addr \<Rightarrow> 'e \<Rightarrow> u32 \<Rightarrow> nat option \<Rightarrow> tid \<Rightarrow> pid \<Rightarrow> 'e proc_data
      \<Rightarrow> ('w, 'p, 'g, 'e, 'm, 'q) user_kernel \<times> 'x \<Rightarrow> (('w, 'p, 'g, 'e, 'm, 'q) user_kernel \<times> 'x) \<times> pid outcome" where
  "clone_target ops co heap_base ev f exit_signal t self d st =
     (if has_flags f CLONE_THREAD then (st, Ok self) else clone_process ops co heap_base ev f exit_signal t self d st)"

definition clone_pidfd ::
    "('x, 'u) clone_ops \<Rightarrow> (addr \<Rightarrow> int \<Rightarrow> 'm \<Rightarrow> 'm \<times> unit outcome) \<Rightarrow> u32 \<Rightarrow> pid \<Rightarrow> addr
      \<Rightarrow> ('w, 'p, 'g, 'e, 'm, 'q) user_kernel \<times> 'x \<Rightarrow> (('w, 'p, 'g, 'e, 'm, 'q) user_kernel \<times> 'x) \<times> unit outcome" where
  "clone_pidfd co put f p parent_tid st =
     (if has_flags f CLONE_PIDFD
      then (case co_add_pidfd co p (snd st) of
              (x, Inl e) \<Rightarrow> ((fst st, x), Inl e)
            | (x, Inr fd) \<Rightarrow>
                (let (m, r) = put parent_tid fd (k_mem (fst st)) in (((fst st)\<lparr>k_mem := m\<rparr>, x), r)))
      else (st, Ok ()))"

definition clone_spawn ::
    "('w, 'p, 'g, 'e) kernel_ops \<Rightarrow> u32 \<Rightarrow> tid \<Rightarrow> pid \<Rightarrow> addr \<Rightarrow> ('w, 'p, 'g, 'e, 'z) kernel_scheme
      \<Rightarrow> ('w, 'p, 'g, 'e, 'z) kernel_scheme" where
  "clone_spawn ops f t p child_tid k =
     (let th = (thread_new p)\<lparr>th_clear_child_tid := if has_flags f CLONE_CHILD_CLEARTID then child_tid else 0\<rparr>
      in add_task_to_table ops t p (k\<lparr>k_threads := (k_threads k)(t \<mapsto> th)\<rparr>))"

text \<open>
  \<open>sys_clone\<close>. \<open>t\<close> is the number of the new task, \<open>put\<close> writes a number to user memory. The result has the context
  of the new task and the address where the task stores its number when it starts.
\<close>

definition sys_clone ::
    "('w, 'p, 'g, 'e) kernel_ops \<Rightarrow> ('x, 'u) clone_ops \<Rightarrow> (addr \<Rightarrow> int \<Rightarrow> 'm \<Rightarrow> 'm \<times> unit outcome) \<Rightarrow> addr \<Rightarrow> 'e \<Rightarrow> tid \<Rightarrow> tid
      \<Rightarrow> 'u \<Rightarrow> u32 \<Rightarrow> addr \<Rightarrow> addr \<Rightarrow> addr \<Rightarrow> addr \<Rightarrow> ('w, 'p, 'g, 'e, 'm, 'q) user_kernel \<times> 'x
      \<Rightarrow> (('w, 'p, 'g, 'e, 'm, 'q) user_kernel \<times> 'x) \<times> (int \<times> 'u \<times> addr) outcome" where
  "sys_clone ops co put heap_base ev cur t u flags stack parent_tid child_tid tls st =
     (let exit_signal = flags AND 0xff; f = clone_flags flags; (k, x) = st in
      if \<not> clone_flags_ok exit_signal f then (st, Fail InvalidInput)
      else
        case as_thread k cur of
          Inl e \<Rightarrow> (st, Inl e)
        | Inr th \<Rightarrow>
            (case k_data k (th_pid th) of
               None \<Rightarrow> (st, Panicked)
             | Some d \<Rightarrow>
                 (let k1 = (if has_flags f CLONE_PARENT_SETTID then k\<lparr>k_mem := fst (put parent_tid (int t) (k_mem k))\<rparr> else k)
                  in case clone_target ops co heap_base ev f (sg_from_repr ops (unat exit_signal)) t (th_pid th) d (k1, x) of
                       (st2, Inl e) \<Rightarrow> (st2, Inl e)
                     | ((k2, x2), Inr p) \<Rightarrow>
                         (case clone_pidfd co put f p parent_tid (k2\<lparr>k_proc := po_add_thread ops p t (k_proc k2)\<rparr>, x2) of
                            (st4, Inl e) \<Rightarrow> (st4, Inl e)
                          | ((k4, x4), Inr _) \<Rightarrow>
                              ((clone_spawn ops f t p child_tid k4, x4),
                               Ok (int t, clone_uctx co f stack tls u,
                                   if has_flags f CLONE_CHILD_SETTID then child_tid else 0))))))"

definition sys_fork ::
    "('w, 'p, 'g, 'e) kernel_ops \<Rightarrow> ('x, 'u) clone_ops \<Rightarrow> (addr \<Rightarrow> int \<Rightarrow> 'm \<Rightarrow> 'm \<times> unit outcome) \<Rightarrow> addr \<Rightarrow> 'e \<Rightarrow> tid \<Rightarrow> tid
      \<Rightarrow> 'u \<Rightarrow> ('w, 'p, 'g, 'e, 'm, 'q) user_kernel \<times> 'x
      \<Rightarrow> (('w, 'p, 'g, 'e, 'm, 'q) user_kernel \<times> 'x) \<times> (int \<times> 'u \<times> addr) outcome" where
  "sys_fork ops co put heap_base ev cur t u st =
     sys_clone ops co put heap_base ev cur t u (of_nat SIGCHLD) 0 0 0 0 st"

text \<open>What a new user task does first; a fault of the write is ignored.\<close>

definition user_task_start :: "(addr \<Rightarrow> int \<Rightarrow> 'm \<Rightarrow> 'm \<times> unit outcome) \<Rightarrow> tid \<Rightarrow> addr \<Rightarrow> 'm \<Rightarrow> 'm" where
  "user_task_start put t set_child_tid m = (if set_child_tid = 0 then m else fst (put set_child_tid (int t) m))"

subsection \<open>\<open>execve\<close>\<close>

definition cloexec_fds :: "'t flat_ops \<Rightarrow> 't \<Rightarrow> nat list" where
  "cloexec_fds fo t =
     filter (\<lambda>i. case fo_get fo t i of None \<Rightarrow> False | Some f \<Rightarrow> fd_cloexec f) [0..<AX_FILE_LIMIT]"

definition close_cloexec :: "'t flat_ops \<Rightarrow> 't \<Rightarrow> 't" where
  "close_cloexec fo t = fold (\<lambda>i t'. fst (fo_remove fo i t')) (cloexec_fds fo t) t"

text \<open>
  \<open>path\<close>, \<open>args\<close> and \<open>envs\<close> are what is read from user memory, \<open>load_user_app\<close> and \<open>resolve\<close> belong to the loader
  and to axfs; \<open>resolve\<close> gives the name and the absolute path of the program. The state has the name of the
  task, the signal actions \<open>'a\<close> of the process, the descriptor table and the context \<open>'u\<close>.
\<close>

record ('m, 'u) exec_ops =
  xo_load_user_app :: "string \<Rightarrow> string list \<Rightarrow> string list \<Rightarrow> 'm \<Rightarrow> 'm \<times> (addr \<times> addr) outcome"
  xo_resolve :: "string \<Rightarrow> (string \<times> string outcome) outcome"
  xo_set_ip_sp :: "addr \<Rightarrow> addr \<Rightarrow> 'u \<Rightarrow> 'u"

record ('t, 'a, 'u) exec_state =
  xs_name :: string
  xs_actions :: 'a
  xs_fds :: 't
  xs_uctx :: 'u

definition exec_commit ::
    "('m, 'u) exec_ops \<Rightarrow> 't flat_ops \<Rightarrow> 'a \<Rightarrow> addr \<Rightarrow> tid \<Rightarrow> pid \<Rightarrow> string \<Rightarrow> string list \<Rightarrow> addr \<times> addr
      \<Rightarrow> ('w, 'p, 'g, 'e, 'm, 'q) user_kernel \<times> ('t, 'a, 'u) exec_state
      \<Rightarrow> ('w, 'p, 'g, 'e, 'm, 'q) user_kernel \<times> ('t, 'a, 'u) exec_state" where
  "exec_commit xo fo default_actions heap_base cur p abs_path args entry_sp st =
     (let (k, xs) = st in
      (k\<lparr>k_data := (k_data k)(p := map_option (\<lambda>d. d\<lparr>pd_exe_path := abs_path, pd_cmdline := args, pd_heap_top := heap_base\<rparr>) (k_data k p)),
         k_threads := (k_threads k)(cur := map_option (th_clear_child_tid_update (\<lambda>_. 0)) (k_threads k cur))\<rparr>,
       xs\<lparr>xs_actions := default_actions, xs_fds := close_cloexec fo (xs_fds xs),
          xs_uctx := xo_set_ip_sp xo (fst entry_sp) (snd entry_sp) (xs_uctx xs)\<rparr>))"

definition sys_execve ::
    "('w, 'p, 'g, 'e) kernel_ops \<Rightarrow> ('m, 'u) exec_ops \<Rightarrow> 't flat_ops \<Rightarrow> 'a \<Rightarrow> addr \<Rightarrow> tid
      \<Rightarrow> string outcome \<Rightarrow> string list outcome \<Rightarrow> string list outcome
      \<Rightarrow> ('w, 'p, 'g, 'e, 'm, 'q) user_kernel \<times> ('t, 'a, 'u) exec_state
      \<Rightarrow> (('w, 'p, 'g, 'e, 'm, 'q) user_kernel \<times> ('t, 'a, 'u) exec_state) \<times> int outcome" where
  "sys_execve ops xo fo default_actions heap_base cur path args envs st =
     (case path of Inl e \<Rightarrow> (st, Inl e) | Inr p \<Rightarrow>
     (case args of Inl e \<Rightarrow> (st, Inl e) | Inr av \<Rightarrow>
     (case envs of Inl e \<Rightarrow> (st, Inl e) | Inr ev \<Rightarrow>
     (case as_thread (fst st) cur of Inl e \<Rightarrow> (st, Inl e) | Inr th \<Rightarrow>
        if length (po_threads ops (k_proc (fst st)) (th_pid th)) > 1 then (st, Fail WouldBlock)
        else
          (case xo_load_user_app xo p av ev (k_mem (fst st)) of
             (m, Inl e) \<Rightarrow> (((fst st)\<lparr>k_mem := m\<rparr>, snd st), Inl e)
           | (m, Inr entry_sp) \<Rightarrow>
               (let k1 = (fst st)\<lparr>k_mem := m\<rparr> in
                case xo_resolve xo p of
                  Inl e \<Rightarrow> ((k1, snd st), Inl e)
                | Inr (name, abs_path) \<Rightarrow>
                    (let xs1 = (snd st)\<lparr>xs_name := name\<rparr> in
                     case abs_path of
                       Inl e \<Rightarrow> ((k1, xs1), Inl e)
                     | Inr ap \<Rightarrow>
                         (exec_commit xo fo default_actions heap_base cur (th_pid th) ap av entry_sp (k1, xs1), Ok 0))))))))"

subsection \<open>Threads, capabilities and \<open>prctl\<close>\<close>

definition sys_getpid :: "tid \<Rightarrow> ('w, 'p, 'g, 'e, 'z) kernel_scheme \<Rightarrow> int outcome" where
  "sys_getpid cur k = map_sum id (\<lambda>th. int (th_pid th)) (as_thread k cur)"

definition sys_getppid :: "('w, 'p, 'g, 'e) kernel_ops \<Rightarrow> tid \<Rightarrow> ('w, 'p, 'g, 'e, 'z) kernel_scheme \<Rightarrow> int outcome" where
  "sys_getppid ops cur k =
     (case as_thread k cur of
        Inl e \<Rightarrow> Inl e
      | Inr th \<Rightarrow> ok_or (map_option int (po_parent ops (k_proc k) (th_pid th))) NoSuchProcess)"

definition sys_gettid :: "tid \<Rightarrow> int outcome" where
  "sys_gettid cur = Ok (int cur)"

definition sys_set_tid_address ::
    "tid \<Rightarrow> addr \<Rightarrow> ('w, 'p, 'g, 'e, 'z) kernel_scheme \<Rightarrow> ('w, 'p, 'g, 'e, 'z) kernel_scheme \<times> int outcome" where
  "sys_set_tid_address cur a k =
     (case as_thread k cur of
        Inl e \<Rightarrow> (k, Inl e)
      | Inr th \<Rightarrow> (k\<lparr>k_threads := (k_threads k)(cur \<mapsto> th\<lparr>th_clear_child_tid := a\<rparr>)\<rparr>, Ok (int cur)))"

text \<open>The two segment bases of a context, and the codes of \<open>arch_prctl\<close>.\<close>

definition sys_arch_prctl ::
    "(addr \<Rightarrow> nat \<Rightarrow> 'm \<Rightarrow> 'm \<times> unit outcome) \<Rightarrow> i32 \<Rightarrow> addr \<Rightarrow> (addr \<times> addr) \<times> 'm \<Rightarrow> ((addr \<times> addr) \<times> 'm) \<times> int outcome" where
  "sys_arch_prctl put code a st =
     (let ((fs, gs), m) = st in
      if code = 0x1003 then (let (m', r) = put a fs m in (((fs, gs), m'), map_sum id (\<lambda>_. 0) r))
      else if code = 0x1002 then (((a, gs), m), Ok 0)
      else if code = 0x1004 then (let (m', r) = put a gs m in (((fs, gs), m'), map_sum id (\<lambda>_. 0) r))
      else if code = 0x1001 then (((fs, a), m), Ok 0)
      else if code = 0x1011 then (st, Ok 0)
      else if code = 0x1012 then (st, Fail NoSuchDevice)
      else (st, Fail InvalidInput))"

definition CAPABILITY_VERSION_3 :: u32 where "CAPABILITY_VERSION_3 = 0x20080522"

text \<open>A capability header is its version and a process number.\<close>

definition validate_cap_header ::
    "('w, 'p, 'g, 'e) kernel_ops \<Rightarrow> (addr \<Rightarrow> 'm \<Rightarrow> (u32 \<times> i32) outcome) \<Rightarrow> (addr \<Rightarrow> u32 \<times> i32 \<Rightarrow> 'm \<Rightarrow> 'm \<times> unit outcome)
      \<Rightarrow> tid \<Rightarrow> addr \<Rightarrow> ('w, 'p, 'g, 'e, 'm, 'q) user_kernel \<Rightarrow> ('w, 'p, 'g, 'e, 'm, 'q) user_kernel \<times> unit outcome" where
  "validate_cap_header ops get put cur header_ptr k =
     (case get header_ptr (k_mem k) of
        Inl e \<Rightarrow> (k, Inl e)
      | Inr (version, p) \<Rightarrow>
          if version \<noteq> CAPABILITY_VERSION_3 then
            (case put header_ptr (CAPABILITY_VERSION_3, p) (k_mem k) of
               (m, Inl e) \<Rightarrow> (k\<lparr>k_mem := m\<rparr>, Inl e)
             | (m, Inr _) \<Rightarrow> (k\<lparr>k_mem := m\<rparr>, Fail InvalidInput))
          else (k, map_sum id (\<lambda>_. ()) (get_process_data ops cur (nat (p mod 2 ^ 32)) k)))"

definition sys_capset ::
    "('w, 'p, 'g, 'e) kernel_ops \<Rightarrow> (addr \<Rightarrow> 'm \<Rightarrow> (u32 \<times> i32) outcome) \<Rightarrow> (addr \<Rightarrow> u32 \<times> i32 \<Rightarrow> 'm \<Rightarrow> 'm \<times> unit outcome)
      \<Rightarrow> tid \<Rightarrow> addr \<Rightarrow> ('w, 'p, 'g, 'e, 'm, 'q) user_kernel \<Rightarrow> ('w, 'p, 'g, 'e, 'm, 'q) user_kernel \<times> int outcome" where
  "sys_capset ops get put cur header k =
     (let (k1, r) = validate_cap_header ops get put cur header k in (k1, map_sum id (\<lambda>_. 0) r))"

text \<open>\<open>put_data\<close> stores the three words of a capability record.\<close>

definition sys_capget ::
    "('w, 'p, 'g, 'e) kernel_ops \<Rightarrow> (addr \<Rightarrow> 'm \<Rightarrow> (u32 \<times> i32) outcome) \<Rightarrow> (addr \<Rightarrow> u32 \<times> i32 \<Rightarrow> 'm \<Rightarrow> 'm \<times> unit outcome)
      \<Rightarrow> (addr \<Rightarrow> u32 \<times> u32 \<times> u32 \<Rightarrow> 'm \<Rightarrow> 'm \<times> unit outcome) \<Rightarrow> tid \<Rightarrow> addr \<Rightarrow> addr
      \<Rightarrow> ('w, 'p, 'g, 'e, 'm, 'q) user_kernel \<Rightarrow> ('w, 'p, 'g, 'e, 'm, 'q) user_kernel \<times> int outcome" where
  "sys_capget ops get put put_data cur header data k =
     (case validate_cap_header ops get put cur header k of
        (k1, Inl e) \<Rightarrow> (k1, Inl e)
      | (k1, Inr _) \<Rightarrow>
          (let (m, r) = put_data data (-1, -1, -1) (k_mem k1) in (k1\<lparr>k_mem := m\<rparr>, map_sum id (\<lambda>_. 0) r)))"

definition sys_umask ::
    "tid \<Rightarrow> u32 \<Rightarrow> ('w, 'p, 'g, 'e, 'z) kernel_scheme \<Rightarrow> ('w, 'p, 'g, 'e, 'z) kernel_scheme \<times> int outcome" where
  "sys_umask cur m k =
     (case as_thread k cur of
        Inl e \<Rightarrow> (k, Inl e)
      | Inr th \<Rightarrow>
          (case k_data k (th_pid th) of
             None \<Rightarrow> (k, Panicked)
           | Some d \<Rightarrow>
               (let (d', old) = replace_umask m d
                in (k\<lparr>k_data := (k_data k)(th_pid th \<mapsto> d')\<rparr>, Ok (int (unat old))))))"

text \<open>The 16 bytes of a name; a name is cut after 15.\<close>

definition prctl_name :: "u8 list \<Rightarrow> u8 list" where
  "prctl_name name = take 15 name @ replicate (16 - min 15 (length name)) 0"

definition sys_prctl ::
    "(addr \<Rightarrow> 'm \<Rightarrow> u8 list outcome) \<Rightarrow> (addr \<Rightarrow> u8 list \<Rightarrow> 'm \<Rightarrow> 'm \<times> unit outcome) \<Rightarrow> u32 \<Rightarrow> addr
      \<Rightarrow> u8 list \<times> 'm \<Rightarrow> (u8 list \<times> 'm) \<times> int outcome" where
  "sys_prctl load_string write_slice option arg2 st =
     (let (name, m) = st in
      if option = 15 then (case load_string arg2 m of Inl e \<Rightarrow> (st, Inl e) | Inr s \<Rightarrow> ((s, m), Ok 0))
      else if option = 16 then (let (m', r) = write_slice arg2 (prctl_name name) m in ((name, m'), map_sum id (\<lambda>_. 0) r))
      else if option = 22 \<or> option = 33 then (st, Ok 0)
      else (st, Fail InvalidInput))"

subsection \<open>Sleeping and scheduling\<close>

text \<open>
  \<open>sleep_impl\<close>: the readings of the clock before and after. A clock that went back would make the subtraction of
  the two durations panic.
\<close>

definition sleep_impl :: "time_value \<Rightarrow> time_value \<Rightarrow> time_value outcome" where
  "sleep_impl start finish = (if finish < start then Panicked else Ok (finish - start))"

text \<open>What follows a sleep of \<open>dur\<close>: the rest is reported when it was cut short, and also when it was exact.\<close>

definition sleep_result ::
    "(addr \<Rightarrow> timespec \<Rightarrow> 'm \<Rightarrow> 'm \<times> unit outcome) \<Rightarrow> addr \<Rightarrow> time_value \<Rightarrow> time_value outcome \<Rightarrow> 'm \<Rightarrow> 'm \<times> int outcome" where
  "sleep_result put rem dur slept m =
     (case slept of
        Inl e \<Rightarrow> (m, Inl e)
      | Inr actual \<Rightarrow>
          if actual \<le> dur then
            (if rem = 0 then (m, Fail Interrupted)
             else
               (case put rem (timespec_from_time_value (dur - actual)) m of
                  (m', Inl e) \<Rightarrow> (m', Inl e)
                | (m', Inr _) \<Rightarrow> (m', Fail Interrupted)))
          else (m, Ok 0))"

text \<open>\<open>clock\<close> gives the two readings of the clock around the sleep, given its length.\<close>

definition sys_nanosleep ::
    "(addr \<Rightarrow> 'm \<Rightarrow> timespec outcome) \<Rightarrow> (addr \<Rightarrow> timespec \<Rightarrow> 'm \<Rightarrow> 'm \<times> unit outcome) \<Rightarrow> (time_value \<Rightarrow> time_value \<times> time_value)
      \<Rightarrow> addr \<Rightarrow> addr \<Rightarrow> 'm \<Rightarrow> 'm \<times> int outcome" where
  "sys_nanosleep get put clock req rem m =
     (case get req m of
        Inl e \<Rightarrow> (m, Inl e)
      | Inr ts \<Rightarrow>
          (case timespec_try_into_time_value ts of
             Inl e \<Rightarrow> (m, Inl e)
           | Inr dur \<Rightarrow> (let (start, finish) = clock dur in sleep_result put rem dur (sleep_impl start finish) m)))"

text \<open>\<open>now\<close> is the reading of the chosen clock for an absolute time.\<close>

definition sys_clock_nanosleep ::
    "(addr \<Rightarrow> 'm \<Rightarrow> timespec outcome) \<Rightarrow> (addr \<Rightarrow> timespec \<Rightarrow> 'm \<Rightarrow> 'm \<times> unit outcome)
      \<Rightarrow> (i32 \<Rightarrow> time_value) \<Rightarrow> (i32 \<Rightarrow> time_value \<Rightarrow> time_value \<times> time_value)
      \<Rightarrow> i32 \<Rightarrow> u32 \<Rightarrow> addr \<Rightarrow> addr \<Rightarrow> 'm \<Rightarrow> 'm \<times> int outcome" where
  "sys_clock_nanosleep get put now clock clock_id flags req rem m =
     (if clock_id \<noteq> 0 \<and> clock_id \<noteq> 1 then (m, Fail InvalidInput)
      else case get req m of
        Inl e \<Rightarrow> (m, Inl e)
      | Inr ts \<Rightarrow>
          (case timespec_try_into_time_value ts of
             Inl e \<Rightarrow> (m, Inl e)
           | Inr r \<Rightarrow>
               (let dur = (if any_flag flags 1 then r - now clock_id else r);
                    (start, finish) = clock clock_id dur
                in sleep_result put rem dur (sleep_impl start finish) m)))"

definition sys_sched_getaffinity ::
    "nat \<Rightarrow> (addr \<Rightarrow> u8 list \<Rightarrow> 'm \<Rightarrow> 'm \<times> unit outcome) \<Rightarrow> u8 list \<Rightarrow> i32 \<Rightarrow> usize \<Rightarrow> addr \<Rightarrow> 'm \<Rightarrow> 'm \<times> int outcome" where
  "sys_sched_getaffinity cpu_num write_slice mask_bytes p cpusetsize user_mask m =
     (if umul cpusetsize 8 < cpu_num then (m, Fail InvalidInput)
      else if p \<noteq> 0 then (m, Fail OperationNotPermitted)
      else let (m', r) = write_slice user_mask mask_bytes m in (m', map_sum id (\<lambda>_. int (length mask_bytes)) r))"

text \<open>The set of processors of \<open>sched_setaffinity\<close>, from the bits of the bytes that were read.\<close>

definition affinity_cpus :: "nat \<Rightarrow> u8 list \<Rightarrow> nat list" where
  "affinity_cpus cpu_num user_mask =
     filter (\<lambda>i. any_flag (user_mask ! (i div 8)) (push_bit (i mod 8) 1)) [0..<min (length user_mask * 8) cpu_num]"

definition sys_sched_setaffinity ::
    "nat \<Rightarrow> (addr \<Rightarrow> nat \<Rightarrow> 'm \<Rightarrow> u8 list outcome) \<Rightarrow> usize \<Rightarrow> addr \<Rightarrow> nat list \<times> 'm \<Rightarrow> (nat list \<times> 'm) \<times> int outcome" where
  "sys_sched_setaffinity cpu_num load cpusetsize user_mask st =
     (let n = min cpusetsize ((cpu_num + 7) div 8) in
      case load user_mask n (snd st) of
        Inl e \<Rightarrow> (st, Inl e)
      | Inr bs \<Rightarrow> ((affinity_cpus cpu_num bs, snd st), Ok 0))"

definition sys_getpriority ::
    "('w, 'p, 'g, 'e) kernel_ops \<Rightarrow> tid \<Rightarrow> u32 \<Rightarrow> pid \<Rightarrow> ('w, 'p, 'g, 'e, 'z) kernel_scheme \<Rightarrow> int outcome" where
  "sys_getpriority ops cur which who k =
     (if which = 0 then
        (if who \<noteq> 0 then map_sum id (\<lambda>_. 20) (get_process_data ops cur who k) else Ok 20)
      else if which = 1 then
        (if who \<noteq> 0 then map_sum id (\<lambda>_. 20) (get_process_group ops who k) else Ok 20)
      else if which = 2 then (if who = 0 then Ok 20 else Fail NoSuchProcess)
      else Fail InvalidInput)"

subsection \<open>Process descriptors\<close>

text \<open>A process descriptor is the number of its process; \<open>poll\<close> reports \<open>IN\<close>.\<close>

definition pidfd_process_data :: "pid \<Rightarrow> ('w, 'p, 'g, 'e, 'z) kernel_scheme \<Rightarrow> pid outcome" where
  "pidfd_process_data p k = (if data_alive k p then Ok p else Fail NoSuchProcess)"

definition pidfd_poll :: "pid \<Rightarrow> ('w, 'p, 'g, 'e, 'z) kernel_scheme \<Rightarrow> bool" where
  "pidfd_poll p k = data_alive k p"

text \<open>\<open>new_file\<close> is the file object of the new descriptor, \<open>from_fd\<close> finds the process of a descriptor.\<close>

definition sys_pidfd_open ::
    "('w, 'p, 'g, 'e) kernel_ops \<Rightarrow> 't flat_ops \<Rightarrow> nat \<Rightarrow> (pid \<Rightarrow> nat) \<Rightarrow> tid \<Rightarrow> pid \<Rightarrow> u32
      \<Rightarrow> ('w, 'p, 'g, 'e, 'z) kernel_scheme \<Rightarrow> 't \<Rightarrow> 't \<times> int outcome" where
  "sys_pidfd_open ops fo max_nofile new_file cur p flags k t =
     (if flags \<noteq> 0 then (t, Fail InvalidInput)
      else case get_process_data ops cur p k of
        Inl e \<Rightarrow> (t, Inl e)
      | Inr d \<Rightarrow> add_file_like fo max_nofile (new_file d) True t)"

definition sys_pidfd_getfd ::
    "'t flat_ops \<Rightarrow> nat \<Rightarrow> (i32 \<Rightarrow> 't \<Rightarrow> pid outcome) \<Rightarrow> (pid \<Rightarrow> 't) \<Rightarrow> i32 \<Rightarrow> i32
      \<Rightarrow> ('w, 'p, 'g, 'e, 'z) kernel_scheme \<Rightarrow> 't \<Rightarrow> 't \<times> int outcome" where
  "sys_pidfd_getfd fo max_nofile from_fd table_of pidfd target_fd k t =
     (case from_fd pidfd t of
        Inl e \<Rightarrow> (t, Inl e)
      | Inr p \<Rightarrow>
          (case pidfd_process_data p k of
             Inl e \<Rightarrow> (t, Inl e)
           | Inr d \<Rightarrow>
               (case fo_get fo (table_of d) (fd_index target_fd) of
                  None \<Rightarrow> (t, Fail BadFileDescriptor)
                | Some f \<Rightarrow> add_file_like fo max_nofile (fd_inner f) True t)))"

definition sys_pidfd_send_signal ::
    "('w, 'p, 'g, 'e) kernel_ops \<Rightarrow> ('m, 'a) sig_mem \<Rightarrow> (i32 \<Rightarrow> pid outcome) \<Rightarrow> tid \<Rightarrow> i32 \<Rightarrow> u32 \<Rightarrow> addr \<Rightarrow> u32
      \<Rightarrow> ('w, 'p, 'g, 'e, 'm, 'q) user_kernel \<Rightarrow> ('w, 'p, 'g, 'e, 'm, 'q) user_kernel \<times> int outcome" where
  "sys_pidfd_send_signal ops gm from_fd cur pidfd signo sig flags k =
     (if flags \<noteq> 0 then (k, Fail InvalidInput)
      else case from_fd pidfd of
        Inl e \<Rightarrow> (k, Inl e)
      | Inr p0 \<Rightarrow>
          (case pidfd_process_data p0 k of
             Inl e \<Rightarrow> (k, Inl e)
           | Inr p \<Rightarrow>
               (case make_queue_signal_info ops gm cur p signo sig k of
                  Inl e \<Rightarrow> (k, Inl e)
                | Inr s \<Rightarrow> (let (k', r) = send_signal_to_process ops cur p s k in (k', map_sum id (\<lambda>_. 0) r)))))"

subsection \<open>The robust list of a thread\<close>

definition sys_get_robust_list ::
    "('w, 'p, 'g, 'e) kernel_ops \<Rightarrow> (addr \<Rightarrow> nat \<Rightarrow> 'm \<Rightarrow> 'm \<times> unit outcome) \<Rightarrow> tid \<Rightarrow> tid \<Rightarrow> addr \<Rightarrow> addr
      \<Rightarrow> ('w, 'p, 'g, 'e, 'm, 'q) user_kernel \<Rightarrow> ('w, 'p, 'g, 'e, 'm, 'q) user_kernel \<times> int outcome" where
  "sys_get_robust_list ops put cur t head sz k =
     (case get_task ops cur t k of
        Inl e \<Rightarrow> (k, Inl e)
      | Inr task \<Rightarrow>
          (case as_thread k task of
             Inl e \<Rightarrow> (k, Inl e)
           | Inr th \<Rightarrow>
               (case put head (th_robust_list_head th) (k_mem k) of
                  (m, Inl e) \<Rightarrow> (k\<lparr>k_mem := m\<rparr>, Inl e)
                | (m, Inr _) \<Rightarrow> (let (m', r) = put sz 24 m in (k\<lparr>k_mem := m'\<rparr>, map_sum id (\<lambda>_. 0) r)))))"

definition sys_set_robust_list ::
    "tid \<Rightarrow> addr \<Rightarrow> usize \<Rightarrow> ('w, 'p, 'g, 'e, 'z) kernel_scheme \<Rightarrow> ('w, 'p, 'g, 'e, 'z) kernel_scheme \<times> int outcome" where
  "sys_set_robust_list cur head sz k =
     (if sz \<noteq> 24 then (k, Fail InvalidInput)
      else case as_thread k cur of
        Inl e \<Rightarrow> (k, Inl e)
      | Inr th \<Rightarrow> (k\<lparr>k_threads := (k_threads k)(cur \<mapsto> th\<lparr>th_robust_list_head := head\<rparr>)\<rparr>, Ok 0))"

end
