(* ===== verification/Exit_Props.thy ===== *)
theory Exit_Props
  imports Exit Futex_Props Shm_Theorems
begin

section \<open>Properties of exit\<close>

text \<open>
  The robust list of a thread that ends is worked off completely when it has less than 2048 entries, and the walk
  ends whatever the list looks like. \<open>do_exit\<close> keeps the invariants of the futexes and of shared memory and leaves
  no segment attached to a process that is gone.
\<close>

subsection \<open>One entry of the robust list\<close>

definition death_slot :: "(addr \<Rightarrow> (addr \<times> nat option) option) \<Rightarrow> pid \<Rightarrow> i64 \<Rightarrow> addr \<Rightarrow> futex_slot" where
  "death_slot find_area p offset a = futex_slot_of p (futex_key_new find_area (nat (int a + offset)))"

definition death_addr_ok :: "i64 \<Rightarrow> addr \<Rightarrow> bool" where
  "death_addr_ok offset a \<longleftrightarrow> 0 \<le> int a + offset \<and> int a + offset < 2 ^ 64"

text \<open>What the death of an owner does to the entry \<open>e\<close>: the flag is set and the first waiter is woken.\<close>

definition death_seen :: "futexes \<Rightarrow> futexes \<Rightarrow> tid list \<Rightarrow> nat \<Rightarrow> bool" where
  "death_seen st st' ts e \<longleftrightarrow>
     fx_owner_dead (fx_store st' ! e)
     \<and> (case fx_wq (fx_store st ! e) of [] \<Rightarrow> True | (t, b) # q \<Rightarrow> b \<noteq> 0 \<longrightarrow> t \<in> set ts)"

definition dead_kept :: "futexes \<Rightarrow> futexes \<Rightarrow> bool" where
  "dead_kept st st' \<longleftrightarrow> length (fx_store st') = length (fx_store st)
     \<and> (\<forall>e < length (fx_store st). fx_owner_dead (fx_store st ! e) \<longrightarrow> fx_owner_dead (fx_store st' ! e))"

lemma guard_drop_frames [simp]:
  "fx_store (guard_drop e n st) = fx_store st" "fx_blocked (guard_drop e n st) = fx_blocked st"
  by (simp_all add: guard_drop_def guard_drop_remove_def)

lemma guard_drop_other:
  assumes "slot \<noteq> fx_slot (fx_store st ! e)"
  shows "futex_get slot (guard_drop e n st) = futex_get slot st"
  using assms by (simp add: guard_drop_def guard_drop_remove_def futex_get_def)

lemma first_waiter_woken: "b \<noteq> 0 \<Longrightarrow> t \<in> set (snd (wq_wake 1 (-1) ((t, b) # q)))"
  by (simp add: wq_wake_def split: prod.splits)

text \<open>The update of an entry that is found, before its guard is dropped.\<close>

definition death_mark :: "nat \<Rightarrow> futexes \<Rightarrow> futexes" where
  "death_mark e st = set_wq e (fst (wq_wake 1 (-1) (fx_wq (fx_store st ! e)))) (set_owner_dead e True st)"

lemma owner_dead_store:
  "length (fx_store (set_owner_dead e v st)) = length (fx_store st)"
  "fx_table (set_owner_dead e v st) = fx_table st"
  "d < length (fx_store st) \<Longrightarrow> fx_store (set_owner_dead e v st) ! d =
     (if d = e then (fx_store st ! e)\<lparr>fx_owner_dead := v\<rparr> else fx_store st ! d)"
  by (auto simp: set_owner_dead_def nth_list_update)

lemma death_mark_store:
  "length (fx_store (death_mark e st)) = length (fx_store st)"
  "fx_table (death_mark e st) = fx_table st"
  "d < length (fx_store st) \<Longrightarrow> d \<noteq> e \<Longrightarrow> fx_store (death_mark e st) ! d = fx_store st ! d"
  "e < length (fx_store st) \<Longrightarrow> fx_owner_dead (fx_store (death_mark e st) ! e)"
  "e < length (fx_store st) \<Longrightarrow> fx_slot (fx_store (death_mark e st) ! e) = fx_slot (fx_store st ! e)"
  by (simp_all add: death_mark_def set_wq_store owner_dead_store)

lemma death_mark_ok:
  assumes "futex_ok st" "entry_listed e st"
  shows "futex_ok (death_mark e st)" and "entry_listed e (death_mark e st)"
  unfolding death_mark_def using owner_dead_ok [OF assms(1)] assms(2)
  by (auto intro!: set_wq_ok simp: set_wq_listed)

lemma handle_futex_death_found:
  assumes "death_addr_ok offset a" "futex_get (death_slot find_area p offset a) st = Some e" "e < length (fx_store st)"
  shows "handle_futex_death find_area p a offset st =
    (let st1 = death_mark e st in (guard_drop e (blocked_on e st1) st1, snd (wq_wake 1 (-1) (fx_wq (fx_store st ! e))), Ok ()))"
  using assms
  by (auto simp: handle_futex_death_def death_addr_ok_def death_slot_def death_mark_def Let_def owner_dead_store
      split: prod.splits)

lemma handle_futex_death_spec:
  assumes ok: "futex_ok st" and a: "death_addr_ok offset a"
    and run: "handle_futex_death find_area p a offset st = (st1, ts, r)"
  shows "r = Ok () \<and> futex_ok st1 \<and> dead_kept st st1
    \<and> (\<forall>e. futex_get (death_slot find_area p offset a) st = Some e \<longrightarrow> death_seen st st1 ts e)
    \<and> (\<forall>slot e. slot \<noteq> death_slot find_area p offset a \<longrightarrow> futex_get slot st = Some e
         \<longrightarrow> futex_get slot st1 = Some e \<and> fx_wq (fx_store st1 ! e) = fx_wq (fx_store st ! e))"
proof (cases "futex_get (death_slot find_area p offset a) st")
  case None
  then show ?thesis
    using run ok a by (auto simp: handle_futex_death_def death_addr_ok_def death_slot_def dead_kept_def)
next
  case (Some e)
  have l: "entry_listed e st" and e: "e < length (fx_store st)" "fx_slot (fx_store st ! e) = death_slot find_area p offset a"
    using get_listed [OF ok Some] futex_okD(1,2) [OF ok Some [unfolded futex_get_def]] by simp_all
  note M = death_mark_store [of _ st] and run' = run [unfolded handle_futex_death_found [OF a Some e(1)] Let_def]
  have "dead_kept st st1" unfolding dead_kept_def using run' M(1,3,4) e(1) by (auto, metis)
  moreover have "death_seen st st1 ts e"
    using run' M(4) [OF e(1)] first_waiter_woken by (auto simp: death_seen_def split: list.splits)
  moreover have "futex_get slot st1 = Some d \<and> fx_wq (fx_store st1 ! d) = fx_wq (fx_store st ! d)"
    if "slot \<noteq> death_slot find_area p offset a" "futex_get slot st = Some d" for slot d
  proof -
    have d: "d < length (fx_store st)" "d \<noteq> e"
      using futex_okD(1,2) [OF ok that(2) [unfolded futex_get_def]] e(2) that(1) by auto
    have "slot \<noteq> fx_slot (fx_store (death_mark e st) ! e)" using M(5) [OF e(1)] e(2) that(1) by simp
    note same = guard_drop_other [OF this, of "blocked_on e (death_mark e st)"]
    then show ?thesis using run' that(2) M(2,3) d by (auto simp: futex_get_def)
  qed
  moreover have "futex_ok st1" using run' death_mark_ok [OF ok l] by (auto intro: guard_drop_ok(1))
  ultimately show ?thesis using run' Some by auto
qed

subsection \<open>The walk\<close>

text \<open>The entries \<open>es\<close> from \<open>x\<close> up to, and without, \<open>y\<close>.\<close>

fun robust_chain :: "(addr \<Rightarrow> addr outcome) \<Rightarrow> addr \<Rightarrow> addr list \<Rightarrow> addr \<Rightarrow> bool" where
  "robust_chain next_of x [] y = (x = y)"
| "robust_chain next_of x (a # es) y =
     (x = a \<and> a \<noteq> y \<and> (case next_of a of Inl _ \<Rightarrow> False | Inr n \<Rightarrow> robust_chain next_of n es y))"

text \<open>The deaths of all the entries but \<open>pending\<close> have been seen.\<close>

definition deaths_seen ::
    "(addr \<Rightarrow> (addr \<times> nat option) option) \<Rightarrow> pid \<Rightarrow> i64 \<Rightarrow> addr \<Rightarrow> addr list \<Rightarrow> futexes \<Rightarrow> futexes \<Rightarrow> tid list \<Rightarrow> bool" where
  "deaths_seen find_area p offset pending es st st' ts \<longleftrightarrow>
     (\<forall>a e. a \<in> set es \<and> a \<noteq> pending \<and> futex_get (death_slot find_area p offset a) st = Some e
        \<longrightarrow> death_seen st st' ts e)"

lemma dead_kept_refl [simp]: "dead_kept st st"
  by (simp add: dead_kept_def)

lemma dead_kept_trans: "dead_kept st st1 \<Longrightarrow> dead_kept st1 st2 \<Longrightarrow> dead_kept st st2"
  by (simp add: dead_kept_def)

lemma death_seen_later:
  assumes "death_seen st st1 ts e" "dead_kept st1 st2" "e < length (fx_store st1)"
  shows "death_seen st st2 (ts @ ts') e"
  using assms by (auto simp: death_seen_def dead_kept_def split: list.splits)

lemma deaths_seen_Cons:
  assumes ok: "futex_ok st" and a: "death_addr_ok offset a"
    and run: "handle_futex_death find_area p a offset st = (st1, ts, r)"
    and rest: "deaths_seen find_area p offset pending es st1 st2 ts'" and kept: "dead_kept st1 st2"
  shows "deaths_seen find_area p offset pending (a # es) st st2 (ts @ ts')"
  unfolding deaths_seen_def
proof (intro allI impI, elim conjE)
  fix b e
  let ?slot = "death_slot find_area p offset"
  assume b: "b \<in> set (a # es)" "b \<noteq> pending" "futex_get (?slot b) st = Some e"
  note S = handle_futex_death_spec [OF ok a run]
  have e: "e < length (fx_store st1)"
    using futex_okD(1) [OF ok b(3) [unfolded futex_get_def]] S by (simp add: dead_kept_def)
  show "death_seen st st2 (ts @ ts') e"
  proof (cases "?slot b = ?slot a")
    case True
    then have "death_seen st st1 ts e" using S b(3) by simp
    then show ?thesis using kept e by (rule death_seen_later)
  next
    case False
    then have g: "futex_get (?slot b) st1 = Some e" "fx_wq (fx_store st1 ! e) = fx_wq (fx_store st ! e)"
      using b(3) S by blast+
    moreover have "b \<in> set es" using b(1) False by auto
    ultimately have "death_seen st1 st2 ts' e" using rest b(2) unfolding deaths_seen_def by blast
    then show ?thesis using g(2)
      by (auto simp: death_seen_def split: list.splits)
  qed
qed

lemma robust_loop_chain:
  assumes "futex_ok st" "robust_chain next_of x es y" "length es < limit" "\<forall>a\<in>set es. death_addr_ok offset a"
  shows "\<exists>st' ts. robust_loop find_area p next_of y offset pending limit x st = (st', ts, Ok ())
    \<and> futex_ok st' \<and> dead_kept st st' \<and> deaths_seen find_area p offset pending es st st' ts"
  using assms
proof (induction es arbitrary: st x limit)
  case Nil
  then show ?case by (cases limit) (auto simp: deaths_seen_def)
next
  case (Cons a es)
  obtain n where x: "x = a" "a \<noteq> y" "next_of a = Ok n" "robust_chain next_of n es y"
    using Cons.prems(2) by (auto split: sum.splits)
  obtain l where l: "limit = Suc l" "length es < l" "l \<noteq> 0" using Cons.prems(3) by (cases limit) auto
  have ae: "death_addr_ok offset a" "\<forall>b\<in>set es. death_addr_ok offset b" using Cons.prems(4) by auto
  show ?case
  proof (cases "a = pending")
    case True
    from Cons.IH [OF Cons.prems(1) x(4) l(2) ae(2)] True x l show ?thesis
      by (auto simp: deaths_seen_def)
  next
    case False
    obtain st1 ts r where run: "handle_futex_death find_area p a offset st = (st1, ts, r)" by (metis prod_cases3)
    note S = handle_futex_death_spec [OF Cons.prems(1) ae(1) run]
    from S Cons.IH [OF _ x(4) l(2) ae(2), of st1] obtain st2 ts' where
      rest: "robust_loop find_area p next_of y offset pending l n st1 = (st2, ts', Ok ())"
      "futex_ok st2" "dead_kept st1 st2" "deaths_seen find_area p offset pending es st1 st2 ts'" by blast
    have "dead_kept st st2" using S rest(3) dead_kept_trans by blast
    with rest deaths_seen_Cons [OF Cons.prems(1) ae(1) run rest(4,3)] S run x l False show ?thesis by auto
  qed
qed

text \<open>Whatever the list looks like, the walk ends, and after 2048 entries at the latest.\<close>

lemma robust_loop_long:
  assumes "length es = limit" "0 < limit" "\<forall>a\<in>set es. a \<noteq> y \<and> death_addr_ok offset a" "es ! 0 = x"
    and "\<And>i. i < limit \<Longrightarrow> \<exists>n. next_of (es ! i) = Ok n \<and> (Suc i < limit \<longrightarrow> es ! Suc i = n)" "futex_ok st"
  shows "snd (snd (robust_loop find_area p next_of y offset pending limit x st)) = Fail FilesystemLoop"
  using assms
proof (induction limit arbitrary: es x st)
  case (Suc l)
  obtain a bs where es: "es = a # bs" using Suc.prems(1) by (cases es) auto
  obtain n where n: "next_of a = Ok n" "l \<noteq> 0 \<longrightarrow> bs ! 0 = n" using Suc.prems(5) [of 0] es by auto
  obtain st1 ts r where run: "(if a \<noteq> pending then handle_futex_death find_area p a offset st else (st, [], Ok ())) = (st1, ts, r)"
    by (metis prod_cases3)
  have st1: "r = Ok ()" "futex_ok st1"
    using run Suc.prems(3,6) es handle_futex_death_spec [of st offset a find_area p st1 ts r] by (auto split: if_splits)
  have next_bs: "\<exists>n. next_of (bs ! i) = Ok n \<and> (Suc i < l \<longrightarrow> bs ! Suc i = n)" if "i < l" for i
    using Suc.prems(5) [of "Suc i"] that es by simp
  have "snd (snd (robust_loop find_area p next_of y offset pending l n st1)) = Fail FilesystemLoop" if "l \<noteq> 0"
    using Suc.IH [of bs n st1] Suc.prems(1,3) es n next_bs st1(2) that by auto
  then show ?case using Suc.prems(3,4) es n run st1 by (auto split: prod.splits)
qed simp

lemma handle_futex_death_no_panic: "snd (snd (handle_futex_death find_area p a offset st)) \<noteq> Panicked"
  by (simp add: handle_futex_death_def Let_def split: option.splits prod.splits)

lemma robust_loop_no_panic:
  assumes "0 < limit" "\<And>a. next_of a \<noteq> Panicked"
  shows "snd (snd (robust_loop find_area p next_of y offset pending limit x st)) \<noteq> Panicked"
  using assms(1)
proof (induction limit arbitrary: x st)
  case (Suc l)
  obtain st1 ts r where run: "(if x \<noteq> pending then handle_futex_death find_area p x offset st else (st, [], Ok ())) = (st1, ts, r)"
    by (metis prod_cases3)
  have r: "r \<noteq> Panicked" using run handle_futex_death_no_panic [of find_area p x offset st] by (auto split: if_splits)
  have "snd (snd (robust_loop find_area p next_of y offset pending l n st1)) \<noteq> Panicked" if "l \<noteq> 0" for n
    using Suc.IH that by simp
  note rest = this
  show ?case
  proof (cases "next_of x")
    case (Inl e)
    then show ?thesis using assms(2) [of x] by simp
  next
    case (Inr n)
    then show ?thesis unfolding robust_loop.simps run using r rest [of n] by (cases r) (auto split: prod.splits)
  qed
qed simp

text \<open>C15: When a thread ends, \<open>exit_robust_list\<close> walks the whole robust list of the thread if it has less than 2048
  entries: every futex that an entry other than the pending one stands for is marked with the death of its owner,
  its first waiter is woken, and the tables of the futexes stay consistent.\<close>

theorem robust_list_handled:
  assumes "futex_ok st" "um_read_head mo head m = Ok (x, offset, pending)"
    and "robust_chain (\<lambda>a. um_read_next mo a m) x es head" "length es < 2048" "\<forall>a\<in>set es. death_addr_ok offset a"
  shows "\<exists>st' ts. exit_robust_list mo p head m st = (st', ts, Ok ()) \<and> futex_ok st'
    \<and> deaths_seen (um_find_area mo m) p offset pending es st st' ts"
  using robust_loop_chain [OF assms(1,3) _ assms(5), of ROBUST_LIST_LIMIT "um_find_area mo m" p pending] assms(2,4)
  by (auto simp: exit_robust_list_def ROBUST_LIST_LIMIT_def)

subsection \<open>\<open>do_exit\<close>\<close>

text \<open>Signals and events touch neither the threads nor the memory, futexes and segments of a state.\<close>

definition keeps_user :: "('w, 'p, 'g, 'e, 'z) kernel_scheme \<Rightarrow> ('w, 'p, 'g, 'e, 'z) kernel_scheme \<Rightarrow> bool" where
  "keeps_user k k' \<longleftrightarrow> kernel.more k' = kernel.more k \<and> k_threads k' = k_threads k"

lemma keeps_user_refl [simp]: "keeps_user k k"
  by (simp add: keeps_user_def)

lemma keeps_user_trans: "keeps_user k k1 \<Longrightarrow> keeps_user k1 k2 \<Longrightarrow> keeps_user k k2"
  by (simp add: keeps_user_def)

lemma send_thread_keeps: "keeps_user k (fst (send_signal_to_thread ops cur tgid t sig k))"
  by (auto simp: keeps_user_def send_signal_to_thread_def send_signal_thread_inner_def interrupt_def Let_def
      split: sum.splits option.splits prod.splits)

lemma send_process_keeps: "keeps_user k (fst (send_signal_to_process ops cur q sig k))"
  by (auto simp: keeps_user_def send_signal_to_process_def send_signal_process_inner_def interrupt_def Let_def
      split: sum.splits option.splits prod.splits)

lemma wake_keeps: "keeps_user k (wake_child_exit ops q k)" "keeps_user k (wake_exit ops q k)"
  by (auto simp: keeps_user_def wake_child_exit_def wake_exit_def Let_def split: option.splits prod.splits)

lemma notify_keeps: "keeps_user k (notify_parent ops cur exit_signal parent k)"
  unfolding notify_parent_def Let_def
  by (auto split: option.splits sum.splits intro: send_process_keeps wake_keeps keeps_user_trans)

lemma fold_keeps:
  assumes "\<And>x k. keeps_user k (f x k)"
  shows "keeps_user k (fold f xs k)"
  by (induction xs arbitrary: k) (auto intro: keeps_user_trans [OF assms])

lemma exit_group_keeps: "keeps_user k (exit_group ops cur p k)"
proof -
  let ?k = "k\<lparr>k_proc := po_group_exit ops p (k_proc k)\<rparr>"
  have "keeps_user k ?k" by (simp add: keeps_user_def)
  then show ?thesis unfolding exit_group_def Let_def
    by (auto intro: keeps_user_trans fold_keeps send_thread_keeps)
qed

lemma keeps_userD:
  fixes k :: "('w, 'p, 'g, 'e, 'm, 'q) user_kernel"
  assumes "keeps_user k k'"
  shows "k_futex k' = k_futex k" "k_shm k' = k_shm k" "k_mem k' = k_mem k" "k_threads k' = k_threads k"
  using assms by (cases k; cases k'; simp add: keeps_user_def)+

lemma robust_loop_ok:
  "futex_ok st \<Longrightarrow> futex_ok (fst (robust_loop find_area p next_of y offset pending limit x st))"
proof (induction limit arbitrary: x st)
  case (Suc l)
  obtain st1 ts r where run: "(if x \<noteq> pending then handle_futex_death find_area p x offset st else (st, [], Ok ())) = (st1, ts, r)"
    by (metis prod_cases3)
  have "futex_ok st1"
    using run Suc.prems handle_futex_death_spec [of st offset x find_area p st1 ts r]
    by (cases "death_addr_ok offset x") (auto simp: handle_futex_death_def death_addr_ok_def split: if_splits)
  then show ?case unfolding robust_loop.simps run using Suc.prems Suc.IH
    by (auto split: sum.splits prod.splits) (metis fst_conv)+
qed simp

lemma exit_robust_frames:
  "k_shm (exit_robust mo th k) = k_shm k" "k_threads (exit_robust mo th k) = k_threads k"
  "k_proc (exit_robust mo th k) = k_proc k" "futex_ok (k_futex k) \<Longrightarrow> futex_ok (k_futex (exit_robust mo th k))"
  using robust_loop_ok [of "k_futex k"]
  by (auto simp: exit_robust_def exit_robust_list_def split: prod.splits sum.splits) (metis fst_conv)

lemma clear_child_frames:
  "k_shm (clear_child mo th k) = k_shm k" "k_threads (clear_child mo th k) = k_threads k"
  "k_proc (clear_child mo th k) = k_proc k" "futex_ok (k_futex k) \<Longrightarrow> futex_ok (k_futex (clear_child mo th k))"
  using futex_wake_ok [of "k_futex k"]
  by (auto simp: clear_child_def Let_def split: prod.splits sum.splits)

lemma exit_process_clean:
  assumes "shm_ok (n, k_shm k)"
  shows "\<exists>k'. exit_process ops now cur p k = (k', Ok ()) \<and> k_futex k' = k_futex k \<and> k_threads k' = k_threads k
    \<and> shm_ok (n, k_shm k') \<and> (\<forall>i. attached_at p i (k_shm k') = None \<and> find_vaddr_by_shmid p i (k_shm k') = None)"
proof -
  let ?k1 = "k\<lparr>k_proc := po_exit ops p (k_proc k)\<rparr>"
  let ?sig = "case k_data ?k1 p of None \<Rightarrow> None | Some d \<Rightarrow> pd_exit_signal d"
  let ?k2 = "case po_parent ops (k_proc ?k1) p of None \<Rightarrow> ?k1 | Some parent \<Rightarrow> notify_parent ops cur ?sig parent ?k1"
  let ?k3 = "wake_exit ops p ?k2"
  have "keeps_user ?k1 ?k2" by (auto split: option.splits intro: notify_keeps)
  then have "keeps_user ?k1 ?k3" using wake_keeps(2) by (rule keeps_user_trans)
  note same = keeps_userD [OF this]
  obtain sm where "clear_proc_shm now p (k_shm ?k3) = Ok sm" "shm_ok (n, sm)"
    "\<forall>i. attached_at p i sm = None \<and> find_vaddr_by_shmid p i sm = None"
    using clear_proc_shm_ok [of n "k_shm ?k3" now p] assms same(2) by auto
  then show ?thesis using same by (simp add: exit_process_def Let_def)
qed

text \<open>C12: \<open>do_exit\<close> of a thread in a consistent state never panics. It keeps the futexes and the shared memory tables
  consistent, marks the thread as exiting, and when the thread was the last one of its process no segment stays
  attached to the process; otherwise shared memory is left alone.\<close>

theorem do_exit_cleans:
  assumes "k_threads k cur = Some th" "futex_ok (k_futex k)" "shm_ok (n, k_shm k)"
  shows "\<exists>k'. do_exit ops mo now cur code grp k = (k', Ok ()) \<and> futex_ok (k_futex k') \<and> shm_ok (n, k_shm k')
    \<and> (\<exists>th'. k_threads k' cur = Some th' \<and> th_exit th')
    \<and> (if snd (po_exit_thread ops (th_pid th) cur code (k_proc k))
        then \<forall>i. attached_at (th_pid th) i (k_shm k') = None \<and> find_vaddr_by_shmid (th_pid th) i (k_shm k') = None
        else k_shm k' = k_shm k)"
proof -
  let ?p = "th_pid th"
  let ?k1 = "exit_robust mo th (clear_child mo th k)"
  have F: "k_shm ?k1 = k_shm k" "k_threads ?k1 = k_threads k" "k_proc ?k1 = k_proc k" "futex_ok (k_futex ?k1)"
    using assms(2) by (simp_all add: exit_robust_frames clear_child_frames)
  obtain ps lst where x: "po_exit_thread ops ?p cur code (k_proc ?k1) = (ps, lst)" by fastforce
  let ?k2 = "?k1\<lparr>k_proc := ps\<rparr>"
  obtain k3 where k3: "(if lst then exit_process ops now cur ?p ?k2 else (?k2, Ok ())) = (k3, Ok ())"
    "futex_ok (k_futex k3)" "shm_ok (n, k_shm k3)" "k_threads k3 = k_threads k"
    "if lst then \<forall>i. attached_at ?p i (k_shm k3) = None \<and> find_vaddr_by_shmid ?p i (k_shm k3) = None
     else k_shm k3 = k_shm k"
    using exit_process_clean [of n ?k2 ops now cur ?p] F assms by (cases lst) auto
  let ?k4 = "if grp then exit_group ops cur ?p k3 else k3"
  have "keeps_user k3 ?k4" by (simp add: exit_group_keeps)
  note same = keeps_userD [OF this]
  have "do_exit ops mo now cur code grp k = (set_exit cur ?k4, Ok ())"
    using assms(1) x k3(1) by (simp add: do_exit_def as_thread_def Let_def)
  then show ?thesis using k3 same x F assms(1) by (auto simp: set_exit_def)
qed

subsection \<open>A concrete kernel\<close>

text \<open>
  Instances for the witnesses: tables are association lists whose dead objects a lookup hides, a poll set is the list of the tasks
  registered in it, the signal state is the list of what was sent, and the state of the processes is the set of live
  threads of each process.
\<close>

definition plain_ops :: "((nat \<times> nat) list, pid \<Rightarrow> tid list, (pid \<times> siginfo) list, tid list) kernel_ops" where
  "plain_ops =
     \<lparr>wk_get = (\<lambda>al m k. case map_of m k of None \<Rightarrow> None | Some v \<Rightarrow> if al v then Some v else None),
      wk_insert = (\<lambda>k v m. (k, v) # m),
      wk_values = (\<lambda>al m. filter al (map (\<lambda>k. the (map_of m k)) (map fst m))),
      wk_cleanup = (\<lambda>al m. m),
      po_parent = (\<lambda>ps p. if p = 1 then None else Some 1), po_children = (\<lambda>ps p. if p = 1 then [2, 3] else []),
      po_group = (\<lambda>ps p. 1), po_pgid = (\<lambda>g. g), po_session = (\<lambda>ps g. 1), po_sid = (\<lambda>s. s),
      po_group_alive = (\<lambda>ps g. g = 1), po_session_alive = (\<lambda>ps s. s = 1), po_processes = (\<lambda>ps g. [1, 2]),
      po_threads = (\<lambda>ps p. ps p), po_is_init = (\<lambda>ps p. p = 1), po_is_zombie = (\<lambda>ps p. ps p = []),
      po_exit_code = (\<lambda>ps p. 0), po_is_group_exited = (\<lambda>ps p. ps p = []), po_free = (\<lambda>p ps. Ok ps),
      po_exit_thread = (\<lambda>p t code ps. (ps(p := removeAll t (ps p)), removeAll t (ps p) = [])),
      po_exit = (\<lambda>p ps. ps), po_group_exit = (\<lambda>p ps. ps), po_add_thread = (\<lambda>p t ps. ps(p := t # ps p)),
      po_fork = (\<lambda>p q ps. ps), po_create_session = (\<lambda>p ps. (ps, None)), po_create_group = (\<lambda>p ps. ps),
      po_move_to_group = (\<lambda>p g ps. (ps, True)),
      sg_send_thread = (\<lambda>t s g. (g @ [(t, s)], True)), sg_send_process = (\<lambda>p s g. (g @ [(p, s)], Some p)),
      sg_from_repr = (\<lambda>n. if 0 < n \<and> n < 65 then Some n else None),
      sg_new_kernel = (\<lambda>n. \<lparr>si_signo = n, si_code = 128, si_rest = 0\<rparr>),
      sg_new_user = (\<lambda>n c p. \<lparr>si_signo = n, si_code = c, si_rest = p\<rparr>),
      ps_register = (\<lambda>t e. e @ [t]), ps_wake = (\<lambda>e. ([], e))\<rparr>"

lemma alist_values:
  fixes m :: "(nat \<times> nat) list"
  shows "v \<in> set (filter al (map (\<lambda>k. the (map_of m k)) (map fst m))) \<longleftrightarrow> (\<exists>k. map_of m k = Some v \<and> al v)"
proof -
  have "v \<in> set (map (\<lambda>k. the (map_of m k)) (map fst m)) \<longleftrightarrow> (\<exists>k\<in>dom (map_of m). v = the (map_of m k))"
    by (auto simp: dom_map_of_conv_image_fst)
  also have "\<dots> \<longleftrightarrow> (\<exists>k. map_of m k = Some v)" by force
  finally show ?thesis by auto
qed

lemma alive_lookup:
  "(case x of None \<Rightarrow> None | Some w \<Rightarrow> if al w then Some w else None) = Some v \<longleftrightarrow> x = Some v \<and> al v"
  by (auto split: option.splits)

lemma plain_weak_ok: "weak_ok plain_ops"
proof -
  have fields: "wk_get plain_ops = (\<lambda>al m k. case map_of m k of None \<Rightarrow> None | Some v \<Rightarrow> if al v then Some v else None)"
    "wk_insert plain_ops = (\<lambda>k v m. (k, v) # m)" "wk_cleanup plain_ops = (\<lambda>al m. m)"
    "wk_values plain_ops = (\<lambda>al m. filter al (map (\<lambda>k. the (map_of m k)) (map fst m)))"
    by (simp_all add: plain_ops_def)
  show ?thesis
    unfolding weak_ok_def fields alive_lookup
    by (intro conjI allI set_eqI, simp_all only: alist_values mem_Collect_eq) (auto split: option.splits)
qed

text \<open>User memory with a robust list of one entry at 16, which belongs to the word at 4096, whose head is at 8, and no memory at 0.\<close>

definition plain_mem :: "unit mem_ops" where
  "plain_mem =
     \<lparr>um_read_head = (\<lambda>a m. if a = 8 then Ok (16, 4080, 0) else Fail BadAddress),
      um_read_next = (\<lambda>a m. if a = 16 then Ok 8 else Fail BadAddress),
      um_write_u32 = (\<lambda>a v m. (m, if a = 0 then Fail BadAddress else Ok ())), um_find_area = (\<lambda>m a. None)\<rparr>"

definition plain_kernel ::
    "((nat \<times> nat) list, pid \<Rightarrow> tid list, (pid \<times> siginfo) list, tid list, unit, nat) user_kernel" where
  "plain_kernel =
     \<lparr>k_proc = (\<lambda>p. if p = 5 then [5] else []), k_sig = [],
      k_threads = [5 \<mapsto> (thread_new 5)\<lparr>th_robust_list_head := 8\<rparr>], k_data = Map.empty,
      k_task_table = [(5, 5)], k_process_table = [], k_group_table = [], k_session_table = [],
      k_interrupted = [], k_woken = [], k_mem = (), k_futex = one_waiter, k_shm = shm_demo2\<rparr>"

lemma one_waiter_ok: "futex_ok one_waiter"
  by (simp add: futex_ok_def entry_listed_def one_waiter_value)

theorem robust_list_handled_witness:
  "\<exists>st' ts. exit_robust_list plain_mem 1 8 () one_waiter = (st', ts, Ok ())
     \<and> fx_owner_dead (fx_store st' ! 0) \<and> 7 \<in> set ts"
proof -
  have "futex_get (death_slot (um_find_area plain_mem ()) 1 4080 16) one_waiter = Some 0"
    by (simp add: death_slot_def futex_slot_of_def futex_key_new_def futex_table_for_def as_usize_def plain_mem_def
        futex_get_def one_waiter_value slot_a_def)
  moreover obtain st' ts where "exit_robust_list plain_mem 1 8 () one_waiter = (st', ts, Ok ())"
    "deaths_seen (um_find_area plain_mem ()) 1 4080 0 [16] one_waiter st' ts"
    using robust_list_handled [OF one_waiter_ok, of plain_mem 8 "()" 16 4080 0 "[16]" 1]
    by (auto simp: plain_mem_def death_addr_ok_def)
  ultimately show ?thesis by (auto simp: deaths_seen_def death_seen_def one_waiter_value)
qed

lemma shm_demo2_ok: "shm_ok (1, shm_demo2)"
  by (rule shm_steps_ok [OF shm_demo_steps shm_ok_init])

theorem do_exit_cleans_witness:
  "\<exists>k'. do_exit plain_ops plain_mem 9 5 0 True plain_kernel = (k', Ok ()) \<and> futex_ok (k_futex k')
     \<and> shm_ok (1, k_shm k') \<and> attached_at 5 0 (k_shm k') = None"
  using do_exit_cleans [of plain_kernel 5 "(thread_new 5)\<lparr>th_robust_list_head := 8\<rparr>" 1 plain_ops plain_mem 9 0 True]
  by (auto simp: plain_kernel_def plain_ops_def one_waiter_ok shm_demo2_ok thread_new_def)

end
