(* ===== verification/Signal_Props.thy ===== *)
theory Signal_Props
  imports Signal Exit_Props
begin

section \<open>Properties of signals\<close>

text \<open>
  A signal for a process group reaches the members in order, up to the first one whose data are gone.
  \<open>rt_sigtimedwait\<close> puts the mask back in every case it ends itself.
\<close>

subsection \<open>Process groups\<close>

definition data_listed :: "('w, 'p, 'g, 'e) kernel_ops \<Rightarrow> ('w, 'p, 'g, 'e, 'z) kernel_scheme \<Rightarrow> pid \<Rightarrow> bool" where
  "data_listed ops k p \<longleftrightarrow> wk_get ops (data_alive k) (k_process_table k) p = Some p"

text \<open>The numbers of the processes are keys of their own data, and none is 0.\<close>

definition members_ok :: "('w, 'p, 'g, 'e) kernel_ops \<Rightarrow> ('w, 'p, 'g, 'e, 'z) kernel_scheme \<Rightarrow> pid list \<Rightarrow> bool" where
  "members_ok ops k ps \<longleftrightarrow>
     (\<forall>p\<in>set ps. p \<noteq> 0 \<and> (data_listed ops k p \<or> wk_get ops (data_alive k) (k_process_table k) p = None))"

definition signals_sent :: "('w, 'p, 'g, 'e) kernel_ops \<Rightarrow> siginfo \<Rightarrow> pid list \<Rightarrow> 'g \<Rightarrow> 'g" where
  "signals_sent ops s = fold (\<lambda>p g. fst (sg_send_process ops p s g))"

lemma send_inner_effect:
  "k_sig (fst (send_signal_process_inner ops cur p s k)) = fst (sg_send_process ops p s (k_sig k))"
  "k_data (fst (send_signal_process_inner ops cur p s k)) = k_data k"
  "k_process_table (fst (send_signal_process_inner ops cur p s k)) = k_process_table k"
  by (auto simp: send_signal_process_inner_def interrupt_def Let_def split: prod.splits option.splits sum.splits)

lemma send_processes_effect:
  assumes "members_ok ops k ps"
  shows "\<exists>k'. send_signal_to_processes ops cur s ps k =
      (k', if \<forall>p\<in>set ps. data_listed ops k p then Ok () else Fail NoSuchProcess)
    \<and> k_sig k' = signals_sent ops s (takeWhile (data_listed ops k) ps) (k_sig k)"
  using assms
proof (induction ps arbitrary: k)
  case Nil
  then show ?case by (simp add: signals_sent_def)
next
  case (Cons p ps)
  have p: "p \<noteq> 0" using Cons.prems by (simp add: members_ok_def)
  show ?case
  proof (cases "data_listed ops k p")
    case True
    let ?k = "fst (send_signal_process_inner ops cur p s k)"
    have alive: "data_alive ?k = data_alive k" by (simp add: data_alive_def send_inner_effect fun_eq_iff)
    then have same: "data_listed ops ?k = data_listed ops k"
      by (intro ext) (simp add: data_listed_def send_inner_effect)
    have "members_ok ops ?k ps" using Cons.prems by (auto simp: members_ok_def same alive send_inner_effect)
    from Cons.IH [OF this] True p same show ?thesis
      by (auto simp: send_signal_to_process_def get_process_data_def data_listed_def signals_sent_def send_inner_effect)
  next
    case False
    then have "wk_get ops (data_alive k) (k_process_table k) p = None" using Cons.prems by (simp add: members_ok_def)
    with False p show ?thesis
      by (auto simp: send_signal_to_process_def get_process_data_def signals_sent_def)
  qed
qed

lemma neg_pid_group: "2 \<le> pgid \<Longrightarrow> pgid < 2 ^ 31 \<Longrightarrow> neg_pid (- int pgid) = pgid"
  by (simp add: neg_pid_def wrap_i32_def)

text \<open>C20: \<open>kill\<close> with a negative number sends the signal to the processes of that group in order. All of them get it,
  and the call succeeds, if the data of all of them are still there; the first process whose data are gone, such as
  one that has ended and was not waited for, ends the loop with an error and the rest of the group gets nothing.\<close>

theorem kill_group_delivers:
  assumes "k_threads k cur = Some th" "signo \<noteq> 0" "sg_from_repr ops (unat signo mod 256) = Some n"
    and "2 \<le> pgid" "pgid < 2 ^ 31" "get_process_group ops pgid k = Ok pg"
    and "members_ok ops k (po_processes ops (k_proc k) pg)"
  shows "\<exists>k'. sys_kill ops cur (- int pgid) signo k =
      (k', if \<forall>p\<in>set (po_processes ops (k_proc k) pg). data_listed ops k p then Ok 0 else Fail NoSuchProcess)
    \<and> k_sig k' = signals_sent ops (sg_new_user ops n SI_USER (th_pid th))
        (takeWhile (data_listed ops k) (po_processes ops (k_proc k) pg)) (k_sig k)"
proof -
  have sig: "make_siginfo ops cur signo SI_USER k = Ok (Some (sg_new_user ops n SI_USER (th_pid th)))"
    using assms(1-3) by (simp add: make_siginfo_def parse_signo_def as_thread_def)
  obtain k' where k': "send_signal_to_processes ops cur (sg_new_user ops n SI_USER (th_pid th))
      (po_processes ops (k_proc k) pg) k =
      (k', if \<forall>p\<in>set (po_processes ops (k_proc k) pg). data_listed ops k p then Ok () else Fail NoSuchProcess)"
    "k_sig k' = signals_sent ops (sg_new_user ops n SI_USER (th_pid th))
        (takeWhile (data_listed ops k) (po_processes ops (k_proc k) pg)) (k_sig k)"
    using send_processes_effect [OF assms(7)] by blast
  have "sys_kill ops cur (- int pgid) signo k =
      (k', if \<forall>p\<in>set (po_processes ops (k_proc k) pg). data_listed ops k p then Ok 0 else Fail NoSuchProcess)"
    using assms(1,4,6) k'(1)
    by (simp add: sys_kill_def sig as_thread_def neg_pid_group [OF assms(4,5)] send_signal_to_process_group_def)
  with k'(2) show ?thesis by blast
qed

text \<open>In the concrete kernel the group 2 has the processes 1 and 2, and only the data of the first are alive.\<close>

definition group_ops :: "((nat \<times> nat) list, pid \<Rightarrow> tid list, (pid \<times> siginfo) list, tid list) kernel_ops" where
  "group_ops = plain_ops\<lparr>po_group_alive := (\<lambda>ps g. True), po_processes := (\<lambda>ps g. [1, 2, 3])\<rparr>"

definition group_kernel ::
    "((nat \<times> nat) list, pid \<Rightarrow> tid list, (pid \<times> siginfo) list, tid list, unit, nat) user_kernel" where
  "group_kernel =
     plain_kernel\<lparr>k_data := (\<lambda>p. if p = 1 \<or> p = 3 then Some (proc_data_new 0 (0, 0) [] [] [] 0 0 None) else None),
       k_process_table := [(1, 1), (2, 2), (3, 3)], k_group_table := [(2, 2)]\<rparr>"

theorem kill_group_delivers_witness:
  "\<exists>k'. sys_kill group_ops 5 (-2) 15 group_kernel = (k', Fail NoSuchProcess)
     \<and> k_sig k' = [(1, \<lparr>si_signo = 15, si_code = 0, si_rest = 5\<rparr>)]"
  using kill_group_delivers [of group_kernel 5 "(thread_new 5)\<lparr>th_robust_list_head := 8\<rparr>" 15 group_ops 15 2 2]
  by (simp add: group_kernel_def group_ops_def plain_kernel_def plain_ops_def get_process_group_def members_ok_def
      data_listed_def data_alive_def signals_sent_def SI_USER_def thread_new_def)

text \<open>A signal number is cut to its low byte before it is looked up.\<close>

lemma kill_truncates_signo: "parse_signo ops 265 = parse_signo ops 9"
  by (simp add: parse_signo_def)

text \<open>Signal 0 only asks whether the target exists.\<close>

lemma kill_probe_no_effect: "fst (sys_kill ops cur p 0 k) = k"
  by (simp add: sys_kill_def make_siginfo_def send_signal_to_process_def send_signal_to_process_group_def
      split: sum.splits)

text \<open>The flag of \<open>rt_sigreturn\<close> belongs to no thread: the turn of another thread consumes it and skips its signals.\<close>

lemma sigreturn_flag_taken_by_other:
  assumes "sys_rt_sigreturn so a (flag, u, k) = ((flag', u', k'), r)" and "a \<noteq> b"
  shows "user_turn ops mo so handle now b fuel Ret_interrupt (flag', v, k') =
    Some ((False, v, clear_interrupt b k'), Ok ())"
  using assms
  by (simp add: sys_rt_sigreturn_def block_next_signal_def user_turn_def fault_signo_def unblock_next_signal_def
      split: prod.splits)

subsection \<open>The mask of a waiting thread\<close>

text \<open>
  The manager of a thread holds the mask it was given without the signals \<open>keep\<close> that cannot be blocked, and returns
  the mask it had.
\<close>

definition mask_ok :: "('g, 'u, 'a) sig_ops \<Rightarrow> u64 \<Rightarrow> bool" where
  "mask_ok so keep \<longleftrightarrow>
     (\<forall>g t. so_blocked so g t AND NOT keep = so_blocked so g t)
     \<and> (\<forall>g t m. so_blocked so (fst (so_set_blocked so t m g)) t = m AND NOT keep
          \<and> snd (so_set_blocked so t m g) = so_blocked so g t)"

lemma mask_restored:
  "mask_ok so keep \<Longrightarrow> so_blocked so (fst (so_set_blocked so t (so_blocked so g0 t) g)) t = so_blocked so g0 t"
  by (simp add: mask_ok_def)

lemma clear_shmids_stops: "clear_shmids now p ids sm = Inl e \<Longrightarrow> e = Panic"
  by (induction ids arbitrary: sm) (auto simp: Let_def detach_process_def split: option.splits sum.splits if_splits)

lemma do_exit_stops: "snd (do_exit ops mo now cur code grp k) = Inl e \<Longrightarrow> e = Panic"
  using clear_shmids_stops
  by (fastforce simp: do_exit_def exit_process_def clear_proc_shm_def as_thread_def Let_def
      split: option.splits sum.splits prod.splits if_splits)

lemma check_signals_stops:
  assumes "check_signals ops mo so now cur restore uk = (uk', Inl e)"
  shows "e = Panic"
proof -
  have leave: "e = Panic" if "do_exit ops mo now cur code True k1 = (k2, r)" "map_sum id (\<lambda>_. True) r = Inl e" for code k1 k2 r
    using do_exit_stops [of ops mo now cur code True k1 e] that by (cases r) auto
  show ?thesis
    using assms
    by (auto simp: check_signals_def Let_def split: option.splits prod.splits os_action.splits dest: leave)
qed

lemma sigwait_polls_mask:
  assumes "mask_ok so keep" "old = so_blocked so g0 cur"
    and "sigwait_polls ops mo so now cur s old steps uk = (uk', res)"
  shows "(\<forall>sig. res = Wait_signal sig \<longrightarrow> so_blocked so (k_sig (snd uk')) cur = old)
    \<and> (\<forall>e. res = Wait_stop e \<longrightarrow> e = Panic)"
  using assms(3)
proof (induction steps arbitrary: uk)
  case (Cons step steps)
  obtain g d where d: "so_dequeue so cur s (k_sig (step (snd uk))) = (g, d)" by fastforce
  show ?case
  proof (cases d)
    case (Some sig)
    then show ?thesis using Cons.prems d mask_restored [OF assms(1)] assms(2) by auto
  next
    case None
    obtain uk1 r where c: "check_signals ops mo so now cur (Some old) (fst uk, (step (snd uk))\<lparr>k_sig := g\<rparr>) = (uk1, r)"
      by fastforce
    have "e = Panic" if "r = Inl e" for e using check_signals_stops c that by blast
    then show ?thesis using Cons.prems Cons.IH [of uk1] None d c
      by (auto simp: Let_def split: sum.splits bool.splits)
  qed
qed simp

lemma put_nullable_sig: "put_nullable put a x k1 = (k2, r) \<Longrightarrow> k_sig k2 = k_sig k1"
  by (auto simp: put_nullable_def split: if_splits prod.splits)

text \<open>C21: \<open>rt_sigtimedwait\<close> opens the mask of the thread for the signals it waits for, and puts it back: when the call
  reports a signal of the set, and when it times out, the mask is the one the thread had before, whatever the rest of
  the system did meanwhile.\<close>

theorem sigtimedwait_restores_mask:
  assumes "mask_ok so keep"
    and "sys_rt_sigtimedwait ops mo so gm now cur wait setp info timeout sz (u, k) = ((u', k'), r)"
    and "r = Fail WouldBlock \<or> (\<exists>n. r = Ok n \<and> n \<noteq> 0)"
  shows "so_blocked so (k_sig k') cur = so_blocked so (k_sig k) cur"
proof -
  let ?old = "so_blocked so (k_sig k) cur"
  have polls: "(\<forall>sig. res = Wait_signal sig \<longrightarrow> so_blocked so (k_sig (snd uk')) cur = ?old) \<and> (\<forall>e. res = Wait_stop e \<longrightarrow> e = Panic)"
    if "sigwait_polls ops mo so now cur s ?old steps uk = (uk', res)" for s steps uk uk' res
    by (rule sigwait_polls_mask [OF assms(1) refl that])
  show ?thesis
    using assms(2,3)
    by (auto simp: sys_rt_sigtimedwait_def Let_def mask_restored [OF assms(1)] split: sum.splits prod.splits
        sigwait_end.splits if_splits dest!: polls put_nullable_sig)
qed

text \<open>A signal state whose first element holds the last mask that was set; signal 10 is pending.\<close>

definition log_sig :: "((pid \<times> siginfo) list, nat, nat) sig_ops" where
  "log_sig =
     \<lparr>so_blocked = (\<lambda>g t. case g of [] \<Rightarrow> 0 | (p, s) # _ \<Rightarrow> of_nat (si_rest s)),
      so_set_blocked = (\<lambda>t m g. ((t, \<lparr>si_signo = 0, si_code = 0, si_rest = unat m\<rparr>) # g,
         case g of [] \<Rightarrow> 0 | (p, s) # _ \<Rightarrow> of_nat (si_rest s))),
      so_pending = (\<lambda>g t. 0x200), so_dequeue = (\<lambda>t m g. (g, Some \<lparr>si_signo = 10, si_code = 0, si_rest = 0\<rparr>)),
      so_check = (\<lambda>t r u g. (g, u, None)), so_restore = (\<lambda>t u g. (g, u)), so_stack = (\<lambda>g t. (0, 0)),
      so_set_stack = (\<lambda>t s g. g), so_action = (\<lambda>g p n. 0), so_set_action = (\<lambda>p n a g. g), so_retval = int,
      so_set_retval = (\<lambda>v u. u)\<rparr>"

definition log_mem :: "(unit, nat) sig_mem" where
  "log_mem =
     \<lparr>gm_get_set = (\<lambda>a m. Ok 0x200), gm_put_set = (\<lambda>a s m. (m, Ok ())), gm_get_action = (\<lambda>a m. Ok 0),
      gm_put_action = (\<lambda>a x m. (m, Ok ())), gm_get_info = (\<lambda>a m. Fail BadAddress), gm_put_info = (\<lambda>a s m. (m, Ok ())),
      gm_get_stack = (\<lambda>a m. Ok (0, 0)), gm_put_stack = (\<lambda>a s m. (m, Ok ())), gm_get_time = (\<lambda>a m. Fail BadAddress)\<rparr>"

definition log_kernel ::
    "((nat \<times> nat) list, pid \<Rightarrow> tid list, (pid \<times> siginfo) list, tid list, unit, nat) user_kernel" where
  "log_kernel = plain_kernel\<lparr>k_sig := [(5, \<lparr>si_signo = 0, si_code = 0, si_rest = 0x600\<rparr>)]\<rparr>"

theorem sigtimedwait_restores_mask_witness:
  "\<exists>u k'. sys_rt_sigtimedwait plain_ops plain_mem log_sig log_mem 0 5 (\<lambda>_. [id]) 64 0 0 8 (0, log_kernel) = ((u, k'), Ok 10)
     \<and> so_blocked log_sig (k_sig k') 5 = 0x600"
proof -
  have ok: "mask_ok log_sig 0" by (simp add: mask_ok_def log_sig_def)
  obtain u k' where run:
    "sys_rt_sigtimedwait plain_ops plain_mem log_sig log_mem 0 5 (\<lambda>_. [id]) 64 0 0 8 (0, log_kernel) = ((u, k'), Ok 10)"
    by (simp add: sys_rt_sigtimedwait_def check_sigset_size_def log_mem_def log_sig_def put_nullable_def Let_def)
  have "so_blocked log_sig (k_sig log_kernel) 5 = 0x600" by (simp add: log_sig_def log_kernel_def)
  with sigtimedwait_restores_mask [OF ok run] run show ?thesis by auto
qed

text \<open>The record of a signal descriptor has the fixed size, and starts with the number of the signal.\<close>

lemma signalfd_record:
  assumes "si_signo s < 2 ^ 32"
  shows "length (from_signal_info errno s) = 128" "le_value (take 4 (from_signal_info errno s)) = si_signo s"
  using assms le_value_bytes [of "si_signo s" 4] by (simp_all add: from_signal_info_def)

end
