(* ===== verification/Proc_Props.thy ===== *)
theory Proc_Props
  imports Proc Signal_Props Fd_Props
begin

section \<open>Properties of the process calls\<close>

text \<open>
  \<open>waitpid\<close> reports and frees the first matching child that has ended, but can miss the wakeup; \<open>clone\<close> registers the
  new task and gives it what the flags ask for; \<open>execve\<close> closes exactly the descriptors that are marked; the group
  that \<open>setsid\<close> makes is not in the table.
\<close>

subsection \<open>\<open>execve\<close>\<close>

lemma fold_remove_get:
  assumes "flat_ok fo cap"
  shows "fo_get fo (fold (\<lambda>i t'. fst (fo_remove fo i t')) is t) =
    (\<lambda>i. if i \<in> set is then None else fo_get fo t i)"
proof (induction "is" arbitrary: t)
  case (Cons j js)
  have "fo_get fo (fst (fo_remove fo j t)) = (fo_get fo t)(j := None)" using assms by (simp add: flat_ok_def)
  with Cons show ?case by (auto simp: fun_eq_iff)
qed simp

lemma close_cloexec_get:
  assumes "flat_ok fo AX_FILE_LIMIT"
  shows "fo_get fo (close_cloexec fo t) i =
    (case fo_get fo t i of None \<Rightarrow> None | Some f \<Rightarrow> if fd_cloexec f then None else Some f)"
proof -
  have "fo_get fo t i = None" if "AX_FILE_LIMIT \<le> i" using assms that by (simp add: flat_ok_def)
  then show ?thesis unfolding close_cloexec_def fold_remove_get [OF assms]
    by (auto simp: cloexec_fds_def not_less split: option.splits)
qed

text \<open>C19: When \<open>execve\<close> succeeds, exactly the descriptors marked close-on-exec are closed, the others stay the same;
  the signal actions are the default ones, the heap is empty, and the address that would be cleared at exit is
  forgotten. The robust list of the old program, however, stays registered.\<close>

theorem execve_effect:
  assumes "flat_ok fo AX_FILE_LIMIT" "k_threads k cur = Some th" "k_data k (th_pid th) = Some d"
    and "sys_execve ops xo fo da hb cur path args envs (k, xs) = ((k', xs'), Ok n)"
  shows "n = 0 \<and> xs_actions xs' = da
    \<and> (\<forall>i. fo_get fo (xs_fds xs') i =
         (case fo_get fo (xs_fds xs) i of None \<Rightarrow> None | Some f \<Rightarrow> if fd_cloexec f then None else Some f))
    \<and> (\<exists>th' d'. k_threads k' cur = Some th' \<and> th_clear_child_tid th' = 0 \<and> th_robust_list_head th' = th_robust_list_head th
         \<and> k_data k' (th_pid th) = Some d' \<and> pd_heap_top d' = hb \<and> pd_umask d' = pd_umask d)"
  using assms(2-4) close_cloexec_get [OF assms(1)]
  by (auto simp: sys_execve_def exec_commit_def as_thread_def Let_def split: sum.splits if_splits prod.splits)

text \<open>The address space is replaced before the last step that can fail.\<close>

lemma execve_late_failure:
  assumes "k_threads k cur = Some th" "length (po_threads ops (k_proc k) (th_pid th)) \<le> 1"
    and "xo_load_user_app xo p av ev (k_mem k) = (m, Ok entry)" "xo_resolve xo p = Fail NotFound"
  shows "sys_execve ops xo fo da hb cur (Ok p) (Ok av) (Ok ev) (k, xs) = ((k\<lparr>k_mem := m\<rparr>, xs), Fail NotFound)"
  using assms by (simp add: sys_execve_def as_thread_def Let_def)

subsection \<open>Waiting\<close>

text \<open>
  The report \<open>n\<close> of a look at the children in the state \<open>k0\<close>: the first child that has ended, or 0.
\<close>

definition wait_report ::
    "('w, 'p, 'g, 'e) kernel_ops \<Rightarrow> u32 \<Rightarrow> pid list \<Rightarrow> int \<Rightarrow> ('w, 'p, 'g, 'e, 'm, 'q) user_kernel
      \<Rightarrow> ('w, 'p, 'g, 'e, 'm, 'q) user_kernel \<Rightarrow> bool" where
  "wait_report ops options children n k0 k' \<longleftrightarrow>
     (case List.find (po_is_zombie ops (k_proc k0)) children of
        Some c \<Rightarrow> n = int c \<and> c \<in> set children \<and> po_is_zombie ops (k_proc k0) c
          \<and> (if has_flags options WNOWAIT then k_proc k' = k_proc k0 else po_free ops c (k_proc k0) = Ok (k_proc k'))
      | None \<Rightarrow> n = 0 \<and> k' = k0 \<and> has_flags options WNOHANG)"

lemma find_SomeD: "List.find P xs = Some x \<Longrightarrow> x \<in> set xs \<and> P x"
  by (induction xs) (auto split: if_splits)

lemma check_children_report:
  "check_children ops put a options children k = (k', Ok (Some n)) \<Longrightarrow> wait_report ops options children n k k'"
  by (auto simp: check_children_def wait_report_def put_nullable_def dest!: find_SomeD
      split: option.splits sum.splits if_splits prod.splits)

text \<open>
  What a wait that returns has seen: the state in which it looked at the children for the last time.
\<close>

lemma waitpid_polls_report:
  assumes "waitpid_polls ops put cur p a options children steps k = (k', Ok n)"
  shows "\<exists>k0. check_children ops put a options children k0 = (k', Ok (Some n))"
  using assms
proof (induction steps arbitrary: k)
  case (Cons st steps)
  obtain before between where st: "st = (before, between)" by fastforce
  obtain k1 r where c: "check_children ops put a options children (before k) = (k1, r)" by fastforce
  then show ?case
  proof (cases r)
    case (Inl e)
    then show ?thesis using Cons.prems st c by simp
  next
    case (Inr v)
    then show ?thesis using Cons st c by (cases v) auto
  qed
qed simp

text \<open>C16: \<open>waitpid\<close> fails with \<open>ECHILD\<close> when no child matches. A number it returns is 0, with \<open>WNOHANG\<close> and when
  no matching child has ended, or it is the first matching child that had ended, which is then freed unless
  \<open>WNOWAIT\<close> asks to keep it; whatever the rest of the system does between the polls.\<close>

theorem waitpid_reports_child:
  assumes "k_threads k cur = Some th" "sys_waitpid ops put cur steps p a options k = (k', r)"
  shows "(wait_children ops (k_proc k) (th_pid th) p = [] \<longrightarrow> r = Fail (LinuxErr ECHILD) \<and> k' = k)
    \<and> (\<forall>n. r = Ok n \<longrightarrow> (\<exists>k0. wait_report ops options (wait_children ops (k_proc k) (th_pid th) p) n k0 k'))"
proof -
  let ?ch = "wait_children ops (k_proc k) (th_pid th) p"
  have run: "(k', r) = (if ?ch = [] then (k, Fail (LinuxErr ECHILD))
      else waitpid_polls ops put cur (th_pid th) a options ?ch steps k)"
    using assms by (simp add: sys_waitpid_def as_thread_def Let_def)
  have "\<exists>k0. wait_report ops options ?ch n k0 k'" if "r = Ok n" for n
    using run that waitpid_polls_report [of ops put cur "th_pid th" a options ?ch steps k k' n] check_children_report
    by (fastforce split: if_splits)
  then show ?thesis using run by auto
qed

text \<open>A process 1 with the children 2 and 3; each has one thread.\<close>

definition family ::
    "((nat \<times> nat) list, pid \<Rightarrow> tid list, (pid \<times> siginfo) list, tid list, unit, nat) user_kernel" where
  "family =
     \<lparr>k_proc = (\<lambda>p. if p < 4 then [p] else []), k_sig = [], k_threads = [1 \<mapsto> thread_new 1, 2 \<mapsto> thread_new 2],
      k_data = (\<lambda>p. if p = 1 \<or> p = 2 then Some (proc_data_new 0 (0, 0) [] [] [] 0 0 None) else None),
      k_task_table = [(1, 1), (2, 2)], k_process_table = [(1, 1), (2, 2)], k_group_table = [], k_session_table = [],
      k_interrupted = [], k_woken = [], k_mem = (), k_futex = futexes_new, k_shm = shm_manager_new\<rparr>"

definition no_put :: "addr \<Rightarrow> int \<Rightarrow> unit \<Rightarrow> unit \<times> unit outcome" where
  "no_put a v m = (m, Ok ())"

definition child_ends ::
    "((nat \<times> nat) list, pid \<Rightarrow> tid list, (pid \<times> siginfo) list, tid list, unit, nat) user_kernel
      \<Rightarrow> ((nat \<times> nat) list, pid \<Rightarrow> tid list, (pid \<times> siginfo) list, tid list, unit, nat) user_kernel" where
  "child_ends k = fst (do_exit plain_ops plain_mem 9 2 0 False k)"

lemma child_ends_value:
  "child_ends family = family\<lparr>k_proc := (\<lambda>p. if p < 4 then [p] else [])(2 := []),
     k_threads := [1 \<mapsto> thread_new 1, 2 \<mapsto> (thread_new 2)\<lparr>th_exit := True\<rparr>]\<rparr>"
  by (simp add: child_ends_def family_def do_exit_def as_thread_def clear_child_def exit_robust_def thread_new_def
      plain_ops_def plain_mem_def exit_process_def notify_parent_def get_process_data_def wake_child_exit_def
      wake_exit_def clear_proc_shm_def get_shmids_by_pid_def remove_pid_def shm_manager_new_def set_exit_def
      data_alive_def proc_data_new_def Let_def fun_upd_twist bt_remove_def) (simp add: fun_eq_iff proc_data_new_def)


theorem waitpid_reports_child_witness:
  "\<exists>k' k0. sys_waitpid plain_ops no_put 1 [(child_ends, id)] (-1) 0 0 family = (k', Ok 2)
     \<and> wait_report plain_ops 0 [2, 3] 2 k0 k'"
proof -
  have ch: "wait_children plain_ops (k_proc family) (th_pid (thread_new 1)) (-1) = [2, 3]"
    by (simp add: wait_children_def wait_pid_of_def plain_ops_def thread_new_def)
  have th: "k_threads family 1 = Some (thread_new 1)" by (simp add: family_def)
  obtain k' where run: "sys_waitpid plain_ops no_put 1 [(child_ends, id)] (-1) 0 0 family = (k', Ok 2)"
    by (simp add: sys_waitpid_def as_thread_def th [simplified] ch [simplified] child_ends_value)
      (simp add: check_children_def plain_ops_def no_put_def put_nullable_def WNOHANG_def WNOWAIT_def has_flags_def)
  from waitpid_reports_child [OF th run] run ch show ?thesis by auto
qed

definition exec_demo_ops :: "(unit, nat) exec_ops" where
  "exec_demo_ops =
     \<lparr>xo_load_user_app = (\<lambda>p av ev m. (m, Ok (64, 128))), xo_resolve = (\<lambda>p. Ok (p, Ok (CHR ''/'' # p))),
      xo_set_ip_sp = (\<lambda>ip sp u. ip)\<rparr>"

definition exec_demo :: "(file_descriptor option list, nat, nat) exec_state" where
  "exec_demo =
     \<lparr>xs_name = ''sh'', xs_actions = 9,
      xs_fds = [Some \<lparr>fd_inner = 7, fd_cloexec = True\<rparr>, Some \<lparr>fd_inner = 8, fd_cloexec = False\<rparr>], xs_uctx = 0\<rparr>"

theorem execve_effect_witness:
  "\<exists>k' xs'. sys_execve plain_ops exec_demo_ops (slot_table AX_FILE_LIMIT) 0 4096 1 (Ok ''ls'') (Ok []) (Ok []) (family, exec_demo)
       = ((k', xs'), Ok 0)
     \<and> xs_actions xs' = 0 \<and> fo_get (slot_table AX_FILE_LIMIT) (xs_fds xs') 0 = None
     \<and> fo_get (slot_table AX_FILE_LIMIT) (xs_fds xs') 1 = Some \<lparr>fd_inner = 8, fd_cloexec = False\<rparr>"
proof -
  have th: "k_threads family 1 = Some (thread_new 1)" by (simp add: family_def)
  have d: "k_data family (th_pid (thread_new 1)) = Some (proc_data_new 0 (0, 0) [] [] [] 0 0 None)"
    by (simp add: family_def thread_new_def)
  obtain k' xs' where run: "sys_execve plain_ops exec_demo_ops (slot_table AX_FILE_LIMIT) 0 4096 1 (Ok ''ls'') (Ok []) (Ok [])
      (family, exec_demo) = ((k', xs'), Ok 0)"
    by (simp add: sys_execve_def as_thread_def th [simplified] plain_ops_def exec_demo_ops_def)
      (simp add: family_def exec_commit_def thread_new_def)
  have get: "fo_get (slot_table AX_FILE_LIMIT) (xs_fds exec_demo) 0 = Some \<lparr>fd_inner = 7, fd_cloexec = True\<rparr>"
    "fo_get (slot_table AX_FILE_LIMIT) (xs_fds exec_demo) 1 = Some \<lparr>fd_inner = 8, fd_cloexec = False\<rparr>"
    by (simp_all add: slot_table_def slot_get_def exec_demo_def AX_FILE_LIMIT_def)
  from execve_effect [OF slot_table_ok th d run] run get show ?thesis by auto
qed

subsection \<open>New tasks are registered\<close>

lemma weak_okD:
  assumes "weak_ok ops"
  shows "wk_get ops al m i = (case wk_get ops (\<lambda>_. True) m i of None \<Rightarrow> None | Some v \<Rightarrow> if al v then Some v else None)"
    "wk_get ops al (wk_insert ops i v m) j = (if j = i then if al v then Some v else None else wk_get ops al m j)"
  using assms unfolding weak_ok_def by blast+

lemma add_task_frames [simp]:
  "k_threads (add_task_to_table ops t p k) = k_threads k" "k_data (add_task_to_table ops t p k) = k_data k"
  "k_task_table (add_task_to_table ops t p k) = wk_insert ops t t (k_task_table k)"
  by (simp_all add: add_task_to_table_def Let_def)

lemma add_task_found:
  assumes "weak_ok ops" "t \<noteq> 0" "k_threads k t \<noteq> None"
  shows "get_task ops cur t (add_task_to_table ops t p k) = Ok t"
  using assms weak_okD(2) [OF assms(1)] by (simp add: get_task_def task_alive_def)

lemma add_process_found:
  assumes "weak_ok ops" "p \<noteq> 0" "k_data k p \<noteq> None" "wk_get ops (\<lambda>_. True) (k_process_table k) p = None"
  shows "get_process_data ops cur p (add_task_to_table ops t p k) = Ok p"
proof -
  have "wk_get ops al (k_process_table k) p = None" for al
    using weak_okD(1) [OF assms(1), of al "k_process_table k" p] assms(4) by simp
  then have "k_process_table (add_task_to_table ops t p k) = wk_insert ops p p (k_process_table k)"
    by (simp add: add_task_to_table_def Let_def)
  then show ?thesis using assms(2,3) weak_okD(2) [OF assms(1)] by (simp add: get_process_data_def data_alive_def)
qed

text \<open>What a new process gets from the data \<open>d\<close> of its creator.\<close>

definition inherits :: "('x, 'u) clone_ops \<Rightarrow> u32 \<Rightarrow> 'e proc_data \<Rightarrow> 'e proc_data \<Rightarrow> bool" where
  "inherits co f d d' \<longleftrightarrow>
     pd_umask d' = pd_umask d \<and> pd_heap_top d' = pd_heap_top d \<and> pd_exe_path d' = pd_exe_path d
     \<and> (if has_flags f CLONE_VM then pd_aspace d' = pd_aspace d
         else \<exists>y. snd (co_clone_aspace co (pd_aspace d) y) = Ok (pd_aspace d'))
     \<and> (if has_flags f CLONE_FILES then pd_fd_table d' = pd_fd_table d
         else \<exists>y. snd (co_copy_fds co (pd_fd_table d) y) = pd_fd_table d')
     \<and> (if has_flags f CLONE_SIGHAND then pd_actions d' = pd_actions d
         else \<exists>y. snd (co_copy_actions co (pd_actions d) y) = pd_actions d')"

lemma clone_process_new:
  assumes "clone_process ops co hb ev f exit_signal t self d (k, x) = ((k', x'), Ok p)"
  shows "p = t \<and> k_threads k' = k_threads k \<and> k_process_table k' = k_process_table k \<and> k_task_table k' = k_task_table k
    \<and> (\<exists>d'. k_data k' t = Some d' \<and> inherits co f d d')"
proof -
  obtain x1 ra where A: "(if has_flags f CLONE_VM then (x, Ok (pd_aspace d)) else co_clone_aspace co (pd_aspace d) x) = (x1, ra)"
    by fastforce
  obtain x2 ac where B: "(if has_flags f CLONE_SIGHAND then (x1, pd_actions d) else co_copy_actions co (pd_actions d) x1) = (x2, ac)"
    by fastforce
  obtain x3 fd where C: "(if has_flags f CLONE_FILES then (x2, pd_fd_table d) else co_copy_fds co (pd_fd_table d) x2) = (x3, fd)"
    by fastforce
  obtain x4 fs where D: "(if has_flags f CLONE_FS then (x3, pd_fs_context d) else co_copy_fs co (pd_fs_context d) x3) = (x4, fs)"
    by fastforce
  obtain asp where asp: "ra = Ok asp" using assms by (cases ra) (auto simp: clone_process_def A split: sum.splits)
  let ?d = "(proc_data_new hb (fd, fs) ev (pd_exe_path d) (pd_cmdline d) asp ac exit_signal)
    \<lparr>pd_umask := pd_umask d, pd_heap_top := pd_heap_top d\<rparr>"
  obtain ps where k': "p = t" "k' = k\<lparr>k_proc := ps, k_data := (k_data k)(t \<mapsto> ?d)\<rparr>"
    using assms by (auto simp: clone_process_def A [unfolded asp] B C D split: sum.splits)
  have "if has_flags f CLONE_VM then asp = pd_aspace d else \<exists>y. snd (co_clone_aspace co (pd_aspace d) y) = Ok asp"
    using A asp by (auto split: if_splits) (metis snd_conv)
  moreover have "if has_flags f CLONE_FILES then fd = pd_fd_table d else \<exists>y. snd (co_copy_fds co (pd_fd_table d) y) = fd"
    using C by (auto split: if_splits) (metis snd_conv)
  moreover have "if has_flags f CLONE_SIGHAND then ac = pd_actions d else \<exists>y. snd (co_copy_actions co (pd_actions d) y) = ac"
    using B by (auto split: if_splits) (metis snd_conv)
  ultimately have "inherits co f d ?d" by (simp add: inherits_def proc_data_new_def)
  with k' show ?thesis by simp
qed

lemma clone_pidfd_frames:
  assumes "clone_pidfd co put f p ptid (k, x) = ((k', x'), r)"
  shows "k_data k' = k_data k" "k_process_table k' = k_process_table k"
  using assms by (auto simp: clone_pidfd_def split: if_splits prod.splits sum.splits)

lemma clone_spawn_found:
  assumes "weak_ok ops" "t \<noteq> 0"
  shows "get_task ops cur t (clone_spawn ops f t p ctid k) = Ok t"
    and "map_option th_pid (k_threads (clone_spawn ops f t p ctid k) t) = Some p"
  unfolding clone_spawn_def Let_def by (rule add_task_found [OF assms]) (simp_all add: thread_new_def)

lemma clone_spawn_process:
  assumes "weak_ok ops" "t \<noteq> 0" "k_data k t \<noteq> None" "wk_get ops (\<lambda>_. True) (k_process_table k) t = None"
  shows "get_process_data ops cur t (clone_spawn ops f t t ctid k) = Ok t"
  unfolding clone_spawn_def Let_def by (rule add_process_found [OF assms(1,2)]) (use assms(3,4) in simp_all)


definition copy_ops :: "(nat, nat) clone_ops" where
  "copy_ops =
     \<lparr>co_clone_aspace = (\<lambda>a x. (x + 1, Ok (x + 100))), co_copy_actions = (\<lambda>a x. (x + 1, x + 100)),
      co_copy_fds = (\<lambda>a x. (x + 1, x + 100)), co_copy_fs = (\<lambda>a x. (x + 1, x + 100)), co_add_pidfd = (\<lambda>p x. (x, Ok 3)),
      co_set_sp = (\<lambda>a u. a), co_set_tls = (\<lambda>a u. u), co_set_retval = (\<lambda>v u. u)\<rparr>"


subsection \<open>New sessions\<close>

text \<open>
  \<open>create_session\<close> puts the process into a new group of its own number; the group is a new object, and no other group
  comes to life.
\<close>

definition session_ok :: "('w, 'p, 'g, 'e) kernel_ops \<Rightarrow> pid \<Rightarrow> ('w, 'p, 'g, 'e, 'z) kernel_scheme \<Rightarrow> bool" where
  "session_ok ops p k \<longleftrightarrow>
     (let (ps, s) = po_create_session ops p (k_proc k); g = po_group ops ps p in
      s \<noteq> None \<and> po_pgid ops g = p \<and> wk_get ops (\<lambda>_. True) (k_group_table k) p \<noteq> Some g
      \<and> (\<forall>h. po_group_alive ops ps h \<longrightarrow> h = g \<or> po_group_alive ops (k_proc k) h))"

text \<open>A process that has made a session with \<open>setsid\<close> cannot be signalled through its group. The new group is not
  entered into the table of the groups, so the number of the group is not found, and even \<open>kill(0, sig)\<close> of the
  process itself, which sends to the group of the caller, fails with \<open>ESRCH\<close>.\<close>

lemma setsid_group_unreachable:
  assumes "weak_ok ops" "k_threads k cur = Some th" "session_ok ops (th_pid th) k"
    and "sys_setsid ops cur k = (k', Ok sid)" "make_siginfo ops cur signo SI_USER k' = Ok sig"
  shows "get_process_group ops (th_pid th) k' = Fail NoSuchProcess \<and> sys_kill ops cur 0 signo k' = (k', Fail NoSuchProcess)"
proof -
  let ?p = "th_pid th"
  obtain ps s where c: "po_create_session ops ?p (k_proc k) = (ps, Some s)" using assms(3) by (auto simp: session_ok_def Let_def)
  have none: "wk_get ops (po_group_alive ops (k_proc k)) (k_group_table k) ?p = None" and k': "k' = k\<lparr>k_proc := ps\<rparr>"
    using assms(2,4) c by (auto simp: sys_setsid_def as_thread_def get_process_group_def ok_or_def split: option.splits)
  have "wk_get ops (po_group_alive ops ps) (k_group_table k) ?p = None"
    using assms(3) c none weak_okD(1) [OF assms(1), of "po_group_alive ops ps" "k_group_table k" ?p]
      weak_okD(1) [OF assms(1), of "po_group_alive ops (k_proc k)" "k_group_table k" ?p]
    by (auto simp: session_ok_def Let_def split: option.splits if_splits)
  then have g: "get_process_group ops ?p k' = Fail NoSuchProcess" by (simp add: get_process_group_def k')
  have "po_pgid ops (po_group ops ps ?p) = ?p" using assms(3) c by (simp add: session_ok_def Let_def)
  then have "sys_kill ops cur 0 signo k' = (k', Fail NoSuchProcess)"
    using assms(2,5) g by (simp add: sys_kill_def as_thread_def k' send_signal_to_process_group_def)
  with g show ?thesis by simp
qed

definition session_ops :: "((nat \<times> nat) list, pid \<Rightarrow> tid list, (pid \<times> siginfo) list, tid list) kernel_ops" where
  "session_ops =
     plain_ops\<lparr>po_create_session := (\<lambda>p ps. (ps, Some 2)), po_group := (\<lambda>ps p. 7), po_pgid := (\<lambda>g. if g = 7 then 2 else g)\<rparr>"

lemma setsid_group_unreachable_witness:
  "sys_setsid session_ops 2 family = (family, Ok 2) \<and> sys_kill session_ops 2 0 15 family = (family, Fail NoSuchProcess)"
proof -
  have "wk_get session_ops = wk_get plain_ops" "wk_insert session_ops = wk_insert plain_ops"
    "wk_values session_ops = wk_values plain_ops" "wk_cleanup session_ops = wk_cleanup plain_ops"
    by (simp_all add: session_ops_def)
  with plain_weak_ok have w: "weak_ok session_ops" unfolding weak_ok_def by metis
  have th: "k_threads family 2 = Some (thread_new 2)" by (simp add: family_def)
  have s: "session_ok session_ops (th_pid (thread_new 2)) family"
    by (simp add: session_ok_def session_ops_def plain_ops_def family_def thread_new_def)
  have run: "sys_setsid session_ops 2 family = (family, Ok 2)"
    by (simp add: sys_setsid_def as_thread_def th get_process_group_def session_ops_def plain_ops_def)
      (simp add: family_def)
  have m: "make_siginfo session_ops 2 15 SI_USER family = Ok (Some \<lparr>si_signo = 15, si_code = 0, si_rest = 2\<rparr>)"
    by (simp add: make_siginfo_def parse_signo_def as_thread_def th session_ops_def plain_ops_def SI_USER_def thread_new_def)
  from setsid_group_unreachable [OF w th s run m] run show ?thesis by simp
qed

end
