(* ===== verification/Fs_Ctl.thy ===== *)
theory Fs_Ctl
  imports Fs_Io Tmpfs Timers Event_Fd
begin

section \<open>File system control and metadata system calls\<close>

text \<open>
  \<open>api/src/syscall/fs/ctl.rs\<close> and \<open>stat.rs\<close>, with path resolution (\<open>with_fs\<close>, \<open>resolve_at\<close>) of
  \<open>api/src/file/fs.rs\<close> and \<open>Kstat\<close> of \<open>api/src/file/mod.rs\<close>.

  A \<open>Location\<close> of axfs is a number, an \<open>FsContext\<close> (root and current directory) a value of type \<open>'c\<close>, the file
  systems a state \<open>'n\<close>, user memory a state \<open>'m\<close>. The methods of these crates are the fields of \<open>fs_ops\<close>. The state
  of the calls themselves is \<open>fs_world\<close>: the global context and the read position of each open directory.
\<close>

subsection \<open>Metadata\<close>

record metadata =
  me_device :: u64
  me_inode :: nat
  me_nlink :: nat
  me_mode :: u32
  me_node_type :: node_type
  me_uid :: u32
  me_gid :: u32
  me_size :: nat
  me_block_size :: nat
  me_blocks :: nat
  me_rdev :: u64
  me_atime :: time_value
  me_mtime :: time_value
  me_ctime :: time_value

record kstat =
  ks_dev :: u64
  ks_ino :: nat
  ks_nlink :: u32
  ks_mode :: u32
  ks_uid :: u32
  ks_gid :: u32
  ks_size :: nat
  ks_blksize :: u32
  ks_blocks :: nat
  ks_rdev :: u64
  ks_atime :: time_value
  ks_mtime :: time_value
  ks_ctime :: time_value

definition kstat_default :: kstat where
  "kstat_default = \<lparr>ks_dev = 0, ks_ino = 1, ks_nlink = 1, ks_mode = 0, ks_uid = 1, ks_gid = 1, ks_size = 0,
     ks_blksize = 4096, ks_blocks = 0, ks_rdev = 0, ks_atime = 0, ks_mtime = 0, ks_ctime = 0\<rparr>"

text \<open>\<open>type_code\<close> is the discriminant of \<open>NodeType\<close>, a value of the crate \<open>axfs_ng_vfs\<close>.\<close>

definition metadata_to_kstat :: "(node_type \<Rightarrow> u8) \<Rightarrow> metadata \<Rightarrow> kstat" where
  "metadata_to_kstat type_code md =
     (let ty = type_code (me_node_type md);
          perm = me_mode md;
          mode = push_bit 12 (ucast ty) OR perm
      in \<lparr>ks_dev = me_device md, ks_ino = me_inode md, ks_nlink = of_nat (me_nlink md), ks_mode = mode,
          ks_uid = me_uid md, ks_gid = me_gid md, ks_size = me_size md, ks_blksize = of_nat (me_block_size md),
          ks_blocks = me_blocks md, ks_rdev = me_rdev md, ks_atime = me_atime md, ks_mtime = me_mtime md,
          ks_ctime = me_ctime md\<rparr>)"

text \<open>The structure \<open>stat\<close> of the ABI; the fields that stay zero are left out.\<close>

record c_stat =
  st_dev :: u64
  st_ino :: nat
  st_nlink :: u32
  st_mode :: u32
  st_uid :: u32
  st_gid :: u32
  st_size :: i64
  st_blksize :: u32
  st_blocks :: i64
  st_rdev :: u64
  st_atime :: i64
  st_atime_nsec :: nat
  st_mtime :: i64
  st_mtime_nsec :: nat
  st_ctime :: i64
  st_ctime_nsec :: nat

definition stat_from :: "kstat \<Rightarrow> c_stat" where
  "stat_from v =
     \<lparr>st_dev = ks_dev v, st_ino = ks_ino v, st_nlink = ks_nlink v, st_mode = ks_mode v, st_uid = ks_uid v,
      st_gid = ks_gid v, st_size = wrap_i64 (int (ks_size v)), st_blksize = ks_blksize v,
      st_blocks = wrap_i64 (int (ks_blocks v)), st_rdev = ks_rdev v,
      st_atime = wrap_i64 (int (as_secs (ks_atime v))), st_atime_nsec = subsec_nanos (ks_atime v),
      st_mtime = wrap_i64 (int (as_secs (ks_mtime v))), st_mtime_nsec = subsec_nanos (ks_mtime v),
      st_ctime = wrap_i64 (int (as_secs (ks_ctime v))), st_ctime_nsec = subsec_nanos (ks_ctime v)\<rparr>"

text \<open>\<open>DeviceId::major\<close> and \<open>minor\<close> belong to axfs and are arguments.\<close>

record statx_timestamp =
  sxt_sec :: i64
  sxt_nsec :: u32

definition time_to_statx :: "time_value \<Rightarrow> statx_timestamp" where
  "time_to_statx t = \<lparr>sxt_sec = wrap_i64 (int (as_secs t)), sxt_nsec = of_nat (subsec_nanos t)\<rparr>"

record c_statx =
  stx_mask :: u32
  stx_blksize :: u32
  stx_attributes :: u64
  stx_nlink :: u32
  stx_uid :: u32
  stx_gid :: u32
  stx_mode :: u16
  stx_ino :: nat
  stx_size :: nat
  stx_blocks :: nat
  stx_rdev_major :: u32
  stx_rdev_minor :: u32
  stx_atime :: statx_timestamp
  stx_ctime :: statx_timestamp
  stx_mtime :: statx_timestamp
  stx_dev_major :: u32
  stx_dev_minor :: u32

definition statx_from :: "(u64 \<Rightarrow> u32) \<Rightarrow> (u64 \<Rightarrow> u32) \<Rightarrow> kstat \<Rightarrow> c_statx" where
  "statx_from major minor v =
     \<lparr>stx_mask = 0, stx_blksize = ks_blksize v, stx_attributes = ucast (ks_mode v), stx_nlink = ks_nlink v,
      stx_uid = ks_uid v, stx_gid = ks_gid v, stx_mode = ucast (ks_mode v), stx_ino = ks_ino v,
      stx_size = ks_size v, stx_blocks = ks_blocks v, stx_rdev_major = major (ks_rdev v),
      stx_rdev_minor = minor (ks_rdev v), stx_atime = time_to_statx (ks_atime v),
      stx_ctime = time_to_statx (ks_ctime v), stx_mtime = time_to_statx (ks_mtime v),
      stx_dev_major = ucast (drop_bit 32 (ks_dev v)), stx_dev_minor = ucast (ks_dev v)\<rparr>"

subsection \<open>The state and the crates below\<close>

record ('c, 'n, 'm) fs_world =
  w_context :: 'c
  w_dir_offset :: "nat \<Rightarrow> nat"
  w_nodes :: 'n
  w_mem :: 'm

text \<open>
  The buffer of \<open>getdents64\<close>. \<open>db_overrun\<close> records a write through the raw pointer beyond the end of the buffer.
\<close>

record dir_buffer =
  db_buf :: "u8 list"
  db_offset :: usize
  db_overrun :: bool

text \<open>What the closure given to \<open>read_dir\<close> captures: the buffer, the position to store, \<open>has_remaining\<close>.\<close>

record dir_sink =
  ds_buffer :: dir_buffer
  ds_dir_offset :: nat
  ds_has_remaining :: bool

type_synonym dir_accept = "string \<Rightarrow> nat \<Rightarrow> node_type \<Rightarrow> nat \<Rightarrow> dir_sink \<Rightarrow> dir_sink \<times> bool"

text \<open>
  \<open>cx_\<close>: \<open>FsContext\<close>; \<open>lo_\<close>: \<open>Location\<close>; \<open>ul_\<close>: user memory; \<open>fc_\<close>: the open file objects.
  \<open>fc_backend_loc\<close> is \<open>file.inner().backend()?.location()\<close>.
\<close>

record ('c, 'n, 'm) fs_ops =
  fc_files :: "('c, 'n, 'm) fs_world file_ops"
  fc_like :: "('c, 'n, 'm) fs_world file_like"
  fc_ioctl :: "nat \<Rightarrow> u32 \<Rightarrow> usize \<Rightarrow> ('c, 'n, 'm) fs_world \<Rightarrow> ('c, 'n, 'm) fs_world \<times> nat outcome"
  fc_other_stat :: "nat \<Rightarrow> ('c, 'n, 'm) fs_world \<Rightarrow> kstat outcome"
  fc_backend_loc :: "nat \<Rightarrow> ('c, 'n, 'm) fs_world \<Rightarrow> nat outcome"
  fc_file_loc :: "nat \<Rightarrow> ('c, 'n, 'm) fs_world \<Rightarrow> nat"
  fc_dir_loc :: "nat \<Rightarrow> nat"
  cx_new :: "nat \<Rightarrow> 'c"
  cx_with_current_dir :: "nat \<Rightarrow> 'n \<Rightarrow> 'c \<Rightarrow> 'c outcome"
  cx_current_dir :: "'c \<Rightarrow> nat"
  cx_set_current_dir :: "nat \<Rightarrow> 'n \<Rightarrow> 'c \<Rightarrow> 'c outcome"
  cx_resolve :: "'c \<Rightarrow> string \<Rightarrow> 'n \<Rightarrow> nat outcome"
  cx_resolve_no_follow :: "'c \<Rightarrow> string \<Rightarrow> 'n \<Rightarrow> nat outcome"
  cx_resolve_parent :: "'c \<Rightarrow> string \<Rightarrow> 'n \<Rightarrow> (nat \<times> string) outcome"
  cx_resolve_nonexistent :: "'c \<Rightarrow> string \<Rightarrow> 'n \<Rightarrow> (nat \<times> string) outcome"
  cx_create_dir :: "'c \<Rightarrow> string \<Rightarrow> u32 \<Rightarrow> 'n \<Rightarrow> 'n \<times> unit outcome"
  cx_remove_dir :: "'c \<Rightarrow> string \<Rightarrow> 'n \<Rightarrow> 'n \<times> unit outcome"
  cx_remove_file :: "'c \<Rightarrow> string \<Rightarrow> 'n \<Rightarrow> 'n \<times> unit outcome"
  cx_symlink :: "'c \<Rightarrow> string \<Rightarrow> string \<Rightarrow> 'n \<Rightarrow> 'n \<times> unit outcome"
  lo_node_type :: "nat \<Rightarrow> 'n \<Rightarrow> node_type"
  lo_metadata :: "nat \<Rightarrow> 'n \<Rightarrow> metadata outcome"
  lo_update_metadata :: "nat \<Rightarrow> metadata_update \<Rightarrow> 'n \<Rightarrow> 'n \<times> unit outcome"
  lo_link :: "nat \<Rightarrow> string \<Rightarrow> nat \<Rightarrow> 'n \<Rightarrow> 'n \<times> unit outcome"
  lo_rename :: "nat \<Rightarrow> string \<Rightarrow> nat \<Rightarrow> string \<Rightarrow> 'n \<Rightarrow> 'n \<times> unit outcome"
  lo_read_link :: "nat \<Rightarrow> 'n \<Rightarrow> string outcome"
  lo_absolute_path :: "nat \<Rightarrow> 'n \<Rightarrow> string outcome"
  lo_read_dir :: "nat \<Rightarrow> nat \<Rightarrow> dir_accept \<Rightarrow> dir_sink \<Rightarrow> 'n \<Rightarrow> dir_sink \<times> nat outcome"
  lo_type_code :: "node_type \<Rightarrow> u8"
  ul_write :: "addr \<Rightarrow> u8 list \<Rightarrow> 'm \<Rightarrow> 'm \<times> unit outcome"
  ul_read_u8 :: "addr \<Rightarrow> 'm \<Rightarrow> u8 outcome"
  ul_read_utimbuf :: "addr \<Rightarrow> 'm \<Rightarrow> (i64 \<times> i64) outcome"
  ul_read_timevals :: "addr \<Rightarrow> 'm \<Rightarrow> (timeval \<times> timeval) outcome"
  ul_read_timespecs :: "addr \<Rightarrow> 'm \<Rightarrow> (timespec \<times> timespec) outcome"
  ul_write_stat :: "addr \<Rightarrow> c_stat \<Rightarrow> 'm \<Rightarrow> 'm \<times> unit outcome"
  ul_write_statx :: "addr \<Rightarrow> c_statx \<Rightarrow> 'm \<Rightarrow> 'm \<times> unit outcome"

text \<open>An operation on the file systems or on user memory, as a step of the whole state.\<close>

definition on_nodes ::
    "('n \<Rightarrow> 'n \<times> 'a outcome) \<Rightarrow> ('c, 'n, 'm) fs_world \<Rightarrow> ('c, 'n, 'm) fs_world \<times> 'a outcome" where
  "on_nodes f w = (let (n, r) = f (w_nodes w) in (w\<lparr>w_nodes := n\<rparr>, r))"

definition on_mem ::
    "('m \<Rightarrow> 'm \<times> 'a outcome) \<Rightarrow> ('c, 'n, 'm) fs_world \<Rightarrow> ('c, 'n, 'm) fs_world \<times> 'a outcome" where
  "on_mem f w = (let (m, r) = f (w_mem w) in (w\<lparr>w_mem := m\<rparr>, r))"

subsection \<open>Resolving paths\<close>

definition AT_FDCWD :: i32 where "AT_FDCWD = -100"
definition AT_SYMLINK_NOFOLLOW :: u32 where "AT_SYMLINK_NOFOLLOW = 0x100"
definition AT_REMOVEDIR :: nat where "AT_REMOVEDIR = 0x200"
definition AT_EMPTY_PATH :: u32 where "AT_EMPTY_PATH = 0x1000"

text \<open>The closures passed to \<open>with_fs\<close> use the context without changing it.\<close>

definition with_fs ::
    "('c, 'n, 'm) fs_ops \<Rightarrow> i32 \<Rightarrow> ('c \<Rightarrow> ('c, 'n, 'm) fs_world \<Rightarrow> ('c, 'n, 'm) fs_world \<times> 'a outcome)
      \<Rightarrow> ('c, 'n, 'm) fs_world \<Rightarrow> ('c, 'n, 'm) fs_world \<times> 'a outcome" where
  "with_fs ops dirfd f w =
     (if dirfd = AT_FDCWD then f (w_context w) w
      else try_get (dir_from_fd (fc_files ops) dirfd w) w (\<lambda>d.
           try_get (cx_with_current_dir ops (fc_dir_loc ops d) (w_nodes w) (w_context w)) w (\<lambda>fs. f fs w)))"

datatype resolve_at_result = At_file nat | At_other nat

fun into_file :: "resolve_at_result \<Rightarrow> nat option" where
  "into_file (At_file loc) = Some loc"
| "into_file (At_other _) = None"

fun at_stat :: "('c, 'n, 'm) fs_ops \<Rightarrow> resolve_at_result \<Rightarrow> ('c, 'n, 'm) fs_world \<Rightarrow> kstat outcome" where
  "at_stat ops (At_file loc) w = map_sum id (metadata_to_kstat (lo_type_code ops)) (lo_metadata ops loc (w_nodes w))"
| "at_stat ops (At_other f) w = fc_other_stat ops f w"

definition resolve_at ::
    "('c, 'n, 'm) fs_ops \<Rightarrow> i32 \<Rightarrow> string option \<Rightarrow> u32 \<Rightarrow> ('c, 'n, 'm) fs_world
      \<Rightarrow> ('c, 'n, 'm) fs_world \<times> resolve_at_result outcome" where
  "resolve_at ops dirfd path flags w =
     (if path = None \<or> path = Some [] then
        (if flags AND AT_EMPTY_PATH = 0 then (w, Fail NotFound)
         else try_get (fi_lookup (fc_files ops) dirfd w) w (\<lambda>f.
              (case fi_kind (fc_files ops) f of
                 Obj_file \<Rightarrow> (w, map_sum id At_file (fc_backend_loc ops f w))
               | Obj_dir \<Rightarrow> (w, Ok (At_file (fc_dir_loc ops f)))
               | _ \<Rightarrow> (w, Ok (At_other f)))))
      else with_fs ops dirfd (\<lambda>fs w'.
        (w', map_sum id At_file
               (if any_flag flags AT_SYMLINK_NOFOLLOW then cx_resolve_no_follow ops fs (the path) (w_nodes w')
                else cx_resolve ops fs (the path) (w_nodes w')))) w)"

text \<open>\<open>path.nullable().map(vm_load_string).transpose()\<close>, and the lookup the calls start with.\<close>

definition load_path_opt :: "('c, 'n, 'm) fs_ops \<Rightarrow> addr \<Rightarrow> ('c, 'n, 'm) fs_world \<Rightarrow> string option outcome" where
  "load_path_opt ops path w =
     (if path = 0 then Ok None else map_sum id Some (fi_path (fc_files ops) path w))"

definition location_at ::
    "('c, 'n, 'm) fs_ops \<Rightarrow> i32 \<Rightarrow> string option \<Rightarrow> u32 \<Rightarrow> (nat \<Rightarrow> ('c, 'n, 'm) fs_world \<Rightarrow> ('c, 'n, 'm) fs_world \<times> 'a outcome)
      \<Rightarrow> ('c, 'n, 'm) fs_world \<Rightarrow> ('c, 'n, 'm) fs_world \<times> 'a outcome" where
  "location_at ops dirfd path flags k w =
     try_do (resolve_at ops dirfd path flags w) (\<lambda>r w1.
       try_get (ok_or (into_file r) BadFileDescriptor) w1 (\<lambda>loc. k loc w1))"

subsection \<open>\<open>ioctl\<close> and the current directory\<close>

definition FIONBIO :: u32 where "FIONBIO = 0x5421"

definition sys_ioctl ::
    "('c, 'n, 'm) fs_ops \<Rightarrow> i32 \<Rightarrow> u32 \<Rightarrow> usize \<Rightarrow> ('c, 'n, 'm) fs_world \<Rightarrow> ('c, 'n, 'm) fs_world \<times> int outcome" where
  "sys_ioctl ops fd cmd arg w =
     try_get (fi_lookup (fc_files ops) fd w) w (\<lambda>f.
       if cmd = FIONBIO then
         try_get (ul_read_u8 ops arg (w_mem w)) w (\<lambda>val.
           if val \<noteq> 0 \<and> val \<noteq> 1 then (w, Fail InvalidInput)
           else try_do (fl_set_nonblocking (fc_like ops) f (val \<noteq> 0) w) (\<lambda>_ w1. (w1, Ok 0)))
       else map_res int (fc_ioctl ops f cmd arg w))"

definition sys_chdir :: "('c, 'n, 'm) fs_ops \<Rightarrow> addr \<Rightarrow> ('c, 'n, 'm) fs_world \<Rightarrow> ('c, 'n, 'm) fs_world \<times> int outcome" where
  "sys_chdir ops path w =
     try_get (fi_path (fc_files ops) path w) w (\<lambda>p.
     try_get (cx_resolve ops (w_context w) p (w_nodes w)) w (\<lambda>entry.
     try_get (cx_set_current_dir ops entry (w_nodes w) (w_context w)) w (\<lambda>fs.
       (w\<lparr>w_context := fs\<rparr>, Ok 0))))"

definition sys_fchdir :: "('c, 'n, 'm) fs_ops \<Rightarrow> i32 \<Rightarrow> ('c, 'n, 'm) fs_world \<Rightarrow> ('c, 'n, 'm) fs_world \<times> int outcome" where
  "sys_fchdir ops dirfd w =
     try_do (with_fs ops dirfd (\<lambda>fs w'. (w', Ok (cx_current_dir ops fs))) w) (\<lambda>entry w1.
       try_get (cx_set_current_dir ops entry (w_nodes w1) (w_context w1)) w1 (\<lambda>fs.
         (w1\<lparr>w_context := fs\<rparr>, Ok 0)))"

definition sys_chroot :: "('c, 'n, 'm) fs_ops \<Rightarrow> addr \<Rightarrow> ('c, 'n, 'm) fs_world \<Rightarrow> ('c, 'n, 'm) fs_world \<times> int outcome" where
  "sys_chroot ops path w =
     try_get (fi_path (fc_files ops) path w) w (\<lambda>p.
     try_get (cx_resolve ops (w_context w) p (w_nodes w)) w (\<lambda>loc.
       if lo_node_type ops loc (w_nodes w) \<noteq> Directory then (w, Fail NotADirectory)
       else (w\<lparr>w_context := cx_new ops loc\<rparr>, Ok 0)))"

text \<open>\<open>NodePermission::from_bits_truncate\<close> keeps the permission, set-id and sticky bits.\<close>

definition permission_truncate :: "u32 \<Rightarrow> u32" where
  "permission_truncate mode = mode AND 0xFFF"

definition sys_mkdirat ::
    "('c, 'n, 'm) fs_ops \<Rightarrow> u32 \<Rightarrow> i32 \<Rightarrow> addr \<Rightarrow> u32 \<Rightarrow> ('c, 'n, 'm) fs_world \<Rightarrow> ('c, 'n, 'm) fs_world \<times> int outcome" where
  "sys_mkdirat ops umask dirfd path mode w =
     try_get (fi_path (fc_files ops) path w) w (\<lambda>p.
       (let mode' = permission_truncate (mode AND NOT umask)
        in with_fs ops dirfd (\<lambda>fs w'. map_res (\<lambda>_. 0) (on_nodes (cx_create_dir ops fs p mode') w')) w))"

definition sys_mkdir ::
    "('c, 'n, 'm) fs_ops \<Rightarrow> u32 \<Rightarrow> addr \<Rightarrow> u32 \<Rightarrow> ('c, 'n, 'm) fs_world \<Rightarrow> ('c, 'n, 'm) fs_world \<times> int outcome" where
  "sys_mkdir ops umask path mode w = sys_mkdirat ops umask AT_FDCWD path mode w"

subsection \<open>Directory entries\<close>

text \<open>
  \<open>linux_dirent64\<close>: inode number, offset, record length and type, then the name at byte 19; the structure has 24
  bytes and is aligned to 8. \<open>pad\<close> is what the compiler stores in the 5 bytes of padding.
\<close>

definition NAME_OFFSET :: nat where "NAME_OFFSET = 19"
definition DIRENT_ALIGN :: nat where "DIRENT_ALIGN = 8"

definition next_multiple_of :: "nat \<Rightarrow> nat \<Rightarrow> nat" where
  "next_multiple_of n k = (if n mod k = 0 then n else n + (k - n mod k))"

definition dirent_bytes :: "u8 list \<Rightarrow> nat \<Rightarrow> nat \<Rightarrow> nat \<Rightarrow> u8 \<Rightarrow> u8 list" where
  "dirent_bytes pad d_ino d_off d_reclen d_type =
     le_bytes 8 d_ino @ le_bytes 8 d_off @ le_bytes 2 d_reclen @ [d_type] @ pad"

definition name_bytes :: "string \<Rightarrow> u8 list" where
  "name_bytes name = map of_char name"

definition dir_buffer_new :: "usize \<Rightarrow> dir_buffer" where
  "dir_buffer_new len = \<lparr>db_buf = replicate len 0, db_offset = 0, db_overrun = False\<rparr>"

definition remaining_space :: "dir_buffer \<Rightarrow> usize" where
  "remaining_space b = length (db_buf b) - db_offset b"

definition poke :: "nat \<Rightarrow> u8 list \<Rightarrow> dir_buffer \<Rightarrow> dir_buffer" where
  "poke at bs b =
     (if at + length bs \<le> length (db_buf b)
      then b\<lparr>db_buf := take at (db_buf b) @ bs @ drop (at + length bs) (db_buf b)\<rparr>
      else b\<lparr>db_overrun := True\<rparr>)"

definition write_entry ::
    "u8 list \<Rightarrow> (node_type \<Rightarrow> u8) \<Rightarrow> nat \<Rightarrow> nat \<Rightarrow> node_type \<Rightarrow> u8 list \<Rightarrow> dir_buffer \<Rightarrow> dir_buffer \<times> bool" where
  "write_entry pad type_code d_ino d_off d_type name b =
     (let len = next_multiple_of (NAME_OFFSET + length name + 1) DIRENT_ALIGN in
      if remaining_space b < len then (b, False)
      else
        (let b1 = poke (db_offset b) (dirent_bytes pad d_ino d_off len (type_code d_type)) b;
             b2 = poke (db_offset b + NAME_OFFSET) name b1;
             b3 = poke (db_offset b + NAME_OFFSET + length name) [0] b2
         in (b3\<lparr>db_offset := db_offset b + len\<rparr>, True)))"

text \<open>The closure of \<open>sys_getdents64\<close>.\<close>

definition getdents_accept :: "u8 list \<Rightarrow> (node_type \<Rightarrow> u8) \<Rightarrow> dir_accept" where
  "getdents_accept pad type_code name ino node_type offset k =
     (let k1 = k\<lparr>ds_has_remaining := True\<rparr> in
      case write_entry pad type_code ino offset node_type (name_bytes name) (ds_buffer k1) of
        (b, False) \<Rightarrow> (k1\<lparr>ds_buffer := b\<rparr>, False)
      | (b, True) \<Rightarrow> (k1\<lparr>ds_buffer := b, ds_dir_offset := offset\<rparr>, True))"

definition sys_getdents64 ::
    "('c, 'n, 'm) fs_ops \<Rightarrow> u8 list \<Rightarrow> i32 \<Rightarrow> addr \<Rightarrow> usize \<Rightarrow> ('c, 'n, 'm) fs_world \<Rightarrow> ('c, 'n, 'm) fs_world \<times> int outcome" where
  "sys_getdents64 ops pad fd buf len w =
     (let buffer = dir_buffer_new len in
      try_get (dir_from_fd (fc_files ops) fd w) w (\<lambda>dir.
        (case lo_read_dir ops (fc_dir_loc ops dir) (w_dir_offset w dir) (getdents_accept pad (lo_type_code ops))
                \<lparr>ds_buffer = buffer, ds_dir_offset = w_dir_offset w dir, ds_has_remaining = False\<rparr> (w_nodes w) of
           (k, r) \<Rightarrow>
             (let w1 = w\<lparr>w_dir_offset := (w_dir_offset w)(dir := ds_dir_offset k)\<rparr> in
              try_get r w1 (\<lambda>_.
                if ds_has_remaining k \<and> db_offset (ds_buffer k) = 0 then (w1, Fail InvalidInput)
                else try_do (on_mem (ul_write ops buf (db_buf (ds_buffer k))) w1) (\<lambda>_ w2.
                  (w2, Ok (int (db_offset (ds_buffer k))))))))))"

subsection \<open>Links, names and the working directory\<close>

definition sys_linkat ::
    "('c, 'n, 'm) fs_ops \<Rightarrow> i32 \<Rightarrow> addr \<Rightarrow> i32 \<Rightarrow> addr \<Rightarrow> u32 \<Rightarrow> ('c, 'n, 'm) fs_world \<Rightarrow> ('c, 'n, 'm) fs_world \<times> int outcome" where
  "sys_linkat ops old_dirfd old_path new_dirfd new_path flags w =
     try_get (load_path_opt ops old_path w) w (\<lambda>old_p.
     try_get (fi_path (fc_files ops) new_path w) w (\<lambda>new_p.
     location_at ops old_dirfd old_p flags (\<lambda>old w1.
       if lo_node_type ops old (w_nodes w1) = Directory then (w1, Fail OperationNotPermitted)
       else
         try_do (with_fs ops new_dirfd (\<lambda>fs w'. (w', cx_resolve_nonexistent ops fs new_p (w_nodes w'))) w1)
           (\<lambda>(new_dir, new_name) w2. map_res (\<lambda>_. 0) (on_nodes (lo_link ops new_dir new_name old) w2))) w))"

definition sys_link ::
    "('c, 'n, 'm) fs_ops \<Rightarrow> addr \<Rightarrow> addr \<Rightarrow> ('c, 'n, 'm) fs_world \<Rightarrow> ('c, 'n, 'm) fs_world \<times> int outcome" where
  "sys_link ops old_path new_path w = sys_linkat ops AT_FDCWD old_path AT_FDCWD new_path 0 w"

definition sys_unlinkat ::
    "('c, 'n, 'm) fs_ops \<Rightarrow> i32 \<Rightarrow> addr \<Rightarrow> usize \<Rightarrow> ('c, 'n, 'm) fs_world \<Rightarrow> ('c, 'n, 'm) fs_world \<times> int outcome" where
  "sys_unlinkat ops dirfd path flags w =
     try_get (fi_path (fc_files ops) path w) w (\<lambda>p.
       with_fs ops dirfd (\<lambda>fs w'.
         map_res (\<lambda>_. 0)
           (on_nodes (if flags = AT_REMOVEDIR then cx_remove_dir ops fs p else cx_remove_file ops fs p) w')) w)"

definition sys_rmdir :: "('c, 'n, 'm) fs_ops \<Rightarrow> addr \<Rightarrow> ('c, 'n, 'm) fs_world \<Rightarrow> ('c, 'n, 'm) fs_world \<times> int outcome" where
  "sys_rmdir ops path w = sys_unlinkat ops AT_FDCWD path AT_REMOVEDIR w"

definition sys_unlink :: "('c, 'n, 'm) fs_ops \<Rightarrow> addr \<Rightarrow> ('c, 'n, 'm) fs_world \<Rightarrow> ('c, 'n, 'm) fs_world \<times> int outcome" where
  "sys_unlink ops path w = sys_unlinkat ops AT_FDCWD path 0 w"

definition sys_getcwd ::
    "('c, 'n, 'm) fs_ops \<Rightarrow> addr \<Rightarrow> i64 \<Rightarrow> ('c, 'n, 'm) fs_world \<Rightarrow> ('c, 'n, 'm) fs_world \<times> int outcome" where
  "sys_getcwd ops buf sz w =
     (if sz < 0 then (w, Fail BadAddress)
      else if buf = 0 then (w, Ok 0)
      else try_get (lo_absolute_path ops (cx_current_dir ops (w_context w)) (w_nodes w)) w (\<lambda>cwd.
        if 0 \<in> set (name_bytes cwd) then (w, Fail InvalidInput)
        else
          (let bytes = name_bytes cwd @ [0] in
           if length bytes \<le> nat sz then try_do (on_mem (ul_write ops buf bytes) w) (\<lambda>_ w1. (w1, Ok (int buf)))
           else (w, Fail OutOfRange))))"

definition sys_symlinkat ::
    "('c, 'n, 'm) fs_ops \<Rightarrow> addr \<Rightarrow> i32 \<Rightarrow> addr \<Rightarrow> ('c, 'n, 'm) fs_world \<Rightarrow> ('c, 'n, 'm) fs_world \<times> int outcome" where
  "sys_symlinkat ops target new_dirfd linkpath w =
     try_get (fi_path (fc_files ops) target w) w (\<lambda>t.
     try_get (fi_path (fc_files ops) linkpath w) w (\<lambda>l.
       with_fs ops new_dirfd (\<lambda>fs w'. map_res (\<lambda>_. 0) (on_nodes (cx_symlink ops fs t l) w')) w))"

definition sys_symlink ::
    "('c, 'n, 'm) fs_ops \<Rightarrow> addr \<Rightarrow> addr \<Rightarrow> ('c, 'n, 'm) fs_world \<Rightarrow> ('c, 'n, 'm) fs_world \<times> int outcome" where
  "sys_symlink ops target linkpath w = sys_symlinkat ops target AT_FDCWD linkpath w"

definition sys_readlinkat ::
    "('c, 'n, 'm) fs_ops \<Rightarrow> i32 \<Rightarrow> addr \<Rightarrow> addr \<Rightarrow> usize \<Rightarrow> ('c, 'n, 'm) fs_world \<Rightarrow> ('c, 'n, 'm) fs_world \<times> int outcome" where
  "sys_readlinkat ops dirfd path buf sz w =
     try_get (fi_path (fc_files ops) path w) w (\<lambda>p.
       with_fs ops dirfd (\<lambda>fs w'.
         try_get (cx_resolve_no_follow ops fs p (w_nodes w')) w' (\<lambda>entry.
         try_get (lo_read_link ops entry (w_nodes w')) w' (\<lambda>link.
           (let read = min sz (length link)
            in try_do (on_mem (ul_write ops buf (take read (name_bytes link))) w') (\<lambda>_ w1. (w1, Ok (int read))))))) w)"

definition sys_readlink ::
    "('c, 'n, 'm) fs_ops \<Rightarrow> addr \<Rightarrow> addr \<Rightarrow> usize \<Rightarrow> ('c, 'n, 'm) fs_world \<Rightarrow> ('c, 'n, 'm) fs_world \<times> int outcome" where
  "sys_readlink ops path buf sz w = sys_readlinkat ops AT_FDCWD path buf sz w"

definition sys_renameat2 ::
    "('c, 'n, 'm) fs_ops \<Rightarrow> i32 \<Rightarrow> addr \<Rightarrow> i32 \<Rightarrow> addr \<Rightarrow> u32 \<Rightarrow> ('c, 'n, 'm) fs_world \<Rightarrow> ('c, 'n, 'm) fs_world \<times> int outcome" where
  "sys_renameat2 ops old_dirfd old_path new_dirfd new_path flags w =
     try_get (fi_path (fc_files ops) old_path w) w (\<lambda>old_p.
     try_get (fi_path (fc_files ops) new_path w) w (\<lambda>new_p.
     try_do (with_fs ops old_dirfd (\<lambda>fs w'. (w', cx_resolve_parent ops fs old_p (w_nodes w'))) w)
       (\<lambda>(old_dir, old_name) w1.
     try_do (with_fs ops new_dirfd (\<lambda>fs w'. (w', cx_resolve_nonexistent ops fs new_p (w_nodes w'))) w1)
       (\<lambda>(new_dir, new_name) w2.
         map_res (\<lambda>_. 0) (on_nodes (lo_rename ops old_dir old_name new_dir new_name) w2)))))"

definition sys_renameat ::
    "('c, 'n, 'm) fs_ops \<Rightarrow> i32 \<Rightarrow> addr \<Rightarrow> i32 \<Rightarrow> addr \<Rightarrow> ('c, 'n, 'm) fs_world \<Rightarrow> ('c, 'n, 'm) fs_world \<times> int outcome" where
  "sys_renameat ops old_dirfd old_path new_dirfd new_path w = sys_renameat2 ops old_dirfd old_path new_dirfd new_path 0 w"

definition sys_rename ::
    "('c, 'n, 'm) fs_ops \<Rightarrow> addr \<Rightarrow> addr \<Rightarrow> ('c, 'n, 'm) fs_world \<Rightarrow> ('c, 'n, 'm) fs_world \<times> int outcome" where
  "sys_rename ops old_path new_path w = sys_renameat ops AT_FDCWD old_path AT_FDCWD new_path w"

subsection \<open>Owner, permissions and times\<close>

definition SET_UID :: u32 where "SET_UID = 0x800"
definition SET_GID :: u32 where "SET_GID = 0x400"
definition GROUP_EXEC :: u32 where "GROUP_EXEC = 0x8"

definition no_update :: metadata_update where
  "no_update = \<lparr>mu_mode = None, mu_owner = None, mu_atime = None, mu_mtime = None\<rparr>"

text \<open>The mode that \<open>chown\<close> stores.\<close>

definition chown_mode :: "u32 \<Rightarrow> u32" where
  "chown_mode mode0 =
     (let mode = mode0 AND NOT SET_UID
      in if has_flags mode GROUP_EXEC then mode AND NOT SET_GID else mode)"

definition sys_fchownat ::
    "('c, 'n, 'm) fs_ops \<Rightarrow> i32 \<Rightarrow> addr \<Rightarrow> i32 \<Rightarrow> i32 \<Rightarrow> u32 \<Rightarrow> ('c, 'n, 'm) fs_world \<Rightarrow> ('c, 'n, 'm) fs_world \<times> int outcome" where
  "sys_fchownat ops dirfd path uid gid flags w =
     try_get (load_path_opt ops path w) w (\<lambda>p.
     location_at ops dirfd p flags (\<lambda>loc w1.
       try_get (lo_metadata ops loc (w_nodes w1)) w1 (\<lambda>meta.
         (let uid' = (if uid = -1 then me_uid meta else of_int uid);
              gid' = (if gid = -1 then me_gid meta else of_int gid)
          in map_res (\<lambda>_. 0) (on_nodes (lo_update_metadata ops loc
               (no_update\<lparr>mu_owner := Some (uid', gid'), mu_mode := Some (chown_mode (me_mode meta))\<rparr>)) w1)))) w)"

definition sys_chown ::
    "('c, 'n, 'm) fs_ops \<Rightarrow> addr \<Rightarrow> i32 \<Rightarrow> i32 \<Rightarrow> ('c, 'n, 'm) fs_world \<Rightarrow> ('c, 'n, 'm) fs_world \<times> int outcome" where
  "sys_chown ops path uid gid w = sys_fchownat ops AT_FDCWD path uid gid 0 w"

definition sys_lchown ::
    "('c, 'n, 'm) fs_ops \<Rightarrow> addr \<Rightarrow> i32 \<Rightarrow> i32 \<Rightarrow> ('c, 'n, 'm) fs_world \<Rightarrow> ('c, 'n, 'm) fs_world \<times> int outcome" where
  "sys_lchown ops path uid gid w = sys_fchownat ops AT_FDCWD path uid gid AT_SYMLINK_NOFOLLOW w"

definition sys_fchown ::
    "('c, 'n, 'm) fs_ops \<Rightarrow> i32 \<Rightarrow> i32 \<Rightarrow> i32 \<Rightarrow> ('c, 'n, 'm) fs_world \<Rightarrow> ('c, 'n, 'm) fs_world \<times> int outcome" where
  "sys_fchown ops fd uid gid w = sys_fchownat ops fd 0 uid gid AT_EMPTY_PATH w"

definition sys_fchmodat ::
    "('c, 'n, 'm) fs_ops \<Rightarrow> i32 \<Rightarrow> addr \<Rightarrow> u32 \<Rightarrow> u32 \<Rightarrow> ('c, 'n, 'm) fs_world \<Rightarrow> ('c, 'n, 'm) fs_world \<times> int outcome" where
  "sys_fchmodat ops dirfd path mode flags w =
     try_get (load_path_opt ops path w) w (\<lambda>p.
     location_at ops dirfd p flags (\<lambda>loc w1.
       map_res (\<lambda>_. 0) (on_nodes (lo_update_metadata ops loc
         (no_update\<lparr>mu_mode := Some (permission_truncate mode)\<rparr>)) w1)) w)"

definition sys_chmod ::
    "('c, 'n, 'm) fs_ops \<Rightarrow> addr \<Rightarrow> u32 \<Rightarrow> ('c, 'n, 'm) fs_world \<Rightarrow> ('c, 'n, 'm) fs_world \<times> int outcome" where
  "sys_chmod ops path mode w = sys_fchmodat ops AT_FDCWD path mode 0 w"

definition sys_fchmod ::
    "('c, 'n, 'm) fs_ops \<Rightarrow> i32 \<Rightarrow> u32 \<Rightarrow> ('c, 'n, 'm) fs_world \<Rightarrow> ('c, 'n, 'm) fs_world \<times> int outcome" where
  "sys_fchmod ops fd mode w = sys_fchmodat ops fd 0 mode AT_EMPTY_PATH w"

definition update_times ::
    "('c, 'n, 'm) fs_ops \<Rightarrow> i32 \<Rightarrow> addr \<Rightarrow> time_value option \<Rightarrow> time_value option \<Rightarrow> u32
      \<Rightarrow> ('c, 'n, 'm) fs_world \<Rightarrow> ('c, 'n, 'm) fs_world \<times> unit outcome" where
  "update_times ops dirfd path atime mtime flags w =
     try_get (load_path_opt ops path w) w (\<lambda>p.
     location_at ops dirfd p flags (\<lambda>loc w1.
       on_nodes (lo_update_metadata ops loc (no_update\<lparr>mu_atime := atime, mu_mtime := mtime\<rparr>)) w1) w)"

text \<open>\<open>now\<close> is \<open>wall_time()\<close>. \<open>Duration::from_secs\<close> takes the cast of a signed number of seconds.\<close>

definition sys_utime ::
    "('c, 'n, 'm) fs_ops \<Rightarrow> time_value \<Rightarrow> addr \<Rightarrow> addr \<Rightarrow> ('c, 'n, 'm) fs_world \<Rightarrow> ('c, 'n, 'm) fs_world \<times> int outcome" where
  "sys_utime ops now path tptr w =
     try_get (if tptr \<noteq> 0
              then map_sum id (\<lambda>(a, m). (as_u64 a * NANOS_PER_SEC, as_u64 m * NANOS_PER_SEC)) (ul_read_utimbuf ops tptr (w_mem w))
              else Ok (now, now)) w (\<lambda>(atime, mtime).
       map_res (\<lambda>_. 0) (update_times ops AT_FDCWD path (Some atime) (Some mtime) 0 w))"

definition sys_utimes ::
    "('c, 'n, 'm) fs_ops \<Rightarrow> time_value \<Rightarrow> addr \<Rightarrow> addr \<Rightarrow> ('c, 'n, 'm) fs_world \<Rightarrow> ('c, 'n, 'm) fs_world \<times> int outcome" where
  "sys_utimes ops now path tptr w =
     try_get (if tptr \<noteq> 0
              then (case ul_read_timevals ops tptr (w_mem w) of
                      Inl e \<Rightarrow> Inl e
                    | Inr (a, m) \<Rightarrow>
                        (case timeval_try_into_time_value a of
                           Inl e \<Rightarrow> Inl e
                         | Inr at \<Rightarrow> map_sum id (Pair at) (timeval_try_into_time_value m)))
              else Ok (now, now)) w (\<lambda>(atime, mtime).
       map_res (\<lambda>_. 0) (update_times ops AT_FDCWD path (Some atime) (Some mtime) 0 w))"

definition UTIME_NOW :: i64 where "UTIME_NOW = 0x3fffffff"
definition UTIME_OMIT :: i64 where "UTIME_OMIT = 0x3ffffffe"

definition utime_to_duration :: "time_value \<Rightarrow> timespec \<Rightarrow> time_value option outcome" where
  "utime_to_duration now ts =
     (if ts_nsec ts = UTIME_OMIT then Ok None
      else if ts_nsec ts = UTIME_NOW then Ok (Some now)
      else map_sum id Some (timespec_try_into_time_value ts))"

definition sys_utimensat ::
    "('c, 'n, 'm) fs_ops \<Rightarrow> time_value \<Rightarrow> i32 \<Rightarrow> addr \<Rightarrow> addr \<Rightarrow> u32 \<Rightarrow> ('c, 'n, 'm) fs_world
      \<Rightarrow> ('c, 'n, 'm) fs_world \<times> int outcome" where
  "sys_utimensat ops now dirfd path tptr flags w =
     (let flags' = (if path = 0 then flags OR AT_EMPTY_PATH else flags) in
      try_get (if tptr \<noteq> 0
               then (case ul_read_timespecs ops tptr (w_mem w) of
                       Inl e \<Rightarrow> Inl e
                     | Inr (a, m) \<Rightarrow>
                         (case utime_to_duration now a of
                            Inl e \<Rightarrow> Inl e
                          | Inr at \<Rightarrow> map_sum id (Pair at) (utime_to_duration now m)))
               else Ok (Some now, Some now)) w (\<lambda>(atime, mtime).
        if atime = None \<and> mtime = None then (w, Ok 0)
        else map_res (\<lambda>_. 0) (update_times ops dirfd path atime mtime flags' w)))"

definition sys_sync :: "int outcome" where "sys_sync = Ok 0"

definition sys_syncfs :: "i32 \<Rightarrow> int outcome" where "sys_syncfs fd = Ok 0"

subsection \<open>\<open>stat\<close>\<close>

definition sys_fstatat ::
    "('c, 'n, 'm) fs_ops \<Rightarrow> i32 \<Rightarrow> addr \<Rightarrow> addr \<Rightarrow> u32 \<Rightarrow> ('c, 'n, 'm) fs_world \<Rightarrow> ('c, 'n, 'm) fs_world \<times> int outcome" where
  "sys_fstatat ops dirfd path statbuf flags w =
     try_get (load_path_opt ops path w) w (\<lambda>p.
     try_do (resolve_at ops dirfd p flags w) (\<lambda>loc w1.
     try_get (at_stat ops loc w1) w1 (\<lambda>ks.
       map_res (\<lambda>_. 0) (on_mem (ul_write_stat ops statbuf (stat_from ks)) w1))))"

definition sys_stat ::
    "('c, 'n, 'm) fs_ops \<Rightarrow> addr \<Rightarrow> addr \<Rightarrow> ('c, 'n, 'm) fs_world \<Rightarrow> ('c, 'n, 'm) fs_world \<times> int outcome" where
  "sys_stat ops path statbuf w = sys_fstatat ops AT_FDCWD path statbuf 0 w"

definition sys_fstat ::
    "('c, 'n, 'm) fs_ops \<Rightarrow> i32 \<Rightarrow> addr \<Rightarrow> ('c, 'n, 'm) fs_world \<Rightarrow> ('c, 'n, 'm) fs_world \<times> int outcome" where
  "sys_fstat ops fd statbuf w = sys_fstatat ops fd 0 statbuf AT_EMPTY_PATH w"

definition sys_lstat ::
    "('c, 'n, 'm) fs_ops \<Rightarrow> addr \<Rightarrow> addr \<Rightarrow> ('c, 'n, 'm) fs_world \<Rightarrow> ('c, 'n, 'm) fs_world \<times> int outcome" where
  "sys_lstat ops path statbuf w = sys_fstatat ops AT_FDCWD path statbuf AT_SYMLINK_NOFOLLOW w"

definition sys_statx ::
    "('c, 'n, 'm) fs_ops \<Rightarrow> (u64 \<Rightarrow> u32) \<Rightarrow> (u64 \<Rightarrow> u32) \<Rightarrow> i32 \<Rightarrow> addr \<Rightarrow> u32 \<Rightarrow> u32 \<Rightarrow> addr \<Rightarrow> ('c, 'n, 'm) fs_world
      \<Rightarrow> ('c, 'n, 'm) fs_world \<times> int outcome" where
  "sys_statx ops major minor dirfd path flags msk statxbuf w =
     try_get (load_path_opt ops path w) w (\<lambda>p.
     try_do (resolve_at ops dirfd p flags w) (\<lambda>loc w1.
     try_get (at_stat ops loc w1) w1 (\<lambda>ks.
       map_res (\<lambda>_. 0) (on_mem (ul_write_statx ops statxbuf (statx_from major minor ks)) w1))))"

definition R_OK :: u32 where "R_OK = 4"
definition W_OK :: u32 where "W_OK = 2"
definition X_OK :: u32 where "X_OK = 1"
definition OWNER_EXEC :: u32 where "OWNER_EXEC = 0x40"

definition required_mode :: "u32 \<Rightarrow> u32" where
  "required_mode mode =
     (if any_flag mode R_OK then OWNER_READ else 0) OR (if any_flag mode W_OK then OWNER_WRITE else 0)
     OR (if any_flag mode X_OK then OWNER_EXEC else 0)"

definition sys_faccessat2 ::
    "('c, 'n, 'm) fs_ops \<Rightarrow> i32 \<Rightarrow> addr \<Rightarrow> u32 \<Rightarrow> u32 \<Rightarrow> ('c, 'n, 'm) fs_world \<Rightarrow> ('c, 'n, 'm) fs_world \<times> int outcome" where
  "sys_faccessat2 ops dirfd path mode flags w =
     try_get (load_path_opt ops path w) w (\<lambda>p.
     try_do (resolve_at ops dirfd p flags w) (\<lambda>f w1.
       if mode = 0 then (w1, Ok 0)
       else try_get (at_stat ops f w1) w1 (\<lambda>ks.
         if ks_mode ks AND 0xFFFF AND required_mode mode \<noteq> required_mode mode then (w1, Fail PermissionDenied)
         else (w1, Ok 0))))"

definition sys_access ::
    "('c, 'n, 'm) fs_ops \<Rightarrow> addr \<Rightarrow> u32 \<Rightarrow> ('c, 'n, 'm) fs_world \<Rightarrow> ('c, 'n, 'm) fs_world \<times> int outcome" where
  "sys_access ops path mode w = sys_faccessat2 ops AT_FDCWD path mode 0 w"

text \<open>\<open>statfs\<close>: \<open>stat_fs\<close> and \<open>device\<close> are the file system's own numbers, from axfs.\<close>

record stat_fs =
  sf_fs_type :: u32
  sf_block_size :: nat
  sf_blocks :: nat
  sf_blocks_free :: nat
  sf_blocks_available :: nat
  sf_file_count :: nat
  sf_free_file_count :: nat
  sf_name_length :: nat
  sf_fragment_size :: nat
  sf_mount_flags :: nat

record c_statfs =
  f_type :: i64
  f_bsize :: i64
  f_blocks :: i64
  f_bfree :: i64
  f_bavail :: i64
  f_files :: i64
  f_ffree :: i64
  f_fsid :: "i32 \<times> i32"
  f_namelen :: i64
  f_frsize :: i64
  f_flags :: i64

definition statfs_of :: "(nat \<Rightarrow> 'n \<Rightarrow> stat_fs outcome) \<Rightarrow> (nat \<Rightarrow> 'n \<Rightarrow> nat) \<Rightarrow> nat \<Rightarrow> 'n \<Rightarrow> c_statfs outcome" where
  "statfs_of fs_stat device loc n =
     map_sum id (\<lambda>st.
       \<lparr>f_type = uint (sf_fs_type st), f_bsize = int (sf_block_size st), f_blocks = wrap_i64 (int (sf_blocks st)),
        f_bfree = wrap_i64 (int (sf_blocks_free st)), f_bavail = wrap_i64 (int (sf_blocks_available st)),
        f_files = wrap_i64 (int (sf_file_count st)), f_ffree = wrap_i64 (int (sf_free_file_count st)),
        f_fsid = (0, wrap_i32 (int (device loc n))), f_namelen = int (sf_name_length st),
        f_frsize = int (sf_fragment_size st), f_flags = int (sf_mount_flags st)\<rparr>) (fs_stat loc n)"

definition sys_statfs ::
    "('c, 'n, 'm) fs_ops \<Rightarrow> (nat \<Rightarrow> 'n \<Rightarrow> stat_fs outcome) \<Rightarrow> (nat \<Rightarrow> 'n \<Rightarrow> nat) \<Rightarrow> (nat \<Rightarrow> nat)
      \<Rightarrow> (addr \<Rightarrow> c_statfs \<Rightarrow> 'm \<Rightarrow> 'm \<times> unit outcome) \<Rightarrow> addr \<Rightarrow> addr \<Rightarrow> ('c, 'n, 'm) fs_world
      \<Rightarrow> ('c, 'n, 'm) fs_world \<times> int outcome" where
  "sys_statfs ops fs_stat device root_location put path buf w =
     try_get (fi_path (fc_files ops) path w) w (\<lambda>p.
     try_get (cx_resolve ops (w_context w) p (w_nodes w)) w (\<lambda>loc.
     try_get (statfs_of fs_stat device (root_location loc) (w_nodes w)) w (\<lambda>st.
       map_res (\<lambda>_. 0) (on_mem (put buf st) w))))"

definition sys_fstatfs ::
    "('c, 'n, 'm) fs_ops \<Rightarrow> (nat \<Rightarrow> 'n \<Rightarrow> stat_fs outcome) \<Rightarrow> (nat \<Rightarrow> 'n \<Rightarrow> nat)
      \<Rightarrow> (addr \<Rightarrow> c_statfs \<Rightarrow> 'm \<Rightarrow> 'm \<times> unit outcome) \<Rightarrow> i32 \<Rightarrow> addr \<Rightarrow> ('c, 'n, 'm) fs_world
      \<Rightarrow> ('c, 'n, 'm) fs_world \<times> int outcome" where
  "sys_fstatfs ops fs_stat device put fd buf w =
     try_get (file_from_fd (fc_files ops) fd w) w (\<lambda>f.
     try_get (statfs_of fs_stat device (fc_file_loc ops f w) (w_nodes w)) w (\<lambda>st.
       map_res (\<lambda>_. 0) (on_mem (put buf st) w)))"

end
