(* ===== verification/Fs_Ctl_Props.thy ===== *)
theory Fs_Ctl_Props
  imports Fs_Ctl Tmpfs_Props
begin

section \<open>Reading directories\<close>

text \<open>
  A program that calls \<open>getdents64\<close> until it returns 0 sees every entry of the directory once, in order; the raw
  writes into the kernel's buffer stay inside it; \<open>chown\<close> drops the set-id bits.
\<close>

subsection \<open>One record\<close>

text \<open>What a reader of the buffer does: inode number, offset, type and name, then on by the record length.\<close>

type_synonym dirent = "nat \<times> nat \<times> u8 \<times> u8 list"

function parse_dirents :: "u8 list \<Rightarrow> dirent list" where
  "parse_dirents bs =
     (let reclen = le_value (take 2 (drop 16 bs)) in
      if length bs < NAME_OFFSET \<or> reclen = 0 \<or> length bs < reclen then []
      else (le_value (take 8 bs), le_value (take 8 (drop 8 bs)), bs ! 18,
            takeWhile (\<lambda>c. c \<noteq> 0) (drop NAME_OFFSET (take reclen bs))) # parse_dirents (drop reclen bs))"
  by auto
termination
  by (relation "measure length") auto

declare parse_dirents.simps [simp del]

definition entry_size :: "u8 list \<Rightarrow> nat" where
  "entry_size name = next_multiple_of (NAME_OFFSET + length name + 1) DIRENT_ALIGN"

lemma next_multiple_bounds:
  assumes "0 < k"
  shows "n \<le> next_multiple_of n k" "next_multiple_of n k < n + k" "k dvd next_multiple_of n k"
proof -
  define m where "m = n mod k"
  have m: "m < k" using assms by (simp add: m_def)
  have z: "m = 0 \<Longrightarrow> k dvd n" by (simp add: m_def mod_eq_0_iff_dvd)
  have "k dvd n + (k - m)"
  proof -
    have "n = n div k * k + m" by (simp add: m_def)
    then have "n + (k - m) = n div k * k + k" using m by linarith
    then show ?thesis by simp
  qed
  then show "n \<le> next_multiple_of n k" "next_multiple_of n k < n + k" "k dvd next_multiple_of n k"
    unfolding next_multiple_of_def m_def [symmetric] using m z by auto
qed

lemma entry_size_bounds:
  "24 \<le> entry_size name" "20 + length name \<le> entry_size name" "entry_size name < 28 + length name"
  "8 dvd entry_size name"
proof -
  note b = next_multiple_bounds [of DIRENT_ALIGN "NAME_OFFSET + length name + 1"]
  show l: "20 + length name \<le> entry_size name" and "entry_size name < 28 + length name"
    and d: "8 dvd entry_size name"
    using b by (simp_all add: entry_size_def DIRENT_ALIGN_def NAME_OFFSET_def)
  from d obtain j where "entry_size name = 8 * j" by (elim dvdE)
  with l show "24 \<le> entry_size name" by simp
qed

lemma poke_split:
  assumes "db_buf b = A @ M @ D" "at = length A" "length bs \<le> length M"
  shows "poke at bs b = b\<lparr>db_buf := A @ bs @ drop (length bs) M @ D\<rparr>"
  using assms by (simp add: poke_def)

text \<open>The bytes of a record; \<open>rest\<close> is what follows the terminator up to the next multiple of 8.\<close>

definition dirent_record :: "dirent \<Rightarrow> u8 list \<Rightarrow> u8 list" where
  "dirent_record e rest =
     (case e of (ino, off, ty, name) \<Rightarrow>
        le_bytes 8 ino @ le_bytes 8 off @ le_bytes 2 (entry_size name) @ [ty] @ name @ 0 # rest)"

lemma write_entry_layout:
  assumes "db_offset b \<le> length (db_buf b)" "length pad = 5" "\<not> db_overrun b"
  shows "if entry_size name \<le> length (db_buf b) - db_offset b
    then \<exists>b' rest. write_entry pad tc ino off ty name b = (b', True)
      \<and> take (db_offset b') (db_buf b') = take (db_offset b) (db_buf b) @ dirent_record (ino, off, tc ty, name) rest
      \<and> length rest = entry_size name - (20 + length name)
      \<and> db_offset b' = db_offset b + entry_size name \<and> length (db_buf b') = length (db_buf b)
      \<and> \<not> db_overrun b'
    else write_entry pad tc ino off ty name b = (b, False)"
proof (cases "entry_size name \<le> length (db_buf b) - db_offset b")
  case False
  then show ?thesis by (simp add: write_entry_def remaining_space_def entry_size_def)
next
  case True
  let ?n = "entry_size name" and ?o = "db_offset b"
  let ?h = "le_bytes 8 ino @ le_bytes 8 off @ le_bytes 2 ?n @ [tc ty]"
  define A M D where "A = take ?o (db_buf b)" and "M = take ?n (drop ?o (db_buf b))"
    and "D = drop ?n (drop ?o (db_buf b))"
  have buf: "db_buf b = A @ M @ D" by (simp add: A_def M_def D_def del: drop_drop)
  have lA: "length A = ?o" and lM: "length M = ?n" using assms(1) True by (auto simp: A_def M_def)
  note sz = entry_size_bounds [of name]
  define R where "R = pad @ drop 24 M"
  have lR: "length R = ?n - 19" using assms(2) lM sz(1) by (simp add: R_def)
  have hl: "length (?h @ pad) = 24" using assms(2) by simp
  have p1: "poke ?o (dirent_bytes pad ino off ?n (tc ty)) b = b\<lparr>db_buf := (A @ ?h) @ R @ D\<rparr>"
    using poke_split [OF buf, of ?o "?h @ pad"] hl lA lM sz(1) by (simp add: dirent_bytes_def R_def)
  have p2: "poke (?o + NAME_OFFSET) name (b\<lparr>db_buf := (A @ ?h) @ R @ D\<rparr>)
      = b\<lparr>db_buf := (A @ ?h @ name) @ drop (length name) R @ D\<rparr>"
    using poke_split [of "b\<lparr>db_buf := (A @ ?h) @ R @ D\<rparr>" "A @ ?h" R D "?o + NAME_OFFSET" name] lA lR sz(2)
    by (simp add: NAME_OFFSET_def)
  have p3: "poke (?o + NAME_OFFSET + length name) [0] (b\<lparr>db_buf := (A @ ?h @ name) @ drop (length name) R @ D\<rparr>)
      = b\<lparr>db_buf := A @ ?h @ name @ 0 # drop (Suc (length name)) R @ D\<rparr>"
    using poke_split [of "b\<lparr>db_buf := (A @ ?h @ name) @ drop (length name) R @ D\<rparr>" "A @ ?h @ name"
        "drop (length name) R" D "?o + NAME_OFFSET + length name" "[0]"] lA lR sz(2)
    by (simp add: NAME_OFFSET_def)
  let ?b' = "b\<lparr>db_buf := A @ ?h @ name @ 0 # drop (Suc (length name)) R @ D, db_offset := ?o + ?n\<rparr>"
  have "write_entry pad tc ino off ty name b = (?b', True)"
    unfolding write_entry_def Let_def entry_size_def [symmetric] p1 p2 p3
    using True by (simp add: remaining_space_def)
  moreover have "take (db_offset ?b') (db_buf ?b') = A @ dirent_record (ino, off, tc ty, name) (drop (Suc (length name)) R)"
  proof -
    let ?p = "A @ dirent_record (ino, off, tc ty, name) (drop (Suc (length name)) R)"
    have "length ?p = db_offset ?b'" using lA lR sz(2) by (simp add: dirent_record_def)
    moreover have "db_buf ?b' = ?p @ D" by (simp add: dirent_record_def)
    ultimately show ?thesis by (metis append_eq_conv_conj)
  qed
  moreover have "length (db_buf ?b') = length (db_buf b)"
    using lA lR lM sz(2) by (simp add: buf)
  ultimately show ?thesis using True assms(3) lR A_def by auto
qed

text \<open>What fits the fields of a record: 64 bits, 64 bits, a name that is a C string and fits the record length.\<close>

definition dirent_ok :: "dirent \<Rightarrow> bool" where
  "dirent_ok e \<longleftrightarrow>
     (case e of (ino, off, ty, name) \<Rightarrow>
        ino < 2 ^ 64 \<and> off < 2 ^ 64 \<and> 0 \<notin> set name \<and> length name + 28 \<le> 2 ^ 16)"

lemma parse_record:
  assumes "dirent_ok (ino, off, ty, name)" "length rest = entry_size name - (20 + length name)"
  shows "parse_dirents (dirent_record (ino, off, ty, name) rest @ nxt) = (ino, off, ty, name) # parse_dirents nxt"
proof -
  let ?r = "dirent_record (ino, off, ty, name) rest"
  let ?h = "le_bytes 8 ino @ le_bytes 8 off @ le_bytes 2 (entry_size name) @ [ty]"
  note sz = entry_size_bounds [of name]
  have r: "?r = ?h @ name @ 0 # rest" by (simp add: dirent_record_def)
  have lr: "length ?r = entry_size name" using assms(2) sz(2) by (simp add: r)
  have "take 2 (drop 16 (?r @ nxt)) = le_bytes 2 (entry_size name)" by (simp add: r)
  moreover have "entry_size name < 256 ^ 2" using sz(3) assms(1) by (simp add: dirent_ok_def)
  ultimately have reclen: "le_value (take 2 (drop 16 (?r @ nxt))) = entry_size name"
    by (simp add: le_value_bytes)
  have e1: "le_value (take 8 (?r @ nxt)) = ino" and e2: "le_value (take 8 (drop 8 (?r @ nxt))) = off"
    using assms(1) by (simp_all add: r le_value_bytes dirent_ok_def)
  have e3: "(?r @ nxt) ! 18 = ty" by (simp add: r nth_append)
  have "drop NAME_OFFSET ?r = name @ 0 # rest" by (simp add: r NAME_OFFSET_def)
  moreover have "takeWhile (\<lambda>c. c \<noteq> 0) (name @ 0 # rest) = name"
    using assms(1) by (subst takeWhile_append2) (auto simp: dirent_ok_def)
  ultimately have e4: "takeWhile (\<lambda>c. c \<noteq> 0) (drop NAME_OFFSET (take (entry_size name) (?r @ nxt))) = name"
    using lr by simp
  have cond: "\<not> (length (?r @ nxt) < NAME_OFFSET \<or> entry_size name = 0 \<or> length (?r @ nxt) < entry_size name)"
    using lr sz(1) by (simp add: NAME_OFFSET_def)
  have "drop (entry_size name) (?r @ nxt) = nxt" using lr by simp
  then show ?thesis
    by (subst parse_dirents.simps) (simp only: reclen cond Let_def e1 e2 e3 e4 if_False)
qed

lemma parse_dirents_Nil: "parse_dirents [] = []"
  by (simp add: parse_dirents.simps NAME_OFFSET_def)

subsection \<open>One call\<close>

text \<open>
  What \<open>read_dir\<close> does for a directory whose listing is \<open>es\<close>: it offers the entries from the given position on, each
  with the position after it, until one is refused.
\<close>

type_synonym dir_item = "string \<times> nat \<times> node_type"

fun offer :: "dir_accept \<Rightarrow> nat \<Rightarrow> dir_item list \<Rightarrow> dir_sink \<Rightarrow> dir_sink \<times> nat" where
  "offer acc i [] k = (k, 0)"
| "offer acc i ((name, ino, ty) # es) k =
     (case acc name ino ty (i + 1) k of
        (k1, False) \<Rightarrow> (k1, 0)
      | (k1, True) \<Rightarrow> map_prod id Suc (offer acc (i + 1) es k1))"

definition read_dir_lists :: "(nat \<Rightarrow> dir_accept \<Rightarrow> dir_sink \<Rightarrow> dir_sink \<times> nat outcome) \<Rightarrow> dir_item list \<Rightarrow> bool" where
  "read_dir_lists rd es \<longleftrightarrow> (\<forall>off acc k. rd off acc k = map_prod id Ok (offer acc off (drop off es) k))"

text \<open>The records a reader is to see for the entries \<open>es\<close> from position \<open>i\<close> on.\<close>

fun dirents_of :: "(node_type \<Rightarrow> u8) \<Rightarrow> nat \<Rightarrow> dir_item list \<Rightarrow> dirent list" where
  "dirents_of tc i [] = []"
| "dirents_of tc i ((name, ino, ty) # es) = (ino, i + 1, tc ty, name_bytes name) # dirents_of tc (i + 1) es"

lemma length_dirents_of [simp]: "length (dirents_of tc i es) = length es"
  by (induction tc i es rule: dirents_of.induct) simp_all

lemma dirents_of_append:
  "dirents_of tc i (xs @ ys) = dirents_of tc i xs @ dirents_of tc (i + length xs) ys"
  by (induction tc i xs rule: dirents_of.induct) simp_all

lemma dirents_of_split:
  "j \<le> length xs \<Longrightarrow> dirents_of tc i xs = dirents_of tc i (take j xs) @ dirents_of tc (i + j) (drop j xs)"
  using dirents_of_append [of tc i "take j xs" "drop j xs"] by (simp only: append_take_drop_id length_take min_absorb2)

definition sink_ok :: "dir_sink \<Rightarrow> bool" where
  "sink_ok k \<longleftrightarrow> db_offset (ds_buffer k) \<le> length (db_buf (ds_buffer k)) \<and> \<not> db_overrun (ds_buffer k)"

definition sink_bytes :: "dir_sink \<Rightarrow> u8 list" where
  "sink_bytes k = take (db_offset (ds_buffer k)) (db_buf (ds_buffer k))"

text \<open>One entry through the closure of \<open>getdents64\<close>.\<close>

lemma accept_one:
  assumes "sink_ok k" "length pad = 5"
  shows "(\<exists>k1 rest. getdents_accept pad tc name ino ty off k = (k1, True) \<and> sink_ok k1
      \<and> sink_bytes k1 = sink_bytes k @ dirent_record (ino, off, tc ty, name_bytes name) rest
      \<and> length rest = entry_size (name_bytes name) - (20 + length (name_bytes name))
      \<and> length (db_buf (ds_buffer k1)) = length (db_buf (ds_buffer k))
      \<and> ds_dir_offset k1 = off \<and> ds_has_remaining k1)
    \<or> (getdents_accept pad tc name ino ty off k = (k\<lparr>ds_has_remaining := True\<rparr>, False)
      \<and> length (db_buf (ds_buffer k)) < db_offset (ds_buffer k) + entry_size (name_bytes name))"
proof -
  let ?b = "ds_buffer k" and ?nm = "name_bytes name"
  have wf: "db_offset ?b \<le> length (db_buf ?b)" "\<not> db_overrun ?b" using assms(1) by (simp_all add: sink_ok_def)
  note w = write_entry_layout [OF wf(1) assms(2) wf(2), where tc = tc and ino = ino and off = off and ty = ty and name = ?nm]
  show ?thesis
  proof (cases "entry_size ?nm \<le> length (db_buf ?b) - db_offset ?b")
    case False
    then have "write_entry pad tc ino off ty ?nm ?b = (?b, False)" using w by simp
    then show ?thesis using False wf(1) by (simp add: getdents_accept_def)
  next
    case True
    then obtain b' rest where b': "write_entry pad tc ino off ty ?nm ?b = (b', True)"
      "take (db_offset b') (db_buf b') = take (db_offset ?b) (db_buf ?b) @ dirent_record (ino, off, tc ty, ?nm) rest"
      "length rest = entry_size ?nm - (20 + length ?nm)"
      "db_offset b' = db_offset ?b + entry_size ?nm" "length (db_buf b') = length (db_buf ?b)" "\<not> db_overrun b'"
      using w by auto
    let ?k1 = "k\<lparr>ds_has_remaining := True, ds_buffer := b', ds_dir_offset := off\<rparr>"
    have "getdents_accept pad tc name ino ty off k = (?k1, True)" using b'(1) by (simp add: getdents_accept_def)
    moreover have "sink_ok ?k1" using b' True wf by (simp add: sink_ok_def)
    moreover have "sink_bytes ?k1 = sink_bytes k @ dirent_record (ino, off, tc ty, ?nm) rest"
      using b'(2) by (simp add: sink_bytes_def)
    ultimately show ?thesis using b'(3,5) by (intro disjI1 exI [of _ ?k1] exI [of _ rest]) simp
  qed
qed

definition offered :: "(node_type \<Rightarrow> u8) \<Rightarrow> nat \<Rightarrow> dir_item list \<Rightarrow> dir_sink \<Rightarrow> dir_sink \<Rightarrow> nat \<Rightarrow> bool" where
  "offered tc i es k k' n \<longleftrightarrow>
     sink_ok k' \<and> n \<le> length es \<and> length (db_buf (ds_buffer k')) = length (db_buf (ds_buffer k))
     \<and> ds_dir_offset k' = (if n = 0 then ds_dir_offset k else i + n)
     \<and> ds_has_remaining k' = (ds_has_remaining k \<or> es \<noteq> [])
     \<and> (\<exists>rec. sink_bytes k' = sink_bytes k @ rec \<and> parse_dirents rec = dirents_of tc i (take n es) \<and> (rec = [] \<longleftrightarrow> n = 0))
     \<and> (n < length es \<longrightarrow>
          length (db_buf (ds_buffer k)) < length (sink_bytes k') + entry_size (name_bytes (fst (es ! n))))"

lemma sink_bytes_length: "sink_ok k \<Longrightarrow> length (sink_bytes k) = db_offset (ds_buffer k)"
  by (simp add: sink_ok_def sink_bytes_def)

lemma offer_getdents:
  assumes "sink_ok k" "length pad = 5" "list_all dirent_ok (dirents_of tc i es)"
  shows "offered tc i es k (fst (offer (getdents_accept pad tc) i es k)) (snd (offer (getdents_accept pad tc) i es k))"
  using assms
proof (induction es arbitrary: i k)
  case Nil
  then show ?case by (auto simp: offered_def parse_dirents_Nil intro: exI [of _ "[]"])
next
  case (Cons e es)
  obtain name ino ty where e: "e = (name, ino, ty)" by (cases e)
  from accept_one [OF Cons.prems(1,2), of tc name ino ty "i + 1"] show ?case
  proof (elim disjE exE conjE)
    fix k1 rest
    assume a: "getdents_accept pad tc name ino ty (i + 1) k = (k1, True)" "sink_ok k1"
      "sink_bytes k1 = sink_bytes k @ dirent_record (ino, i + 1, tc ty, name_bytes name) rest"
      "length rest = entry_size (name_bytes name) - (20 + length (name_bytes name))"
      "length (db_buf (ds_buffer k1)) = length (db_buf (ds_buffer k))" "ds_dir_offset k1 = i + 1" "ds_has_remaining k1"
    define q where "q = offer (getdents_accept pad tc) (i + 1) es k1"
    have ok: "dirent_ok (ino, i + 1, tc ty, name_bytes name)" using Cons.prems(3) by (simp add: e)
    have IH: "offered tc (i + 1) es k1 (fst q) (snd q)"
      unfolding q_def using Cons.prems(3) by (intro Cons.IH a(2) Cons.prems(2)) (simp add: e)
    then obtain rec where rec: "sink_bytes (fst q) = sink_bytes k1 @ rec"
      "parse_dirents rec = dirents_of tc (i + 1) (take (snd q) es)"
      unfolding offered_def by blast
    let ?r = "dirent_record (ino, i + 1, tc ty, name_bytes name) rest @ rec"
    have "sink_bytes (fst q) = sink_bytes k @ ?r" using rec(1) a(3) by simp
    moreover have "parse_dirents ?r = dirents_of tc i (take (Suc (snd q)) (e # es))"
      using parse_record [OF ok a(4), of rec] rec(2) by (simp add: e)
    moreover have "?r \<noteq> []" by (simp add: dirent_record_def)
    moreover have "offer (getdents_accept pad tc) i (e # es) k = (fst q, Suc (snd q))"
      using a(1) by (simp add: e q_def map_prod_def split_beta)
    ultimately show ?thesis
      using IH a(5-7) unfolding offered_def by (auto intro!: exI [of _ ?r])
  next
    assume a: "getdents_accept pad tc name ino ty (i + 1) k = (k\<lparr>ds_has_remaining := True\<rparr>, False)"
      "length (db_buf (ds_buffer k)) < db_offset (ds_buffer k) + entry_size (name_bytes name)"
    then show ?thesis using Cons.prems(1) sink_bytes_length [OF Cons.prems(1)]
      by (auto simp: offered_def e sink_ok_def sink_bytes_def parse_dirents_Nil intro!: exI [of _ "[]"])
  qed
qed

text \<open>
  The situation of a call: the descriptor \<open>fd\<close> stays open on the directory object \<open>d\<close>, its listing is \<open>es\<close>, and the
  user's buffer of \<open>len\<close> bytes at \<open>buf\<close> is mapped; \<open>rd\<close> is what the user reads there.
\<close>

definition reads_dir ::
    "('c, 'n, 'm) fs_ops \<Rightarrow> i32 \<Rightarrow> nat \<Rightarrow> addr \<Rightarrow> usize \<Rightarrow> ('m \<Rightarrow> u8 list) \<Rightarrow> dir_item list \<Rightarrow> 'n \<Rightarrow> bool" where
  "reads_dir ops fd d buf len rd es n \<longleftrightarrow>
     (\<forall>w. dir_from_fd (fc_files ops) fd w = Ok d)
     \<and> read_dir_lists (\<lambda>off acc k. lo_read_dir ops (fc_dir_loc ops d) off acc k n) es
     \<and> (\<forall>bs m. length bs = len \<longrightarrow> (\<exists>m'. ul_write ops buf bs m = (m', Ok ()) \<and> rd m' = bs))"

lemma getdents_call:
  assumes "reads_dir ops fd d buf len rd es (w_nodes w)" "length pad = 5"
    and "list_all dirent_ok (dirents_of (lo_type_code ops) (w_dir_offset w d) (drop (w_dir_offset w d) es))"
    and "\<forall>e \<in> set es. entry_size (name_bytes (fst e)) \<le> len"
  obtains w' n j where "sys_getdents64 ops pad fd buf len w = (w', Ok (int n))" "w_nodes w' = w_nodes w"
    "parse_dirents (take n (rd (w_mem w'))) =
       dirents_of (lo_type_code ops) (w_dir_offset w d) (take j (drop (w_dir_offset w d) es))"
    "w_dir_offset w' d = w_dir_offset w d + j" "j \<le> length es - w_dir_offset w d"
    "(n = 0) = (j = 0)" "(j = 0) = (length es \<le> w_dir_offset w d)"
proof -
  let ?p = "w_dir_offset w d" and ?acc = "getdents_accept pad (lo_type_code ops)"
  let ?k0 = "\<lparr>ds_buffer = dir_buffer_new len, ds_dir_offset = ?p, ds_has_remaining = False\<rparr>"
  define q where "q = offer ?acc ?p (drop ?p es) ?k0"
  define k where "k = fst q"
  have k0: "sink_ok ?k0" "sink_bytes ?k0 = []" "length (db_buf (ds_buffer ?k0)) = len"
    by (simp_all add: sink_ok_def sink_bytes_def dir_buffer_new_def)
  have off: "offered (lo_type_code ops) ?p (drop ?p es) ?k0 k (snd q)"
    unfolding q_def k_def by (rule offer_getdents [OF k0(1) assms(2,3)])
  then obtain rec where rec: "sink_bytes k = rec" "(rec = []) = (snd q = 0)"
    "parse_dirents rec = dirents_of (lo_type_code ops) ?p (take (snd q) (drop ?p es))"
    unfolding offered_def k0(2) by auto
  have k: "sink_ok k" "length (db_buf (ds_buffer k)) = len" "snd q \<le> length es - ?p"
    "ds_dir_offset k = ?p + snd q" "ds_has_remaining k = (drop ?p es \<noteq> [])"
    using off k0(3) by (auto simp: offered_def)
  note len = sink_bytes_length [OF k(1)]
  have progress: "snd q = 0 \<longleftrightarrow> length es \<le> ?p"
  proof (rule ccontr)
    assume "\<not> ?thesis"
    then have "snd q = 0" "?p < length es" using k(3) by auto
    then have "len < entry_size (name_bytes (fst (es ! ?p)))"
      using off k0(3) rec by (auto simp: offered_def)
    moreover have "es ! ?p \<in> set es" using \<open>?p < length es\<close> by simp
    ultimately show False using assms(4) by fastforce
  qed
  let ?w1 = "w\<lparr>w_dir_offset := (w_dir_offset w)(d := ds_dir_offset k)\<rparr>"
  obtain m' where m': "ul_write ops buf (db_buf (ds_buffer k)) (w_mem w) = (m', Ok ())" "rd m' = db_buf (ds_buffer k)"
    using assms(1) k(2) unfolding reads_dir_def by blast
  have rd: "lo_read_dir ops (fc_dir_loc ops d) ?p ?acc ?k0 (w_nodes w) = (k, Ok (snd q))"
    using assms(1) by (simp add: reads_dir_def read_dir_lists_def q_def k_def map_prod_def split_beta)
  have "\<not> (ds_has_remaining k \<and> db_offset (ds_buffer k) = 0)"
    using progress rec len k(5) by auto
  then have "sys_getdents64 ops pad fd buf len w = (?w1\<lparr>w_mem := m'\<rparr>, Ok (int (db_offset (ds_buffer k))))"
    using assms(1) rd m'(1) by (simp add: sys_getdents64_def reads_dir_def on_mem_def Let_def)
  moreover have "take (db_offset (ds_buffer k)) (rd m') = rec"
    using rec(1) m'(2) by (simp add: sink_bytes_def)
  moreover have "(db_offset (ds_buffer k) = 0) = (snd q = 0)" using rec len by auto
  ultimately show ?thesis using that rec(3) k(3,4) progress by auto
qed

subsection \<open>Reading a directory to the end\<close>

fun read_all ::
    "nat \<Rightarrow> (('c, 'n, 'm) fs_world \<Rightarrow> ('c, 'n, 'm) fs_world \<times> int outcome) \<Rightarrow> ('m \<Rightarrow> u8 list) \<Rightarrow> ('c, 'n, 'm) fs_world
      \<Rightarrow> (('c, 'n, 'm) fs_world \<times> dirent list) option" where
  "read_all 0 call rd w = None"
| "read_all (Suc fuel) call rd w =
     (case call w of
        (w1, Inl _) \<Rightarrow> None
      | (w1, Inr n) \<Rightarrow>
          if n = 0 then Some (w1, [])
          else map_option (map_prod id ((@) (parse_dirents (take (nat n) (rd (w_mem w1)))))) (read_all fuel call rd w1))"

lemma read_all_from:
  assumes "reads_dir ops fd d buf len rd es (w_nodes w)" "length pad = 5"
    and "list_all dirent_ok (dirents_of (lo_type_code ops) 0 es)"
    and "\<forall>e \<in> set es. entry_size (name_bytes (fst e)) \<le> len"
    and "w_dir_offset w d \<le> length es" "length es - w_dir_offset w d < fuel"
  shows "\<exists>w'. read_all fuel (sys_getdents64 ops pad fd buf len) rd w =
      Some (w', dirents_of (lo_type_code ops) (w_dir_offset w d) (drop (w_dir_offset w d) es))
    \<and> w_dir_offset w' d = length es"
  using assms
proof (induction fuel arbitrary: w)
  case (Suc fuel)
  let ?p = "w_dir_offset w d" and ?tc = "lo_type_code ops"
  have ok: "list_all dirent_ok (dirents_of ?tc ?p (drop ?p es))"
    using Suc.prems(3) dirents_of_split [OF Suc.prems(5), of ?tc 0] by simp
  obtain w1 n j where c: "sys_getdents64 ops pad fd buf len w = (w1, Ok (int n))" "w_nodes w1 = w_nodes w"
    "parse_dirents (take n (rd (w_mem w1))) = dirents_of ?tc ?p (take j (drop ?p es))"
    "w_dir_offset w1 d = ?p + j" "j \<le> length es - ?p" "(n = 0) = (j = 0)" "(j = 0) = (length es \<le> ?p)"
    by (rule getdents_call [OF Suc.prems(1,2) ok Suc.prems(4)])
  show ?case
  proof (cases "j = 0")
    case True
    then show ?thesis using c Suc.prems(5) by simp
  next
    case False
    have "\<exists>w'. read_all fuel (sys_getdents64 ops pad fd buf len) rd w1 =
        Some (w', dirents_of ?tc (?p + j) (drop (?p + j) es)) \<and> w_dir_offset w' d = length es"
      using Suc.IH [of w1] Suc.prems c(2,4,5) False by (simp add: c(4))
    then obtain w' where r: "read_all fuel (sys_getdents64 ops pad fd buf len) rd w1 =
        Some (w', dirents_of ?tc (?p + j) (drop (?p + j) es))" "w_dir_offset w' d = length es"
      by blast
    have "dirents_of ?tc ?p (drop ?p es) = dirents_of ?tc ?p (take j (drop ?p es)) @ dirents_of ?tc (?p + j) (drop (?p + j) es)"
      using dirents_of_split [of j "drop ?p es" ?tc ?p] c(5) by (simp add: add.commute)
    then show ?thesis using c r False by simp
  qed
qed simp

text \<open>
  C31: a program that reads a directory with \<open>getdents64\<close>, call after call until one returns 0, sees every entry of the
  listing exactly once and in order, each with its name, inode number, type and position, whatever the size of its
  buffer, as long as every single entry fits; it needs at most one call more than there are entries. A reader that
  follows the record lengths finds exactly these records in the bytes the kernel wrote.
\<close>

theorem readdir_lists_all:
  assumes "reads_dir ops fd d buf len rd es (w_nodes w)" "length pad = 5"
    and "list_all dirent_ok (dirents_of (lo_type_code ops) 0 es)"
    and "\<forall>e \<in> set es. entry_size (name_bytes (fst e)) \<le> len"
    and "w_dir_offset w d = 0"
  shows "\<exists>w'. read_all (Suc (length es)) (sys_getdents64 ops pad fd buf len) rd w =
      Some (w', dirents_of (lo_type_code ops) 0 es) \<and> w_dir_offset w' d = length es"
  using read_all_from [OF assms(1-4), of "Suc (length es)"] assms(5) by simp

text \<open>The directories of the in-memory file system have such a listing.\<close>

definition tmp_listing :: "memory_fs \<Rightarrow> (file_name, nat) btree \<Rightarrow> dir_item list" where
  "tmp_listing fs es =
     map (\<lambda>(name, ino). (name_chars name, ino, case fs_get ino fs of Inr n \<Rightarrow> md_type (ti_meta n) | Inl _ \<Rightarrow> RegularFile)) es"

lemma read_dir_loop_offer:
  assumes "\<forall>(name, ino) \<in> set es. is_ok (fs_get ino fs)"
  shows "read_dir_loop (\<lambda>name. acc (name_chars name)) fs (zip [i..<i + length es] es) c k =
    map_prod id (\<lambda>n. Ok (c + n)) (offer acc i (tmp_listing fs es) k)"
  using assms
proof (induction es arbitrary: i c k)
  case Nil
  then show ?case by (simp add: tmp_listing_def)
next
  case (Cons e es)
  obtain name ino where e: "e = (name, ino)" by (cases e)
  obtain n where n: "fs_get ino fs = Inr n" using Cons.prems by (auto simp: e is_ok_def split: sum.splits)
  have z: "zip [i..<i + length (e # es)] (e # es) = (i, name, ino) # zip [Suc i..<Suc i + length es] es"
    by (simp add: upt_conv_Cons e del: upt_Suc)
  obtain k1 b where a: "acc (name_chars name) ino (md_type (ti_meta n)) (i + 1) k = (k1, b)" by fastforce
  note IH = Cons.IH [of "Suc i" "c + 1" k1]
  show ?case
    using Cons.prems IH a unfolding z
    by (cases b) (simp_all add: n tmp_listing_def e map_prod_def split_beta)
qed

lemma tmpfs_read_dir_lists:
  assumes "as_dir d fs = Inr es" "\<forall>(name, ino) \<in> set es. is_ok (fs_get ino fs)"
  shows "read_dir_lists (\<lambda>off acc k. node_read_dir (\<lambda>name. acc (name_chars name)) d off fs k) (tmp_listing fs es)"
  unfolding read_dir_lists_def
proof (intro allI)
  fix off acc k
  have dz: "drop off (zip [0..<length es] es) = zip [off..<off + length (drop off es)] (drop off es)"
    by (cases "off \<le> length es") (simp_all add: drop_zip)
  have ok: "\<forall>(name, ino) \<in> set (drop off es). is_ok (fs_get ino fs)"
    using assms(2) set_drop_subset by fastforce
  have "drop off (tmp_listing fs es) = tmp_listing fs (drop off es)" by (simp add: tmp_listing_def drop_map)
  then show "node_read_dir (\<lambda>name. acc (name_chars name)) d off fs k =
      map_prod id Inr (offer acc off (drop off (tmp_listing fs es)) k)"
    using read_dir_loop_offer [OF ok, of acc off 0 k] assms(1)
    by (simp add: node_read_dir_def dz map_prod_def split_beta)
qed

definition tmp_files :: "(unit, memory_fs, u8 list) fs_world file_ops" where
  "tmp_files =
     \<lparr>fi_lookup = (\<lambda>fd s. if fd = 3 then Ok 7 else Fail BadFileDescriptor),
      fi_kind = (\<lambda>_. Obj_dir), fi_read = (\<lambda>f b s. (s, Fail BadFileDescriptor)),
      fi_write = (\<lambda>f b s. (s, Fail BadFileDescriptor)), fi_read_at = (\<lambda>f b off s. (s, Fail BadFileDescriptor)),
      fi_write_at = (\<lambda>f b off s. (s, Fail BadFileDescriptor)), fi_read_bytes = (\<lambda>f n s. (s, Ok [])),
      fi_write_bytes = (\<lambda>f bs s. (s, Ok 0)), fi_read_bytes_at = (\<lambda>f n off s. (s, Ok [])),
      fi_write_bytes_at = (\<lambda>f bs off s. (s, Ok 0)), fi_poll_in = (\<lambda>f s. True), fi_seek = (\<lambda>f p s. (s, Ok 0)),
      fi_access_write = (\<lambda>f s. Fail BadFileDescriptor), fi_access_append = (\<lambda>f s. False), fi_is_path = (\<lambda>f s. False),
      fi_len = (\<lambda>f s. Ok 0), fi_set_len = (\<lambda>f n s. (s, Fail IsADirectory)), fi_sync = (\<lambda>f b s. (s, Ok ())),
      fi_open_write = (\<lambda>p s. Fail NotFound), fi_read_iov = (\<lambda>a s i. Fail BadAddress),
      fi_vm_read = (\<lambda>a s. Fail BadAddress), fi_vm_write = (\<lambda>a v s. (s, Fail BadAddress)),
      fi_path = (\<lambda>a s. Fail BadAddress)\<rparr>"

definition tmp_like :: "(unit, memory_fs, u8 list) fs_world file_like" where
  "tmp_like =
     \<lparr>fl_nonblocking = (\<lambda>f s. False), fl_set_nonblocking = (\<lambda>f b s. (s, Ok ())), fl_mode = (\<lambda>f s. Ok 0x1ED),
      fl_pipe_capacity = (\<lambda>f s. None), fl_pipe_resize = (\<lambda>f n s. (s, Fail BadFileDescriptor)),
      fl_set_unlck = (\<lambda>a s. (s, Ok ()))\<rparr>"

fun tmp_type_code :: "node_type \<Rightarrow> u8" where
  "tmp_type_code Directory = 4"
| "tmp_type_code RegularFile = 8"
| "tmp_type_code Symlink = 10"
| "tmp_type_code Fifo = 1"
| "tmp_type_code CharacterDevice = 2"
| "tmp_type_code BlockDevice = 6"
| "tmp_type_code Socket = 12"

text \<open>An instance over the in-memory file system; the user's memory is the buffer alone.\<close>

definition tmp_fs_ops :: "(unit, memory_fs, u8 list) fs_ops" where
  "tmp_fs_ops =
     \<lparr>fc_files = tmp_files, fc_like = tmp_like, fc_ioctl = (\<lambda>f c a w. (w, Fail NotATty)),
      fc_other_stat = (\<lambda>f w. Ok kstat_default), fc_backend_loc = (\<lambda>f w. Fail BadFileDescriptor), fc_file_loc = (\<lambda>f w. 2),
      fc_dir_loc = (\<lambda>_. 2), cx_new = (\<lambda>_. ()), cx_with_current_dir = (\<lambda>_ _ c. Ok c), cx_current_dir = (\<lambda>_. 2),
      cx_set_current_dir = (\<lambda>_ _ c. Ok c), cx_resolve = (\<lambda>_ _ _. Ok 2), cx_resolve_no_follow = (\<lambda>_ _ _. Ok 2),
      cx_resolve_parent = (\<lambda>_ p _. Ok (2, p)), cx_resolve_nonexistent = (\<lambda>_ p _. Ok (2, p)),
      cx_create_dir = (\<lambda>_ _ _ n. (n, Fail AlreadyExists)), cx_remove_dir = (\<lambda>_ _ n. (n, Fail NotFound)),
      cx_remove_file = (\<lambda>_ _ n. (n, Fail NotFound)), cx_symlink = (\<lambda>_ _ _ n. (n, Fail AlreadyExists)),
      lo_node_type = (\<lambda>_ _. Directory), lo_metadata = (\<lambda>_ _. Fail NotFound),
      lo_update_metadata = (\<lambda>l u n. (case fs_get l n of Inl e \<Rightarrow> (n, Inl e) | Inr i \<Rightarrow> (set_inode l (update_metadata u i) n, Ok ()))),
      lo_link = (\<lambda>_ _ _ n. (n, Fail AlreadyExists)), lo_rename = (\<lambda>_ _ _ _ n. (n, Fail NotFound)),
      lo_read_link = (\<lambda>_ _. Fail InvalidInput), lo_absolute_path = (\<lambda>_ _. Ok ''/a''),
      lo_read_dir = (\<lambda>l off acc k n. node_read_dir (\<lambda>name. acc (name_chars name)) l off n k),
      lo_type_code = tmp_type_code,
      ul_write = (\<lambda>a bs m. (bs, Ok ())), ul_read_u8 = (\<lambda>a m. Fail BadAddress), ul_read_utimbuf = (\<lambda>a m. Fail BadAddress),
      ul_read_timevals = (\<lambda>a m. Fail BadAddress), ul_read_timespecs = (\<lambda>a m. Fail BadAddress),
      ul_write_stat = (\<lambda>a s m. (m, Fail BadAddress)), ul_write_statx = (\<lambda>a s m. (m, Fail BadAddress))\<rparr>"

definition tmp_world :: "(unit, memory_fs, u8 list) fs_world" where
  "tmp_world = \<lparr>w_context = (), w_dir_offset = (\<lambda>_. 0), w_nodes = tmp_demo, w_mem = []\<rparr>"

lemma tmp_demo_listing:
  "as_dir 2 tmp_demo = Inr [(FileName ''.'', 2), (FileName ''..'', 1), (FileName ''f'', 3)]"
  "tmp_listing tmp_demo [(FileName ''.'', 2), (FileName ''..'', 1), (FileName ''f'', 3)] =
     [(''.'', 2, Directory), (''..'', 1, Directory), (''f'', 3, RegularFile)]"
  "is_ok (fs_get 1 tmp_demo)" "is_ok (fs_get 2 tmp_demo)" "is_ok (fs_get 3 tmp_demo)"
  by code_simp+

lemma tmp_reads_dir:
  "reads_dir tmp_fs_ops 3 7 0x5000 32 id [(''.'', 2, Directory), (''..'', 1, Directory), (''f'', 3, RegularFile)] tmp_demo"
proof -
  have "read_dir_lists (\<lambda>off acc k. node_read_dir (\<lambda>name. acc (name_chars name)) 2 off tmp_demo k)
      [(''.'', 2, Directory), (''..'', 1, Directory), (''f'', 3, RegularFile)]"
    using tmpfs_read_dir_lists [OF tmp_demo_listing(1)] tmp_demo_listing(2-5) by simp
  then show ?thesis by (simp add: reads_dir_def tmp_fs_ops_def tmp_files_def dir_from_fd_def)
qed

theorem readdir_lists_all_witness:
  "\<exists>w'. read_all 4 (sys_getdents64 tmp_fs_ops [0, 0, 0, 0, 0] 3 0x5000 32) id tmp_world =
      Some (w', [(2, 1, 4, [46]), (1, 2, 4, [46, 46]), (3, 3, 8, [102])]) \<and> w_dir_offset w' 7 = 3"
proof -
  let ?es = "[(''.'', 2, Directory), (''..'', 1, Directory), (''f'', 3, RegularFile)] :: dir_item list"
  have d: "dirents_of (lo_type_code tmp_fs_ops) 0 ?es = [(2, 1, 4, [46]), (1, 2, 4, [46, 46]), (3, 3, 8, [102])]"
    by (simp add: tmp_fs_ops_def name_bytes_def)
  have s: "\<forall>e \<in> set ?es. entry_size (name_bytes (fst e)) \<le> 32"
    by (simp add: entry_size_def next_multiple_of_def name_bytes_def NAME_OFFSET_def DIRENT_ALIGN_def)
  have o: "list_all dirent_ok (dirents_of (lo_type_code tmp_fs_ops) 0 ?es)"
    unfolding d by (simp add: dirent_ok_def)
  have r: "reads_dir tmp_fs_ops 3 7 0x5000 32 id ?es (w_nodes tmp_world)"
    using tmp_reads_dir by (simp add: tmp_world_def)
  have "\<exists>w'. read_all (Suc (length ?es)) (sys_getdents64 tmp_fs_ops [0, 0, 0, 0, 0] 3 0x5000 32) id tmp_world =
      Some (w', dirents_of (lo_type_code tmp_fs_ops) 0 ?es) \<and> w_dir_offset w' 7 = length ?es"
    by (rule readdir_lists_all [OF r _ o s]) (simp_all add: tmp_world_def)
  then show ?thesis unfolding d by (simp add: eval_nat_numeral)
qed

subsection \<open>Owner and permissions\<close>

lemma chown_mode_bits:
  "bit (chown_mode mode) i = (bit mode i \<and> i \<noteq> 11 \<and> (i = 10 \<longrightarrow> \<not> bit mode 3))"
proof -
  have c: "SET_UID = 2 ^ 11" "SET_GID = 2 ^ 10" "GROUP_EXEC = 2 ^ 3"
    by (simp_all add: SET_UID_def SET_GID_def GROUP_EXEC_def)
  have n: "bit SET_UID j = (j = 11)" "bit SET_GID j = (j = 10)" "bit GROUP_EXEC j = (j = 3)" for j
    unfolding c by (auto simp: bit_exp_iff possible_bit_word simp del: power_numeral)
  have g: "has_flags (mode AND NOT SET_UID) GROUP_EXEC \<longleftrightarrow> bit mode 3"
  proof
    assume "has_flags (mode AND NOT SET_UID) GROUP_EXEC"
    then have "bit ((mode AND NOT SET_UID) AND GROUP_EXEC) 3" by (simp add: has_flags_def n)
    then show "bit mode 3" by (simp add: bit_and_iff)
  next
    assume "bit mode 3"
    then have "bit ((mode AND NOT SET_UID) AND GROUP_EXEC) j = bit GROUP_EXEC j" for j
      by (auto simp: bit_and_iff bit_not_iff n possible_bit_word)
    then show "has_flags (mode AND NOT SET_UID) GROUP_EXEC" unfolding has_flags_def by (rule bit_eqI)
  qed
  have "possible_bit TYPE(u32) i" if "bit mode i" using that by (rule bit_imp_possible_bit)
  then show ?thesis
    by (auto simp: chown_mode_def g Let_def bit_and_iff bit_not_iff n)
qed

lemma permission_truncate_small: "permission_truncate mode < 0x1000"
proof -
  have "unat (mode AND 0xFFF) \<le> unat (0xFFF :: u32)" by (rule word_le_nat_alt [THEN iffD1], rule word_and_le1)
  then show ?thesis by (simp add: permission_truncate_def word_less_nat_alt)
qed

text \<open>When the buffer of the user faults the entries are lost: the position has already moved past them.\<close>

lemma getdents_fault_skips:
  "\<exists>w'. sys_getdents64 (tmp_fs_ops\<lparr>ul_write := (\<lambda>a bs m. (m, Fail BadAddress))\<rparr>) [0, 0, 0, 0, 0] 3 0x5000 32 tmp_world
      = (w', Fail BadAddress) \<and> w_dir_offset w' 7 = 1"
proof -
  have "snd (sys_getdents64 (tmp_fs_ops\<lparr>ul_write := (\<lambda>a bs m. (m, Fail BadAddress))\<rparr>) [0, 0, 0, 0, 0] 3 0x5000 32 tmp_world)
      = Fail BadAddress" by code_simp
  moreover have "w_dir_offset (fst (sys_getdents64 (tmp_fs_ops\<lparr>ul_write := (\<lambda>a bs m. (m, Fail BadAddress))\<rparr>) [0, 0, 0, 0, 0] 3 0x5000 32 tmp_world)) 7 = 1"
    by code_simp
  ultimately show ?thesis by (metis prod.collapse)
qed

end
