(* ===== verification/Utf8.thy ===== *)
theory Utf8
  imports Prelude
begin

section \<open>Byte strings as text\<close>

text \<open>
  What the kernel uses of Rust's \<open>str\<close>: the check of \<open>from_utf8\<close>, character boundaries, trimming and splitting. A
  \<open>str\<close> is its list of bytes.
\<close>

definition cont_byte :: "u8 \<Rightarrow> bool" where
  "cont_byte b \<longleftrightarrow> 0x80 \<le> b \<and> b \<le> 0xBF"

text \<open>The number of bytes of the first character, 0 when the bytes do not start with one.\<close>

definition utf8_width :: "u8 list \<Rightarrow> nat" where
  "utf8_width bs =
     (case bs of
        [] \<Rightarrow> 0
      | b # r \<Rightarrow>
          if b < 0x80 then 1
          else if 0xC2 \<le> b \<and> b \<le> 0xDF then (if 1 \<le> length r \<and> cont_byte (r ! 0) then 2 else 0)
          else if 0xE0 \<le> b \<and> b \<le> 0xEF then
            (if 2 \<le> length r \<and> cont_byte (r ! 0) \<and> (b = 0xE0 \<longrightarrow> 0xA0 \<le> r ! 0) \<and> (b = 0xED \<longrightarrow> r ! 0 \<le> 0x9F)
                \<and> cont_byte (r ! 1) then 3 else 0)
          else if 0xF0 \<le> b \<and> b \<le> 0xF4 then
            (if 3 \<le> length r \<and> cont_byte (r ! 0) \<and> (b = 0xF0 \<longrightarrow> 0x90 \<le> r ! 0) \<and> (b = 0xF4 \<longrightarrow> r ! 0 \<le> 0x8F)
                \<and> cont_byte (r ! 1) \<and> cont_byte (r ! 2) then 4 else 0)
          else 0)"

function utf8_valid :: "u8 list \<Rightarrow> bool" where
  "utf8_valid bs =
     (if bs = [] then True
      else if utf8_width bs = 0 then False
      else utf8_valid (drop (utf8_width bs) bs))"
  by pat_completeness simp
termination
  by (relation "measure length") simp_all

declare utf8_valid.simps [simp del]

text \<open>\<open>is_char_boundary\<close>; slicing a \<open>str\<close> anywhere else panics.\<close>

definition char_boundary :: "u8 list \<Rightarrow> nat \<Rightarrow> bool" where
  "char_boundary bs i \<longleftrightarrow> i = 0 \<or> i = length bs \<or> (i < length bs \<and> \<not> cont_byte (bs ! i))"

definition ends_with :: "'a list \<Rightarrow> 'a list \<Rightarrow> bool" where
  "ends_with s xs \<longleftrightarrow> length s \<le> length xs \<and> drop (length xs - length s) xs = s"

definition starts_with :: "'a list \<Rightarrow> 'a list \<Rightarrow> bool" where
  "starts_with s xs \<longleftrightarrow> take (length s) xs = s"

text \<open>
  \<open>char::is_ascii_whitespace\<close>, and the encodings of the characters with the property \<open>White_Space\<close>, which
  \<open>str::trim\<close> removes at both ends.
\<close>

definition ascii_whitespace :: "u8 \<Rightarrow> bool" where
  "ascii_whitespace b \<longleftrightarrow> b \<in> {0x09, 0x0A, 0x0C, 0x0D, 0x20}"

definition white_space :: "u8 list list" where
  "white_space =
     [[0x09], [0x0A], [0x0B], [0x0C], [0x0D], [0x20], [0xC2, 0x85], [0xC2, 0xA0], [0xE1, 0x9A, 0x80],
      [0xE2, 0x80, 0x80], [0xE2, 0x80, 0x81], [0xE2, 0x80, 0x82], [0xE2, 0x80, 0x83], [0xE2, 0x80, 0x84],
      [0xE2, 0x80, 0x85], [0xE2, 0x80, 0x86], [0xE2, 0x80, 0x87], [0xE2, 0x80, 0x88], [0xE2, 0x80, 0x89],
      [0xE2, 0x80, 0x8A], [0xE2, 0x80, 0xA8], [0xE2, 0x80, 0xA9], [0xE2, 0x80, 0xAF], [0xE2, 0x81, 0x9F],
      [0xE3, 0x80, 0x80]]"

function strip_front :: "u8 list list \<Rightarrow> u8 list \<Rightarrow> u8 list" where
  "strip_front ws bs =
     (case List.find (\<lambda>w. w \<noteq> [] \<and> starts_with w bs) ws of
        None \<Rightarrow> bs
      | Some w \<Rightarrow> strip_front ws (drop (length w) bs))"
  by auto
termination
proof (relation "measure (length \<circ> snd)")
  fix ws bs w
  assume "List.find (\<lambda>w. w \<noteq> [] \<and> starts_with w bs) ws = Some w"
  then have "w \<noteq> []" "starts_with w bs" by (auto simp: find_Some_iff)
  then have "bs \<noteq> []" by (cases w) (auto simp: starts_with_def)
  with \<open>w \<noteq> []\<close> show "((ws, drop (length w) bs), ws, bs) \<in> measure (length \<circ> snd)" by simp
qed simp

declare strip_front.simps [simp del]

definition str_trim :: "u8 list \<Rightarrow> u8 list" where
  "str_trim bs = rev (strip_front (map rev white_space) (rev (strip_front white_space bs)))"

definition trim_ascii :: "u8 list \<Rightarrow> u8 list" where
  "trim_ascii bs = rev (dropWhile ascii_whitespace (rev (dropWhile ascii_whitespace bs)))"

text \<open>\<open>splitn(2, p)\<close>: at most two pieces, cut at the first byte with \<open>p\<close>.\<close>

definition splitn2 :: "(u8 \<Rightarrow> bool) \<Rightarrow> u8 list \<Rightarrow> u8 list list" where
  "splitn2 p bs =
     (case dropWhile (\<lambda>b. \<not> p b) bs of
        [] \<Rightarrow> [bs]
      | _ # r \<Rightarrow> [takeWhile (\<lambda>b. \<not> p b) bs, r])"

lemma char_boundary_valid:
  assumes "utf8_valid bs" "bs \<noteq> []"
  shows "\<not> cont_byte (hd bs)"
proof -
  obtain b r where bs: "bs = b # r" using assms(2) by (cases bs) auto
  have "utf8_width bs = 0" if c: "0x80 \<le> b" "b \<le> 0xBF"
  proof -
    have "\<not> b < 0x80" using c(1) by simp
    moreover have "\<not> 0xC2 \<le> b" "\<not> 0xE0 \<le> b" "\<not> 0xF0 \<le> b"
      using c(2) by (simp_all add: word_le_nat_alt)
    ultimately show ?thesis by (simp add: utf8_width_def bs)
  qed
  moreover have "utf8_width bs \<noteq> 0" using assms by (subst (asm) utf8_valid.simps) (simp split: if_splits)
  ultimately show ?thesis by (auto simp: cont_byte_def bs)
qed

end
