(* ===== verification/Loader.thy ===== *)
theory Loader
  imports Mm Timers Utf8
begin

section \<open>Loading programs and access to user memory\<close>

text \<open>
  \<open>core/src/mm.rs\<close> and the address space layouts of \<open>core/src/config\<close>.

  Parsing ELF files (\<open>kernel_elf_parser\<close>, \<open>xmas_elf\<close>), the file system, the LRU cache (\<open>uluru\<close>) and the address space
  (\<open>axmm\<close>) are parameters. A program is named by the number of its location. Loading calls itself for scripts, and may
  do so for ever, so it has fuel: the number of nested calls; without fuel the result is \<open>None\<close>.
\<close>

subsection \<open>Layouts\<close>

record user_layout =
  ly_space_base :: nat
  ly_space_size :: nat
  ly_stack_top :: nat
  ly_stack_size :: nat
  ly_heap_base :: nat
  ly_heap_size :: nat
  ly_heap_size_max :: nat
  ly_interp_base :: nat
  ly_trampoline :: nat

definition riscv64_layout :: user_layout where
  "riscv64_layout =
     \<lparr>ly_space_base = 0x1000, ly_space_size = 0x3ffffff000, ly_stack_top = 0x400000000, ly_stack_size = 0x80000,
      ly_heap_base = 0x40000000, ly_heap_size = 0x10000, ly_heap_size_max = 0x20000000, ly_interp_base = 0x4000000,
      ly_trampoline = 0x60001000\<rparr>"

definition loongarch64_layout :: user_layout where
  "loongarch64_layout =
     \<lparr>ly_space_base = 0x1000, ly_space_size = 0x3ffffff000, ly_stack_top = 0x400000000, ly_stack_size = 0x80000,
      ly_heap_base = 0x40000000, ly_heap_size = 0x10000, ly_heap_size_max = 0x20000000, ly_interp_base = 0x4000000,
      ly_trampoline = 0x60001000\<rparr>"

definition x86_64_layout :: user_layout where
  "x86_64_layout =
     \<lparr>ly_space_base = 0x1000, ly_space_size = 0x7ffffffff000, ly_stack_top = 0x7fff00000000, ly_stack_size = 0x80000,
      ly_heap_base = 0x40000000, ly_heap_size = 0x10000, ly_heap_size_max = 0x20000000, ly_interp_base = 0x4000000,
      ly_trampoline = 0x60001000\<rparr>"

definition aarch64_layout :: user_layout where
  "aarch64_layout =
     \<lparr>ly_space_base = 0x1000, ly_space_size = 0x7ffffffff000, ly_stack_top = 0x7fff00000000, ly_stack_size = 0x80000,
      ly_heap_base = 0x40000000, ly_heap_size = 0x10000, ly_heap_size_max = 0x20000000, ly_interp_base = 0x4000000,
      ly_trampoline = 0x60001000\<rparr>"

subsection \<open>Programs\<close>

datatype ph_type = PT_Load | PT_Interp | PT_Other

record program_header =
  ph_type :: ph_type
  ph_virtual_addr :: nat
  ph_mem_size :: nat
  ph_file_size :: nat
  ph_offset :: nat
  ph_readable :: bool
  ph_writable :: bool
  ph_executable :: bool

record 'h elf_cache_entry =
  ce_location :: nat
  ce_elf :: 'h

text \<open>
  \<open>le_ph_range\<close> is \<open>ELFHeadersBuilder::new\<close> and \<open>ph_range\<close>, \<open>le_build\<close> the builder's \<open>build\<close>; \<open>le_parser\<close> is
  \<open>ELFParser::new\<close>, which gives the base, the entry point and the program headers of the image. \<open>le_aux\<close> is
  \<open>aux_vector\<close>, \<open>le_stack\<close> is \<open>app_stack_region\<close>.
\<close>

record elf_image =
  ei_base :: nat
  ei_entry :: nat
  ei_ph :: "program_header list"

record 'h load_env =
  le_layout :: user_layout
  le_resolve :: "string \<Rightarrow> nat outcome"
  le_read_at :: "nat \<Rightarrow> nat \<Rightarrow> nat \<Rightarrow> u8 list outcome"
  le_ph_range :: "u8 list \<Rightarrow> (nat \<times> nat) option"
  le_build :: "u8 list \<Rightarrow> u8 list \<Rightarrow> 'h option"
  le_ph :: "'h \<Rightarrow> program_header list"
  le_parser :: "'h \<Rightarrow> nat \<Rightarrow> elf_image option"
  le_aux :: "elf_image \<Rightarrow> nat \<Rightarrow> nat option \<Rightarrow> (nat \<times> nat) list"
  le_stack :: "string list \<Rightarrow> string list \<Rightarrow> (nat \<times> nat) list \<Rightarrow> addr \<Rightarrow> u8 list"
  le_trampoline_paddr :: nat

datatype load_backend =
    Load_cow addr nat nat nat
  | Load_alloc addr

record 'a load_aspace =
  la_clear :: "'a \<Rightarrow> 'a"
  la_map_linear :: "addr \<Rightarrow> nat \<Rightarrow> usize \<Rightarrow> mapping_flags \<Rightarrow> 'a \<Rightarrow> 'a \<times> unit outcome"
  la_map :: "addr \<Rightarrow> usize \<Rightarrow> mapping_flags \<Rightarrow> bool \<Rightarrow> load_backend \<Rightarrow> 'a \<Rightarrow> 'a \<times> unit outcome"
  la_populate :: "addr \<Rightarrow> usize \<Rightarrow> mapping_flags \<Rightarrow> 'a \<Rightarrow> 'a \<times> unit outcome"
  la_write :: "addr \<Rightarrow> u8 list \<Rightarrow> 'a \<Rightarrow> 'a \<times> unit outcome"
  la_align_down :: "nat \<Rightarrow> nat"
  la_align_up :: "nat \<Rightarrow> nat"

text \<open>The cache: its entries with the most recently used first, \<open>touch\<close>, and \<open>insert\<close>, which drops the oldest.\<close>

record ('h, 'l) lru_ops =
  lr_items :: "'l \<Rightarrow> 'h elf_cache_entry list"
  lr_touch :: "('h elf_cache_entry \<Rightarrow> bool) \<Rightarrow> 'l \<Rightarrow> 'l \<times> bool"
  lr_insert :: "'h elf_cache_entry \<Rightarrow> 'l \<Rightarrow> 'l"
  lr_clear :: "'l \<Rightarrow> 'l"

text \<open>
  A new address space (\<open>new_empty\<close> is \<open>AddrSpace::new_empty\<close>), and the kernel's part of it, which is copied except on the
  architectures with a page table of its own for the kernel.
\<close>

definition new_user_aspace_empty :: "(addr \<Rightarrow> usize \<Rightarrow> 'a outcome) \<Rightarrow> user_layout \<Rightarrow> 'a outcome" where
  "new_user_aspace_empty new_empty ly = new_empty (ly_space_base ly) (ly_space_size ly)"

definition copy_from_kernel :: "bool \<Rightarrow> ('a \<Rightarrow> 'a \<times> unit outcome) \<Rightarrow> 'a \<Rightarrow> 'a \<times> unit outcome" where
  "copy_from_kernel own_table copy asp = (if own_table then (asp, Ok ()) else copy asp)"

subsection \<open>Mapping\<close>

definition map_trampoline :: "'h load_env \<Rightarrow> 'a load_aspace \<Rightarrow> 'a \<Rightarrow> 'a \<times> unit outcome" where
  "map_trampoline env ops asp =
     la_map_linear ops (ly_trampoline (le_layout env)) (le_trampoline_paddr env) PAGE_SIZE_4K
       \<lparr>mf_read = True, mf_write = False, mf_execute = True, mf_user = True\<rparr> asp"

definition ph_mapping_flags :: "program_header \<Rightarrow> mapping_flags" where
  "ph_mapping_flags ph =
     \<lparr>mf_read = ph_readable ph, mf_write = ph_writable ph, mf_execute = ph_executable ph, mf_user = True\<rparr>"

definition seg_align_size :: "program_header \<Rightarrow> nat \<Rightarrow> nat" where
  "seg_align_size ph seg_pad =
     (uadd (uadd (ph_mem_size ph) seg_pad) (PAGE_SIZE_4K - 1) div PAGE_SIZE_4K) * PAGE_SIZE_4K"

definition map_segment ::
    "'a load_aspace \<Rightarrow> nat \<Rightarrow> elf_image \<Rightarrow> program_header \<Rightarrow> 'a \<Rightarrow> 'a \<times> unit outcome" where
  "map_segment ops loc img ph asp =
     (let vaddr = uadd (ph_virtual_addr ph) (ei_base img);
          seg_pad = vaddr mod PAGE_SIZE_4K
      in if seg_pad \<noteq> ph_offset ph mod PAGE_SIZE_4K then (asp, Panicked)
         else la_map ops (la_align_down ops vaddr) (seg_align_size ph seg_pad) (ph_mapping_flags ph) False
                (Load_cow vaddr loc (ph_offset ph) (uadd (ph_offset ph) (ph_file_size ph))) asp)"

fun map_segments ::
    "'a load_aspace \<Rightarrow> nat \<Rightarrow> elf_image \<Rightarrow> program_header list \<Rightarrow> 'a \<Rightarrow> 'a \<times> unit outcome" where
  "map_segments ops loc img [] asp = (asp, Ok ())"
| "map_segments ops loc img (ph # phs) asp =
     (if ph_type ph = PT_Load then
        (case map_segment ops loc img ph asp of
           (asp1, Inl e) \<Rightarrow> (asp1, Inl e)
         | (asp1, Inr _) \<Rightarrow> map_segments ops loc img phs asp1)
      else map_segments ops loc img phs asp)"

definition map_elf ::
    "'h load_env \<Rightarrow> 'a load_aspace \<Rightarrow> nat \<Rightarrow> 'h elf_cache_entry \<Rightarrow> 'a \<Rightarrow> 'a \<times> elf_image outcome" where
  "map_elf env ops base entry asp =
     (case le_parser env (ce_elf entry) base of
        None \<Rightarrow> (asp, Fail InvalidData)
      | Some img \<Rightarrow>
          (case map_segments ops (ce_location entry) img (ei_ph img) asp of
             (asp1, Inl e) \<Rightarrow> (asp1, Inl e)
           | (asp1, Inr _) \<Rightarrow> (asp1, Ok img)))"

subsection \<open>The cache of programs\<close>

text \<open>\<open>ElfCacheEntry::load\<close>: \<open>Inl\<close> an entry, \<open>Inr\<close> the first bytes of a file that is not a program.\<close>

definition elf_cache_entry_load :: "'h load_env \<Rightarrow> nat \<Rightarrow> ('h elf_cache_entry + u8 list) outcome" where
  "elf_cache_entry_load env loc =
     (case le_read_at env loc 4096 0 of
        Inl e \<Rightarrow> Inl e
      | Inr data \<Rightarrow>
          (let finish = (\<lambda>r. case r of None \<Rightarrow> Ok (Inr data) | Some h \<Rightarrow> Ok (Inl \<lparr>ce_location = loc, ce_elf = h\<rparr>)) in
           case le_ph_range env data of
             None \<Rightarrow> Ok (Inr data)
           | Some (start, stop) \<Rightarrow>
               if stop \<le> length data then
                 (if start \<le> stop then finish (le_build env data (take (stop - start) (drop start data))) else Panicked)
               else
                 (case le_read_at env loc (usub stop start) start of
                    Inl (Err _) \<Rightarrow> Ok (Inr data)
                  | Inl Panic \<Rightarrow> Panicked
                  | Inr bs \<Rightarrow> finish (le_build env data (bs @ replicate (usub stop start - length bs) 0)))))"

text \<open>\<open>CStr::from_bytes_with_nul\<close> and \<open>to_str\<close> on the contents of an interpreter segment.\<close>

definition cstr_of :: "u8 list \<Rightarrow> string outcome" where
  "cstr_of bs =
     (if bs \<noteq> [] \<and> last bs = 0 \<and> 0 \<notin> set (butlast bs) \<and> utf8_valid (butlast bs)
      then Ok (map (\<lambda>b. char_of (unat b)) (butlast bs)) else Fail InvalidInput)"

definition interpreter_of :: "'h load_env \<Rightarrow> 'h elf_cache_entry \<Rightarrow> string option outcome" where
  "interpreter_of env entry =
     (case List.find (\<lambda>ph. ph_type ph = PT_Interp) (le_ph env (ce_elf entry)) of
        None \<Rightarrow> Ok None
      | Some header \<Rightarrow>
          (case le_read_at env (ce_location entry) (ph_file_size header) (ph_offset header) of
             Inl e \<Rightarrow> Inl e
           | Inr bs \<Rightarrow>
               if length bs \<noteq> ph_file_size header then Panicked else map_sum id Some (cstr_of bs)))"

text \<open>\<open>touch\<close> the entry of a location, or load and insert it. \<open>Inr\<close> is the contents of a file that is no program.\<close>

definition fetch_entry ::
    "'h load_env \<Rightarrow> ('h, 'l) lru_ops \<Rightarrow> nat \<Rightarrow> 'l \<Rightarrow> 'l \<times> (unit + u8 list) outcome" where
  "fetch_entry env lru loc cache =
     (case lr_touch lru (\<lambda>e. ce_location e = loc) cache of
        (cache1, True) \<Rightarrow> (cache1, Ok (Inl ()))
      | (cache1, False) \<Rightarrow>
          (case elf_cache_entry_load env loc of
             Inl e \<Rightarrow> (cache1, Inl e)
           | Inr (Inl entry) \<Rightarrow> (lr_insert lru entry cache1, Ok (Inl ()))
           | Inr (Inr data) \<Rightarrow> (cache1, Ok (Inr data))))"

text \<open>The two images of a program: itself and, when it asks for one, its dynamic linker.\<close>

definition choose_images ::
    "'h load_env \<Rightarrow> ('h, 'l) lru_ops \<Rightarrow> 'l \<Rightarrow> 'l \<times> ('h elf_cache_entry \<times> 'h elf_cache_entry option) outcome" where
  "choose_images env lru cache =
     (case lr_items lru cache of
        [] \<Rightarrow> (cache, Panicked)
      | entry # _ \<Rightarrow>
          (case interpreter_of env entry of
             Inl e \<Rightarrow> (cache, Inl e)
           | Inr None \<Rightarrow> (cache, Ok (entry, None))
           | Inr (Some ldso) \<Rightarrow>
               (case le_resolve env ldso of
                  Inl e \<Rightarrow> (cache, Inl e)
                | Inr loc \<Rightarrow>
                    (case fetch_entry env lru loc cache of
                       (cache1, Inl e) \<Rightarrow> (cache1, Inl e)
                     | (cache1, Inr (Inr _)) \<Rightarrow> (cache1, Fail InvalidInput)
                     | (cache1, Inr (Inl _)) \<Rightarrow>
                         (case lr_items lru cache1 of
                            ld # elf # _ \<Rightarrow> (cache1, Ok (elf, Some ld))
                          | _ \<Rightarrow> (cache1, Panicked))))))"

definition map_images ::
    "'h load_env \<Rightarrow> 'a load_aspace \<Rightarrow> 'h elf_cache_entry \<Rightarrow> 'h elf_cache_entry option \<Rightarrow> 'a
      \<Rightarrow> 'a \<times> (addr \<times> (nat \<times> nat) list) outcome" where
  "map_images env ops elf ldso asp =
     (case map_elf env ops (ly_space_base (le_layout env)) elf asp of
        (asp1, Inl e) \<Rightarrow> (asp1, Inl e)
      | (asp1, Inr img) \<Rightarrow>
          (case ldso of
             None \<Rightarrow> (asp1, Ok (ei_entry img, le_aux env img PAGE_SIZE_4K None))
           | Some ld \<Rightarrow>
               (case map_elf env ops (ly_interp_base (le_layout env)) ld asp1 of
                  (asp2, Inl e) \<Rightarrow> (asp2, Inl e)
                | (asp2, Inr li) \<Rightarrow> (asp2, Ok (ei_entry li, le_aux env img PAGE_SIZE_4K (Some (ei_base li)))))))"

text \<open>\<open>ElfLoader::load\<close>: \<open>Inl\<close> the entry point and the auxiliary vector, \<open>Inr\<close> the contents of a file that is no program.\<close>

definition elf_loader_load ::
    "'h load_env \<Rightarrow> ('h, 'l) lru_ops \<Rightarrow> 'a load_aspace \<Rightarrow> string \<Rightarrow> 'l \<times> 'a
      \<Rightarrow> ('l \<times> 'a) \<times> (addr \<times> (nat \<times> nat) list + u8 list) outcome" where
  "elf_loader_load env lru ops path s =
     (let (cache, asp) = s in
      case le_resolve env path of
        Inl e \<Rightarrow> (s, Inl e)
      | Inr loc \<Rightarrow>
          (case fetch_entry env lru loc cache of
             (cache1, Inl e) \<Rightarrow> ((cache1, asp), Inl e)
           | (cache1, Inr (Inr data)) \<Rightarrow> ((cache1, asp), Ok (Inr data))
           | (cache1, Inr (Inl _)) \<Rightarrow>
               (case map_trampoline env ops (la_clear ops asp) of
                  (asp1, Inl e) \<Rightarrow> ((cache1, asp1), Inl e)
                | (asp1, Inr _) \<Rightarrow>
                    (case choose_images env lru cache1 of
                       (cache2, Inl e) \<Rightarrow> ((cache2, asp1), Inl e)
                     | (cache2, Inr (elf, ldso)) \<Rightarrow>
                         (case map_images env ops elf ldso asp1 of
                            (asp2, Inl e) \<Rightarrow> ((cache2, asp2), Inl e)
                          | (asp2, Inr r) \<Rightarrow> ((cache2, asp2), Ok (Inl r)))))))"

definition clear_elf_cache :: "('h, 'l) lru_ops \<Rightarrow> 'l \<Rightarrow> 'l" where
  "clear_elf_cache lru cache = lr_clear lru cache"

subsection \<open>\<open>load_user_app\<close>\<close>

definition bytes_string :: "u8 list \<Rightarrow> string" where
  "bytes_string bs = map (\<lambda>b. char_of (unat b)) bs"

text \<open>The interpreter line of a script: the arguments for the program that runs it.\<close>

definition script_args :: "u8 list \<Rightarrow> string \<Rightarrow> string list \<Rightarrow> string list outcome" where
  "script_args data path args =
     (let head = drop 2 (take (min (length data) 256) data);
          line = takeWhile (\<lambda>c. c \<noteq> 0x0A) head
      in if \<not> utf8_valid line then Fail InvalidInput
         else Ok (map (bytes_string \<circ> trim_ascii) (splitn2 ascii_whitespace (str_trim line)) @ [path] @ drop 1 args))"

definition rw_flags :: "bool \<Rightarrow> mapping_flags" where
  "rw_flags user = \<lparr>mf_read = True, mf_write = True, mf_execute = False, mf_user = user\<rparr>"

text \<open>The stack with the arguments, and the heap.\<close>

definition setup_stack_heap ::
    "'h load_env \<Rightarrow> 'a load_aspace \<Rightarrow> string list \<Rightarrow> string list \<Rightarrow> (nat \<times> nat) list \<Rightarrow> 'a \<Rightarrow> 'a \<times> addr outcome" where
  "setup_stack_heap env ops args envs auxv asp =
     (let ly = le_layout env;
          ustack_top = ly_stack_top ly;
          ustack_start = ustack_top - ly_stack_size ly
      in case la_map ops ustack_start (ly_stack_size ly) (rw_flags True) False (Load_alloc ustack_start) asp of
           (asp1, Inl e) \<Rightarrow> (asp1, Inl e)
         | (asp1, Inr _) \<Rightarrow>
             (let stack_data = le_stack env args envs auxv ustack_top;
                  user_sp = usub ustack_top (length stack_data);
                  user_sp_aligned = la_align_down ops user_sp
              in case la_populate ops user_sp_aligned (la_align_up ops (usub ustack_top user_sp_aligned)) (rw_flags False) asp1 of
                   (asp2, Inl e) \<Rightarrow> (asp2, Inl e)
                 | (asp2, Inr _) \<Rightarrow>
                     (case la_write ops user_sp stack_data asp2 of
                        (asp3, Inl e) \<Rightarrow> (asp3, Inl e)
                      | (asp3, Inr _) \<Rightarrow>
                          (case la_map ops (ly_heap_base ly) (ly_heap_size ly) (rw_flags True) True (Load_alloc (ly_heap_base ly)) asp3 of
                             (asp4, Inl e) \<Rightarrow> (asp4, Inl e)
                           | (asp4, Inr _) \<Rightarrow> (asp4, Ok user_sp)))))"

fun load_user_app ::
    "nat \<Rightarrow> 'h load_env \<Rightarrow> ('h, 'l) lru_ops \<Rightarrow> 'a load_aspace \<Rightarrow> string option \<Rightarrow> string list \<Rightarrow> string list \<Rightarrow> 'l \<times> 'a
      \<Rightarrow> (('l \<times> 'a) \<times> (addr \<times> addr) outcome) option" where
  "load_user_app 0 env lru ops path args envs s = None"
| "load_user_app (Suc fuel) env lru ops path args envs s =
     (case (case path of Some p \<Rightarrow> Some p | None \<Rightarrow> (case args of [] \<Rightarrow> None | a # _ \<Rightarrow> Some a)) of
        None \<Rightarrow> Some (s, Fail InvalidInput)
      | Some p \<Rightarrow>
          if ends_with ''.sh'' p then load_user_app fuel env lru ops None (''/bin/sh'' # args) envs s
          else
            (case elf_loader_load env lru ops p s of
               (s1, Inl e) \<Rightarrow> Some (s1, Inl e)
             | (s1, Inr (Inr data)) \<Rightarrow>
                 if starts_with [0x23, 0x21] data then
                   (case script_args data p args of
                      Inl e \<Rightarrow> Some (s1, Inl e)
                    | Inr new_args \<Rightarrow> load_user_app fuel env lru ops None new_args envs s1)
                 else Some (s1, Fail InvalidExecutable)
             | ((cache1, asp1), Inr (Inl (entry, auxv))) \<Rightarrow>
                 (case setup_stack_heap env ops args envs auxv asp1 of
                    (asp2, Inl e) \<Rightarrow> Some ((cache1, asp2), Inl e)
                  | (asp2, Inr user_sp) \<Rightarrow> Some ((cache1, asp2), Ok (entry, user_sp)))))"

subsection \<open>Access to user memory\<close>

definition check_access :: "user_layout \<Rightarrow> usize \<Rightarrow> usize \<Rightarrow> bool" where
  "check_access ly start len \<longleftrightarrow>
     (let user_end = ly_space_base ly + ly_space_size ly
      in ly_space_base ly \<le> start \<and> start < user_end \<and> user_end - start \<ge> len)"

text \<open>
  \<open>Vm::read\<close> and \<open>Vm::write\<close>. \<open>accessing\<close> is the flag of the thread that lets the fault handler in; \<open>copy\<close> is
  \<open>user_copy\<close> of axhal, run with the flag set, on the state of the machine; it returns the number of bytes not copied.
\<close>

record 'm access_state =
  ac_accessing :: bool
  ac_machine :: 'm

definition access_user_memory :: "('m access_state \<Rightarrow> 'm access_state \<times> 'r) \<Rightarrow> 'm access_state \<Rightarrow> 'm access_state \<times> 'r" where
  "access_user_memory f s =
     (let (s1, r) = f (s\<lparr>ac_accessing := True\<rparr>) in (s1\<lparr>ac_accessing := False\<rparr>, r))"

definition vm_transfer ::
    "user_layout \<Rightarrow> (usize \<Rightarrow> usize \<Rightarrow> 'm access_state \<Rightarrow> 'm access_state \<times> nat) \<Rightarrow> usize \<Rightarrow> usize \<Rightarrow> 'm access_state
      \<Rightarrow> 'm access_state \<times> bool" where
  "vm_transfer ly copy start len s =
     (if \<not> check_access ly start len then (s, False)
      else (let (s1, failed_at) = access_user_memory (copy start len) s in (s1, failed_at = 0)))"

end
