(* ===== verification/Loader_Props.thy ===== *)
theory Loader_Props
  imports Loader
begin

section \<open>Properties of the loader\<close>

text \<open>
  What a program finds mapped after a successful load; two ways in which loading goes wrong: a program that names itself
  as its interpreter, and a script that names itself. Transfers to and from user memory stay in user space.
\<close>

subsection \<open>Layouts and user space\<close>

definition layout_ok :: "user_layout \<Rightarrow> bool" where
  "layout_ok ly \<longleftrightarrow>
     4096 dvd ly_space_base ly \<and> 4096 dvd ly_stack_top ly \<and> 4096 dvd ly_stack_size ly
     \<and> ly_space_base ly < ly_interp_base ly \<and> ly_interp_base ly < ly_heap_base ly
     \<and> ly_heap_size ly \<le> ly_heap_size_max ly \<and> ly_heap_base ly + ly_heap_size_max ly \<le> ly_trampoline ly
     \<and> ly_trampoline ly + PAGE_SIZE_4K \<le> ly_stack_top ly - ly_stack_size ly \<and> ly_stack_size ly \<le> ly_stack_top ly
     \<and> ly_stack_top ly \<le> ly_space_base ly + ly_space_size ly \<and> ly_space_base ly + ly_space_size ly < 2 ^ 63"

lemma layouts_ok:
  "layout_ok riscv64_layout" "layout_ok loongarch64_layout" "layout_ok x86_64_layout" "layout_ok aarch64_layout"
  by (simp_all add: layout_ok_def riscv64_layout_def loongarch64_layout_def x86_64_layout_def aarch64_layout_def)

lemma check_access_iff:
  "0 < len \<Longrightarrow> check_access ly start len \<longleftrightarrow>
     {start..<start + len} \<subseteq> {ly_space_base ly..<ly_space_base ly + ly_space_size ly}"
  by (auto simp: check_access_def Let_def)

text \<open>A transfer touches nothing outside user space, and the fault handler is shut out again afterwards.\<close>

lemma vm_transfer_safe:
  assumes "vm_transfer ly copy start len s = (s', ok)" "\<not> ac_accessing s"
    and "\<And>t t' n. copy start len t = (t', n) \<Longrightarrow> ac_accessing t' = ac_accessing t"
  shows "\<not> ac_accessing s'" "s' \<noteq> s \<or> ok \<Longrightarrow> start + len \<le> ly_space_base ly + ly_space_size ly \<and> ly_space_base ly \<le> start"
  using assms by (auto simp: vm_transfer_def access_user_memory_def check_access_def Let_def split: if_splits prod.splits)

subsection \<open>The crates below\<close>

text \<open>
  The address space: \<open>clear\<close> removes every mapping, a mapping that succeeds adds its range, one that fails changes
  nothing, populating and writing change no mapping. Rounding is to pages.
\<close>

definition load_contract :: "'a load_aspace \<Rightarrow> ('a \<Rightarrow> addr set) \<Rightarrow> bool" where
  "load_contract ops mapped \<longleftrightarrow>
     (\<forall>s. mapped (la_clear ops s) = {})
     \<and> (\<forall>a p sz fl s s'. la_map_linear ops a p sz fl s = (s', Ok ()) \<longrightarrow> mapped s' = mapped s \<union> {a..<a + sz})
     \<and> (\<forall>a sz fl pop b s s'. la_map ops a sz fl pop b s = (s', Ok ()) \<longrightarrow> mapped s' = mapped s \<union> {a..<a + sz})
     \<and> (\<forall>a sz fl s s'. la_populate ops a sz fl s = (s', Ok ()) \<longrightarrow> mapped s' = mapped s)
     \<and> (\<forall>a bs s s'. la_write ops a bs s = (s', Ok ()) \<longrightarrow> mapped s' = mapped s)
     \<and> rounds_down PAGE_SIZE_4K (la_align_down ops)"

lemma load_contractD:
  assumes "load_contract ops mapped"
  shows "mapped (la_clear ops s) = {}"
    and "la_map_linear ops a p sz fl s = (s', Ok ()) \<Longrightarrow> mapped s' = mapped s \<union> {a..<a + sz}"
    and "la_map ops a sz fl pop b s = (s', Ok ()) \<Longrightarrow> mapped s' = mapped s \<union> {a..<a + sz}"
    and "la_populate ops a sz fl s = (s', Ok ()) \<Longrightarrow> mapped s' = mapped s"
    and "la_write ops a bs s = (s', Ok ()) \<Longrightarrow> mapped s' = mapped s"
    and "rounds_down PAGE_SIZE_4K (la_align_down ops)"
  using assms unfolding load_contract_def by simp_all

text \<open>The cache: \<open>touch\<close> moves the first entry that matches to the front; \<open>insert\<close> puts an entry in front.\<close>

definition lru_ok :: "('h, 'l) lru_ops \<Rightarrow> bool" where
  "lru_ok lru \<longleftrightarrow>
     (\<forall>p c. (if \<exists>e \<in> set (lr_items lru c). p e
             then \<exists>xs e ys. lr_items lru c = xs @ e # ys \<and> p e \<and> (\<forall>x \<in> set xs. \<not> p x)
                    \<and> snd (lr_touch lru p c) \<and> lr_items lru (fst (lr_touch lru p c)) = e # xs @ ys
             else lr_touch lru p c = (c, False)))
     \<and> (\<forall>e c. \<exists>n \<ge> 1. lr_items lru (lr_insert lru e c) = e # take n (lr_items lru c))"

subsection \<open>What is mapped\<close>

definition segment_pages :: "'a load_aspace \<Rightarrow> elf_image \<Rightarrow> program_header \<Rightarrow> addr set" where
  "segment_pages ops img ph =
     (let vaddr = uadd (ph_virtual_addr ph) (ei_base img); a = la_align_down ops vaddr
      in {a..<a + seg_align_size ph (vaddr mod PAGE_SIZE_4K)})"

definition image_pages :: "'a load_aspace \<Rightarrow> elf_image \<Rightarrow> addr set" where
  "image_pages ops img = (\<Union>ph \<in> {ph \<in> set (ei_ph img). ph_type ph = PT_Load}. segment_pages ops img ph)"

lemma map_segments_mapped:
  assumes "load_contract ops mapped" "map_segments ops loc img phs s = (s', Ok ())"
  shows "mapped s' = mapped s \<union> (\<Union>ph \<in> {ph \<in> set phs. ph_type ph = PT_Load}. segment_pages ops img ph)"
  using assms(2)
proof (induction phs arbitrary: s)
  case (Cons ph phs)
  show ?case
  proof (cases "ph_type ph = PT_Load")
    case True
    then obtain s1 where s1: "map_segment ops loc img ph s = (s1, Ok ())" "map_segments ops loc img phs s1 = (s', Ok ())"
      using Cons.prems by (auto split: prod.splits sum.splits)
    then have "mapped s1 = mapped s \<union> segment_pages ops img ph"
      using load_contractD(3) [OF assms(1)]
      by (simp add: map_segment_def segment_pages_def Let_def split: if_splits)
    moreover have "{q \<in> set (ph # phs). ph_type q = PT_Load} = insert ph {q \<in> set phs. ph_type q = PT_Load}"
      using True by auto
    ultimately show ?thesis using Cons.IH [OF s1(2)] by auto
  next
    case False
    then have "{q \<in> set (ph # phs). ph_type q = PT_Load} = {q \<in> set phs. ph_type q = PT_Load}" by auto
    then show ?thesis using Cons.IH Cons.prems False by simp
  qed
qed simp

lemma map_elf_mapped:
  assumes "load_contract ops mapped" "map_elf env ops base entry s = (s', Ok img)"
  shows "le_parser env (ce_elf entry) base = Some img" "mapped s' = mapped s \<union> image_pages ops img"
  using assms(2) map_segments_mapped [OF assms(1)]
  by (auto simp: map_elf_def image_pages_def split: option.splits prod.splits sum.splits)

text \<open>The pages of a segment cover its bytes.\<close>

lemma segment_pages_cover:
  assumes "rounds_down PAGE_SIZE_4K (la_align_down ops)"
    and "ph_virtual_addr ph + ei_base img + ph_mem_size ph + 2 * PAGE_SIZE_4K < 2 ^ 64"
  shows "{ph_virtual_addr ph + ei_base img..<ph_virtual_addr ph + ei_base img + ph_mem_size ph} \<subseteq> segment_pages ops img ph"
proof -
  let ?v = "ph_virtual_addr ph + ei_base img" and ?m = "ph_mem_size ph"
  let ?a = "la_align_down ops ?v"
  have v: "uadd (ph_virtual_addr ph) (ei_base img) = ?v" using assms(2) by (simp add: uadd_exact)
  have a: "?a \<le> ?v" "?v < ?a + 4096" "4096 dvd ?a" using assms(1) by (auto simp: rounds_down_def)
  have m: "?v mod 4096 = ?v - ?a"
  proof -
    obtain k where k: "?a = 4096 * k" using a(3) by (elim dvdE)
    then have "?v = 4096 * k + (?v - ?a)" "?v - ?a < 4096" using a by linarith+
    then show ?thesis by (metis mod_less mod_mult_self4)
  qed
  have "?m + (?v - ?a) + 4095 < 2 ^ 64" using assms(2) a by simp
  then have "uadd (uadd ?m (?v - ?a)) 4095 = ?m + (?v - ?a) + 4095" by (simp add: uadd_exact)
  then have "?m + (?v - ?a) \<le> seg_align_size ph (?v mod 4096)"
    unfolding m seg_align_size_def by simp
  then have "?v + ?m \<le> ?a + seg_align_size ph (?v mod 4096)" using a(1) by linarith
  then show ?thesis using a(1) by (auto simp: segment_pages_def Let_def v)
qed

subsection \<open>The cache\<close>

lemma fetch_entry_front:
  assumes "lru_ok lru" "fetch_entry env lru loc c = (c', Ok (Inl ()))"
  obtains e r where "lr_items lru c' = e # r" "ce_location e = loc"
    "\<And>x xs. lr_items lru c = x # xs \<Longrightarrow> ce_location x \<noteq> loc \<Longrightarrow> \<exists>ys. r = x # ys"
    "\<And>x xs. lr_items lru c = x # xs \<Longrightarrow> ce_location x = loc \<Longrightarrow> e = x \<and> r = xs"
proof -
  let ?p = "\<lambda>e. ce_location e = loc" and ?t = "lr_touch lru (\<lambda>e. ce_location e = loc) c"
  show ?thesis
  proof (cases "\<exists>e \<in> set (lr_items lru c). ?p e")
    case True
    then have "\<exists>xs e ys. lr_items lru c = xs @ e # ys \<and> ?p e \<and> (\<forall>x \<in> set xs. \<not> ?p x)
        \<and> snd ?t \<and> lr_items lru (fst ?t) = e # xs @ ys"
      using assms(1) unfolding lru_ok_def by (elim conjE) (drule spec [of _ ?p], drule spec [of _ c], simp)
    then obtain xs e ys where t: "lr_items lru c = xs @ e # ys" "?p e" "\<forall>x \<in> set xs. \<not> ?p x"
      "snd ?t" "lr_items lru (fst ?t) = e # xs @ ys"
      by blast
    then have c': "c' = fst ?t" using assms(2) by (cases ?t) (simp add: fetch_entry_def)
    show ?thesis
    proof (rule that [of e "xs @ ys"])
      fix x zs assume "lr_items lru c = x # zs" "ce_location x \<noteq> loc"
      then show "\<exists>us. xs @ ys = x # us" using t(1,2) by (cases xs) auto
    next
      fix x zs assume "lr_items lru c = x # zs" "ce_location x = loc"
      then show "e = x \<and> xs @ ys = zs" using t(1,3) by (cases xs) auto
    qed (use t c' in auto)
  next
    case False
    then have "?t = (c, False)"
      using assms(1) unfolding lru_ok_def by (elim conjE) (drule spec [of _ ?p], drule spec [of _ c], simp)
    then obtain e where e: "elf_cache_entry_load env loc = Ok (Inl e)" "c' = lr_insert lru e c"
      using assms(2) by (auto simp: fetch_entry_def split: sum.splits)
    obtain n where n: "n \<ge> 1" "lr_items lru c' = e # take n (lr_items lru c)"
      using assms(1) e(2) unfolding lru_ok_def by blast
    have "ce_location e = loc"
      using e(1) by (auto simp: elf_cache_entry_load_def Let_def split: sum.splits option.splits if_splits stop.splits)
    then show ?thesis
    proof (rule that [OF n(2)])
      fix x zs assume "lr_items lru c = x # zs"
      then show "\<exists>us. take n (lr_items lru c) = x # us" using n(1) by (cases n) auto
    next
      fix x zs assume "lr_items lru c = x # zs" "ce_location x = loc"
      then show "e = x \<and> take n (lr_items lru c) = zs" using False by auto
    qed
  qed
qed

lemma choose_images_cases:
  assumes "lru_ok lru" "lr_items lru c = e # r" "choose_images env lru c = (c', Ok (elf, ldso))"
  obtains (static) "interpreter_of env e = Ok None" "elf = e" "ldso = None"
  | (dynamic) ld loc l where "interpreter_of env e = Ok (Some ld)" "le_resolve env ld = Ok loc" "ldso = Some l"
      "ce_location l = loc" "loc \<noteq> ce_location e \<Longrightarrow> elf = e" "loc = ce_location e \<Longrightarrow> l = e \<and> [elf] = take 1 r"
proof (cases "interpreter_of env e")
  case (Inl x)
  then show ?thesis using assms(2,3) by (simp add: choose_images_def)
next
  case (Inr io)
  show ?thesis
  proof (cases io)
    case None
    then show ?thesis using static assms(2,3) Inr by (simp add: choose_images_def)
  next
    case (Some ld)
    then obtain loc c1 l ys where f: "le_resolve env ld = Ok loc" "fetch_entry env lru loc c = (c1, Ok (Inl ()))"
      "lr_items lru c1 = l # elf # ys" "ldso = Some l"
      using assms(2,3) Inr
      by (auto simp: choose_images_def split: sum.splits prod.splits list.splits)
    obtain e' r' where fr: "lr_items lru c1 = e' # r'" "ce_location e' = loc"
      "\<And>x xs. lr_items lru c = x # xs \<Longrightarrow> ce_location x \<noteq> loc \<Longrightarrow> \<exists>ys. r' = x # ys"
      "\<And>x xs. lr_items lru c = x # xs \<Longrightarrow> ce_location x = loc \<Longrightarrow> e' = x \<and> r' = xs"
      by (rule fetch_entry_front [OF assms(1) f(2)]) blast
    have l: "l = e'" "r' = elf # ys" using f(3) fr(1) by auto
    show ?thesis
    proof (rule dynamic [OF _ f(1,4)])
      show "interpreter_of env e = Ok (Some ld)" using Inr Some by simp
      show "ce_location l = loc" using fr(2) l by simp
      show "elf = e" if "loc \<noteq> ce_location e" using fr(3) [OF assms(2)] that l by auto
      show "l = e \<and> [elf] = take 1 r" if "loc = ce_location e" using fr(4) [OF assms(2)] that l by auto
    qed
  qed
qed

subsection \<open>A program after loading\<close>

text \<open>
  \<open>program_loaded env ops loc entry sp envs pages\<close>: the program at \<open>loc\<close> was loaded, execution starts at \<open>entry\<close> with the
  stack pointer \<open>sp\<close>, and the addresses \<open>pages\<close> are mapped: the trampoline, the segments of the program and of its
  dynamic linker, the stack and the heap, and nothing else.
\<close>

definition layout_pages :: "user_layout \<Rightarrow> addr set" where
  "layout_pages ly =
     {ly_trampoline ly..<ly_trampoline ly + PAGE_SIZE_4K}
     \<union> {ly_stack_top ly - ly_stack_size ly..<ly_stack_top ly - ly_stack_size ly + ly_stack_size ly}
     \<union> {ly_heap_base ly..<ly_heap_base ly + ly_heap_size ly}"

definition program_loaded ::
    "'h load_env \<Rightarrow> 'a load_aspace \<Rightarrow> nat \<Rightarrow> addr \<Rightarrow> addr \<Rightarrow> string list \<Rightarrow> addr set \<Rightarrow> bool" where
  "program_loaded env ops loc entry sp envs pages \<longleftrightarrow>
     (\<exists>elf img args auxv. ce_location elf = loc \<and> le_parser env (ce_elf elf) (ly_space_base (le_layout env)) = Some img
       \<and> sp = usub (ly_stack_top (le_layout env)) (length (le_stack env args envs auxv (ly_stack_top (le_layout env))))
       \<and> (case interpreter_of env elf of
            Inr None \<Rightarrow> entry = ei_entry img \<and> auxv = le_aux env img PAGE_SIZE_4K None
              \<and> pages = layout_pages (le_layout env) \<union> image_pages ops img
          | Inr (Some ld) \<Rightarrow>
              (\<exists>(l :: 'h elf_cache_entry) li. le_resolve env ld = Ok (ce_location l)
                \<and> le_parser env (ce_elf l) (ly_interp_base (le_layout env)) = Some li \<and> entry = ei_entry li
                \<and> auxv = le_aux env img PAGE_SIZE_4K (Some (ei_base li))
                \<and> pages = layout_pages (le_layout env) \<union> image_pages ops img \<union> image_pages ops li)
          | Inl _ \<Rightarrow> False))"

definition no_self_interpreter :: "'h load_env \<Rightarrow> bool" where
  "no_self_interpreter env \<longleftrightarrow>
     (\<forall>e ld. interpreter_of env e = Ok (Some ld) \<longrightarrow> le_resolve env ld \<noteq> Ok (ce_location e))"

lemma setup_stack_heap_mapped:
  assumes "load_contract ops mapped" "setup_stack_heap env ops args envs auxv s = (s', Ok sp)"
  defines "ly \<equiv> le_layout env"
  shows "mapped s' = mapped s
      \<union> {ly_stack_top ly - ly_stack_size ly..<ly_stack_top ly - ly_stack_size ly + ly_stack_size ly}
      \<union> {ly_heap_base ly..<ly_heap_base ly + ly_heap_size ly}"
    and "sp = usub (ly_stack_top ly) (length (le_stack env args envs auxv (ly_stack_top ly)))"
proof -
  let ?st = "ly_stack_top ly - ly_stack_size ly" and ?data = "le_stack env args envs auxv (ly_stack_top ly)"
  let ?sp = "usub (ly_stack_top ly) (length ?data)"
  obtain s1 s2 s3 where s: "la_map ops ?st (ly_stack_size ly) (rw_flags True) False (Load_alloc ?st) s = (s1, Ok ())"
    "la_populate ops (la_align_down ops ?sp) (la_align_up ops (usub (ly_stack_top ly) (la_align_down ops ?sp))) (rw_flags False) s1 = (s2, Ok ())"
    "la_write ops ?sp ?data s2 = (s3, Ok ())"
    "la_map ops (ly_heap_base ly) (ly_heap_size ly) (rw_flags True) True (Load_alloc (ly_heap_base ly)) s3 = (s', Ok ())"
    "sp = ?sp"
    using assms(2) unfolding setup_stack_heap_def Let_def ly_def by (auto split: prod.splits sum.splits)
  show "mapped s' = mapped s \<union> {?st..<?st + ly_stack_size ly} \<union> {ly_heap_base ly..<ly_heap_base ly + ly_heap_size ly}"
    using load_contractD(3) [OF assms(1) s(1)] load_contractD(4) [OF assms(1) s(2)]
      load_contractD(5) [OF assms(1) s(3)] load_contractD(3) [OF assms(1) s(4)] by simp
  show "sp = ?sp" by (rule s(5))
qed

lemma elf_loader_load_mapped:
  fixes env :: "'h load_env"
  assumes "lru_ok lru" "load_contract ops mapped"
    and "elf_loader_load env lru ops path (c, s) = ((c', s'), Ok (Inl (entry, auxv)))"
    and "no_self_interpreter env"
  defines "ly \<equiv> le_layout env"
  obtains elf img where "le_resolve env path = Ok (ce_location elf)" "le_parser env (ce_elf elf) (ly_space_base ly) = Some img"
    "interpreter_of env elf = Ok None" "entry = ei_entry img" "auxv = le_aux env img PAGE_SIZE_4K None"
    "mapped s' = {ly_trampoline ly..<ly_trampoline ly + PAGE_SIZE_4K} \<union> image_pages ops img"
  | elf img ld li and l :: "'h elf_cache_entry" where "le_resolve env path = Ok (ce_location elf)" "le_parser env (ce_elf elf) (ly_space_base ly) = Some img"
    "interpreter_of env elf = Ok (Some ld)" "le_resolve env ld = Ok (ce_location l)"
    "le_parser env (ce_elf l) (ly_interp_base ly) = Some li" "entry = ei_entry li"
    "auxv = le_aux env img PAGE_SIZE_4K (Some (ei_base li))"
    "mapped s' = {ly_trampoline ly..<ly_trampoline ly + PAGE_SIZE_4K} \<union> image_pages ops img \<union> image_pages ops li"
proof -
  obtain loc c1 s1 c2 elf ldso where f: "le_resolve env path = Ok loc" "fetch_entry env lru loc c = (c1, Ok (Inl ()))"
    "map_trampoline env ops (la_clear ops s) = (s1, Ok ())" "choose_images env lru c1 = (c2, Ok (elf, ldso))"
    "map_images env ops elf ldso s1 = (s', Ok (entry, auxv))"
    using assms(3) by (auto simp: elf_loader_load_def Let_def split: sum.splits prod.splits)
  obtain e r where e: "lr_items lru c1 = e # r" "ce_location e = loc"
    by (rule fetch_entry_front [OF assms(1) f(2)]) blast
  have t: "mapped s1 = {ly_trampoline ly..<ly_trampoline ly + PAGE_SIZE_4K}"
    using load_contractD(2) [OF assms(2) f(3) [unfolded map_trampoline_def]] load_contractD(1) [OF assms(2)]
    by (simp add: ly_def)
  obtain s2 img where m: "map_elf env ops (ly_space_base ly) elf s1 = (s2, Ok img)"
    using f(5) by (auto simp: map_images_def ly_def split: sum.splits prod.splits)
  note img = map_elf_mapped [OF assms(2) m]
  from assms(1) e(1) f(4) show ?thesis
  proof (cases rule: choose_images_cases)
    case static
    then have "s' = s2" "entry = ei_entry img" "auxv = le_aux env img PAGE_SIZE_4K None"
      using f(5) m by (simp_all add: map_images_def ly_def)
    then show ?thesis using that(1) [of elf img] static e f(1) img t by simp
  next
    case (dynamic ld loc' l)
    have el: "elf = e" using assms(4) dynamic(1,2,5) unfolding no_self_interpreter_def by blast
    obtain li where m2: "map_elf env ops (ly_interp_base ly) l s2 = (s', Ok li)" "entry = ei_entry li"
      "auxv = le_aux env img PAGE_SIZE_4K (Some (ei_base li))"
      using f(5) m dynamic(3) by (auto simp: map_images_def ly_def split: sum.splits prod.splits)
    note li = map_elf_mapped [OF assms(2) m2(1)]
    show ?thesis using that(2) [of elf img ld l li] el dynamic(1-4) e f(1) img t m2(2,3) li by simp
  qed
qed

text \<open>
  The program that runs a file in its place: \<open>/bin/sh\<close> for a name that ends in \<open>.sh\<close>, the first word of the interpreter
  line for a script.
\<close>

inductive runs_with :: "'h load_env \<Rightarrow> string \<Rightarrow> string \<Rightarrow> bool" for env where
  shell: "ends_with ''.sh'' p \<Longrightarrow> runs_with env p ''/bin/sh''"
| script: "le_resolve env p = Ok loc \<Longrightarrow> elf_cache_entry_load env loc = Ok (Inr data) \<Longrightarrow> starts_with [0x23, 0x21] data
    \<Longrightarrow> script_args data p args = Ok (q # new_args) \<Longrightarrow> runs_with env p q"

lemma script_args_nonempty: "script_args data p args = Ok new_args \<Longrightarrow> new_args \<noteq> []"
  by (auto simp: script_args_def Let_def splitn2_def split: if_splits)

lemma elf_loader_load_data:
  assumes "elf_loader_load env lru ops p s = (s1, Ok (Inr data))"
  obtains loc where "le_resolve env p = Ok loc" "elf_cache_entry_load env loc = Ok (Inr data)"
  using assms by (auto simp: elf_loader_load_def fetch_entry_def Let_def split: sum.splits prod.splits bool.splits)

lemma load_user_app_loaded:
  assumes "lru_ok lru" "load_contract ops mapped"
    and "no_self_interpreter env"
    and "load_user_app fuel env lru ops path args envs s = Some ((c', s'), Ok (entry, sp))"
  shows "\<exists>p q loc. (path = Some p \<or> (path = None \<and> args \<noteq> [] \<and> hd args = p)) \<and> (runs_with env)\<^sup>*\<^sup>* p q
    \<and> le_resolve env q = Ok loc \<and> program_loaded env ops loc entry sp envs (mapped s')"
  using assms(4)
proof (induction fuel arbitrary: path args s)
  case (Suc fuel)
  obtain p where p: "(case path of Some p \<Rightarrow> Some p | None \<Rightarrow> (case args of [] \<Rightarrow> None | a # _ \<Rightarrow> Some a)) = Some p"
    using Suc.prems by (auto split: option.splits)
  then have first: "path = Some p \<or> (path = None \<and> args \<noteq> [] \<and> hd args = p)"
    by (auto split: option.splits list.splits)
  show ?case
  proof (cases "ends_with ''.sh'' p")
    case True
    then have "load_user_app fuel env lru ops None (''/bin/sh'' # args) envs s = Some ((c', s'), Ok (entry, sp))"
      using Suc.prems p by simp
    then obtain q loc where "(runs_with env)\<^sup>*\<^sup>* ''/bin/sh'' q" "le_resolve env q = Ok loc"
      "program_loaded env ops loc entry sp envs (mapped s')"
      using Suc.IH by fastforce
    then show ?thesis using first shell [OF True, of env]
      by (intro exI [of _ p] exI [of _ q] exI [of _ loc]) (simp add: converse_rtranclp_into_rtranclp)
  next
    case False
    obtain c1 s1 res where l: "elf_loader_load env lru ops p s = ((c1, s1), Ok res)"
      using Suc.prems p False by (auto split: prod.splits sum.splits)
    show ?thesis
    proof (cases res)
      case (Inr data)
      then have sw: "starts_with [0x23, 0x21] data" using Suc.prems p False l by (auto split: if_splits)
      then obtain a new where a: "script_args data p args = Ok (a # new)"
        "load_user_app fuel env lru ops None (a # new) envs (c1, s1) = Some ((c', s'), Ok (entry, sp))"
        using Suc.prems p False l Inr script_args_nonempty [of data p args]
        by (auto split: sum.splits simp: neq_Nil_conv)
      obtain loc0 where "le_resolve env p = Ok loc0" "elf_cache_entry_load env loc0 = Ok (Inr data)"
        using elf_loader_load_data l Inr by metis
      then have "runs_with env p a" using sw a(1) by (rule script)
      moreover obtain q loc where "(runs_with env)\<^sup>*\<^sup>* a q" "le_resolve env q = Ok loc"
        "program_loaded env ops loc entry sp envs (mapped s')"
        using Suc.IH [OF a(2)] by fastforce
      ultimately show ?thesis using first
        by (intro exI [of _ p] exI [of _ q] exI [of _ loc]) (simp add: converse_rtranclp_into_rtranclp)
    next
      case (Inl r)
      obtain ent auxv where r: "r = (ent, auxv)" by (cases r)
      have st: "setup_stack_heap env ops args envs auxv s1 = (s', Ok sp)" "ent = entry"
        using Suc.prems p False l Inl r by (auto split: prod.splits sum.splits)
      note sh = setup_stack_heap_mapped [OF assms(2) st(1)]
      obtain c0 s0 where s: "s = (c0, s0)" by (cases s)
      from assms(1,2) l [unfolded Inl r s] assms(3)
      have "\<exists>loc. le_resolve env p = Ok loc \<and> program_loaded env ops loc entry sp envs (mapped s')"
      proof (cases rule: elf_loader_load_mapped)
        case (1 elf img)
        then show ?thesis unfolding program_loaded_def using sh st(2)
          by (intro exI [of _ "ce_location elf"] conjI exI [of _ elf] exI [of _ img] exI [of _ args] exI [of _ auxv])
            (simp_all add: layout_pages_def Un_ac)
      next
        case (2 elf img ld li l)
        then show ?thesis unfolding program_loaded_def using sh st(2)
          by (intro exI [of _ "ce_location elf"] conjI exI [of _ elf] exI [of _ img] exI [of _ args] exI [of _ auxv])
            (auto simp: layout_pages_def Un_ac intro!: exI [of _ l])
      qed
      then show ?thesis using first by blast
    qed
  qed
qed simp


subsection \<open>A program that is its own interpreter\<close>

lemma touch_miss:
  assumes "lru_ok lru" "\<forall>e \<in> set (lr_items lru c). \<not> p e"
  shows "lr_touch lru p c = (c, False)"
proof -
  have "\<not> (\<exists>e \<in> set (lr_items lru c). p e)" using assms(2) by blast
  then show ?thesis using assms(1) unfolding lru_ok_def by (elim conjE) (drule spec [of _ p], drule spec [of _ c], simp)
qed

lemma touch_front:
  assumes "lru_ok lru" "lr_items lru c = e # r" "p e"
  obtains c' where "lr_touch lru p c = (c', True)" "lr_items lru c' = e # r"
proof -
  have "\<exists>e \<in> set (lr_items lru c). p e" using assms(2,3) by auto
  then obtain xs e' ys where t: "lr_items lru c = xs @ e' # ys" "\<forall>x \<in> set xs. \<not> p x" "snd (lr_touch lru p c)"
    "lr_items lru (fst (lr_touch lru p c)) = e' # xs @ ys"
    using assms(1) unfolding lru_ok_def by (elim conjE) (drule spec [of _ p], drule spec [of _ c], auto)
  then have "xs = []" "e' = e" "ys = r" using assms(2,3) by (cases xs; auto)+
  then show ?thesis using that [of "fst (lr_touch lru p c)"] t(3,4) by (cases "lr_touch lru p c") simp
qed

text \<open>
  C33: a program that names itself as its interpreter. The cache then has the program in front once, and the loader takes
  the second entry of the cache for the program: with nothing else in the cache the kernel panics, otherwise the image of
  the program loaded last before it is mapped and run in its place.
\<close>

theorem self_interpreter_other_image:
  assumes "lru_ok lru" "le_resolve env path = Ok loc" "\<forall>x \<in> set (lr_items lru c). ce_location x \<noteq> loc"
    and "elf_cache_entry_load env loc = Ok (Inl e)" "interpreter_of env e = Ok (Some ld)" "le_resolve env ld = Ok loc"
    and "map_trampoline env ops (la_clear ops s) = (s1, Ok ())"
  shows "case lr_items lru c of
      [] \<Rightarrow> snd (elf_loader_load env lru ops path (c, s)) = Panicked
    | x # _ \<Rightarrow> snd (elf_loader_load env lru ops path (c, s)) = map_sum id Inl (snd (map_images env ops x (Some e) s1))
        \<and> snd (fst (elf_loader_load env lru ops path (c, s))) = fst (map_images env ops x (Some e) s1)"
proof -
  obtain n where n: "n \<ge> 1" "lr_items lru (lr_insert lru e c) = e # take n (lr_items lru c)"
    using assms(1) unfolding lru_ok_def by blast
  have e: "ce_location e = loc"
    using assms(4) by (auto simp: elf_cache_entry_load_def Let_def split: sum.splits option.splits if_splits stop.splits)
  have f1: "fetch_entry env lru loc c = (lr_insert lru e c, Ok (Inl ()))"
    using touch_miss [OF assms(1), of c "\<lambda>e. ce_location e = loc"] assms(3,4) by (simp add: fetch_entry_def)
  obtain c2 where "lr_touch lru (\<lambda>e. ce_location e = loc) (lr_insert lru e c) = (c2, True)"
    and c2: "lr_items lru c2 = e # take n (lr_items lru c)"
    by (rule touch_front [OF assms(1) n(2), of "\<lambda>e. ce_location e = loc"]) (use e in auto)
  then have f2: "fetch_entry env lru loc (lr_insert lru e c) = (c2, Ok (Inl ()))" by (simp add: fetch_entry_def)
  show ?thesis
  proof (cases "lr_items lru c")
    case Nil
    then have "choose_images env lru (lr_insert lru e c) = (c2, Panicked)"
      using n(2) assms(5,6) f2 c2 by (simp add: choose_images_def)
    then show ?thesis using Nil assms(2,7) f1 by (simp add: elf_loader_load_def)
  next
    case (Cons x xs)
    then have "choose_images env lru (lr_insert lru e c) = (c2, Ok (x, Some e))"
      using n assms(5,6) f2 c2 by (cases n) (simp_all add: choose_images_def)
    then show ?thesis using Cons assms(2,7) f1
      by (auto simp: elf_loader_load_def split: prod.splits sum.splits)
  qed
qed

subsection \<open>A script that is its own interpreter\<close>

definition string_bytes :: "string \<Rightarrow> u8 list" where
  "string_bytes p = map of_char p"

definition printable :: "u8 \<Rightarrow> bool" where
  "printable b \<longleftrightarrow> 0x21 \<le> b \<and> b \<le> 0x7E"

lemma bytes_string_bytes [simp]: "bytes_string (string_bytes p) = p"
proof -
  have "char_of (unat (of_char c :: u8)) = c" for c :: char
  proof -
    have "unat (of_char c :: u8) = of_char c"
      using unat_of_nat [where ?'a = 8, of "of_char c"] by (simp add: of_nat_of_char take_bit_eq_mod)
    then show ?thesis by simp
  qed
  then show ?thesis by (simp add: bytes_string_def string_bytes_def comp_def)
qed

lemma utf8_valid_ascii: "\<forall>b \<in> set bs. printable b \<Longrightarrow> utf8_valid bs"
proof (induction bs)
  case (Cons b bs)
  then have "b < 0x80" by (auto simp: printable_def word_le_nat_alt word_less_nat_alt)
  then have "utf8_width (b # bs) = 1" by (simp add: utf8_width_def)
  then show ?case using Cons by (subst utf8_valid.simps) simp
qed (simp add: utf8_valid.simps)

lemma strip_front_none:
  assumes "\<forall>w \<in> set ws. w = [] \<or> hd w \<noteq> hd bs" "bs \<noteq> []"
  shows "strip_front ws bs = bs"
proof -
  have "hd w = hd bs" if "w \<noteq> []" "starts_with w bs" for w
    using that by (cases w; cases bs) (auto simp: starts_with_def)
  then have "List.find (\<lambda>w. w \<noteq> [] \<and> starts_with w bs) ws = None"
    using assms(1) unfolding find_None_iff by blast
  then show ?thesis by (simp add: strip_front.simps)
qed

lemma white_space_ends: "w \<in> set white_space \<Longrightarrow> w \<noteq> [] \<and> \<not> printable (hd w) \<and> \<not> printable (last w)"
proof -
  have "list_all (\<lambda>w. w \<noteq> [] \<and> \<not> printable (hd w) \<and> \<not> printable (last w)) white_space"
    by (simp add: white_space_def printable_def word_le_nat_alt)
  then show "w \<in> set white_space \<Longrightarrow> ?thesis" by (simp add: list_all_iff)
qed

lemma str_trim_printable:
  assumes "\<forall>b \<in> set bs. printable b"
  shows "str_trim bs = bs"
proof (cases "bs = []")
  case True
  have "List.find (\<lambda>w. w \<noteq> [] \<and> starts_with w ([] :: u8 list)) ws = None" for ws
    by (auto simp: find_None_iff starts_with_def)
  then have "strip_front ws [] = []" for ws by (simp add: strip_front.simps)
  then show ?thesis using True by (simp add: str_trim_def)
next
  case False
  then have ends: "printable (hd bs)" "printable (hd (rev bs))" using assms by (simp_all add: hd_rev)
  have "strip_front white_space bs = bs"
    using ends(1) False by (intro strip_front_none ballI disjI2) (metis white_space_ends)+
  moreover have "strip_front (map rev white_space) (rev bs) = rev bs"
  proof (intro strip_front_none ballI disjI2)
    fix w assume "w \<in> set (map rev white_space)"
    then obtain v where "v \<in> set white_space" "w = rev v" by auto
    then show "hd w \<noteq> hd (rev bs)" using white_space_ends [of v] ends(2) by (auto simp: hd_rev)
  qed (use False in simp)
  ultimately show ?thesis by (simp add: str_trim_def)
qed

lemma printable_no_space: "printable b \<Longrightarrow> \<not> ascii_whitespace b \<and> b \<noteq> 0x0A"
  by (auto simp: printable_def ascii_whitespace_def word_le_nat_alt)

lemma script_args_self:
  assumes "\<forall>b \<in> set (string_bytes p). printable b" "length p \<le> 250"
  shows "script_args ([0x23, 0x21] @ string_bytes p @ 0x0A # rest) p args = Ok (p # p # drop 1 args)"
proof -
  let ?b = "string_bytes p" and ?d = "[0x23, 0x21] @ string_bytes p @ 0x0A # rest"
  have len: "length ?b \<le> 250" using assms(2) by (simp add: string_bytes_def)
  have "drop 2 (take (min (length ?d) 256) ?d) = ?b @ 0x0A # take (min (length ?d) 256 - (length ?b + 3)) rest"
  proof -
    have tk: "take n ?d = [0x23, 0x21] @ ?b @ 0x0A # take (n - (length ?b + 3)) rest" if "length ?b + 3 \<le> n" for n
      using that by (simp add: take_Cons' numeral_eq_Suc)
    have "length ?b + 3 \<le> min (length ?d) 256" using len by simp
    from tk [OF this] show ?thesis by (simp only:) simp
  qed
  moreover have nl: "\<forall>b \<in> set ?b. b \<noteq> 0x0A" using assms(1) printable_no_space by blast
  ultimately have line: "takeWhile (\<lambda>c. c \<noteq> 0x0A) (drop 2 (take (min (length ?d) 256) ?d)) = ?b"
    by (simp only:) (subst takeWhile_append2, auto)
  have ws: "\<forall>b \<in> set ?b. \<not> ascii_whitespace b" using assms(1) printable_no_space by blast
  then have "splitn2 ascii_whitespace ?b = [?b]" by (simp add: splitn2_def dropWhile_eq_Nil_conv [THEN iffD2])
  moreover have "trim_ascii ?b = ?b"
  proof -
    have dw: "dropWhile ascii_whitespace xs = xs" if "\<forall>b \<in> set xs. \<not> ascii_whitespace b" for xs
      using that by (cases xs) auto
    show ?thesis using ws dw [of ?b] dw [of "rev ?b"] by (simp add: trim_ascii_def)
  qed
  ultimately show ?thesis
    unfolding script_args_def Let_def line using utf8_valid_ascii [OF assms(1)] str_trim_printable [OF assms(1)] by simp
qed

text \<open>
  C34: a script whose interpreter line is its own path never starts: loading it calls itself for ever, so that no amount
  of fuel gives a result, neither a program nor an error.
\<close>

theorem script_loop_diverges:
  assumes "lru_ok lru" "le_resolve env p = Ok loc" "\<forall>x \<in> set (lr_items lru c). ce_location x \<noteq> loc"
    and "elf_cache_entry_load env loc = Ok (Inr ([0x23, 0x21] @ string_bytes p @ 0x0A # rest))"
    and "\<forall>b \<in> set (string_bytes p). printable b" "length p \<le> 250" "\<not> ends_with ''.sh'' p"
  shows "load_user_app fuel env lru ops (Some p) args envs (c, s) = None"
proof -
  let ?d = "[0x23, 0x21] @ string_bytes p @ 0x0A # rest"
  have "lr_touch lru (\<lambda>e. ce_location e = loc) c = (c, False)"
    by (rule touch_miss [OF assms(1)]) (use assms(3) in simp)
  then have l: "elf_loader_load env lru ops p (c, s) = ((c, s), Ok (Inr ?d))"
    using assms(2,4) by (simp add: elf_loader_load_def fetch_entry_def)
  have step: "load_user_app (Suc fuel) env lru ops path args envs (c, s) =
      load_user_app fuel env lru ops None (p # p # drop 1 args) envs (c, s)"
    if "path = Some p \<or> (path = None \<and> args = p # xs)" for fuel path args xs
  proof -
    have f: "(case path of Some p \<Rightarrow> Some p | None \<Rightarrow> (case args of [] \<Rightarrow> None | a # _ \<Rightarrow> Some a)) = Some p"
      using that by auto
    have sw: "starts_with [0x23, 0x21] ?d" by (simp add: starts_with_def)
    show ?thesis
      by (simp only: load_user_app.simps f option.case assms(7) if_False l prod.case sum.case sw if_True
          script_args_self [OF assms(5,6)])
  qed
  have "load_user_app fuel env lru ops None (p # xs) envs (c, s) = None" for fuel xs
  proof (induction fuel arbitrary: xs)
    case (Suc fuel)
    then show ?case using step [of None "p # xs" xs fuel] by simp
  qed simp
  then show ?thesis using step [of "Some p" args "[]"] by (cases fuel) simp_all
qed

subsection \<open>A small system\<close>

text \<open>
  Four files: a program with a dynamic linker, the linker, a script, and a program that is its own interpreter. An ELF
  file starts with 0x7f and a byte that stands for its headers. The address space is the list of its ranges.
\<close>

definition small_ph :: "nat \<Rightarrow> program_header list" where
  "small_ph h =
     (let seg = \<lparr>ph_type = PT_Load, ph_virtual_addr = 0x2010, ph_mem_size = 0x1800, ph_file_size = 0x100,
                 ph_offset = 0x10, ph_readable = True, ph_writable = False, ph_executable = True\<rparr>;
          interp = seg\<lparr>ph_type := PT_Interp, ph_offset := 2, ph_file_size := 4\<rparr>
      in if h = 2 then [seg] else [interp, seg])"

fun small_file :: "nat \<Rightarrow> u8 list" where
  "small_file loc =
     (if loc = 1 then [0x7f, 1] @ string_bytes ''/ld'' @ [0]
      else if loc = 2 then [0x7f, 2]
      else if loc = 3 then [0x23, 0x21] @ string_bytes ''/loop'' @ [0x0A]
      else [0x7f, 4] @ string_bytes ''/me'' @ [0, 0])"

declare small_file.simps [simp del]

definition small_env :: "nat load_env" where
  "small_env =
     \<lparr>le_layout = riscv64_layout,
      le_resolve = (\<lambda>p. if p = ''/app'' then Ok 1 else if p = ''/ld'' then Ok 2 else if p = ''/loop'' then Ok 3
                        else if p = ''/me'' then Ok 4 else Fail NotFound),
      le_read_at = (\<lambda>loc len off. if loc \<in> {1, 2, 3, 4} then Ok (take len (drop off (small_file loc))) else Fail NotFound),
      le_ph_range = (\<lambda>d. if starts_with [0x7f] d then Some (1, 2) else None),
      le_build = (\<lambda>d ph. Some (unat (hd ph))),
      le_ph = small_ph,
      le_parser = (\<lambda>h base. Some \<lparr>ei_base = base, ei_entry = base + 0x2010, ei_ph = small_ph h\<rparr>),
      le_aux = (\<lambda>img page ld. [(6, page), (9, ei_entry img)]),
      le_stack = (\<lambda>args envs aux top. replicate 64 0), le_trampoline_paddr = 0x80001000\<rparr>"

definition list_lru :: "(nat, nat elf_cache_entry list) lru_ops" where
  "list_lru =
     \<lparr>lr_items = id,
      lr_touch = (\<lambda>p c. case List.extract p c of None \<Rightarrow> (c, False) | Some (xs, e, ys) \<Rightarrow> (e # xs @ ys, True)),
      lr_insert = (\<lambda>e c. e # take 31 c), lr_clear = (\<lambda>_. [])\<rparr>"

definition range_aspace :: "(addr \<times> usize) list load_aspace" where
  "range_aspace =
     \<lparr>la_clear = (\<lambda>_. []), la_map_linear = (\<lambda>a p sz fl s. ((a, sz) # s, Ok ())),
      la_map = (\<lambda>a sz fl pop b s. ((a, sz) # s, Ok ())), la_populate = (\<lambda>a sz fl s. (s, Ok ())),
      la_write = (\<lambda>a bs s. (s, Ok ())), la_align_down = (\<lambda>a. a div 4096 * 4096), la_align_up = (\<lambda>a. (a + 4095) div 4096 * 4096)\<rparr>"

definition ranges :: "(addr \<times> usize) list \<Rightarrow> addr set" where
  "ranges s = (\<Union>(a, sz) \<in> set s. {a..<a + sz})"

lemma list_lru_ok: "lru_ok list_lru"
proof -
  have i: "lr_items list_lru = id" by (simp add: list_lru_def)
  have a: "if \<exists>e \<in> set c. p e
      then \<exists>xs e ys. c = xs @ e # ys \<and> p e \<and> (\<forall>x \<in> set xs. \<not> p x)
        \<and> snd (lr_touch list_lru p c) \<and> lr_items list_lru (fst (lr_touch list_lru p c)) = e # xs @ ys
      else lr_touch list_lru p c = (c, False)" for p and c :: "nat elf_cache_entry list"
  proof (cases "List.extract p c")
    case None
    then have "\<not> (\<exists>e \<in> set c. p e)" by (simp add: extract_None_iff)
    then show ?thesis using None by (simp add: list_lru_def)
  next
    case (Some t)
    then obtain xs e ys where t: "t = (xs, e, ys)" "c = xs @ e # ys" "p e" "\<forall>x \<in> set xs. \<not> p x"
      by (cases t) (auto simp: extract_Some_iff)
    then have "\<exists>e \<in> set c. p e" by auto
    moreover have "lr_touch list_lru p c = (e # xs @ ys, True)" using Some t(1) by (simp add: list_lru_def)
    ultimately show ?thesis using t(2-4)
      by (simp only: if_True) (intro exI [of _ xs] exI [of _ e] exI [of _ ys], simp add: list_lru_def)
  qed
  have b: "\<exists>n \<ge> 1. lr_items list_lru (lr_insert list_lru e c) = e # take n (lr_items list_lru c)" for e c
    by (rule exI [of _ 31]) (simp add: list_lru_def)
  show ?thesis unfolding lru_ok_def
  proof (intro conjI allI)
    fix p :: "nat elf_cache_entry \<Rightarrow> bool" and c
    show "if \<exists>e \<in> set (lr_items list_lru c). p e
      then \<exists>xs e ys. lr_items list_lru c = xs @ e # ys \<and> p e \<and> (\<forall>x \<in> set xs. \<not> p x)
        \<and> snd (lr_touch list_lru p c) \<and> lr_items list_lru (fst (lr_touch list_lru p c)) = e # xs @ ys
      else lr_touch list_lru p c = (c, False)"
      using a [of c p] by (simp only: i id_apply)
  qed (rule b)
qed

lemma range_aspace_ok: "load_contract range_aspace ranges"
  unfolding load_contract_def rounds_down_def
proof (intro conjI allI impI)
  show "a < la_align_down range_aspace a + 4096" for a
    using div_mult_mod_eq [of a 4096] mod_less_divisor [of 4096 a] by (simp add: range_aspace_def)
qed (auto simp: range_aspace_def ranges_def)

definition app_env :: "nat load_env" where
  "app_env = small_env\<lparr>le_resolve := (\<lambda>p. if p = ''/app'' then Ok 1 else if p = ''/ld'' then Ok 2 else Fail NotFound)\<rparr>"

lemma interp_header:
  "List.find (\<lambda>ph. ph_type ph = PT_Interp) (small_ph h) =
     (if h = 2 then None else Some \<lparr>ph_type = PT_Interp, ph_virtual_addr = 0x2010, ph_mem_size = 0x1800, ph_file_size = 4,
        ph_offset = 2, ph_readable = True, ph_writable = False, ph_executable = True\<rparr>)"
  by (simp add: small_ph_def Let_def)

lemma small_interp:
  "take 4 (drop 2 (small_file 1)) = [0x2F, 0x6C, 0x64, 0]" "take 4 (drop 2 (small_file 2)) = []"
  "take 4 (drop 2 (small_file 3)) = [0x2F, 0x6C, 0x6F, 0x6F]" "take 4 (drop 2 (small_file 4)) = [0x2F, 0x6D, 0x65, 0]"
  "cstr_of [0x2F, 0x6C, 0x64, 0] = Ok ''/ld''" "cstr_of [0x2F, 0x6C, 0x6F, 0x6F] = Fail InvalidInput"
  "cstr_of [0x2F, 0x6D, 0x65, 0] = Ok ''/me''"
  by code_simp+

lemma small_interpreter:
  assumes "le_read_at env = le_read_at small_env" "le_ph env = small_ph"
  shows "interpreter_of env e =
     (if ce_elf e = 2 then Ok None
      else if ce_location e \<in> {1, 2, 3, 4} then
        (let bs = take 4 (drop 2 (small_file (ce_location e)))
         in if length bs \<noteq> 4 then Panicked else map_sum id Some (cstr_of bs))
      else Fail NotFound)"
  unfolding interpreter_of_def assms by (simp add: small_env_def interp_header Let_def del: insert_iff)

lemma app_env_files: "le_read_at app_env = le_read_at small_env" "le_ph app_env = small_ph"
  by (simp_all add: app_env_def small_env_def)

lemmas app_interpreter = small_interpreter [OF app_env_files]

lemma app_env_no_self: "no_self_interpreter app_env"
  unfolding no_self_interpreter_def
proof (intro allI impI)
  fix e ld
  assume i: "interpreter_of app_env e = Ok (Some ld)"
  then have "ce_location e \<in> {1, 2, 3, 4}" unfolding app_interpreter by (auto split: if_splits)
  then consider "ce_location e = 1" | "ce_location e = 2" | "ce_location e = 3" | "ce_location e = 4" by blast
  then show "le_resolve app_env ld \<noteq> Ok (ce_location e)"
  proof cases
    case 1
    then have "ld = ''/ld''" using i unfolding app_interpreter by (simp add: small_interp del: One_nat_def split: if_splits)
    then show ?thesis using 1 by (simp add: app_env_def del: One_nat_def)
  next
    case 2
    then show ?thesis using i unfolding app_interpreter by (simp add: small_interp del: One_nat_def split: if_splits)
  next
    case 3
    then show ?thesis using i unfolding app_interpreter by (simp add: small_interp del: One_nat_def split: if_splits)
  next
    case 4
    then have "ld = ''/me''" using i unfolding app_interpreter by (simp add: small_interp del: One_nat_def split: if_splits)
    then show ?thesis by (simp add: app_env_def)
  qed
qed

text \<open>The steps of the runs below.\<close>

lemma small_read_all:
  "small_file 1 = [0x7f, 1, 0x2F, 0x6C, 0x64, 0]" "small_file 2 = [0x7f, 2]"
  "small_file 3 = [0x23, 0x21] @ string_bytes ''/loop'' @ 0x0A # []" "small_file 4 = [0x7f, 4, 0x2F, 0x6D, 0x65, 0, 0]"
  by code_simp+

lemma small_entries:
  assumes "le_read_at env = le_read_at small_env" "le_ph_range env = le_ph_range small_env" "le_build env = le_build small_env"
  shows "elf_cache_entry_load env 1 = Ok (Inl \<lparr>ce_location = 1, ce_elf = 1\<rparr>)"
    "elf_cache_entry_load env 2 = Ok (Inl \<lparr>ce_location = 2, ce_elf = 2\<rparr>)"
    "elf_cache_entry_load env 3 = Ok (Inr ([0x23, 0x21] @ string_bytes ''/loop'' @ 0x0A # []))"
    "elf_cache_entry_load env 4 = Ok (Inl \<lparr>ce_location = 4, ce_elf = 4\<rparr>)"
  unfolding elf_cache_entry_load_def assms
  by (simp_all add: small_env_def small_read_all string_bytes_def starts_with_def Let_def drop_Cons' del: One_nat_def)

lemma app_run:
  "\<exists>c' s'. load_user_app 1 app_env list_lru range_aspace (Some ''/app'') [''/app''] [] ([], []) =
      Some ((c', s'), Ok (0x4002010, 0x3FFFFFFC0))"
proof -
  let ?e1 = "\<lparr>ce_location = 1, ce_elf = 1\<rparr> :: nat elf_cache_entry"
    and ?e2 = "\<lparr>ce_location = 2, ce_elf = 2\<rparr> :: nat elf_cache_entry"
  have it: "lr_items list_lru = id" by (simp add: list_lru_def)
  have p: "le_resolve app_env ''/app'' = Ok 1" "le_resolve app_env ''/ld'' = Ok 2" by (simp_all add: app_env_def)
  have i: "interpreter_of app_env ?e1 = Ok (Some ''/ld'')"
    unfolding app_interpreter by (simp add: small_interp del: One_nat_def)
  have e: "elf_cache_entry_load app_env 1 = Ok (Inl ?e1)" "elf_cache_entry_load app_env 2 = Ok (Inl ?e2)"
    by (rule small_entries; simp add: app_env_def)+
  have f: "fetch_entry app_env list_lru 1 [] = ([?e1], Ok (Inl ()))" "fetch_entry app_env list_lru 2 [?e1] = ([?e2, ?e1], Ok (Inl ()))"
    by (simp_all add: fetch_entry_def e list_lru_def extract_def del: One_nat_def)
  have c: "choose_images app_env list_lru [?e1] = ([?e2, ?e1], Ok (?e1, Some ?e2))"
    by (simp add: choose_images_def i f it p del: One_nat_def)
  have m: "snd (map_images app_env range_aspace ?e1 (Some ?e2) s) = Ok (0x4002010, [(6, 4096), (9, 0x3010)])" for s
    by (simp add: map_images_def map_elf_def app_env_def small_env_def small_ph_def map_segment_def range_aspace_def
        riscv64_layout_def uadd_def Let_def)
  have t: "snd (map_trampoline app_env range_aspace s) = Ok ()" for s by (simp add: map_trampoline_def range_aspace_def)
  obtain s0 where t0: "map_trampoline app_env range_aspace (la_clear range_aspace []) = (s0, Ok ())"
    using t by (metis prod.collapse)
  obtain s1 where "map_images app_env range_aspace ?e1 (Some ?e2) s0 = (s1, Ok (0x4002010, [(6, 4096), (9, 0x3010)]))"
    using m by (metis prod.collapse)
  then have l: "elf_loader_load app_env list_lru range_aspace ''/app'' ([], []) =
      (([?e2, ?e1], s1), Ok (Inl (0x4002010, [(6, 4096), (9, 0x3010)])))"
    using t0 by (simp add: elf_loader_load_def p f c del: One_nat_def)
  have "snd (setup_stack_heap app_env range_aspace args envs aux s) = Ok 0x3FFFFFFC0" for args envs aux s
    by (simp add: setup_stack_heap_def app_env_def small_env_def riscv64_layout_def range_aspace_def usub_def Let_def)
  then obtain s2 where "setup_stack_heap app_env range_aspace [''/app''] [] [(6, 4096), (9, 0x3010)] s1 = (s2, Ok 0x3FFFFFFC0)"
    by (metis prod.collapse)
  then have "load_user_app 1 app_env list_lru range_aspace (Some ''/app'') [''/app''] [] ([], []) =
      Some (([?e2, ?e1], s2), Ok (0x4002010, 0x3FFFFFFC0))"
    using l by (simp add: ends_with_def)
  then show ?thesis by (intro exI)
qed


theorem self_interpreter_other_image_witness:
  "snd (elf_loader_load small_env list_lru range_aspace ''/me'' ([], [(0, 1)])) = Panicked"
proof -
  have t: "map_trampoline small_env range_aspace (la_clear range_aspace [(0, 1)]) = ([(0x60001000, 0x1000)], Ok ())"
    by (simp add: map_trampoline_def range_aspace_def small_env_def riscv64_layout_def)
  have l: "elf_cache_entry_load small_env 4 = Ok (Inl \<lparr>ce_location = 4, ce_elf = 4\<rparr>)" by (rule small_entries; simp)
  have i: "interpreter_of small_env \<lparr>ce_location = 4, ce_elf = 4\<rparr> = Ok (Some ''/me'')"
    by (subst small_interpreter) (simp_all add: small_interp, simp add: small_env_def)
  have p: "le_resolve small_env ''/me'' = Ok 4" by (simp add: small_env_def)
  have c: "\<forall>x \<in> set (lr_items list_lru []). ce_location x \<noteq> 4" by (simp add: list_lru_def)
  show ?thesis
    using self_interpreter_other_image [OF list_lru_ok p c l i p t] by (simp add: list_lru_def)
qed

theorem script_loop_diverges_witness:
  "load_user_app 1000 small_env list_lru range_aspace (Some ''/loop'') [''/loop''] [] ([], []) = None"
proof -
  have l: "elf_cache_entry_load small_env 3 = Ok (Inr ([0x23, 0x21] @ string_bytes ''/loop'' @ 0x0A # []))"
    by (rule small_entries; simp)
  have p: "le_resolve small_env ''/loop'' = Ok 3" by (simp add: small_env_def)
  have c: "\<forall>x \<in> set (lr_items list_lru []). ce_location x \<noteq> 3" by (simp add: list_lru_def)
  have b: "\<forall>b \<in> set (string_bytes ''/loop''). printable b" by code_simp
  have s: "\<not> ends_with ''.sh'' ''/loop''" by code_simp
  show ?thesis by (rule script_loop_diverges [OF list_lru_ok p c l b _ s]) simp
qed

end
