(* ===== verification/Socket_Addr.thy ===== *)
theory Socket_Addr
  imports Event_Fd Utf8
begin

section \<open>Socket addresses\<close>

text \<open>
  \<open>api/src/socket.rs\<close>: socket addresses in user memory. The structures of the ABI are their bytes on a little endian
  machine: \<open>sockaddr_in\<close> is 16 bytes (family, port and address in network order, padding), \<open>sockaddr_in6\<close> 28 bytes,
  \<open>sockaddr_vm\<close> 16 bytes, a Unix address the family and up to the rest of the length.
\<close>

type_synonym bytes = "u8 list"

text \<open>
  User memory: \<open>sm_read a n al\<close> is \<open>get_as_ref\<close> or \<open>get_as_slice\<close>, the \<open>n\<close> bytes at \<open>a\<close> after the check of the region
  and of the alignment \<open>al\<close>; \<open>sm_read_mut\<close> is \<open>get_as_mut\<close>, the same with the check for writing; \<open>sm_write\<close> is
  \<open>get_as_mut_slice\<close> and a store.
\<close>

record 'm sock_mem =
  sm_read :: "addr \<Rightarrow> nat \<Rightarrow> nat \<Rightarrow> 'm \<Rightarrow> bytes outcome"
  sm_read_mut :: "addr \<Rightarrow> nat \<Rightarrow> nat \<Rightarrow> 'm \<Rightarrow> bytes outcome"
  sm_write :: "addr \<Rightarrow> nat \<Rightarrow> bytes \<Rightarrow> 'm \<Rightarrow> 'm \<times> unit outcome"

definition AF_UNIX :: nat where "AF_UNIX = 1"
definition AF_INET :: nat where "AF_INET = 2"
definition AF_INET6 :: nat where "AF_INET6 = 10"
definition AF_VSOCK :: nat where "AF_VSOCK = 40"

record socket_addr_v4 =
  v4_octets :: bytes
  v4_port :: nat

record socket_addr_v6 =
  v6_octets :: bytes
  v6_port :: nat
  v6_flowinfo :: nat
  v6_scope_id :: nat

datatype unix_socket_addr = Unnamed | Abstract bytes | Path bytes

record vsock_addr =
  vs_cid :: nat
  vs_port :: nat

datatype socket_addr = Ip4 socket_addr_v4 | Ip6 socket_addr_v6 | Unix unix_socket_addr | Vsock vsock_addr

subsection \<open>Reading and storing\<close>

definition be_bytes :: "nat \<Rightarrow> nat \<Rightarrow> bytes" where
  "be_bytes k n = rev (le_bytes k n)"

definition be_value :: "bytes \<Rightarrow> nat" where
  "be_value bs = le_value (rev bs)"

definition read_family :: "'m sock_mem \<Rightarrow> addr \<Rightarrow> nat \<Rightarrow> 'm \<Rightarrow> nat outcome" where
  "read_family mem a addrlen m =
     (if 2 > addrlen then Fail InvalidInput else map_sum id le_value (sm_read mem a 2 2 m))"

text \<open>\<open>fill_addr\<close> stores as much as there is room for; the length it reports is the full one.\<close>

definition fill_addr :: "'m sock_mem \<Rightarrow> addr \<Rightarrow> nat \<Rightarrow> bytes \<Rightarrow> 'm \<Rightarrow> 'm \<times> nat outcome" where
  "fill_addr mem a addrlen data m =
     (let len = min addrlen (length data) in
      case sm_write mem a 1 (take len data) m of
        (m', Inl e) \<Rightarrow> (m', Inl e)
      | (m', Inr _) \<Rightarrow> (m', Ok (length data)))"

definition v4_read :: "'m sock_mem \<Rightarrow> addr \<Rightarrow> nat \<Rightarrow> 'm \<Rightarrow> socket_addr_v4 outcome" where
  "v4_read mem a addrlen m =
     (if addrlen \<noteq> 16 then Fail InvalidInput
      else case sm_read mem a 16 4 m of
        Inl e \<Rightarrow> Inl e
      | Inr bs \<Rightarrow>
          if le_value (take 2 bs) \<noteq> AF_INET then Fail (LinuxErr EAFNOSUPPORT)
          else Ok \<lparr>v4_octets = take 4 (drop 4 bs), v4_port = be_value (take 2 (drop 2 bs))\<rparr>)"

definition v4_bytes :: "socket_addr_v4 \<Rightarrow> bytes" where
  "v4_bytes a = le_bytes 2 AF_INET @ be_bytes 2 (v4_port a) @ v4_octets a @ replicate 8 0"

definition v6_read :: "'m sock_mem \<Rightarrow> addr \<Rightarrow> nat \<Rightarrow> 'm \<Rightarrow> socket_addr_v6 outcome" where
  "v6_read mem a addrlen m =
     (if addrlen \<noteq> 28 then Fail InvalidInput
      else case sm_read mem a 28 4 m of
        Inl e \<Rightarrow> Inl e
      | Inr bs \<Rightarrow>
          if le_value (take 2 bs) \<noteq> AF_INET6 then Fail (LinuxErr EAFNOSUPPORT)
          else Ok \<lparr>v6_octets = take 16 (drop 8 bs), v6_port = be_value (take 2 (drop 2 bs)),
                   v6_flowinfo = be_value (take 4 (drop 4 bs)), v6_scope_id = le_value (take 4 (drop 24 bs))\<rparr>)"

definition v6_bytes :: "socket_addr_v6 \<Rightarrow> bytes" where
  "v6_bytes a =
     le_bytes 2 AF_INET6 @ be_bytes 2 (v6_port a) @ be_bytes 4 (v6_flowinfo a) @ v6_octets a @ le_bytes 4 (v6_scope_id a)"

definition unix_read :: "'m sock_mem \<Rightarrow> addr \<Rightarrow> nat \<Rightarrow> 'm \<Rightarrow> unix_socket_addr outcome" where
  "unix_read mem a addrlen m =
     (case read_family mem a addrlen m of
        Inl e \<Rightarrow> Inl e
      | Inr fam \<Rightarrow>
          if fam \<noteq> AF_UNIX then Fail (LinuxErr EAFNOSUPPORT)
          else
            (case sm_read mem (a + 2) (addrlen - 2) 1 m of
               Inl e \<Rightarrow> Inl e
             | Inr [] \<Rightarrow> Ok Unnamed
             | Inr (c # cs) \<Rightarrow>
                 if c = 0 then Ok (Abstract cs)
                 else
                   (let name = takeWhile (\<lambda>c. c \<noteq> 0) (c # cs)
                    in if utf8_valid name then Ok (Path name) else Fail InvalidInput)))"

text \<open>The constant \<open>AF_UNIX\<close> has type \<open>u32\<close>, so \<open>to_ne_bytes\<close> gives four bytes.\<close>

definition unix_bytes :: "unix_socket_addr \<Rightarrow> bytes" where
  "unix_bytes a =
     le_bytes 4 AF_UNIX @ (case a of Unnamed \<Rightarrow> [] | Abstract name \<Rightarrow> 0 # name | Path path \<Rightarrow> path @ [0])"

definition vsock_read :: "'m sock_mem \<Rightarrow> addr \<Rightarrow> nat \<Rightarrow> 'm \<Rightarrow> vsock_addr outcome" where
  "vsock_read mem a addrlen m =
     (if addrlen \<noteq> 16 then Fail InvalidInput
      else case sm_read mem a 16 4 m of
        Inl e \<Rightarrow> Inl e
      | Inr bs \<Rightarrow>
          if le_value (take 2 bs) \<noteq> AF_VSOCK then Fail (LinuxErr EAFNOSUPPORT)
          else Ok \<lparr>vs_cid = le_value (take 4 (drop 8 bs)), vs_port = le_value (take 4 (drop 4 bs))\<rparr>)"

definition vsock_bytes :: "vsock_addr \<Rightarrow> bytes" where
  "vsock_bytes a =
     le_bytes 2 AF_VSOCK @ le_bytes 2 0 @ le_bytes 4 (vs_port a) @ le_bytes 4 (vs_cid a) @ replicate 4 0"

text \<open>\<open>SocketAddr\<close> and \<open>SocketAddrEx\<close>; \<open>vsock\<close> says whether the feature is compiled in.\<close>

definition ip_read :: "'m sock_mem \<Rightarrow> addr \<Rightarrow> nat \<Rightarrow> 'm \<Rightarrow> socket_addr outcome" where
  "ip_read mem a addrlen m =
     (case read_family mem a addrlen m of
        Inl e \<Rightarrow> Inl e
      | Inr fam \<Rightarrow>
          if fam = AF_INET then map_sum id Ip4 (v4_read mem a addrlen m)
          else if fam = AF_INET6 then map_sum id Ip6 (v6_read mem a addrlen m)
          else Fail (LinuxErr EAFNOSUPPORT))"

definition read_from_user :: "bool \<Rightarrow> 'm sock_mem \<Rightarrow> addr \<Rightarrow> nat \<Rightarrow> 'm \<Rightarrow> socket_addr outcome" where
  "read_from_user vsock mem a addrlen m =
     (case read_family mem a addrlen m of
        Inl e \<Rightarrow> Inl e
      | Inr fam \<Rightarrow>
          if fam = AF_INET \<or> fam = AF_INET6 then ip_read mem a addrlen m
          else if fam = AF_UNIX then map_sum id Unix (unix_read mem a addrlen m)
          else if vsock \<and> fam = AF_VSOCK then map_sum id Vsock (vsock_read mem a addrlen m)
          else Fail (LinuxErr EAFNOSUPPORT))"

fun addr_bytes :: "socket_addr \<Rightarrow> bytes" where
  "addr_bytes (Ip4 a) = v4_bytes a"
| "addr_bytes (Ip6 a) = v6_bytes a"
| "addr_bytes (Unix a) = unix_bytes a"
| "addr_bytes (Vsock a) = vsock_bytes a"

text \<open>
  \<open>write_to_user(addr, addrlen.get_as_mut()?)\<close>: the length is read from and stored in user memory.
\<close>

definition write_to_user :: "'m sock_mem \<Rightarrow> socket_addr \<Rightarrow> addr \<Rightarrow> addr \<Rightarrow> 'm \<Rightarrow> 'm \<times> unit outcome" where
  "write_to_user mem sa a lenp m =
     (case sm_read_mut mem lenp 4 4 m of
        Inl e \<Rightarrow> (m, Inl e)
      | Inr bs \<Rightarrow>
          (case fill_addr mem a (le_value bs) (addr_bytes sa) m of
             (m1, Inl e) \<Rightarrow> (m1, Inl e)
           | (m1, Inr n) \<Rightarrow> sm_write mem lenp 4 (le_bytes 4 n) m1))"

text \<open>\<open>family\<close> of \<open>SocketAddrEx\<close>.\<close>

definition family_ex :: "socket_addr \<Rightarrow> nat" where
  "family_ex a = AF_INET"

end
