(* ===== verification/Net_Calls.thy ===== *)
theory Net_Calls
  imports Socket_Addr Fs_Io Timers
begin

section \<open>Socket system calls\<close>

text \<open>
  \<open>api/src/syscall/net\<close> with \<open>api/src/file/net.rs\<close>. The sockets themselves belong to axnet: a socket is the number of its
  object, and its methods are the fields of \<open>sock_ops\<close> over the state \<open>'n\<close> of the network. The state of the calls is the
  descriptor table, the network and user memory.
\<close>

datatype sock_kind = Tcp | Udp | Unix_stream pid | Unix_dgram pid | Vsock_stream

datatype shutdown_how = Shut_read | Shut_write | Shut_both

text \<open>Ancillary data: rights are the open files they carry; other boxed values are not \<open>CMsg\<close>.\<close>

datatype cmsg_data = Rights "nat list" | Foreign

text \<open>The options of axnet and their values; \<open>Opt_raw\<close> is a value stored without conversion.\<close>

datatype sock_option =
  ReuseAddress | SockError | DontRoute | SendBuffer | ReceiveBuffer | KeepAlive | ReceiveTimeout | SendTimeout
| PassCredentials | PeerCredentials | NoDelay | MaxSegment | TcpInfo | Ttl | NonBlocking

record unix_credentials =
  uc_pid :: nat
  uc_uid :: nat
  uc_gid :: nat

datatype option_value =
  Opt_bool bool | Opt_usize nat | Opt_u8 nat | Opt_duration time_value | Opt_cred unix_credentials | Opt_raw bytes

record ('t, 'n, 'm) net_world =
  nw_table :: 't
  nw_net :: 'n
  nw_mem :: 'm

record recv_result =
  rr_count :: nat
  rr_from :: "socket_addr option"
  rr_cmsg :: "cmsg_data list"

text \<open>
  \<open>so_send\<close> and \<open>so_recv\<close> get the caller's buffer; \<open>so_recv\<close> is told whether the sender's address is wanted and the
  two flags, and returns the count, the address and the ancillary data. \<open>so_raw_size\<close> and \<open>so_raw_align\<close> are the
  layout of the type of an option that is stored without conversion.
\<close>

record ('n, 'm) sock_ops =
  so_is_socket :: "nat \<Rightarrow> bool"
  so_new :: "sock_kind \<Rightarrow> 'n \<Rightarrow> 'n \<times> nat"
  so_new_pair :: "bool \<Rightarrow> pid \<Rightarrow> 'n \<Rightarrow> 'n \<times> nat \<times> nat"
  so_bind :: "nat \<Rightarrow> socket_addr \<Rightarrow> 'n \<Rightarrow> 'n \<times> unit outcome"
  so_connect :: "nat \<Rightarrow> socket_addr \<Rightarrow> 'n \<Rightarrow> 'n \<times> unit outcome"
  so_listen :: "nat \<Rightarrow> 'n \<Rightarrow> 'n \<times> unit outcome"
  so_accept :: "nat \<Rightarrow> 'n \<Rightarrow> 'n \<times> nat outcome"
  so_shutdown :: "nat \<Rightarrow> shutdown_how \<Rightarrow> 'n \<Rightarrow> 'n \<times> unit outcome"
  so_local_addr :: "nat \<Rightarrow> 'n \<Rightarrow> socket_addr outcome"
  so_peer_addr :: "nat \<Rightarrow> 'n \<Rightarrow> socket_addr outcome"
  so_send :: "nat \<Rightarrow> io_buf \<Rightarrow> socket_addr option \<Rightarrow> cmsg_data list \<Rightarrow> 'n \<times> 'm \<Rightarrow> ('n \<times> 'm) \<times> nat outcome"
  so_recv :: "nat \<Rightarrow> io_buf \<Rightarrow> bool \<Rightarrow> bool \<Rightarrow> bool \<Rightarrow> 'n \<times> 'm \<Rightarrow> ('n \<times> 'm) \<times> recv_result outcome"
  so_get_option :: "nat \<Rightarrow> sock_option \<Rightarrow> 'n \<Rightarrow> option_value outcome"
  so_set_option :: "nat \<Rightarrow> sock_option \<Rightarrow> option_value \<Rightarrow> 'n \<Rightarrow> 'n \<times> unit outcome"
  so_raw_size :: "sock_option \<Rightarrow> nat"
  so_raw_align :: "sock_option \<Rightarrow> nat"

text \<open>The environment of the calls: table, sockets, user memory, the limit on descriptors, the process, the features.\<close>

record ('t, 'n, 'm) net_env =
  ne_flat :: "'t flat_ops"
  ne_sock :: "('n, 'm) sock_ops"
  ne_mem :: "'m sock_mem"
  ne_read_iov :: "addr \<Rightarrow> 'm \<Rightarrow> nat \<Rightarrow> io_vec outcome"
  ne_max_nofile :: nat
  ne_pid :: pid
  ne_vsock :: bool

definition on_net :: "('n \<Rightarrow> 'n \<times> 'a) \<Rightarrow> ('t, 'n, 'm) net_world \<Rightarrow> ('t, 'n, 'm) net_world \<times> 'a" where
  "on_net f w = (let (n, r) = f (nw_net w) in (w\<lparr>nw_net := n\<rparr>, r))"

definition on_umem :: "('m \<Rightarrow> 'm \<times> 'a) \<Rightarrow> ('t, 'n, 'm) net_world \<Rightarrow> ('t, 'n, 'm) net_world \<times> 'a" where
  "on_umem f w = (let (m, r) = f (nw_mem w) in (w\<lparr>nw_mem := m\<rparr>, r))"

subsection \<open>Sockets as descriptors\<close>

definition socket_from_fd :: "('t, 'n, 'm) net_env \<Rightarrow> i32 \<Rightarrow> ('t, 'n, 'm) net_world \<Rightarrow> nat outcome" where
  "socket_from_fd env fd w =
     (case get_file_like (ne_flat env) fd (nw_table w) of
        Inl e \<Rightarrow> Inl e
      | Inr f \<Rightarrow> if so_is_socket (ne_sock env) f then Ok f else Fail NotASocket)"

definition with_socket ::
    "('t, 'n, 'm) net_env \<Rightarrow> i32 \<Rightarrow> (nat \<Rightarrow> ('t, 'n, 'm) net_world \<Rightarrow> ('t, 'n, 'm) net_world \<times> 'a outcome)
      \<Rightarrow> ('t, 'n, 'm) net_world \<Rightarrow> ('t, 'n, 'm) net_world \<times> 'a outcome" where
  "with_socket env fd k w = try_get (socket_from_fd env fd w) w (\<lambda>f. k f w)"

definition socket_add_fd ::
    "('t, 'n, 'm) net_env \<Rightarrow> nat \<Rightarrow> bool \<Rightarrow> ('t, 'n, 'm) net_world \<Rightarrow> ('t, 'n, 'm) net_world \<times> i32 outcome" where
  "socket_add_fd env f cloexec w =
     (let (t, r) = add_file_like (ne_flat env) (ne_max_nofile env) f cloexec (nw_table w) in (w\<lparr>nw_table := t\<rparr>, r))"

definition socket_set_nonblocking ::
    "('t, 'n, 'm) net_env \<Rightarrow> bool \<Rightarrow> nat \<Rightarrow> ('t, 'n, 'm) net_world \<Rightarrow> ('t, 'n, 'm) net_world \<times> unit outcome" where
  "socket_set_nonblocking env nonblock f w =
     (if nonblock then on_net (so_set_option (ne_sock env) f NonBlocking (Opt_bool True)) w else (w, Ok ()))"

definition SOCK_STREAM :: u32 where "SOCK_STREAM = 1"
definition SOCK_DGRAM :: u32 where "SOCK_DGRAM = 2"
definition SOCK_SEQPACKET :: u32 where "SOCK_SEQPACKET = 5"
definition IPPROTO_TCP :: u32 where "IPPROTO_TCP = 6"
definition IPPROTO_UDP :: u32 where "IPPROTO_UDP = 17"

text \<open>Which socket \<open>socket(2)\<close> makes, from domain, type and protocol.\<close>

definition socket_kind :: "bool \<Rightarrow> pid \<Rightarrow> nat \<Rightarrow> u32 \<Rightarrow> u32 \<Rightarrow> sock_kind outcome" where
  "socket_kind vsock p domain ty proto =
     (if domain = AF_INET \<and> ty = SOCK_STREAM then
        (if proto \<noteq> 0 \<and> proto \<noteq> IPPROTO_TCP then Fail (LinuxErr EPROTONOSUPPORT) else Ok Tcp)
      else if domain = AF_INET \<and> ty = SOCK_DGRAM then
        (if proto \<noteq> 0 \<and> proto \<noteq> IPPROTO_UDP then Fail (LinuxErr EPROTONOSUPPORT) else Ok Udp)
      else if domain = AF_UNIX \<and> ty = SOCK_STREAM then Ok (Unix_stream p)
      else if domain = AF_UNIX \<and> ty = SOCK_DGRAM then Ok (Unix_dgram p)
      else if vsock \<and> domain = AF_VSOCK \<and> ty = SOCK_STREAM then Ok Vsock_stream
      else if domain = AF_INET \<or> domain = AF_UNIX \<or> domain = AF_VSOCK then Fail (LinuxErr ESOCKTNOSUPPORT)
      else Fail (LinuxErr EAFNOSUPPORT))"

definition sys_socket ::
    "('t, 'n, 'm) net_env \<Rightarrow> nat \<Rightarrow> u32 \<Rightarrow> u32 \<Rightarrow> ('t, 'n, 'm) net_world \<Rightarrow> ('t, 'n, 'm) net_world \<times> int outcome" where
  "sys_socket env domain raw_ty proto w =
     try_get (socket_kind (ne_vsock env) (ne_pid env) domain (raw_ty AND 0xFF) proto) w (\<lambda>kind.
       (let (w1, f) = on_net (so_new (ne_sock env) kind) w in
        try_do (socket_set_nonblocking env (any_flag raw_ty O_NONBLOCK) f w1) (\<lambda>_.
          socket_add_fd env f (any_flag raw_ty O_CLOEXEC))))"

subsection \<open>Addresses\<close>

definition sys_bind ::
    "('t, 'n, 'm) net_env \<Rightarrow> i32 \<Rightarrow> addr \<Rightarrow> nat \<Rightarrow> ('t, 'n, 'm) net_world \<Rightarrow> ('t, 'n, 'm) net_world \<times> int outcome" where
  "sys_bind env fd a addrlen w =
     try_get (read_from_user (ne_vsock env) (ne_mem env) a addrlen (nw_mem w)) w (\<lambda>sa.
       with_socket env fd (\<lambda>f w1. map_res (\<lambda>_. 0) (on_net (so_bind (ne_sock env) f sa) w1)) w)"

definition connect_error :: "stop \<Rightarrow> stop" where
  "connect_error e = (if e = Err WouldBlock then Err InProgress else e)"

definition sys_connect ::
    "('t, 'n, 'm) net_env \<Rightarrow> i32 \<Rightarrow> addr \<Rightarrow> nat \<Rightarrow> ('t, 'n, 'm) net_world \<Rightarrow> ('t, 'n, 'm) net_world \<times> int outcome" where
  "sys_connect env fd a addrlen w =
     try_get (read_from_user (ne_vsock env) (ne_mem env) a addrlen (nw_mem w)) w (\<lambda>sa.
       with_socket env fd (\<lambda>f w1.
         (let (w2, r) = on_net (so_connect (ne_sock env) f sa) w1 in (w2, map_sum connect_error (\<lambda>_. 0) r))) w)"

definition sys_listen ::
    "('t, 'n, 'm) net_env \<Rightarrow> i32 \<Rightarrow> i32 \<Rightarrow> ('t, 'n, 'm) net_world \<Rightarrow> ('t, 'n, 'm) net_world \<times> int outcome" where
  "sys_listen env fd backlog w =
     (if backlog < 0 \<and> backlog \<noteq> -1 then (w, Fail InvalidInput)
      else with_socket env fd (\<lambda>f w1. map_res (\<lambda>_. 0) (on_net (so_listen (ne_sock env) f) w1)) w)"

definition sys_accept4 ::
    "('t, 'n, 'm) net_env \<Rightarrow> i32 \<Rightarrow> addr \<Rightarrow> addr \<Rightarrow> u32 \<Rightarrow> ('t, 'n, 'm) net_world \<Rightarrow> ('t, 'n, 'm) net_world \<times> int outcome" where
  "sys_accept4 env fd a lenp flags w =
     with_socket env fd (\<lambda>f w0.
       try_do (on_net (so_accept (ne_sock env) f) w0) (\<lambda>f1 w1.
       try_do (socket_set_nonblocking env (any_flag flags O_NONBLOCK) f1 w1) (\<lambda>_ w2.
       try_get (so_local_addr (ne_sock env) f1 (nw_net w2)) w2 (\<lambda>remote_addr.
       try_do (socket_add_fd env f1 (any_flag flags O_CLOEXEC) w2) (\<lambda>new_fd w3.
         if a \<noteq> 0 then try_do (on_umem (write_to_user (ne_mem env) remote_addr a lenp) w3) (\<lambda>_ w4. (w4, Ok new_fd))
         else (w3, Ok new_fd)))))) w"

definition sys_accept ::
    "('t, 'n, 'm) net_env \<Rightarrow> i32 \<Rightarrow> addr \<Rightarrow> addr \<Rightarrow> ('t, 'n, 'm) net_world \<Rightarrow> ('t, 'n, 'm) net_world \<times> int outcome" where
  "sys_accept env fd a lenp w = sys_accept4 env fd a lenp 0 w"

definition sys_shutdown ::
    "('t, 'n, 'm) net_env \<Rightarrow> i32 \<Rightarrow> nat \<Rightarrow> ('t, 'n, 'm) net_world \<Rightarrow> ('t, 'n, 'm) net_world \<times> int outcome" where
  "sys_shutdown env fd how w =
     with_socket env fd (\<lambda>f w1.
       (case (if how = 0 then Some Shut_read else if how = 1 then Some Shut_write else if how = 2 then Some Shut_both else None) of
          None \<Rightarrow> (w1, Fail InvalidInput)
        | Some h \<Rightarrow> map_res (\<lambda>_. 0) (on_net (so_shutdown (ne_sock env) f h) w1))) w"

definition sys_getsockname ::
    "('t, 'n, 'm) net_env \<Rightarrow> i32 \<Rightarrow> addr \<Rightarrow> addr \<Rightarrow> ('t, 'n, 'm) net_world \<Rightarrow> ('t, 'n, 'm) net_world \<times> int outcome" where
  "sys_getsockname env fd a lenp w =
     with_socket env fd (\<lambda>f w1.
       try_get (so_local_addr (ne_sock env) f (nw_net w1)) w1 (\<lambda>sa.
         map_res (\<lambda>_. 0) (on_umem (write_to_user (ne_mem env) sa a lenp) w1))) w"

definition sys_getpeername ::
    "('t, 'n, 'm) net_env \<Rightarrow> i32 \<Rightarrow> addr \<Rightarrow> addr \<Rightarrow> ('t, 'n, 'm) net_world \<Rightarrow> ('t, 'n, 'm) net_world \<times> int outcome" where
  "sys_getpeername env fd a lenp w =
     with_socket env fd (\<lambda>f w1.
       try_get (so_peer_addr (ne_sock env) f (nw_net w1)) w1 (\<lambda>sa.
         map_res (\<lambda>_. 0) (on_umem (write_to_user (ne_mem env) sa a lenp) w1))) w"

text \<open>
  \<open>sys_socketpair\<close>: the right side of the assignment is evaluated first, so both descriptors are in the table before
  the array of the user is checked.
\<close>

definition sys_socketpair ::
    "('t, 'n, 'm) net_env \<Rightarrow> nat \<Rightarrow> u32 \<Rightarrow> u32 \<Rightarrow> addr \<Rightarrow> ('t, 'n, 'm) net_world \<Rightarrow> ('t, 'n, 'm) net_world \<times> int outcome" where
  "sys_socketpair env domain raw_ty proto fds w =
     (let ty = raw_ty AND 0xFF in
      if domain \<noteq> AF_UNIX then (w, Fail (LinuxErr EAFNOSUPPORT))
      else if ty \<noteq> SOCK_STREAM \<and> ty \<noteq> SOCK_DGRAM \<and> ty \<noteq> SOCK_SEQPACKET then (w, Fail (LinuxErr ESOCKTNOSUPPORT))
      else
        (let (w1, s1, s2) = on_net (so_new_pair (ne_sock env) (ty = SOCK_STREAM) (ne_pid env)) w in
         try_do (socket_set_nonblocking env (any_flag raw_ty O_NONBLOCK) s1 w1) (\<lambda>_ w2.
         try_do (socket_set_nonblocking env (any_flag raw_ty O_NONBLOCK) s2 w2) (\<lambda>_ w3.
         try_do (socket_add_fd env s1 (any_flag raw_ty O_CLOEXEC) w3) (\<lambda>fd1 w4.
         try_do (socket_add_fd env s2 (any_flag raw_ty O_CLOEXEC) w4) (\<lambda>fd2 w5.
         try_get (sm_read_mut (ne_mem env) fds 8 4 (nw_mem w5)) w5 (\<lambda>_.
           map_res (\<lambda>_. 0) (on_umem (sm_write (ne_mem env) fds 4
             (le_bytes 4 (nat (fd1 mod 2 ^ 32)) @ le_bytes 4 (nat (fd2 mod 2 ^ 32)))) w5))))))))"

subsection \<open>Control messages\<close>

text \<open>\<open>cmsghdr\<close> has 16 bytes: its length, level and type. \<open>MSG_PEEK\<close> and \<open>MSG_TRUNC\<close> are flags of \<open>recv\<close>.\<close>

definition CMSGHDR :: nat where "CMSGHDR = 16"
definition SOL_SOCKET :: nat where "SOL_SOCKET = 1"
definition SCM_RIGHTS :: nat where "SCM_RIGHTS = 1"
definition MSG_PEEK :: u32 where "MSG_PEEK = 2"
definition MSG_TRUNC :: u32 where "MSG_TRUNC = 0x20"

text \<open>\<open>i32::from_ne_bytes\<close>, and the \<open>chunks_exact\<close> of four bytes.\<close>

definition i32_of :: "bytes \<Rightarrow> i32" where
  "i32_of bs = wrap_i32 (int (le_value bs))"

fun chunks4 :: "bytes \<Rightarrow> bytes list" where
  "chunks4 (a # b # c # d # r) = [a, b, c, d] # chunks4 r"
| "chunks4 _ = []"

fun fds_files :: "'t flat_ops \<Rightarrow> 't \<Rightarrow> bytes list \<Rightarrow> nat list outcome" where
  "fds_files flat t [] = Ok []"
| "fds_files flat t (c # cs) =
     (if i32_of c < 0 then Fail BadFileDescriptor
      else case get_file_like flat (i32_of c) t of
        Inl e \<Rightarrow> Inl e
      | Inr f \<Rightarrow> map_sum id ((#) f) (fds_files flat t cs))"

text \<open>\<open>CMsg::parse\<close>; \<open>hdr\<close> are the 16 bytes of the header at \<open>a\<close>.\<close>

definition cmsg_parse :: "('t, 'n, 'm) net_env \<Rightarrow> addr \<Rightarrow> bytes \<Rightarrow> ('t, 'n, 'm) net_world \<Rightarrow> cmsg_data outcome" where
  "cmsg_parse env a hdr w =
     (let cmsg_len = le_value (take 8 hdr) in
      if cmsg_len < CMSGHDR then Fail InvalidInput
      else case sm_read (ne_mem env) (a + CMSGHDR) (cmsg_len - CMSGHDR) 1 (nw_mem w) of
        Inl e \<Rightarrow> Inl e
      | Inr data \<Rightarrow>
          if le_value (take 4 (drop 8 hdr)) = SOL_SOCKET \<and> le_value (take 4 (drop 12 hdr)) = SCM_RIGHTS then
            (if length data mod 4 \<noteq> 0 then Fail InvalidInput
             else map_sum id Rights (fds_files (ne_flat env) (nw_table w) (chunks4 data)))
          else Fail InvalidInput)"

text \<open>
  The loop of \<open>sys_sendmsg\<close>. A header beyond \<open>stop\<close> can only be asked for when \<open>ptr + 16\<close> wraps around, at the end of
  the address space, which no user region reaches: the check of the region refuses it.
\<close>

function parse_cmsgs :: "('t, 'n, 'm) net_env \<Rightarrow> addr \<Rightarrow> addr \<Rightarrow> ('t, 'n, 'm) net_world \<Rightarrow> cmsg_data list outcome" where
  "parse_cmsgs env ptr stop w =
     (if uadd ptr CMSGHDR \<le> stop then
        (if stop < ptr then Fail BadAddress
         else case sm_read (ne_mem env) ptr CMSGHDR 8 (nw_mem w) of
           Inl e \<Rightarrow> Inl e
         | Inr hdr \<Rightarrow>
             (let cmsg_len = le_value (take 8 hdr) in
              if stop - ptr < cmsg_len then Fail InvalidInput
              else if cmsg_len < CMSGHDR then Fail InvalidInput
              else case cmsg_parse env ptr hdr w of
                Inl e \<Rightarrow> Inl e
              | Inr c \<Rightarrow> map_sum id ((#) c) (parse_cmsgs env (ptr + cmsg_len) stop w)))
      else Ok [])"
  by pat_completeness auto
termination
  by (relation "measure (\<lambda>(env, ptr, stop, w). Suc stop - ptr)") (auto simp: CMSGHDR_def)

declare parse_cmsgs.simps [simp del]

text \<open>The structure \<open>msghdr\<close>: name, vector and control buffer.\<close>

record msghdr =
  mh_name :: addr
  mh_namelen :: nat
  mh_iov :: addr
  mh_iovlen :: usize
  mh_control :: addr
  mh_controllen :: usize

text \<open>
  \<open>CMsgBuilder\<close>: where the next header goes, how much has been used and how much there is. The count in use is a
  reference to \<open>msg_controllen\<close> in user memory, at \<open>cb_lenp\<close>. \<open>rights_body\<close> is the body of the rights message: it
  installs the files one by one while there is room for their numbers.
\<close>

record cmsg_builder =
  cb_hdr :: addr
  cb_lenp :: addr
  cb_len :: usize
  cb_capacity :: usize

definition cmsg_builder_new ::
    "('t, 'n, 'm) net_env \<Rightarrow> addr \<Rightarrow> addr \<Rightarrow> usize \<Rightarrow> ('t, 'n, 'm) net_world \<Rightarrow> ('t, 'n, 'm) net_world \<times> cmsg_builder outcome" where
  "cmsg_builder_new env msg lenp capacity w =
     map_res (\<lambda>_. \<lparr>cb_hdr = msg, cb_lenp = lenp, cb_len = 0, cb_capacity = capacity\<rparr>)
       (on_umem (sm_write (ne_mem env) lenp 8 (le_bytes 8 0)) w)"

fun rights_body ::
    "('t, 'n, 'm) net_env \<Rightarrow> addr \<Rightarrow> nat \<Rightarrow> nat list \<Rightarrow> nat \<Rightarrow> ('t, 'n, 'm) net_world \<Rightarrow> ('t, 'n, 'm) net_world \<times> nat outcome" where
  "rights_body env a room [] written w = (w, Ok written)"
| "rights_body env a room (f # fs) written w =
     (if room < written + 4 then (w, Ok written)
      else
        try_do (socket_add_fd env f False w) (\<lambda>fd w1.
        try_do (on_umem (sm_write (ne_mem env) (a + written) 1 (le_bytes 4 (nat (fd mod 2 ^ 32)))) w1) (\<lambda>_ w2.
          rights_body env a room fs (written + 4) w2)))"

definition push_rights ::
    "('t, 'n, 'm) net_env \<Rightarrow> nat list \<Rightarrow> cmsg_builder \<Rightarrow> ('t, 'n, 'm) net_world
      \<Rightarrow> ('t, 'n, 'm) net_world \<times> (cmsg_builder \<times> bool) outcome" where
  "push_rights env fs b w =
     (if cb_capacity b - cb_len b < CMSGHDR then (w, Ok (b, False))
      else
        (let body_capacity = cb_capacity b - cb_len b - CMSGHDR in
         try_get (sm_read_mut (ne_mem env) (cb_hdr b) CMSGHDR 8 (nw_mem w)) w (\<lambda>_.
         try_do (on_umem (sm_write (ne_mem env) (cb_hdr b + 8) 4 (le_bytes 4 SOL_SOCKET @ le_bytes 4 SCM_RIGHTS)) w) (\<lambda>_ w1.
         try_get (sm_read_mut (ne_mem env) (cb_hdr b + CMSGHDR) body_capacity 1 (nw_mem w1)) w1 (\<lambda>_.
         try_do (rights_body env (cb_hdr b + CMSGHDR) body_capacity fs 0 w1) (\<lambda>body_len w2.
           (let cmsg_len = CMSGHDR + body_len in
            try_do (on_umem (sm_write (ne_mem env) (cb_hdr b) 8 (le_bytes 8 cmsg_len)) w2) (\<lambda>_ w3.
            try_do (on_umem (sm_write (ne_mem env) (cb_lenp b) 8 (le_bytes 8 (cb_len b + cmsg_len))) w3) (\<lambda>_ w4.
              (w4, Ok (b\<lparr>cb_hdr := cb_hdr b + cmsg_len, cb_len := cb_len b + cmsg_len\<rparr>, True)))))))))))"

fun push_all ::
    "('t, 'n, 'm) net_env \<Rightarrow> cmsg_data list \<Rightarrow> cmsg_builder \<Rightarrow> ('t, 'n, 'm) net_world
      \<Rightarrow> ('t, 'n, 'm) net_world \<times> cmsg_builder outcome" where
  "push_all env [] b w = (w, Ok b)"
| "push_all env (Foreign # cs) b w = push_all env cs b w"
| "push_all env (Rights fs # cs) b w =
     try_do (push_rights env fs b w) (\<lambda>(b1, pushed) w1.
       if pushed then push_all env cs b1 w1 else (w1, Ok b1))"

subsection \<open>Sending and receiving\<close>

definition send_impl ::
    "('t, 'n, 'm) net_env \<Rightarrow> i32 \<Rightarrow> io_buf \<Rightarrow> addr \<Rightarrow> nat \<Rightarrow> cmsg_data list \<Rightarrow> ('t, 'n, 'm) net_world
      \<Rightarrow> ('t, 'n, 'm) net_world \<times> int outcome" where
  "send_impl env fd src a addrlen cmsg w =
     try_get (if a = 0 \<or> addrlen = 0 then Ok None
              else map_sum id Some (read_from_user (ne_vsock env) (ne_mem env) a addrlen (nw_mem w))) w (\<lambda>dst.
       with_socket env fd (\<lambda>f w1.
         (case so_send (ne_sock env) f src dst cmsg (nw_net w1, nw_mem w1) of
            ((n, m), r) \<Rightarrow> (w1\<lparr>nw_net := n, nw_mem := m\<rparr>, map_sum id int r))) w)"

definition sys_sendto ::
    "('t, 'n, 'm) net_env \<Rightarrow> i32 \<Rightarrow> addr \<Rightarrow> usize \<Rightarrow> u32 \<Rightarrow> addr \<Rightarrow> nat \<Rightarrow> ('t, 'n, 'm) net_world \<Rightarrow> ('t, 'n, 'm) net_world \<times> int outcome" where
  "sys_sendto env fd buf len flags a addrlen w = send_impl env fd (Buf_bytes buf len) a addrlen [] w"

text \<open>The 56 bytes of \<open>msghdr\<close>.\<close>

definition msghdr_of :: "bytes \<Rightarrow> msghdr" where
  "msghdr_of bs =
     \<lparr>mh_name = le_value (take 8 bs), mh_namelen = le_value (take 4 (drop 8 bs)), mh_iov = le_value (take 8 (drop 16 bs)),
      mh_iovlen = le_value (take 8 (drop 24 bs)), mh_control = le_value (take 8 (drop 32 bs)),
      mh_controllen = le_value (take 8 (drop 40 bs))\<rparr>"

definition sys_sendmsg ::
    "('t, 'n, 'm) net_env \<Rightarrow> i32 \<Rightarrow> addr \<Rightarrow> u32 \<Rightarrow> ('t, 'n, 'm) net_world \<Rightarrow> ('t, 'n, 'm) net_world \<times> int outcome" where
  "sys_sendmsg env fd msg flags w =
     try_get (sm_read (ne_mem env) msg 56 8 (nw_mem w)) w (\<lambda>bs.
       (let mh = msghdr_of bs in
        try_get (if mh_control mh = 0 then Ok []
                 else parse_cmsgs env (mh_control mh) (uadd (mh_control mh) (mh_controllen mh)) w) w (\<lambda>cmsg.
        try_get (io_vector_buf_new (ne_read_iov env (mh_iov mh) (nw_mem w)) (mh_iovlen mh)) w (\<lambda>iov.
          send_impl env fd (Buf_iov (mh_iov mh) (into_io iov)) (mh_name mh) (mh_namelen mh) cmsg w))))"

definition recv_impl ::
    "('t, 'n, 'm) net_env \<Rightarrow> i32 \<Rightarrow> io_buf \<Rightarrow> u32 \<Rightarrow> addr \<Rightarrow> addr \<Rightarrow> cmsg_builder option \<Rightarrow> ('t, 'n, 'm) net_world
      \<Rightarrow> ('t, 'n, 'm) net_world \<times> int outcome" where
  "recv_impl env fd dst flags a addrlen builder w =
     with_socket env fd (\<lambda>f w0.
       (case so_recv (ne_sock env) f dst (a \<noteq> 0) (any_flag flags MSG_PEEK) (any_flag flags MSG_TRUNC) (nw_net w0, nw_mem w0) of
          ((n, m), Inl e) \<Rightarrow> (w0\<lparr>nw_net := n, nw_mem := m\<rparr>, Inl e)
        | ((n, m), Inr rr) \<Rightarrow>
            try_do (if a \<noteq> 0 then
                      on_umem (write_to_user (ne_mem env)
                        (case rr_from rr of Some sa \<Rightarrow> sa | None \<Rightarrow> Ip4 \<lparr>v4_octets = [0, 0, 0, 0], v4_port = 0\<rparr>) a addrlen)
                        (w0\<lparr>nw_net := n, nw_mem := m\<rparr>)
                    else (w0\<lparr>nw_net := n, nw_mem := m\<rparr>, Ok ())) (\<lambda>_ w1.
            try_do (case builder of None \<Rightarrow> (w1, Ok ()) | Some b \<Rightarrow> map_res (\<lambda>_. ()) (push_all env (rr_cmsg rr) b w1)) (\<lambda>_ w2.
              (w2, Ok (int (rr_count rr))))))) w"

definition sys_recvfrom ::
    "('t, 'n, 'm) net_env \<Rightarrow> i32 \<Rightarrow> addr \<Rightarrow> usize \<Rightarrow> u32 \<Rightarrow> addr \<Rightarrow> addr \<Rightarrow> ('t, 'n, 'm) net_world \<Rightarrow> ('t, 'n, 'm) net_world \<times> int outcome" where
  "sys_recvfrom env fd buf len flags a addrlen w = recv_impl env fd (Buf_bytes buf len) flags a addrlen None w"

definition sys_recvmsg ::
    "('t, 'n, 'm) net_env \<Rightarrow> i32 \<Rightarrow> addr \<Rightarrow> u32 \<Rightarrow> ('t, 'n, 'm) net_world \<Rightarrow> ('t, 'n, 'm) net_world \<times> int outcome" where
  "sys_recvmsg env fd msg flags w =
     try_get (sm_read_mut (ne_mem env) msg 56 8 (nw_mem w)) w (\<lambda>bs.
       (let mh = msghdr_of bs in
        try_get (io_vector_buf_new (ne_read_iov env (mh_iov mh) (nw_mem w)) (mh_iovlen mh)) w (\<lambda>iov.
        try_do (if mh_control mh = 0 then (w, Ok None)
                else map_res Some (cmsg_builder_new env (mh_control mh) (msg + 40) (mh_controllen mh) w)) (\<lambda>builder w1.
          recv_impl env fd (Buf_iov (mh_iov mh) (into_io iov)) flags (mh_name mh) (msg + 8) builder w1))))"

subsection \<open>Options\<close>

text \<open>
  \<open>conv\<close>: how the value of an option is laid out for the user: an \<open>int\<close> for booleans and the two integer types, a
  \<open>timeval\<close>, a \<open>ucred\<close>, or the value itself.
\<close>

datatype conv = Conv_int_bool | Conv_int_usize | Conv_int_u8 | Conv_duration | Conv_ucred | Conv_none

definition conv_size :: "('n, 'm) sock_ops \<Rightarrow> sock_option \<Rightarrow> conv \<Rightarrow> nat" where
  "conv_size ops which c =
     (case c of Conv_duration \<Rightarrow> 16 | Conv_ucred \<Rightarrow> 12 | Conv_none \<Rightarrow> so_raw_size ops which | _ \<Rightarrow> 4)"

definition conv_align :: "('n, 'm) sock_ops \<Rightarrow> sock_option \<Rightarrow> conv \<Rightarrow> nat" where
  "conv_align ops which c = (case c of Conv_duration \<Rightarrow> 8 | Conv_none \<Rightarrow> so_raw_align ops which | _ \<Rightarrow> 4)"

definition sys_to_rust :: "conv \<Rightarrow> bytes \<Rightarrow> option_value outcome" where
  "sys_to_rust c bs =
     (case c of
        Conv_int_bool \<Rightarrow> Ok (Opt_bool (i32_of bs \<noteq> 0))
      | Conv_int_usize \<Rightarrow> if i32_of bs < 0 then Fail InvalidInput else Ok (Opt_usize (nat (i32_of bs)))
      | Conv_int_u8 \<Rightarrow> if i32_of bs < 0 \<or> i32_of bs > 255 then Fail InvalidInput else Ok (Opt_u8 (nat (i32_of bs)))
      | Conv_duration \<Rightarrow>
          map_sum id Opt_duration (timeval_try_into_time_value
            \<lparr>tv_sec = wrap_i64 (int (le_value (take 8 bs))), tv_usec = wrap_i64 (int (le_value (drop 8 bs)))\<rparr>)
      | Conv_ucred \<Rightarrow>
          Ok (Opt_cred \<lparr>uc_pid = le_value (take 4 bs), uc_uid = le_value (take 4 (drop 4 bs)), uc_gid = le_value (drop 8 bs)\<rparr>)
      | Conv_none \<Rightarrow> Ok (Opt_raw bs))"

text \<open>\<open>rust_to_sys\<close>; a value of another type than the conversion's does not type check in the source.\<close>

fun rust_to_sys :: "conv \<Rightarrow> option_value \<Rightarrow> bytes outcome" where
  "rust_to_sys Conv_int_bool (Opt_bool b) = Ok (le_bytes 4 (of_bool b))"
| "rust_to_sys Conv_int_usize (Opt_usize n) = (if n < 2 ^ 31 then Ok (le_bytes 4 n) else Fail InvalidInput)"
| "rust_to_sys Conv_int_u8 (Opt_u8 n) = Ok (le_bytes 4 n)"
| "rust_to_sys Conv_duration (Opt_duration t) =
     (let tv = timeval_from_time_value t in Ok (le_bytes 8 (as_u64 (tv_sec tv)) @ le_bytes 8 (as_u64 (tv_usec tv))))"
| "rust_to_sys Conv_ucred (Opt_cred c) = Ok (le_bytes 4 (uc_pid c) @ le_bytes 4 (uc_uid c) @ le_bytes 4 (uc_gid c))"
| "rust_to_sys Conv_none (Opt_raw bs) = Ok bs"
| "rust_to_sys _ _ = Panicked"

text \<open>The table of \<open>call_dispatch\<close>: levels \<open>SOL_SOCKET\<close> 1, \<open>IPPROTO_TCP\<close> 6, \<open>IPPROTO_IP\<close> 0 with the ABI's option numbers.\<close>

definition call_dispatch :: "nat \<Rightarrow> nat \<Rightarrow> (sock_option \<times> conv) outcome" where
  "call_dispatch level optname =
     (case map_of
        [((1, 2), (ReuseAddress, Conv_int_bool)), ((1, 4), (SockError, Conv_none)), ((1, 5), (DontRoute, Conv_int_bool)),
         ((1, 7), (SendBuffer, Conv_int_usize)), ((1, 8), (ReceiveBuffer, Conv_int_usize)), ((1, 9), (KeepAlive, Conv_int_bool)),
         ((1, 20), (ReceiveTimeout, Conv_duration)), ((1, 21), (SendTimeout, Conv_duration)),
         ((1, 16), (PassCredentials, Conv_int_bool)), ((1, 17), (PeerCredentials, Conv_ucred)),
         ((6, 1), (NoDelay, Conv_int_bool)), ((6, 2), (MaxSegment, Conv_int_usize)), ((6, 11), (TcpInfo, Conv_none)),
         ((0, 2), (Ttl, Conv_int_u8))] (level, optname) of
        None \<Rightarrow> Fail (LinuxErr ENOPROTOOPT)
      | Some x \<Rightarrow> Ok x)"

text \<open>
  \<open>get\<close> of \<open>sys_getsockopt\<close>: the length is checked and stored before the pointer to the value is checked.
\<close>

definition opt_get_mut ::
    "('t, 'n, 'm) net_env \<Rightarrow> nat \<Rightarrow> nat \<Rightarrow> addr \<Rightarrow> nat \<Rightarrow> addr \<Rightarrow> ('t, 'n, 'm) net_world \<Rightarrow> ('t, 'n, 'm) net_world \<times> bytes outcome" where
  "opt_get_mut env n al optval len optlen w =
     (if len < n then (w, Fail InvalidInput)
      else try_do (on_umem (sm_write (ne_mem env) optlen 4 (le_bytes 4 n)) w) (\<lambda>_ w1.
             (w1, sm_read_mut (ne_mem env) optval n al (nw_mem w1))))"

definition sys_getsockopt ::
    "('t, 'n, 'm) net_env \<Rightarrow> i32 \<Rightarrow> nat \<Rightarrow> nat \<Rightarrow> addr \<Rightarrow> addr \<Rightarrow> ('t, 'n, 'm) net_world \<Rightarrow> ('t, 'n, 'm) net_world \<times> int outcome" where
  "sys_getsockopt env fd level optname optval optlen w =
     try_get (sm_read_mut (ne_mem env) optlen 4 4 (nw_mem w)) w (\<lambda>lenb.
       with_socket env fd (\<lambda>f w0.
         try_get (call_dispatch level optname) w0 (\<lambda>(which, c).
           (let n = conv_size (ne_sock env) which c; al = conv_align (ne_sock env) which c; len = le_value lenb in
            if c = Conv_none then
              try_do (opt_get_mut env n al optval len optlen w0) (\<lambda>_ w1.
              try_get (so_get_option (ne_sock env) f which (nw_net w1)) w1 (\<lambda>v.
              try_get (rust_to_sys c v) w1 (\<lambda>bs.
                map_res (\<lambda>_. 0) (on_umem (sm_write (ne_mem env) optval al bs) w1))))
            else
              try_get (so_get_option (ne_sock env) f which (nw_net w0)) w0 (\<lambda>v.
              try_get (rust_to_sys c v) w0 (\<lambda>bs.
              try_do (opt_get_mut env n al optval len optlen w0) (\<lambda>_ w1.
                map_res (\<lambda>_. 0) (on_umem (sm_write (ne_mem env) optval al bs) w1))))))) w)"

definition sys_setsockopt ::
    "('t, 'n, 'm) net_env \<Rightarrow> i32 \<Rightarrow> nat \<Rightarrow> nat \<Rightarrow> addr \<Rightarrow> nat \<Rightarrow> ('t, 'n, 'm) net_world \<Rightarrow> ('t, 'n, 'm) net_world \<times> int outcome" where
  "sys_setsockopt env fd level optname optval optlen w =
     with_socket env fd (\<lambda>f w0.
       try_get (call_dispatch level optname) w0 (\<lambda>(which, c).
         (let n = conv_size (ne_sock env) which c in
          try_get (if optlen \<noteq> n then Fail InvalidInput else sm_read (ne_mem env) optval n (conv_align (ne_sock env) which c) (nw_mem w0)) w0 (\<lambda>bs.
          try_get (sys_to_rust c bs) w0 (\<lambda>v.
            map_res (\<lambda>_. 0) (on_net (so_set_option (ne_sock env) f which v) w0)))))) w"

subsection \<open>Sockets as files\<close>

definition socket_read ::
    "('n, 'm) sock_ops \<Rightarrow> nat \<Rightarrow> io_buf \<Rightarrow> 'n \<times> 'm \<Rightarrow> ('n \<times> 'm) \<times> nat outcome" where
  "socket_read ops f dst s = map_res rr_count (so_recv ops f dst False False False s)"

definition socket_write ::
    "('n, 'm) sock_ops \<Rightarrow> nat \<Rightarrow> io_buf \<Rightarrow> 'n \<times> 'm \<Rightarrow> ('n \<times> 'm) \<times> nat outcome" where
  "socket_write ops f src s = so_send ops f src None [] s"

text \<open>\<open>nonblocking\<close> unwraps the answer.\<close>

definition socket_nonblocking :: "('n, 'm) sock_ops \<Rightarrow> nat \<Rightarrow> 'n \<Rightarrow> bool outcome" where
  "socket_nonblocking ops f n =
     (case so_get_option ops f NonBlocking n of Inr (Opt_bool b) \<Rightarrow> Ok b | _ \<Rightarrow> Panicked)"

end
