(* ===== verification/Net_Props.thy ===== *)
theory Net_Props
  imports Net_Calls Fd_Props
begin

section \<open>Properties of the socket calls\<close>

text \<open>
  Addresses stored for the user are the addresses read back, except those of Unix sockets; and the rights message a
  receiver gets is one it can send on: it names the files that were passed.
\<close>

subsection \<open>User memory\<close>

definition patch :: "(addr \<Rightarrow> u8) \<Rightarrow> addr \<Rightarrow> bytes \<Rightarrow> addr \<Rightarrow> u8" where
  "patch v a bs = (\<lambda>x. if a \<le> x \<and> x < a + length bs then bs ! (x - a) else v x)"

definition bytes_at :: "(addr \<Rightarrow> u8) \<Rightarrow> addr \<Rightarrow> nat \<Rightarrow> bytes" where
  "bytes_at v a n = map v [a..<a + n]"

text \<open>
  What the accesses promise: they see the bytes of \<open>view\<close>; a region that can be written can be read, and so can its
  parts; a store changes its bytes and not what is accessible.
\<close>

definition mem_ok :: "'m sock_mem \<Rightarrow> ('m \<Rightarrow> addr \<Rightarrow> u8) \<Rightarrow> bool" where
  "mem_ok mem view \<longleftrightarrow>
     (\<forall>a n al m bs. sm_read mem a n al m = Inr bs \<longrightarrow> bs = bytes_at (view m) a n)
     \<and> (\<forall>a n al m bs. sm_read_mut mem a n al m = Inr bs \<longrightarrow> sm_read mem a n al m = Inr bs)
     \<and> (\<forall>a n al m b k al'. \<not> isl (sm_read mem a n al m) \<and> a \<le> b \<and> b + k \<le> a + n \<and> al' dvd b
           \<longrightarrow> \<not> isl (sm_read mem b k al' m))
     \<and> (\<forall>a al bs m m'. sm_write mem a al bs m = (m', Inr ())
           \<longrightarrow> view m' = patch (view m) a bs \<and> \<not> isl (sm_read mem a (length bs) al m))
     \<and> (\<forall>a al bs m b n al'. isl (sm_read mem b n al' (fst (sm_write mem a al bs m))) = isl (sm_read mem b n al' m))"

lemma length_bytes_at [simp]: "length (bytes_at v a n) = n"
  by (simp add: bytes_at_def)

lemma bytes_at_add: "bytes_at v a (m + n) = bytes_at v a m @ bytes_at v (a + m) n"
  using upt_add_eq_append [of a "a + m" n] by (simp add: bytes_at_def add.assoc)

lemma bytes_at_patch: "bytes_at (patch v a bs) a (length bs) = bs"
  by (rule nth_equalityI) (simp_all add: bytes_at_def patch_def)

lemma bytes_at_patch_other: "b + n \<le> a \<or> a + length bs \<le> b \<Longrightarrow> bytes_at (patch v a bs) b n = bytes_at v b n"
  by (auto simp: bytes_at_def patch_def)

lemma bytes_at_part: "k + n \<le> l \<Longrightarrow> bytes_at v (a + k) n = take n (drop k (bytes_at v a l))"
  by (rule nth_equalityI) (simp_all add: bytes_at_def add.assoc)

lemmas mem_okD =
  iffD1 [OF mem_ok_def, THEN conjunct1]
  iffD1 [OF mem_ok_def, THEN conjunct2, THEN conjunct1]
  iffD1 [OF mem_ok_def, THEN conjunct2, THEN conjunct2, THEN conjunct1]
  iffD1 [OF mem_ok_def, THEN conjunct2, THEN conjunct2, THEN conjunct2, THEN conjunct1]
  iffD1 [OF mem_ok_def, THEN conjunct2, THEN conjunct2, THEN conjunct2, THEN conjunct2]

lemma mem_ok_read:
  assumes "mem_ok mem view" and "\<not> isl (sm_read mem a n al m)"
  shows "sm_read mem a n al m = Inr (bytes_at (view m) a n)"
  using mem_okD(1) [OF assms(1), rule_format, of a n al m] assms(2) by (cases "sm_read mem a n al m") auto

lemma mem_ok_mut:
  assumes "mem_ok mem view" and "sm_read_mut mem a n al m = Inr bs"
  shows "bs = bytes_at (view m) a n" and "\<not> isl (sm_read mem a n al m)"
  using mem_okD(1) [OF assms(1), rule_format, of a n al m bs] mem_okD(2) [OF assms(1), rule_format, OF assms(2)] by auto

lemma mem_ok_sub:
  assumes "mem_ok mem view" and "\<not> isl (sm_read mem a n al m)" and "a \<le> b" and "b + k \<le> a + n" and "al' dvd b"
  shows "\<not> isl (sm_read mem b k al' m)"
  by (rule mem_okD(3) [OF assms(1), rule_format, of a n al m]) (use assms in simp)

lemma mem_ok_write:
  assumes "mem_ok mem view" and "sm_write mem a al bs m = (m', Inr u)"
  shows "view m' = patch (view m) a bs" and "\<not> isl (sm_read mem a (length bs) al m)"
    and "isl (sm_read mem b n al' m') = isl (sm_read mem b n al' m)"
  using mem_okD(4) [OF assms(1), rule_format, of a al bs m m'] mem_okD(5) [OF assms(1), rule_format, of b n al' a al bs m]
    assms(2) by simp_all

text \<open>Memory between two addresses.\<close>

definition flat_mem :: "addr \<Rightarrow> addr \<Rightarrow> (addr \<Rightarrow> u8) sock_mem" where
  "flat_mem lo hi =
     (let ok = (\<lambda>a n al. al dvd a \<and> lo \<le> a \<and> a + n \<le> hi);
          get = (\<lambda>a n al m. if ok a n al then Ok (bytes_at m a n) else Fail BadAddress)
      in \<lparr>sm_read = get, sm_read_mut = get,
          sm_write = (\<lambda>a al bs m. if ok a (length bs) al then (patch m a bs, Ok ()) else (m, Fail BadAddress))\<rparr>)"

lemma flat_mem_ok: "mem_ok (flat_mem lo hi) id"
  unfolding mem_ok_def flat_mem_def Let_def
  by (intro conjI allI impI) (auto split: if_splits)

subsection \<open>Addresses\<close>

lemma write_to_user_stores:
  assumes ok: "mem_ok mem view" and w: "write_to_user mem sa a lenp m = (m', Inr u)"
    and room: "length (addr_bytes sa) \<le> le_value (bytes_at (view m) lenp 4)"
    and sep: "lenp + 4 \<le> a \<or> a + length (addr_bytes sa) \<le> lenp"
  shows "bytes_at (view m') a (length (addr_bytes sa)) = addr_bytes sa"
    and "bytes_at (view m') lenp 4 = le_bytes 4 (length (addr_bytes sa))"
    and "\<not> isl (sm_read mem a (length (addr_bytes sa)) 1 m')"
proof -
  let ?bs = "addr_bytes sa"
  obtain lb where lb: "sm_read_mut mem lenp 4 4 m = Inr lb"
    using w by (auto simp: write_to_user_def split: sum.splits)
  have "lb = bytes_at (view m) lenp 4" by (rule mem_ok_mut(1) [OF ok lb])
  then have all: "min (le_value lb) (length ?bs) = length ?bs" using room by simp
  obtain m1 u1 where m1: "sm_write mem a 1 ?bs m = (m1, Inr u1)"
      and m': "sm_write mem lenp 4 (le_bytes 4 (length ?bs)) m1 = (m', Inr u)"
    using w by (auto simp: write_to_user_def lb fill_addr_def all Let_def split: sum.splits prod.splits)
  note v1 = mem_ok_write [OF ok m1] and v' = mem_ok_write [OF ok m']
  show "bytes_at (view m') a (length ?bs) = ?bs"
    unfolding v'(1) using sep by (subst bytes_at_patch_other) (auto simp: v1(1) bytes_at_patch)
  show "bytes_at (view m') lenp 4 = le_bytes 4 (length ?bs)"
    unfolding v'(1) using bytes_at_patch [of "view m1" lenp "le_bytes 4 (length ?bs)"] by simp
  show "\<not> isl (sm_read mem a (length ?bs) 1 m')" using v1(2) by (simp add: v1(3) v'(3))
qed

lemma read_part:
  assumes ok: "mem_ok mem view" and bs: "bytes_at (view m) a (length bs) = bs" and r: "\<not> isl (sm_read mem a (length bs) 1 m)"
    and "k + n \<le> length bs" and "al dvd a + k"
  shows "sm_read mem (a + k) n al m = Ok (take n (drop k bs))"
proof -
  have "\<not> isl (sm_read mem (a + k) n al m)" using assms by (intro mem_ok_sub [OF ok r]) auto
  from mem_ok_read [OF ok this] show ?thesis using bytes_at_part [OF assms(4), of "view m" a] bs by simp
qed

text \<open>The addresses the structures of the ABI can hold.\<close>

fun addr_ok :: "bool \<Rightarrow> socket_addr \<Rightarrow> bool" where
  "addr_ok vsock (Ip4 a) \<longleftrightarrow> length (v4_octets a) = 4 \<and> v4_port a < 2 ^ 16"
| "addr_ok vsock (Ip6 a) \<longleftrightarrow>
     length (v6_octets a) = 16 \<and> v6_port a < 2 ^ 16 \<and> v6_flowinfo a < 2 ^ 32 \<and> v6_scope_id a < 2 ^ 32"
| "addr_ok vsock (Unix a) \<longleftrightarrow> False"
| "addr_ok vsock (Vsock a) \<longleftrightarrow> vsock \<and> vs_cid a < 2 ^ 32 \<and> vs_port a < 2 ^ 32"

lemma be_value_bytes: "n < 256 ^ k \<Longrightarrow> be_value (be_bytes k n) = n"
  by (simp add: be_value_def be_bytes_def le_value_bytes)

lemma length_be_bytes [simp]: "length (be_bytes k n) = k"
  by (simp add: be_bytes_def)

lemma read_from_user_bytes:
  assumes ok: "addr_ok vsock sa"
    and r: "\<And>n al. n \<le> length (addr_bytes sa) \<Longrightarrow> al dvd 4 \<Longrightarrow> sm_read mem a n al m = Ok (take n (addr_bytes sa))"
  shows "read_from_user vsock mem a (length (addr_bytes sa)) m = Ok sa"
proof (cases sa)
  case (Ip4 x)
  then show ?thesis using ok r [of 2 2] r [of 16 4]
    by (simp add: read_from_user_def read_family_def ip_read_def v4_read_def v4_bytes_def le_value_bytes be_value_bytes AF_INET_def)
next
  case (Ip6 x)
  then show ?thesis using ok r [of 2 2] r [of 28 4]
    by (simp add: read_from_user_def read_family_def ip_read_def v6_read_def v6_bytes_def le_value_bytes be_value_bytes
      AF_INET_def AF_INET6_def)
next
  case (Unix x)
  then show ?thesis using ok by simp
next
  case (Vsock x)
  then show ?thesis using ok r [of 2 2] r [of 16 4]
    by (simp add: read_from_user_def read_family_def vsock_read_def vsock_bytes_def le_value_bytes
      AF_INET_def AF_INET6_def AF_UNIX_def AF_VSOCK_def)
qed

text \<open>
  C36: An Internet or vsock address that \<open>write_to_user\<close> has stored in a buffer with room for it is the address that
  \<open>read_from_user\<close> reads from the buffer with the length it reported.
\<close>

theorem sockaddr_roundtrip:
  assumes "mem_ok mem view" and "addr_ok vsock sa" and "4 dvd a"
    and "write_to_user mem sa a lenp m = (m', Ok ())"
    and "length (addr_bytes sa) \<le> le_value (bytes_at (view m) lenp 4)"
    and "lenp + 4 \<le> a \<or> a + length (addr_bytes sa) \<le> lenp"
  shows "read_from_user vsock mem a (le_value (bytes_at (view m') lenp 4)) m' = Ok sa"
proof -
  note st = write_to_user_stores [OF assms(1,4,5,6)]
  have "sm_read mem a n al m' = Ok (take n (addr_bytes sa))" if "n \<le> length (addr_bytes sa)" "al dvd 4" for n al
    using read_part [OF assms(1) st(1,3), of 0 n al] that assms(3) by (simp add: dvd_trans [of al 4 a])
  then have "read_from_user vsock mem a (length (addr_bytes sa)) m' = Ok sa" by (rule read_from_user_bytes [OF assms(2)])
  moreover have "length (addr_bytes sa) < 256 ^ 4"
    using assms(2) by (cases sa) (simp_all add: v4_bytes_def v6_bytes_def vsock_bytes_def)
  ultimately show ?thesis by (simp add: st(2) le_value_bytes)
qed

text \<open>
  C37: The family of a Unix address is stored in four bytes and read from two, so a path that was stored is read back as an
  abstract name: the path with a zero byte before and after it.
\<close>

theorem unix_path_becomes_abstract:
  assumes "mem_ok mem view" and "4 dvd a"
    and "write_to_user mem (Unix (Path path)) a lenp m = (m', Ok ())"
    and "length path + 5 \<le> le_value (bytes_at (view m) lenp 4)"
    and "lenp + 4 \<le> a \<or> a + length path + 5 \<le> lenp"
  shows "read_from_user vsock mem a (length path + 5) m' = Ok (Unix (Abstract (0 # path @ [0])))"
proof -
  let ?sa = "Unix (Path path)"
  have len: "length (addr_bytes ?sa) = length path + 5" by (simp add: unix_bytes_def)
  have room: "length (addr_bytes ?sa) \<le> le_value (bytes_at (view m) lenp 4)"
      and sep: "lenp + 4 \<le> a \<or> a + length (addr_bytes ?sa) \<le> lenp"
    using assms(4,5) by (simp_all only: len add.assoc)
  note st = write_to_user_stores [OF assms(1,3) room sep]
  have "le_bytes 4 1 = [1, 0, 0, 0]" by code_simp
  then have bytes: "addr_bytes ?sa = [1, 0, 0, 0] @ path @ [0]" by (simp add: unix_bytes_def AF_UNIX_def)
  have two: "2 dvd a" using assms(2) by (rule dvd_trans [rotated]) simp
  have "sm_read mem (a + 0) 2 2 m' = Ok (take 2 (drop 0 (addr_bytes ?sa)))"
    by (rule read_part [OF assms(1) st(1,3)]) (use two len in simp_all)
  moreover have "sm_read mem (a + 2) (length path + 3) 1 m' = Ok (take (length path + 3) (drop 2 (addr_bytes ?sa)))"
    by (rule read_part [OF assms(1) st(1,3)]) (use len in simp_all)
  ultimately have r: "sm_read mem a 2 2 m' = Ok [1, 0]" "sm_read mem (a + 2) (length path + 3) 1 m' = Ok (0 # 0 # path @ [0])"
    by (simp_all add: bytes del: addr_bytes.simps)
  have fam: "read_family mem a (length path + 5) m' = Ok AF_UNIX"
    by (simp add: read_family_def r(1) AF_UNIX_def)
  have "length path + 5 - 2 = length path + 3" by simp
  then have "unix_read mem a (length path + 5) m' = Ok (Abstract (0 # path @ [0]))"
    using r(2) by (simp only: unix_read_def fam) simp
  then show ?thesis
    by (simp add: read_from_user_def fam AF_UNIX_def AF_INET_def AF_INET6_def)
qed

subsection \<open>Passing files\<close>

definition fd_bytes :: "i32 \<Rightarrow> bytes" where
  "fd_bytes fd = le_bytes 4 (nat (fd mod 2 ^ 32))"

lemma length_fd_bytes [simp]: "length (fd_bytes fd) = 4"
  by (simp add: fd_bytes_def)

lemma length_concat_fd_bytes [simp]: "length (concat (map fd_bytes fds)) = 4 * length fds"
  by (induction fds) simp_all

lemma i32_of_fd_bytes: "0 \<le> fd \<Longrightarrow> is_i32 fd \<Longrightarrow> i32_of (fd_bytes fd) = fd"
  by (simp add: i32_of_def fd_bytes_def le_value_bytes is_i32_def wrap_i32_id nat_less_iff)

lemma chunks4_concat: "chunks4 (concat (map fd_bytes fds)) = map fd_bytes fds"
proof (induction fds)
  case (Cons fd fds)
  obtain a b c d where "fd_bytes fd = [a, b, c, d]"
    using length_fd_bytes [of fd] by (auto simp: length_Suc_conv numeral_eq_Suc simp del: length_fd_bytes)
  with Cons show ?case by simp
qed simp

lemma patch_append: "patch (patch v a bs) (a + length bs) cs = patch v a (bs @ cs)"
  by (auto simp: patch_def fun_eq_iff nth_append)

text \<open>Descriptors that hold the given files.\<close>

definition fds_hold :: "fd_map \<Rightarrow> i32 list \<Rightarrow> nat list \<Rightarrow> bool" where
  "fds_hold t fds fs \<longleftrightarrow> list_all2 (\<lambda>fd f. 0 \<le> fd \<and> is_i32 fd \<and> map_option fd_inner (t (nat fd)) = Some f) fds fs"

lemma fds_hold_mono: "fds_hold t fds fs \<Longrightarrow> t \<subseteq>\<^sub>m t' \<Longrightarrow> fds_hold t' fds fs"
  unfolding fds_hold_def by (erule list_all2_mono) (auto simp: map_le_def dom_def)

lemma fds_files_hold:
  assumes "fds_hold (fo_get flat t) fds fs"
  shows "fds_files flat t (map fd_bytes fds) = Ok fs"
  using assms unfolding fds_hold_def
  by (induction rule: list_all2_induct) (auto simp: i32_of_fd_bytes get_file_like_def fd_index_nonneg)

lemma socket_add_fd_ok:
  assumes "flat_ok (ne_flat env) cap" and "cap \<le> 2 ^ 31" and "socket_add_fd env f cloexec w = (w', Ok fd)"
  shows "fds_hold (fo_get (ne_flat env) (nw_table w')) [fd] [f]" and "nw_mem w' = nw_mem w"
    and "fo_get (ne_flat env) (nw_table w) \<subseteq>\<^sub>m fo_get (ne_flat env) (nw_table w')"
proof -
  let ?m = "fo_get (ne_flat env) (nw_table w)"
  obtain t' where add: "add_file_like (ne_flat env) (ne_max_nofile env) f cloexec (nw_table w) = (t', Ok fd)"
      and w': "w' = w\<lparr>nw_table := t'\<rparr>"
    using assms(3) by (auto simp: socket_add_fd_def split: prod.splits)
  let ?i = "LEAST i. ?m i = None"
  have spec: "spec_open cap (ne_max_nofile env) f cloexec ?m = (fo_get (ne_flat env) t', Ok fd)"
    using add_file_like_refines [OF assms(1,2), of "ne_max_nofile env" f cloexec "nw_table w"] add by simp
  then have t': "fo_get (ne_flat env) t' = ?m(?i \<mapsto> \<lparr>fd_inner = f, fd_cloexec = cloexec\<rparr>)" and fd: "fd = int ?i"
      and free: "\<not> {..<cap} \<subseteq> dom ?m"
    by (auto simp: spec_open_def Let_def split: if_splits)
  then obtain i where i: "i < cap" "?m i = None" by auto
  have none: "?m ?i = None" by (rule LeastI [of "\<lambda>i. ?m i = None" i]) (rule i(2))
  have "?i \<le> i" by (rule Least_le) (rule i(2))
  with i assms(2) have "?i < 2 ^ 31" by linarith
  then show "fds_hold (fo_get (ne_flat env) (nw_table w')) [fd] [f]"
    by (simp add: fds_hold_def w' t' fd is_i32_def)
  show "nw_mem w' = nw_mem w" by (simp add: w')
  show "?m \<subseteq>\<^sub>m fo_get (ne_flat env) (nw_table w')" using none by (auto simp: w' t' map_le_def dom_def)
qed

lemma on_umem_ok:
  "on_umem f w = (w', r) \<longleftrightarrow> f (nw_mem w) = (nw_mem w', r) \<and> w' = w\<lparr>nw_mem := nw_mem w'\<rparr>"
  by (cases w; cases w') (auto simp: on_umem_def split: prod.splits)

lemma rights_body_ok:
  assumes mem: "mem_ok (ne_mem env) view" and flat: "flat_ok (ne_flat env) cap" and cap: "cap \<le> 2 ^ 31"
    and "rights_body env a room fs k w = (w', Ok n)" and "k + 4 * length fs \<le> room"
  shows "n = k + 4 * length fs
    \<and> fo_get (ne_flat env) (nw_table w) \<subseteq>\<^sub>m fo_get (ne_flat env) (nw_table w')
    \<and> (\<forall>b n al. isl (sm_read (ne_mem env) b n al (nw_mem w')) = isl (sm_read (ne_mem env) b n al (nw_mem w)))
    \<and> (\<exists>fds. fds_hold (fo_get (ne_flat env) (nw_table w')) fds fs
           \<and> view (nw_mem w') = patch (view (nw_mem w)) (a + k) (concat (map fd_bytes fds)))"
  using assms(4,5)
proof (induction fs arbitrary: k w)
  case Nil
  have "patch v x [] = v" for v x unfolding patch_def by (rule ext) auto
  with Nil show ?case by (auto simp: fds_hold_def intro!: exI [of _ "[]"])
next
  case (Cons f fs)
  from Cons.prems obtain fd w1 w2 u where add: "socket_add_fd env f False w = (w1, Ok fd)"
      and wr: "on_umem (sm_write (ne_mem env) (a + k) 1 (fd_bytes fd)) w1 = (w2, Ok u)"
      and body: "rights_body env a room fs (k + 4) w2 = (w', Ok n)"
    by (auto simp: fd_bytes_def try_do_def split: prod.splits sum.splits if_splits)
  note add = socket_add_fd_ok [OF flat cap add]
  from wr have st: "sm_write (ne_mem env) (a + k) 1 (fd_bytes fd) (nw_mem w1) = (nw_mem w2, Ok u)"
    and tab: "nw_table w2 = nw_table w1"
    unfolding on_umem_ok by (auto, metis net_world.select_convs(1) net_world.surjective net_world.update_convs(3))
  note st = mem_ok_write [OF mem st]
  from Cons.IH [OF body] Cons.prems(2) obtain fds where IH: "n = k + 4 + 4 * length fs"
      "fo_get (ne_flat env) (nw_table w1) \<subseteq>\<^sub>m fo_get (ne_flat env) (nw_table w')"
      "\<And>b n al. isl (sm_read (ne_mem env) b n al (nw_mem w')) = isl (sm_read (ne_mem env) b n al (nw_mem w2))"
      "fds_hold (fo_get (ne_flat env) (nw_table w')) fds fs"
      "view (nw_mem w') = patch (view (nw_mem w2)) (a + (k + 4)) (concat (map fd_bytes fds))"
    by (auto simp: tab)
  have "fds_hold (fo_get (ne_flat env) (nw_table w')) (fd # fds) (f # fs)"
    using fds_hold_mono [OF add(1) IH(2)] IH(4) by (simp add: fds_hold_def)
  moreover have "view (nw_mem w') = patch (view (nw_mem w)) (a + k) (concat (map fd_bytes (fd # fds)))"
    using patch_append [of "view (nw_mem w)" "a + k" "fd_bytes fd" "concat (map fd_bytes fds)"]
    by (simp add: IH(5) st(1) add(2) add.assoc)
  ultimately show ?case
    using IH(1,3) map_le_trans [OF add(3) IH(2)] st(3) by (auto simp: add(2))
qed

lemma on_umem_write:
  assumes "mem_ok (ne_mem env) view" and "on_umem (sm_write (ne_mem env) a al bs) w = (w', Ok u)"
  shows "view (nw_mem w') = patch (view (nw_mem w)) a bs" and "nw_table w' = nw_table w"
    and "isl (sm_read (ne_mem env) b n al' (nw_mem w')) = isl (sm_read (ne_mem env) b n al' (nw_mem w))"
proof -
  obtain m' where m': "sm_write (ne_mem env) a al bs (nw_mem w) = (m', Inr u)" "w' = w\<lparr>nw_mem := m'\<rparr>"
    using assms(2) by (auto simp: on_umem_def split: prod.splits)
  from mem_ok_write [OF assms(1) m'(1)] show "view (nw_mem w') = patch (view (nw_mem w)) a bs"
    and "nw_table w' = nw_table w"
    and "isl (sm_read (ne_mem env) b n al' (nw_mem w')) = isl (sm_read (ne_mem env) b n al' (nw_mem w))"
    by (simp_all add: m'(2))
qed

text \<open>The bytes of a rights message and the memory that holds it.\<close>

definition rights_message :: "i32 list \<Rightarrow> bytes" where
  "rights_message fds =
     le_bytes 8 (16 + 4 * length fds) @ le_bytes 4 SOL_SOCKET @ le_bytes 4 SCM_RIGHTS @ concat (map fd_bytes fds)"

lemma length_rights_message [simp]: "length (rights_message fds) = 16 + 4 * length fds"
  by (simp add: rights_message_def)

lemma message_at:
  assumes "lenp + 8 \<le> a \<or> a + 16 + length cs \<le> lenp"
    and len: "length bs0 = 8" "length bs1 = 4" "length bs2 = 4" "length l = 8"
  shows "bytes_at (patch (patch (patch (patch v (a + 8) (bs1 @ bs2)) (a + 16) cs) a bs0) lenp l) a (16 + length cs) = bs0 @ bs1 @ bs2 @ cs"
proof -
  have "patch (patch v (a + 8) (bs1 @ bs2)) (a + 16) cs = patch v (a + 8) ((bs1 @ bs2) @ cs)"
    using patch_append [of v "a + 8" "bs1 @ bs2" cs] len by (simp add: add.assoc)
  moreover have "bytes_at (patch (patch v (a + 8) ds) a bs0) a (8 + length ds) = bs0 @ ds" for ds
    using bytes_at_patch [of "patch v (a + 8) ds" a bs0] bytes_at_patch [of v "a + 8" ds] len
    by (simp add: bytes_at_add bytes_at_patch_other)
  from this [of "(bs1 @ bs2) @ cs"] len have "bytes_at (patch (patch v (a + 8) ((bs1 @ bs2) @ cs)) a bs0) a (16 + length cs)
      = bs0 @ bs1 @ bs2 @ cs" by (simp add: add.commute)
  ultimately show ?thesis using assms len by (subst bytes_at_patch_other) (auto simp: add.assoc)
qed

lemma push_rights_stores:
  assumes mem: "mem_ok (ne_mem env) view" and flat: "flat_ok (ne_flat env) cap" and cap: "cap \<le> 2 ^ 31"
    and push: "push_rights env fs b w = (w', Ok (b', True))"
    and room: "16 + 4 * length fs \<le> cb_capacity b - cb_len b"
    and sep: "cb_lenp b + 8 \<le> cb_hdr b \<or> cb_hdr b + cb_capacity b - cb_len b \<le> cb_lenp b"
  obtains fds where "fds_hold (fo_get (ne_flat env) (nw_table w')) fds fs"
    and "cb_hdr b' = cb_hdr b + 16 + 4 * length fs"
    and "bytes_at (view (nw_mem w')) (cb_hdr b) (16 + 4 * length fs) = rights_message fds"
    and "fo_get (ne_flat env) (nw_table w) \<subseteq>\<^sub>m fo_get (ne_flat env) (nw_table w')"
    and "\<not> isl (sm_read (ne_mem env) (cb_hdr b) 16 8 (nw_mem w'))"
    and "\<not> isl (sm_read (ne_mem env) (cb_hdr b + 16) (4 * length fs) 1 (nw_mem w'))"
proof -
  let ?n = "cb_capacity b - cb_len b - CMSGHDR"
  obtain h1 h2 w1 w2 w3 n u1 u3 u4 where
      h1: "sm_read_mut (ne_mem env) (cb_hdr b) CMSGHDR 8 (nw_mem w) = Inr h1"
      and w1: "on_umem (sm_write (ne_mem env) (cb_hdr b + 8) 4 (le_bytes 4 SOL_SOCKET @ le_bytes 4 SCM_RIGHTS)) w = (w1, Ok u1)"
      and h2: "sm_read_mut (ne_mem env) (cb_hdr b + CMSGHDR) ?n 1 (nw_mem w1) = Inr h2"
      and w2: "rights_body env (cb_hdr b + CMSGHDR) ?n fs 0 w1 = (w2, Ok n)"
      and w3: "on_umem (sm_write (ne_mem env) (cb_hdr b) 8 (le_bytes 8 (CMSGHDR + n))) w2 = (w3, Ok u3)"
      and w4: "on_umem (sm_write (ne_mem env) (cb_lenp b) 8 (le_bytes 8 (cb_len b + (CMSGHDR + n)))) w3 = (w', Ok u4)"
      and b': "b' = b\<lparr>cb_hdr := cb_hdr b + (CMSGHDR + n), cb_len := cb_len b + (CMSGHDR + n)\<rparr>"
    using push by (auto simp: push_rights_def try_do_def try_get_def Let_def split: prod.splits sum.splits if_splits)
  note v = on_umem_write [OF mem w1] on_umem_write [OF mem w3] on_umem_write [OF mem w4]
  have fits: "0 + 4 * length fs \<le> ?n" using room by (simp add: CMSGHDR_def)
  from rights_body_ok [OF mem flat cap w2 fits] obtain fds where n: "n = 4 * length fs"
      and le: "fo_get (ne_flat env) (nw_table w) \<subseteq>\<^sub>m fo_get (ne_flat env) (nw_table w2)"
      and hold: "fds_hold (fo_get (ne_flat env) (nw_table w2)) fds fs"
      and view: "view (nw_mem w2) = patch (view (nw_mem w1)) (cb_hdr b + CMSGHDR) (concat (map fd_bytes fds))"
      and same: "\<And>b n al. isl (sm_read (ne_mem env) b n al (nw_mem w2)) = isl (sm_read (ne_mem env) b n al (nw_mem w1))"
    by (auto simp: v(2))
  have len: "length fds = length fs" using hold by (auto simp: fds_hold_def dest: list_all2_lengthD)
  have apart: "cb_lenp b + 8 \<le> cb_hdr b \<or> cb_hdr b + 16 + length (concat (map fd_bytes fds)) \<le> cb_lenp b"
    using sep room len by auto
  have "bytes_at (view (nw_mem w')) (cb_hdr b) (16 + 4 * length fs) = rights_message fds"
    using message_at [OF apart, of "le_bytes 8 (CMSGHDR + n)" "le_bytes 4 SOL_SOCKET" "le_bytes 4 SCM_RIGHTS"
      "le_bytes 8 (cb_len b + (CMSGHDR + n))" "view (nw_mem w)"]
    by (simp add: v view CMSGHDR_def n len rights_message_def)
  moreover have "\<not> isl (sm_read (ne_mem env) (cb_hdr b) 16 8 (nw_mem w'))"
    using mem_ok_mut(2) [OF mem h1] by (simp add: v same CMSGHDR_def)
  moreover have "\<not> isl (sm_read (ne_mem env) (cb_hdr b + 16) (4 * length fs) 1 (nw_mem w'))"
    using mem_ok_sub [OF mem mem_ok_mut(2) [OF mem h2], of "cb_hdr b + 16" "4 * length fs" 1] room
    by (simp add: v same CMSGHDR_def)
  ultimately show thesis using that [of fds] hold le by (simp add: v b' n CMSGHDR_def add.assoc)
qed

lemma parse_rights_message:
  assumes mem: "mem_ok (ne_mem env) view" and hold: "fds_hold (fo_get (ne_flat env) (nw_table w)) fds fs"
    and bytes: "bytes_at (view (nw_mem w)) a (16 + 4 * length fs) = rights_message fds"
    and r: "\<not> isl (sm_read (ne_mem env) a 16 8 (nw_mem w))" "\<not> isl (sm_read (ne_mem env) (a + 16) (4 * length fs) 1 (nw_mem w))"
    and small: "a + 32 + 4 * length fs < 2 ^ 64"
  shows "parse_cmsgs env a (a + 16 + 4 * length fs) w = Ok [Rights fs]"
proof -
  have len: "length fds = length fs" using hold by (auto simp: fds_hold_def dest: list_all2_lengthD)
  define hd where "hd = take 16 (rights_message fds)"
  have hdr: "sm_read (ne_mem env) a CMSGHDR 8 (nw_mem w) = Ok hd"
    using mem_ok_read [OF mem r(1)] bytes_at_part [of 0 16 "16 + 4 * length fs" "view (nw_mem w)" a] bytes by (simp add: CMSGHDR_def hd_def)
  have body: "sm_read (ne_mem env) (a + CMSGHDR) (4 * length fs) 1 (nw_mem w) = Ok (concat (map fd_bytes fds))"
    using mem_ok_read [OF mem r(2)] bytes_at_part [of 16 "4 * length fs" "16 + 4 * length fs" "view (nw_mem w)" a] bytes len
    by (simp add: CMSGHDR_def rights_message_def)
  have cmsg_len: "le_value (take 8 hd) = 16 + 4 * length fs" and level: "le_value (take 4 (drop 8 hd)) = SOL_SOCKET"
    and ty: "le_value (take 4 (drop 12 hd)) = SCM_RIGHTS"
    using small by (simp_all add: hd_def rights_message_def len le_value_bytes SOL_SOCKET_def SCM_RIGHTS_def)
  have "cmsg_parse env a hd w = Ok (Rights fs)"
    using body fds_files_hold [OF hold] len
    by (simp add: cmsg_parse_def cmsg_len level ty Let_def CMSGHDR_def chunks4_concat)
  moreover have "uadd x CMSGHDR = x + CMSGHDR" if "x < 2 ^ 64 - 16" for x
    using that by (simp add: uadd_def CMSGHDR_def)
  ultimately have parse: "cmsg_parse env a hd w = Ok (Rights fs)" and first: "uadd a CMSGHDR = a + 16"
      and next_hdr: "uadd (a + (16 + 4 * length fs)) CMSGHDR = a + (16 + 4 * length fs) + 16"
    using small by (auto simp: CMSGHDR_def)
  have "parse_cmsgs env (a + (16 + 4 * length fs)) (a + (16 + 4 * length fs)) w = Ok []"
    by (subst parse_cmsgs.simps) (simp only: next_hdr, simp)
  then show ?thesis
    by (subst parse_cmsgs.simps) (simp add: first [unfolded CMSGHDR_def] hdr [unfolded CMSGHDR_def] cmsg_len parse CMSGHDR_def Let_def add.assoc)
qed

text \<open>
  C35: The rights message that \<open>recvmsg\<close> pushes for the files of a message, in a buffer with room for it, is one that the
  loop of \<open>sendmsg\<close> reads as the same files; no descriptor that was open before has changed.
\<close>

theorem rights_roundtrip:
  assumes "mem_ok (ne_mem env) view" and "flat_ok (ne_flat env) cap" and "cap \<le> 2 ^ 31"
    and "push_rights env fs b w = (w', Ok (b', True))"
    and "16 + 4 * length fs \<le> cb_capacity b - cb_len b"
    and "cb_lenp b + 8 \<le> cb_hdr b \<or> cb_hdr b + cb_capacity b - cb_len b \<le> cb_lenp b"
    and "cb_hdr b + 32 + 4 * length fs < 2 ^ 64"
  shows "parse_cmsgs env (cb_hdr b) (cb_hdr b') w' = Ok [Rights fs]
    \<and> fo_get (ne_flat env) (nw_table w) \<subseteq>\<^sub>m fo_get (ne_flat env) (nw_table w')"
proof -
  obtain fds where fds: "fds_hold (fo_get (ne_flat env) (nw_table w')) fds fs"
      and b': "cb_hdr b' = cb_hdr b + 16 + 4 * length fs"
      and st: "bytes_at (view (nw_mem w')) (cb_hdr b) (16 + 4 * length fs) = rights_message fds"
      and le: "fo_get (ne_flat env) (nw_table w) \<subseteq>\<^sub>m fo_get (ne_flat env) (nw_table w')"
      and r: "\<not> isl (sm_read (ne_mem env) (cb_hdr b) 16 8 (nw_mem w'))"
        "\<not> isl (sm_read (ne_mem env) (cb_hdr b + 16) (4 * length fs) 1 (nw_mem w'))"
    by (rule push_rights_stores [OF assms(1-6)])
  from parse_rights_message [OF assms(1) fds st r assms(7)] le show ?thesis by (simp add: b')
qed

subsection \<open>Instances\<close>

lemma sockaddr_roundtrip_witness:
  "read_from_user False (flat_mem 0 64) 16 16
     (fst (write_to_user (flat_mem 0 64) (Ip4 \<lparr>v4_octets = [127, 0, 0, 1], v4_port = 80\<rparr>) 16 32 (\<lambda>x. if x = 32 then 16 else 0)))
   = Ok (Ip4 \<lparr>v4_octets = [127, 0, 0, 1], v4_port = 80\<rparr>)"
proof -
  let ?sa = "Ip4 \<lparr>v4_octets = [127, 0, 0, 1], v4_port = 80\<rparr>" and ?m = "\<lambda>x::nat. if x = 32 then 16 else 0 :: u8"
  have w: "snd (write_to_user (flat_mem 0 64) ?sa 16 32 ?m) = Ok ()" by code_simp
  have w': "write_to_user (flat_mem 0 64) ?sa 16 32 ?m = (fst (write_to_user (flat_mem 0 64) ?sa 16 32 ?m), Ok ())"
    using w by (metis prod.collapse)
  have room: "length (addr_bytes ?sa) \<le> le_value (bytes_at (id ?m) 32 4)" by code_simp
  have len: "le_value (bytes_at (id (fst (write_to_user (flat_mem 0 64) ?sa 16 32 ?m))) 32 4) = 16" by code_simp
  show ?thesis
    using sockaddr_roundtrip [where view = id and vsock = False, OF flat_mem_ok _ _ w' room] len by (simp add: v4_bytes_def)
qed

lemma unix_path_becomes_abstract_witness:
  "read_from_user False (flat_mem 0 64) 16 7
     (fst (write_to_user (flat_mem 0 64) (Unix (Path [47, 97])) 16 32 (\<lambda>x. if x = 32 then 16 else 0)))
   = Ok (Unix (Abstract [0, 47, 97, 0]))"
proof -
  let ?sa = "Unix (Path [47, 97])" and ?m = "\<lambda>x::nat. if x = 32 then 16 else 0 :: u8"
  have w: "snd (write_to_user (flat_mem 0 64) ?sa 16 32 ?m) = Ok ()" by code_simp
  have w': "write_to_user (flat_mem 0 64) ?sa 16 32 ?m = (fst (write_to_user (flat_mem 0 64) ?sa 16 32 ?m), Ok ())"
    using w by (metis prod.collapse)
  have room: "length [47, 97 :: u8] + 5 \<le> le_value (bytes_at (id ?m) 32 4)" by code_simp
  show ?thesis
    using unix_path_becomes_abstract [where view = id and vsock = False, OF flat_mem_ok _ w' room] by simp
qed

text \<open>A network without sockets.\<close>

definition no_sockets :: "(unit, 'm) sock_ops" where
  "no_sockets =
     \<lparr>so_is_socket = (\<lambda>_. False), so_new = (\<lambda>_ n. (n, 0)), so_new_pair = (\<lambda>_ _ n. (n, 0, 0)),
      so_bind = (\<lambda>_ _ n. (n, Fail InvalidInput)), so_connect = (\<lambda>_ _ n. (n, Fail InvalidInput)),
      so_listen = (\<lambda>_ n. (n, Fail InvalidInput)), so_accept = (\<lambda>_ n. (n, Fail InvalidInput)),
      so_shutdown = (\<lambda>_ _ n. (n, Fail InvalidInput)), so_local_addr = (\<lambda>_ _. Fail InvalidInput),
      so_peer_addr = (\<lambda>_ _. Fail InvalidInput), so_send = (\<lambda>_ _ _ _ s. (s, Fail InvalidInput)),
      so_recv = (\<lambda>_ _ _ _ _ s. (s, Fail InvalidInput)), so_get_option = (\<lambda>_ _ _. Fail InvalidInput),
      so_set_option = (\<lambda>_ _ _ n. (n, Fail InvalidInput)), so_raw_size = (\<lambda>_. 4), so_raw_align = (\<lambda>_. 4)\<rparr>"

definition rights_env :: "(file_descriptor option list, unit, addr \<Rightarrow> u8) net_env" where
  "rights_env =
     \<lparr>ne_flat = slot_table 4, ne_sock = no_sockets, ne_mem = flat_mem 0 64, ne_read_iov = (\<lambda>_ _ _. Fail BadAddress),
      ne_max_nofile = 4, ne_pid = 1, ne_vsock = False\<rparr>"

definition rights_world :: "(file_descriptor option list, unit, addr \<Rightarrow> u8) net_world" where
  "rights_world = \<lparr>nw_table = [Some \<lparr>fd_inner = 5, fd_cloexec = False\<rparr>], nw_net = (), nw_mem = (\<lambda>_. 0)\<rparr>"

definition rights_builder :: cmsg_builder where
  "rights_builder = \<lparr>cb_hdr = 8, cb_lenp = 0, cb_len = 0, cb_capacity = 24\<rparr>"

lemma rights_roundtrip_witness:
  "parse_cmsgs rights_env 8 32 (fst (push_rights rights_env [7, 9] rights_builder rights_world)) = Ok [Rights [7, 9]]"
proof -
  let ?w = "fst (push_rights rights_env [7, 9] rights_builder rights_world)"
  let ?b = "\<lparr>cb_hdr = 32, cb_lenp = 0, cb_len = 24, cb_capacity = 24\<rparr>"
  have "snd (push_rights rights_env [7, 9] rights_builder rights_world) = Ok (?b, True)" by code_simp
  then have push: "push_rights rights_env [7, 9] rights_builder rights_world = (?w, Ok (?b, True))" by (metis prod.collapse)
  have mem: "mem_ok (ne_mem rights_env) id" by (simp add: rights_env_def flat_mem_ok)
  have flat: "flat_ok (ne_flat rights_env) 4" by (simp add: rights_env_def slot_table_ok)
  show ?thesis
    using rights_roundtrip [OF mem flat _ push] by (simp add: rights_builder_def)
qed

end
