(* ===== verification/Vfs.thy ===== *)
theory Vfs
  imports Fs_Ctl "HOL-Library.List_Lexorder" "HOL-Library.Char_ord"
begin

section \<open>Pseudo file systems\<close>

text \<open>
  \<open>core/src/vfs\<close>: file systems whose files and directories are computed. The contents behind a file are the state
  \<open>'s\<close>; files and directories are named by numbers. The directory entries with their cache (\<open>DirEntry\<close>, \<open>DirNode\<close>) and
  the slab belong to other crates: what is asked of them are arguments.
\<close>

subsection \<open>Nodes\<close>

text \<open>
  \<open>SimpleFs\<close>: the slots of the slab in use. \<open>vacant\<close> is the slot the slab hands out; removing a free slot panics.
\<close>

record simple_fs =
  sv_fs_type :: u32
  sv_inodes :: "nat list"

definition alloc_inode :: "nat \<Rightarrow> simple_fs \<Rightarrow> simple_fs \<times> nat" where
  "alloc_inode vacant fs = (fs\<lparr>sv_inodes := vacant # sv_inodes fs\<rparr>, vacant + 1)"

definition simple_release_inode :: "nat \<Rightarrow> simple_fs \<Rightarrow> simple_fs \<times> unit outcome" where
  "simple_release_inode ino fs =
     (if ino \<noteq> 0 \<and> ino - 1 \<in> set (sv_inodes fs) then (fs\<lparr>sv_inodes := remove1 (ino - 1) (sv_inodes fs)\<rparr>, Ok ())
      else (fs, Panicked))"

definition dummy_stat_fs :: "u32 \<Rightarrow> nat \<Rightarrow> stat_fs" where
  "dummy_stat_fs fs_type max_name_len =
     \<lparr>sf_fs_type = fs_type, sf_block_size = 512, sf_blocks = 100, sf_blocks_free = 100, sf_blocks_available = 100,
      sf_file_count = 0, sf_free_file_count = 0, sf_name_length = max_name_len, sf_fragment_size = 0, sf_mount_flags = 0\<rparr>"

definition simple_node_new :: "nat \<Rightarrow> node_type \<Rightarrow> u32 \<Rightarrow> simple_fs \<Rightarrow> simple_fs \<times> metadata" where
  "simple_node_new vacant ty mode fs =
     (let (fs1, ino) = alloc_inode vacant fs in
      (fs1, \<lparr>me_device = 0, me_inode = ino, me_nlink = 1, me_mode = mode, me_node_type = ty, me_uid = 0, me_gid = 0,
             me_size = 0, me_block_size = 0, me_blocks = 0, me_rdev = 0, me_atime = 0, me_mtime = 0, me_ctime = 0\<rparr>))"

text \<open>Dropping a node gives its inode back.\<close>

definition simple_node_drop :: "metadata \<Rightarrow> simple_fs \<Rightarrow> simple_fs \<times> unit outcome" where
  "simple_node_drop md fs = simple_release_inode (me_inode md) fs"

text \<open>
  \<open>SimpleFsNode::metadata\<close>: the methods of files and directories are inherited from the node, so the size is the \<open>len\<close> of
  the node, which is 0, whatever the file holds.
\<close>

definition simple_node_metadata :: "metadata \<Rightarrow> metadata" where
  "simple_node_metadata md = md\<lparr>me_size := 0\<rparr>"

definition simple_update_metadata :: "metadata_update \<Rightarrow> metadata \<Rightarrow> metadata" where
  "simple_update_metadata u md =
     (let m1 = (case mu_mode u of None \<Rightarrow> md | Some mode \<Rightarrow> md\<lparr>me_mode := mode\<rparr>);
          m2 = (case mu_owner u of None \<Rightarrow> m1 | Some (uid, gid) \<Rightarrow> m1\<lparr>me_uid := uid, me_gid := gid\<rparr>);
          m3 = (case mu_atime u of None \<Rightarrow> m2 | Some t \<Rightarrow> m2\<lparr>me_atime := t\<rparr>)
      in case mu_mtime u of None \<Rightarrow> m3 | Some t \<Rightarrow> m3\<lparr>me_mtime := t\<rparr>)"

subsection \<open>Files\<close>

record 's simple_file_ops =
  sm_read_all :: "'s \<Rightarrow> 's \<times> u8 list outcome"
  sm_write_all :: "u8 list \<Rightarrow> 's \<Rightarrow> 's \<times> unit outcome"

datatype simple_file_operation = Op_read | Op_write "u8 list"

text \<open>\<open>RwFile\<close> of a closure, and a closure that only reads.\<close>

definition rw_file :: "(simple_file_operation \<Rightarrow> 's \<Rightarrow> 's \<times> u8 list option outcome) \<Rightarrow> 's simple_file_ops" where
  "rw_file imp =
     \<lparr>sm_read_all = (\<lambda>s. try_do (imp Op_read s) (\<lambda>r s1. (s1, case r of Some bs \<Rightarrow> Ok bs | None \<Rightarrow> Panicked))),
      sm_write_all = (\<lambda>bs s. map_res (\<lambda>_. ()) (imp (Op_write bs) s))\<rparr>"

definition read_only_file :: "('s \<Rightarrow> 's \<times> u8 list outcome) \<Rightarrow> 's simple_file_ops" where
  "read_only_file imp = \<lparr>sm_read_all = imp, sm_write_all = (\<lambda>_ s. (s, Fail BadFileDescriptor))\<rparr>"

text \<open>\<open>Vec::resize\<close> with zeros.\<close>

definition resize :: "nat \<Rightarrow> u8 list \<Rightarrow> u8 list" where
  "resize n bs = take n bs @ replicate (n - length bs) 0"

definition simple_len :: "'s simple_file_ops \<Rightarrow> 's \<Rightarrow> 's \<times> nat outcome" where
  "simple_len ops s = map_res length (sm_read_all ops s)"

definition simple_read_at :: "'s simple_file_ops \<Rightarrow> nat \<Rightarrow> nat \<Rightarrow> 's \<Rightarrow> 's \<times> u8 list outcome" where
  "simple_read_at ops n offset s =
     try_do (sm_read_all ops s) (\<lambda>data s1.
       if offset \<ge> length data then (s1, Ok [])
       else (let rst = drop offset data; rd = min (length rst) n in (s1, Ok (take rd rst))))"

text \<open>When \<open>offset + buf.len()\<close> leaves the 64 bits, the range of the slice is not one and indexing panics.\<close>

definition simple_write_at :: "'s simple_file_ops \<Rightarrow> u8 list \<Rightarrow> nat \<Rightarrow> 's \<Rightarrow> 's \<times> nat outcome" where
  "simple_write_at ops buf offset s =
     try_do (sm_read_all ops s) (\<lambda>data s1.
       if offset = 0 \<and> length buf \<ge> length data then map_res (\<lambda>_. length buf) (sm_write_all ops buf s1)
       else
         (let end_pos = uadd offset (length buf);
              data1 = (if end_pos > length data then resize end_pos data else data)
          in if end_pos < offset \<or> length data1 < end_pos then (s1, Panicked)
             else map_res (\<lambda>_. length buf) (sm_write_all ops (take offset data1 @ buf @ drop end_pos data1) s1)))"

definition simple_append :: "'s simple_file_ops \<Rightarrow> u8 list \<Rightarrow> 's \<Rightarrow> 's \<times> (nat \<times> nat) outcome" where
  "simple_append ops buf s =
     try_do (sm_read_all ops s) (\<lambda>data s1.
       map_res (\<lambda>_. (length buf, length (data @ buf))) (sm_write_all ops (data @ buf) s1))"

definition simple_set_len :: "'s simple_file_ops \<Rightarrow> nat \<Rightarrow> 's \<Rightarrow> 's \<times> unit outcome" where
  "simple_set_len ops len s =
     try_do (sm_read_all ops s) (\<lambda>data s1.
       if len < length data then sm_write_all ops (take len data) s1
       else if len > length data then sm_write_all ops (resize len data) s1
       else (s1, Ok ()))"

definition simple_set_symlink :: "'s simple_file_ops \<Rightarrow> u8 list \<Rightarrow> 's \<Rightarrow> 's \<times> unit outcome" where
  "simple_set_symlink ops target s = sm_write_all ops target s"

subsection \<open>Directories\<close>

text \<open>\<open>NodeOpsMux\<close>: a maker of directories or a file, by number.\<close>

datatype node_ops_mux = Mux_dir nat | Mux_file nat

record 's simple_dir_ops =
  sd_child_names :: "'s \<Rightarrow> string list"
  sd_lookup_child :: "string \<Rightarrow> 's \<Rightarrow> node_ops_mux outcome"
  sd_is_cacheable :: bool

type_synonym dir_map = "(string, node_ops_mux) btree"

definition dir_mapping_add :: "string \<Rightarrow> node_ops_mux \<Rightarrow> dir_map \<Rightarrow> dir_map" where
  "dir_mapping_add name ops d = bt_insert name ops d"

definition dir_mapping :: "dir_map \<Rightarrow> 's simple_dir_ops" where
  "dir_mapping d =
     \<lparr>sd_child_names = (\<lambda>_. bt_keys d), sd_lookup_child = (\<lambda>name _. ok_or (bt_get d name) NotFound), sd_is_cacheable = True\<rparr>"

definition chained_dir :: "'s simple_dir_ops \<Rightarrow> 's simple_dir_ops \<Rightarrow> 's simple_dir_ops" where
  "chained_dir a b =
     \<lparr>sd_child_names = (\<lambda>s. sd_child_names a s @ sd_child_names b s),
      sd_lookup_child = (\<lambda>name s.
        case sd_lookup_child a name s of
          Inr ops \<Rightarrow> Ok ops
        | Inl e \<Rightarrow> if e = Err NotFound then sd_lookup_child b name s else Inl e),
      sd_is_cacheable = (sd_is_cacheable a \<and> sd_is_cacheable b)\<rparr>"

text \<open>
  \<open>SimpleDir::lookup\<close>: the entry for a name, with the type of a file taken from its metadata. \<open>entry_dir\<close> stands for
  \<open>DirEntry::new_dir\<close>, \<open>entry_file\<close> for \<open>DirEntry::new_file\<close>.
\<close>

definition simple_lookup ::
    "'s simple_dir_ops \<Rightarrow> (nat \<Rightarrow> 's \<Rightarrow> metadata outcome) \<Rightarrow> (nat \<Rightarrow> 'd) \<Rightarrow> (nat \<Rightarrow> node_type \<Rightarrow> 'd) \<Rightarrow> string \<Rightarrow> 's \<Rightarrow> 'd outcome" where
  "simple_lookup ops file_metadata entry_dir entry_file name s =
     (case sd_lookup_child ops name s of
        Inl e \<Rightarrow> Inl e
      | Inr (Mux_dir d) \<Rightarrow> Ok (entry_dir d)
      | Inr (Mux_file f) \<Rightarrow> map_sum id (\<lambda>md. entry_file f (me_node_type md)) (file_metadata f s))"

text \<open>
  \<open>SimpleDir::read_dir\<close>. \<open>meta name\<close> is the metadata of the entry, of the directory itself for \<open>.\<close>, of its parent for
  \<open>..\<close>, and through the lookup of the entry otherwise; \<open>alive\<close> says that the directory's own entry still exists.
\<close>

fun simple_read_dir_loop ::
    "(string \<Rightarrow> metadata outcome) \<Rightarrow> dir_accept \<Rightarrow> nat \<Rightarrow> string list \<Rightarrow> nat \<Rightarrow> dir_sink \<Rightarrow> dir_sink \<times> nat outcome" where
  "simple_read_dir_loop meta acc i [] count k = (k, Ok count)"
| "simple_read_dir_loop meta acc i (name # names) count k =
     (case meta name of
        Inl e \<Rightarrow> (k, Inl e)
      | Inr md \<Rightarrow>
          (case acc name (me_inode md) (me_node_type md) (i + 1) k of
             (k1, False) \<Rightarrow> (k1, Ok count)
           | (k1, True) \<Rightarrow> simple_read_dir_loop meta acc (i + 1) names (count + 1) k1))"

definition simple_read_dir ::
    "'s simple_dir_ops \<Rightarrow> bool \<Rightarrow> (string \<Rightarrow> 's \<Rightarrow> metadata outcome) \<Rightarrow> nat \<Rightarrow> dir_accept \<Rightarrow> dir_sink \<Rightarrow> 's \<Rightarrow> dir_sink \<times> nat outcome" where
  "simple_read_dir ops alive meta offset acc k s =
     (let children = [''.'', ''..''] @ sd_child_names ops s in
      if \<not> alive then (k, Panicked)
      else simple_read_dir_loop (\<lambda>name. meta name s) acc offset (drop offset children) 0 k)"

text \<open>\<open>create\<close>, \<open>link\<close>, \<open>unlink\<close> and \<open>rename\<close> are refused.\<close>

definition simple_dir_change :: "unit outcome" where
  "simple_dir_change = Fail OperationNotPermitted"

end
