(* ===== verification/Vfs_Props.thy ===== *)
theory Vfs_Props
  imports Vfs Fs_Ctl_Props
begin

section \<open>Properties of pseudo file systems\<close>

text \<open>
  A file over operations that read and replace the whole content behaves like an array of bytes; a directory lists its
  entries in order, and the names it lists are the names it finds.
\<close>

subsection \<open>Files\<close>

text \<open>The contract of the operations: they read and replace the content \<open>content s\<close>.\<close>

definition keeps_content :: "'s simple_file_ops \<Rightarrow> ('s \<Rightarrow> u8 list) \<Rightarrow> bool" where
  "keeps_content ops content \<longleftrightarrow>
     (\<forall>s. sm_read_all ops s = (s, Ok (content s)))
     \<and> (\<forall>bs s. \<exists>s'. sm_write_all ops bs s = (s', Ok ()) \<and> content s' = bs)"

text \<open>The specification: an array of bytes, described position by position.\<close>

datatype file_call = File_read nat nat | File_write "u8 list" nat | File_append "u8 list" | File_set_len nat | File_len

datatype file_result = Res_bytes "u8 list" | Res_count nat | Res_append nat nat | Res_done

definition byte_of :: "u8 list \<Rightarrow> nat \<Rightarrow> u8" where
  "byte_of data i = (if i < length data then data ! i else 0)"

fun file_spec :: "file_call \<Rightarrow> u8 list \<Rightarrow> u8 list \<times> file_result" where
  "file_spec (File_read n off) data = (data, Res_bytes (map (byte_of data) [off..<min (off + n) (length data)]))"
| "file_spec (File_write buf off) data =
     (map (\<lambda>i. if off \<le> i \<and> i < off + length buf then buf ! (i - off) else byte_of data i)
        [0..<max (length data) (off + length buf)], Res_count (length buf))"
| "file_spec (File_append buf) data = (data @ buf, Res_append (length buf) (length data + length buf))"
| "file_spec (File_set_len n) data = (map (byte_of data) [0..<n], Res_done)"
| "file_spec File_len data = (data, Res_count (length data))"

fun file_exec :: "'s simple_file_ops \<Rightarrow> file_call \<Rightarrow> 's \<Rightarrow> 's \<times> file_result outcome" where
  "file_exec ops (File_read n off) s = map_res Res_bytes (simple_read_at ops n off s)"
| "file_exec ops (File_write buf off) s = map_res Res_count (simple_write_at ops buf off s)"
| "file_exec ops (File_append buf) s = map_res (\<lambda>(n, e). Res_append n e) (simple_append ops buf s)"
| "file_exec ops (File_set_len n) s = map_res (\<lambda>_. Res_done) (simple_set_len ops n s)"
| "file_exec ops File_len s = map_res Res_count (simple_len ops s)"

fun file_call_ok :: "file_call \<Rightarrow> bool" where
  "file_call_ok (File_write buf off) \<longleftrightarrow> off + length buf < 2 ^ 64"
| "file_call_ok _ \<longleftrightarrow> True"

fun run_spec :: "file_call list \<Rightarrow> u8 list \<Rightarrow> u8 list \<times> file_result list" where
  "run_spec [] data = (data, [])"
| "run_spec (c # cs) data = (let (d1, r) = file_spec c data; (d2, rs) = run_spec cs d1 in (d2, r # rs))"

fun run_file :: "'s simple_file_ops \<Rightarrow> file_call list \<Rightarrow> 's \<Rightarrow> 's \<times> file_result list outcome" where
  "run_file ops [] s = (s, Ok [])"
| "run_file ops (c # cs) s =
     try_do (file_exec ops c s) (\<lambda>r s1. map_res ((#) r) (run_file ops cs s1))"

lemma length_resize [simp]: "length (resize n bs) = n"
  by (simp add: resize_def)

lemma nth_resize: "i < n \<Longrightarrow> resize n bs ! i = byte_of bs i"
  by (simp add: resize_def byte_of_def nth_append)

lemma resize_spec: "resize n data = map (byte_of data) [0..<n]"
  by (rule nth_equalityI) (simp_all add: nth_resize)

lemma overwrite_spec:
  assumes "off + length buf \<le> length data"
  shows "take off data @ buf @ drop (off + length buf) data =
    map (\<lambda>i. if off \<le> i \<and> i < off + length buf then buf ! (i - off) else byte_of data i) [0..<length data]"
  using assms by (intro nth_equalityI) (auto simp: nth_append byte_of_def)

lemma byte_of_resize: "length bs \<le> n \<Longrightarrow> byte_of (resize n bs) i = byte_of bs i"
  by (auto simp: byte_of_def nth_resize)

lemma file_exec_refines:
  assumes "keeps_content ops content" and "file_call_ok c"
  shows "\<exists>s'. file_exec ops c s = (s', Ok (snd (file_spec c (content s)))) \<and> content s' = fst (file_spec c (content s))"
proof -
  have rd: "sm_read_all ops s = (s, Ok (content s))" for s using assms(1) by (simp add: keeps_content_def)
  have wr: "\<exists>s'. sm_write_all ops bs s = (s', Ok ()) \<and> content s' = bs" for bs s using assms(1) by (simp add: keeps_content_def)
  show ?thesis
  proof (cases c)
    case (File_read n off)
    have "take (min (length (drop off (content s))) n) (drop off (content s))
        = map (byte_of (content s)) [off..<min (off + n) (length (content s))]"
      by (rule nth_equalityI) (auto simp: byte_of_def)
    then show ?thesis by (auto simp: File_read simple_read_at_def rd map_res_def Let_def)
  next
    case (File_write buf off)
    let ?data = "content s" and ?e = "off + length buf"
    have e: "uadd off (length buf) = ?e" using assms(2) by (simp add: File_write uadd_def)
    define data1 where "data1 = (if ?e > length ?data then resize ?e ?data else ?data)"
    have len: "length data1 = max (length ?data) ?e" by (simp add: data1_def)
    have same: "byte_of data1 = byte_of ?data" by (rule ext) (simp add: data1_def byte_of_resize)
    let ?new = "fst (file_spec (File_write buf off) ?data)"
    have "take off data1 @ buf @ drop ?e data1 = ?new"
      using overwrite_spec [of off buf data1] by (simp add: len same)
    moreover have "buf = ?new" if "off = 0" "length ?data \<le> length buf"
      using that by (intro nth_equalityI) (auto simp: byte_of_def)
    moreover obtain s' where "sm_write_all ops ?new s = (s', Ok ())" "content s' = ?new" using wr by blast
    ultimately show ?thesis
      by (cases "off = 0 \<and> length ?data \<le> length buf")
        (auto simp: File_write simple_write_at_def rd map_res_def Let_def e len data1_def [symmetric])
  next
    case (File_append buf)
    obtain s' where "sm_write_all ops (content s @ buf) s = (s', Ok ())" "content s' = content s @ buf" using wr by blast
    then show ?thesis by (simp add: File_append simple_append_def rd map_res_def)
  next
    case (File_set_len n)
    have "take n (content s) = map (byte_of (content s)) [0..<n]" if "n < length (content s)"
      using that by (intro nth_equalityI) (auto simp: byte_of_def)
    moreover have "content s = map (byte_of (content s)) [0..<length (content s)]"
      by (rule nth_equalityI) (auto simp: byte_of_def)
    moreover obtain s' where "sm_write_all ops (map (byte_of (content s)) [0..<n]) s = (s', Ok ())"
        "content s' = map (byte_of (content s)) [0..<n]" using wr by blast
    ultimately show ?thesis
      by (cases n "length (content s)" rule: linorder_cases)
        (auto simp: File_set_len simple_set_len_def rd map_res_def resize_spec)
  next
    case File_len
    then show ?thesis by (simp add: simple_len_def rd map_res_def)
  qed
qed


text \<open>A file over a cell of memory.\<close>

definition cell_file :: "u8 list simple_file_ops" where
  "cell_file = rw_file (\<lambda>operation s. case operation of Op_read \<Rightarrow> (s, Ok (Some s)) | Op_write bs \<Rightarrow> (bs, Ok None))"

lemma cell_file_keeps: "keeps_content cell_file id"
  by (simp add: keeps_content_def cell_file_def rw_file_def map_res_def)


subsection \<open>Directories\<close>

definition simple_listing :: "'s simple_dir_ops \<Rightarrow> (string \<Rightarrow> 's \<Rightarrow> metadata outcome) \<Rightarrow> 's \<Rightarrow> dir_item list" where
  "simple_listing dir meta s =
     map (\<lambda>name. case meta name s of Inr md \<Rightarrow> (name, me_inode md, me_node_type md) | Inl _ \<Rightarrow> (name, 0, Directory))
       ([''.'', ''..''] @ sd_child_names dir s)"

lemma simple_read_dir_loop_offer:
  assumes "\<forall>name \<in> set names. \<not> isl (meta name)"
  shows "simple_read_dir_loop meta acc i names c k =
    map_prod id (\<lambda>n. Ok (c + n))
      (offer acc i (map (\<lambda>name. case meta name of Inr md \<Rightarrow> (name, me_inode md, me_node_type md) | Inl _ \<Rightarrow> (name, 0, Directory)) names) k)"
  using assms
proof (induction names arbitrary: i c k)
  case (Cons name names)
  obtain md where md: "meta name = Inr md" using Cons.prems by (cases "meta name") auto
  obtain k1 b where a: "acc name (me_inode md) (me_node_type md) (i + 1) k = (k1, b)" by fastforce
  show ?case using Cons.prems Cons.IH [of "i + 1" "c + 1" k1] a
    by (cases b) (simp_all add: md map_prod_def split_beta)
qed simp

lemma simple_read_dir_lists:
  assumes "\<forall>name \<in> set ([''.'', ''..''] @ sd_child_names dir s). \<not> isl (meta name s)"
  shows "read_dir_lists (\<lambda>off acc k. simple_read_dir dir True meta off acc k s) (simple_listing dir meta s)"
  unfolding read_dir_lists_def
proof (intro allI)
  fix off acc k
  define names where "names = [''.'', ''..''] @ sd_child_names dir s"
  have ok: "\<forall>name \<in> set (drop off names). \<not> isl (meta name s)"
    using assms unfolding names_def [symmetric] by (meson in_set_dropD)
  have rd: "simple_read_dir dir True meta off acc k s = simple_read_dir_loop (\<lambda>name. meta name s) acc off (drop off names) 0 k"
    by (simp add: simple_read_dir_def names_def Let_def del: append.simps drop_append)
  show "simple_read_dir dir True meta off acc k s = map_prod id Ok (offer acc off (drop off (simple_listing dir meta s)) k)"
    unfolding rd simple_read_dir_loop_offer [OF ok] simple_listing_def names_def [symmetric] drop_map by simp
qed

text \<open>The names a directory lists are the names it finds, and chaining keeps this.\<close>

definition finds_listed :: "'s simple_dir_ops \<Rightarrow> 's \<Rightarrow> bool" where
  "finds_listed dir s \<longleftrightarrow>
     (\<forall>name. if name \<in> set (sd_child_names dir s) then \<not> isl (sd_lookup_child dir name s)
             else sd_lookup_child dir name s = Fail NotFound)"

lemma dir_mapping_finds: "finds_listed (dir_mapping d) s"
proof -
  have keys: "name \<in> set (bt_keys d) \<longleftrightarrow> map_of d name \<noteq> None" for name
    by (simp add: bt_keys_def map_of_eq_None_iff)
  show ?thesis
    unfolding finds_listed_def
    by (auto simp: dir_mapping_def bt_get_def ok_or_def keys split: option.splits)
qed

lemma chained_dir_finds:
  assumes "finds_listed a s" and "finds_listed b s"
  shows "finds_listed (chained_dir a b) s"
  unfolding finds_listed_def
proof
  fix name
  note at = assms [unfolded finds_listed_def, THEN spec [of _ name]]
  from at show "if name \<in> set (sd_child_names (chained_dir a b) s) then \<not> isl (sd_lookup_child (chained_dir a b) name s)
      else sd_lookup_child (chained_dir a b) name s = Fail NotFound"
    by (cases "sd_lookup_child a name s") (auto simp: chained_dir_def split: if_splits)
qed

lemma chained_dir_first:
  "sd_lookup_child a name s = Ok m \<Longrightarrow> sd_lookup_child (chained_dir a b) name s = Ok m"
  by (simp add: chained_dir_def)

subsection \<open>Nodes\<close>

lemma simple_node_drop_after_new:
  assumes "vacant \<notin> set (sv_inodes fs)" and "simple_node_new vacant ty mode fs = (fs1, md)"
  shows "simple_node_drop (simple_update_metadata u md) fs1 = (fs, Ok ())"
  using assms
  by (cases fs) (auto simp: simple_node_drop_def simple_node_new_def alloc_inode_def simple_release_inode_def
    simple_update_metadata_def Let_def split: option.splits)

text \<open>The size reported for a file does not depend on what it holds.\<close>

lemma simple_node_size: "me_size (simple_node_metadata md) = 0"
  by (simp add: simple_node_metadata_def)

end
