(* ===== verification/Devices.thy ===== *)
theory Devices
  imports Vfs Event_Fd Select
begin

section \<open>Device nodes\<close>

text \<open>
  \<open>core/src/vfs/dev.rs\<close> and \<open>api/src/vfs/dev\<close>: the node of a device, the memory devices, loop devices, the frame buffer,
  the clock, input devices and the directory they are in. A read returns the bytes it puts at the front of the buffer.
\<close>

record 's device_ops =
  dv_read_at :: "nat \<Rightarrow> nat \<Rightarrow> 's \<Rightarrow> 's \<times> u8 list outcome"
  dv_write_at :: "u8 list \<Rightarrow> nat \<Rightarrow> 's \<Rightarrow> 's \<times> nat outcome"
  dv_ioctl :: "u32 \<Rightarrow> usize \<Rightarrow> 's \<Rightarrow> 's \<times> nat outcome"
  dv_poll :: "('s \<Rightarrow> 's \<times> u32) option"

definition no_ioctl :: "u32 \<Rightarrow> usize \<Rightarrow> 's \<Rightarrow> 's \<times> nat outcome" where
  "no_ioctl cmd arg s = (s, Fail NotATty)"

subsection \<open>The node\<close>

definition device_append :: "u8 list \<Rightarrow> 's \<Rightarrow> 's \<times> (nat \<times> nat) outcome" where
  "device_append buf s = (s, Fail NotATty)"

text \<open>\<open>set_len\<close> tries an empty write to see whether the device can be written.\<close>

definition device_set_len :: "'s device_ops \<Rightarrow> nat \<Rightarrow> 's \<Rightarrow> 's \<times> unit outcome" where
  "device_set_len ops len s =
     (case dv_write_at ops [] 0 s of
        (s1, Inr _) \<Rightarrow> (s1, Ok ())
      | (s1, Inl e) \<Rightarrow> (s1, if e = Panic then Panicked else Fail BadFileDescriptor))"

definition device_poll :: "'s device_ops \<Rightarrow> 's \<Rightarrow> 's \<times> u32" where
  "device_poll ops s = (case dv_poll ops of Some p \<Rightarrow> p s | None \<Rightarrow> (s, EV_IN OR EV_OUT))"

subsection \<open>Memory devices\<close>

definition dev_null :: "'s device_ops" where
  "dev_null = \<lparr>dv_read_at = (\<lambda>n off s. (s, Ok [])), dv_write_at = (\<lambda>buf off s. (s, Ok (length buf))),
     dv_ioctl = no_ioctl, dv_poll = None\<rparr>"

definition dev_zero :: "'s device_ops" where
  "dev_zero = \<lparr>dv_read_at = (\<lambda>n off s. (s, Ok (replicate n 0))), dv_write_at = (\<lambda>buf off s. (s, Ok (length buf))),
     dv_ioctl = no_ioctl, dv_poll = None\<rparr>"

text \<open>The generator belongs to the crate \<open>rand\<close>; its state is \<open>'r\<close>.\<close>

definition dev_random :: "(nat \<Rightarrow> 'r \<Rightarrow> 'r \<times> u8 list) \<Rightarrow> 'r device_ops" where
  "dev_random fill_bytes =
     \<lparr>dv_read_at = (\<lambda>n off r. map_prod id Ok (fill_bytes n r)), dv_write_at = (\<lambda>buf off s. (s, Ok (length buf))),
      dv_ioctl = no_ioctl, dv_poll = None\<rparr>"

definition dev_full :: "'s device_ops" where
  "dev_full = \<lparr>dv_read_at = (\<lambda>n off s. (s, Ok (replicate n 0))), dv_write_at = (\<lambda>buf off s. (s, Fail StorageFull)),
     dv_ioctl = no_ioctl, dv_poll = None\<rparr>"

definition dev_cpu_dma_latency :: "'s device_ops" where
  "dev_cpu_dma_latency = \<lparr>dv_read_at = (\<lambda>n off s. (s, Fail InvalidInput)), dv_write_at = (\<lambda>buf off s. (s, Ok (length buf))),
     dv_ioctl = no_ioctl, dv_poll = None\<rparr>"

subsection \<open>Loop devices\<close>

record loop_device =
  lp_number :: u32
  lp_dev_id :: nat
  lp_file :: "nat option"
  lp_ro :: bool
  lp_ra :: u32

record loop_info =
  li_number :: u32
  li_rdevice :: nat

text \<open>
  What the device uses of the rest of the system: descriptors (\<open>le_backend\<close> is the lookup of the descriptor, the cast to a
  regular file, \<open>InvalidInput\<close> when it is not one, and \<open>backend()\<close>), the backing files and user memory.
\<close>

record ('f, 'm) loop_env =
  le_file_like :: "i32 \<Rightarrow> 'f \<Rightarrow> nat outcome"
  le_is_file :: "nat \<Rightarrow> bool"
  le_backend :: "nat \<Rightarrow> 'f \<Rightarrow> nat outcome"
  le_len :: "nat \<Rightarrow> 'f \<Rightarrow> nat outcome"
  le_read_at :: "nat \<Rightarrow> nat \<Rightarrow> nat \<Rightarrow> 'f \<Rightarrow> 'f \<times> u8 list outcome"
  le_write_at :: "nat \<Rightarrow> u8 list \<Rightarrow> nat \<Rightarrow> 'f \<Rightarrow> 'f \<times> nat outcome"
  le_put_info :: "addr \<Rightarrow> loop_info \<Rightarrow> 'm \<Rightarrow> 'm \<times> unit outcome"
  le_get_info :: "addr \<Rightarrow> 'm \<Rightarrow> loop_info outcome"
  le_put_u32 :: "addr \<Rightarrow> u32 \<Rightarrow> 'm \<Rightarrow> 'm \<times> unit outcome"
  le_put_u64 :: "addr \<Rightarrow> nat \<Rightarrow> 'm \<Rightarrow> 'm \<times> unit outcome"
  le_get_u32 :: "addr \<Rightarrow> 'm \<Rightarrow> u32 outcome"

record ('f, 'm) loop_world =
  lw_dev :: loop_device
  lw_files :: 'f
  lw_mem :: 'm

definition loop_new :: "u32 \<Rightarrow> nat \<Rightarrow> loop_device" where
  "loop_new number dev_id = \<lparr>lp_number = number, lp_dev_id = dev_id, lp_file = None, lp_ro = False, lp_ra = 512\<rparr>"

definition loop_get_info :: "loop_device \<Rightarrow> loop_info outcome" where
  "loop_get_info d =
     (if lp_file d = None then Fail (LinuxErr ENXIO) else Ok \<lparr>li_number = lp_number d, li_rdevice = lp_dev_id d\<rparr>)"

definition clone_file :: "loop_device \<Rightarrow> nat outcome" where
  "clone_file d = ok_or (lp_file d) (LinuxErr ENXIO)"

definition loop_read_at ::
    "('f, 'm) loop_env \<Rightarrow> nat \<Rightarrow> nat \<Rightarrow> ('f, 'm) loop_world \<Rightarrow> ('f, 'm) loop_world \<times> u8 list outcome" where
  "loop_read_at env n offset w =
     try_get (ok_or (lp_file (lw_dev w)) OperationNotPermitted) w (\<lambda>f.
       (let (fs, r) = le_read_at env f n offset (lw_files w) in (w\<lparr>lw_files := fs\<rparr>, r)))"

definition loop_write_at ::
    "('f, 'm) loop_env \<Rightarrow> u8 list \<Rightarrow> nat \<Rightarrow> ('f, 'm) loop_world \<Rightarrow> ('f, 'm) loop_world \<times> nat outcome" where
  "loop_write_at env buf offset w =
     (if lp_ro (lw_dev w) then (w, Fail ReadOnlyFilesystem)
      else try_get (ok_or (lp_file (lw_dev w)) OperationNotPermitted) w (\<lambda>f.
        (let (fs, r) = le_write_at env f buf offset (lw_files w) in (w\<lparr>lw_files := fs\<rparr>, r))))"

definition LOOP_SET_FD :: u32 where "LOOP_SET_FD = 0x4C00"
definition LOOP_CLR_FD :: u32 where "LOOP_CLR_FD = 0x4C01"
definition LOOP_SET_STATUS :: u32 where "LOOP_SET_STATUS = 0x4C02"
definition LOOP_GET_STATUS :: u32 where "LOOP_GET_STATUS = 0x4C03"
definition BLKROSET :: u32 where "BLKROSET = 0x125D"
definition BLKROGET :: u32 where "BLKROGET = 0x125E"
definition BLKGETSIZE :: u32 where "BLKGETSIZE = 0x1260"
definition BLKRASET :: u32 where "BLKRASET = 0x1262"
definition BLKRAGET :: u32 where "BLKRAGET = 0x1263"
definition BLKGETSIZE64 :: u32 where "BLKGETSIZE64 = 0x80081272"

definition loop_put :: "('m \<Rightarrow> 'm \<times> unit outcome) \<Rightarrow> ('f, 'm) loop_world \<Rightarrow> ('f, 'm) loop_world \<times> nat outcome" where
  "loop_put f w = (let (m, r) = f (lw_mem w) in (w\<lparr>lw_mem := m\<rparr>, map_sum id (\<lambda>_. 0) r))"

definition loop_set_fd ::
    "('f, 'm) loop_env \<Rightarrow> i32 \<Rightarrow> ('f, 'm) loop_world \<Rightarrow> ('f, 'm) loop_world \<times> nat outcome" where
  "loop_set_fd env fd w =
     (if fd < 0 then (w, Fail BadFileDescriptor)
      else try_get (le_file_like env fd (lw_files w)) w (\<lambda>f.
        if \<not> le_is_file env f then (w, Fail InvalidInput)
        else if lp_file (lw_dev w) \<noteq> None then (w, Fail ResourceBusy)
        else try_get (le_backend env f (lw_files w)) w (\<lambda>b.
          (w\<lparr>lw_dev := (lw_dev w)\<lparr>lp_file := Some b\<rparr>\<rparr>, Ok 0))))"

definition loop_ioctl ::
    "('f, 'm) loop_env \<Rightarrow> u32 \<Rightarrow> usize \<Rightarrow> ('f, 'm) loop_world \<Rightarrow> ('f, 'm) loop_world \<times> nat outcome" where
  "loop_ioctl env cmd arg w =
     (let d = lw_dev w in
      if cmd = LOOP_SET_FD then loop_set_fd env (wrap_i32 (int arg)) w
      else if cmd = LOOP_CLR_FD then
        (if lp_file d = None then (w, Fail (LinuxErr ENXIO)) else (w\<lparr>lw_dev := d\<lparr>lp_file := None\<rparr>\<rparr>, Ok 0))
      else if cmd = LOOP_GET_STATUS then try_get (loop_get_info d) w (\<lambda>info. loop_put (le_put_info env arg info) w)
      else if cmd = LOOP_SET_STATUS then try_get (le_get_info env arg (lw_mem w)) w (\<lambda>_. (w, Ok 0))
      else if cmd = BLKGETSIZE \<or> cmd = BLKGETSIZE64 then
        try_get (clone_file d) w (\<lambda>f. try_get (le_len env f (lw_files w)) w (\<lambda>len.
          (let sectors = len div 512 in
           if cmd = BLKGETSIZE then loop_put (le_put_u32 env arg (word_of_nat sectors)) w
           else loop_put (le_put_u64 env arg (sectors * 512)) w)))
      else if cmd = BLKROGET then loop_put (le_put_u32 env arg (of_bool (lp_ro d))) w
      else if cmd = BLKROSET then
        try_get (le_get_u32 env arg (lw_mem w)) w (\<lambda>ro.
          if ro \<noteq> 0 \<and> ro \<noteq> 1 then (w, Fail InvalidInput) else (w\<lparr>lw_dev := d\<lparr>lp_ro := ro \<noteq> 0\<rparr>\<rparr>, Ok 0))
      else if cmd = BLKRAGET then loop_put (le_put_u32 env arg (lp_ra d)) w
      else if cmd = BLKRASET then
        try_get (le_get_u32 env arg (lw_mem w)) w (\<lambda>ra. (w\<lparr>lw_dev := d\<lparr>lp_ra := ra\<rparr>\<rparr>, Ok 0))
      else (w, Fail NotATty))"

subsection \<open>Frame buffer\<close>

text \<open>The memory of the frame buffer is the list of its bytes.\<close>

definition fb_read_at :: "nat \<Rightarrow> nat \<Rightarrow> u8 list \<Rightarrow> u8 list \<times> u8 list outcome" where
  "fb_read_at n offset fb = (let len = min n (length fb - offset) in (fb, Ok (take len fb)))"

definition fb_write_at :: "u8 list \<Rightarrow> nat \<Rightarrow> u8 list \<Rightarrow> u8 list \<times> nat outcome" where
  "fb_write_at buf offset fb =
     (if offset \<ge> length fb then (fb, Fail StorageFull)
      else (let len = min (length buf) (length fb - offset) in (take len buf @ drop len fb, Ok len)))"

subsection \<open>Input devices\<close>

text \<open>
  \<open>Inner\<close> of \<open>event.rs\<close>. The device and the clock are the state \<open>'d\<close>; the bitmap of pressed keys is \<open>'k\<close>. An event has a
  type, a code and a value.
\<close>

record raw_event =
  re_type :: nat
  re_code :: nat
  re_value :: nat

datatype dev_result = Dev_event raw_event | Dev_again | Dev_error

record ('d, 'k) input_env =
  ie_read_event :: "'d \<Rightarrow> 'd \<times> dev_result"
  ie_wall_time :: "'d \<Rightarrow> 'd \<times> time_value"
  ie_set_key :: "nat \<Rightarrow> bool \<Rightarrow> 'k \<Rightarrow> 'k"

record ('d, 'k) event_inner =
  ei_device :: 'd
  ei_read_ahead :: "(time_value \<times> raw_event) option"
  ei_key_state :: 'k

definition EV_KEY :: nat where "EV_KEY = 1"
definition INPUT_EVENT_SIZE :: nat where "INPUT_EVENT_SIZE = 24"

definition note_key :: "('d, 'k) input_env \<Rightarrow> raw_event \<Rightarrow> 'k \<Rightarrow> 'k" where
  "note_key env e k =
     (if re_type e = EV_KEY then
        (if re_value e = 0 then ie_set_key env (re_code e) False k
         else if re_value e = 1 then ie_set_key env (re_code e) True k else k)
      else k)"

definition has_event :: "('d, 'k) input_env \<Rightarrow> ('d, 'k) event_inner \<Rightarrow> ('d, 'k) event_inner \<times> bool" where
  "has_event env ei =
     (case ei_read_ahead ei of
        Some _ \<Rightarrow> (ei, True)
      | None \<Rightarrow>
          (case ie_read_event env (ei_device ei) of
             (d, Dev_event e) \<Rightarrow>
               (let (d1, t) = ie_wall_time env d in
                (ei\<lparr>ei_device := d1, ei_key_state := note_key env e (ei_key_state ei), ei_read_ahead := Some (t, e)\<rparr>, True))
           | (d, _) \<Rightarrow> (ei\<lparr>ei_device := d\<rparr>, False)))"

definition input_event_bytes :: "time_value \<Rightarrow> raw_event \<Rightarrow> u8 list" where
  "input_event_bytes t e =
     le_bytes 8 (as_secs t) @ le_bytes 8 (subsec_micros t) @ le_bytes 2 (re_type e) @ le_bytes 2 (re_code e)
       @ le_bytes 4 (re_value e)"

fun event_read_loop ::
    "('d, 'k) input_env \<Rightarrow> nat \<Rightarrow> u8 list \<Rightarrow> ('d, 'k) event_inner \<Rightarrow> ('d, 'k) event_inner \<times> u8 list" where
  "event_read_loop env 0 out ei = (ei, out)"
| "event_read_loop env (Suc n) out ei =
     (case has_event env ei of
        (ei1, False) \<Rightarrow> (ei1, out)
      | (ei1, True) \<Rightarrow>
          (case ei_read_ahead ei1 of
             None \<Rightarrow> (ei1, out)
           | Some (t, e) \<Rightarrow> event_read_loop env n (out @ input_event_bytes t e) (ei1\<lparr>ei_read_ahead := None\<rparr>)))"

definition event_read_at ::
    "('d, 'k) input_env \<Rightarrow> nat \<Rightarrow> ('d, 'k) event_inner \<Rightarrow> ('d, 'k) event_inner \<times> u8 list outcome" where
  "event_read_at env n ei =
     (if n = 0 then (ei, Ok [])
      else if n < INPUT_EVENT_SIZE then (ei, Fail InvalidInput)
      else case event_read_loop env (n div INPUT_EVENT_SIZE) [] ei of
        (ei1, out) \<Rightarrow> (ei1, if out = [] then Fail WouldBlock else Ok out))"

definition event_poll :: "('d, 'k) input_env \<Rightarrow> ('d, 'k) event_inner \<Rightarrow> ('d, 'k) event_inner \<times> u32" where
  "event_poll env ei = (let (ei1, b) = has_event env ei in (ei1, if b then EV_IN else 0))"

definition copy_bytes :: "u8 list \<Rightarrow> nat \<Rightarrow> u8 list" where
  "copy_bytes src n = take (min (length src) n) src"

subsection \<open>The directory of devices\<close>

text \<open>
  \<open>builder\<close>: the entries in the order in which they are added. A node has its type and its device number; what is behind
  it is one of the devices above or, for terminals and the log, another component.
\<close>

datatype dev_entry = Dev_node node_type nat nat | Dev_dir | Dev_file node_type

fun decimal :: "nat \<Rightarrow> string" where
  "decimal n = (if n < 10 then [char_of (48 + n)] else decimal (n div 10) @ [char_of (48 + n mod 10)])"

declare decimal.simps [simp del]

record dev_features =
  df_display :: bool
  df_log :: bool
  df_memtrack :: bool
  df_input :: bool

definition devfs_entries :: "dev_features \<Rightarrow> (string \<times> dev_entry) list" where
  "devfs_entries feat =
     [(''null'', Dev_node CharacterDevice 1 3), (''zero'', Dev_node CharacterDevice 1 5), (''full'', Dev_node CharacterDevice 1 7),
      (''random'', Dev_node CharacterDevice 1 8), (''urandom'', Dev_node CharacterDevice 1 9), (''rtc0'', Dev_node CharacterDevice 250 0)]
     @ (if df_display feat then [(''fb0'', Dev_node CharacterDevice 29 0)] else [])
     @ [(''tty'', Dev_node CharacterDevice 5 0), (''console'', Dev_node CharacterDevice 5 1), (''ptmx'', Dev_node CharacterDevice 5 2),
        (''pts'', Dev_dir)]
     @ (if df_log feat then [(''log'', Dev_file Socket)] else [])
     @ (if df_memtrack feat then [(''memtrack'', Dev_node CharacterDevice 114 514)] else [])
     @ [(''cpu_dma_latency'', Dev_node CharacterDevice 10 1024), (''shm'', Dev_dir)]
     @ map (\<lambda>i. (''loop'' @ decimal i, Dev_node BlockDevice 7 0)) [0..<16]
     @ (if df_input feat then [(''input'', Dev_dir)] else [])"

definition devfs_root :: "dev_features \<Rightarrow> (string, dev_entry) btree" where
  "devfs_root feat = fold (\<lambda>(name, e) d. bt_insert name e d) (devfs_entries feat) []"

end
