(* ===== verification/Devices_Props.thy ===== *)
theory Devices_Props
  imports Devices
begin

section \<open>Properties of devices\<close>

text \<open>
  An input device delivers the events of the hardware once and in order, however reads and polls are mixed; the attachment
  of loop devices; the frame buffer and the device numbers.
\<close>

subsection \<open>Input devices\<close>

text \<open>
  What the driver promises: \<open>pending d\<close> are the events it has; a read takes the first one or leaves them alone, looking
  at the clock changes nothing, and a new event goes to the end.
\<close>

definition input_ok :: "('d, 'k) input_env \<Rightarrow> ('d \<Rightarrow> raw_event list) \<Rightarrow> (raw_event \<Rightarrow> 'd \<Rightarrow> 'd) \<Rightarrow> bool" where
  "input_ok env pending arrive \<longleftrightarrow>
     (\<forall>d d' e. ie_read_event env d = (d', Dev_event e) \<longrightarrow> pending d = e # pending d')
     \<and> (\<forall>d d' r. ie_read_event env d = (d', r) \<and> (r = Dev_again \<or> r = Dev_error) \<longrightarrow> pending d' = pending d)
     \<and> (\<forall>d. pending (fst (ie_wall_time env d)) = pending d)
     \<and> (\<forall>e d. pending (arrive e d) = pending d @ [e])"

definition raw_event_ok :: "raw_event \<Rightarrow> bool" where
  "raw_event_ok e \<longleftrightarrow> re_type e < 2 ^ 16 \<and> re_code e < 2 ^ 16 \<and> re_value e < 2 ^ 32"

text \<open>How a reader takes the records apart.\<close>

fun decode_events :: "u8 list \<Rightarrow> raw_event list" where
  "decode_events bs =
     (if length bs < 24 then []
      else \<lparr>re_type = le_value (take 2 (drop 16 bs)), re_code = le_value (take 2 (drop 18 bs)),
             re_value = le_value (take 4 (drop 20 bs))\<rparr> # decode_events (drop 24 bs))"

declare decode_events.simps [simp del]

lemma decode_Nil [simp]: "decode_events [] = []"
  by (simp add: decode_events.simps)

lemma length_input_event_bytes [simp]: "length (input_event_bytes t e) = 24"
  by (simp add: input_event_bytes_def)

lemma decode_input_event: "raw_event_ok e \<Longrightarrow> decode_events (input_event_bytes t e @ bs) = e # decode_events bs"
  by (subst decode_events.simps) (simp add: input_event_bytes_def raw_event_ok_def le_value_bytes)

text \<open>The events the device still has to deliver.\<close>

definition event_queue :: "('d \<Rightarrow> raw_event list) \<Rightarrow> ('d, 'k) event_inner \<Rightarrow> raw_event list" where
  "event_queue pending ei = (case ei_read_ahead ei of None \<Rightarrow> [] | Some (t, e) \<Rightarrow> [e]) @ pending (ei_device ei)"

lemma has_event_queue:
  assumes "input_ok env pending arrive" and "has_event env ei = (ei1, b)"
  shows "event_queue pending ei1 = event_queue pending ei" and "b = (ei_read_ahead ei1 \<noteq> None)"
proof -
  have rd: "\<And>d d' e. ie_read_event env d = (d', Dev_event e) \<Longrightarrow> pending d = e # pending d'"
      "\<And>d d'. ie_read_event env d = (d', Dev_again) \<Longrightarrow> pending d' = pending d"
      "\<And>d d'. ie_read_event env d = (d', Dev_error) \<Longrightarrow> pending d' = pending d"
      "\<And>d. pending (fst (ie_wall_time env d)) = pending d"
    using assms(1) unfolding input_ok_def by blast+
  have "event_queue pending ei1 = event_queue pending ei \<and> b = (ei_read_ahead ei1 \<noteq> None)"
  proof (cases "ei_read_ahead ei")
    case None
    obtain d r where r: "ie_read_event env (ei_device ei) = (d, r)" by fastforce
    obtain d1 t where t: "ie_wall_time env d = (d1, t)" by fastforce
    show ?thesis
    proof (cases r)
      case (Dev_event e)
      have "pending (ei_device ei) = e # pending d1" using rd(1) [of "ei_device ei" d e] rd(4) [of d] r t Dev_event by simp
      then show ?thesis using assms(2) None r t Dev_event by (auto simp: has_event_def event_queue_def Let_def)
    next
      case Dev_again
      then show ?thesis using assms(2) None r rd(2) [of "ei_device ei" d] by (auto simp: has_event_def event_queue_def)
    next
      case Dev_error
      then show ?thesis using assms(2) None r rd(3) [of "ei_device ei" d] by (auto simp: has_event_def event_queue_def)
    qed
  next
    case (Some a)
    then show ?thesis using assms(2) by (auto simp: has_event_def)
  qed
  then show "event_queue pending ei1 = event_queue pending ei" and "b = (ei_read_ahead ei1 \<noteq> None)" by simp_all
qed

lemma event_read_loop_delivers:
  assumes "input_ok env pending arrive" and "list_all raw_event_ok (event_queue pending ei)"
    and "event_read_loop env n out ei = (ei1, out1)"
  shows "\<exists>bs. out1 = out @ bs \<and> event_queue pending ei = decode_events bs @ event_queue pending ei1"
  using assms(2,3)
proof (induction n arbitrary: out ei)
  case 0
  then show ?case by simp
next
  case (Suc n)
  obtain ei2 b where h: "has_event env ei = (ei2, b)" by fastforce
  note q = has_event_queue [OF assms(1) h]
  show ?case
  proof (cases "ei_read_ahead ei2")
    case None
    then show ?thesis using Suc.prems q by (auto simp: h)
  next
    case (Some a)
    obtain t e where a: "a = (t, e)" by fastforce
    let ?ei = "ei2\<lparr>ei_read_ahead := None\<rparr>"
    have qe: "event_queue pending ei = e # event_queue pending ?ei"
      using q(1) Some a by (simp add: event_queue_def)
    have "event_read_loop env n (out @ input_event_bytes t e) ?ei = (ei1, out1)"
      using Suc.prems(2) q(2) Some a by (simp add: h)
    from Suc.IH [OF _ this] Suc.prems(1) qe obtain bs where
      "out1 = out @ input_event_bytes t e @ bs" "event_queue pending ?ei = decode_events bs @ event_queue pending ei1"
      by auto
    then show ?thesis using qe Suc.prems(1)
      by (intro exI [of _ "input_event_bytes t e @ bs"]) (simp add: decode_input_event)
  qed
qed

datatype input_op = In_poll | In_read nat | In_arrive raw_event

text \<open>A sequence of operations, with the events in the bytes that the reads return.\<close>

fun input_run ::
    "('d, 'k) input_env \<Rightarrow> (raw_event \<Rightarrow> 'd \<Rightarrow> 'd) \<Rightarrow> input_op list \<Rightarrow> ('d, 'k) event_inner \<Rightarrow> ('d, 'k) event_inner \<times> raw_event list" where
  "input_run env arrive [] ei = (ei, [])"
| "input_run env arrive (In_poll # xs) ei = input_run env arrive xs (fst (event_poll env ei))"
| "input_run env arrive (In_read n # xs) ei =
     (case event_read_at env n ei of
        (ei1, r) \<Rightarrow> map_prod id (\<lambda>es. (case r of Inr bs \<Rightarrow> decode_events bs | Inl _ \<Rightarrow> []) @ es) (input_run env arrive xs ei1))"
| "input_run env arrive (In_arrive e # xs) ei = input_run env arrive xs (ei\<lparr>ei_device := arrive e (ei_device ei)\<rparr>)"

fun arrived :: "input_op list \<Rightarrow> raw_event list" where
  "arrived [] = []"
| "arrived (In_arrive e # xs) = e # arrived xs"
| "arrived (_ # xs) = arrived xs"

lemma event_read_at_delivers:
  assumes "input_ok env pending arrive" and "list_all raw_event_ok (event_queue pending ei)"
    and "event_read_at env n ei = (ei1, r)"
  shows "event_queue pending ei = (case r of Inr bs \<Rightarrow> decode_events bs | Inl _ \<Rightarrow> []) @ event_queue pending ei1"
proof -
  obtain ei2 out where l: "event_read_loop env (n div INPUT_EVENT_SIZE) [] ei = (ei2, out)" by fastforce
  from event_read_loop_delivers [OF assms(1,2) l] have "event_queue pending ei = decode_events out @ event_queue pending ei2"
    by simp
  then show ?thesis using assms(3) by (auto simp: event_read_at_def l split: if_splits)
qed

text \<open>
  C10: An input device loses, repeats and reorders nothing: whatever reads, polls and arrivals of events there are, the
  events read, then the one read ahead, then those still in the driver are the events at the start followed by the
  arrivals.
\<close>

theorem input_events_in_order:
  assumes "input_ok env pending arrive" and "list_all raw_event_ok (event_queue pending ei @ arrived xs)"
    and "input_run env arrive xs ei = (ei', es)"
  shows "es @ event_queue pending ei' = event_queue pending ei @ arrived xs"
  using assms(2,3)
proof (induction xs arbitrary: ei es)
  case Nil
  then show ?case by simp
next
  case (Cons x xs)
  show ?case
  proof (cases x)
    case In_poll
    obtain ei1 b where h: "has_event env ei = (ei1, b)" by fastforce
    note q = has_event_queue(1) [OF assms(1) h]
    have "input_run env arrive xs ei1 = (ei', es)" using Cons.prems(2) by (simp add: In_poll event_poll_def h Let_def)
    from Cons.IH [OF _ this] Cons.prems(1) q show ?thesis by (simp add: In_poll)
  next
    case (In_read n)
    obtain ei1 r where r: "event_read_at env n ei = (ei1, r)" by fastforce
    have d: "event_queue pending ei = (case r of Inr bs \<Rightarrow> decode_events bs | Inl _ \<Rightarrow> []) @ event_queue pending ei1"
      using Cons.prems(1) by (intro event_read_at_delivers [OF assms(1) _ r]) simp
    obtain es1 where run: "input_run env arrive xs ei1 = (ei', es1)"
        and es: "es = (case r of Inr bs \<Rightarrow> decode_events bs | Inl _ \<Rightarrow> []) @ es1"
      using Cons.prems(2) by (cases "input_run env arrive xs ei1") (auto simp: In_read r)
    from Cons.IH [OF _ run] Cons.prems(1) d es show ?thesis by (simp add: In_read)
  next
    case (In_arrive e)
    have "pending (arrive e d) = pending d @ [e]" for d using assms(1) by (simp add: input_ok_def)
    then have "event_queue pending (ei\<lparr>ei_device := arrive e (ei_device ei)\<rparr>) = event_queue pending ei @ [e]"
      by (simp add: event_queue_def)
    with Cons.IH [of "ei\<lparr>ei_device := arrive e (ei_device ei)\<rparr>" es] Cons.prems show ?thesis by (simp add: In_arrive)
  qed
qed

text \<open>A driver that is a list of events.\<close>

definition list_input :: "(raw_event list, nat \<Rightarrow> bool) input_env" where
  "list_input =
     \<lparr>ie_read_event = (\<lambda>d. case d of [] \<Rightarrow> ([], Dev_again) | e # es \<Rightarrow> (es, Dev_event e)), ie_wall_time = (\<lambda>d. (d, 0)),
      ie_set_key = (\<lambda>i b k. k(i := b))\<rparr>"

lemma list_input_ok: "input_ok list_input id (\<lambda>e d. d @ [e])"
  by (auto simp: input_ok_def list_input_def split: list.splits)

definition key_event :: "nat \<Rightarrow> nat \<Rightarrow> raw_event" where
  "key_event code value = \<lparr>re_type = EV_KEY, re_code = code, re_value = value\<rparr>"

theorem input_events_in_order_witness:
  "\<exists>ei. input_run list_input (\<lambda>e d. d @ [e])
      [In_arrive (key_event 30 1), In_poll, In_read 10, In_arrive (key_event 30 0), In_arrive (key_event 2 1), In_read 50]
      \<lparr>ei_device = [], ei_read_ahead = None, ei_key_state = (\<lambda>_. False)\<rparr> = (ei, [key_event 30 1, key_event 30 0])
    \<and> [key_event 30 1, key_event 30 0] @ event_queue id ei = [key_event 30 1, key_event 30 0, key_event 2 1]"
proof -
  let ?xs = "[In_arrive (key_event 30 1), In_poll, In_read 10, In_arrive (key_event 30 0), In_arrive (key_event 2 1), In_read 50]"
  let ?ei = "\<lparr>ei_device = [], ei_read_ahead = None, ei_key_state = (\<lambda>_ :: nat. False)\<rparr>"
  let ?r = "input_run list_input (\<lambda>e d. d @ [e]) ?xs ?ei"
  have dec: "decode_events (input_event_bytes t (key_event c v) @ bs) = key_event c v # decode_events bs"
    if "c < 100" "v < 100" for t c v bs
    using that by (intro decode_input_event) (simp add: raw_event_ok_def key_event_def EV_KEY_def)
  have dec1: "decode_events (input_event_bytes t (key_event 30 0)) = [key_event 30 0]" for t
    using dec [of 30 0 t "[]"] by simp
  have ne: "input_event_bytes t e \<noteq> []" for t e
    using length_input_event_bytes [of t e] by (metis list.size(3) zero_neq_numeral)
  have es: "snd ?r = [key_event 30 1, key_event 30 0]"
    by (simp add: list_input_def event_poll_def has_event_def event_read_at_def INPUT_EVENT_SIZE_def Let_def
      numeral_2_eq_2 dec dec1 ne del: One_nat_def)
  have ok: "list_all raw_event_ok (event_queue id ?ei @ arrived ?xs)"
    by (simp add: event_queue_def raw_event_ok_def key_event_def EV_KEY_def)
  have run: "?r = (fst ?r, [key_event 30 1, key_event 30 0])" using es by (metis prod.collapse)
  have "[key_event 30 1, key_event 30 0] @ event_queue id (fst ?r) = event_queue id ?ei @ arrived ?xs"
    by (rule input_events_in_order [OF list_input_ok ok run])
  also have "event_queue id ?ei @ arrived ?xs = [key_event 30 1, key_event 30 0, key_event 2 1]"
    by (simp add: event_queue_def)
  finally show ?thesis using run by (intro exI [of _ "fst ?r"] conjI)
qed

subsection \<open>Loop devices, frame buffer, device numbers\<close>

lemma loop_set_fd_attaches:
  assumes "loop_ioctl env LOOP_SET_FD arg w = (w', Ok n)"
  shows "lp_file (lw_dev w) = None \<and> (\<exists>b. w' = w\<lparr>lw_dev := (lw_dev w)\<lparr>lp_file := Some b\<rparr>\<rparr>)"
  using assms by (auto simp: loop_ioctl_def loop_set_fd_def try_get_def split: if_splits sum.splits)

text \<open>Detaching undoes attaching, and a device that is attached cannot be attached again.\<close>

lemma loop_attach_detach:
  assumes "loop_ioctl env LOOP_SET_FD arg w = (w', Ok n)"
  shows "loop_ioctl env LOOP_CLR_FD a w' = (w, Ok 0)"
    and "\<exists>e. loop_ioctl env LOOP_SET_FD arg w' = (w', Inl e)"
proof -
  from loop_set_fd_attaches [OF assms] obtain b where none: "lp_file (lw_dev w) = None"
      and w': "w' = w\<lparr>lw_dev := (lw_dev w)\<lparr>lp_file := Some b\<rparr>\<rparr>" by auto
  have "w\<lparr>lw_dev := (lw_dev w)\<lparr>lp_file := None\<rparr>\<rparr> = w" using none by (cases w, cases "lw_dev w") simp
  then show "loop_ioctl env LOOP_CLR_FD a w' = (w, Ok 0)"
    by (simp add: w' loop_ioctl_def LOOP_SET_FD_def LOOP_CLR_FD_def Let_def)
  show "\<exists>e. loop_ioctl env LOOP_SET_FD arg w' = (w', Inl e)"
    by (auto simp: w' loop_ioctl_def loop_set_fd_def try_get_def split: sum.splits)
qed

lemma loop_read_only_refuses:
  assumes "le_get_u32 env arg (lw_mem w) = Ok 1"
  shows "\<exists>w'. loop_ioctl env BLKROSET arg w = (w', Ok 0) \<and> loop_write_at env buf off w' = (w', Fail ReadOnlyFilesystem)"
  using assms
  by (simp add: loop_ioctl_def loop_write_at_def BLKROSET_def LOOP_SET_FD_def LOOP_CLR_FD_def LOOP_GET_STATUS_def
    LOOP_SET_STATUS_def BLKGETSIZE_def BLKGETSIZE64_def BLKROGET_def Let_def)

text \<open>A write to the frame buffer lands at its start, wherever it is asked for.\<close>

lemma fb_write_at_start:
  assumes "fb_write_at buf off fb = (fb', Ok n)"
  shows "take n fb' = take n buf" and "drop n fb' = drop n fb" and "n \<le> length fb - off"
  using assms by (auto simp: fb_write_at_def Let_def split: if_splits)

lemma loop_devices_share_number:
  "i < 16 \<Longrightarrow> (''loop'' @ decimal i, Dev_node BlockDevice 7 0) \<in> set (devfs_entries feat)"
  by (simp add: devfs_entries_def del: append.simps upt_Suc)

end
