(* ===== verification/Spec2Isabelle.thy ===== *)
theory Spec2Isabelle
  imports Msg_Theorems Shm_Theorems Epoll_Props Futex_Props Tty_Props Pipe_Props Event_Fd User_Io_Props Tmpfs_Props Mm_Props Timers_Props Fs_Io_Props Select_Props Proc_Props Fs_Ctl_Props Loader_Props Net_Props Vfs_Props Devices_Props
begin

text \<open>
  Verification of the StarryOS kernel: the Rust crates \<open>src/core\<close> (tasks, memory, futexes, shared memory, time) and
  \<open>src/api\<close> (the Linux system calls and the files behind descriptors).

  \<^bold>\<open>The program.\<close> A system call works on the state of the calling process (its descriptor table, address space,
  signal state), on tables shared by all processes (tasks, process groups, futexes, message queues, shared memory
  segments, alarms) and on user memory. Open files are objects with the methods of \<open>FileLike\<close>: regular files and
  directories, pipes, event counters, \<open>epoll\<close> instances, signal and process descriptors, sockets. A thread that ends
  (\<open>do_exit\<close>) goes through several of these parts: the robust futex list, shared memory, its parent, its tables.

  \<^bold>\<open>Conventions\<close> (theory \<open>Prelude\<close>). A routine that returns \<open>AxResult<T>\<close> is a function to \<open>'a outcome\<close>: \<open>Ok x\<close>,
  \<open>Fail e\<close>, or \<open>Panicked\<close> for a failed assertion, \<open>unwrap\<close> or index. The state comes back beside the outcome, so what an
  error path has already changed is visible; \<open>try_do\<close> and \<open>try_get\<close> are the operator \<open>?\<close>. \<open>usize\<close> is a natural number
  with \<open>uadd\<close>, \<open>usub\<close>, \<open>umul\<close> where the source can wrap; \<open>i32\<close> and \<open>i64\<close> are integers with \<open>wrap_i32\<close>, \<open>wrap_i64\<close>;
  flag sets are words. Code of other crates is a record of functions, an argument of the definitions; what the code
  relies on is a predicate on the record (\<open>flat_ok\<close>, \<open>ring_ok\<close>, \<open>mem_ok\<close>, ...), and for each there is a concrete
  instance for which it is proved. Code that runs with a lock held is one step. Where a call gives up the processor it is
  cut into the parts before and after, and what happens in between is an argument or a step of a transition system.

  \<^bold>\<open>Theories.\<close> For each part one theory has the definitions, and one or more have the lemmas and properties.

  \<^item> \<open>BTree\<close>, \<open>BiMap\<close>: ordered maps and the two-way map of \<open>core/src/shm.rs\<close>. The contracts are the locales \<open>kv_map\<close> and
    \<open>bi_map\<close>, interpreted as \<open>bt\<close> and \<open>bi\<close>; clients use only their facts. \<open>Utf8\<close>: what is used of \<open>str\<close>.
  \<^item> \<open>Ipc\<close>, \<open>Msg_Queue\<close>, \<open>Msg_Syscalls\<close> (\<open>api/src/syscall/ipc/mod.rs\<close>, \<open>msg.rs\<close>): \<open>MessageQueue\<close>, \<open>MsgManager\<close> and the four
    calls. \<open>Msg_Props\<close>, \<open>Msg_System\<close>, \<open>Msg_Theorems\<close>: the counters agree with the contents in every reachable state,
    messages of a type are first-in first-out (locale \<open>typed_fifo\<close>), what is sent is what is received.
  \<^item> \<open>Shm\<close> (\<open>core/src/shm.rs\<close>, \<open>api/src/syscall/ipc/shm.rs\<close>), \<open>Shm_Theorems\<close>: the two records of attachments agree,
    attaching and detaching cancel, an exited process has no attachments; a failed \<open>shmat\<close> makes exit panic.
  \<^item> \<open>Epoll\<close> (\<open>api/src/file/epoll.rs\<close>, \<open>io_mpx/epoll.rs\<close>), \<open>Epoll_Theorems\<close>, \<open>Epoll_Props\<close>: interests as a store with weak
    references, the transition system of an instance, no wakeup is lost, reported events are sound.
  \<^item> \<open>Futex\<close> (\<open>core/src/futex.rs\<close>, \<open>sync/futex.rs\<close>), \<open>Futex_Props\<close>: order of wakeups, a waiter is found through its key as
    long as the guard is dropped atomically, and the race that loses it otherwise.
  \<^item> \<open>Tty\<close> (\<open>api/src/terminal\<close>), \<open>Tty_Props\<close>: the input loop delivers what a reference line editor makes of the typed bytes.
  \<^item> \<open>Fd_Table\<close> (\<open>api/src/file/mod.rs\<close>, \<open>fs/fd_ops.rs\<close>), \<open>Fd_Props\<close>: sequences of calls refine a finite map.
  \<^item> \<open>Pipe\<close> (\<open>api/src/file/pipe.rs\<close>, \<open>fs/pipe.rs\<close>), \<open>Pipe_Props\<close>: a pipe is a bounded first-in first-out stream.
    \<open>Event_Fd\<close> (\<open>api/src/file/event.rs\<close>, \<open>fs/event.rs\<close>): the counter is what was written less what was read.
  \<^item> \<open>User_Io\<close> (\<open>api/src/mm.rs\<close>, \<open>api/src/io.rs\<close>), \<open>User_Io_Props\<close>: checked pointers, strings, vectored buffers.
  \<^item> \<open>Fs_Io\<close> (\<open>fs/io.rs\<close>), \<open>Fs_Io_Props\<close>: reading, writing, seeking; \<open>sendfile\<close> and its kin move a prefix of the source.
    \<open>Fs_Ctl\<close> (\<open>fs/ctl.rs\<close>, \<open>fs/stat.rs\<close>, \<open>api/src/file/fs.rs\<close>), \<open>Fs_Ctl_Props\<close>: paths, metadata, directories; repeated
    \<open>getdents64\<close> lists a directory once and in order. \<open>Tmpfs\<close> (\<open>api/src/vfs/tmp.rs\<close>), \<open>Tmpfs_Props\<close>: link counts and
    no dangling reference.
  \<^item> \<open>Select\<close> (\<open>io_mpx/poll.rs\<close>, \<open>select.rs\<close>), \<open>Select_Props\<close>: the reported descriptors are the ready ones.
  \<^item> \<open>Mm\<close> (\<open>api/src/syscall/mm\<close>), \<open>Mm_Props\<close>: the heap over any sequence of \<open>brk\<close>, \<open>mmap\<close> takes only free addresses,
    \<open>mincore\<close>. \<open>Loader\<close> (\<open>core/src/mm.rs\<close>, \<open>core/src/config\<close>), \<open>Loader_Props\<close>: what is mapped after a load, two ways in
    which loading fails, transfers to user memory stay in user space.
  \<^item> \<open>Timers\<close> (\<open>core/src/time.rs\<close>, \<open>core/src/resources.rs\<close>, the calls on time and resources), \<open>Timers_Props\<close>: the alarm task
    under every interleaving with the threads, resource limits; the heap of alarms is the locale \<open>min_heap\<close>.
  \<^item> \<open>Task\<close> (\<open>core/src/task.rs\<close>), \<open>Exit\<close> (\<open>api/src/task.rs\<close>), \<open>Signal\<close> (\<open>api/src/syscall/signal.rs\<close>, \<open>api/src/signal.rs\<close>,
    \<open>signalfd.rs\<close>), \<open>Proc\<close> (\<open>api/src/syscall/task\<close>, \<open>pidfd.rs\<close>) with \<open>Exit_Props\<close>, \<open>Signal_Props\<close>, \<open>Proc_Props\<close>: exit cleans
    up, the robust list is worked off, signals to groups, \<open>waitpid\<close>, \<open>clone\<close>, \<open>execve\<close>, sessions.
  \<^item> \<open>Socket_Addr\<close> (\<open>api/src/socket.rs\<close>), \<open>Net_Calls\<close> (\<open>api/src/syscall/net\<close>, \<open>api/src/file/net.rs\<close>), \<open>Net_Props\<close>: addresses
    and passed descriptors survive the way through user memory, except the addresses of Unix sockets.
  \<^item> \<open>Vfs\<close> (\<open>core/src/vfs\<close>), \<open>Vfs_Props\<close>: computed files are arrays of bytes, directories list what they find. \<open>Devices\<close>
    (\<open>core/src/vfs/dev.rs\<close>, \<open>api/src/vfs/dev\<close>), \<open>Devices_Props\<close>: memory devices, loop devices, frame buffer, input devices,
    which deliver every event once and in order.
  \<^item> This theory: properties of the components together, \<open>execve\<close> with the loader and \<open>getdents64\<close> on pseudo directories.
    Exit over futexes, shared memory and signals is in \<open>Exit_Props\<close>.

  \<^bold>\<open>Bounds and fuel.\<close> Recursion is structural or has a termination proof, with one exception: \<open>load_user_app\<close> calls itself
  for scripts and has fuel, the depth of nested interpreters. \<open>load_user_app_maps\<close> is about the runs that have a result;
  \<open>script_loop_diverges\<close> shows that for some scripts no fuel is enough. Waits are sequences of attempts, of any length.

  \<^bold>\<open>Not modelled.\<close> The dispatcher of system calls (a table over the registers of the trap frame), the start of the system,
  the files of \<open>procfs\<close>, which format text from the task tables, the nodes of terminals, which connect the line discipline
  with consoles and pseudo terminals, the clock and log devices, the control calls of the frame buffer and of input
  devices, which copy structures of their drivers, and the calls that return constants or only forward to other crates
  (system information, memory descriptors, mounts, barriers). The blocking itself belongs to axtask; the reader task of the terminal, the wakers
  and the hooks of the context switch are not part of a run. Pages and their contents belong to axmm, file contents to
  the page cache of axfs.
\<close>

section \<open>Properties across components\<close>

subsection \<open>\<open>execve\<close> with the loader\<close>


definition exec_family ::
    "((nat \<times> nat) list, pid \<Rightarrow> tid list, (pid \<times> siginfo) list, tid list,
      nat elf_cache_entry list \<times> (nat \<times> nat) list, nat) user_kernel" where
  "exec_family =
     \<lparr>k_proc = (\<lambda>p. if p = 1 then [1] else []), k_sig = [], k_threads = [1 \<mapsto> thread_new 1],
      k_data = (\<lambda>p. if p = 1 then Some (proc_data_new 0 (0, 0) [] [] [] 0 0 None) else None),
      k_task_table = [(1, 1)], k_process_table = [(1, 1)], k_group_table = [], k_session_table = [],
      k_interrupted = [], k_woken = [], k_mem = ([], []), k_futex = futexes_new, k_shm = shm_manager_new\<rparr>"

definition app_exec_ops :: "(nat elf_cache_entry list \<times> (nat \<times> nat) list, addr) exec_ops" where
  "app_exec_ops =
     \<lparr>xo_load_user_app = (\<lambda>p av ev m. case load_user_app 1 app_env list_lru range_aspace (Some p) av ev m of
        Some r \<Rightarrow> r | None \<Rightarrow> (m, Panicked)),
      xo_resolve = (\<lambda>p. Ok (p, Ok p)), xo_set_ip_sp = (\<lambda>ip sp u. ip)\<rparr>"


subsection \<open>\<open>getdents64\<close> on pseudo directories\<close>

text \<open>
  C11: A program that reads a directory of a pseudo file system with \<open>getdents64\<close> until the call returns 0 sees the entry of
  the directory itself, that of its parent, and then the children in the order of the directory, each once.
\<close>

theorem pseudo_directory_listed:
  assumes "\<forall>w. dir_from_fd (fc_files ops) fd w = Ok d"
    and "\<forall>off acc k. lo_read_dir ops (fc_dir_loc ops d) off acc k (w_nodes w) = simple_read_dir dir True meta off acc k (w_nodes w)"
    and "\<forall>name \<in> set ([''.'', ''..''] @ sd_child_names dir (w_nodes w)). \<not> isl (meta name (w_nodes w))"
    and "\<forall>bs m. length bs = len \<longrightarrow> (\<exists>m'. ul_write ops buf bs m = (m', Ok ()) \<and> rd m' = bs)"
    and "length pad = 5"
    and "list_all dirent_ok (dirents_of (lo_type_code ops) 0 (simple_listing dir meta (w_nodes w)))"
    and "\<forall>e \<in> set (simple_listing dir meta (w_nodes w)). entry_size (name_bytes (fst e)) \<le> len"
    and "w_dir_offset w d = 0"
  shows "\<exists>w'. read_all (3 + length (sd_child_names dir (w_nodes w))) (sys_getdents64 ops pad fd buf len) rd w =
      Some (w', dirents_of (lo_type_code ops) 0 (simple_listing dir meta (w_nodes w)))"
proof -
  let ?es = "simple_listing dir meta (w_nodes w)"
  have "reads_dir ops fd d buf len rd ?es (w_nodes w)"
    unfolding reads_dir_def using assms(1,2,4) simple_read_dir_lists [where dir = dir and meta = meta, OF assms(3)] by (simp add: read_dir_lists_def)
  moreover have "length ?es = 2 + length (sd_child_names dir (w_nodes w))" by (simp add: simple_listing_def)
  ultimately show ?thesis
    using read_all_from [of ops fd d buf len rd ?es w pad "3 + length (sd_child_names dir (w_nodes w))"] assms(5-8) by auto
qed

definition two_names :: "memory_fs simple_dir_ops" where
  "two_names = chained_dir (dir_mapping [(''null'', Mux_file 1)]) (dir_mapping [(''pts'', Mux_dir 2)])"

definition two_meta :: "string \<Rightarrow> memory_fs \<Rightarrow> metadata outcome" where
  "two_meta name s =
     Ok (snd (simple_node_new (length name) (if name = ''null'' then CharacterDevice else Directory) 493
       \<lparr>sv_fs_type = 0, sv_inodes = []\<rparr>))"

definition two_ops :: "(unit, memory_fs, u8 list) fs_ops" where
  "two_ops = tmp_fs_ops\<lparr>lo_read_dir := (\<lambda>l off acc k n. simple_read_dir two_names True two_meta off acc k n)\<rparr>"

theorem pseudo_directory_listed_witness:
  "\<exists>w'. read_all 5 (sys_getdents64 two_ops [0, 0, 0, 0, 0] 3 0x5000 32) id tmp_world =
      Some (w', [(2, 1, 4, [46]), (3, 2, 4, [46, 46]), (5, 3, 2, [110, 117, 108, 108]), (4, 4, 4, [112, 116, 115])])"
proof -
  have names: "sd_child_names two_names s = [''null'', ''pts'']" for s
    by (simp add: two_names_def chained_dir_def dir_mapping_def bt_keys_def)
  have listing: "simple_listing two_names two_meta s =
      [(''.'', 2, Directory), (''..'', 3, Directory), (''null'', 5, CharacterDevice), (''pts'', 4, Directory)]" for s
    by (simp add: simple_listing_def names two_meta_def simple_node_new_def alloc_inode_def)
  have d: "dirents_of (lo_type_code two_ops) 0 (simple_listing two_names two_meta s) =
      [(2, 1, 4, [46]), (3, 2, 4, [46, 46]), (5, 3, 2, [110, 117, 108, 108]), (4, 4, 4, [112, 116, 115])]" for s
    by (simp add: listing two_ops_def tmp_fs_ops_def name_bytes_def)
  have "\<exists>w'. read_all (3 + length (sd_child_names two_names (w_nodes tmp_world))) (sys_getdents64 two_ops [0, 0, 0, 0, 0] 3 0x5000 32) id
      tmp_world = Some (w', dirents_of (lo_type_code two_ops) 0 (simple_listing two_names two_meta (w_nodes tmp_world)))"
    by (rule pseudo_directory_listed [where d = 7])
      (simp_all add: d listing names two_ops_def two_meta_def dirent_ok_def,
       simp_all add: tmp_fs_ops_def tmp_files_def tmp_world_def dir_from_fd_def entry_size_def next_multiple_of_def name_bytes_def
         NAME_OFFSET_def DIRENT_ALIGN_def)
  then show ?thesis by (simp add: names d)
qed

end
